(* ===== verification/Prelude.thy ===== *)
theory Prelude
  imports Main "HOL-Library.Word" "HOL-Library.Product_Lexorder"
begin

section \<open>Shared types, tables and automation\<close>

text \<open>
  What every component of the development uses: the types of identifiers and instants, the
  Go error values of package \<open>chat\<close>, and the operations on SQL tables. A table is a
  list of rows in insertion order; a \<open>SELECT\<close> is a \<open>filter\<close>, an \<open>UPDATE\<close> a
  \<open>map\<close>, a \<open>DELETE\<close> a \<open>filter\<close> of the rows kept, an \<open>INSERT\<close> appends one
  row after the uniqueness and foreign key checks of the schema (\<open>migrations/*.up.sql\<close>).
\<close>

text \<open>
  \<open>uuid.UUID\<close> is 16 bytes. Its canonical text orders like the bytes read as one unsigned
  number, which is also PostgreSQL's order on \<open>uuid\<close>, so both orders of the code are the
  order of \<open>128 word\<close>; \<open>uuid.Nil\<close> is \<open>0\<close>. Instants are nanoseconds since Go's
  zero time, durations are nanoseconds.
\<close>

type_synonym uuid = "128 word"
type_synonym time = int
type_synonym duration = int

abbreviation uuid_Nil :: uuid where
  "uuid_Nil \<equiv> 0"

definition time_Second :: duration where
  "time_Second = 1000000000"

definition time_Minute :: duration where
  "time_Minute = 60 * time_Second"

definition time_Hour :: duration where
  "time_Hour = 60 * time_Minute"

named_theorems durations \<open>the constants of Go's package time\<close>

declare time_Second_def [durations] time_Minute_def [durations] time_Hour_def [durations]

text \<open>
  PostgreSQL's \<open>integer\<close> holds 32-bit signed numbers: an expression outside of it, or a
  parameter the driver cannot encode as one, is an error of the statement.
\<close>

definition int4 :: "int \<Rightarrow> bool" where
  "int4 n \<longleftrightarrow> - 2147483648 \<le> n \<and> n \<le> 2147483647"

subsection \<open>Rows by key\<close>

definition find_by :: "('r \<Rightarrow> 'k) \<Rightarrow> 'r list \<Rightarrow> 'k \<Rightarrow> 'r option" where
  "find_by key t k = List.find (\<lambda>r. key r = k) t"

abbreviation keys :: "('r \<Rightarrow> 'k) \<Rightarrow> 'r list \<Rightarrow> 'k set" where
  "keys key t \<equiv> key ` set t"

text \<open>The rows that satisfy \<open>p\<close> are rewritten by \<open>f\<close>.\<close>

definition update_where :: "('r \<Rightarrow> bool) \<Rightarrow> ('r \<Rightarrow> 'r) \<Rightarrow> 'r list \<Rightarrow> 'r list" where
  "update_where p f t = map (\<lambda>r. if p r then f r else r) t"

definition delete_where :: "('r \<Rightarrow> bool) \<Rightarrow> 'r list \<Rightarrow> 'r list" where
  "delete_where p t = filter (\<lambda>r. \<not> p r) t"

named_theorems tables \<open>facts on tables and their keys\<close>

lemma find_by_Nil [simp]: "find_by key [] k = None"
  by (simp add: find_by_def)

lemma find_by_Cons [simp]:
  "find_by key (r # t) k = (if key r = k then Some r else find_by key t k)"
  by (simp add: find_by_def)

lemma find_by_SomeD: "find_by key t k = Some r \<Longrightarrow> r \<in> set t \<and> key r = k"
  by (induction t) (auto split: if_splits)

lemma find_by_None_iff [tables]: "find_by key t k = None \<longleftrightarrow> k \<notin> keys key t"
  by (induction t) auto

lemma find_by_distinct: "distinct (map key t) \<Longrightarrow> r \<in> set t \<Longrightarrow> find_by key t (key r) = Some r"
  by (induction t) (auto simp: image_iff)

lemma find_by_append [tables]:
  "find_by key (t @ u) k = (case find_by key t k of None \<Rightarrow> find_by key u k | Some r \<Rightarrow> Some r)"
  by (induction t) auto

lemma distinct_key_eq:
  "distinct (map key t) \<Longrightarrow> r \<in> set t \<Longrightarrow> r' \<in> set t \<Longrightarrow> key r = key r' \<Longrightarrow> r = r'"
  by (auto simp: distinct_map inj_on_def)

lemma set_update_where [tables]:
  "set (update_where p f t) = (\<lambda>r. if p r then f r else r) ` set t"
  by (simp add: update_where_def)

lemma map_update_where [tables]:
  "(\<And>r. key (f r) = key r) \<Longrightarrow> map key (update_where p f t) = map key t"
  by (induction t) (auto simp: update_where_def)

lemma keys_update_where [tables]:
  "(\<And>r. key (f r) = key r) \<Longrightarrow> keys key (update_where p f t) = keys key t"
  by (metis map_update_where set_map)

lemma set_delete_where [tables]: "set (delete_where p t) = {r \<in> set t. \<not> p r}"
  by (auto simp: delete_where_def)

lemma keys_delete_where_kept:
  "k \<in> keys key t \<Longrightarrow> (\<And>r. r \<in> set t \<Longrightarrow> key r = k \<Longrightarrow> \<not> p r) \<Longrightarrow> k \<in> keys key (delete_where p t)"
  by (auto simp: set_delete_where)

lemma keys_delete_where_subset: "keys key (delete_where p t) \<subseteq> keys key t"
  by (auto simp: set_delete_where)

lemma distinct_map_delete_where [tables, intro]:
  "distinct (map key t) \<Longrightarrow> distinct (map key (delete_where p t))"
  by (simp add: delete_where_def distinct_map_filter)

lemma distinct_delete_where [tables, intro]: "distinct t \<Longrightarrow> distinct (delete_where p t)"
  by (simp add: delete_where_def)

lemma delete_where_Nil [simp]: "delete_where p [] = []"
  by (simp add: delete_where_def)

lemma update_where_Nil [simp]: "update_where p f [] = []"
  by (simp add: update_where_def)

lemma delete_where_id: "(\<And>r. r \<in> set t \<Longrightarrow> \<not> p r) \<Longrightarrow> delete_where p t = t"
  by (induction t) (auto simp: delete_where_def)

lemma filter_update_where_other:
  "(\<And>r. r \<in> set t \<Longrightarrow> p r \<Longrightarrow> \<not> q r \<and> \<not> q (f r)) \<Longrightarrow> filter q (update_where p f t) = filter q t"
  by (induction t) (auto simp: update_where_def)

lemma filter_delete_where_other:
  "(\<And>r. r \<in> set t \<Longrightarrow> q r \<Longrightarrow> \<not> p r) \<Longrightarrow> filter q (delete_where p t) = filter q t"
  by (induction t) (auto simp: delete_where_def)

subsection \<open>Maxima and unions of bits over a table\<close>

text \<open>\<open>COALESCE(max(x), d)\<close> and \<open>COALESCE(bit_or(x), 0)\<close>.\<close>

definition max_or :: "int \<Rightarrow> int list \<Rightarrow> int" where
  "max_or d xs = (if xs = [] then d else Max (set xs))"

lemma max_or_ge: "x \<in> set xs \<Longrightarrow> x \<le> max_or d xs"
  by (auto simp: max_or_def)

lemma max_or_in: "xs \<noteq> [] \<Longrightarrow> max_or d xs \<in> set xs"
  using Max_in [of "set xs"] by (simp add: max_or_def)

lemma max_or_Nil [simp]: "max_or d [] = d"
  by (simp add: max_or_def)

lemma max_or_cong: "set xs = set ys \<Longrightarrow> max_or d xs = max_or d ys"
  by (simp add: max_or_def flip: set_empty)

lemma max_or_le_iff: "xs \<noteq> [] \<Longrightarrow> max_or d xs \<le> b \<longleftrightarrow> (\<forall>x\<in>set xs. x \<le> b)"
  by (simp add: max_or_def)

lemma max_or_less_iff: "xs \<noteq> [] \<Longrightarrow> max_or d xs < b \<longleftrightarrow> (\<forall>x\<in>set xs. x < b)"
  by (simp add: max_or_def)

unbundle bit_operations_syntax

definition bit_or :: "'a::len word list \<Rightarrow> 'a word" where
  "bit_or ws = foldr (OR) ws 0"

lemma bit_or_Nil [simp]: "bit_or [] = 0"
  by (simp add: bit_or_def)

lemma bit_or_Cons [simp]: "bit_or (w # ws) = w OR bit_or ws"
  by (simp add: bit_or_def)

lemma bit_bit_or: "bit (bit_or ws) n \<longleftrightarrow> (\<exists>w\<in>set ws. bit w n)"
  by (induction ws) (auto simp: bit_or_iff)

subsection \<open>Early returns\<close>

text \<open>
  \<open>if err != nil { return err }\<close> is a case split whose \<open>Inl\<close> branch returns; these rules
  invert a chain of them, once for a call that succeeded and once for one that failed.
\<close>

named_theorems returns \<open>inversion of chains of early returns\<close>

lemma return_Inr [returns]:
  "(case x of Inl e \<Rightarrow> Inl e | Inr a \<Rightarrow> k a) = Inr y \<longleftrightarrow> (\<exists>a. x = Inr a \<and> k a = Inr y)"
  "(case x of Inl e \<Rightarrow> (Inl e, s) | Inr a \<Rightarrow> f a) = (Inr y, s') \<longleftrightarrow> (\<exists>a. x = Inr a \<and> f a = (Inr y, s'))"
  "(case o1 of None \<Rightarrow> Inl e' | Some a \<Rightarrow> k a) = Inr y \<longleftrightarrow> (\<exists>a. o1 = Some a \<and> k a = Inr y)"
  "(case o1 of None \<Rightarrow> (Inl e', s) | Some a \<Rightarrow> f a) = (Inr y, s') \<longleftrightarrow> (\<exists>a. o1 = Some a \<and> f a = (Inr y, s'))"
  "(if c then Inl e' else z) = Inr y \<longleftrightarrow> \<not> c \<and> z = Inr y"
  "(if c then (Inl e', s) else w) = (Inr y, s') \<longleftrightarrow> \<not> c \<and> w = (Inr y, s')"
  by (auto split: sum.splits option.splits)

lemma return_state_unchanged:
  "(\<And>a. x = Inr a \<Longrightarrow> f a = (Inl e, s') \<Longrightarrow> s' = s) \<Longrightarrow>
    (case x of Inl e \<Rightarrow> (Inl e, s) | Inr a \<Rightarrow> f a) = (Inl e, s') \<Longrightarrow> s' = s"
  "(\<And>a. o1 = Some a \<Longrightarrow> f a = (Inl e, s') \<Longrightarrow> s' = s) \<Longrightarrow>
    (case o1 of None \<Rightarrow> (Inl e', s) | Some a \<Rightarrow> f a) = (Inl e, s') \<Longrightarrow> s' = s"
  "(w = (Inl e, s') \<Longrightarrow> s' = s) \<Longrightarrow> (if c then (Inl e', s) else w) = (Inl e, s') \<Longrightarrow> s' = s"
  by (auto split: sum.splits option.splits if_splits)

text \<open>The same inversion without fixing the outcome: either the state is the old one or the chain went on.\<close>

named_theorems runs \<open>inversion of chains that write\<close>

lemma run_cases [runs]:
  "(case x of Inl e \<Rightarrow> (Inl e, s) | Inr a \<Rightarrow> f a) = (r, s') \<longleftrightarrow>
     (\<exists>e. x = Inl e \<and> r = Inl e \<and> s' = s) \<or> (\<exists>a. x = Inr a \<and> f a = (r, s'))"
  "(case o1 of None \<Rightarrow> (Inl e', s) | Some a \<Rightarrow> f a) = (r, s') \<longleftrightarrow>
     (o1 = None \<and> r = Inl e' \<and> s' = s) \<or> (\<exists>a. o1 = Some a \<and> f a = (r, s'))"
  "(if c then (Inl e', s) else w) = (r, s') \<longleftrightarrow> c \<and> r = Inl e' \<and> s' = s \<or> \<not> c \<and> w = (r, s')"
  "(case v of (Inl e, s2) \<Rightarrow> (Inl e, s2) | (Inr b, s2) \<Rightarrow> h b s2) = (r, s') \<longleftrightarrow>
     (\<exists>e. v = (Inl e, s') \<and> r = Inl e) \<or> (\<exists>b s2. v = (Inr b, s2) \<and> h b s2 = (r, s'))"
  by (auto split: sum.splits option.splits prod.splits)

subsection \<open>Maxima above a bound\<close>

text \<open>When two lists of numbers agree from a bound upwards, so do their maxima.\<close>

lemma max_or_above:
  assumes "\<And>p. t \<le> p \<Longrightarrow> p \<in> set xs \<longleftrightarrow> p \<in> set ys" and "0 \<le> t"
    and "\<And>x. x \<in> set xs \<Longrightarrow> 0 \<le> x" and "\<And>y. y \<in> set ys \<Longrightarrow> 0 \<le> y"
  shows "(t \<le> max_or 0 xs \<longrightarrow> max_or 0 ys = max_or 0 xs) \<and> (max_or 0 xs < t \<longrightarrow> max_or 0 ys < t)"
proof (intro conjI impI)
  assume *: "t \<le> max_or 0 xs"
  show "max_or 0 ys = max_or 0 xs"
  proof (cases "xs = []")
    case True
    with * assms(1) have "y \<notin> set ys" if "0 \<le> y" for y
      using that by (metis empty_iff empty_set max_or_Nil order_trans)
    with assms(4) have "ys = []"
      by (cases ys) auto
    with True show ?thesis by simp
  next
    case False
    then have "max_or 0 xs \<in> set ys"
      using * max_or_in [OF False, of 0] assms(1) by auto
    moreover have "y \<le> max_or 0 xs" if "y \<in> set ys" for y
      using that assms(1) [of y] max_or_ge [of y xs 0] * by (cases "t \<le> y") auto
    ultimately show ?thesis
      by (metis antisym max_or_ge max_or_in empty_iff empty_set)
  qed
next
  assume *: "max_or 0 xs < t"
  show "max_or 0 ys < t"
  proof (cases "ys = []")
    case True
    have "0 \<le> max_or 0 xs"
      using assms(3) max_or_in [of xs 0] by (cases "xs = []") auto
    with * True show ?thesis by simp
  next
    case False
    then show ?thesis
      using max_or_in [OF False, of 0] assms(1) [of "max_or 0 ys"] max_or_ge [of "max_or 0 ys" xs 0] *
      by (cases "t \<le> max_or 0 ys") auto
  qed
qed

end
