(* ===== verification/Go_Text.thy ===== *)
theory Go_Text
  imports Prelude "HOL-Library.Char_ord"
begin

section \<open>Go strings\<close>

text \<open>
  A Go string is a sequence of bytes. The functions of \<open>unicode/utf8\<close>, \<open>unicode\<close> and
  \<open>strings\<close> that the source uses are given here over \<open>string\<close>: decoding into runes
  (an invalid byte is one rune \<open>U+FFFD\<close> of width 1), counting runes, trimming white space.
  The lemmas show that trimming is idempotent and never lengthens a string.
\<close>

subsection \<open>Decoding UTF-8\<close>

definition cont :: "nat \<Rightarrow> nat \<Rightarrow> nat \<Rightarrow> bool" where
  "cont lo hi b \<longleftrightarrow> lo \<le> b \<and> b \<le> hi"

definition rune_error :: nat where
  "rune_error = 65533"

text \<open>
  The width of the sequence a lead byte starts and the range of its second byte, as Go's tables
  \<open>first\<close> and \<open>acceptRanges\<close> have them.
\<close>

definition lead_byte :: "nat \<Rightarrow> (nat \<times> nat \<times> nat) option" where
  "lead_byte b =
     (if cont 194 223 b then Some (2, 128, 191)
      else if b = 224 then Some (3, 160, 191)
      else if cont 225 236 b \<or> cont 238 239 b then Some (3, 128, 191)
      else if b = 237 then Some (3, 128, 159)
      else if b = 240 then Some (4, 144, 191)
      else if cont 241 243 b then Some (4, 128, 191)
      else if b = 244 then Some (4, 128, 143)
      else None)"

text \<open>\<open>utf8.DecodeRune\<close> on a non-empty sequence of bytes: the rune and its width.\<close>

fun decode_rune :: "nat list \<Rightarrow> nat \<times> nat" where
  "decode_rune [] = (rune_error, 1)"
| "decode_rune (b0 # bs) =
     (if b0 < 128 then (b0, 1)
      else case lead_byte b0 of
        None \<Rightarrow> (rune_error, 1)
      | Some (n, lo, hi) \<Rightarrow>
          let ts = take (n - 1) bs in
          if length ts = n - 1 \<and> cont lo hi (hd ts) \<and> list_all (cont 128 191) (tl ts)
          then (foldl (\<lambda>a b. a * 64 + (b - 128)) (b0 - (256 - 2 ^ (8 - n))) ts, n)
          else (rune_error, 1))"

lemma lead_byte_width: "lead_byte b = Some (n, lo, hi) \<Longrightarrow> 2 \<le> n"
  by (auto simp: lead_byte_def split: if_splits)

lemma decode_rune_width_pos: "0 < snd (decode_rune bs)"
  by (cases bs) (auto simp: Let_def dest: lead_byte_width split: option.split)

lemma decode_rune_width_le: "bs \<noteq> [] \<Longrightarrow> snd (decode_rune bs) \<le> length bs"
  by (cases bs) (auto simp: Let_def dest: lead_byte_width split: option.split)

lemma decode_rune_take:
  assumes "snd (decode_rune bs) \<le> m"
  shows "decode_rune (take m bs) = decode_rune bs"
proof (cases bs)
  case (Cons b0 bs')
  with assms decode_rune_width_pos [of bs] obtain m' where m: "m = Suc m'"
    by (cases m) auto
  show ?thesis
  proof (cases "b0 < 128 \<or> lead_byte b0 = None")
    case False
    then obtain n lo hi where l: "\<not> b0 < 128" "lead_byte b0 = Some (n, lo, hi)"
      by auto
    have *: "length (take (n - 1) (take m' bs')) = n - 1 \<Longrightarrow> take (n - 1) (take m' bs') = take (n - 1) bs'"
      by (auto simp: min_def split: if_splits)
    have "n \<le> m \<Longrightarrow> take (n - 1) (take m' bs') = take (n - 1) bs'"
      by (auto simp: m min_def)
    with * assms show ?thesis
      unfolding Cons m by (auto simp: l Let_def split: if_splits)
  qed (auto simp: Cons m)
qed simp

function runes :: "string \<Rightarrow> (nat \<times> string) list" where
  "runes s =
     (if s = [] then []
      else let (r, k) = decode_rune (map of_char s) in (r, take k s) # runes (drop k s))"
  by pat_completeness auto
termination
proof (relation "measure length", goal_cases)
  case 1
  show ?case by simp
next
  case (2 s x r k)
  then have "0 < k"
    by (metis decode_rune_width_pos snd_conv)
  with 2 show ?case by simp
qed

declare runes.simps [simp del]

lemma runes_Nil [simp]: "runes [] = []"
  by (subst runes.simps) simp

text \<open>ASCII text is read one byte at a time; with this rule \<open>simp\<close> evaluates literals.\<close>

lemma runes_ascii [simp]: "(of_char c :: nat) < 128 \<Longrightarrow> runes (c # s) = (of_char c, [c]) # runes s"
  by (subst runes.simps) simp

definition utf8_RuneCountInString :: "string \<Rightarrow> nat" where
  "utf8_RuneCountInString s = length (runes s)"

definition utf8_ValidString :: "string \<Rightarrow> bool" where
  "utf8_ValidString s \<longleftrightarrow> list_all (\<lambda>(r, bs). r \<noteq> rune_error \<or> length bs = 3) (runes s)"

abbreviation text_of :: "(nat \<times> string) list \<Rightarrow> string" where
  "text_of cs \<equiv> concat (map snd cs)"

lemma runes_step:
  assumes "s \<noteq> []"
  obtains r k where "decode_rune (map of_char s) = (r, k)" and "0 < k" and "k \<le> length s"
    and "runes s = (r, take k s) # runes (drop k s)"
proof -
  obtain r k where d: "decode_rune (map of_char s) = (r, k)"
    by fastforce
  moreover from d have "0 < k"
    using decode_rune_width_pos [of "map of_char s"] by simp
  moreover from d assms have "k \<le> length s"
    using decode_rune_width_le [of "map of_char s"] by simp
  moreover from d assms have "runes s = (r, take k s) # runes (drop k s)"
    by (subst runes.simps) simp
  ultimately show thesis by (rule that)
qed

lemma text_of_runes [simp]: "text_of (runes s) = s"
proof (induction s rule: length_induct)
  case (1 s)
  show ?case
  proof (cases "s = []")
    case False
    then obtain r k where "0 < k" and "k \<le> length s"
      and *: "runes s = (r, take k s) # runes (drop k s)"
      by (rule runes_step)
    then have "text_of (runes (drop k s)) = drop k s"
      using 1 by auto
    with * show ?thesis by simp
  qed simp
qed

lemma runes_drop: "runes (text_of (drop n (runes s))) = drop n (runes s)"
proof (induction n arbitrary: s)
  case (Suc n)
  show ?case
  proof (cases "s = []")
    case False
    then obtain r k where "runes s = (r, take k s) # runes (drop k s)"
      by (rule runes_step)
    then show ?thesis using Suc by simp
  qed simp
qed simp

lemma runes_take: "runes (text_of (take n (runes s))) = take n (runes s)"
proof (induction n arbitrary: s)
  case (Suc n)
  show ?case
  proof (cases "s = []")
    case False
    then obtain r k where d: "decode_rune (map of_char s) = (r, k)" and k: "0 < k" "k \<le> length s"
      and *: "runes s = (r, take k s) # runes (drop k s)"
      by (rule runes_step)
    let ?u = "text_of (take n (runes (drop k s)))"
    let ?t = "take k s @ ?u"
    have "\<exists>v. s = ?t @ v"
      by (metis append.assoc append_take_drop_id concat_append map_append text_of_runes)
    then have "?t = take (length ?t) s"
      by (metis append_eq_conv_conj)
    moreover have "k \<le> length ?t"
      using k by simp
    ultimately have "decode_rune (map of_char ?t) = (r, k)"
      using decode_rune_take [of "map of_char s" "length ?t"] d by (metis snd_conv take_map)
    moreover have "?t \<noteq> []"
      using k by auto
    ultimately have "runes ?t = (r, take k ?t) # runes (drop k ?t)"
      by (subst runes.simps) simp
    also have "\<dots> = (r, take k s) # runes ?u"
      using k by simp
    also have "\<dots> = take (Suc n) (runes s)"
      using Suc [of "drop k s"] * by simp
    finally show ?thesis
      using * by simp
  qed simp
qed simp

subsection \<open>White space and control characters\<close>

definition unicode_IsSpace :: "nat \<Rightarrow> bool" where
  "unicode_IsSpace r \<longleftrightarrow>
     9 \<le> r \<and> r \<le> 13 \<or> r = 32 \<or> r = 133 \<or> r = 160 \<or> r = 5760 \<or> 8192 \<le> r \<and> r \<le> 8202
     \<or> r = 8232 \<or> r = 8233 \<or> r = 8239 \<or> r = 8287 \<or> r = 12288"

definition unicode_IsControl :: "nat \<Rightarrow> bool" where
  "unicode_IsControl r \<longleftrightarrow> r \<le> 31 \<or> 127 \<le> r \<and> r \<le> 159"

definition trim_runes :: "(nat \<times> string) list \<Rightarrow> (nat \<times> string) list" where
  "trim_runes cs =
     rev (dropWhile (unicode_IsSpace \<circ> fst) (rev (dropWhile (unicode_IsSpace \<circ> fst) cs)))"

definition strings_TrimSpace :: "string \<Rightarrow> string" where
  "strings_TrimSpace s = text_of (trim_runes (runes s))"

lemma rev_dropWhile_rev_take: "\<exists>n. rev (dropWhile p (rev xs)) = take n xs"
  by (metis dropWhile_eq_drop rev_rev_ident take_rev rev_drop)

lemma trim_runes_slice: "\<exists>m n. trim_runes cs = take m (drop n cs)"
  unfolding trim_runes_def by (metis dropWhile_eq_drop rev_dropWhile_rev_take)

lemma runes_TrimSpace: "runes (strings_TrimSpace s) = trim_runes (runes s)"
proof -
  obtain m n where mn: "trim_runes (runes s) = take m (drop n (runes s))"
    using trim_runes_slice by blast
  then show ?thesis
    unfolding strings_TrimSpace_def by (metis runes_drop runes_take)
qed

lemma trim_runes_idem: "trim_runes (trim_runes cs) = trim_runes cs"
proof -
  let ?sp = "unicode_IsSpace \<circ> fst"
  let ?d = "dropWhile ?sp cs"
  have idem: "dropWhile ?sp (trim_runes cs) = trim_runes cs"
  proof (cases "?d")
    case (Cons x xs)
    then have "\<not> ?sp x"
      by (metis hd_dropWhile list.distinct(1) list.sel(1))
    then have "trim_runes cs = x # rev (dropWhile ?sp (rev xs))"
      unfolding trim_runes_def Cons by (simp add: dropWhile_append)
    with \<open>\<not> ?sp x\<close> show ?thesis by simp
  next
    case Nil
    show ?thesis unfolding trim_runes_def Nil by simp
  qed
  have "trim_runes (trim_runes cs) = rev (dropWhile ?sp (rev (trim_runes cs)))"
    unfolding trim_runes_def [of "trim_runes cs"] idem ..
  also have "\<dots> = trim_runes cs"
    unfolding trim_runes_def by simp
  finally show ?thesis .
qed

lemma TrimSpace_idem [simp]: "strings_TrimSpace (strings_TrimSpace s) = strings_TrimSpace s"
  by (simp add: strings_TrimSpace_def [of "strings_TrimSpace s"] runes_TrimSpace trim_runes_idem)
    (simp add: strings_TrimSpace_def)

lemma TrimSpace_RuneCount_le: "utf8_RuneCountInString (strings_TrimSpace s) \<le> utf8_RuneCountInString s"
proof -
  obtain m n where "trim_runes (runes s) = take m (drop n (runes s))"
    using trim_runes_slice by blast
  then show ?thesis
    by (simp add: utf8_RuneCountInString_def runes_TrimSpace)
qed

lemma RuneCount_0_iff: "utf8_RuneCountInString s = 0 \<longleftrightarrow> s = []"
  using text_of_runes [of s] by (auto simp: utf8_RuneCountInString_def simp del: text_of_runes)

subsection \<open>Character sets of the patterns\<close>

definition between :: "char \<Rightarrow> char \<Rightarrow> char \<Rightarrow> bool" where
  "between lo hi c \<longleftrightarrow> of_char lo \<le> (of_char c :: nat) \<and> (of_char c :: nat) \<le> of_char hi"

definition is_digit :: "char \<Rightarrow> bool" where
  "is_digit c \<longleftrightarrow> between CHR ''0'' CHR ''9'' c"


subsection \<open>What a text column takes\<close>

text \<open>PostgreSQL refuses text that holds a zero byte or is not UTF-8.\<close>

definition pg_text :: "string \<Rightarrow> bool" where
  "pg_text s \<longleftrightarrow> CHR 0x00 \<notin> set s \<and> utf8_ValidString s"

definition pg_text_opt :: "string option \<Rightarrow> bool" where
  "pg_text_opt v \<longleftrightarrow> (case v of None \<Rightarrow> True | Some s \<Rightarrow> pg_text s)"

definition char_length_between :: "nat \<Rightarrow> nat \<Rightarrow> string \<Rightarrow> bool" where
  "char_length_between lo hi s \<longleftrightarrow> lo \<le> utf8_RuneCountInString s \<and> utf8_RuneCountInString s \<le> hi"

definition plain_char :: "char \<Rightarrow> bool" where
  "plain_char c \<longleftrightarrow> 0 < (of_char c :: nat) \<and> (of_char c :: nat) < 128"

lemma pg_text_plain: "list_all plain_char s \<Longrightarrow> pg_text s"
  by (induction s) (auto simp: pg_text_def utf8_ValidString_def plain_char_def rune_error_def)

subsection \<open>Runes to text\<close>

text \<open>\<open>string(runes)\<close>: an invalid byte was read as \<open>U+FFFD\<close> and is written as its three bytes.\<close>

definition rune_string :: "nat \<times> string \<Rightarrow> string" where
  "rune_string r = (if fst r = rune_error then [CHR 0xEF, CHR 0xBF, CHR 0xBD] else snd r)"

definition string_of :: "(nat \<times> string) list \<Rightarrow> string" where
  "string_of rs = concat (map rune_string rs)"

end
