(* ===== verification/Access_Control.thy ===== *)
theory Access_Control
  imports Prelude
begin

section \<open>Permissions and access\<close>

text \<open>
  \<open>internal/chat/permissions.go\<close>: the permission bits of Aster Protocol as \<open>int64\<close>
  values and the authority \<open>Access\<close> of one member in one guild, with its two tests
  \<open>Has\<close> and \<open>Outranks\<close>; and the conversions between the \<open>int64\<close> of the program
  and the \<open>integer\<close> column. The lemmas read the tests as statements on bits and show that
  a validated permission set survives the 32-bit column unchanged.
\<close>

subsection \<open>Permission bits\<close>

type_synonym permissions = "64 word"

definition PermViewChannel :: permissions where "PermViewChannel = push_bit 0 1"
definition PermSendMessages :: permissions where "PermSendMessages = push_bit 1 1"
definition PermManageMessages :: permissions where "PermManageMessages = push_bit 2 1"
definition PermManageChannels :: permissions where "PermManageChannels = push_bit 3 1"
definition PermManageGuild :: permissions where "PermManageGuild = push_bit 4 1"
definition PermManageRoles :: permissions where "PermManageRoles = push_bit 5 1"
definition PermManageMembers :: permissions where "PermManageMembers = push_bit 6 1"
definition PermCreateInvite :: permissions where "PermCreateInvite = push_bit 7 1"
definition PermConnect :: permissions where "PermConnect = push_bit 8 1"
definition PermSpeak :: permissions where "PermSpeak = push_bit 9 1"
definition PermStream :: permissions where "PermStream = push_bit 10 1"

definition AllPermissions :: permissions where
  "AllPermissions = push_bit 11 1 - 1"

definition DefaultRolePermissions :: permissions where
  "DefaultRolePermissions = PermViewChannel OR PermSendMessages OR PermConnect OR PermSpeak OR PermStream"

lemmas perm_defs =
  PermViewChannel_def PermSendMessages_def PermManageMessages_def PermManageChannels_def
  PermManageGuild_def PermManageRoles_def PermManageMembers_def PermCreateInvite_def
  PermConnect_def PermSpeak_def PermStream_def

lemma AllPermissions_mask: "AllPermissions = mask 11"
  by (simp add: AllPermissions_def mask_eq_decr_exp push_bit_eq_mult)

lemma bit_AllPermissions: "bit AllPermissions n \<longleftrightarrow> n < 11"
  by (auto simp: AllPermissions_mask bit_mask_iff)

subsection \<open>Access\<close>

record Access =
  a_Owner :: bool
  a_Permissions :: permissions
  a_TopPosition :: int

definition math_MaxInt32 :: int where
  "math_MaxInt32 = 2147483647"

definition ownerAccess :: Access where
  "ownerAccess = \<lparr>a_Owner = True, a_Permissions = AllPermissions, a_TopPosition = math_MaxInt32\<rparr>"

definition Has :: "Access \<Rightarrow> permissions \<Rightarrow> bool" where
  "Has a permission \<longleftrightarrow> a_Owner a \<or> a_Permissions a AND permission = permission"

definition Outranks :: "Access \<Rightarrow> int \<Rightarrow> bool" where
  "Outranks a position \<longleftrightarrow> a_Owner a \<or> a_TopPosition a > position"

lemma and_eq_right_iff_bits:
  fixes a p :: "'a::len word"
  shows "a AND p = p \<longleftrightarrow> (\<forall>n. bit p n \<longrightarrow> bit a n)"
  by (auto simp: bit_eq_iff bit_and_iff dest: bit_imp_le_length)

lemma Has_iff_bits: "Has a p \<longleftrightarrow> a_Owner a \<or> (\<forall>n. bit p n \<longrightarrow> bit (a_Permissions a) n)"
  by (simp add: Has_def and_eq_right_iff_bits)

lemma Has_or: "Has a (p OR q) \<longleftrightarrow> Has a p \<and> Has a q"
  by (auto simp: Has_iff_bits bit_or_iff)

lemma Has_zero [simp]: "Has a 0"
  by (simp add: Has_def)

lemma Has_owner [simp]: "a_Owner a \<Longrightarrow> Has a p"
  by (simp add: Has_def)

lemma Has_mono: "Has a p \<Longrightarrow> (\<And>n. bit q n \<Longrightarrow> bit p n) \<Longrightarrow> Has a q"
  by (auto simp: Has_iff_bits)

lemma Outranks_owner [simp]: "a_Owner a \<Longrightarrow> Outranks a n"
  by (simp add: Outranks_def)

subsection \<open>The 32-bit column\<close>

text \<open>Go's \<open>int32(x)\<close> keeps the low 32 bits, \<open>int64(y)\<close> extends the sign.\<close>

definition to_int32 :: "64 word \<Rightarrow> 32 word" where
  "to_int32 = ucast"

definition from_int32 :: "32 word \<Rightarrow> 64 word" where
  "from_int32 = scast"

definition known_permissions :: "permissions \<Rightarrow> bool" where
  "known_permissions p \<longleftrightarrow> (\<forall>n. bit p n \<longrightarrow> n < 11)"

lemma known_permissions_and_not: "p AND NOT AllPermissions = 0 \<longleftrightarrow> known_permissions p"
  using bit_imp_le_length [of p]
  by (auto simp: known_permissions_def bit_eq_iff bit_and_iff bit_not_iff bit_AllPermissions)

lemma known_permissions_less:
  assumes "known_permissions p"
  shows "p < 2048"
proof -
  have "p = take_bit 11 p"
    using assms by (auto simp: known_permissions_def bit_eq_iff bit_take_bit_iff)
  then have "p = p AND AllPermissions"
    by (simp add: AllPermissions_mask take_bit_eq_mask)
  then have "p \<le> AllPermissions"
    by (metis word_and_le1)
  also have "AllPermissions < 2048"
    by (simp add: AllPermissions_def push_bit_eq_mult)
  finally show ?thesis .
qed

lemma bit_to_int32: "bit (to_int32 p) n \<longleftrightarrow> n < 32 \<and> bit p n"
  by (auto simp: to_int32_def bit_word_ucast_iff)

lemma bit_from_int32: "bit (from_int32 p) n \<longleftrightarrow> n < 64 \<and> bit p (min n 31)"
  by (auto simp: from_int32_def bit_word_scast_iff min_def dest: bit_imp_le_length)

lemma int32_roundtrip: "known_permissions p \<Longrightarrow> from_int32 (to_int32 p) = p"
  by (rule bit_eqI) (auto simp: bit_to_int32 bit_from_int32 known_permissions_def min_def split: if_splits)

lemma from_int32_or: "from_int32 (x OR y) = from_int32 x OR from_int32 y"
  by (rule bit_eqI) (auto simp: bit_from_int32 bit_or_iff)

lemma bit_from_int32_bit_or:
  "bit (from_int32 (bit_or ws)) n \<longleftrightarrow> (\<exists>w\<in>set ws. bit (from_int32 w) n)"
  by (auto simp: bit_from_int32 bit_bit_or)

end
