(* ===== verification/Chat_Model.thy ===== *)
theory Chat_Model
  imports Go_Text Access_Control
begin

section \<open>The data model of package chat\<close>

text \<open>
  \<open>internal/chat/model.go\<close> and the chat tables of \<open>migrations/\<close>: the error values, the
  structs the service passes around, the rows of the tables, and the store \<open>chat_db\<close> that
  \<open>PostgresStore\<close> reads and writes. Deleting rows cascades as the foreign keys say
  (\<open>drop_guilds\<close>, \<open>drop_channels\<close>, \<open>drop_messages\<close>, \<dots>), and a deleted attachment
  queues its object for removal as the trigger does.

  Left out of the rows are columns no statement reads: \<open>updated_at\<close> of \<open>guilds\<close>, the
  account columns of \<open>users\<close> (theory \<open>Auth_Model\<close> has them) and the text of a direct
  message key, which is kept as the pair of identifiers it joins.
\<close>

subsection \<open>Errors\<close>

text \<open>
  \<open>ErrInternal\<close> stands for the wrapped errors of the driver and of the identifier generator,
  which the handlers answer with \<open>500\<close>: constraint violations, numbers outside of a column,
  a generator that fails. A lost connection is not modelled: it ends the statement with the
  same error and leaves the tables as they were.
\<close>

datatype chat_error =
    ErrForbidden
  | ErrNotFound
  | ErrThreadExists
  | ErrStorageUnavailable
  | ErrUploadQuota
  | ErrAttachmentInUse
  | ErrAttachmentMismatch
  | ErrInviteUnavailable
  | ValidationError string string
  | ErrInternal string

type_synonym 'a result = "chat_error + 'a"

text \<open>\<open>uuid.NewV7\<close> is the generator's, so an operation that needs an identifier takes it as an
  argument: \<open>None\<close> is the generator's error.\<close>

definition newUUIDv7 :: "uuid option \<Rightarrow> uuid result" where
  "newUUIDv7 gen = (case gen of None \<Rightarrow> Inl (ErrInternal ''generate UUIDv7'') | Some i \<Rightarrow> Inr i)"

subsection \<open>Structs\<close>

record UserSummary =
  us_ID :: uuid
  us_DisplayName :: string
  us_AvatarURL :: "string option"

record Guild =
  g_ID :: uuid
  g_OwnerID :: uuid
  g_Name :: string
  g_Description :: "string option"
  g_IconURL :: "string option"
  g_CreatedAt :: time

abbreviation ChannelTypeText :: string where "ChannelTypeText \<equiv> ''TEXT''"
abbreviation ChannelTypeVoice :: string where "ChannelTypeVoice \<equiv> ''VOICE''"
abbreviation ChannelTypeCategory :: string where "ChannelTypeCategory \<equiv> ''CATEGORY''"
abbreviation ChannelTypeThread :: string where "ChannelTypeThread \<equiv> ''THREAD''"
abbreviation ChannelTypeDirect :: string where "ChannelTypeDirect \<equiv> ''DIRECT''"

record Channel =
  c_ID :: uuid
  c_GuildID :: "uuid option"
  c_Type :: string
  c_Name :: "string option"
  c_Topic :: "string option"
  c_ParentID :: "uuid option"
  c_Position :: int
  c_Recipients :: "UserSummary list"
  c_CreatedAt :: time

definition IsText :: "Channel \<Rightarrow> bool" where
  "IsText c \<longleftrightarrow> c_Type c = ChannelTypeText \<or> c_Type c = ChannelTypeThread \<or> c_Type c = ChannelTypeDirect"

record Audience =
  au_UserIDs :: "uuid list"
  au_Direct :: bool

abbreviation AttachmentPending :: string where "AttachmentPending \<equiv> ''PENDING''"
abbreviation AttachmentReady :: string where "AttachmentReady \<equiv> ''READY''"

record Attachment =
  at_ID :: uuid
  at_ChannelID :: uuid
  at_UploaderID :: uuid
  at_MessageID :: "uuid option"
  at_Filename :: string
  at_ContentType :: string
  at_Size :: int
  at_ChecksumSHA256 :: string
  at_Status :: string
  at_ObjectKey :: string
  at_CreatedAt :: time

record CreateAttachmentInput =
  cai_Filename :: string
  cai_ContentType :: string
  cai_Size :: int
  cai_ChecksumSHA256 :: string

record MessageReaction =
  rx_Emoji :: string
  rx_Count :: nat
  rx_Me :: bool

record MessageReply =
  rep_ID :: uuid
  rep_ChannelID :: uuid
  rep_Author :: UserSummary
  rep_Content :: string
  rep_CreatedAt :: time
  rep_EditedAt :: "time option"

record Message =
  m_AttachmentIDs :: "uuid list"
  m_Attachments :: "Attachment list"
  m_ID :: uuid
  m_ChannelID :: uuid
  m_Author :: UserSummary
  m_Content :: string
  m_ReplyToMessageID :: "uuid option"
  m_ReplyTo :: "MessageReply option"
  m_Reactions :: "MessageReaction list"
  m_CreatedAt :: time
  m_EditedAt :: "time option"

text \<open>\<open>OptionalString\<close> and \<open>OptionalUUID\<close>: a field of a patch is absent, null or a value.\<close>

record 'a Optional =
  opt_Set :: bool
  opt_Value :: "'a option"

record CreateGuildInput =
  cgi_Name :: string
  cgi_Description :: "string option"

record UpdateGuildInput =
  ugi_Name :: "string option"
  ugi_Description :: "string Optional"

record CreateChannelInput =
  cci_Type :: string
  cci_Name :: string
  cci_Topic :: "string option"
  cci_ParentID :: "uuid option"

record UpdateChannelInput =
  uci_Name :: "string option"
  uci_Topic :: "string Optional"
  uci_Position :: "int option"
  uci_ParentID :: "uuid Optional"

record 'a Page =
  pg_Items :: "'a list"
  pg_HasMore :: bool
  pg_NextCursor :: "string option"

record pageCursor =
  pc_Kind :: string
  pc_Time :: time
  pc_Position :: int
  pc_ID :: uuid

record Presence =
  p_UserID :: uuid
  p_Status :: string
  p_CustomText :: "string option"
  p_UpdatedAt :: time

record Member =
  mb_GuildID :: uuid
  mb_User :: UserSummary
  mb_Nickname :: "string option"
  mb_RoleIDs :: "uuid list"
  mb_JoinedAt :: time
  mb_Presence :: "Presence option"

record Invite =
  iv_ID :: uuid
  iv_Code :: string
  iv_Guild :: Guild
  iv_Inviter :: UserSummary
  iv_Uses :: int
  iv_MaxUses :: "int option"
  iv_ExpiresAt :: "time option"
  iv_CreatedAt :: time

record CreateInviteInput =
  cii_ExpiresIn :: "int option"
  cii_MaxUses :: "int option"

record UpdateMemberInput =
  umi_Nickname :: "string Optional"
  umi_RoleIDs :: "uuid list option"

record Role =
  r_ID :: uuid
  r_GuildID :: uuid
  r_Name :: string
  r_Color :: "string option"
  r_Permissions :: permissions
  r_Position :: int
  r_Managed :: bool
  r_IsDefault :: bool
  r_CreatedAt :: time

record CreateRoleInput =
  cri_Name :: string
  cri_Color :: "string option"
  cri_Permissions :: "permissions option"

record UpdateRoleInput =
  uri_Name :: "string option"
  uri_Color :: "string Optional"
  uri_Permissions :: "permissions option"
  uri_Position :: "int option"

record ReadState =
  rs_ChannelID :: uuid
  rs_LastReadMessageID :: "uuid option"
  rs_UpdatedAt :: time

record SearchInput =
  si_Query :: string
  si_ChannelID :: "uuid option"
  si_AuthorID :: "uuid option"

record SearchResult =
  sr_Message :: Message
  sr_Excerpt :: string

subsection \<open>Tables\<close>

text \<open>\<open>users\<close> and \<open>guilds\<close> hold exactly the structs; the other tables have rows of their own.\<close>

record member_row =
  gm_guild :: uuid
  gm_user :: uuid
  gm_joined :: time
  gm_nickname :: "string option"

record role_row =
  rr_id :: uuid
  rr_guild :: uuid
  rr_name :: string
  rr_color :: "string option"
  rr_permissions :: "32 word"
  rr_position :: int
  rr_managed :: bool
  rr_default :: bool
  rr_created :: time

record invite_row =
  ir_id :: uuid
  ir_guild :: uuid
  ir_inviter :: uuid
  ir_code :: string
  ir_max_uses :: "int option"
  ir_uses :: int
  ir_expires :: "time option"
  ir_revoked :: "time option"
  ir_created :: time

record channel_row =
  cr_id :: uuid
  cr_guild :: "uuid option"
  cr_type :: string
  cr_name :: "string option"
  cr_topic :: "string option"
  cr_parent :: "uuid option"
  cr_position :: int
  cr_starter :: "uuid option"
  cr_dm_key :: "(uuid \<times> uuid) option"
  cr_created :: time
  cr_updated :: time

record message_row =
  mr_id :: uuid
  mr_channel :: uuid
  mr_author :: uuid
  mr_content :: string
  mr_reply_to :: "uuid option"
  mr_created :: time
  mr_edited :: "time option"

record reaction_row =
  re_message :: uuid
  re_user :: uuid
  re_emoji :: string
  re_created :: time

record read_row =
  rd_user :: uuid
  rd_channel :: uuid
  rd_message :: uuid
  rd_updated :: time

text \<open>\<open>clock\<close> is the database's \<open>now()\<close>, read by the default of \<open>queued_at\<close>.\<close>

record chat_db =
  clock :: time
  users :: "UserSummary list"
  guilds :: "Guild list"
  members :: "member_row list"
  roles :: "role_row list"
  member_roles :: "(uuid \<times> uuid \<times> uuid) list"
  invites :: "invite_row list"
  channels :: "channel_row list"
  dm_participants :: "(uuid \<times> uuid) list"
  messages :: "message_row list"
  reactions :: "reaction_row list"
  read_states :: "read_row list"
  attachments :: "Attachment list"
  storage_deletions :: "(string \<times> time) list"

definition empty_db :: chat_db where
  "empty_db = \<lparr>clock = 0, users = [], guilds = [], members = [], roles = [], member_roles = [],
     invites = [], channels = [], dm_participants = [], messages = [], reactions = [],
     read_states = [], attachments = [], storage_deletions = []\<rparr>"

abbreviation member_key :: "member_row \<Rightarrow> uuid \<times> uuid" where
  "member_key m \<equiv> (gm_guild m, gm_user m)"

definition is_member :: "chat_db \<Rightarrow> uuid \<Rightarrow> uuid \<Rightarrow> bool" where
  "is_member db g u \<longleftrightarrow> (g, u) \<in> keys member_key (members db)"

text \<open>The view \<open>channel_participants\<close>: who may read and write a channel.\<close>

definition participates :: "chat_db \<Rightarrow> uuid \<Rightarrow> uuid \<Rightarrow> bool" where
  "participates db cid u \<longleftrightarrow>
     (\<exists>c\<in>set (channels db). cr_id c = cid \<and> (case cr_guild c of None \<Rightarrow> False | Some g \<Rightarrow> is_member db g u))
     \<or> (cid, u) \<in> set (dm_participants db)"

subsection \<open>Deletes and their cascades\<close>

definition enqueue_deletions :: "time \<Rightarrow> string list \<Rightarrow> (string \<times> time) list \<Rightarrow> (string \<times> time) list" where
  "enqueue_deletions t ks q = fold (\<lambda>k q. if k \<in> keys fst q then q else q @ [(k, t)]) ks q"

definition drop_attachments :: "(Attachment \<Rightarrow> bool) \<Rightarrow> chat_db \<Rightarrow> chat_db" where
  "drop_attachments p db = db\<lparr>
     attachments := delete_where p (attachments db),
     storage_deletions := enqueue_deletions (clock db)
       (map at_ObjectKey (filter p (attachments db))) (storage_deletions db)\<rparr>"

definition drop_messages :: "(message_row \<Rightarrow> bool) \<Rightarrow> chat_db \<Rightarrow> chat_db" where
  "drop_messages p db =
     (let gone = map mr_id (filter p (messages db));
          db' = drop_attachments (\<lambda>a. \<exists>m\<in>set gone. at_MessageID a = Some m) db
      in db'\<lparr>
        messages := delete_where p (messages db'),
        reactions := delete_where (\<lambda>r. re_message r \<in> set gone) (reactions db'),
        channels := update_where (\<lambda>c. \<exists>m\<in>set gone. cr_starter c = Some m) (\<lambda>c. c\<lparr>cr_starter := None\<rparr>) (channels db')\<rparr>)"

definition drop_channels :: "(channel_row \<Rightarrow> bool) \<Rightarrow> chat_db \<Rightarrow> chat_db" where
  "drop_channels p db =
     (let gone = map cr_id (filter p (channels db));
          db' = drop_attachments (\<lambda>a. at_ChannelID a \<in> set gone)
                  (drop_messages (\<lambda>m. mr_channel m \<in> set gone) db)
      in db'\<lparr>
        channels := update_where (\<lambda>c. \<exists>x\<in>set gone. cr_parent c = Some x) (\<lambda>c. c\<lparr>cr_parent := None\<rparr>)
          (delete_where (\<lambda>c. cr_id c \<in> set gone) (channels db')),
        dm_participants := delete_where (\<lambda>(c, _). c \<in> set gone) (dm_participants db'),
        read_states := delete_where (\<lambda>r. rd_channel r \<in> set gone) (read_states db')\<rparr>)"

definition drop_members :: "(member_row \<Rightarrow> bool) \<Rightarrow> chat_db \<Rightarrow> chat_db" where
  "drop_members p db =
     (let gone = map member_key (filter p (members db))
      in db\<lparr>
        members := delete_where p (members db),
        member_roles := delete_where (\<lambda>(g, u, _). (g, u) \<in> set gone) (member_roles db)\<rparr>)"

definition drop_roles :: "(role_row \<Rightarrow> bool) \<Rightarrow> chat_db \<Rightarrow> chat_db" where
  "drop_roles p db =
     (let gone = map (\<lambda>r. (rr_guild r, rr_id r)) (filter p (roles db))
      in db\<lparr>
        roles := delete_where p (roles db),
        member_roles := delete_where (\<lambda>(g, _, r). (g, r) \<in> set gone) (member_roles db)\<rparr>)"

definition drop_guilds :: "(Guild \<Rightarrow> bool) \<Rightarrow> chat_db \<Rightarrow> chat_db" where
  "drop_guilds p db =
     (let gone = map g_ID (filter p (guilds db));
          db' = drop_channels (\<lambda>c. \<exists>g\<in>set gone. cr_guild c = Some g)
                  (drop_roles (\<lambda>r. rr_guild r \<in> set gone) (drop_members (\<lambda>m. gm_guild m \<in> set gone) db))
      in db'\<lparr>
        guilds := delete_where p (guilds db'),
        invites := delete_where (\<lambda>i. ir_guild i \<in> set gone) (invites db')\<rparr>)"

subsection \<open>What the deletes leave alone\<close>

named_theorems frame \<open>fields an operation does not write\<close>

lemma drop_attachments_frame [frame]:
  "clock (drop_attachments p db) = clock db" "users (drop_attachments p db) = users db"
  "guilds (drop_attachments p db) = guilds db" "members (drop_attachments p db) = members db"
  "roles (drop_attachments p db) = roles db" "member_roles (drop_attachments p db) = member_roles db"
  "invites (drop_attachments p db) = invites db" "channels (drop_attachments p db) = channels db"
  "dm_participants (drop_attachments p db) = dm_participants db"
  "messages (drop_attachments p db) = messages db" "reactions (drop_attachments p db) = reactions db"
  "read_states (drop_attachments p db) = read_states db"
  by (simp_all add: drop_attachments_def)

lemma drop_messages_frame [frame]:
  "clock (drop_messages p db) = clock db" "users (drop_messages p db) = users db"
  "guilds (drop_messages p db) = guilds db" "members (drop_messages p db) = members db"
  "roles (drop_messages p db) = roles db" "member_roles (drop_messages p db) = member_roles db"
  "invites (drop_messages p db) = invites db"
  "dm_participants (drop_messages p db) = dm_participants db"
  "read_states (drop_messages p db) = read_states db"
  "messages (drop_messages p db) = delete_where p (messages db)"
  by (simp_all add: drop_messages_def Let_def frame)

lemma drop_channels_frame [frame]:
  "clock (drop_channels p db) = clock db" "users (drop_channels p db) = users db"
  "guilds (drop_channels p db) = guilds db" "members (drop_channels p db) = members db"
  "roles (drop_channels p db) = roles db" "member_roles (drop_channels p db) = member_roles db"
  "invites (drop_channels p db) = invites db"
  by (simp_all add: drop_channels_def Let_def frame)

lemma drop_members_frame [frame]:
  "clock (drop_members p db) = clock db" "users (drop_members p db) = users db"
  "guilds (drop_members p db) = guilds db" "roles (drop_members p db) = roles db"
  "invites (drop_members p db) = invites db" "channels (drop_members p db) = channels db"
  "dm_participants (drop_members p db) = dm_participants db"
  "messages (drop_members p db) = messages db" "reactions (drop_members p db) = reactions db"
  "read_states (drop_members p db) = read_states db" "attachments (drop_members p db) = attachments db"
  "storage_deletions (drop_members p db) = storage_deletions db"
  "members (drop_members p db) = delete_where p (members db)"
  by (simp_all add: drop_members_def Let_def)

lemma drop_roles_frame [frame]:
  "clock (drop_roles p db) = clock db" "users (drop_roles p db) = users db"
  "guilds (drop_roles p db) = guilds db" "members (drop_roles p db) = members db"
  "invites (drop_roles p db) = invites db" "channels (drop_roles p db) = channels db"
  "dm_participants (drop_roles p db) = dm_participants db"
  "messages (drop_roles p db) = messages db" "reactions (drop_roles p db) = reactions db"
  "read_states (drop_roles p db) = read_states db" "attachments (drop_roles p db) = attachments db"
  "storage_deletions (drop_roles p db) = storage_deletions db"
  "roles (drop_roles p db) = delete_where p (roles db)"
  by (simp_all add: drop_roles_def Let_def)

lemma drop_guilds_frame [frame]:
  "clock (drop_guilds p db) = clock db" "users (drop_guilds p db) = users db"
  "guilds (drop_guilds p db) = delete_where p (guilds db)"
  by (simp_all add: drop_guilds_def Let_def frame)

end
