(* ===== verification/Validation.thy ===== *)
theory Validation
  imports Chat_Model
begin

section \<open>Validation of text and numbers\<close>

text \<open>
  The validators of package \<open>chat\<close>: names, optional texts, message bodies, page limits
  (\<open>service.go\<close>), nicknames and invite codes (\<open>members.go\<close>), role colors and permission sets
  (\<open>roles.go\<close>). The lemmas give their ranges, and that what they return passes them again
  unchanged.
\<close>

subsection \<open>Numbers in messages\<close>

fun decimal :: "nat \<Rightarrow> string" where
  "decimal n = (if n < 10 then [char_of (48 + n)] else decimal (n div 10) @ [char_of (48 + n mod 10)])"

declare decimal.simps [simp del]

subsection \<open>Text\<close>

definition validateName :: "string \<Rightarrow> string \<Rightarrow> string result" where
  "validateName field v =
     (let v' = strings_TrimSpace v; n = utf8_RuneCountInString v' in
      if n < 1 \<or> n > 100
      then Inl (ValidationError field ''must contain between 1 and 100 characters'')
      else Inr v')"

definition normalizeOptionalText :: "string \<Rightarrow> string option \<Rightarrow> nat \<Rightarrow> string option result" where
  "normalizeOptionalText field v maximum =
     (case v of None \<Rightarrow> Inr None
      | Some s \<Rightarrow>
          let trimmed = strings_TrimSpace s in
          if trimmed = [] then Inr None
          else if utf8_RuneCountInString trimmed > maximum
          then Inl (ValidationError field (''must contain at most '' @ decimal maximum @ '' characters''))
          else Inr (Some trimmed))"

definition validateContent :: "string \<Rightarrow> unit result" where
  "validateContent v =
     (let n = utf8_RuneCountInString v in
      if n < 1 \<or> n > 4000
      then Inl (ValidationError ''content'' ''must contain between 1 and 4000 characters'')
      else Inr ())"

definition validateLimit :: "int \<Rightarrow> unit result" where
  "validateLimit limit =
     (if limit < 1 \<or> limit > 100 then Inl (ValidationError ''limit'' ''must be between 1 and 100'')
      else Inr ())"

definition maxNicknameLength :: nat where
  "maxNicknameLength = 64"

definition normalizeNickname :: "string option \<Rightarrow> string option result" where
  "normalizeNickname v =
     (case v of None \<Rightarrow> Inr None
      | Some s \<Rightarrow>
          let trimmed = strings_TrimSpace s in
          if trimmed = [] then Inr None
          else if utf8_RuneCountInString trimmed > maxNicknameLength
          then Inl (ValidationError ''nickname'' (''must contain at most '' @ decimal maxNicknameLength @ '' characters''))
          else Inr (Some trimmed))"

subsection \<open>Codes, colors, permission sets\<close>

definition is_hex_digit :: "char \<Rightarrow> bool" where
  "is_hex_digit c \<longleftrightarrow> is_digit c \<or> between CHR ''A'' CHR ''F'' c \<or> between CHR ''a'' CHR ''f'' c"

definition is_code_char :: "char \<Rightarrow> bool" where
  "is_code_char c \<longleftrightarrow>
     between CHR ''a'' CHR ''z'' c \<or> between CHR ''A'' CHR ''Z'' c \<or> is_digit c \<or> c \<in> {CHR ''-'', CHR ''_''}"

text \<open>
  The loop of \<open>validInviteCode\<close> reads runes; a byte outside of ASCII starts a rune that is not
  one of the listed characters, so reading bytes decides the same.
\<close>

definition validInviteCode :: "string \<Rightarrow> bool" where
  "validInviteCode code \<longleftrightarrow> \<not> (length code < 16 \<or> length code > 64) \<and> list_all is_code_char code"

text \<open>The pattern \<open>^#[0-9A-Fa-f]{6}$\<close>.\<close>

definition roleColorPattern :: "string \<Rightarrow> bool" where
  "roleColorPattern s \<longleftrightarrow>
     length s = 7 \<and> take 1 s = ''#'' \<and> list_all is_hex_digit (drop 1 s)"

definition validateRoleColor :: "string option \<Rightarrow> string option result" where
  "validateRoleColor v =
     (case v of None \<Rightarrow> Inr None
      | Some s \<Rightarrow> if \<not> roleColorPattern s then Inl (ValidationError ''color'' ''must be a #RRGGBB color'')
                 else Inr v)"

definition validatePermissions :: "permissions \<Rightarrow> permissions result" where
  "validatePermissions v =
     (if sint v < 0 \<or> v AND NOT AllPermissions \<noteq> 0
      then Inl (ValidationError ''permissions'' ''contains unknown permission bits'')
      else Inr v)"

subsection \<open>Ranges\<close>

lemma validateName_Inr:
  "validateName field v = Inr v' \<longleftrightarrow> v' = strings_TrimSpace v \<and> char_length_between 1 100 v'"
  by (auto simp: validateName_def char_length_between_def Let_def)

lemma validateName_result: "validateName field v = Inr v' \<Longrightarrow> validateName field v' = Inr v'"
  by (auto simp: validateName_Inr)

lemma normalizeOptionalText_result:
  "normalizeOptionalText field v n = Inr v' \<Longrightarrow> normalizeOptionalText field v' n = Inr v'"
  by (auto simp: normalizeOptionalText_def Let_def split: option.splits if_splits)

lemma normalizeOptionalText_Some:
  assumes "normalizeOptionalText field v n = Inr (Some s)"
  shows "char_length_between 1 n s" and "strings_TrimSpace s = s"
  using assms RuneCount_0_iff [of s]
  by (auto simp: normalizeOptionalText_def Let_def char_length_between_def split: option.splits if_splits)

lemma normalizeNickname_result: "normalizeNickname v = Inr v' \<Longrightarrow> normalizeNickname v' = Inr v'"
  by (auto simp: normalizeNickname_def Let_def split: option.splits if_splits)

lemma normalizeNickname_Some:
  assumes "normalizeNickname v = Inr (Some s)"
  shows "char_length_between 1 64 s"
  using assms RuneCount_0_iff [of s]
  by (auto simp: normalizeNickname_def maxNicknameLength_def Let_def char_length_between_def split: option.splits if_splits)

lemma validateContent_Inr: "validateContent v = Inr u \<longleftrightarrow> char_length_between 1 4000 v"
  by (auto simp: validateContent_def char_length_between_def Let_def)

lemma validateLimit_Inr: "validateLimit n = Inr u \<longleftrightarrow> 1 \<le> n \<and> n \<le> 100"
  by (auto simp: validateLimit_def)

lemma validateRoleColor_Inr:
  "validateRoleColor v = Inr v' \<longleftrightarrow> v' = v \<and> (case v of None \<Rightarrow> True | Some s \<Rightarrow> roleColorPattern s)"
  by (auto simp: validateRoleColor_def split: option.splits)

lemma known_permissions_nonneg: "known_permissions p \<Longrightarrow> 0 \<le> sint p"
  using bit_last_iff [of p] by (auto simp: known_permissions_def not_le [symmetric])

lemma validatePermissions_Inr:
  "validatePermissions v = Inr v' \<longleftrightarrow> v' = v \<and> known_permissions v"
  using known_permissions_nonneg [of v] by (auto simp: validatePermissions_def known_permissions_and_not)

end
