(* ===== verification/Guild_Inv.thy ===== *)
theory Guild_Inv
  imports Validation
begin

section \<open>The invariant of guilds, members, roles and invites\<close>

text \<open>
  What the schema enforces on these tables (\<open>guild_schema\<close>: keys, references, checks) and
  what the program keeps true on top of it (\<open>guild_inv\<close>): every guild has its owner as a
  member and one default role, a role is managed exactly when it is the default one, every
  other role stands at position one or above, only unmanaged roles are assigned, and every
  stored permission set is known. The lemmas show that each elementary change of the tables
  the operations make keeps both.
\<close>

subsection \<open>Checks of the rows\<close>

definition guild_row_ok :: "Guild \<Rightarrow> bool" where
  "guild_row_ok g \<longleftrightarrow>
     char_length_between 1 100 (g_Name g) \<and> pg_text (g_Name g)
     \<and> (case g_Description g of None \<Rightarrow> True | Some d \<Rightarrow> char_length_between 0 1024 d \<and> pg_text d)"

definition member_row_ok :: "member_row \<Rightarrow> bool" where
  "member_row_ok m \<longleftrightarrow>
     (case gm_nickname m of None \<Rightarrow> True | Some n \<Rightarrow> char_length_between 1 64 n \<and> pg_text n)"

definition role_row_ok :: "role_row \<Rightarrow> bool" where
  "role_row_ok r \<longleftrightarrow>
     char_length_between 1 100 (rr_name r) \<and> pg_text (rr_name r)
     \<and> (case rr_color r of None \<Rightarrow> True | Some c \<Rightarrow> roleColorPattern c)
     \<and> 0 \<le> sint (rr_permissions r) \<and> 0 \<le> rr_position r \<and> int4 (rr_position r)
     \<and> (rr_default r \<longrightarrow> rr_managed r \<and> rr_position r = 0)"

definition invite_row_ok :: "invite_row \<Rightarrow> bool" where
  "invite_row_ok i \<longleftrightarrow>
     validInviteCode (ir_code i) \<and> 0 \<le> ir_uses i \<and> int4 (ir_uses i)
     \<and> (case ir_max_uses i of None \<Rightarrow> True | Some n \<Rightarrow> 1 \<le> n \<and> n \<le> 1000 \<and> ir_uses i \<le> n)"

subsection \<open>The schema\<close>

definition guild_keys :: "chat_db \<Rightarrow> bool" where
  "guild_keys db \<longleftrightarrow>
     distinct (map us_ID (users db)) \<and> distinct (map g_ID (guilds db))
     \<and> distinct (map member_key (members db)) \<and> distinct (map rr_id (roles db))
     \<and> distinct (member_roles db)
     \<and> distinct (map ir_id (invites db)) \<and> distinct (map ir_code (invites db))"

definition role_key :: "role_row \<Rightarrow> uuid \<times> uuid" where
  "role_key r = (rr_guild r, rr_id r)"

definition guild_refs :: "chat_db \<Rightarrow> bool" where
  "guild_refs db \<longleftrightarrow>
     (\<forall>g\<in>set (guilds db). g_OwnerID g \<in> keys us_ID (users db))
     \<and> (\<forall>m\<in>set (members db). gm_guild m \<in> keys g_ID (guilds db) \<and> gm_user m \<in> keys us_ID (users db))
     \<and> (\<forall>r\<in>set (roles db). rr_guild r \<in> keys g_ID (guilds db))
     \<and> (\<forall>(g, u, r)\<in>set (member_roles db). is_member db g u \<and> (g, r) \<in> keys role_key (roles db))
     \<and> (\<forall>i\<in>set (invites db). ir_guild i \<in> keys g_ID (guilds db) \<and> ir_inviter i \<in> keys us_ID (users db))"

definition guild_checks :: "chat_db \<Rightarrow> bool" where
  "guild_checks db \<longleftrightarrow>
     (\<forall>g\<in>set (guilds db). guild_row_ok g) \<and> (\<forall>m\<in>set (members db). member_row_ok m)
     \<and> (\<forall>r\<in>set (roles db). role_row_ok r) \<and> (\<forall>i\<in>set (invites db). invite_row_ok i)"

definition guild_schema :: "chat_db \<Rightarrow> bool" where
  "guild_schema db \<longleftrightarrow> guild_keys db \<and> guild_refs db \<and> guild_checks db"

subsection \<open>What the program keeps\<close>

definition owners_are_members :: "chat_db \<Rightarrow> bool" where
  "owners_are_members db \<longleftrightarrow> (\<forall>g\<in>set (guilds db). is_member db (g_ID g) (g_OwnerID g))"

definition default_roles :: "chat_db \<Rightarrow> uuid \<Rightarrow> role_row list" where
  "default_roles db g = filter (\<lambda>r. rr_guild r = g \<and> rr_default r) (roles db)"

definition roles_inv :: "chat_db \<Rightarrow> bool" where
  "roles_inv db \<longleftrightarrow>
     (\<forall>g\<in>set (guilds db). length (default_roles db (g_ID g)) = 1)
     \<and> (\<forall>r\<in>set (roles db). rr_managed r = rr_default r \<and> (\<not> rr_default r \<longrightarrow> 1 \<le> rr_position r)
          \<and> known_permissions (from_int32 (rr_permissions r)))
     \<and> (\<forall>(g, u, r)\<in>set (member_roles db). \<forall>ro\<in>set (roles db). rr_id ro = r \<longrightarrow> \<not> rr_managed ro)"

definition guild_inv :: "chat_db \<Rightarrow> bool" where
  "guild_inv db \<longleftrightarrow> guild_schema db \<and> owners_are_members db \<and> roles_inv db"

lemmas guild_inv_defs =
  guild_inv_def guild_schema_def guild_keys_def guild_refs_def guild_checks_def
  owners_are_members_def roles_inv_def

lemma guild_inv_empty: "guild_inv empty_db"
  by (simp add: guild_inv_defs empty_db_def)

lemma guild_inv_cong:
  assumes "users db' = users db" "guilds db' = guilds db" "members db' = members db"
    and "roles db' = roles db" "member_roles db' = member_roles db" "invites db' = invites db"
  shows "guild_inv db' = guild_inv db"
  by (simp add: guild_inv_defs is_member_def default_roles_def assms)

subsection \<open>Roles\<close>

lemma guild_inv_add_role:
  assumes "guild_inv db" and "rr_id r \<notin> keys rr_id (roles db)" and "rr_guild r \<in> keys g_ID (guilds db)"
    and "role_row_ok r" and "\<not> rr_managed r" and "\<not> rr_default r" and "1 \<le> rr_position r"
    and "known_permissions (from_int32 (rr_permissions r))"
  shows "guild_inv (db\<lparr>roles := roles db @ [r]\<rparr>)"
  using assms
  by (auto simp: guild_inv_defs is_member_def default_roles_def role_key_def image_iff)

lemma guild_inv_update_role:
  assumes inv: "guild_inv db" and key: "\<And>r. rr_id (f r) = rr_id r" "\<And>r. rr_guild (f r) = rr_guild r"
    and kind: "\<And>r. rr_managed (f r) = rr_managed r" "\<And>r. rr_default (f r) = rr_default r"
    and ok: "\<And>r. r \<in> set (roles db) \<Longrightarrow> p r \<Longrightarrow> role_row_ok (f r)
        \<and> (\<not> rr_default r \<longrightarrow> 1 \<le> rr_position (f r)) \<and> known_permissions (from_int32 (rr_permissions (f r)))"
  shows "guild_inv (db\<lparr>roles := update_where p f (roles db)\<rparr>)"
proof -
  have 1: "map rr_id (update_where p f (roles db)) = map rr_id (roles db)"
    by (rule map_update_where) (rule key)
  have 2: "keys role_key (update_where p f (roles db)) = keys role_key (roles db)"
    by (rule keys_update_where) (simp add: role_key_def key)
  have 3: "length (filter (\<lambda>r. rr_guild r = g \<and> rr_default r) (update_where p f (roles db)))
      = length (filter (\<lambda>r. rr_guild r = g \<and> rr_default r) (roles db))" for g
    by (induction "roles db") (auto simp: update_where_def filter_map comp_def key kind if_distrib cong: if_cong)
  have 4: "\<forall>r\<in>set (update_where p f (roles db)). rr_managed r = rr_default r
      \<and> (\<not> rr_default r \<longrightarrow> 1 \<le> rr_position r) \<and> known_permissions (from_int32 (rr_permissions r))
      \<and> role_row_ok r \<and> rr_guild r \<in> keys g_ID (guilds db)"
    using inv ok by (auto simp: set_update_where guild_inv_defs key kind)
  have 5: "(g, u, r) \<in> set (member_roles db) \<Longrightarrow> ro \<in> set (update_where p f (roles db)) \<Longrightarrow> rr_id ro = r
      \<Longrightarrow> \<not> rr_managed ro" for g u r ro
    using inv by (fastforce simp: set_update_where guild_inv_defs key kind)
  let ?db = "db\<lparr>roles := update_where p f (roles db)\<rparr>"
  have "guild_keys ?db" "guild_checks ?db" "owners_are_members ?db"
    using inv 4 by (simp_all add: guild_inv_defs is_member_def 1)
  moreover have "guild_refs ?db"
    using inv 4 by (simp add: guild_inv_defs is_member_def 2)
  moreover have "roles_inv ?db"
    using inv 4 5 by (auto simp: guild_inv_def roles_inv_def default_roles_def 3)
  ultimately show ?thesis
    by (simp add: guild_inv_def guild_schema_def)
qed

lemma guild_inv_drop_roles:
  assumes inv: "guild_inv db" and p: "\<And>r. r \<in> set (roles db) \<Longrightarrow> p r \<Longrightarrow> \<not> rr_managed r"
  shows "guild_inv (drop_roles p db)"
proof -
  have "filter (\<lambda>r. rr_guild r = g \<and> rr_default r) (delete_where p (roles db))
      = filter (\<lambda>r. rr_guild r = g \<and> rr_default r) (roles db)" for g
    using inv p by (intro filter_delete_where_other) (auto simp: guild_inv_defs)
  then have "roles_inv (drop_roles p db)" "owners_are_members (drop_roles p db)" "guild_keys (drop_roles p db)"
      "guild_checks (drop_roles p db)"
    using inv by (auto simp: guild_inv_defs default_roles_def is_member_def drop_roles_def Let_def
        set_delete_where distinct_map_delete_where distinct_delete_where)
  moreover have "(g, r) \<in> keys role_key (delete_where p (roles db))"
    if "(g, u, r) \<in> set (member_roles (drop_roles p db))" for g u r
    using that inv
    by (intro keys_delete_where_kept)
      (auto simp: drop_roles_def Let_def set_delete_where role_key_def guild_inv_defs)
  then have "guild_refs (drop_roles p db)"
    using inv by (auto simp: guild_inv_defs is_member_def frame set_delete_where drop_roles_def Let_def)
  ultimately show ?thesis by (simp add: guild_inv_def guild_schema_def)
qed

lemma guild_inv_member_roles:
  assumes "guild_inv db" and "distinct mrs"
    and "\<And>g u r. (g, u, r) \<in> set mrs \<Longrightarrow> is_member db g u \<and> (g, r) \<in> keys role_key (roles db)
           \<and> (\<forall>ro\<in>set (roles db). rr_id ro = r \<longrightarrow> \<not> rr_managed ro)"
  shows "guild_inv (db\<lparr>member_roles := mrs\<rparr>)"
  using assms by (fastforce simp: guild_inv_defs is_member_def default_roles_def)

subsection \<open>Members\<close>

lemma guild_inv_add_member:
  assumes inv: "guild_inv db" and "member_key m \<notin> keys member_key (members db)"
    and "gm_guild m \<in> keys g_ID (guilds db)" and "gm_user m \<in> keys us_ID (users db)" and "member_row_ok m"
  shows "guild_inv (db\<lparr>members := members db @ [m]\<rparr>)"
proof -
  let ?db = "db\<lparr>members := members db @ [m]\<rparr>"
  have mono: "is_member db g u \<Longrightarrow> is_member ?db g u" for g u
    by (simp add: is_member_def)
  have "owners_are_members ?db"
    using inv mono by (simp add: guild_inv_def owners_are_members_def)
  moreover have "guild_refs ?db"
    using assms mono by (fastforce simp: guild_inv_def guild_schema_def guild_refs_def)
  moreover have "guild_keys ?db"
    using assms by (auto simp: guild_inv_def guild_schema_def guild_keys_def)
  moreover have "guild_checks ?db"
    using assms by (auto simp: guild_inv_def guild_schema_def guild_checks_def)
  moreover have "roles_inv ?db = roles_inv db"
    by (simp add: roles_inv_def default_roles_def)
  with inv have "roles_inv ?db"
    by (simp add: guild_inv_def)
  ultimately show ?thesis
    by (simp add: guild_inv_def guild_schema_def)
qed

lemma guild_inv_update_member:
  assumes inv: "guild_inv db" and key: "\<And>m. gm_guild (f m) = gm_guild m" "\<And>m. gm_user (f m) = gm_user m"
    and ok: "\<And>m. m \<in> set (members db) \<Longrightarrow> p m \<Longrightarrow> member_row_ok (f m)"
  shows "guild_inv (db\<lparr>members := update_where p f (members db)\<rparr>)"
proof -
  have 1: "map member_key (update_where p f (members db)) = map member_key (members db)"
    by (rule map_update_where) (simp add: key)
  have 2: "keys member_key (update_where p f (members db)) = keys member_key (members db)"
    by (rule keys_update_where) (simp add: key)
  let ?db = "db\<lparr>members := update_where p f (members db)\<rparr>"
  have 3: "\<forall>m\<in>set (update_where p f (members db)).
      member_row_ok m \<and> gm_guild m \<in> keys g_ID (guilds db) \<and> gm_user m \<in> keys us_ID (users db)"
    using inv ok by (auto simp: set_update_where guild_inv_def guild_schema_def guild_refs_def guild_checks_def key)
  have 4: "is_member ?db = is_member db"
    using 2 by (simp add: is_member_def fun_eq_iff)
  have "guild_keys ?db"
    using inv 1 by (simp add: guild_inv_def guild_schema_def guild_keys_def)
  moreover have "guild_refs ?db"
    using inv 3 by (simp add: guild_inv_def guild_schema_def guild_refs_def 4)
  moreover have "guild_checks ?db"
    using inv 3 by (simp add: guild_inv_def guild_schema_def guild_checks_def)
  moreover have "owners_are_members ?db"
    using inv by (simp add: guild_inv_def owners_are_members_def 4)
  moreover have "roles_inv ?db = roles_inv db"
    by (simp add: roles_inv_def default_roles_def)
  with inv have "roles_inv ?db"
    by (simp add: guild_inv_def)
  ultimately show ?thesis
    by (simp add: guild_inv_def guild_schema_def)
qed

lemma is_member_drop_members:
  "is_member (drop_members p db) g u \<longleftrightarrow> (\<exists>m\<in>set (members db). \<not> p m \<and> member_key m = (g, u))"
  by (auto simp: is_member_def frame set_delete_where image_iff)

lemma guild_inv_drop_members:
  assumes inv: "guild_inv db"
    and p: "\<And>m g. m \<in> set (members db) \<Longrightarrow> p m \<Longrightarrow> g \<in> set (guilds db) \<Longrightarrow> gm_guild m = g_ID g \<Longrightarrow> gm_user m \<noteq> g_OwnerID g"
  shows "guild_inv (drop_members p db)"
proof -
  have kept: "is_member (drop_members p db) g u" if "is_member db g u"
    and "\<And>m. m \<in> set (members db) \<Longrightarrow> p m \<Longrightarrow> member_key m \<noteq> (g, u)" for g u
  proof -
    from that(1) obtain m where "m \<in> set (members db)" "member_key m = (g, u)"
      by (auto simp: is_member_def)
    with that(2) [of m] have "m \<in> set (members db) \<and> \<not> p m \<and> member_key m = (g, u)"
      by auto
    then show ?thesis
      unfolding is_member_drop_members by blast
  qed
  have "owners_are_members (drop_members p db)"
    unfolding owners_are_members_def
  proof
    fix g assume "g \<in> set (guilds (drop_members p db))"
    then have g: "g \<in> set (guilds db)" by (simp add: frame)
    with inv have "is_member db (g_ID g) (g_OwnerID g)"
      by (simp add: guild_inv_defs)
    then show "is_member (drop_members p db) (g_ID g) (g_OwnerID g)"
      using p g by (intro kept) auto
  qed
  moreover have "is_member (drop_members p db) g u \<and> (g, r) \<in> keys role_key (roles db)"
    if "(g, u, r) \<in> set (member_roles (drop_members p db))" for g u r
  proof
    from that have "(g, u, r) \<in> set (member_roles db)"
      and *: "\<And>m. m \<in> set (members db) \<Longrightarrow> p m \<Longrightarrow> member_key m \<noteq> (g, u)"
      by (auto simp: drop_members_def Let_def set_delete_where image_iff)
    then have "is_member db g u" and "(g, r) \<in> keys role_key (roles db)"
      using inv by (auto simp: guild_inv_defs)
    then show "is_member (drop_members p db) g u" "(g, r) \<in> keys role_key (roles db)"
      using * by (auto intro: kept)
  qed
  then have "guild_refs (drop_members p db)"
    using inv by (auto simp: guild_inv_defs frame set_delete_where)
  moreover have "guild_keys (drop_members p db)" "guild_checks (drop_members p db)" "roles_inv (drop_members p db)"
    using inv unfolding guild_inv_def guild_schema_def guild_keys_def guild_checks_def roles_inv_def default_roles_def
    by (auto simp: frame set_delete_where drop_members_def Let_def distinct_map_delete_where distinct_delete_where)
  ultimately show ?thesis by (simp add: guild_inv_def guild_schema_def)
qed

end
