(* ===== verification/Roles.thy ===== *)
theory Roles
  imports Guild_Inv
begin

section \<open>Roles\<close>

text \<open>
  \<open>internal/chat/roles.go\<close> and \<open>internal/chat/roles_postgres.go\<close>: the effective access of a
  member, the role operations of the service with every guard in the order of the code, and the
  statements they run. An operation that writes returns its result and the tables after it.
\<close>

subsection \<open>Statements\<close>

definition scanRole :: "role_row \<Rightarrow> Role" where
  "scanRole r = \<lparr>r_ID = rr_id r, r_GuildID = rr_guild r, r_Name = rr_name r, r_Color = rr_color r,
     r_Permissions = from_int32 (rr_permissions r), r_Position = rr_position r,
     r_Managed = rr_managed r, r_IsDefault = rr_default r, r_CreatedAt = rr_created r\<rparr>"

text \<open>The rows the \<open>LEFT JOIN\<close> of \<open>GetAccess\<close> finds for a member.\<close>

definition roles_of :: "chat_db \<Rightarrow> uuid \<Rightarrow> uuid \<Rightarrow> role_row list" where
  "roles_of db g u = filter (\<lambda>r. rr_guild r = g \<and> (rr_default r \<or> (g, u, rr_id r) \<in> set (member_roles db))) (roles db)"

definition GetAccess :: "chat_db \<Rightarrow> uuid \<Rightarrow> uuid \<Rightarrow> Access result" where
  "GetAccess db guildID userID =
     (case find_by member_key (members db) (guildID, userID) of None \<Rightarrow> Inl ErrNotFound
      | Some gm \<Rightarrow> (case find_by g_ID (guilds db) guildID of None \<Rightarrow> Inl ErrNotFound
      | Some g \<Rightarrow>
          let rs = roles_of db guildID userID;
              isOwner = (g_OwnerID g = gm_user gm);
              permissions = bit_or (map rr_permissions rs);
              top = max_or 0 (map rr_position rs)
          in if isOwner then Inr ownerAccess
             else Inr \<lparr>a_Owner = False, a_Permissions = from_int32 permissions, a_TopPosition = top\<rparr>))"

definition Store_ListRoles :: "chat_db \<Rightarrow> uuid \<Rightarrow> Role list result" where
  "Store_ListRoles db guildID =
     Inr (map scanRole (sort_key (\<lambda>r. (rr_position r, rr_id r)) (filter (\<lambda>r. rr_guild r = guildID) (roles db))))"

definition Store_CreateRole :: "chat_db \<Rightarrow> Role \<Rightarrow> Role result \<times> chat_db" where
  "Store_CreateRole db role =
     (let row = \<lparr>rr_id = r_ID role, rr_guild = r_GuildID role, rr_name = r_Name role, rr_color = r_Color role,
                 rr_permissions = to_int32 (r_Permissions role), rr_position = r_Position role,
                 rr_managed = False, rr_default = False, rr_created = r_CreatedAt role\<rparr>
      in if rr_id row \<in> keys rr_id (roles db) \<or> rr_guild row \<notin> keys g_ID (guilds db) \<or> \<not> role_row_ok row
         then (Inl (ErrInternal ''insert role''), db)
         else (Inr (scanRole row), db\<lparr>roles := roles db @ [row]\<rparr>))"

definition set_role :: "Role \<Rightarrow> role_row \<Rightarrow> role_row" where
  "set_role role r = r\<lparr>rr_name := r_Name role, rr_color := r_Color role,
     rr_permissions := to_int32 (r_Permissions role), rr_position := r_Position role\<rparr>"

definition Store_UpdateRole :: "chat_db \<Rightarrow> Role \<Rightarrow> Role result \<times> chat_db" where
  "Store_UpdateRole db role =
     (case find_by role_key (roles db) (r_GuildID role, r_ID role) of None \<Rightarrow> (Inl ErrNotFound, db)
      | Some r \<Rightarrow>
          if \<not> role_row_ok (set_role role r) then (Inl (ErrInternal ''update role''), db)
          else (Inr (scanRole (set_role role r)),
                db\<lparr>roles := update_where (\<lambda>r. role_key r = (r_GuildID role, r_ID role)) (set_role role) (roles db)\<rparr>))"

definition Store_DeleteRole :: "chat_db \<Rightarrow> uuid \<Rightarrow> uuid \<Rightarrow> unit result \<times> chat_db" where
  "Store_DeleteRole db guildID roleID =
     (let gone = (\<lambda>r. role_key r = (guildID, roleID) \<and> \<not> rr_managed r)
      in if filter gone (roles db) = [] then (Inl ErrNotFound, db)
         else (Inr (), drop_roles gone db))"

text \<open>One \<open>INSERT\<close> of the loop of \<open>SetMemberRoles\<close>: \<open>None\<close> when the key is taken or a
  foreign key finds no row.\<close>

definition insert_member_role :: "chat_db \<Rightarrow> uuid \<Rightarrow> uuid \<Rightarrow> uuid \<Rightarrow> chat_db option" where
  "insert_member_role db guildID userID roleID =
     (if (guildID, userID, roleID) \<in> set (member_roles db) \<or> \<not> is_member db guildID userID
         \<or> (guildID, roleID) \<notin> keys role_key (roles db)
      then None
      else Some (db\<lparr>member_roles := member_roles db @ [(guildID, userID, roleID)]\<rparr>))"

fun insert_member_roles :: "chat_db \<Rightarrow> uuid \<Rightarrow> uuid \<Rightarrow> uuid list \<Rightarrow> chat_db option" where
  "insert_member_roles db guildID userID [] = Some db"
| "insert_member_roles db guildID userID (roleID # roleIDs) =
     (case insert_member_role db guildID userID roleID of None \<Rightarrow> None
      | Some db' \<Rightarrow> insert_member_roles db' guildID userID roleIDs)"

definition clear_member_roles :: "chat_db \<Rightarrow> uuid \<Rightarrow> uuid \<Rightarrow> chat_db" where
  "clear_member_roles db guildID userID =
     db\<lparr>member_roles := delete_where (\<lambda>(g, u, _). (g, u) = (guildID, userID)) (member_roles db)\<rparr>"

definition SetMemberRoles :: "chat_db \<Rightarrow> uuid \<Rightarrow> uuid \<Rightarrow> uuid list \<Rightarrow> unit result \<times> chat_db" where
  "SetMemberRoles db guildID userID roleIDs =
     (case insert_member_roles (clear_member_roles db guildID userID) guildID userID roleIDs of
        None \<Rightarrow> (Inl (ErrInternal ''assign member role''), db)
      | Some db' \<Rightarrow> (Inr (), db'))"

subsection \<open>The service\<close>

definition require :: "chat_db \<Rightarrow> uuid \<Rightarrow> uuid \<Rightarrow> permissions \<Rightarrow> Access result" where
  "require db userID guildID permission =
     (case GetAccess db guildID userID of Inl err \<Rightarrow> Inl err
      | Inr access \<Rightarrow> if \<not> Has access permission then Inl ErrForbidden else Inr access)"

definition ListRoles :: "chat_db \<Rightarrow> uuid \<Rightarrow> uuid \<Rightarrow> Role list result" where
  "ListRoles db userID guildID =
     (case GetAccess db guildID userID of Inl err \<Rightarrow> Inl err | Inr _ \<Rightarrow> Store_ListRoles db guildID)"

text \<open>
  The position a new role starts at. \<open>roles[len(roles)-1]\<close> of an empty list panics in Go; the
  default role keeps the list nonempty (\<open>Store_ListRoles_nonempty\<close>).
\<close>

definition new_role_position :: "chat_db \<Rightarrow> Access \<Rightarrow> uuid \<Rightarrow> int result" where
  "new_role_position db access guildID =
     (if a_Owner access
      then (case Store_ListRoles db guildID of Inl err \<Rightarrow> Inl err
            | Inr rs \<Rightarrow> if rs = [] then Inl (ErrInternal ''index out of range'')
                          else Inr (r_Position (last rs) + 1))
      else if a_TopPosition access \<le> 1 then Inl ErrForbidden
      else Inr 1)"

definition CreateRole ::
  "uuid option \<Rightarrow> time \<Rightarrow> chat_db \<Rightarrow> uuid \<Rightarrow> uuid \<Rightarrow> CreateRoleInput \<Rightarrow> Role result \<times> chat_db" where
  "CreateRole gen now db userID guildID input =
     (case require db userID guildID PermManageRoles of Inl err \<Rightarrow> (Inl err, db)
      | Inr access \<Rightarrow> (case validateName ''name'' (cri_Name input) of Inl err \<Rightarrow> (Inl err, db)
      | Inr name \<Rightarrow> (case validateRoleColor (cri_Color input) of Inl err \<Rightarrow> (Inl err, db)
      | Inr color \<Rightarrow> (case (case cri_Permissions input of None \<Rightarrow> Inr 0 | Some p \<Rightarrow> validatePermissions p) of
          Inl err \<Rightarrow> (Inl err, db)
      | Inr permissions \<Rightarrow>
          if \<not> Has access permissions then (Inl ErrForbidden, db)
          else (case new_role_position db access guildID of Inl err \<Rightarrow> (Inl err, db)
      | Inr position \<Rightarrow> (case newUUIDv7 gen of Inl err \<Rightarrow> (Inl err, db)
      | Inr i \<Rightarrow> Store_CreateRole db
          \<lparr>r_ID = i, r_GuildID = guildID, r_Name = name, r_Color = color, r_Permissions = permissions,
           r_Position = position, r_Managed = False, r_IsDefault = False, r_CreatedAt = now\<rparr>))))))"

text \<open>\<open>findRole\<close> returns the first role of the list that has the identifier.\<close>

definition findRole :: "chat_db \<Rightarrow> uuid \<Rightarrow> uuid \<Rightarrow> Role result" where
  "findRole db guildID roleID =
     (case Store_ListRoles db guildID of Inl err \<Rightarrow> Inl err
      | Inr rs \<Rightarrow> (case find_by r_ID rs roleID of None \<Rightarrow> Inl ErrNotFound | Some role \<Rightarrow> Inr role))"

text \<open>The four optional fields of a role update, checked and applied in the order of the code.\<close>

definition patch_name :: "UpdateRoleInput \<Rightarrow> Role \<Rightarrow> Role result" where
  "patch_name input role =
     (case uri_Name input of None \<Rightarrow> Inr role
      | Some n \<Rightarrow> (case validateName ''name'' n of Inl err \<Rightarrow> Inl err | Inr n' \<Rightarrow> Inr (role\<lparr>r_Name := n'\<rparr>)))"

definition patch_color :: "UpdateRoleInput \<Rightarrow> Role \<Rightarrow> Role result" where
  "patch_color input role =
     (if opt_Set (uri_Color input)
      then (case validateRoleColor (opt_Value (uri_Color input)) of Inl err \<Rightarrow> Inl err
            | Inr c \<Rightarrow> Inr (role\<lparr>r_Color := c\<rparr>))
      else Inr role)"

definition patch_permissions :: "Access \<Rightarrow> UpdateRoleInput \<Rightarrow> Role \<Rightarrow> Role result" where
  "patch_permissions access input role =
     (case uri_Permissions input of None \<Rightarrow> Inr role
      | Some p \<Rightarrow> (case validatePermissions p of Inl err \<Rightarrow> Inl err
          | Inr permissions \<Rightarrow>
              if \<not> Has access (permissions XOR r_Permissions role) then Inl ErrForbidden
              else Inr (role\<lparr>r_Permissions := permissions\<rparr>)))"

definition patch_position :: "Access \<Rightarrow> UpdateRoleInput \<Rightarrow> Role \<Rightarrow> Role result" where
  "patch_position access input role =
     (case uri_Position input of None \<Rightarrow> Inr role
      | Some n \<Rightarrow>
          if n < 1 then Inl (ValidationError ''position'' ''must be one or greater'')
          else if \<not> Outranks access n then Inl ErrForbidden
          else Inr (role\<lparr>r_Position := n\<rparr>))"

definition UpdateRole :: "chat_db \<Rightarrow> uuid \<Rightarrow> uuid \<Rightarrow> uuid \<Rightarrow> UpdateRoleInput \<Rightarrow> Role result \<times> chat_db" where
  "UpdateRole db userID guildID roleID input =
     (if uri_Name input = None \<and> \<not> opt_Set (uri_Color input) \<and> uri_Permissions input = None \<and> uri_Position input = None
      then (Inl (ValidationError ''body'' ''must contain at least one field''), db)
      else (case require db userID guildID PermManageRoles of Inl err \<Rightarrow> (Inl err, db)
      | Inr access \<Rightarrow> (case findRole db guildID roleID of Inl err \<Rightarrow> (Inl err, db)
      | Inr role0 \<Rightarrow>
          if \<not> Outranks access (r_Position role0) \<and> \<not> r_IsDefault role0 then (Inl ErrForbidden, db)
          else if r_IsDefault role0 \<and> (uri_Name input \<noteq> None \<or> opt_Set (uri_Color input) \<or> uri_Position input \<noteq> None)
          then (Inl (ValidationError ''body'' ''only permissions of the default role can be changed''), db)
          else (case patch_name input role0 of Inl err \<Rightarrow> (Inl err, db)
      | Inr role1 \<Rightarrow> (case patch_color input role1 of Inl err \<Rightarrow> (Inl err, db)
      | Inr role2 \<Rightarrow> (case patch_permissions access input role2 of Inl err \<Rightarrow> (Inl err, db)
      | Inr role3 \<Rightarrow> (case patch_position access input role3 of Inl err \<Rightarrow> (Inl err, db)
      | Inr role4 \<Rightarrow> Store_UpdateRole db role4)))))))"

definition DeleteRole :: "chat_db \<Rightarrow> uuid \<Rightarrow> uuid \<Rightarrow> uuid \<Rightarrow> unit result \<times> chat_db" where
  "DeleteRole db userID guildID roleID =
     (case require db userID guildID PermManageRoles of Inl err \<Rightarrow> (Inl err, db)
      | Inr access \<Rightarrow> (case findRole db guildID roleID of Inl err \<Rightarrow> (Inl err, db)
      | Inr role \<Rightarrow>
          if r_Managed role \<or> \<not> Outranks access (r_Position role) then (Inl ErrForbidden, db)
          else Store_DeleteRole db guildID roleID))"

text \<open>
  \<open>assignRoles\<close>. \<open>byID\<close> reads the roles of the guild by identifier; a Go map answers a missing
  key with the zero role, at position 0. The loop over \<open>requested\<close> stops at the first role that
  cannot be assigned; the loops over the maps \<open>next\<close> and \<open>current\<close> return the same error
  whatever element fails first. \<open>uuid_String\<close> is \<open>uuid.UUID.String\<close>.
\<close>

definition byID_Position :: "Role list \<Rightarrow> uuid \<Rightarrow> int" where
  "byID_Position rs i = (case find_by r_ID rs i of None \<Rightarrow> 0 | Some role \<Rightarrow> r_Position role)"

definition assignable :: "Role list \<Rightarrow> uuid \<Rightarrow> bool" where
  "assignable rs i \<longleftrightarrow> (case find_by r_ID rs i of None \<Rightarrow> False | Some role \<Rightarrow> \<not> r_Managed role)"

definition assignRoles ::
  "(uuid \<Rightarrow> string) \<Rightarrow> chat_db \<Rightarrow> Access \<Rightarrow> Member \<Rightarrow> uuid list \<Rightarrow> unit result \<times> chat_db" where
  "assignRoles uuid_String db access member requested =
     (case Store_ListRoles db (mb_GuildID member) of Inl err \<Rightarrow> (Inl err, db)
      | Inr rs \<Rightarrow> (case List.find (\<lambda>i. \<not> assignable rs i) requested of
          Some i \<Rightarrow> (Inl (ValidationError ''role_ids'' (''role '' @ uuid_String i @ '' cannot be assigned'')), db)
      | None \<Rightarrow>
          let current = mb_RoleIDs member;
              outranks = (\<lambda>i. Outranks access (byID_Position rs i))
          in if list_ex (\<lambda>i. i \<notin> set current \<and> \<not> outranks i) requested then (Inl ErrForbidden, db)
             else if list_ex (\<lambda>i. i \<notin> set requested \<and> \<not> outranks i) current then (Inl ErrForbidden, db)
             else SetMemberRoles db (mb_GuildID member) (us_ID (mb_User member)) (sort (remdups requested))))"

subsection \<open>What access means\<close>

definition is_owner :: "chat_db \<Rightarrow> uuid \<Rightarrow> uuid \<Rightarrow> bool" where
  "is_owner db g u \<longleftrightarrow> (\<exists>gu\<in>set (guilds db). g_ID gu = g \<and> g_OwnerID gu = u)"

definition top_position :: "chat_db \<Rightarrow> uuid \<Rightarrow> uuid \<Rightarrow> int" where
  "top_position db g u = max_or 0 (map rr_position (roles_of db g u))"

definition member_permissions :: "chat_db \<Rightarrow> uuid \<Rightarrow> uuid \<Rightarrow> permissions" where
  "member_permissions db g u = from_int32 (bit_or (map rr_permissions (roles_of db g u)))"

lemma find_guild_owner:
  "distinct (map g_ID (guilds db)) \<Longrightarrow> find_by g_ID (guilds db) g = Some gu \<Longrightarrow> g_OwnerID gu = u \<longleftrightarrow> is_owner db g u"
  by (auto simp: is_owner_def dest!: find_by_SomeD dest: distinct_key_eq)

lemma GetAccess_not_member: "\<not> is_member db g u \<Longrightarrow> GetAccess db g u = Inl ErrNotFound"
  using find_by_None_iff [of member_key "members db" "(g, u)"] by (simp add: GetAccess_def is_member_def)

lemma GetAccess_member:
  assumes "guild_schema db" and "is_member db g u"
  shows "GetAccess db g u = Inr (if is_owner db g u then ownerAccess
    else \<lparr>a_Owner = False, a_Permissions = member_permissions db g u, a_TopPosition = top_position db g u\<rparr>)"
proof -
  obtain gm where gm: "find_by member_key (members db) (g, u) = Some gm"
    using assms(2) by (cases "find_by member_key (members db) (g, u)") (auto simp: is_member_def find_by_None_iff)
  then have u: "gm_user gm = u" and "gm \<in> set (members db)" "gm_guild gm = g"
    by (auto dest: find_by_SomeD)
  with assms(1) have "g \<in> keys g_ID (guilds db)"
    by (auto simp: guild_schema_def guild_refs_def)
  then obtain gu where gu: "find_by g_ID (guilds db) g = Some gu"
    by (cases "find_by g_ID (guilds db) g") (simp_all add: find_by_None_iff)
  then have "g_OwnerID gu = u \<longleftrightarrow> is_owner db g u"
    using assms(1) by (intro find_guild_owner) (simp_all add: guild_schema_def guild_keys_def)
  then show ?thesis
    using gm gu u by (simp add: GetAccess_def Let_def member_permissions_def top_position_def)
qed

lemma GetAccess_Inr:
  assumes "guild_schema db"
  shows "GetAccess db g u = Inr a \<longleftrightarrow> is_member db g u \<and>
    a = (if is_owner db g u then ownerAccess
         else \<lparr>a_Owner = False, a_Permissions = member_permissions db g u, a_TopPosition = top_position db g u\<rparr>)"
  using GetAccess_member [OF assms, of g u] GetAccess_not_member [of db g u]
  by (cases "is_member db g u") auto

lemma bit_member_permissions:
  "bit (member_permissions db g u) n \<longleftrightarrow> (\<exists>r\<in>set (roles_of db g u). bit (from_int32 (rr_permissions r)) n)"
  by (simp add: member_permissions_def bit_from_int32_bit_or)

lemma require_Inr: "require db u g p = Inr a \<longleftrightarrow> GetAccess db g u = Inr a \<and> Has a p"
  by (auto simp: require_def split: sum.splits)

lemma require_not_member: "\<not> is_member db g u \<Longrightarrow> require db u g p = Inl ErrNotFound"
  by (simp add: require_def GetAccess_not_member)

subsection \<open>The list of roles\<close>

lemma scanRole_simps [simp]:
  "r_ID (scanRole r) = rr_id r" "r_GuildID (scanRole r) = rr_guild r" "r_Name (scanRole r) = rr_name r"
  "r_Color (scanRole r) = rr_color r" "r_Permissions (scanRole r) = from_int32 (rr_permissions r)"
  "r_Position (scanRole r) = rr_position r" "r_Managed (scanRole r) = rr_managed r"
  "r_IsDefault (scanRole r) = rr_default r" "r_CreatedAt (scanRole r) = rr_created r"
  by (simp_all add: scanRole_def)

lemma Store_ListRoles_set:
  "Store_ListRoles db g = Inr rs \<Longrightarrow> set rs = scanRole ` {r \<in> set (roles db). rr_guild r = g}"
  by (auto simp: Store_ListRoles_def)

lemma Store_ListRoles_nonempty:
  assumes "roles_inv db" and "g \<in> keys g_ID (guilds db)" and "Store_ListRoles db g = Inr rs"
  shows "rs \<noteq> []"
proof -
  from assms(1,2) have "length (default_roles db g) = 1"
    by (auto simp: roles_inv_def)
  then have "default_roles db g \<noteq> []"
    by auto
  then obtain r where "r \<in> set (roles db)" "rr_guild r = g"
    by (auto simp: default_roles_def filter_empty_conv)
  with Store_ListRoles_set [OF assms(3)] show ?thesis
    by force
qed

lemma Store_ListRoles_last:
  assumes "Store_ListRoles db g = Inr rs" and "r \<in> set (roles db)" and "rr_guild r = g"
  shows "rr_position r \<le> r_Position (last rs)"
proof -
  let ?k = "\<lambda>r. (rr_position r, rr_id r)" and ?rs = "filter (\<lambda>r. rr_guild r = g) (roles db)"
  let ?s = "sort_key ?k ?rs"
  have r: "r \<in> set ?s"
    using assms(2,3) by simp
  then have ne: "?s \<noteq> []"
    by (metis empty_iff empty_set)
  from r obtain i where i: "i < length ?s" "?s ! i = r"
    unfolding in_set_conv_nth by blast
  have "sorted (map ?k ?s)"
    by simp
  then have "map ?k ?s ! i \<le> map ?k ?s ! (length ?s - 1)"
    using i by (intro sorted_nth_mono) auto
  then have "?k r \<le> ?k (last ?s)"
    using i ne by (simp add: last_conv_nth)
  moreover have "r_Position (last rs) = rr_position (last ?s)"
    using assms(1) ne by (auto simp: Store_ListRoles_def last_map)
  ultimately show ?thesis
    by (auto simp: less_eq_prod_def)
qed

lemma findRole_Inr:
  assumes "findRole db g i = Inr role"
  obtains r where "r \<in> set (roles db)" and "role_key r = (g, i)" and "role = scanRole r"
  using assms by (auto simp: findRole_def Store_ListRoles_def role_key_def split: option.splits dest!: find_by_SomeD)

lemma find_scanRole:
  assumes "guild_keys db" and "Store_ListRoles db g = Inr rs" and "r \<in> set (roles db)" and "rr_guild r = g"
  shows "find_by r_ID rs (rr_id r) = Some (scanRole r)"
proof (cases "find_by r_ID rs (rr_id r)")
  case None
  then have "rr_id r \<notin> keys r_ID rs"
    by (simp only: find_by_None_iff not_False_eq_True)
  moreover have "scanRole r \<in> set rs"
    using Store_ListRoles_set [OF assms(2)] assms(3,4) by auto
  ultimately show ?thesis
    by (metis imageI scanRole_simps(1))
next
  case (Some x)
  then obtain r' where "x = scanRole r'" "r' \<in> set (roles db)" "rr_id r' = rr_id r"
    using Store_ListRoles_set [OF assms(2)] by (auto dest!: find_by_SomeD)
  moreover from this assms(1,3) have "r' = r"
    by (auto simp: guild_keys_def dest: distinct_key_eq)
  ultimately show ?thesis
    using Some by simp
qed

subsection \<open>What the operations change\<close>

lemma Store_CreateRole_ok:
  "Store_CreateRole db role = (Inr x, db') \<Longrightarrow> \<exists>row. x = scanRole row \<and> db' = db\<lparr>roles := roles db @ [row]\<rparr>
     \<and> rr_id row = r_ID role \<and> rr_id row \<notin> keys rr_id (roles db)
     \<and> rr_guild row = r_GuildID role \<and> rr_guild row \<in> keys g_ID (guilds db) \<and> role_row_ok row
     \<and> \<not> rr_managed row \<and> \<not> rr_default row \<and> rr_position row = r_Position role
     \<and> rr_permissions row = to_int32 (r_Permissions role) \<and> rr_name row = r_Name role"
  by (auto simp: Store_CreateRole_def Let_def split: if_splits)

lemma known_permissions_zero [simp]: "known_permissions 0"
  by (simp add: known_permissions_def)

lemma CreateRole_ok:
  assumes "CreateRole gen now db u g input = (Inr x, db')"
  shows "\<exists>a row. x = scanRole row \<and> db' = db\<lparr>roles := roles db @ [row]\<rparr>
    \<and> GetAccess db g u = Inr a \<and> Has a PermManageRoles
    \<and> rr_id row \<notin> keys rr_id (roles db) \<and> rr_guild row = g \<and> g \<in> keys g_ID (guilds db)
    \<and> role_row_ok row \<and> \<not> rr_managed row \<and> \<not> rr_default row
    \<and> new_role_position db a g = Inr (rr_position row)
    \<and> known_permissions (from_int32 (rr_permissions row)) \<and> Has a (from_int32 (rr_permissions row))"
proof -
  from assms obtain a name color p pos i where *: "GetAccess db g u = Inr a" "Has a PermManageRoles"
      "(case cri_Permissions input of None \<Rightarrow> Inr 0 | Some p \<Rightarrow> validatePermissions p) = Inr p"
      "Has a p" "new_role_position db a g = Inr pos"
      "Store_CreateRole db \<lparr>r_ID = i, r_GuildID = g, r_Name = name, r_Color = color, r_Permissions = p,
         r_Position = pos, r_Managed = False, r_IsDefault = False, r_CreatedAt = now\<rparr> = (Inr x, db')"
    unfolding CreateRole_def returns require_Inr by auto
  then have "known_permissions p"
    by (auto simp: validatePermissions_Inr split: option.splits)
  then have "from_int32 (to_int32 p) = p"
    by (simp add: int32_roundtrip)
  moreover from Store_CreateRole_ok [OF *(6)] obtain row where "x = scanRole row"
      "db' = db\<lparr>roles := roles db @ [row]\<rparr>" "rr_id row \<notin> keys rr_id (roles db)" "rr_guild row = g"
      "g \<in> keys g_ID (guilds db)" "role_row_ok row" "\<not> rr_managed row" "\<not> rr_default row"
      "rr_position row = pos" "rr_permissions row = to_int32 p"
    by auto
  ultimately show ?thesis
    using * \<open>known_permissions p\<close> by (intro exI [of _ a] exI [of _ row]) simp
qed

lemma CreateRole_error: "CreateRole gen now db u g input = (Inl err, db') \<Longrightarrow> db' = db"
  unfolding CreateRole_def Store_CreateRole_def Let_def
  by (auto split: sum.splits if_splits option.splits)

lemma new_role_position_ge_1:
  assumes "guild_inv db" and "new_role_position db a g = Inr n"
  shows "1 \<le> n"
proof (cases "a_Owner a")
  case True
  with assms(2) obtain rs where rs: "Store_ListRoles db g = Inr rs" "rs \<noteq> []" "n = r_Position (last rs) + 1"
    by (auto simp: new_role_position_def split: sum.splits if_splits)
  then obtain r where "r \<in> set (roles db)" "last rs = scanRole r"
    using Store_ListRoles_set [OF rs(1)] last_in_set [OF rs(2)] by auto
  with assms(1) rs show ?thesis
    by (auto simp: guild_inv_defs role_row_ok_def)
next
  case False
  with assms(2) show ?thesis
    by (auto simp: new_role_position_def split: if_splits)
qed

lemma CreateRole_guild_inv:
  assumes "guild_inv db" and "CreateRole gen now db u g input = (res, db')"
  shows "guild_inv db'"
proof (cases res)
  case (Inl err)
  with assms CreateRole_error show ?thesis by blast
next
  case (Inr x)
  with assms(2) CreateRole_ok obtain a row where "db' = db\<lparr>roles := roles db @ [row]\<rparr>"
      "rr_id row \<notin> keys rr_id (roles db)" "rr_guild row \<in> keys g_ID (guilds db)" "role_row_ok row"
      "\<not> rr_managed row" "\<not> rr_default row" "new_role_position db a g = Inr (rr_position row)"
      "known_permissions (from_int32 (rr_permissions row))"
    by (metis (no_types))
  with assms(1) show ?thesis
    by (auto intro!: guild_inv_add_role intro: new_role_position_ge_1)
qed

text \<open>A role update that succeeds rewrites one row of the guild.\<close>

lemma UpdateRole_ok:
  assumes "UpdateRole db u g i input = (Inr x, db')"
  shows "\<exists>a r role. GetAccess db g u = Inr a \<and> Has a PermManageRoles
    \<and> r \<in> set (roles db) \<and> role_key r = (g, i) \<and> r_GuildID role = g \<and> r_ID role = i
    \<and> (Outranks a (rr_position r) \<or> rr_default r)
    \<and> (r_Position role = rr_position r \<or> \<not> rr_default r \<and> 1 \<le> r_Position role \<and> Outranks a (r_Position role))
    \<and> (r_Permissions role = from_int32 (rr_permissions r)
        \<or> known_permissions (r_Permissions role) \<and> Has a (r_Permissions role XOR from_int32 (rr_permissions r)))
    \<and> (rr_default r \<longrightarrow> r_Name role = rr_name r \<and> r_Color role = rr_color r)
    \<and> Store_UpdateRole db role = (Inr x, db')"
proof -
  from assms obtain a role0 role1 role2 role3 role4 where
    a: "GetAccess db g u = Inr a" "Has a PermManageRoles" and find: "findRole db g i = Inr role0"
    and rank: "Outranks a (r_Position role0) \<or> r_IsDefault role0"
    and dflt: "\<not> (r_IsDefault role0 \<and> (uri_Name input \<noteq> None \<or> opt_Set (uri_Color input) \<or> uri_Position input \<noteq> None))"
    and patch: "patch_name input role0 = Inr role1" "patch_color input role1 = Inr role2"
      "patch_permissions a input role2 = Inr role3" "patch_position a input role3 = Inr role4"
    and store: "Store_UpdateRole db role4 = (Inr x, db')"
    unfolding UpdateRole_def returns require_Inr by blast
  from find obtain r where r: "r \<in> set (roles db)" "role_key r = (g, i)" "role0 = scanRole r"
    by (rule findRole_Inr)
  have 1: "r_GuildID role4 = r_GuildID role0" "r_ID role4 = r_ID role0"
    "r_Position role4 = r_Position role0 \<or> uri_Position input \<noteq> None \<and> 1 \<le> r_Position role4 \<and> Outranks a (r_Position role4)"
    "r_Permissions role4 = r_Permissions role0 \<or> known_permissions (r_Permissions role4) \<and> Has a (r_Permissions role4 XOR r_Permissions role0)"
    "uri_Name input = None \<longrightarrow> r_Name role4 = r_Name role0" "\<not> opt_Set (uri_Color input) \<longrightarrow> r_Color role4 = r_Color role0"
    using patch by (auto simp: patch_name_def patch_color_def patch_permissions_def patch_position_def
        validatePermissions_Inr returns split: option.splits if_splits)
  have "r_GuildID role4 = g \<and> r_ID role4 = i"
    using 1(1,2) r(2,3) by (simp add: role_key_def)
  then show ?thesis
    using a rank dflt store r 1(3-6) by (intro exI [of _ a] exI [of _ r] exI [of _ role4]) auto
qed

lemma UpdateRole_error: "UpdateRole db u g i input = (Inl err, db') \<Longrightarrow> db' = db"
  unfolding UpdateRole_def Store_UpdateRole_def
  by (auto split: sum.splits if_splits option.splits)

lemma Store_UpdateRole_ok:
  "Store_UpdateRole db role = (Inr x, db') \<Longrightarrow> \<exists>r. r \<in> set (roles db) \<and> role_key r = (r_GuildID role, r_ID role)
     \<and> role_row_ok (set_role role r) \<and> x = scanRole (set_role role r)
     \<and> db' = db\<lparr>roles := update_where (\<lambda>r. role_key r = (r_GuildID role, r_ID role)) (set_role role) (roles db)\<rparr>"
  by (auto simp: Store_UpdateRole_def returns dest!: find_by_SomeD)

lemma set_role_simps [simp]:
  "rr_id (set_role role r) = rr_id r" "rr_guild (set_role role r) = rr_guild r" "rr_name (set_role role r) = r_Name role"
  "rr_color (set_role role r) = r_Color role" "rr_permissions (set_role role r) = to_int32 (r_Permissions role)"
  "rr_position (set_role role r) = r_Position role" "rr_managed (set_role role r) = rr_managed r"
  "rr_default (set_role role r) = rr_default r" "rr_created (set_role role r) = rr_created r"
  "role_key (set_role role r) = role_key r"
  by (simp_all add: set_role_def role_key_def)

lemma role_key_unique:
  "guild_keys db \<Longrightarrow> r \<in> set (roles db) \<Longrightarrow> r' \<in> set (roles db) \<Longrightarrow> rr_id r = rr_id r' \<Longrightarrow> r = r'"
  by (auto simp: guild_keys_def dest: distinct_key_eq)

lemma UpdateRole_guild_inv:
  assumes inv: "guild_inv db" and "UpdateRole db u g i input = (res, db')"
  shows "guild_inv db'"
proof (cases res)
  case (Inl err)
  with assms UpdateRole_error show ?thesis by blast
next
  case (Inr x)
  with assms(2) have "UpdateRole db u g i input = (Inr x, db')" by simp
  from UpdateRole_ok [OF this] obtain a r role where
    r: "r \<in> set (roles db)" "role_key r = (g, i)" "r_GuildID role = g" "r_ID role = i"
    and pos: "r_Position role = rr_position r \<or> \<not> rr_default r \<and> 1 \<le> r_Position role"
    and perm: "r_Permissions role = from_int32 (rr_permissions r) \<or> known_permissions (r_Permissions role)"
    and store: "Store_UpdateRole db role = (Inr x, db')"
    by auto
  from Store_UpdateRole_ok [OF store] obtain r' where
    r': "r' \<in> set (roles db)" "role_key r' = (g, i)" "role_row_ok (set_role role r')"
    and db': "db' = db\<lparr>roles := update_where (\<lambda>r. role_key r = (g, i)) (set_role role) (roles db)\<rparr>"
    using r by auto
  have keys: "guild_keys db"
    using inv by (simp add: guild_inv_def guild_schema_def)
  have one: "r'' = r" if "r'' \<in> set (roles db)" "role_key r'' = (g, i)" for r''
    using role_key_unique [OF keys that(1) r(1)] that(2) r(2) by (simp add: role_key_def)
  have "known_permissions (from_int32 (rr_permissions r))" "\<not> rr_default r \<longrightarrow> 1 \<le> rr_position r"
    using inv r(1) by (auto simp: guild_inv_def roles_inv_def)
  then have new: "known_permissions (from_int32 (to_int32 (r_Permissions role)))" "\<not> rr_default r \<longrightarrow> 1 \<le> r_Position role"
    using pos perm by (auto simp: int32_roundtrip)
  show ?thesis
    unfolding db'
  proof (rule guild_inv_update_role [OF inv])
    fix r'' assume "r'' \<in> set (roles db)" and "role_key r'' = (g, i)"
    then have "r'' = r" by (rule one)
    with new r'(3) one [OF r'(1,2)] show "role_row_ok (set_role role r'') \<and> (\<not> rr_default r'' \<longrightarrow> 1 \<le> rr_position (set_role role r''))
        \<and> known_permissions (from_int32 (rr_permissions (set_role role r'')))"
      by simp
  qed simp_all
qed

lemma DeleteRole_ok:
  assumes "DeleteRole db u g i = (Inr x, db')"
  shows "\<exists>a r. GetAccess db g u = Inr a \<and> Has a PermManageRoles \<and> r \<in> set (roles db) \<and> role_key r = (g, i)
    \<and> \<not> rr_managed r \<and> Outranks a (rr_position r)
    \<and> db' = drop_roles (\<lambda>r. role_key r = (g, i) \<and> \<not> rr_managed r) db"
proof -
  from assms obtain a role where
    *: "GetAccess db g u = Inr a" "Has a PermManageRoles" "findRole db g i = Inr role" "\<not> r_Managed role"
       "Outranks a (r_Position role)" "Store_DeleteRole db g i = (Inr x, db')"
    unfolding DeleteRole_def returns require_Inr by auto
  from *(3) obtain r where r: "r \<in> set (roles db)" "role_key r = (g, i)" "role = scanRole r"
    by (rule findRole_Inr)
  have "db' = drop_roles (\<lambda>r. role_key r = (g, i) \<and> \<not> rr_managed r) db"
    using *(6) by (auto simp: Store_DeleteRole_def Let_def split: if_splits)
  with * r show ?thesis
    by (intro exI [of _ a] exI [of _ r]) simp
qed

lemma DeleteRole_error: "DeleteRole db u g i = (Inl err, db') \<Longrightarrow> db' = db"
  unfolding DeleteRole_def Store_DeleteRole_def Let_def by (auto split: sum.splits if_splits)

lemma DeleteRole_guild_inv:
  assumes "guild_inv db" and "DeleteRole db u g i = (res, db')"
  shows "guild_inv db'"
proof (cases res)
  case (Inl err)
  with assms DeleteRole_error show ?thesis by blast
next
  case (Inr x)
  with assms(2) DeleteRole_ok have "db' = drop_roles (\<lambda>r. role_key r = (g, i) \<and> \<not> rr_managed r) db"
    by blast
  with assms(1) show ?thesis
    by (auto intro: guild_inv_drop_roles)
qed

lemma insert_member_roles_Some:
  "insert_member_roles db g u ids = Some db' \<Longrightarrow>
     db' = db\<lparr>member_roles := member_roles db @ map (\<lambda>i. (g, u, i)) ids\<rparr> \<and> distinct ids
     \<and> (\<forall>i\<in>set ids. (g, u, i) \<notin> set (member_roles db) \<and> (g, i) \<in> keys role_key (roles db))
     \<and> (ids \<noteq> [] \<longrightarrow> is_member db g u)"
proof (induction ids arbitrary: db)
  case (Cons i ids)
  then obtain db1 where 1: "insert_member_role db g u i = Some db1" "insert_member_roles db1 g u ids = Some db'"
    by (auto split: option.splits)
  then have "db1 = db\<lparr>member_roles := member_roles db @ [(g, u, i)]\<rparr>"
      "(g, u, i) \<notin> set (member_roles db)" "is_member db g u" "(g, i) \<in> keys role_key (roles db)"
    by (auto simp: insert_member_role_def split: if_splits)
  with Cons.IH [OF 1(2)] show ?case
    by (auto simp: is_member_def)
qed simp

lemma SetMemberRoles_ok:
  "SetMemberRoles db g u ids = (Inr x, db') \<Longrightarrow>
     db' = db\<lparr>member_roles := delete_where (\<lambda>(g', u', _). (g', u') = (g, u)) (member_roles db) @ map (\<lambda>i. (g, u, i)) ids\<rparr>
     \<and> distinct ids \<and> (\<forall>i\<in>set ids. (g, i) \<in> keys role_key (roles db)) \<and> (ids \<noteq> [] \<longrightarrow> is_member db g u)"
  by (auto simp: SetMemberRoles_def clear_member_roles_def is_member_def split: option.splits dest!: insert_member_roles_Some)

lemma assignRoles_ok:
  assumes "assignRoles uuid_String db a m requested = (Inr x, db')"
  obtains rs where "Store_ListRoles db (mb_GuildID m) = Inr rs"
    and "\<forall>i\<in>set requested. assignable rs i"
    and "\<forall>i\<in>set requested. i \<notin> set (mb_RoleIDs m) \<longrightarrow> Outranks a (byID_Position rs i)"
    and "\<forall>i\<in>set (mb_RoleIDs m). i \<notin> set requested \<longrightarrow> Outranks a (byID_Position rs i)"
    and "SetMemberRoles db (mb_GuildID m) (us_ID (mb_User m)) (sort (remdups requested)) = (Inr x, db')"
  using assms unfolding assignRoles_def returns Let_def
  by (auto simp: list_ex_iff find_None_iff returns split: option.splits)

lemma assignRoles_error: "assignRoles uuid_String db a m requested = (Inl err, db') \<Longrightarrow> db' = db"
  unfolding assignRoles_def SetMemberRoles_def Let_def by (auto split: sum.splits if_splits option.splits)

lemma assignable_not_managed:
  assumes "guild_keys db" and "Store_ListRoles db g = Inr rs" and "assignable rs i"
  shows "\<exists>r\<in>set (roles db). role_key r = (g, i) \<and> \<not> rr_managed r"
proof -
  from assms(3) obtain role where "role \<in> set rs" "r_ID role = i" "\<not> r_Managed role"
    by (auto simp: assignable_def split: option.splits dest!: find_by_SomeD)
  with Store_ListRoles_set [OF assms(2)] show ?thesis
    by (auto simp: role_key_def)
qed

lemma assignRoles_guild_inv:
  assumes inv: "guild_inv db" and "assignRoles uuid_String db a m requested = (res, db')"
  shows "guild_inv db'"
proof (cases res)
  case (Inl err)
  with assms assignRoles_error show ?thesis by blast
next
  case (Inr x)
  let ?g = "mb_GuildID m" and ?u = "us_ID (mb_User m)"
  from assms(2) Inr have "assignRoles uuid_String db a m requested = (Inr x, db')" by simp
  then obtain rs where rs: "Store_ListRoles db ?g = Inr rs" "\<forall>i\<in>set requested. assignable rs i"
    and set: "SetMemberRoles db ?g ?u (sort (remdups requested)) = (Inr x, db')"
    by (rule assignRoles_ok)
  note ok = SetMemberRoles_ok [OF set]
  have keys: "guild_keys db"
    using inv by (simp add: guild_inv_def guild_schema_def)
  let ?mrs = "delete_where (\<lambda>(g', u', _). (g', u') = (?g, ?u)) (member_roles db) @ map (\<lambda>i. (?g, ?u, i)) (sort (remdups requested))"
  have "distinct ?mrs"
    using inv by (auto simp: set_delete_where guild_inv_defs distinct_map inj_on_def intro!: distinct_delete_where)
  moreover have "is_member db g u \<and> (g, r) \<in> keys role_key (roles db) \<and> (\<forall>ro\<in>set (roles db). rr_id ro = r \<longrightarrow> \<not> rr_managed ro)"
    if "(g, u, r) \<in> set ?mrs" for g u r
  proof (cases "(g, u, r) \<in> set (member_roles db)")
    case True
    with inv show ?thesis by (auto simp: guild_inv_defs)
  next
    case False
    with that have *: "g = ?g" "u = ?u" "r \<in> set requested"
      by (auto simp: set_delete_where)
    with assignable_not_managed [OF keys rs(1), of r] rs(2) obtain r' where
      "r' \<in> set (roles db)" "role_key r' = (g, r)" "\<not> rr_managed r'"
      by auto
    moreover from this have "\<not> rr_managed ro" if "ro \<in> set (roles db)" "rr_id ro = r" for ro
      using role_key_unique [OF keys that(1), of r'] that by (auto simp: role_key_def)
    moreover have "is_member db g u"
      using ok * by (metis empty_iff list.set(1) set_remdups set_sort)
    ultimately show ?thesis
      by (metis imageI)
  qed
  ultimately have "guild_inv (db\<lparr>member_roles := ?mrs\<rparr>)"
    using inv by (intro guild_inv_member_roles) blast+
  with ok show ?thesis by metis
qed

end
