(* ===== verification/Role_Ranks.thy ===== *)
theory Role_Ranks
  imports Roles
begin

section \<open>Ranks\<close>

text \<open>
  What the role operations do to the ranks and the permissions of the members of a guild. A
  caller who is not the owner acts below its own top position: members at or above it keep
  their top position, members below it stay below. Changes of a permission set stay inside the
  permissions the caller holds.
\<close>

definition positions :: "chat_db \<Rightarrow> uuid \<Rightarrow> uuid \<Rightarrow> int set" where
  "positions db g u = rr_position ` set (roles_of db g u)"

definition ranks_kept :: "int \<Rightarrow> uuid \<Rightarrow> chat_db \<Rightarrow> chat_db \<Rightarrow> bool" where
  "ranks_kept t g db db' \<longleftrightarrow> (\<forall>u.
     (t \<le> top_position db g u \<longrightarrow> top_position db' g u = top_position db g u)
     \<and> (top_position db g u < t \<longrightarrow> top_position db' g u < t))"

lemma ranks_kept_refl [simp]: "ranks_kept t g db db"
  by (simp add: ranks_kept_def)

lemma positions_nonneg:
  assumes "guild_inv db" and "p \<in> positions db g u"
  shows "0 \<le> p"
  using assms by (auto simp: positions_def roles_of_def guild_inv_def guild_schema_def guild_checks_def role_row_ok_def)

lemma ranks_keptI:
  assumes "guild_inv db" and "guild_inv db'" and "0 \<le> t"
    and "\<And>u p. t \<le> p \<Longrightarrow> p \<in> positions db g u \<longleftrightarrow> p \<in> positions db' g u"
  shows "ranks_kept t g db db'"
  unfolding ranks_kept_def top_position_def
proof
  fix u
  show "(t \<le> max_or 0 (map rr_position (roles_of db g u)) \<longrightarrow>
          max_or 0 (map rr_position (roles_of db' g u)) = max_or 0 (map rr_position (roles_of db g u)))
      \<and> (max_or 0 (map rr_position (roles_of db g u)) < t \<longrightarrow> max_or 0 (map rr_position (roles_of db' g u)) < t)"
    using assms positions_nonneg [of db _ g u] positions_nonneg [of db' _ g u]
    by (intro max_or_above) (auto simp: positions_def)
qed

lemma top_position_nonneg: "guild_inv db \<Longrightarrow> 0 \<le> top_position db g u"
  using positions_nonneg [of db "top_position db g u" g u] max_or_in [of "map rr_position (roles_of db g u)" 0]
  by (cases "roles_of db g u") (auto simp: top_position_def positions_def)

text \<open>The authority of a caller who is not the owner.\<close>

lemma plain_access:
  assumes "guild_inv db" and "GetAccess db g u = Inr a" and "\<not> is_owner db g u"
  shows "is_member db g u" and "\<not> a_Owner a" and "a_TopPosition a = top_position db g u"
    and "a_Permissions a = member_permissions db g u" and "0 \<le> a_TopPosition a"
  using assms by (auto simp: guild_inv_def GetAccess_Inr intro: top_position_nonneg)

lemma plain_Outranks: "\<not> a_Owner a \<Longrightarrow> Outranks a n \<longleftrightarrow> n < a_TopPosition a"
  by (auto simp: Outranks_def)

lemma plain_Has: "\<not> a_Owner a \<Longrightarrow> Has a p \<longleftrightarrow> (\<forall>n. bit p n \<longrightarrow> bit (a_Permissions a) n)"
  by (simp add: Has_iff_bits)

subsection \<open>Creating a role\<close>

lemma roles_of_new_role:
  assumes inv: "guild_inv db" and "rr_id row \<notin> keys rr_id (roles db)" and "\<not> rr_default row"
  shows "roles_of (db\<lparr>roles := roles db @ [row]\<rparr>) g u = roles_of db g u"
proof -
  have "(g', u', rr_id row) \<notin> set (member_roles db)" for g' u'
    using assms(2) inv by (force simp: guild_inv_def guild_schema_def guild_refs_def role_key_def)
  with assms(3) show ?thesis
    by (simp add: roles_of_def)
qed

lemma CreateRole_keeps_access:
  assumes "guild_inv db" and "CreateRole gen now db u g input = (res, db')"
  shows "GetAccess db' g' u' = GetAccess db g' u'"
proof (cases res)
  case (Inl err)
  with assms(2) CreateRole_error show ?thesis by blast
next
  case (Inr x)
  with assms(2) CreateRole_ok obtain row where
    "db' = db\<lparr>roles := roles db @ [row]\<rparr>" "rr_id row \<notin> keys rr_id (roles db)" "\<not> rr_default row"
    by (metis (no_types))
  with assms(1) show ?thesis
    by (simp add: GetAccess_def roles_of_new_role cong: option.case_cong)
qed

lemma CreateRole_ranks:
  assumes "guild_inv db" and "CreateRole gen now db u g input = (res, db')"
  shows "ranks_kept t g' db db'"
proof (cases res)
  case (Inl err)
  with assms(2) CreateRole_error show ?thesis by (metis ranks_kept_refl)
next
  case (Inr x)
  with assms(2) CreateRole_ok obtain row where
    "db' = db\<lparr>roles := roles db @ [row]\<rparr>" "rr_id row \<notin> keys rr_id (roles db)" "\<not> rr_default row"
    by (metis (no_types))
  with assms(1) show ?thesis
    by (simp add: ranks_kept_def top_position_def roles_of_new_role)
qed

subsection \<open>Updating a role\<close>

lemma roles_of_update_role:
  assumes "\<And>r. rr_id (f r) = rr_id r" "\<And>r. rr_guild (f r) = rr_guild r" "\<And>r. rr_default (f r) = rr_default r"
  shows "roles_of (db\<lparr>roles := update_where p f (roles db)\<rparr>) g u
    = map (\<lambda>r. if p r then f r else r) (roles_of db g u)"
  by (induction "roles db") (auto simp: roles_of_def update_where_def filter_map comp_def assms if_distrib cong: if_cong)

lemma UpdateRole_ranks:
  assumes inv: "guild_inv db" and run: "UpdateRole db u g i input = (res, db')"
    and access: "GetAccess db g u = Inr a" and plain: "\<not> is_owner db g u"
  shows "ranks_kept (a_TopPosition a) g db db'"
proof (cases res)
  case (Inl err)
  with run UpdateRole_error show ?thesis by (metis ranks_kept_refl)
next
  case (Inr x)
  note plain = plain_access [OF inv access plain]
  from run Inr have "UpdateRole db u g i input = (Inr x, db')" by simp
  from UpdateRole_ok [OF this] access obtain r role where
    r: "r \<in> set (roles db)" "role_key r = (g, i)" "r_GuildID role = g" "r_ID role = i"
    and rank: "rr_position r < a_TopPosition a \<or> rr_default r"
    and pos: "r_Position role = rr_position r \<or> \<not> rr_default r \<and> r_Position role < a_TopPosition a"
    and store: "Store_UpdateRole db role = (Inr x, db')"
    by (auto simp: plain_Outranks [OF plain(2)])
  let ?p = "\<lambda>r. role_key r = (g, i)"
  from Store_UpdateRole_ok [OF store] r have db': "db' = db\<lparr>roles := update_where ?p (set_role role) (roles db)\<rparr>"
    by auto
  have one: "r'' = r" if "r'' \<in> set (roles db)" "?p r''" for r''
    using role_key_unique [OF _ that(1) r(1)] that(2) r(2) inv by (simp add: role_key_def guild_inv_def guild_schema_def)
  have roles_of': "roles_of db' g w = map (\<lambda>r. if ?p r then set_role role r else r) (roles_of db g w)" for w
    unfolding db' by (rule roles_of_update_role) simp_all
  show ?thesis
  proof (rule ranks_keptI [OF inv UpdateRole_guild_inv [OF inv run] plain(5)])
    fix w p assume p: "a_TopPosition a \<le> p"
    have same: "p = rr_position (set_role role r'') \<longleftrightarrow> p = rr_position r''"
      if "r'' \<in> set (roles_of db g w)" "?p r''" for r''
      using that one [of r''] pos rank p by (auto simp: roles_of_def)
    have "p \<in> positions db' g w \<longleftrightarrow> (\<exists>r''\<in>set (roles_of db g w). p = rr_position (if ?p r'' then set_role role r'' else r''))"
      by (simp only: positions_def roles_of' set_map image_image image_iff)
    also have "\<dots> \<longleftrightarrow> (\<exists>r''\<in>set (roles_of db g w). p = rr_position r'')"
      using same by (intro bex_cong refl) (simp split: if_split)
    also have "\<dots> \<longleftrightarrow> p \<in> positions db g w"
      by (auto simp: positions_def)
    finally show "p \<in> positions db g w \<longleftrightarrow> p \<in> positions db' g w" by simp
  qed
qed

lemma UpdateRole_changes_held_permissions:
  assumes inv: "guild_inv db" and run: "UpdateRole db u g i input = (res, db')"
    and access: "GetAccess db g u = Inr a" and plain: "\<not> is_owner db g u"
    and changed: "bit (member_permissions db g w) n \<noteq> bit (member_permissions db' g w) n"
  shows "bit (a_Permissions a) n"
proof (cases res)
  case (Inl err)
  with run changed UpdateRole_error show ?thesis by metis
next
  case (Inr x)
  note plain = plain_access [OF inv access plain]
  from run Inr have "UpdateRole db u g i input = (Inr x, db')" by simp
  from UpdateRole_ok [OF this] access obtain r role where
    r: "r \<in> set (roles db)" "role_key r = (g, i)" "r_GuildID role = g" "r_ID role = i"
    and perm: "r_Permissions role = from_int32 (rr_permissions r)
        \<or> known_permissions (r_Permissions role) \<and> Has a (r_Permissions role XOR from_int32 (rr_permissions r))"
    and store: "Store_UpdateRole db role = (Inr x, db')"
    by auto
  let ?p = "\<lambda>r. role_key r = (g, i)"
  from Store_UpdateRole_ok [OF store] r have db': "db' = db\<lparr>roles := update_where ?p (set_role role) (roles db)\<rparr>"
    by auto
  have one: "r'' = r" if "r'' \<in> set (roles db)" "?p r''" for r''
    using role_key_unique [OF _ that(1) r(1)] that(2) r(2) inv by (simp add: role_key_def guild_inv_def guild_schema_def)
  have roles_of': "roles_of db' g w = map (\<lambda>r. if ?p r then set_role role r else r) (roles_of db g w)"
    unfolding db' by (rule roles_of_update_role) simp_all
  have known: "known_permissions (from_int32 (rr_permissions r))"
    using inv r(1) by (auto simp: guild_inv_def roles_inv_def)
  show ?thesis
  proof (rule ccontr)
    assume n: "\<not> bit (a_Permissions a) n"
    have same: "bit (from_int32 (to_int32 (r_Permissions role))) n \<longleftrightarrow> bit (from_int32 (rr_permissions r)) n"
      using perm
    proof
      assume "r_Permissions role = from_int32 (rr_permissions r)"
      with known show ?thesis by (simp only: int32_roundtrip)
    next
      assume *: "known_permissions (r_Permissions role) \<and> Has a (r_Permissions role XOR from_int32 (rr_permissions r))"
      then have "from_int32 (to_int32 (r_Permissions role)) = r_Permissions role"
        by (simp only: int32_roundtrip)
      moreover have "\<not> bit (r_Permissions role XOR from_int32 (rr_permissions r)) n"
        using * n plain_Has [OF plain(2)] by blast
      ultimately show ?thesis by (simp only: bit_xor_iff not_not)
    qed
    have "bit (member_permissions db' g w) n \<longleftrightarrow>
        (\<exists>r''\<in>set (roles_of db g w). bit (from_int32 (rr_permissions (if ?p r'' then set_role role r'' else r''))) n)"
      by (simp only: bit_member_permissions roles_of' set_map bex_simps)
    also have "\<dots> \<longleftrightarrow> (\<exists>r''\<in>set (roles_of db g w). bit (from_int32 (rr_permissions r'')) n)"
      using same one by (intro bex_cong refl) (auto simp: roles_of_def split: if_split)
    finally show False
      using changed by (simp add: bit_member_permissions)
  qed
qed

subsection \<open>Deleting a role\<close>

lemma roles_of_drop_role:
  assumes "guild_keys db" and "r \<in> set (roles db)" and "role_key r = (g, i)" and "\<not> rr_managed r"
  shows "roles_of (drop_roles (\<lambda>r. role_key r = (g, i) \<and> \<not> rr_managed r) db) g' u
    = filter (\<lambda>r'. r' \<noteq> r) (roles_of db g' u)"
proof -
  have one: "r' \<in> set (roles db) \<Longrightarrow> role_key r' = (g, i) \<and> \<not> rr_managed r' \<longleftrightarrow> r' = r" for r'
    using role_key_unique [OF assms(1) _ assms(2), of r'] assms(3,4) by (auto simp: role_key_def)
  have same_id: "r' \<in> set (roles db) \<Longrightarrow> rr_id r' = i \<Longrightarrow> r' = r" for r'
    using role_key_unique [OF assms(1) _ assms(2), of r'] assms(3) by (auto simp: role_key_def)
  have mr: "(g', u, rr_id r') \<in> set (member_roles (drop_roles (\<lambda>r. role_key r = (g, i) \<and> \<not> rr_managed r) db))
      \<longleftrightarrow> (g', u, rr_id r') \<in> set (member_roles db)"
    if "r' \<in> set (roles db)" "r' \<noteq> r" "rr_guild r' = g'" for r'
    using that one same_id by (auto simp: drop_roles_def Let_def set_delete_where role_key_def)
  show ?thesis
    unfolding roles_of_def frame delete_where_def filter_filter
    using one mr by (intro filter_cong refl) auto
qed

lemma DeleteRole_ranks:
  assumes inv: "guild_inv db" and run: "DeleteRole db u g i = (res, db')"
    and access: "GetAccess db g u = Inr a" and plain: "\<not> is_owner db g u"
  shows "ranks_kept (a_TopPosition a) g db db'"
proof (cases res)
  case (Inl err)
  with run DeleteRole_error show ?thesis by (metis ranks_kept_refl)
next
  case (Inr x)
  note plain = plain_access [OF inv access plain]
  from run Inr DeleteRole_ok access obtain r where
    r: "r \<in> set (roles db)" "role_key r = (g, i)" "\<not> rr_managed r" "Outranks a (rr_position r)"
    and db': "db' = drop_roles (\<lambda>r. role_key r = (g, i) \<and> \<not> rr_managed r) db"
    by (metis (no_types, lifting) sum.inject(2))
  have below: "rr_position r < a_TopPosition a"
    using r(4) plain_Outranks [OF plain(2)] by simp
  have ro: "roles_of db' g w = filter (\<lambda>r'. r' \<noteq> r) (roles_of db g w)" for w
    unfolding db' using inv r by (intro roles_of_drop_role) (simp_all add: guild_inv_def guild_schema_def)
  show ?thesis
    using below by (intro ranks_keptI [OF inv DeleteRole_guild_inv [OF inv run] plain(5)]) (auto simp: positions_def ro)
qed

subsection \<open>Assigning roles\<close>

lemma roles_of_assigned:
  assumes "db' = db\<lparr>member_roles := delete_where (\<lambda>(g', u', _). (g', u') = (g, u)) (member_roles db) @ map (\<lambda>i. (g, u, i)) ids\<rparr>"
  shows "(g', u') \<noteq> (g, u) \<Longrightarrow> roles_of db' g' u' = roles_of db g' u'"
    and "roles_of db' g u = filter (\<lambda>r. rr_guild r = g \<and> (rr_default r \<or> rr_id r \<in> set ids)) (roles db)"
  using assms by (auto simp: roles_of_def set_delete_where intro!: filter_cong)

definition held_roles :: "chat_db \<Rightarrow> uuid \<Rightarrow> uuid \<Rightarrow> uuid set" where
  "held_roles db g u = {i. (g, u, i) \<in> set (member_roles db)}"

lemma assignRoles_ranks:
  assumes inv: "guild_inv db" and run: "assignRoles uuid_String db a m requested = (res, db')"
    and held: "set (mb_RoleIDs m) = held_roles db (mb_GuildID m) (us_ID (mb_User m))"
    and a: "\<not> a_Owner a" "0 \<le> a_TopPosition a"
  shows "ranks_kept (a_TopPosition a) (mb_GuildID m) db db'"
proof (cases res)
  case (Inl err)
  with run assignRoles_error show ?thesis by (metis ranks_kept_refl)
next
  case (Inr x)
  let ?g = "mb_GuildID m" and ?u = "us_ID (mb_User m)"
  from run Inr have "assignRoles uuid_String db a m requested = (Inr x, db')" by simp
  then obtain rs where rs: "Store_ListRoles db ?g = Inr rs"
    and add: "\<forall>i\<in>set requested. i \<notin> set (mb_RoleIDs m) \<longrightarrow> Outranks a (byID_Position rs i)"
    and rem: "\<forall>i\<in>set (mb_RoleIDs m). i \<notin> set requested \<longrightarrow> Outranks a (byID_Position rs i)"
    and set: "SetMemberRoles db ?g ?u (sort (remdups requested)) = (Inr x, db')"
    by (rule assignRoles_ok)
  have keys: "guild_keys db"
    using inv by (simp add: guild_inv_def guild_schema_def)
  note ro = roles_of_assigned [OF conjunct1 [OF SetMemberRoles_ok [OF set]]]
  have kept: "rr_id r \<in> set requested \<longleftrightarrow> (?g, ?u, rr_id r) \<in> set (member_roles db)"
    if "r \<in> set (roles db)" "rr_guild r = ?g" "a_TopPosition a \<le> rr_position r" for r
  proof -
    have "byID_Position rs (rr_id r) = rr_position r"
      using find_scanRole [OF keys rs that(1,2)] by (simp add: byID_Position_def)
    with that(3) have "\<not> Outranks a (byID_Position rs (rr_id r))"
      by (simp add: plain_Outranks [OF a(1)])
    with add rem held show ?thesis
      by (auto simp: held_roles_def)
  qed
  show ?thesis
  proof (rule ranks_keptI [OF inv assignRoles_guild_inv [OF inv run] a(2)])
    fix w p assume p: "a_TopPosition a \<le> p"
    show "p \<in> positions db ?g w \<longleftrightarrow> p \<in> positions db' ?g w"
    proof (cases "w = ?u")
      case False
      then show ?thesis by (simp add: positions_def ro(1))
    next
      case True
      show ?thesis
        using kept p unfolding True positions_def ro(2) roles_of_def [of db] by auto
    qed
  qed
qed

end
