(* ===== verification/Base64.thy ===== *)
theory Base64
  imports Go_Text
begin

section \<open>Base64\<close>

text \<open>
  \<open>encoding/base64\<close> of Go's standard library as the code uses it: \<open>RawURLEncoding\<close> (invite
  codes, page cursors, tokens, PKCE challenges) and \<open>RawStdEncoding\<close> (password hashes).
\<close>

subsection \<open>The alphabet\<close>

definition b64_char :: "nat \<Rightarrow> char" where
  "b64_char i = (if i < 26 then char_of (65 + i) else if i < 52 then char_of (71 + i)
     else if i < 62 then char_of (i - 4) else if i = 62 then CHR ''-'' else CHR ''_'')"

definition b64_index :: "char \<Rightarrow> nat option" where
  "b64_index c = (let n = of_char c :: nat in
     if 65 \<le> n \<and> n \<le> 90 then Some (n - 65) else if 97 \<le> n \<and> n \<le> 122 then Some (n - 71)
     else if 48 \<le> n \<and> n \<le> 57 then Some (n + 4) else if n = 45 then Some 62
     else if n = 95 then Some 63 else None)"

lemma b64_index_char: "i < 64 \<Longrightarrow> b64_index (b64_char i) = Some i"
  by (auto simp: b64_index_def b64_char_def Let_def)

subsection \<open>Encoding\<close>

fun b64_sextets :: "nat list \<Rightarrow> nat list" where
  "b64_sextets (a # b # c # bs) =
     a div 4 # ((a mod 4) * 16 + b div 16) # ((b mod 16) * 4 + c div 64) # c mod 64 # b64_sextets bs"
| "b64_sextets [a, b] = [a div 4, (a mod 4) * 16 + b div 16, (b mod 16) * 4]"
| "b64_sextets [a] = [a div 4, (a mod 4) * 16]"
| "b64_sextets [] = []"

definition RawURLEncoding_EncodeToString :: "string \<Rightarrow> string" where
  "RawURLEncoding_EncodeToString s = map b64_char (b64_sextets (map of_char s))"

text \<open>\<open>DecodeString\<close> skips line breaks, refuses other bytes and a lone last character, and
  ignores the spare bits of the last one.\<close>

fun b64_octets :: "nat list \<Rightarrow> nat list option" where
  "b64_octets (w # x # y # z # ss) =
     (case b64_octets ss of None \<Rightarrow> None
      | Some bs \<Rightarrow> Some ((w * 4 + x div 16) # ((x mod 16) * 16 + y div 4) # ((y mod 4) * 64 + z) # bs))"
| "b64_octets [w, x, y] = Some [w * 4 + x div 16, (x mod 16) * 16 + y div 4]"
| "b64_octets [w, x] = Some [w * 4 + x div 16]"
| "b64_octets [w] = None"
| "b64_octets [] = Some []"

definition RawURLEncoding_DecodeString :: "string \<Rightarrow> string option" where
  "RawURLEncoding_DecodeString s =
     (let ds = map b64_index (filter (\<lambda>c. c \<noteq> CHR 0x0A \<and> c \<noteq> CHR 0x0D) s) in
      if None \<in> set ds then None
      else (case b64_octets (map the ds) of None \<Rightarrow> None | Some bs \<Rightarrow> Some (map char_of bs)))"

lemma b64_sextets_less: "\<forall>b\<in>set bs. b < 256 \<Longrightarrow> i \<in> set (b64_sextets bs) \<Longrightarrow> i < 64"
  by (induction bs rule: b64_sextets.induct) auto

lemma b64_octets_sextets: "\<forall>b\<in>set bs. b < 256 \<Longrightarrow> b64_octets (b64_sextets bs) = Some bs"
  by (induction bs rule: b64_sextets.induct) auto

lemma length_b64_sextets: "length (b64_sextets bs) = (4 * length bs + 2) div 3"
  by (induction bs rule: b64_sextets.induct) auto

lemma b64_char_not_break: "i < 64 \<Longrightarrow> b64_char i \<noteq> CHR 0x0A \<and> b64_char i \<noteq> CHR 0x0D"
  using b64_index_char [of i] by (auto simp: b64_index_def)

lemma of_char_less_256: "b \<in> set (map of_char (s :: string)) \<Longrightarrow> b < (256 :: nat)"
  using nat_of_char_less_256 by auto

lemma RawURLEncoding_roundtrip:
  "RawURLEncoding_DecodeString (RawURLEncoding_EncodeToString s) = Some s"
proof -
  let ?bs = "map of_char s :: nat list"
  let ?is = "b64_sextets ?bs"
  have bs: "\<forall>b\<in>set ?bs. b < 256"
    using of_char_less_256 by blast
  then have less: "\<forall>i\<in>set ?is. i < 64"
    using b64_sextets_less by blast
  then have "filter (\<lambda>c. c \<noteq> CHR 0x0A \<and> c \<noteq> CHR 0x0D) (map b64_char ?is) = map b64_char ?is"
    by (intro filter_True) (auto dest: b64_char_not_break)
  moreover have "map b64_index (map b64_char ?is) = map Some ?is"
    using less by (auto simp: b64_index_char)
  moreover have "None \<notin> set (map Some ?is)"
    by auto
  moreover have "map char_of ?bs = s"
    by (simp add: map_idI)
  ultimately show ?thesis
    using b64_octets_sextets [OF bs]
    by (simp only: RawURLEncoding_DecodeString_def RawURLEncoding_EncodeToString_def Let_def if_False
        list.map_comp comp_def option.sel option.simps list.map_ident)
qed

lemma length_RawURLEncoding: "length (RawURLEncoding_EncodeToString s) = (4 * length s + 2) div 3"
  by (simp add: RawURLEncoding_EncodeToString_def length_b64_sextets)

subsection \<open>The standard alphabet\<close>

definition std_of_url :: "char \<Rightarrow> char" where
  "std_of_url c = (if c = CHR ''-'' then CHR ''+'' else if c = CHR ''_'' then CHR ''/'' else c)"

definition url_of_std :: "char \<Rightarrow> char" where
  "url_of_std c = (if c = CHR ''+'' then CHR ''-'' else if c = CHR ''/'' then CHR ''_'' else c)"

definition RawStdEncoding_EncodeToString :: "string \<Rightarrow> string" where
  "RawStdEncoding_EncodeToString s = map std_of_url (RawURLEncoding_EncodeToString s)"

text \<open>\<open>RawStdEncoding.Strict()\<close> also refuses spare bits that are not zero.\<close>

definition spare_bits_zero :: "nat list \<Rightarrow> bool" where
  "spare_bits_zero ss \<longleftrightarrow>
     (if length ss mod 4 = 2 then last ss mod 16 = 0 else if length ss mod 4 = 3 then last ss mod 4 = 0 else True)"

definition StrictStdEncoding_DecodeString :: "string \<Rightarrow> string option" where
  "StrictStdEncoding_DecodeString s =
     (let cs = filter (\<lambda>c. c \<noteq> CHR 0x0A \<and> c \<noteq> CHR 0x0D) s in
      if CHR ''-'' \<in> set cs \<or> CHR ''_'' \<in> set cs then None
      else let ds = map b64_index (map url_of_std cs) in
        if None \<in> set ds \<or> \<not> spare_bits_zero (map the ds) then None
        else (case b64_octets (map the ds) of None \<Rightarrow> None | Some bs \<Rightarrow> Some (map char_of bs)))"

lemma spare_bits_sextets: "spare_bits_zero (b64_sextets bs)"
proof (induction bs rule: b64_sextets.induct)
  case (1 a b c bs)
  then show ?case
    by (cases "b64_sextets bs = []") (auto simp: spare_bits_zero_def)
qed (auto simp: spare_bits_zero_def mod_mult_self2)

lemma b64_char_std: "i < 64 \<Longrightarrow> url_of_std (std_of_url (b64_char i)) = b64_char i
    \<and> std_of_url (b64_char i) \<notin> {CHR ''-'', CHR ''_'', CHR 0x0A, CHR 0x0D}"
proof -
  assume "i < 64"
  then have "b64_index (b64_char i) = Some i"
    by (rule b64_index_char)
  then have "b64_char i \<notin> {CHR ''+'', CHR ''/'', CHR 0x0A, CHR 0x0D}"
    by (auto simp: b64_index_def)
  then show ?thesis
    by (auto simp: std_of_url_def url_of_std_def)
qed

lemma RawStdEncoding_roundtrip: "StrictStdEncoding_DecodeString (RawStdEncoding_EncodeToString s) = Some s"
proof -
  let ?bs = "map of_char s :: nat list"
  let ?is = "b64_sextets ?bs"
  have bs: "\<forall>b\<in>set ?bs. b < 256"
    using of_char_less_256 by blast
  then have less: "\<forall>i\<in>set ?is. i < 64"
    using b64_sextets_less by blast
  let ?cs = "map (\<lambda>i. std_of_url (b64_char i)) ?is"
  have E: "RawStdEncoding_EncodeToString s = ?cs"
    by (simp add: RawStdEncoding_EncodeToString_def RawURLEncoding_EncodeToString_def)
  have F: "filter (\<lambda>c. c \<noteq> CHR 0x0A \<and> c \<noteq> CHR 0x0D) ?cs = ?cs"
    using less b64_char_std by (intro filter_True) auto
  have N: "CHR ''-'' \<notin> set ?cs \<and> CHR ''_'' \<notin> set ?cs"
    using less b64_char_std by force
  have M: "map b64_index (map url_of_std ?cs) = map Some ?is"
    using less b64_char_std b64_index_char by simp
  have "map char_of ?bs = s"
    by (simp add: map_idI)
  then show ?thesis
    unfolding StrictStdEncoding_DecodeString_def Let_def E F M
    using N b64_octets_sextets [OF bs] spare_bits_sextets [of ?bs] by (simp add: comp_def image_iff)
qed

lemma RawStdEncoding_chars: "c \<in> set (RawStdEncoding_EncodeToString s) \<Longrightarrow> c \<noteq> CHR ''$''"
proof -
  assume "c \<in> set (RawStdEncoding_EncodeToString s)"
  then obtain i where i: "i \<in> set (b64_sextets (map of_char s))" and c: "c = std_of_url (b64_char i)"
    by (auto simp: RawStdEncoding_EncodeToString_def RawURLEncoding_EncodeToString_def)
  have "i < 64"
    using b64_sextets_less [OF _ i] of_char_less_256 by blast
  then have "b64_char i \<noteq> CHR ''$''"
    using b64_index_char by (fastforce simp: b64_index_def)
  then show ?thesis
    by (auto simp: c std_of_url_def)
qed

lemma b64_char_plain: "i < 64 \<Longrightarrow> plain_char (b64_char i) \<and> plain_char (std_of_url (b64_char i))"
  by (auto simp: plain_char_def b64_char_def std_of_url_def)

lemma b64_plain:
  "list_all plain_char (RawURLEncoding_EncodeToString s)" "list_all plain_char (RawStdEncoding_EncodeToString s)"
proof -
  have "i < 64" if "i \<in> set (b64_sextets (map of_char s))" for i
    using b64_sextets_less [OF _ that] of_char_less_256 by fastforce
  then show "list_all plain_char (RawURLEncoding_EncodeToString s)" "list_all plain_char (RawStdEncoding_EncodeToString s)"
    using b64_char_plain by (auto simp: RawStdEncoding_EncodeToString_def RawURLEncoding_EncodeToString_def list_all_iff)
qed

end
