(* ===== verification/Codec.thy ===== *)
theory Codec
  imports Validation Base64
begin

section \<open>Invite codes and page cursors\<close>

text \<open>
  \<open>base64.RawURLEncoding\<close> of Go's standard library as the code uses it (invite codes, page
  cursors), \<open>encodeCursor\<close> and \<open>decodeCursor\<close> of \<open>internal/chat/service.go\<close>, and
  \<open>newInviteCode\<close> of \<open>internal/chat/members.go\<close>. The JSON text of a cursor is a parameter:
  \<open>json.Marshal\<close> and \<open>json.Unmarshal\<close> for the struct \<open>pageCursor\<close>.
\<close>

lemma is_code_char_b64: "i < 64 \<Longrightarrow> is_code_char (b64_char i)"
  by (auto simp: is_code_char_def between_def is_digit_def b64_char_def)

subsection \<open>Invite codes\<close>

definition inviteCodeBytes :: nat where "inviteCodeBytes = 24"

text \<open>\<open>rand.Read\<close> fills the buffer or fails: the argument is what it left there.\<close>

definition newInviteCode :: "string option \<Rightarrow> string result" where
  "newInviteCode rand =
     (case rand of None \<Rightarrow> Inl (ErrInternal ''generate invite code'')
      | Some buffer \<Rightarrow> Inr (RawURLEncoding_EncodeToString buffer))"

lemma newInviteCode_valid:
  assumes "newInviteCode (Some buffer) = Inr code" and "length buffer = inviteCodeBytes"
  shows "validInviteCode code" and "length code = 32"
proof -
  from assms(1) have code: "code = RawURLEncoding_EncodeToString buffer"
    by (simp add: newInviteCode_def)
  with assms(2) show "length code = 32"
    by (simp add: length_RawURLEncoding inviteCodeBytes_def)
  moreover have "list_all is_code_char code"
    unfolding code RawURLEncoding_EncodeToString_def list_all_iff
  proof
    fix c assume "c \<in> set (map b64_char (b64_sextets (map of_char buffer)))"
    then obtain i where i: "c = b64_char i" "i \<in> set (b64_sextets (map of_char buffer))"
      by auto
    have "i < 64"
      using of_char_less_256 i(2) by (intro b64_sextets_less) blast
    then show "is_code_char c"
      unfolding i(1) by (rule is_code_char_b64)
  qed
  ultimately show "validInviteCode code"
    by (simp add: validInviteCode_def)
qed

subsection \<open>Cursors\<close>

record cursor_json =
  json_Marshal :: "pageCursor \<Rightarrow> string option"
  json_Unmarshal :: "string \<Rightarrow> pageCursor option"

abbreviation cursorGuilds :: string where "cursorGuilds \<equiv> ''guilds''"
abbreviation cursorChannels :: string where "cursorChannels \<equiv> ''channels''"
abbreviation cursorMessages :: string where "cursorMessages \<equiv> ''messages''"
abbreviation cursorThreads :: string where "cursorThreads \<equiv> ''threads''"
abbreviation cursorDirects :: string where "cursorDirects \<equiv> ''directs''"
abbreviation cursorMembers :: string where "cursorMembers \<equiv> ''members''"
abbreviation cursorSearch :: string where "cursorSearch \<equiv> ''search''"

definition encodeCursor :: "cursor_json \<Rightarrow> pageCursor \<Rightarrow> string result" where
  "encodeCursor json cursor =
     (case json_Marshal json cursor of None \<Rightarrow> Inl (ErrInternal ''encode cursor'')
      | Some payload \<Rightarrow> Inr (RawURLEncoding_EncodeToString payload))"

abbreviation invalid_cursor :: chat_error where
  "invalid_cursor \<equiv> ValidationError ''cursor'' ''is invalid''"

definition decodeCursor :: "cursor_json \<Rightarrow> string \<Rightarrow> string \<Rightarrow> pageCursor option result" where
  "decodeCursor json v kind =
     (if v = '''' then Inr None
      else if length v > 512 then Inl invalid_cursor
      else (case RawURLEncoding_DecodeString v of None \<Rightarrow> Inl invalid_cursor
      | Some payload \<Rightarrow> (case json_Unmarshal json payload of None \<Rightarrow> Inl invalid_cursor
      | Some cursor \<Rightarrow>
          if pc_Kind cursor \<noteq> kind \<or> pc_ID cursor = uuid_Nil then Inl invalid_cursor
          else if (kind = cursorSearch \<or> kind = cursorGuilds \<or> kind = cursorMessages \<or> kind = cursorMembers
                   \<or> kind = cursorThreads \<or> kind = cursorDirects) \<and> pc_Time cursor = 0 then Inl invalid_cursor
          else if kind = cursorChannels \<and> pc_Position cursor < 0 then Inl invalid_cursor
          else Inr (Some cursor))))"

text \<open>What the listings put into a cursor.\<close>

definition cursor_ok :: "pageCursor \<Rightarrow> bool" where
  "cursor_ok c \<longleftrightarrow> pc_ID c \<noteq> uuid_Nil \<and>
     (if pc_Kind c = cursorChannels then 0 \<le> pc_Position c else pc_Time c \<noteq> 0)"

definition json_codes :: "cursor_json \<Rightarrow> pageCursor \<Rightarrow> bool" where
  "json_codes json c \<longleftrightarrow> (case json_Marshal json c of None \<Rightarrow> False
     | Some s \<Rightarrow> s \<noteq> [] \<and> length s \<le> 384 \<and> json_Unmarshal json s = Some c)"

lemma encodeCursor_decodes:
  assumes "json_codes json c" and "cursor_ok c"
  shows "\<exists>v. encodeCursor json c = Inr v \<and> decodeCursor json v (pc_Kind c) = Inr (Some c)"
proof -
  obtain s where s: "json_Marshal json c = Some s" "s \<noteq> ''''" "length s \<le> 384" "json_Unmarshal json s = Some c"
    using assms(1) by (auto simp: json_codes_def split: option.splits)
  let ?v = "RawURLEncoding_EncodeToString s"
  have len: "length ?v = (4 * length s + 2) div 3"
    by (rule length_RawURLEncoding)
  with s(3) have "length ?v \<le> 512"
    by simp
  moreover have "0 < length ?v"
    unfolding len using s(2) by (cases s) simp_all
  ultimately have "?v \<noteq> ''''" "\<not> length ?v > 512"
    by auto
  with s assms(2) have "decodeCursor json ?v (pc_Kind c) = Inr (Some c)"
    by (auto simp: decodeCursor_def RawURLEncoding_roundtrip cursor_ok_def split: if_splits)
  then show ?thesis
    using s by (simp add: encodeCursor_def)
qed

end
