(* ===== verification/Paging.thy ===== *)
theory Paging
  imports Codec
begin

section \<open>Keyset pages\<close>

text \<open>
  Every listing of package \<open>chat\<close> asks the store for one row more than the page holds, in the
  order of a key, after the key of the cursor; the extra row says that another page follows
  and the last row kept becomes the next cursor (\<open>channelPage\<close> and the same lines of the other
  listings). The interface \<open>keyset\<close> states what such a query promises; proved once over it,
  following the cursors from the first page returns every row exactly once, in order.
\<close>

subsection \<open>The queries\<close>

text \<open>\<open>WHERE $c IS NULL OR key > $c ORDER BY key LIMIT $n\<close> and its descending form.\<close>

definition keyset_asc :: "('r \<Rightarrow> 'k::linorder) \<Rightarrow> 'k option \<Rightarrow> int \<Rightarrow> 'r list \<Rightarrow> 'r list" where
  "keyset_asc key c n rows =
     take (nat n) (filter (\<lambda>r. case c of None \<Rightarrow> True | Some k \<Rightarrow> k < key r) (sort_key key rows))"

definition keyset_desc :: "('r \<Rightarrow> 'k::linorder) \<Rightarrow> 'k option \<Rightarrow> int \<Rightarrow> 'r list \<Rightarrow> 'r list" where
  "keyset_desc key c n rows =
     take (nat n) (filter (\<lambda>r. case c of None \<Rightarrow> True | Some k \<Rightarrow> key r < k) (rev (sort_key key rows)))"

subsection \<open>Pages\<close>

definition channelPage ::
  "cursor_json \<Rightarrow> int \<Rightarrow> ('r \<Rightarrow> pageCursor) \<Rightarrow> ('r \<Rightarrow> 'i) \<Rightarrow> 'r list \<Rightarrow> 'i Page result" where
  "channelPage json limit cursor item rows0 =
     (let hasMore = int (length rows0) > limit;
          rows = (if hasMore then take (nat limit) rows0 else rows0)
      in if hasMore \<and> 0 < length rows
         then (case encodeCursor json (cursor (last rows)) of Inl err \<Rightarrow> Inl err
               | Inr v \<Rightarrow> Inr \<lparr>pg_Items = map item rows, pg_HasMore = hasMore, pg_NextCursor = Some v\<rparr>)
         else Inr \<lparr>pg_Items = map item rows, pg_HasMore = hasMore, pg_NextCursor = None\<rparr>)"

text \<open>A client that follows the cursors; \<open>None\<close> when a page fails or \<open>fuel\<close> pages were not enough.\<close>

fun walk :: "nat \<Rightarrow> (string \<Rightarrow> 'i Page result) \<Rightarrow> string \<Rightarrow> 'i list option" where
  "walk 0 op v = None"
| "walk (Suc fuel) op v =
     (case op v of Inl err \<Rightarrow> None
      | Inr page \<Rightarrow> (case pg_NextCursor page of None \<Rightarrow> Some (pg_Items page)
          | Some v' \<Rightarrow> map_option (\<lambda>rest. pg_Items page @ rest) (walk fuel op v')))"

subsection \<open>What a query promises\<close>

locale keyset =
  fixes select :: "'k option \<Rightarrow> int \<Rightarrow> 'r list \<Rightarrow> 'r list"
    and key :: "'r \<Rightarrow> 'k"
    and arrange :: "'r list \<Rightarrow> 'r list"
  assumes arrange_set: "set (arrange rows) = set rows"
    and arrange_length: "length (arrange rows) = length rows"
    and first_page: "select None n rows = take (nat n) (arrange rows)"
    and next_page: "distinct (map key rows) \<Longrightarrow> i < length rows \<Longrightarrow>
          select (Some (key (arrange rows ! i))) n rows = take (nat n) (drop (Suc i) (arrange rows))"
begin

lemma walk_from:
  assumes rows: "distinct (map key rows)" and limit: "1 \<le> limit"
    and later: "\<And>r v. r \<in> set rows \<Longrightarrow> decodeCursor json v kind = Inr (Some (cursor r)) \<Longrightarrow>
          op v = channelPage json limit cursor item (select (Some (key r)) (limit + 1) rows)"
    and codes: "\<And>r. r \<in> set rows \<Longrightarrow> json_codes json (cursor r) \<and> cursor_ok (cursor r) \<and> pc_Kind (cursor r) = kind"
    and here: "op v = channelPage json limit cursor item (take (nat (limit + 1)) (drop i (arrange rows)))"
    and fuel: "length rows - i \<le> fuel * nat limit" "0 < fuel"
  shows "walk fuel op v = Some (map item (drop i (arrange rows)))"
  using here fuel
proof (induction fuel arbitrary: i v)
  case (Suc fuel)
  let ?n = "nat limit" and ?ys = "drop i (arrange rows)"
  have n: "nat (limit + 1) = Suc ?n" "1 \<le> ?n"
    using limit by auto
  show ?case
  proof (cases "length ?ys \<le> ?n")
    case True
    then have "take (Suc ?n) ?ys = ?ys"
      by simp
    moreover have "\<not> limit < int (length ?ys)"
      using True limit by linarith
    ultimately show ?thesis
      using Suc.prems(1) n by (simp add: channelPage_def Let_def)
  next
    case False
    let ?j = "i + ?n - 1"
    let ?r = "arrange rows ! ?j"
    have j: "?j < length rows"
      using False n(2) arrange_length [of rows] by simp
    then have r: "?r \<in> set rows"
      by (metis arrange_length arrange_set nth_mem)
    have len: "length (take (Suc ?n) ?ys) = Suc ?n"
      using False by simp
    have "last (take ?n ?ys) = take ?n ?ys ! (?n - 1)"
      using False n(2) by (subst last_conv_nth) (auto simp: min_def)
    also have "\<dots> = ?r"
      using False n(2) by (simp add: nth_append)
    finally have last: "last (take ?n ?ys) = ?r" .
    from codes [OF r] encodeCursor_decodes obtain v' where
      v': "encodeCursor json (cursor ?r) = Inr v'" "decodeCursor json v' kind = Inr (Some (cursor ?r))"
      by metis
    have "limit < int (length (take (Suc ?n) ?ys))"
      using limit by (simp only: len)
    moreover have "take ?n (take (Suc ?n) ?ys) = take ?n ?ys"
      by (simp add: min_def)
    moreover have "0 < length (take ?n ?ys)"
      using False n(2) by simp
    ultimately have page: "op v = Inr \<lparr>pg_Items = map item (take ?n ?ys), pg_HasMore = True, pg_NextCursor = Some v'\<rparr>"
      using Suc.prems(1) n(1) v'(1) last by (simp only: channelPage_def Let_def) simp
    have "op v' = channelPage json limit cursor item (take (nat (limit + 1)) (drop (Suc ?j) (arrange rows)))"
      using later [OF r v'(2)] next_page [OF rows j] by simp
    moreover have "length rows - Suc ?j \<le> fuel * ?n"
      using Suc.prems(2) n(2) by simp
    moreover have "0 < fuel"
      using Suc.prems(2) False arrange_length [of rows] by (cases fuel) simp_all
    ultimately have "walk fuel op v' = Some (map item (drop (Suc ?j) (arrange rows)))"
      by (intro Suc.IH)
    moreover have "Suc ?j = i + ?n"
      using n(2) by simp
    moreover have "map item (take ?n ?ys) @ map item (drop (i + ?n) (arrange rows)) = map item ?ys"
      by (metis add.commute append_take_drop_id drop_drop map_append)
    ultimately show ?thesis
      using page by simp
  qed
qed simp

text \<open>As many pages as the rows fill are enough, and one page when there are none.\<close>

lemma walk_pages:
  assumes "distinct (map key rows)" and "1 \<le> limit"
    and "op [] = channelPage json limit cursor item (select None (limit + 1) rows)"
    and "\<And>r v. r \<in> set rows \<Longrightarrow> decodeCursor json v kind = Inr (Some (cursor r)) \<Longrightarrow>
          op v = channelPage json limit cursor item (select (Some (key r)) (limit + 1) rows)"
    and "\<And>r. r \<in> set rows \<Longrightarrow> json_codes json (cursor r) \<and> cursor_ok (cursor r) \<and> pc_Kind (cursor r) = kind"
    and "length rows \<le> pages * nat limit" and "0 < pages"
  shows "walk pages op [] = Some (map item (arrange rows))"
proof -
  have "op [] = channelPage json limit cursor item (take (nat (limit + 1)) (drop 0 (arrange rows)))"
    using assms(3) by (simp add: first_page)
  then have "walk pages op [] = Some (map item (drop 0 (arrange rows)))"
    using assms by (intro walk_from [where kind = kind]) simp_all
  then show ?thesis by simp
qed

lemma walk_all:
  assumes "distinct (map key rows)" and "1 \<le> limit"
    and "op [] = channelPage json limit cursor item (select None (limit + 1) rows)"
    and "\<And>r v. r \<in> set rows \<Longrightarrow> decodeCursor json v kind = Inr (Some (cursor r)) \<Longrightarrow>
          op v = channelPage json limit cursor item (select (Some (key r)) (limit + 1) rows)"
    and "\<And>r. r \<in> set rows \<Longrightarrow> json_codes json (cursor r) \<and> cursor_ok (cursor r) \<and> pc_Kind (cursor r) = kind"
  shows "walk (Suc (length rows)) op [] = Some (map item (arrange rows))"
proof -
  have "length rows * 1 \<le> Suc (length rows) * nat limit"
    using assms(2) by (intro mult_le_mono) simp_all
  then have "length rows \<le> Suc (length rows) * nat limit" by (simp only: mult_1_right)
  with assms show ?thesis by (intro walk_pages) simp_all
qed

end

subsection \<open>Keys of joined rows\<close>

text \<open>A join keeps the key of the rows it starts from; a pair with a unique component is unique.\<close>

lemma distinct_map_filter_key:
  assumes "distinct (map k xs)" and "\<And>x y. x \<in> set xs \<Longrightarrow> f x = Some y \<Longrightarrow> h y = k x"
  shows "distinct (map h (List.map_filter f xs))"
  using assms
proof (induction xs)
  case (Cons x xs)
  have sub: "h ` set (List.map_filter f xs) \<subseteq> k ` set xs"
    using Cons.prems(2) by (fastforce simp: List.map_filter_def)
  have dist: "distinct (map h (List.map_filter f xs))"
    using Cons by simp
  show ?case
  proof (cases "f x")
    case None
    with dist show ?thesis by (simp add: List.map_filter_simps)
  next
    case (Some y)
    then have "h y = k x"
      using Cons.prems(2) by simp
    with sub Cons.prems(1) have "h y \<notin> h ` set (List.map_filter f xs)"
      by auto
    with Some dist show ?thesis by (simp add: List.map_filter_simps)
  qed
qed (simp add: List.map_filter_simps)

lemma set_map_filter: "set (List.map_filter f xs) = {y. \<exists>x\<in>set xs. f x = Some y}"
  by (force simp: List.map_filter_def)

lemma distinct_map_pair: "distinct (map g xs) \<Longrightarrow> distinct (map (\<lambda>x. (f x, g x)) xs)"
  by (auto simp: distinct_map inj_on_def)

subsection \<open>The two queries keep the promise\<close>

lemma filter_after_nth:
  assumes "sorted_wrt before (map key ys)" and "\<And>a. \<not> before a a" and "\<And>a b. before a b \<Longrightarrow> \<not> before b a"
    and "i < length ys"
  shows "filter (\<lambda>r. before (key (ys ! i)) (key r)) ys = drop (Suc i) ys"
  using assms(1,4)
proof (induction ys arbitrary: i)
  case (Cons y ys)
  show ?case
  proof (cases i)
    case 0
    then show ?thesis
      using Cons.prems assms(2) by (auto intro!: filter_True)
  next
    case (Suc k)
    then have "before (key y) (key (ys ! k))"
      using Cons.prems by auto
    then show ?thesis
      using Suc Cons assms(3) by auto
  qed
qed simp

lemma sorted_wrt_less_sort_key:
  assumes "distinct (map key rows)"
  shows "sorted_wrt (<) (map key (sort_key key rows))"
proof -
  have "distinct (map key (sort_key key rows))"
    using assms by (metis distinct_map distinct_sort set_sort)
  then show ?thesis
    by (simp add: strict_sorted_iff)
qed

interpretation asc: keyset "keyset_asc key" key "sort_key key" for key :: "'r \<Rightarrow> 'k::linorder"
proof
  fix rows :: "'r list" and i n
  assume "distinct (map key rows)" and "i < length rows"
  then show "keyset_asc key (Some (key (sort_key key rows ! i))) n rows = take (nat n) (drop (Suc i) (sort_key key rows))"
    by (simp add: keyset_asc_def filter_after_nth [where before = "(<)"] sorted_wrt_less_sort_key)
qed (simp_all add: keyset_asc_def)

interpretation desc: keyset "keyset_desc key" key "\<lambda>rows. rev (sort_key key rows)" for key :: "'r \<Rightarrow> 'k::linorder"
proof
  fix rows :: "'r list" and i n
  assume *: "distinct (map key rows)" and "i < length rows"
  have "sorted_wrt (\<lambda>a b. b < a) (map key (rev (sort_key key rows)))"
    using sorted_wrt_less_sort_key [OF *] by (simp add: rev_map [symmetric] sorted_wrt_rev)
  then show "keyset_desc key (Some (key (rev (sort_key key rows) ! i))) n rows
      = take (nat n) (drop (Suc i) (rev (sort_key key rows)))"
    using \<open>i < length rows\<close>
    by (simp add: keyset_desc_def filter_after_nth [where before = "\<lambda>a b. b < a"])
qed (simp_all add: keyset_desc_def)

end
