(* ===== verification/Members.thy ===== *)
theory Members
  imports Role_Ranks Paging
begin

section \<open>Members, presence and invites\<close>

text \<open>
  \<open>internal/chat/members.go\<close>, \<open>members_postgres.go\<close> and \<open>presence.go\<close>. The presence tracker is
  a map that one mutex guards, so each of its methods is one step. An operation of the service
  is the sequence of its statements: when a later one fails, what an earlier one committed stays.
\<close>

subsection \<open>Presence\<close>

abbreviation PresenceOnline :: string where "PresenceOnline \<equiv> ''ONLINE''"
abbreviation PresenceIdle :: string where "PresenceIdle \<equiv> ''IDLE''"
abbreviation PresenceDoNotDisturb :: string where "PresenceDoNotDisturb \<equiv> ''DO_NOT_DISTURB''"
abbreviation PresenceOffline :: string where "PresenceOffline \<equiv> ''OFFLINE''"

type_synonym presenceTracker = "uuid \<rightharpoonup> Presence"

definition presence_set :: "presenceTracker \<Rightarrow> Presence \<Rightarrow> presenceTracker" where
  "presence_set t presence = t(p_UserID presence \<mapsto> presence)"

definition presence_get :: "presenceTracker \<Rightarrow> uuid \<Rightarrow> time \<Rightarrow> Presence" where
  "presence_get t userID fallback =
     (case t userID of Some presence \<Rightarrow> presence
      | None \<Rightarrow> \<lparr>p_UserID = userID, p_Status = PresenceOffline, p_CustomText = None, p_UpdatedAt = fallback\<rparr>)"

definition presence_clear :: "presenceTracker \<Rightarrow> uuid \<Rightarrow> bool \<times> presenceTracker" where
  "presence_clear t userID = (t userID \<noteq> None, t(userID := None))"

definition applyPresence :: "presenceTracker \<Rightarrow> Member \<Rightarrow> Member" where
  "applyPresence t m = m\<lparr>mb_Presence := Some (presence_get t (us_ID (mb_User m)) (mb_JoinedAt m))\<rparr>"

definition ListUserGuildIDs :: "chat_db \<Rightarrow> uuid \<Rightarrow> uuid list" where
  "ListUserGuildIDs db userID = sort (map gm_guild (filter (\<lambda>m. gm_user m = userID) (members db)))"

definition ListGuildMemberIDs :: "chat_db \<Rightarrow> uuid \<Rightarrow> uuid list" where
  "ListGuildMemberIDs db guildID = sort (map gm_user (filter (\<lambda>m. gm_guild m = guildID) (members db)))"

definition presence_text :: "string option \<Rightarrow> string option result" where
  "presence_text customText =
     (case customText of None \<Rightarrow> Inr None
      | Some s \<Rightarrow>
          let trimmed = strings_TrimSpace s in
          if trimmed \<noteq> [] then
            if utf8_RuneCountInString trimmed > 128
            then Inl (ValidationError ''custom_text'' ''must contain at most 128 characters'')
            else Inr (Some trimmed)
          else Inr None)"

definition SetPresence ::
  "time \<Rightarrow> chat_db \<Rightarrow> presenceTracker \<Rightarrow> uuid \<Rightarrow> string \<Rightarrow> string option \<Rightarrow> (Presence \<times> uuid list) result \<times> presenceTracker" where
  "SetPresence now db t userID status customText =
     (if status \<notin> {PresenceOnline, PresenceIdle, PresenceDoNotDisturb}
      then (Inl (ValidationError ''status'' ''must be ONLINE, IDLE or DO_NOT_DISTURB''), t)
      else (case presence_text customText of Inl err \<Rightarrow> (Inl err, t)
      | Inr txt \<Rightarrow>
          let guildIDs = ListUserGuildIDs db userID;
              presence = \<lparr>p_UserID = userID, p_Status = status, p_CustomText = txt, p_UpdatedAt = now\<rparr>
          in (Inr (presence, guildIDs), presence_set t presence)))"

definition ClearPresence ::
  "time \<Rightarrow> chat_db \<Rightarrow> presenceTracker \<Rightarrow> uuid \<Rightarrow> (Presence \<times> uuid list) option \<times> presenceTracker" where
  "ClearPresence now db t userID =
     (let (present, t') = presence_clear t userID
      in if \<not> present then (None, t')
         else (Some (\<lparr>p_UserID = userID, p_Status = PresenceOffline, p_CustomText = None, p_UpdatedAt = now\<rparr>,
                     ListUserGuildIDs db userID), t'))"

subsection \<open>Member statements\<close>

definition member_role_ids :: "chat_db \<Rightarrow> uuid \<Rightarrow> uuid \<Rightarrow> uuid list" where
  "member_role_ids db g u = sort (map (\<lambda>(_, _, r). r) (filter (\<lambda>(g', u', _). g' = g \<and> u' = u) (member_roles db)))"

definition scanMember :: "chat_db \<Rightarrow> member_row \<Rightarrow> UserSummary \<Rightarrow> Member" where
  "scanMember db gm u = \<lparr>mb_GuildID = gm_guild gm, mb_User = u, mb_Nickname = gm_nickname gm,
     mb_RoleIDs = member_role_ids db (gm_guild gm) (gm_user gm), mb_JoinedAt = gm_joined gm, mb_Presence = None\<rparr>"

definition getMemberByID :: "chat_db \<Rightarrow> uuid \<Rightarrow> uuid \<Rightarrow> Member result" where
  "getMemberByID db guildID userID =
     (case find_by member_key (members db) (guildID, userID) of None \<Rightarrow> Inl ErrNotFound
      | Some gm \<Rightarrow> (case find_by us_ID (users db) userID of None \<Rightarrow> Inl ErrNotFound
      | Some u \<Rightarrow> Inr (scanMember db gm u)))"

definition Store_GetMember :: "chat_db \<Rightarrow> uuid \<Rightarrow> uuid \<Rightarrow> uuid \<Rightarrow> Member result" where
  "Store_GetMember db requesterID guildID userID =
     (if is_member db guildID requesterID then getMemberByID db guildID userID else Inl ErrNotFound)"

text \<open>The rows of \<open>ListMembers\<close>, joined with their users.\<close>

definition member_rows :: "chat_db \<Rightarrow> uuid \<Rightarrow> Member list" where
  "member_rows db guildID = List.map_filter
     (\<lambda>gm. map_option (scanMember db gm) (find_by us_ID (users db) (gm_user gm)))
     (filter (\<lambda>gm. gm_guild gm = guildID) (members db))"

abbreviation member_page_key :: "Member \<Rightarrow> time \<times> uuid" where
  "member_page_key m \<equiv> (mb_JoinedAt m, us_ID (mb_User m))"

definition Store_ListMembers :: "chat_db \<Rightarrow> uuid \<Rightarrow> uuid \<Rightarrow> pageCursor option \<Rightarrow> int \<Rightarrow> Member list result" where
  "Store_ListMembers db userID guildID cursor limit =
     (if \<not> is_member db guildID userID then Inl ErrNotFound
      else Inr (keyset_asc member_page_key (map_option (\<lambda>c. (pc_Time c, pc_ID c)) cursor) limit (member_rows db guildID)))"

definition UpdateMemberNickname :: "chat_db \<Rightarrow> uuid \<Rightarrow> uuid \<Rightarrow> string option \<Rightarrow> Member result \<times> chat_db" where
  "UpdateMemberNickname db guildID userID nickname =
     (case find_by member_key (members db) (guildID, userID) of None \<Rightarrow> (Inl ErrNotFound, db)
      | Some gm \<Rightarrow>
          if \<not> member_row_ok (gm\<lparr>gm_nickname := nickname\<rparr>) then (Inl (ErrInternal ''update member nickname''), db)
          else let db' = db\<lparr>members := update_where (\<lambda>m. member_key m = (guildID, userID))
                              (\<lambda>m. m\<lparr>gm_nickname := nickname\<rparr>) (members db)\<rparr>
               in (getMemberByID db' guildID userID, db'))"

definition Store_RemoveMember :: "chat_db \<Rightarrow> uuid \<Rightarrow> uuid \<Rightarrow> unit result \<times> chat_db" where
  "Store_RemoveMember db guildID userID =
     (if \<not> is_member db guildID userID then (Inl ErrNotFound, db)
      else (Inr (), drop_members (\<lambda>m. member_key m = (guildID, userID)) db))"

definition Store_GetGuild :: "chat_db \<Rightarrow> uuid \<Rightarrow> uuid \<Rightarrow> Guild result" where
  "Store_GetGuild db userID guildID =
     (case find_by g_ID (guilds db) guildID of None \<Rightarrow> Inl ErrNotFound
      | Some guild \<Rightarrow> if is_member db guildID userID then Inr guild else Inl ErrNotFound)"

subsection \<open>The member service\<close>

definition ListMembers ::
  "cursor_json \<Rightarrow> presenceTracker \<Rightarrow> chat_db \<Rightarrow> uuid \<Rightarrow> uuid \<Rightarrow> string \<Rightarrow> int \<Rightarrow> Member Page result" where
  "ListMembers json t db userID guildID cursorValue limit =
     (case decodeCursor json cursorValue cursorMembers of Inl err \<Rightarrow> Inl err
      | Inr cursor \<Rightarrow> (case validateLimit limit of Inl err \<Rightarrow> Inl err
      | Inr _ \<Rightarrow> (case Store_ListMembers db userID guildID cursor (limit + 1) of Inl err \<Rightarrow> Inl err
      | Inr rows \<Rightarrow> channelPage json limit
          (\<lambda>m. \<lparr>pc_Kind = cursorMembers, pc_Time = mb_JoinedAt m, pc_Position = 0, pc_ID = us_ID (mb_User m)\<rparr>)
          (applyPresence t) rows)))"

definition GetMember :: "presenceTracker \<Rightarrow> chat_db \<Rightarrow> uuid \<Rightarrow> uuid \<Rightarrow> uuid \<Rightarrow> Member result" where
  "GetMember t db requesterID guildID userID =
     (case Store_GetMember db requesterID guildID userID of Inl err \<Rightarrow> Inl err
      | Inr member \<Rightarrow> Inr (applyPresence t member))"

definition checkOutranksMember :: "chat_db \<Rightarrow> Access \<Rightarrow> uuid \<Rightarrow> uuid \<Rightarrow> unit result" where
  "checkOutranksMember db access guildID targetID =
     (case GetAccess db guildID targetID of Inl err \<Rightarrow> Inl err
      | Inr target \<Rightarrow>
          if a_Owner target \<or> \<not> Outranks access (a_TopPosition target) then Inl ErrForbidden else Inr ())"

text \<open>The checks of the nickname, the checks and the assignment of the roles.\<close>

definition check_nickname_change ::
  "chat_db \<Rightarrow> Access \<Rightarrow> uuid \<Rightarrow> uuid \<Rightarrow> uuid \<Rightarrow> UpdateMemberInput \<Rightarrow> unit result" where
  "check_nickname_change db access requesterID guildID userID input =
     (if opt_Set (umi_Nickname input) \<and> requesterID \<noteq> userID
      then if \<not> Has access PermManageMembers then Inl ErrForbidden
           else checkOutranksMember db access guildID userID
      else Inr ())"

definition change_roles ::
  "(uuid \<Rightarrow> string) \<Rightarrow> chat_db \<Rightarrow> Access \<Rightarrow> uuid \<Rightarrow> uuid \<Rightarrow> uuid \<Rightarrow> Member \<Rightarrow> UpdateMemberInput \<Rightarrow> unit result \<times> chat_db" where
  "change_roles uuid_String db access requesterID guildID userID member input =
     (case umi_RoleIDs input of None \<Rightarrow> (Inr (), db)
      | Some ids \<Rightarrow>
          if \<not> Has access PermManageRoles then (Inl ErrForbidden, db)
          else (case (if requesterID \<noteq> userID then checkOutranksMember db access guildID userID else Inr ()) of
              Inl err \<Rightarrow> (Inl err, db)
            | Inr _ \<Rightarrow> assignRoles uuid_String db access member ids))"

definition finish_member_update ::
  "presenceTracker \<Rightarrow> chat_db \<Rightarrow> uuid \<Rightarrow> uuid \<Rightarrow> UpdateMemberInput \<Rightarrow> string option \<Rightarrow> Member result \<times> chat_db" where
  "finish_member_update t db guildID userID input nickname =
     (case (if opt_Set (umi_Nickname input) then UpdateMemberNickname db guildID userID nickname
            else (getMemberByID db guildID userID, db)) of
        (updated, db') \<Rightarrow> (map_sum (\<lambda>err. err) (applyPresence t) updated, db'))"

definition UpdateMember ::
  "(uuid \<Rightarrow> string) \<Rightarrow> presenceTracker \<Rightarrow> chat_db \<Rightarrow> uuid \<Rightarrow> uuid \<Rightarrow> uuid \<Rightarrow> UpdateMemberInput \<Rightarrow> Member result \<times> chat_db" where
  "UpdateMember uuid_String t db requesterID guildID userID input =
     (if \<not> opt_Set (umi_Nickname input) \<and> umi_RoleIDs input = None
      then (Inl (ValidationError ''body'' ''must contain at least one field''), db)
      else (case GetAccess db guildID requesterID of Inl err \<Rightarrow> (Inl err, db)
      | Inr access \<Rightarrow> (case Store_GetMember db requesterID guildID userID of Inl err \<Rightarrow> (Inl err, db)
      | Inr member \<Rightarrow> (case check_nickname_change db access requesterID guildID userID input of Inl err \<Rightarrow> (Inl err, db)
      | Inr _ \<Rightarrow> (case (if opt_Set (umi_Nickname input) then normalizeNickname (opt_Value (umi_Nickname input)) else Inr None) of
          Inl err \<Rightarrow> (Inl err, db)
      | Inr nickname \<Rightarrow> (case change_roles uuid_String db access requesterID guildID userID member input of
          (Inl err, db1) \<Rightarrow> (Inl err, db1)
      | (Inr _, db1) \<Rightarrow> finish_member_update t db1 guildID userID input nickname))))))"

definition RemoveMember :: "chat_db \<Rightarrow> uuid \<Rightarrow> uuid \<Rightarrow> uuid \<Rightarrow> unit result \<times> chat_db" where
  "RemoveMember db requesterID guildID userID =
     (case require db requesterID guildID PermManageMembers of Inl err \<Rightarrow> (Inl err, db)
      | Inr access \<Rightarrow>
          if requesterID = userID then (Inl ErrForbidden, db)
          else (case checkOutranksMember db access guildID userID of Inl err \<Rightarrow> (Inl err, db)
            | Inr _ \<Rightarrow> Store_RemoveMember db guildID userID))"

definition LeaveGuild :: "chat_db \<Rightarrow> uuid \<Rightarrow> uuid \<Rightarrow> unit result \<times> chat_db" where
  "LeaveGuild db userID guildID =
     (case Store_GetGuild db userID guildID of Inl err \<Rightarrow> (Inl err, db)
      | Inr guild \<Rightarrow>
          if g_OwnerID guild = userID then (Inl ErrForbidden, db) else Store_RemoveMember db guildID userID)"

subsection \<open>Invite statements\<close>

definition scanInvite :: "invite_row \<Rightarrow> Guild \<Rightarrow> UserSummary \<Rightarrow> Invite" where
  "scanInvite i g u = \<lparr>iv_ID = ir_id i, iv_Code = ir_code i, iv_Guild = g, iv_Inviter = u, iv_Uses = ir_uses i,
     iv_MaxUses = ir_max_uses i, iv_ExpiresAt = ir_expires i, iv_CreatedAt = ir_created i\<rparr>"

text \<open>The join of an invite with its guild and its inviter.\<close>

definition join_invite :: "chat_db \<Rightarrow> invite_row \<Rightarrow> Invite option" where
  "join_invite db i =
     (case (find_by g_ID (guilds db) (ir_guild i), find_by us_ID (users db) (ir_inviter i)) of
        (Some g, Some u) \<Rightarrow> Some (scanInvite i g u) | _ \<Rightarrow> None)"

definition invite_open :: "time \<Rightarrow> invite_row \<Rightarrow> bool" where
  "invite_open now i \<longleftrightarrow> ir_revoked i = None
     \<and> (case ir_expires i of None \<Rightarrow> True | Some e \<Rightarrow> e > now)
     \<and> (case ir_max_uses i of None \<Rightarrow> True | Some n \<Rightarrow> ir_uses i < n)"

definition Store_CreateInvite :: "chat_db \<Rightarrow> Invite \<Rightarrow> Invite result \<times> chat_db" where
  "Store_CreateInvite db invite =
     (let row = \<lparr>ir_id = iv_ID invite, ir_guild = g_ID (iv_Guild invite), ir_inviter = us_ID (iv_Inviter invite),
                 ir_code = iv_Code invite, ir_max_uses = iv_MaxUses invite, ir_uses = 0,
                 ir_expires = iv_ExpiresAt invite, ir_revoked = None, ir_created = iv_CreatedAt invite\<rparr>
      in if ir_id row \<in> keys ir_id (invites db) \<or> ir_code row \<in> keys ir_code (invites db)
            \<or> ir_guild row \<notin> keys g_ID (guilds db) \<or> ir_inviter row \<notin> keys us_ID (users db) \<or> \<not> invite_row_ok row
         then (Inl (ErrInternal ''insert invite''), db)
         else let db' = db\<lparr>invites := invites db @ [row]\<rparr> in
              (case join_invite db' row of None \<Rightarrow> (Inl (ErrInternal ''get created invite''), db')
               | Some created \<Rightarrow> (Inr created, db')))"

definition Store_ListInvites :: "chat_db \<Rightarrow> uuid \<Rightarrow> time \<Rightarrow> Invite list" where
  "Store_ListInvites db guildID now =
     take 1000 (rev (sort_key (\<lambda>i. (iv_CreatedAt i, iv_ID i))
       (List.map_filter (join_invite db) (filter (\<lambda>i. ir_guild i = guildID \<and> invite_open now i) (invites db)))))"

definition Store_GetInvite :: "chat_db \<Rightarrow> string \<Rightarrow> time \<Rightarrow> Invite result" where
  "Store_GetInvite db code now =
     (case find_by ir_code (invites db) code of None \<Rightarrow> Inl ErrNotFound
      | Some i \<Rightarrow>
          if \<not> invite_open now i then Inl ErrNotFound
          else (case join_invite db i of None \<Rightarrow> Inl ErrNotFound | Some invite \<Rightarrow> Inr invite))"

definition Store_RevokeInvite :: "chat_db \<Rightarrow> uuid \<Rightarrow> uuid \<Rightarrow> time \<Rightarrow> unit result \<times> chat_db" where
  "Store_RevokeInvite db guildID inviteID revokedAt =
     (let hit = (\<lambda>i. ir_id i = inviteID \<and> ir_guild i = guildID \<and> ir_revoked i = None)
      in if filter hit (invites db) = [] then (Inl ErrNotFound, db)
         else (Inr (), db\<lparr>invites := update_where hit (\<lambda>i. i\<lparr>ir_revoked := Some revokedAt\<rparr>) (invites db)\<rparr>))"

text \<open>One transaction: the row of the invite is locked, so acceptances of one invite do not overlap,
  and a failure after the first write rolls both writes back.\<close>

definition Store_AcceptInvite :: "chat_db \<Rightarrow> string \<Rightarrow> uuid \<Rightarrow> time \<Rightarrow> (Member \<times> bool) result \<times> chat_db" where
  "Store_AcceptInvite db code userID now =
     (case find_by ir_code (invites db) code of None \<Rightarrow> (Inl ErrNotFound, db)
      | Some i \<Rightarrow>
          if ir_revoked i \<noteq> None then (Inl ErrNotFound, db)
          else (case getMemberByID db (ir_guild i) userID of Inr existing \<Rightarrow> (Inr (existing, False), db)
            | Inl err \<Rightarrow>
                if err \<noteq> ErrNotFound then (Inl err, db)
                else if (case ir_expires i of None \<Rightarrow> False | Some e \<Rightarrow> \<not> e > now)
                     \<or> (case ir_max_uses i of None \<Rightarrow> False | Some n \<Rightarrow> ir_uses i \<ge> n)
                then (Inl ErrInviteUnavailable, db)
                else let gm = \<lparr>gm_guild = ir_guild i, gm_user = userID, gm_joined = now, gm_nickname = None\<rparr> in
                  if member_key gm \<in> keys member_key (members db) \<or> userID \<notin> keys us_ID (users db)
                  then (Inl (ErrInternal ''insert guild member''), db)
                  else let db1 = db\<lparr>members := members db @ [gm]\<rparr>; used = i\<lparr>ir_uses := ir_uses i + 1\<rparr> in
                    if \<not> invite_row_ok used then (Inl (ErrInternal ''increment invite uses''), db)
                    else let db2 = db1\<lparr>invites := update_where (\<lambda>j. ir_id j = ir_id i)
                                         (\<lambda>j. j\<lparr>ir_uses := ir_uses j + 1\<rparr>) (invites db1)\<rparr> in
                      (case getMemberByID db2 (ir_guild i) userID of Inl err \<Rightarrow> (Inl err, db)
                       | Inr member \<Rightarrow> (Inr (member, True), db2))))"

subsection \<open>The invite service\<close>

definition minInviteLifetime :: int where "minInviteLifetime = 300"
definition maxInviteLifetime :: int where "maxInviteLifetime = 604800"
definition maxInviteUses :: int where "maxInviteUses = 1000"

definition decimal_int :: "int \<Rightarrow> string" where
  "decimal_int n = decimal (nat n)"

definition CreateInvite ::
  "uuid option \<Rightarrow> string option \<Rightarrow> time \<Rightarrow> chat_db \<Rightarrow> uuid \<Rightarrow> uuid \<Rightarrow> CreateInviteInput \<Rightarrow> Invite result \<times> chat_db" where
  "CreateInvite gen rand now db userID guildID input =
     (case require db userID guildID PermCreateInvite of Inl err \<Rightarrow> (Inl err, db)
      | Inr _ \<Rightarrow>
          if (case cii_ExpiresIn input of None \<Rightarrow> False | Some e \<Rightarrow> e < minInviteLifetime \<or> e > maxInviteLifetime)
          then (Inl (ValidationError ''expires_in'' (''must be between '' @ decimal_int minInviteLifetime @ '' and ''
                 @ decimal_int maxInviteLifetime @ '' seconds'')), db)
          else if (case cii_MaxUses input of None \<Rightarrow> False | Some n \<Rightarrow> n < 1 \<or> n > maxInviteUses)
          then (Inl (ValidationError ''max_uses'' (''must be between 1 and '' @ decimal_int maxInviteUses)), db)
          else (case newUUIDv7 gen of Inl err \<Rightarrow> (Inl err, db)
      | Inr i \<Rightarrow> (case newInviteCode rand of Inl err \<Rightarrow> (Inl err, db)
      | Inr code \<Rightarrow>
          Store_CreateInvite db
            \<lparr>iv_ID = i, iv_Code = code,
             iv_Guild = \<lparr>g_ID = guildID, g_OwnerID = uuid_Nil, g_Name = [], g_Description = None, g_IconURL = None, g_CreatedAt = 0\<rparr>,
             iv_Inviter = \<lparr>us_ID = userID, us_DisplayName = [], us_AvatarURL = None\<rparr>,
             iv_Uses = 0, iv_MaxUses = cii_MaxUses input,
             iv_ExpiresAt = map_option (\<lambda>e. now + e * time_Second) (cii_ExpiresIn input), iv_CreatedAt = now\<rparr>)))"

definition ListInvites :: "time \<Rightarrow> chat_db \<Rightarrow> uuid \<Rightarrow> uuid \<Rightarrow> Invite list result" where
  "ListInvites now db userID guildID =
     (case require db userID guildID PermManageGuild of Inl err \<Rightarrow> Inl err
      | Inr _ \<Rightarrow> Inr (Store_ListInvites db guildID now))"

definition RevokeInvite :: "time \<Rightarrow> chat_db \<Rightarrow> uuid \<Rightarrow> uuid \<Rightarrow> uuid \<Rightarrow> unit result \<times> chat_db" where
  "RevokeInvite now db userID guildID inviteID =
     (case require db userID guildID PermManageGuild of Inl err \<Rightarrow> (Inl err, db)
      | Inr _ \<Rightarrow> Store_RevokeInvite db guildID inviteID now)"

definition GetInvite :: "time \<Rightarrow> chat_db \<Rightarrow> string \<Rightarrow> Invite result" where
  "GetInvite now db code =
     (if \<not> validInviteCode code then Inl ErrNotFound else Store_GetInvite db code now)"

definition AcceptInvite ::
  "presenceTracker \<Rightarrow> time \<Rightarrow> chat_db \<Rightarrow> uuid \<Rightarrow> string \<Rightarrow> (Member \<times> bool) result \<times> chat_db" where
  "AcceptInvite t now db userID code =
     (if \<not> validInviteCode code then (Inl ErrNotFound, db)
      else (case Store_AcceptInvite db code userID now of
          (Inl err, db') \<Rightarrow> (Inl err, db')
        | (Inr (member, joined), db') \<Rightarrow> (Inr (applyPresence t member, joined), db')))"

subsection \<open>Facts on members\<close>

lemma getMemberByID_Inr:
  assumes "getMemberByID db g u = Inr m"
  shows "is_member db g u" and "mb_GuildID m = g" and "us_ID (mb_User m) = u"
    and "set (mb_RoleIDs m) = held_roles db g u"
  using assms by (auto simp: getMemberByID_def scanMember_def is_member_def member_role_ids_def held_roles_def
      image_iff split: option.splits dest!: find_by_SomeD)

lemma getMemberByID_member:
  assumes "guild_schema db" and "is_member db g u"
  shows "\<exists>m. getMemberByID db g u = Inr m"
proof -
  obtain gm where gm: "find_by member_key (members db) (g, u) = Some gm"
    using assms(2) by (cases "find_by member_key (members db) (g, u)") (auto simp: is_member_def find_by_None_iff)
  then have "gm \<in> set (members db)" "gm_user gm = u"
    by (auto dest: find_by_SomeD)
  with assms(1) have "u \<in> keys us_ID (users db)"
    by (auto simp: guild_schema_def guild_refs_def)
  then obtain us where "find_by us_ID (users db) u = Some us"
    by (cases "find_by us_ID (users db) u") (simp_all add: find_by_None_iff)
  with gm show ?thesis
    by (simp add: getMemberByID_def)
qed

lemma Store_GetMember_Inr:
  "Store_GetMember db v g u = Inr m \<longleftrightarrow> is_member db g v \<and> getMemberByID db g u = Inr m"
  by (simp add: Store_GetMember_def)

lemma Store_GetGuild_Inr:
  "guild_keys db \<Longrightarrow> Store_GetGuild db u g = Inr gu \<longleftrightarrow> gu \<in> set (guilds db) \<and> g_ID gu = g \<and> is_member db g u"
  by (auto simp: Store_GetGuild_def guild_keys_def find_by_distinct split: option.splits dest: find_by_SomeD)

lemma checkOutranksMember_Inr:
  assumes "guild_schema db"
  shows "checkOutranksMember db a g u = Inr x \<longleftrightarrow>
    is_member db g u \<and> \<not> is_owner db g u \<and> Outranks a (top_position db g u)"
proof (cases "is_member db g u")
  case True
  then show ?thesis
    by (auto simp: checkOutranksMember_def GetAccess_member [OF assms] ownerAccess_def split: if_splits)
next
  case False
  then show ?thesis
    by (simp add: checkOutranksMember_def GetAccess_not_member)
qed

lemma UpdateMemberNickname_guild_inv:
  assumes inv: "guild_inv db" and run: "UpdateMemberNickname db g u nick = (res, db')"
  shows "guild_inv db'"
proof (cases "db' = db")
  case False
  with run have db': "db' = db\<lparr>members := update_where (\<lambda>m. member_key m = (g, u)) (\<lambda>m. m\<lparr>gm_nickname := nick\<rparr>) (members db)\<rparr>"
    and ok: "\<And>m. member_row_ok (m\<lparr>gm_nickname := nick\<rparr>)"
    by (auto simp: UpdateMemberNickname_def Let_def member_row_ok_def split: option.splits if_splits)
  show ?thesis
    unfolding db' by (rule guild_inv_update_member [OF inv]) (simp_all add: ok)
qed (use inv in simp)

lemma UpdateMemberNickname_frame:
  assumes "UpdateMemberNickname db g u nick = (res, db')"
  shows "users db' = users db" "guilds db' = guilds db" "roles db' = roles db"
    "member_roles db' = member_roles db" "invites db' = invites db" "channels db' = channels db"
    "is_member db' = is_member db"
proof -
  have "is_member db' = is_member db"
  proof (cases "db' = db")
    case False
    with assms have "members db' = update_where (\<lambda>m. member_key m = (g, u)) (\<lambda>m. m\<lparr>gm_nickname := nick\<rparr>) (members db)"
      by (auto simp: UpdateMemberNickname_def Let_def split: option.splits if_splits)
    then show ?thesis
      by (simp add: is_member_def fun_eq_iff keys_update_where)
  qed simp
  then show "users db' = users db" "guilds db' = guilds db" "roles db' = roles db"
    "member_roles db' = member_roles db" "invites db' = invites db" "channels db' = channels db"
    "is_member db' = is_member db"
    using assms by (auto simp: UpdateMemberNickname_def Let_def split: option.splits if_splits)
qed

text \<open>The states an update of a member can leave: unchanged, the roles assigned, and after that the nickname set.\<close>

lemma change_roles_cases:
  assumes "change_roles us db a v g u m input = (res, db')"
  shows "db' = db \<or> (\<exists>ids x. umi_RoleIDs input = Some ids \<and> Has a PermManageRoles
     \<and> (v \<noteq> u \<longrightarrow> checkOutranksMember db a g u = Inr ()) \<and> assignRoles us db a m ids = (Inr x, db'))"
proof (cases "db' = db")
  case False
  with assms obtain ids where "umi_RoleIDs input = Some ids" "Has a PermManageRoles"
      "(if v \<noteq> u then checkOutranksMember db a g u else Inr ()) = Inr ()" "assignRoles us db a m ids = (res, db')"
    by (cases "umi_RoleIDs input") (auto simp: change_roles_def runs)
  moreover from this(4) False have "\<exists>x. res = Inr x"
    using assignRoles_error by (cases res) auto
  ultimately show ?thesis
    by (auto split: if_splits)
qed simp

lemma finish_member_update_cases:
  assumes "finish_member_update t db g u input nick = (res, db')"
  shows "db' = db \<or> opt_Set (umi_Nickname input) \<and> (\<exists>r. UpdateMemberNickname db g u nick = (r, db'))"
  using assms by (auto simp: finish_member_update_def split: if_splits prod.splits)

lemma UpdateMember_cases:
  assumes "UpdateMember us t db v g u input = (res, db')"
  shows "db' = db \<or> (\<exists>a m r1 db1. GetAccess db g v = Inr a \<and> Store_GetMember db v g u = Inr m
     \<and> check_nickname_change db a v g u input = Inr ()
     \<and> change_roles us db a v g u m input = (r1, db1)
     \<and> (db' = db1 \<or> opt_Set (umi_Nickname input) \<and> (\<exists>nick r2. UpdateMemberNickname db1 g u nick = (r2, db'))))"
proof (cases "db' = db")
  case False
  with assms obtain a m nick where *: "GetAccess db g v = Inr a" "Store_GetMember db v g u = Inr m"
      "check_nickname_change db a v g u input = Inr ()"
      "(case change_roles us db a v g u m input of (Inl err, db1) \<Rightarrow> (Inl err, db1)
        | (Inr _, db1) \<Rightarrow> finish_member_update t db1 g u input nick) = (res, db')"
    unfolding UpdateMember_def run_cases(1,3) by auto
  obtain r1 db1 where r1: "change_roles us db a v g u m input = (r1, db1)"
    by (cases "change_roles us db a v g u m input")
  have "db' = db1 \<or> opt_Set (umi_Nickname input) \<and> (\<exists>r. UpdateMemberNickname db1 g u nick = (r, db'))"
    using *(4) r1 finish_member_update_cases by (cases r1) auto
  with * r1 show ?thesis by blast
qed simp

lemma UpdateMember_guild_inv:
  assumes inv: "guild_inv db" and run: "UpdateMember us t db v g u input = (res, db')"
  shows "guild_inv db'"
  using UpdateMember_cases [OF run]
proof (elim disjE exE conjE)
  fix a m r1 db1
  assume "change_roles us db a v g u m input = (r1, db1)"
  then have "guild_inv db1"
    using inv by (auto dest!: change_roles_cases dest: assignRoles_guild_inv [rotated])
  then show "db' = db1 \<Longrightarrow> guild_inv db'" and "UpdateMemberNickname db1 g u nick = (r2, db') \<Longrightarrow> guild_inv db'" for nick r2
    by (auto dest: UpdateMemberNickname_guild_inv [rotated])
qed (use inv in simp)

lemma ranks_kept_cong:
  "(\<And>u. roles_of db2 g u = roles_of db1 g u) \<Longrightarrow> ranks_kept t g db db1 \<Longrightarrow> ranks_kept t g db db2"
  by (simp add: ranks_kept_def top_position_def)

lemma UpdateMember_ranks:
  assumes inv: "guild_inv db" and run: "UpdateMember us t db v g u input = (res, db')"
    and access: "GetAccess db g v = Inr a" and plain: "\<not> is_owner db g v"
  shows "ranks_kept (a_TopPosition a) g db db'"
  using UpdateMember_cases [OF run]
proof (elim disjE exE conjE)
  fix a' m r1 db1
  assume *: "change_roles us db a' v g u m input = (r1, db1)" "GetAccess db g v = Inr a'" "Store_GetMember db v g u = Inr m"
  note plain = plain_access [OF inv access plain]
  have m: "mb_GuildID m = g" "set (mb_RoleIDs m) = held_roles db (mb_GuildID m) (us_ID (mb_User m))"
    using *(3) getMemberByID_Inr [of db g u m] by (simp_all add: Store_GetMember_Inr)
  have "ranks_kept (a_TopPosition a) g db db1"
    using change_roles_cases [OF *(1)] *(2) access assignRoles_ranks [OF inv _ m(2) plain(2,5)] m(1) by auto
  moreover have "roles_of db' g w = roles_of db1 g w" if "UpdateMemberNickname db1 g u nick = (r2, db')" for nick r2 w
    using UpdateMemberNickname_frame [OF that] by (simp add: roles_of_def)
  ultimately show "db' = db1 \<Longrightarrow> ranks_kept (a_TopPosition a) g db db'"
    and "UpdateMemberNickname db1 g u nick = (r2, db') \<Longrightarrow> ranks_kept (a_TopPosition a) g db db'" for nick r2
    by (auto intro: ranks_kept_cong)
qed simp

text \<open>An update changes another member only when the caller outranks it.\<close>

lemma UpdateMember_other_outranked:
  assumes inv: "guild_inv db" and run: "UpdateMember us t db v g u input = (res, db')"
    and other: "v \<noteq> u" and changed: "db' \<noteq> db"
  shows "\<not> is_owner db g u" and "is_owner db g v \<or> top_position db g u < top_position db g v"
proof -
  have schema: "guild_schema db"
    using inv by (simp add: guild_inv_def)
  from UpdateMember_cases [OF run] changed obtain a m r1 db1 where
    *: "GetAccess db g v = Inr a" "check_nickname_change db a v g u input = Inr ()"
      "change_roles us db a v g u m input = (r1, db1)" "db1 = db \<longrightarrow> opt_Set (umi_Nickname input)"
    by blast
  have "checkOutranksMember db a g u = Inr ()"
  proof (cases "opt_Set (umi_Nickname input)")
    case True
    with *(2) other show ?thesis
      by (auto simp: check_nickname_change_def split: if_splits)
  next
    case False
    with *(3,4) other change_roles_cases [OF *(3)] show ?thesis
      by auto
  qed
  then have **: "\<not> is_owner db g u" "Outranks a (top_position db g u)"
    by (simp_all add: checkOutranksMember_Inr [OF schema])
  then show "\<not> is_owner db g u" by simp
  show "is_owner db g v \<or> top_position db g u < top_position db g v"
    using *(1) **(2) by (auto simp: GetAccess_Inr [OF schema] Outranks_def split: if_splits)
qed

lemma RemoveMember_ok:
  assumes "guild_inv db" and "RemoveMember db v g u = (Inr x, db')"
  shows "v \<noteq> u \<and> is_member db g v \<and> is_member db g u \<and> \<not> is_owner db g u
    \<and> (is_owner db g v \<or> bit (member_permissions db g v) 6 \<and> top_position db g u < top_position db g v)
    \<and> db' = drop_members (\<lambda>m. member_key m = (g, u)) db"
proof -
  have schema: "guild_schema db"
    using assms(1) by (simp add: guild_inv_def)
  have bit6: "bit PermManageMembers 6"
    by (simp add: PermManageMembers_def bit_push_bit_iff)
  from assms(2) obtain a where a: "GetAccess db g v = Inr a" "Has a PermManageMembers" "v \<noteq> u"
      "checkOutranksMember db a g u = Inr ()" "Store_RemoveMember db g u = (Inr x, db')"
    unfolding RemoveMember_def returns require_Inr by auto
  have "a_Owner a = is_owner db g v" "is_member db g v"
    "\<not> is_owner db g v \<Longrightarrow> a_Permissions a = member_permissions db g v \<and> a_TopPosition a = top_position db g v"
    using a(1) by (auto simp: GetAccess_Inr [OF schema] ownerAccess_def split: if_splits)
  with a bit6 show ?thesis
    by (auto simp: checkOutranksMember_Inr [OF schema] Has_iff_bits Outranks_def Store_RemoveMember_def split: if_splits)
qed

lemma Store_RemoveMember_guild_inv:
  assumes inv: "guild_inv db" and "\<not> is_owner db g u" and run: "Store_RemoveMember db g u = (res, db')"
  shows "guild_inv db'"
proof (cases "is_member db g u")
  case True
  with run have "db' = drop_members (\<lambda>m. member_key m = (g, u)) db"
    by (simp add: Store_RemoveMember_def)
  with assms(2) inv show ?thesis
    by (auto simp: is_owner_def intro!: guild_inv_drop_members)
qed (use run inv in \<open>simp add: Store_RemoveMember_def\<close>)

lemma RemoveMember_error: "RemoveMember db v g u = (Inl err, db') \<Longrightarrow> db' = db"
  by (auto simp: RemoveMember_def Store_RemoveMember_def split: sum.splits if_splits)

lemma RemoveMember_guild_inv:
  assumes "guild_inv db" and "RemoveMember db v g u = (res, db')"
  shows "guild_inv db'"
proof (cases res)
  case (Inl err)
  with assms RemoveMember_error show ?thesis by blast
next
  case (Inr x)
  with RemoveMember_ok [OF assms(1)] assms(2) have *: "\<not> is_owner db g u" "is_member db g u"
      "db' = drop_members (\<lambda>m. member_key m = (g, u)) db"
    by blast+
  then have "Store_RemoveMember db g u = (Inr (), db')"
    by (simp add: Store_RemoveMember_def)
  with * show ?thesis
    by (intro Store_RemoveMember_guild_inv [OF assms(1)])
qed

lemma LeaveGuild_guild_inv:
  assumes inv: "guild_inv db" and run: "LeaveGuild db u g = (res, db')"
  shows "guild_inv db'"
proof (cases "\<exists>gu. Store_GetGuild db u g = Inr gu \<and> g_OwnerID gu \<noteq> u")
  case True
  have keys: "guild_keys db"
    using inv by (simp add: guild_inv_def guild_schema_def)
  from True obtain gu where gu: "gu \<in> set (guilds db)" "g_ID gu = g" "g_OwnerID gu \<noteq> u"
    and "Store_GetGuild db u g = Inr gu"
    by (auto simp: Store_GetGuild_Inr [OF keys])
  then have "Store_RemoveMember db g u = (res, db')"
    using run by (simp add: LeaveGuild_def)
  moreover have "\<not> is_owner db g u"
    using gu keys by (auto simp: is_owner_def guild_keys_def dest: distinct_key_eq)
  ultimately show ?thesis
    by (intro Store_RemoveMember_guild_inv [OF inv])
next
  case False
  with run inv show ?thesis
    by (auto simp: LeaveGuild_def split: sum.splits if_splits)
qed

subsection \<open>Facts on invites\<close>

lemma guild_inv_invites:
  assumes inv: "guild_inv db" and "distinct (map ir_id is)" and "distinct (map ir_code is)"
    and ok: "\<And>i. i \<in> set is \<Longrightarrow> invite_row_ok i \<and> ir_guild i \<in> keys g_ID (guilds db) \<and> ir_inviter i \<in> keys us_ID (users db)"
  shows "guild_inv (db\<lparr>invites := is\<rparr>)"
proof -
  let ?db = "db\<lparr>invites := is\<rparr>"
  have "owners_are_members ?db = owners_are_members db" "roles_inv ?db = roles_inv db"
    by (simp_all add: owners_are_members_def roles_inv_def default_roles_def is_member_def)
  moreover have "guild_keys ?db" "guild_refs ?db" "guild_checks ?db"
    using assms by (auto simp: guild_inv_def guild_schema_def guild_keys_def guild_refs_def guild_checks_def is_member_def)
  ultimately show ?thesis
    using inv by (simp add: guild_inv_def guild_schema_def)
qed

lemma guild_inv_update_invite:
  assumes inv: "guild_inv db" and key: "\<And>i. ir_id (f i) = ir_id i" "\<And>i. ir_code (f i) = ir_code i"
      "\<And>i. ir_guild (f i) = ir_guild i" "\<And>i. ir_inviter (f i) = ir_inviter i"
    and ok: "\<And>i. i \<in> set (invites db) \<Longrightarrow> p i \<Longrightarrow> invite_row_ok (f i)"
  shows "guild_inv (db\<lparr>invites := update_where p f (invites db)\<rparr>)"
proof (rule guild_inv_invites [OF inv])
  show "distinct (map ir_id (update_where p f (invites db)))" "distinct (map ir_code (update_where p f (invites db)))"
    using inv by (simp_all add: map_update_where key guild_inv_def guild_schema_def guild_keys_def)
  fix i assume "i \<in> set (update_where p f (invites db))"
  then show "invite_row_ok i \<and> ir_guild i \<in> keys g_ID (guilds db) \<and> ir_inviter i \<in> keys us_ID (users db)"
    using inv ok by (auto simp: set_update_where key guild_inv_def guild_schema_def guild_refs_def guild_checks_def)
qed

lemma Store_CreateInvite_guild_inv:
  assumes inv: "guild_inv db" and "Store_CreateInvite db invite = (res, db')"
  shows "guild_inv db'"
proof (cases "db' = db")
  case False
  with assms(2) obtain row where row: "db' = db\<lparr>invites := invites db @ [row]\<rparr>"
      "ir_id row \<notin> keys ir_id (invites db)" "ir_code row \<notin> keys ir_code (invites db)"
      "ir_guild row \<in> keys g_ID (guilds db)" "ir_inviter row \<in> keys us_ID (users db)" "invite_row_ok row"
    unfolding Store_CreateInvite_def Let_def runs by (auto split: option.splits)
  show ?thesis
    unfolding row(1) using inv row(2-)
    by (intro guild_inv_invites [OF inv]) (auto simp: guild_inv_def guild_schema_def guild_keys_def guild_refs_def guild_checks_def)
qed (use inv in simp)

lemma CreateInvite_guild_inv:
  assumes inv: "guild_inv db" and run: "CreateInvite gen rand now db u g input = (res, db')"
  shows "guild_inv db'"
proof (cases "db' = db")
  case False
  with run obtain invite where "Store_CreateInvite db invite = (res, db')"
    unfolding CreateInvite_def runs by auto
  then show ?thesis by (rule Store_CreateInvite_guild_inv [OF inv])
qed (use inv in simp)

lemma RevokeInvite_guild_inv:
  assumes inv: "guild_inv db" and run: "RevokeInvite now db u g i = (res, db')"
  shows "guild_inv db'"
proof (cases "db' = db")
  case False
  with run have db': "db' = db\<lparr>invites := update_where (\<lambda>j. ir_id j = i \<and> ir_guild j = g \<and> ir_revoked j = None)
      (\<lambda>j. j\<lparr>ir_revoked := Some now\<rparr>) (invites db)\<rparr>"
    by (auto simp: RevokeInvite_def Store_RevokeInvite_def runs Let_def)
  show ?thesis
    unfolding db' using inv
    by (intro guild_inv_update_invite) (auto simp: guild_inv_def guild_schema_def guild_checks_def invite_row_ok_def cong: option.case_cong)
qed (use inv in simp)

lemma unique_invite:
  "guild_keys db \<Longrightarrow> i \<in> set (invites db) \<Longrightarrow> j \<in> set (invites db) \<Longrightarrow> ir_id i = ir_id j \<Longrightarrow> i = j"
  by (auto simp: guild_keys_def dest: distinct_key_eq)

text \<open>The acceptances that write: the invite is open, the user was not a member, one use is counted.\<close>

definition accepted :: "chat_db \<Rightarrow> invite_row \<Rightarrow> uuid \<Rightarrow> time \<Rightarrow> chat_db" where
  "accepted db i userID now =
     db\<lparr>members := members db @ [\<lparr>gm_guild = ir_guild i, gm_user = userID, gm_joined = now, gm_nickname = None\<rparr>],
        invites := update_where (\<lambda>j. ir_id j = ir_id i) (\<lambda>j. j\<lparr>ir_uses := ir_uses j + 1\<rparr>) (invites db)\<rparr>"

lemma Store_AcceptInvite_cases:
  assumes schema: "guild_schema db" and run: "Store_AcceptInvite db code u now = (res, db')"
  shows "(\<exists>err. res = Inl err \<and> db' = db)
    \<or> (\<exists>i m. i \<in> set (invites db) \<and> ir_code i = code \<and> res = Inr (m, False) \<and> db' = db \<and> is_member db (ir_guild i) u)
    \<or> (\<exists>i m. i \<in> set (invites db) \<and> ir_code i = code \<and> res = Inr (m, True) \<and> invite_open now i
         \<and> \<not> is_member db (ir_guild i) u \<and> u \<in> keys us_ID (users db)
         \<and> invite_row_ok (i\<lparr>ir_uses := ir_uses i + 1\<rparr>) \<and> db' = accepted db i u now
         \<and> getMemberByID db' (ir_guild i) u = Inr m)"
proof (cases "\<exists>err. res = Inl err")
  case True
  then obtain err where "res = Inl err" by blast
  moreover have "db' = db"
    using run unfolding calculation Store_AcceptInvite_def Let_def
    by (auto split: option.splits if_splits sum.splits)
  ultimately show ?thesis by blast
next
  case False
  then obtain m joined where res: "res = Inr (m, joined)"
    by (cases res) auto
  from run obtain i where i: "find_by ir_code (invites db) code = Some i" "ir_revoked i = None"
    unfolding Store_AcceptInvite_def res returns by (auto simp: returns)
  then have i': "i \<in> set (invites db)" "ir_code i = code"
    by (auto dest: find_by_SomeD)
  show ?thesis
  proof (cases "getMemberByID db (ir_guild i) u")
    case (Inr existing)
    then have "res = Inr (existing, False) \<and> db' = db"
      using run i by (simp add: Store_AcceptInvite_def)
    with i' getMemberByID_Inr(1) [OF Inr] show ?thesis by blast
  next
    case (Inl err)
    have no: "\<not> is_member db (ir_guild i) u"
      using Inl getMemberByID_member [OF schema, of "ir_guild i" u] by auto
    have "(case ir_expires i of None \<Rightarrow> True | Some e \<Rightarrow> e > now) \<and> (case ir_max_uses i of None \<Rightarrow> True | Some n \<Rightarrow> ir_uses i < n)
        \<and> u \<in> keys us_ID (users db) \<and> invite_row_ok (i\<lparr>ir_uses := ir_uses i + 1\<rparr>)
        \<and> getMemberByID (accepted db i u now) (ir_guild i) u = Inr m \<and> joined \<and> db' = accepted db i u now"
      using run i Inl unfolding res
      by (auto simp: Store_AcceptInvite_def Let_def accepted_def returns split: if_splits option.splits)
    with i i' no show ?thesis
      unfolding res by (auto simp: invite_open_def)
  qed
qed

lemma accepted_guild_inv:
  assumes inv: "guild_inv db" and i: "i \<in> set (invites db)" and no: "\<not> is_member db (ir_guild i) u"
    and user: "u \<in> keys us_ID (users db)" and ok: "invite_row_ok (i\<lparr>ir_uses := ir_uses i + 1\<rparr>)"
  shows "guild_inv (accepted db i u now)"
proof -
  let ?gm = "\<lparr>gm_guild = ir_guild i, gm_user = u, gm_joined = now, gm_nickname = None\<rparr>"
  have "ir_guild i \<in> keys g_ID (guilds db)"
    using inv i by (auto simp: guild_inv_def guild_schema_def guild_refs_def)
  then have 1: "guild_inv (db\<lparr>members := members db @ [?gm]\<rparr>)" (is "guild_inv ?db")
    using no user by (intro guild_inv_add_member [OF inv]) (simp_all add: is_member_def member_row_ok_def)
  have keys: "guild_keys db"
    using inv by (simp add: guild_inv_def guild_schema_def)
  have "guild_inv (?db\<lparr>invites := update_where (\<lambda>j. ir_id j = ir_id i) (\<lambda>j. j\<lparr>ir_uses := ir_uses j + 1\<rparr>) (invites ?db)\<rparr>)"
    by (rule guild_inv_update_invite [OF 1]) (use ok unique_invite [OF keys _ i] in \<open>auto dest: sym\<close>)
  then show ?thesis
    by (simp add: accepted_def)
qed

lemma AcceptInvite_run:
  "AcceptInvite t now db u code = (res, db') \<Longrightarrow> db' = db \<and> (\<exists>err. res = Inl err) \<or>
    (\<exists>r. Store_AcceptInvite db code u now = (r, db') \<and> res = map_sum (\<lambda>err. err) (map_prod (applyPresence t) (\<lambda>b. b)) r)"
  by (auto simp: AcceptInvite_def split: if_splits prod.splits sum.splits)

lemma AcceptInvite_guild_inv:
  assumes inv: "guild_inv db" and run: "AcceptInvite t now db u code = (res, db')"
  shows "guild_inv db'"
proof (cases "db' = db")
  case False
  with AcceptInvite_run [OF run] obtain r where "Store_AcceptInvite db code u now = (r, db')"
    by blast
  with False inv Store_AcceptInvite_cases [of db code u now r db'] obtain i where
    "i \<in> set (invites db)" "\<not> is_member db (ir_guild i) u" "u \<in> keys us_ID (users db)"
    "invite_row_ok (i\<lparr>ir_uses := ir_uses i + 1\<rparr>)" "db' = accepted db i u now"
    unfolding guild_inv_def by blast
  with inv show ?thesis
    by (simp add: accepted_guild_inv)
qed (use inv in simp)

end
