(* ===== verification/Guilds.thy ===== *)
theory Guilds
  imports Members
begin

section \<open>Guilds\<close>

text \<open>
  The guild operations of \<open>internal/chat/service.go\<close> and \<open>postgres.go\<close>, and the role operations
  of a guild as a step relation: what any sequence of them by members below a rank can change.
\<close>

subsection \<open>Statements\<close>

text \<open>One transaction: the guild, the membership of its owner, the default role.\<close>

definition Store_CreateGuild :: "uuid option \<Rightarrow> chat_db \<Rightarrow> uuid \<Rightarrow> Guild \<Rightarrow> unit result \<times> chat_db" where
  "Store_CreateGuild gen db ownerID guild =
     (let row = guild\<lparr>g_OwnerID := ownerID\<rparr> in
      if g_ID row \<in> keys g_ID (guilds db) \<or> ownerID \<notin> keys us_ID (users db) \<or> \<not> guild_row_ok row
      then (Inl (ErrInternal ''insert guild''), db)
      else let db1 = db\<lparr>guilds := guilds db @ [row]\<rparr>;
               gm = \<lparr>gm_guild = g_ID guild, gm_user = ownerID, gm_joined = g_CreatedAt guild, gm_nickname = None\<rparr> in
        if member_key gm \<in> keys member_key (members db1)
        then (Inl (ErrInternal ''insert guild owner membership''), db)
        else let db2 = db1\<lparr>members := members db1 @ [gm]\<rparr> in
          (case newUUIDv7 gen of Inl err \<Rightarrow> (Inl err, db)
           | Inr roleID \<Rightarrow>
               let role = \<lparr>rr_id = roleID, rr_guild = g_ID guild, rr_name = ''@everyone'', rr_color = None,
                           rr_permissions = to_int32 DefaultRolePermissions, rr_position = 0, rr_managed = True,
                           rr_default = True, rr_created = g_CreatedAt guild\<rparr> in
               if rr_id role \<in> keys rr_id (roles db2) \<or> default_roles db2 (g_ID guild) \<noteq> [] \<or> \<not> role_row_ok role
               then (Inl (ErrInternal ''insert default role''), db)
               else (Inr (), db2\<lparr>roles := roles db2 @ [role]\<rparr>)))"

text \<open>The join of the memberships of a user with their guilds.\<close>

definition guild_list_rows :: "chat_db \<Rightarrow> uuid \<Rightarrow> (Guild \<times> time) list" where
  "guild_list_rows db userID = List.map_filter
     (\<lambda>gm. map_option (\<lambda>g. (g, gm_joined gm)) (find_by g_ID (guilds db) (gm_guild gm)))
     (filter (\<lambda>gm. gm_user gm = userID) (members db))"

abbreviation guild_page_key :: "Guild \<times> time \<Rightarrow> time \<times> uuid" where
  "guild_page_key r \<equiv> (snd r, g_ID (fst r))"

definition Store_ListGuilds :: "chat_db \<Rightarrow> uuid \<Rightarrow> pageCursor option \<Rightarrow> int \<Rightarrow> (Guild \<times> time) list" where
  "Store_ListGuilds db userID cursor limit =
     keyset_desc guild_page_key (map_option (\<lambda>c. (pc_Time c, pc_ID c)) cursor) limit (guild_list_rows db userID)"

definition patch_guild :: "UpdateGuildInput \<Rightarrow> Guild \<Rightarrow> Guild" where
  "patch_guild input g = g\<lparr>
     g_Name := (case ugi_Name input of None \<Rightarrow> g_Name g | Some n \<Rightarrow> n),
     g_Description := (if opt_Set (ugi_Description input) then opt_Value (ugi_Description input) else g_Description g)\<rparr>"

definition Store_UpdateGuild :: "chat_db \<Rightarrow> uuid \<Rightarrow> uuid \<Rightarrow> UpdateGuildInput \<Rightarrow> Guild result \<times> chat_db" where
  "Store_UpdateGuild db userID guildID input =
     (case find_by g_ID (guilds db) guildID of None \<Rightarrow> (Inl ErrNotFound, db)
      | Some g \<Rightarrow>
          if \<not> is_member db guildID userID then (Inl ErrNotFound, db)
          else if \<not> guild_row_ok (patch_guild input g) then (Inl (ErrInternal ''update guild''), db)
          else (Inr (patch_guild input g),
                db\<lparr>guilds := update_where (\<lambda>g. g_ID g = guildID) (patch_guild input) (guilds db)\<rparr>))"

definition Store_DeleteGuild :: "chat_db \<Rightarrow> uuid \<Rightarrow> uuid \<Rightarrow> unit result \<times> chat_db" where
  "Store_DeleteGuild db ownerID guildID =
     (let gone = (\<lambda>g. g_ID g = guildID \<and> g_OwnerID g = ownerID)
      in if filter gone (guilds db) = [] then (Inl ErrNotFound, db) else (Inr (), drop_guilds gone db))"

subsection \<open>The service\<close>

definition CreateGuild ::
  "uuid option \<Rightarrow> uuid option \<Rightarrow> time \<Rightarrow> chat_db \<Rightarrow> uuid \<Rightarrow> CreateGuildInput \<Rightarrow> Guild result \<times> chat_db" where
  "CreateGuild gen gen2 now db ownerID input =
     (case validateName ''name'' (cgi_Name input) of Inl err \<Rightarrow> (Inl err, db)
      | Inr name \<Rightarrow> (case normalizeOptionalText ''description'' (cgi_Description input) 1024 of Inl err \<Rightarrow> (Inl err, db)
      | Inr description \<Rightarrow> (case newUUIDv7 gen of Inl err \<Rightarrow> (Inl err, db)
      | Inr i \<Rightarrow>
          let guild = \<lparr>g_ID = i, g_OwnerID = ownerID, g_Name = name, g_Description = description,
                       g_IconURL = None, g_CreatedAt = now\<rparr> in
          (case Store_CreateGuild gen2 db ownerID guild of (Inl err, db') \<Rightarrow> (Inl err, db')
           | (Inr _, db') \<Rightarrow> (Inr guild, db')))))"

definition ListGuilds :: "cursor_json \<Rightarrow> chat_db \<Rightarrow> uuid \<Rightarrow> string \<Rightarrow> int \<Rightarrow> Guild Page result" where
  "ListGuilds json db userID cursorValue limit =
     (case decodeCursor json cursorValue cursorGuilds of Inl err \<Rightarrow> Inl err
      | Inr cursor \<Rightarrow> (case validateLimit limit of Inl err \<Rightarrow> Inl err
      | Inr _ \<Rightarrow> channelPage json limit
          (\<lambda>(g, joined). \<lparr>pc_Kind = cursorGuilds, pc_Time = joined, pc_Position = 0, pc_ID = g_ID g\<rparr>) fst
          (Store_ListGuilds db userID cursor (limit + 1))))"

definition GetGuild :: "chat_db \<Rightarrow> uuid \<Rightarrow> uuid \<Rightarrow> Guild result" where
  "GetGuild db userID guildID = Store_GetGuild db userID guildID"

definition UpdateGuild :: "chat_db \<Rightarrow> uuid \<Rightarrow> uuid \<Rightarrow> UpdateGuildInput \<Rightarrow> Guild result \<times> chat_db" where
  "UpdateGuild db userID guildID input =
     (if ugi_Name input = None \<and> \<not> opt_Set (ugi_Description input)
      then (Inl (ValidationError ''body'' ''must contain at least one field''), db)
      else (case require db userID guildID PermManageGuild of Inl err \<Rightarrow> (Inl err, db)
      | Inr _ \<Rightarrow> (case (case ugi_Name input of None \<Rightarrow> Inr None | Some n \<Rightarrow> map_sum (\<lambda>err. err) Some (validateName ''name'' n)) of
          Inl err \<Rightarrow> (Inl err, db)
      | Inr name \<Rightarrow> (case (if opt_Set (ugi_Description input)
                           then normalizeOptionalText ''description'' (opt_Value (ugi_Description input)) 1024
                           else Inr (opt_Value (ugi_Description input))) of
          Inl err \<Rightarrow> (Inl err, db)
      | Inr description \<Rightarrow> Store_UpdateGuild db userID guildID
          (input\<lparr>ugi_Name := name, ugi_Description := (ugi_Description input)\<lparr>opt_Value := description\<rparr>\<rparr>)))))"

definition DeleteGuild :: "chat_db \<Rightarrow> uuid \<Rightarrow> uuid \<Rightarrow> unit result \<times> chat_db" where
  "DeleteGuild db userID guildID =
     (case Store_GetGuild db userID guildID of Inl err \<Rightarrow> (Inl err, db)
      | Inr guild \<Rightarrow>
          if g_OwnerID guild \<noteq> userID then (Inl ErrForbidden, db) else Store_DeleteGuild db userID guildID)"

subsection \<open>The operations keep the invariant\<close>

lemma default_role_ok: "known_permissions DefaultRolePermissions" "role_row_ok \<lparr>rr_id = i, rr_guild = g,
    rr_name = ''@everyone'', rr_color = None, rr_permissions = to_int32 DefaultRolePermissions, rr_position = 0,
    rr_managed = True, rr_default = True, rr_created = t\<rparr>"
proof -
  show "known_permissions DefaultRolePermissions"
    by (rule known_permissions_and_not [THEN iffD1]) code_simp
  have "char_length_between 1 100 ''@everyone''" "pg_text ''@everyone''"
    by (simp_all add: char_length_between_def utf8_RuneCountInString_def pg_text_def utf8_ValidString_def rune_error_def)
  moreover have "0 \<le> sint (to_int32 DefaultRolePermissions)"
    by (simp add: to_int32_def DefaultRolePermissions_def perm_defs)
  ultimately show "role_row_ok \<lparr>rr_id = i, rr_guild = g, rr_name = ''@everyone'', rr_color = None,
      rr_permissions = to_int32 DefaultRolePermissions, rr_position = 0, rr_managed = True, rr_default = True, rr_created = t\<rparr>"
    by (simp add: role_row_ok_def int4_def)
qed

lemma Store_CreateGuild_ok:
  assumes "Store_CreateGuild gen db u guild = (res, db')" and "db' \<noteq> db"
  obtains i where "gen = Some i" and "res = Inr ()" and "g_ID guild \<notin> keys g_ID (guilds db)" and "u \<in> keys us_ID (users db)"
    and "guild_row_ok (guild\<lparr>g_OwnerID := u\<rparr>)" and "i \<notin> keys rr_id (roles db)"
    and "db' = db\<lparr>guilds := guilds db @ [guild\<lparr>g_OwnerID := u\<rparr>],
      members := members db @ [\<lparr>gm_guild = g_ID guild, gm_user = u, gm_joined = g_CreatedAt guild, gm_nickname = None\<rparr>],
      roles := roles db @ [\<lparr>rr_id = i, rr_guild = g_ID guild, rr_name = ''@everyone'', rr_color = None,
        rr_permissions = to_int32 DefaultRolePermissions, rr_position = 0, rr_managed = True,
        rr_default = True, rr_created = g_CreatedAt guild\<rparr>]\<rparr>"
  using assms unfolding Store_CreateGuild_def Let_def runs newUUIDv7_def
  by (auto split: option.splits if_splits)

lemma guild_row_ok_owner [simp]: "guild_row_ok (g\<lparr>g_OwnerID := u\<rparr>) = guild_row_ok g"
  by (simp add: guild_row_ok_def)

lemma Store_CreateGuild_guild_inv:
  assumes inv: "guild_inv db" and run: "Store_CreateGuild gen db u guild = (res, db')"
  shows "guild_inv db'"
proof (cases "db' = db")
  case False
  with run obtain i where new: "g_ID guild \<notin> keys g_ID (guilds db)" "u \<in> keys us_ID (users db)" "guild_row_ok guild"
      "i \<notin> keys rr_id (roles db)"
    and db': "db' = db\<lparr>guilds := guilds db @ [guild\<lparr>g_OwnerID := u\<rparr>],
      members := members db @ [\<lparr>gm_guild = g_ID guild, gm_user = u, gm_joined = g_CreatedAt guild, gm_nickname = None\<rparr>],
      roles := roles db @ [\<lparr>rr_id = i, rr_guild = g_ID guild, rr_name = ''@everyone'', rr_color = None,
        rr_permissions = to_int32 DefaultRolePermissions, rr_position = 0, rr_managed = True,
        rr_default = True, rr_created = g_CreatedAt guild\<rparr>]\<rparr>" (is "_ = db\<lparr>guilds := ?gs, members := ?ms, roles := ?rs\<rparr>")
    by (rule Store_CreateGuild_ok) simp_all
  have "\<forall>r\<in>set (roles db). rr_guild r \<in> keys g_ID (guilds db)" "\<forall>m\<in>set (members db). gm_guild m \<in> keys g_ID (guilds db)"
    using inv by (simp_all add: guild_inv_def guild_schema_def guild_refs_def)
  with new(1) have refs: "\<forall>r\<in>set (roles db). rr_guild r \<noteq> g_ID guild" "\<forall>m\<in>set (members db). gm_guild m \<noteq> g_ID guild"
    by metis+
  have mr: "\<forall>(g, v, r)\<in>set (member_roles db). r \<noteq> i"
    using inv new(4) by (force simp: guild_inv_def guild_schema_def guild_refs_def role_key_def)
  have mono: "is_member db g v \<Longrightarrow> is_member db' g v" for g v
    by (simp add: is_member_def db')
  have "guild_keys db'"
    using inv new refs(2) unfolding db' by (auto simp: guild_inv_def guild_schema_def guild_keys_def)
  moreover have "guild_refs db'"
    using inv new(2) mono unfolding guild_inv_def guild_schema_def guild_refs_def
    by (simp add: db' case_prod_beta)
  moreover have "guild_checks db'"
    using inv new(3) default_role_ok(2)
    by (auto simp: guild_inv_def guild_schema_def guild_checks_def db' member_row_ok_def)
  moreover have "owners_are_members db'"
    using inv mono by (auto simp: guild_inv_def owners_are_members_def db' is_member_def)
  moreover have "default_roles db' g = (if g = g_ID guild then [last ?rs] else default_roles db g)" for g
    using refs(1) by (auto simp: default_roles_def db' filter_empty_conv)
  then have "roles_inv db'"
    using inv new(1) mr default_role_ok(1)
    by (auto simp: guild_inv_def roles_inv_def db' int32_roundtrip)
  ultimately show ?thesis
    by (simp add: guild_inv_def guild_schema_def)
qed (use inv in simp)

lemma CreateGuild_guild_inv:
  assumes inv: "guild_inv db" and run: "CreateGuild gen gen2 now db u input = (res, db')"
  shows "guild_inv db'"
proof (cases "db' = db")
  case False
  with run obtain guild r where "Store_CreateGuild gen2 db u guild = (r, db')"
    unfolding CreateGuild_def Let_def runs by auto
  then show ?thesis by (rule Store_CreateGuild_guild_inv [OF inv])
qed (use inv in simp)

lemma guild_inv_update_guild:
  assumes inv: "guild_inv db" and key: "\<And>g. g_ID (f g) = g_ID g" "\<And>g. g_OwnerID (f g) = g_OwnerID g"
    and ok: "\<And>g. g \<in> set (guilds db) \<Longrightarrow> p g \<Longrightarrow> guild_row_ok (f g)"
  shows "guild_inv (db\<lparr>guilds := update_where p f (guilds db)\<rparr>)"
proof -
  let ?db = "db\<lparr>guilds := update_where p f (guilds db)\<rparr>"
  have 1: "map g_ID (update_where p f (guilds db)) = map g_ID (guilds db)"
    by (rule map_update_where) (rule key)
  then have 2: "keys g_ID (update_where p f (guilds db)) = keys g_ID (guilds db)"
    by (metis set_map)
  have 3: "\<forall>g\<in>set (update_where p f (guilds db)). guild_row_ok g \<and> g_OwnerID g \<in> keys us_ID (users db)
      \<and> is_member db (g_ID g) (g_OwnerID g) \<and> length (default_roles db (g_ID g)) = 1"
    using inv ok by (auto simp: set_update_where key guild_inv_def guild_schema_def guild_checks_def guild_refs_def
        owners_are_members_def roles_inv_def)
  have 4: "is_member ?db = is_member db" "default_roles ?db = default_roles db"
    by (simp_all add: fun_eq_iff is_member_def default_roles_def)
  have "guild_keys ?db"
    using inv by (simp add: guild_inv_def guild_schema_def guild_keys_def 1)
  moreover have "guild_refs ?db"
    using inv 3 by (simp add: guild_inv_def guild_schema_def guild_refs_def 2 4)
  moreover have "guild_checks ?db"
    using inv 3 by (simp add: guild_inv_def guild_schema_def guild_checks_def)
  moreover have "owners_are_members ?db"
    using 3 by (simp add: owners_are_members_def 4)
  moreover have "roles_inv db"
    using inv by (simp add: guild_inv_def)
  with 3 have "roles_inv ?db"
    unfolding roles_inv_def 4 by auto
  ultimately show ?thesis
    by (simp add: guild_inv_def guild_schema_def)
qed

lemma patch_guild_simps [simp]: "g_ID (patch_guild input g) = g_ID g" "g_OwnerID (patch_guild input g) = g_OwnerID g"
  by (simp_all add: patch_guild_def)

lemma UpdateGuild_guild_inv:
  assumes inv: "guild_inv db" and run: "UpdateGuild db u g input = (res, db')"
  shows "guild_inv db'"
proof (cases "db' = db")
  case False
  with run obtain inp where "Store_UpdateGuild db u g inp = (res, db')"
    unfolding UpdateGuild_def runs by auto
  with False obtain gu where gu: "find_by g_ID (guilds db) g = Some gu" "guild_row_ok (patch_guild inp gu)"
    and db': "db' = db\<lparr>guilds := update_where (\<lambda>g'. g_ID g' = g) (patch_guild inp) (guilds db)\<rparr>"
    unfolding Store_UpdateGuild_def runs by auto
  have keys: "distinct (map g_ID (guilds db))"
    using inv by (simp add: guild_inv_def guild_schema_def guild_keys_def)
  have one: "g' = gu" if "g' \<in> set (guilds db)" "g_ID g' = g" for g'
    using find_by_distinct [OF keys that(1)] that(2) gu(1) by simp
  show ?thesis
    unfolding db' using one gu(2) by (intro guild_inv_update_guild [OF inv]) auto
qed (use inv in simp)

lemma drop_guilds_fields:
  fixes p :: "Guild \<Rightarrow> bool" and db :: chat_db
  defines "gone \<equiv> g_ID ` {g \<in> set (guilds db). p g}"
  shows "guilds (drop_guilds p db) = delete_where p (guilds db)"
    and "members (drop_guilds p db) = delete_where (\<lambda>m. gm_guild m \<in> gone) (members db)"
    and "roles (drop_guilds p db) = delete_where (\<lambda>r. rr_guild r \<in> gone) (roles db)"
    and "invites (drop_guilds p db) = delete_where (\<lambda>i. ir_guild i \<in> gone) (invites db)"
    and "set (member_roles (drop_guilds p db)) = {(g, u, r) \<in> set (member_roles db).
           \<not> (g \<in> gone \<and> is_member db g u) \<and> \<not> (g \<in> gone \<and> (g, r) \<in> keys role_key (roles db))}"
    and "distinct (member_roles db) \<Longrightarrow> distinct (member_roles (drop_guilds p db))"
proof -
  have gone: "set (map g_ID (filter p (guilds db))) = gone"
    by (auto simp: gone_def)
  show "guilds (drop_guilds p db) = delete_where p (guilds db)"
    by (simp add: frame)
  show "members (drop_guilds p db) = delete_where (\<lambda>m. gm_guild m \<in> gone) (members db)"
      "roles (drop_guilds p db) = delete_where (\<lambda>r. rr_guild r \<in> gone) (roles db)"
      "invites (drop_guilds p db) = delete_where (\<lambda>i. ir_guild i \<in> gone) (invites db)"
    unfolding drop_guilds_def Let_def gone by (simp_all add: frame)
  show "set (member_roles (drop_guilds p db)) = {(g, u, r) \<in> set (member_roles db).
           \<not> (g \<in> gone \<and> is_member db g u) \<and> \<not> (g \<in> gone \<and> (g, r) \<in> keys role_key (roles db))}"
    unfolding drop_guilds_def Let_def gone
    by (auto simp: frame drop_roles_def drop_members_def Let_def set_delete_where is_member_def role_key_def)
  show "distinct (member_roles db) \<Longrightarrow> distinct (member_roles (drop_guilds p db))"
    unfolding drop_guilds_def Let_def by (simp add: frame drop_roles_def drop_members_def Let_def distinct_delete_where)
qed

lemma guild_inv_drop_guilds:
  assumes inv: "guild_inv db"
  shows "guild_inv (drop_guilds p db)"
proof -
  let ?db = "drop_guilds p db"
  define gone where "gone = g_ID ` {g \<in> set (guilds db). p g}"
  note f = drop_guilds_fields [where p = p and db = db, folded gone_def]
  have keys: "distinct (map g_ID (guilds db))"
    using inv by (simp add: guild_inv_def guild_schema_def guild_keys_def)
  have kept: "g \<in> keys g_ID (guilds db) \<Longrightarrow> g \<notin> gone \<Longrightarrow> g \<in> keys g_ID (guilds ?db)" for g
    unfolding f gone_def by (auto simp: set_delete_where)
  have alive: "g_ID g \<notin> gone" if "g \<in> set (guilds ?db)" for g
    using that distinct_key_eq [OF keys, of g] unfolding f gone_def by (auto simp: set_delete_where)
  have mem: "is_member ?db g u \<longleftrightarrow> is_member db g u \<and> g \<notin> gone" for g u
    by (auto simp: is_member_def f set_delete_where image_iff)
  have rk: "(g, r) \<in> keys role_key (roles ?db) \<longleftrightarrow> (g, r) \<in> keys role_key (roles db) \<and> g \<notin> gone" for g r
    by (auto simp: f set_delete_where image_iff role_key_def)
  have "guild_keys ?db"
    using inv f(6) by (simp add: guild_inv_def guild_schema_def guild_keys_def f(1-4) frame distinct_map_delete_where)
  moreover have "guild_refs ?db"
  proof -
    have "\<forall>(g, u, r)\<in>set (member_roles ?db). is_member ?db g u \<and> (g, r) \<in> keys role_key (roles ?db)"
      unfolding f(5) mem rk using inv by (auto simp: guild_inv_def guild_schema_def guild_refs_def)
    moreover have "\<forall>m\<in>set (members ?db). gm_guild m \<in> keys g_ID (guilds ?db)"
      using inv kept by (auto simp: f(2) set_delete_where guild_inv_def guild_schema_def guild_refs_def)
    moreover have "\<forall>m\<in>set (roles ?db). rr_guild m \<in> keys g_ID (guilds ?db)"
      using inv kept by (auto simp: f(3) set_delete_where guild_inv_def guild_schema_def guild_refs_def)
    moreover have "\<forall>m\<in>set (invites ?db). ir_guild m \<in> keys g_ID (guilds ?db)"
      using inv kept by (auto simp: f(4) set_delete_where guild_inv_def guild_schema_def guild_refs_def)
    ultimately show ?thesis
      using inv unfolding guild_inv_def guild_schema_def guild_refs_def
      by (simp add: f(1-4) set_delete_where frame)
  qed
  moreover have "guild_checks ?db"
    using inv by (auto simp: guild_inv_def guild_schema_def guild_checks_def f(1-4) set_delete_where)
  moreover have "owners_are_members ?db"
    using inv alive by (auto simp: guild_inv_def owners_are_members_def mem f(1) set_delete_where)
  moreover have "default_roles ?db g = default_roles db g" if "g \<notin> gone" for g
    unfolding default_roles_def f(3) using that by (intro filter_delete_where_other) auto
  with alive have "roles_inv ?db"
    using inv by (auto simp: guild_inv_def roles_inv_def f(1,3,5) set_delete_where)
  ultimately show ?thesis
    by (simp add: guild_inv_def guild_schema_def)
qed

lemma DeleteGuild_guild_inv:
  assumes inv: "guild_inv db" and run: "DeleteGuild db u g = (res, db')"
  shows "guild_inv db'"
proof (cases "db' = db")
  case False
  with run show ?thesis
    by (auto simp: DeleteGuild_def Store_DeleteGuild_def Let_def runs intro: guild_inv_drop_guilds [OF inv])
qed (use inv in simp)

subsection \<open>The role operations as steps\<close>

text \<open>\<open>role_step v g\<close>: one request of \<open>v\<close> that writes roles or members of the guild \<open>g\<close>.\<close>

inductive role_step :: "uuid \<Rightarrow> uuid \<Rightarrow> chat_db \<Rightarrow> chat_db \<Rightarrow> bool" for v g where
  create: "CreateRole gen now db v g input = (res, db') \<Longrightarrow> role_step v g db db'"
| update: "UpdateRole db v g i inputU = (resU, db') \<Longrightarrow> role_step v g db db'"
| delete: "DeleteRole db v g i = (resD, db') \<Longrightarrow> role_step v g db db'"
| assign: "UpdateMember us t db v g u inputM = (resM, db') \<Longrightarrow> role_step v g db db'"

inductive_cases role_stepE: "role_step v g db db'"

lemma role_step_guild_inv: "role_step v g db db' \<Longrightarrow> guild_inv db \<Longrightarrow> guild_inv db'"
  by (erule role_stepE) (blast intro: CreateRole_guild_inv UpdateRole_guild_inv DeleteRole_guild_inv UpdateMember_guild_inv)+

lemma assignRoles_frame:
  assumes "assignRoles us db a m ids = (res, db')"
  shows "guilds db' = guilds db \<and> is_member db' = is_member db"
proof (cases res)
  case (Inr x)
  with assms show ?thesis
    by (auto simp: is_member_def fun_eq_iff dest!: SetMemberRoles_ok elim!: assignRoles_ok)
qed (use assms assignRoles_error [of us db a m ids] in auto)

lemma role_step_frame:
  assumes "role_step v g db db'"
  shows "guilds db' = guilds db \<and> is_member db' = is_member db"
  using assms
proof (cases rule: role_step.cases)
  case (create gen now input res)
  then show ?thesis
    using CreateRole_error [of gen now db v g input] CreateRole_ok [of gen now db v g input]
    by (cases res) (auto simp: is_member_def fun_eq_iff)
next
  case (update i input res)
  then show ?thesis
    using UpdateRole_error [of db v g i input] UpdateRole_ok [of db v g i input] Store_UpdateRole_ok [of db]
    by (cases res) (fastforce simp: is_member_def fun_eq_iff)+
next
  case (delete i res)
  then show ?thesis
    using DeleteRole_error [of db v g i] DeleteRole_ok [of db v g i]
    by (cases res) (fastforce simp: is_member_def fun_eq_iff frame)+
next
  case (assign us t u input res)
  from UpdateMember_cases [OF this] show ?thesis
    using UpdateMemberNickname_frame change_roles_cases assignRoles_frame by metis
qed

lemma role_step_ranks:
  assumes inv: "guild_inv db" and step: "role_step v g db db'" and plain: "\<not> is_owner db g v"
  shows "ranks_kept (top_position db g v) g db db'"
proof (cases "GetAccess db g v")
  case (Inl err)
  have "db' = db"
    using step by (cases rule: role_step.cases)
      (auto simp: CreateRole_def UpdateRole_def DeleteRole_def UpdateMember_def require_def Inl split: if_splits)
  then show ?thesis by simp
next
  case (Inr a)
  then have "a_TopPosition a = top_position db g v"
    using plain_access [OF inv Inr plain] by simp
  with step Inr plain show ?thesis
    by (cases rule: role_step.cases)
      (metis CreateRole_ranks [OF inv] UpdateRole_ranks [OF inv] DeleteRole_ranks [OF inv] UpdateMember_ranks [OF inv])+
qed

text \<open>Any sequence of such requests by members of a set \<open>S\<close>.\<close>

inductive role_steps :: "uuid set \<Rightarrow> uuid \<Rightarrow> chat_db \<Rightarrow> chat_db \<Rightarrow> bool" for S g where
  none: "role_steps S g db db"
| more: "role_steps S g db db1 \<Longrightarrow> v \<in> S \<Longrightarrow> role_step v g db1 db' \<Longrightarrow> role_steps S g db db'"

lemma role_steps_kept:
  assumes "role_steps S g db db'" and "guild_inv db" and "\<And>v. v \<in> S \<Longrightarrow> \<not> is_owner db g v"
    and "\<And>v. v \<in> S \<Longrightarrow> top_position db g v \<le> t"
  shows "guild_inv db' \<and> guilds db' = guilds db
    \<and> (\<forall>u. if t < top_position db g u then top_position db' g u = top_position db g u else top_position db' g u \<le> t)"
  using assms
proof (induction rule: role_steps.induct)
  case (none db)
  then show ?case by auto
next
  case (more db db1 v db')
  then have IH: "guild_inv db1" "guilds db1 = guilds db"
      "\<forall>u. if t < top_position db g u then top_position db1 g u = top_position db g u else top_position db1 g u \<le> t"
    by blast+
  have v: "\<not> is_owner db1 g v"
    using more.hyps(2) more.prems(2) IH(2) by (simp add: is_owner_def)
  have vt: "top_position db1 g v \<le> t"
    using IH(3) more.prems(3) [OF more.hyps(2)] by (auto split: if_splits)
  have kept: "ranks_kept (top_position db1 g v) g db1 db'"
    using IH(1) more.hyps(3) v by (rule role_step_ranks)
  have "if t < top_position db g u then top_position db' g u = top_position db g u else top_position db' g u \<le> t" for u
    using kept [unfolded ranks_kept_def, rule_format, of u] IH(3) [rule_format, of u] vt
    by (cases "top_position db1 g v \<le> top_position db1 g u") (auto split: if_splits)
  then show ?case
    using role_step_guild_inv [OF more.hyps(3) IH(1)] role_step_frame [OF more.hyps(3)] IH(2) by simp
qed

end
