(* ===== verification/Channels.thy ===== *)
theory Channels
  imports Guilds
begin

section \<open>Channels, threads and direct messages\<close>

text \<open>
  The channel operations of \<open>internal/chat/service.go\<close> and \<open>channels_postgres.go\<close>: guild
  channels, categories, threads, direct messages, the authorization of voice channels, and the
  audience of a channel (\<open>postgres.go\<close>).
\<close>

subsection \<open>Rows\<close>

definition scanChannel :: "channel_row \<Rightarrow> Channel" where
  "scanChannel c = \<lparr>c_ID = cr_id c, c_GuildID = cr_guild c, c_Type = cr_type c, c_Name = cr_name c,
     c_Topic = cr_topic c, c_ParentID = cr_parent c, c_Position = cr_position c, c_Recipients = [],
     c_CreatedAt = cr_created c\<rparr>"

definition channel_row_ok :: "channel_row \<Rightarrow> bool" where
  "channel_row_ok c \<longleftrightarrow>
     cr_type c \<in> {ChannelTypeText, ChannelTypeVoice, ChannelTypeCategory, ChannelTypeThread, ChannelTypeDirect}
     \<and> (cr_type c = ChannelTypeDirect \<and> cr_guild c = None \<and> cr_name c = None \<and> cr_parent c = None \<and> cr_dm_key c \<noteq> None
        \<or> cr_type c \<noteq> ChannelTypeDirect \<and> cr_guild c \<noteq> None \<and> cr_name c \<noteq> None \<and> cr_dm_key c = None)
     \<and> (case cr_name c of None \<Rightarrow> True | Some n \<Rightarrow> char_length_between 1 100 n \<and> pg_text n)
     \<and> (case cr_topic c of None \<Rightarrow> True | Some t \<Rightarrow> char_length_between 0 1024 t \<and> pg_text t \<and> cr_type c = ChannelTypeText)
     \<and> (cr_type c = ChannelTypeCategory \<longrightarrow> cr_parent c = None)
     \<and> 0 \<le> cr_position c \<and> int4 (cr_position c)"

text \<open>The participants of a channel, in the order of the view.\<close>

definition participants :: "chat_db \<Rightarrow> channel_row \<Rightarrow> uuid list" where
  "participants db c =
     (case cr_guild c of None \<Rightarrow> [] | Some g \<Rightarrow> map gm_user (filter (\<lambda>m. gm_guild m = g) (members db)))
     @ map snd (filter (\<lambda>(x, _). x = cr_id c) (dm_participants db))"

definition populateRecipients :: "chat_db \<Rightarrow> Channel \<Rightarrow> Channel" where
  "populateRecipients db ch =
     (if c_Type ch = ChannelTypeDirect
      then ch\<lparr>c_Recipients := c_Recipients ch @ sort_key us_ID (List.map_filter (\<lambda>(_, u). find_by us_ID (users db) u)
             (filter (\<lambda>(x, _). x = c_ID ch) (dm_participants db)))\<rparr>
      else ch)"

subsection \<open>Statements\<close>

text \<open>One transaction that holds the row of the guild, so positions are given one at a time.\<close>

definition Store_CreateChannel :: "chat_db \<Rightarrow> Channel \<Rightarrow> Channel result \<times> chat_db" where
  "Store_CreateChannel db ch =
     (case c_GuildID ch of None \<Rightarrow> (Inl ErrNotFound, db)
      | Some g \<Rightarrow>
          if g \<notin> keys g_ID (guilds db) then (Inl ErrNotFound, db)
          else let position = max_or (- 1) (map cr_position (filter (\<lambda>c. cr_guild c = Some g \<and> cr_type c \<noteq> ChannelTypeThread) (channels db))) + 1 in
            if \<not> int4 position then (Inl (ErrInternal ''select channel position''), db)
            else let row = \<lparr>cr_id = c_ID ch, cr_guild = c_GuildID ch, cr_type = c_Type ch, cr_name = c_Name ch,
                            cr_topic = c_Topic ch, cr_parent = c_ParentID ch, cr_position = position,
                            cr_starter = None, cr_dm_key = None, cr_created = c_CreatedAt ch, cr_updated = c_CreatedAt ch\<rparr> in
              if cr_id row \<in> keys cr_id (channels db) \<or> \<not> channel_row_ok row
                 \<or> (case cr_parent row of None \<Rightarrow> False | Some p \<Rightarrow> p \<notin> keys cr_id (channels db))
              then (Inl (ErrInternal ''insert channel''), db)
              else (Inr (ch\<lparr>c_Position := position, c_Recipients := []\<rparr>), db\<lparr>channels := channels db @ [row]\<rparr>))"

abbreviation channel_page_key :: "channel_row \<Rightarrow> int \<times> uuid" where
  "channel_page_key c \<equiv> (cr_position c, cr_id c)"

definition guild_channels :: "chat_db \<Rightarrow> uuid \<Rightarrow> uuid \<Rightarrow> channel_row list" where
  "guild_channels db userID guildID =
     filter (\<lambda>c. cr_guild c = Some guildID \<and> is_member db guildID userID \<and> cr_type c \<noteq> ChannelTypeThread) (channels db)"

definition Store_ListChannels :: "chat_db \<Rightarrow> uuid \<Rightarrow> uuid \<Rightarrow> pageCursor option \<Rightarrow> int \<Rightarrow> channel_row list result" where
  "Store_ListChannels db userID guildID cursor limit =
     (let items = keyset_asc channel_page_key (map_option (\<lambda>c. (pc_Position c, pc_ID c)) cursor) limit
                    (guild_channels db userID guildID)
      in if items = [] \<and> \<not> is_member db guildID userID then Inl ErrNotFound else Inr items)"

definition Store_GetChannel :: "chat_db \<Rightarrow> uuid \<Rightarrow> uuid \<Rightarrow> Channel result" where
  "Store_GetChannel db userID channelID =
     (case find_by cr_id (channels db) channelID of None \<Rightarrow> Inl ErrNotFound
      | Some c \<Rightarrow> if userID \<in> set (participants db c) then Inr (populateRecipients db (scanChannel c)) else Inl ErrNotFound)"

definition patch_channel :: "UpdateChannelInput \<Rightarrow> time \<Rightarrow> channel_row \<Rightarrow> channel_row" where
  "patch_channel input updatedAt c = c\<lparr>
     cr_name := (case uci_Name input of None \<Rightarrow> cr_name c | Some n \<Rightarrow> Some n),
     cr_topic := (if opt_Set (uci_Topic input) then opt_Value (uci_Topic input) else cr_topic c),
     cr_position := (case uci_Position input of None \<Rightarrow> cr_position c | Some p \<Rightarrow> p),
     cr_parent := (if opt_Set (uci_ParentID input) then opt_Value (uci_ParentID input) else cr_parent c),
     cr_updated := updatedAt\<rparr>"

definition in_guild_of :: "chat_db \<Rightarrow> uuid \<Rightarrow> channel_row \<Rightarrow> bool" where
  "in_guild_of db userID c \<longleftrightarrow> (case cr_guild c of None \<Rightarrow> False | Some g \<Rightarrow> is_member db g userID)"

definition Store_UpdateChannel :: "chat_db \<Rightarrow> uuid \<Rightarrow> uuid \<Rightarrow> UpdateChannelInput \<Rightarrow> time \<Rightarrow> Channel result \<times> chat_db" where
  "Store_UpdateChannel db userID channelID input updatedAt =
     (case find_by cr_id (channels db) channelID of None \<Rightarrow> (Inl ErrNotFound, db)
      | Some c \<Rightarrow>
          if \<not> in_guild_of db userID c then (Inl ErrNotFound, db)
          else if \<not> channel_row_ok (patch_channel input updatedAt c)
             \<or> (case cr_parent (patch_channel input updatedAt c) of None \<Rightarrow> False | Some p \<Rightarrow> p \<notin> keys cr_id (channels db))
          then (Inl (ErrInternal ''update channel''), db)
          else (Inr (scanChannel (patch_channel input updatedAt c)),
                db\<lparr>channels := update_where (\<lambda>c. cr_id c = channelID) (patch_channel input updatedAt) (channels db)\<rparr>))"

definition Store_DeleteChannel :: "chat_db \<Rightarrow> uuid \<Rightarrow> uuid \<Rightarrow> unit result \<times> chat_db" where
  "Store_DeleteChannel db userID channelID =
     (let gone = (\<lambda>c. (cr_id c = channelID \<or> cr_parent c = Some channelID \<and> cr_type c = ChannelTypeThread) \<and> in_guild_of db userID c)
      in if filter gone (channels db) = [] then (Inl ErrNotFound, db) else (Inr (), drop_channels gone db))"

text \<open>
  PostgreSQL tests the \<open>CHECK\<close>s of a row first, then its unique indexes, then its foreign keys;
  \<open>isUniqueViolation\<close> tells the second from the others.
\<close>

definition Store_CreateThread :: "chat_db \<Rightarrow> Channel \<Rightarrow> uuid option \<Rightarrow> time \<Rightarrow> Channel result \<times> chat_db" where
  "Store_CreateThread db thread starter now =
     (let row = \<lparr>cr_id = c_ID thread, cr_guild = c_GuildID thread, cr_type = ChannelTypeThread, cr_name = c_Name thread,
                 cr_topic = None, cr_parent = c_ParentID thread, cr_position = 0, cr_starter = starter,
                 cr_dm_key = None, cr_created = now, cr_updated = now\<rparr> in
      if \<not> channel_row_ok row then (Inl (ErrInternal ''insert thread''), db)
      else if cr_id row \<in> keys cr_id (channels db) \<or> starter \<noteq> None \<and> starter \<in> keys cr_starter (channels db)
      then (Inl ErrThreadExists, db)
      else if (case cr_guild row of None \<Rightarrow> False | Some g \<Rightarrow> g \<notin> keys g_ID (guilds db))
           \<or> (case cr_parent row of None \<Rightarrow> False | Some p \<Rightarrow> p \<notin> keys cr_id (channels db))
           \<or> (case starter of None \<Rightarrow> False | Some m \<Rightarrow> m \<notin> keys mr_id (messages db))
      then (Inl (ErrInternal ''insert thread''), db)
      else (Inr (thread\<lparr>c_Type := ChannelTypeThread, c_CreatedAt := now, c_Recipients := []\<rparr>),
            db\<lparr>channels := channels db @ [row]\<rparr>))"

abbreviation activity_key :: "channel_row \<Rightarrow> time \<times> uuid" where
  "activity_key c \<equiv> (cr_updated c, cr_id c)"

definition thread_rows :: "chat_db \<Rightarrow> uuid \<Rightarrow> uuid \<Rightarrow> channel_row list" where
  "thread_rows db userID parentID =
     filter (\<lambda>c. userID \<in> set (participants db c) \<and> cr_parent c = Some parentID \<and> cr_type c = ChannelTypeThread) (channels db)"

definition Store_ListThreads :: "chat_db \<Rightarrow> uuid \<Rightarrow> uuid \<Rightarrow> pageCursor option \<Rightarrow> int \<Rightarrow> channel_row list result" where
  "Store_ListThreads db userID parentID cursor limit =
     (let items = keyset_desc activity_key (map_option (\<lambda>c. (pc_Time c, pc_ID c)) cursor) limit (thread_rows db userID parentID)
      in if items = [] \<and> \<not> list_ex (\<lambda>c. cr_id c = parentID \<and> cr_type c = ChannelTypeText \<and> userID \<in> set (participants db c)) (channels db)
         then Inl ErrNotFound else Inr items)"

definition dm_pair :: "uuid \<Rightarrow> uuid \<Rightarrow> uuid \<times> uuid" where
  "dm_pair a b = (if b < a then (b, a) else (a, b))"

definition Store_OpenDirectChannel ::
  "chat_db \<Rightarrow> Channel \<Rightarrow> uuid \<Rightarrow> uuid \<Rightarrow> (Channel \<times> bool) result \<times> chat_db" where
  "Store_OpenDirectChannel db ch userID recipientID =
     (if recipientID \<notin> keys us_ID (users db) then (Inl ErrNotFound, db)
      else let key = dm_pair userID recipientID in
        (case find_by cr_dm_key (channels db) (Some key) of
           Some c \<Rightarrow> (Inr (populateRecipients db (scanChannel c), False), db)
         | None \<Rightarrow>
             if c_ID ch \<in> keys cr_id (channels db) then (Inl (ErrInternal ''insert direct channel''), db)
             else let row = \<lparr>cr_id = c_ID ch, cr_guild = None, cr_type = ChannelTypeDirect, cr_name = None, cr_topic = None,
                             cr_parent = None, cr_position = 0, cr_starter = None, cr_dm_key = Some key,
                             cr_created = c_CreatedAt ch, cr_updated = c_CreatedAt ch\<rparr> in
               if userID \<notin> keys us_ID (users db) \<or> userID = recipientID
                  \<or> (c_ID ch, userID) \<in> set (dm_participants db) \<or> (c_ID ch, recipientID) \<in> set (dm_participants db)
               then (Inl (ErrInternal ''insert direct participants''), db)
               else let db' = db\<lparr>channels := channels db @ [row],
                                 dm_participants := dm_participants db @ [(c_ID ch, userID), (c_ID ch, recipientID)]\<rparr>
                    in (Inr (populateRecipients db' (scanChannel row), True), db')))"

definition direct_rows :: "chat_db \<Rightarrow> uuid \<Rightarrow> channel_row list" where
  "direct_rows db userID = List.map_filter (\<lambda>(x, _). find_by cr_id (channels db) x)
     (filter (\<lambda>(_, u). u = userID) (dm_participants db))"

definition Store_ListDirectChannels :: "chat_db \<Rightarrow> uuid \<Rightarrow> pageCursor option \<Rightarrow> int \<Rightarrow> channel_row list" where
  "Store_ListDirectChannels db userID cursor limit =
     keyset_desc activity_key (map_option (\<lambda>c. (pc_Time c, pc_ID c)) cursor) limit (direct_rows db userID)"

definition Store_ChannelAudience :: "chat_db \<Rightarrow> uuid \<Rightarrow> Audience" where
  "Store_ChannelAudience db channelID =
     (case find_by cr_id (channels db) channelID of None \<Rightarrow> \<lparr>au_UserIDs = [], au_Direct = False\<rparr>
      | Some c \<Rightarrow>
          let ids = (if cr_type c \<in> {ChannelTypeText, ChannelTypeThread, ChannelTypeDirect} then sort (participants db c) else [])
          in \<lparr>au_UserIDs = ids, au_Direct = (ids \<noteq> [] \<and> cr_type c = ChannelTypeDirect)\<rparr>)"

subsection \<open>The service\<close>

definition GetChannel :: "chat_db \<Rightarrow> uuid \<Rightarrow> uuid \<Rightarrow> Channel result" where
  "GetChannel db userID channelID = Store_GetChannel db userID channelID"

definition checkCategory :: "chat_db \<Rightarrow> uuid \<Rightarrow> uuid \<Rightarrow> uuid \<Rightarrow> unit result" where
  "checkCategory db userID guildID parentID =
     (let bad = Inl (ValidationError ''parent_id'' ''must reference a category in this guild'') in
      case Store_GetChannel db userID parentID of
        Inl err \<Rightarrow> if err = ErrNotFound then bad else Inl err
      | Inr parent \<Rightarrow>
          if c_Type parent \<noteq> ChannelTypeCategory \<or> c_GuildID parent \<noteq> Some guildID then bad else Inr ())"

definition CreateChannel ::
  "uuid option \<Rightarrow> time \<Rightarrow> chat_db \<Rightarrow> uuid \<Rightarrow> uuid \<Rightarrow> CreateChannelInput \<Rightarrow> Channel result \<times> chat_db" where
  "CreateChannel gen now db userID guildID input =
     (case require db userID guildID PermManageChannels of Inl err \<Rightarrow> (Inl err, db)
      | Inr _ \<Rightarrow>
          if cci_Type input \<notin> {ChannelTypeText, ChannelTypeVoice, ChannelTypeCategory}
          then (Inl (ValidationError ''type'' ''must be TEXT, VOICE or CATEGORY''), db)
          else (case validateName ''name'' (cci_Name input) of Inl err \<Rightarrow> (Inl err, db)
      | Inr name \<Rightarrow> (case normalizeOptionalText ''topic'' (cci_Topic input) 1024 of Inl err \<Rightarrow> (Inl err, db)
      | Inr topic \<Rightarrow>
          if cci_Type input \<noteq> ChannelTypeText \<and> topic \<noteq> None
          then (Inl (ValidationError ''topic'' (''must be omitted for a '' @ cci_Type input @ '' channel'')), db)
          else (case (case cci_ParentID input of None \<Rightarrow> Inr ()
                      | Some p \<Rightarrow>
                          if cci_Type input = ChannelTypeCategory
                          then Inl (ValidationError ''parent_id'' ''must be omitted for a CATEGORY channel'')
                          else checkCategory db userID guildID p) of Inl err \<Rightarrow> (Inl err, db)
      | Inr _ \<Rightarrow> (case newUUIDv7 gen of Inl err \<Rightarrow> (Inl err, db)
      | Inr i \<Rightarrow> Store_CreateChannel db
          \<lparr>c_ID = i, c_GuildID = Some guildID, c_Type = cci_Type input, c_Name = Some name, c_Topic = topic,
           c_ParentID = cci_ParentID input, c_Position = 0, c_Recipients = [], c_CreatedAt = now\<rparr>)))))"

definition ListChannels :: "cursor_json \<Rightarrow> chat_db \<Rightarrow> uuid \<Rightarrow> uuid \<Rightarrow> string \<Rightarrow> int \<Rightarrow> Channel Page result" where
  "ListChannels json db userID guildID cursorValue limit =
     (case decodeCursor json cursorValue cursorChannels of Inl err \<Rightarrow> Inl err
      | Inr cursor \<Rightarrow> (case validateLimit limit of Inl err \<Rightarrow> Inl err
      | Inr _ \<Rightarrow> (case Store_ListChannels db userID guildID cursor (limit + 1) of Inl err \<Rightarrow> Inl err
      | Inr rows \<Rightarrow> channelPage json limit
          (\<lambda>c. \<lparr>pc_Kind = cursorChannels, pc_Time = 0, pc_Position = cr_position c, pc_ID = cr_id c\<rparr>) scanChannel rows)))"

definition StartTyping :: "chat_db \<Rightarrow> uuid \<Rightarrow> uuid \<Rightarrow> unit result" where
  "StartTyping db userID channelID =
     (case Store_GetChannel db userID channelID of Inl err \<Rightarrow> Inl err
      | Inr ch \<Rightarrow> if \<not> IsText ch then Inl ErrNotFound else Inr ())"

text \<open>The fields of an update, checked in the order of the code; the checks return the input to store.\<close>

definition check_channel_name :: "UpdateChannelInput \<Rightarrow> UpdateChannelInput result" where
  "check_channel_name input =
     (case uci_Name input of None \<Rightarrow> Inr input
      | Some n \<Rightarrow> (case validateName ''name'' n of Inl err \<Rightarrow> Inl err | Inr v \<Rightarrow> Inr (input\<lparr>uci_Name := Some v\<rparr>)))"

definition check_channel_topic :: "Channel \<Rightarrow> UpdateChannelInput \<Rightarrow> UpdateChannelInput result" where
  "check_channel_topic ch input =
     (if opt_Set (uci_Topic input)
      then (case normalizeOptionalText ''topic'' (opt_Value (uci_Topic input)) 1024 of Inl err \<Rightarrow> Inl err
            | Inr v \<Rightarrow>
                if c_Type ch \<noteq> ChannelTypeText \<and> v \<noteq> None
                then Inl (ValidationError ''topic'' (''must be null for a '' @ c_Type ch @ '' channel''))
                else Inr (input\<lparr>uci_Topic := (uci_Topic input)\<lparr>opt_Value := v\<rparr>\<rparr>))
      else Inr input)"

definition check_channel_parent :: "chat_db \<Rightarrow> uuid \<Rightarrow> uuid \<Rightarrow> Channel \<Rightarrow> UpdateChannelInput \<Rightarrow> unit result" where
  "check_channel_parent db userID guildID ch input =
     (if opt_Set (uci_ParentID input)
      then (case opt_Value (uci_ParentID input) of None \<Rightarrow> Inr ()
            | Some p \<Rightarrow>
                if c_Type ch = ChannelTypeCategory
                then Inl (ValidationError ''parent_id'' ''must be null for a CATEGORY channel'')
                else checkCategory db userID guildID p)
      else Inr ())"

definition UpdateChannel :: "time \<Rightarrow> chat_db \<Rightarrow> uuid \<Rightarrow> uuid \<Rightarrow> UpdateChannelInput \<Rightarrow> Channel result \<times> chat_db" where
  "UpdateChannel now db userID channelID input =
     (if uci_Name input = None \<and> \<not> opt_Set (uci_Topic input) \<and> uci_Position input = None \<and> \<not> opt_Set (uci_ParentID input)
      then (Inl (ValidationError ''body'' ''must contain at least one field''), db)
      else (case Store_GetChannel db userID channelID of Inl err \<Rightarrow> (Inl err, db)
      | Inr ch \<Rightarrow> (case c_GuildID ch of None \<Rightarrow> (Inl ErrForbidden, db)
      | Some g \<Rightarrow> (case require db userID g PermManageChannels of Inl err \<Rightarrow> (Inl err, db)
      | Inr _ \<Rightarrow>
          if c_Type ch = ChannelTypeThread \<and> (opt_Set (uci_Topic input) \<or> uci_Position input \<noteq> None \<or> opt_Set (uci_ParentID input))
          then (Inl (ValidationError ''body'' ''only the name of a thread can be changed''), db)
          else (case check_channel_name input of Inl err \<Rightarrow> (Inl err, db)
      | Inr input1 \<Rightarrow> (case check_channel_topic ch input1 of Inl err \<Rightarrow> (Inl err, db)
      | Inr input2 \<Rightarrow>
          if (case uci_Position input2 of None \<Rightarrow> False | Some p \<Rightarrow> p < 0)
          then (Inl (ValidationError ''position'' ''must be zero or greater''), db)
          else (case check_channel_parent db userID g ch input2 of Inl err \<Rightarrow> (Inl err, db)
      | Inr _ \<Rightarrow> Store_UpdateChannel db userID channelID input2 now)))))))"

definition DeleteChannel :: "chat_db \<Rightarrow> uuid \<Rightarrow> uuid \<Rightarrow> unit result \<times> chat_db" where
  "DeleteChannel db userID channelID =
     (case Store_GetChannel db userID channelID of Inl err \<Rightarrow> (Inl err, db)
      | Inr ch \<Rightarrow> (case c_GuildID ch of None \<Rightarrow> (Inl ErrForbidden, db)
      | Some g \<Rightarrow> (case require db userID g PermManageChannels of Inl err \<Rightarrow> (Inl err, db)
      | Inr _ \<Rightarrow> Store_DeleteChannel db userID channelID)))"

definition ListThreads :: "cursor_json \<Rightarrow> chat_db \<Rightarrow> uuid \<Rightarrow> uuid \<Rightarrow> string \<Rightarrow> int \<Rightarrow> Channel Page result" where
  "ListThreads json db userID parentID cursorValue limit =
     (case decodeCursor json cursorValue cursorThreads of Inl err \<Rightarrow> Inl err
      | Inr cursor \<Rightarrow> (case validateLimit limit of Inl err \<Rightarrow> Inl err
      | Inr _ \<Rightarrow> (case Store_ListThreads db userID parentID cursor (limit + 1) of Inl err \<Rightarrow> Inl err
      | Inr rows \<Rightarrow> channelPage json limit
          (\<lambda>c. \<lparr>pc_Kind = cursorThreads, pc_Time = cr_updated c, pc_Position = 0, pc_ID = cr_id c\<rparr>) scanChannel rows)))"

definition OpenDirectChannel ::
  "uuid option \<Rightarrow> time \<Rightarrow> chat_db \<Rightarrow> uuid \<Rightarrow> uuid \<Rightarrow> (Channel \<times> bool) result \<times> chat_db" where
  "OpenDirectChannel gen now db userID recipientID =
     (if recipientID = uuid_Nil then (Inl (ValidationError ''recipient_id'' ''must be a UUID''), db)
      else if recipientID = userID then (Inl (ValidationError ''recipient_id'' ''must be another user''), db)
      else (case newUUIDv7 gen of Inl err \<Rightarrow> (Inl err, db)
      | Inr i \<Rightarrow> Store_OpenDirectChannel db
          \<lparr>c_ID = i, c_GuildID = None, c_Type = [], c_Name = None, c_Topic = None, c_ParentID = None,
           c_Position = 0, c_Recipients = [], c_CreatedAt = now\<rparr> userID recipientID))"

definition ListDirectChannels :: "cursor_json \<Rightarrow> chat_db \<Rightarrow> uuid \<Rightarrow> string \<Rightarrow> int \<Rightarrow> Channel Page result" where
  "ListDirectChannels json db userID cursorValue limit =
     (case decodeCursor json cursorValue cursorDirects of Inl err \<Rightarrow> Inl err
      | Inr cursor \<Rightarrow> (case validateLimit limit of Inl err \<Rightarrow> Inl err
      | Inr _ \<Rightarrow> channelPage json limit
          (\<lambda>c. \<lparr>pc_Kind = cursorDirects, pc_Time = cr_updated c, pc_Position = 0, pc_ID = cr_id c\<rparr>)
          (\<lambda>c. populateRecipients db (scanChannel c))
          (Store_ListDirectChannels db userID cursor (limit + 1))))"

definition ChannelAudience :: "chat_db \<Rightarrow> uuid \<Rightarrow> Audience" where
  "ChannelAudience db channelID = Store_ChannelAudience db channelID"

definition AuthorizeVoice :: "chat_db \<Rightarrow> uuid \<Rightarrow> uuid \<Rightarrow> (Channel \<times> Access) result" where
  "AuthorizeVoice db userID channelID =
     (case Store_GetChannel db userID channelID of Inl err \<Rightarrow> Inl err
      | Inr ch \<Rightarrow>
          if c_Type ch \<noteq> ChannelTypeVoice then Inl ErrNotFound
          else (case c_GuildID ch of None \<Rightarrow> Inl ErrNotFound
      | Some g \<Rightarrow> (case require db userID g PermConnect of Inl err \<Rightarrow> Inl err
      | Inr access \<Rightarrow> Inr (ch, access))))"

definition ViewVoiceChannel :: "chat_db \<Rightarrow> uuid \<Rightarrow> uuid \<Rightarrow> Channel result" where
  "ViewVoiceChannel db userID channelID =
     (case Store_GetChannel db userID channelID of Inl err \<Rightarrow> Inl err
      | Inr ch \<Rightarrow> if c_Type ch \<noteq> ChannelTypeVoice then Inl ErrNotFound else Inr ch)"

end
