(* ===== verification/Messages.thy ===== *)
theory Messages
  imports Channels "HOL-Library.List_Lexorder"
begin

section \<open>Messages, reactions and thread creation\<close>

text \<open>
  The message operations of \<open>internal/chat/service.go\<close> and \<open>postgres.go\<close>, with the reply and the
  attachments of a message (\<open>attachments_postgres.go\<close>), and \<open>CreateThread\<close>, which may start from
  a message. \<open>ORDER BY emoji\<close> is taken byte by byte (the C collation); another collation of the
  database permutes the reactions of a message and nothing else. The table \<open>unicode.So\<close>
  belongs to the release of Go the program is built with and is an argument.
\<close>

subsection \<open>Views\<close>

definition text_types :: "string set" where
  "text_types = {ChannelTypeText, ChannelTypeThread, ChannelTypeDirect}"

text \<open>A text-like channel the user participates in: the joins of every message statement.\<close>

definition text_access :: "chat_db \<Rightarrow> uuid \<Rightarrow> uuid \<Rightarrow> bool" where
  "text_access db userID channelID \<longleftrightarrow>
     (case find_by cr_id (channels db) channelID of None \<Rightarrow> False
      | Some c \<Rightarrow> cr_type c \<in> text_types \<and> userID \<in> set (participants db c))"

definition reply_view :: "chat_db \<Rightarrow> message_row \<Rightarrow> MessageReply option" where
  "reply_view db m =
     (case mr_reply_to m of None \<Rightarrow> None
      | Some r \<Rightarrow> (case find_by mr_id (messages db) r of None \<Rightarrow> None
      | Some reply \<Rightarrow>
          if mr_channel reply \<noteq> mr_channel m then None
          else map_option (\<lambda>author. \<lparr>rep_ID = mr_id reply, rep_ChannelID = mr_channel reply, rep_Author = author,
                 rep_Content = mr_content reply, rep_CreatedAt = mr_created reply, rep_EditedAt = mr_edited reply\<rparr>)
               (find_by us_ID (users db) (mr_author reply))))"

definition scanMessage :: "chat_db \<Rightarrow> message_row \<Rightarrow> Message option" where
  "scanMessage db m = map_option (\<lambda>author. \<lparr>m_AttachmentIDs = [], m_Attachments = [], m_ID = mr_id m,
       m_ChannelID = mr_channel m, m_Author = author, m_Content = mr_content m, m_ReplyToMessageID = mr_reply_to m,
       m_ReplyTo = reply_view db m, m_Reactions = [], m_CreatedAt = mr_created m, m_EditedAt = mr_edited m\<rparr>)
     (find_by us_ID (users db) (mr_author m))"

definition message_attachments :: "chat_db \<Rightarrow> uuid \<Rightarrow> Attachment list" where
  "message_attachments db messageID =
     sort_key (\<lambda>a. (at_CreatedAt a, at_ID a)) (filter (\<lambda>a. at_MessageID a = Some messageID) (attachments db))"

definition message_reactions :: "chat_db \<Rightarrow> uuid \<Rightarrow> uuid \<Rightarrow> MessageReaction list" where
  "message_reactions db userID messageID =
     (let rs = filter (\<lambda>r. re_message r = messageID) (reactions db)
      in map (\<lambda>e. \<lparr>rx_Emoji = e, rx_Count = length (filter (\<lambda>r. re_emoji r = e) rs),
                   rx_Me = list_ex (\<lambda>r. re_emoji r = e \<and> re_user r = userID) rs\<rparr>)
           (sort (remdups (map re_emoji rs))))"

definition populateMessageReactions :: "chat_db \<Rightarrow> uuid \<Rightarrow> Message \<Rightarrow> Message" where
  "populateMessageReactions db userID m =
     m\<lparr>m_Attachments := message_attachments db (m_ID m), m_Reactions := message_reactions db userID (m_ID m)\<rparr>"

subsection \<open>Statements\<close>

definition message_row_ok :: "message_row \<Rightarrow> bool" where
  "message_row_ok m \<longleftrightarrow> char_length_between 0 4000 (mr_content m) \<and> pg_text (mr_content m)"

definition find_message :: "chat_db \<Rightarrow> uuid \<Rightarrow> uuid \<Rightarrow> message_row option" where
  "find_message db channelID messageID =
     (case find_by mr_id (messages db) messageID of None \<Rightarrow> None
      | Some m \<Rightarrow> if mr_channel m = channelID then Some m else None)"

definition attachable :: "uuid list \<Rightarrow> uuid \<Rightarrow> uuid \<Rightarrow> Attachment \<Rightarrow> bool" where
  "attachable ids channelID authorID a \<longleftrightarrow>
     at_ID a \<in> set ids \<and> at_ChannelID a = channelID \<and> at_UploaderID a = authorID
     \<and> at_Status a = AttachmentReady \<and> at_MessageID a = None"

text \<open>One transaction: insert the message and bump the channel, attach the attachments; every
  failure rolls both back.\<close>

definition Store_CreateMessage :: "chat_db \<Rightarrow> Message \<Rightarrow> Message result \<times> chat_db" where
  "Store_CreateMessage db msg =
     (let cid = m_ChannelID msg; author = us_ID (m_Author msg); ids = m_AttachmentIDs msg;
          row = \<lparr>mr_id = m_ID msg, mr_channel = cid, mr_author = author, mr_content = m_Content msg,
                 mr_reply_to = m_ReplyToMessageID msg, mr_created = m_CreatedAt msg, mr_edited = None\<rparr> in
      if \<not> text_access db author cid
         \<or> (case mr_reply_to row of None \<Rightarrow> False | Some r \<Rightarrow> find_message db cid r = None)
      then (Inl ErrNotFound, db)
      else if mr_id row \<in> keys mr_id (messages db) \<or> \<not> message_row_ok row
      then (Inl (ErrInternal ''create message''), db)
      else (case scanMessage db row of None \<Rightarrow> (Inl (ErrInternal ''create message''), db)
      | Some scanned \<Rightarrow>
          let db1 = db\<lparr>messages := messages db @ [row],
                       channels := update_where (\<lambda>c. cr_id c = cid) (\<lambda>c. c\<lparr>cr_updated := m_CreatedAt msg\<rparr>) (channels db)\<rparr>;
              hit = attachable ids cid author in
          if ids \<noteq> [] \<and> length (filter hit (attachments db1)) \<noteq> length ids
          then (Inl (ValidationError ''attachment_ids'' ''must reference your finalized, unused attachments for this channel''), db)
          else let db2 = (if ids = [] then db1
                          else db1\<lparr>attachments := update_where hit (\<lambda>a. a\<lparr>at_MessageID := Some (m_ID msg)\<rparr>) (attachments db1)\<rparr>)
               in (Inr (populateMessageReactions db2 author (scanned\<lparr>m_AttachmentIDs := ids\<rparr>)), db2)))"

definition channel_messages :: "chat_db \<Rightarrow> uuid \<Rightarrow> uuid \<Rightarrow> Message list" where
  "channel_messages db userID channelID =
     (if text_access db userID channelID
      then List.map_filter (scanMessage db) (filter (\<lambda>m. mr_channel m = channelID) (messages db)) else [])"

abbreviation message_page_key :: "Message \<Rightarrow> time \<times> uuid" where
  "message_page_key m \<equiv> (m_CreatedAt m, m_ID m)"

definition Store_ListMessages :: "chat_db \<Rightarrow> uuid \<Rightarrow> uuid \<Rightarrow> pageCursor option \<Rightarrow> int \<Rightarrow> Message list result" where
  "Store_ListMessages db userID channelID cursor limit =
     (let items = keyset_desc message_page_key (map_option (\<lambda>c. (pc_Time c, pc_ID c)) cursor) limit
                    (channel_messages db userID channelID)
      in if items = [] \<and> \<not> text_access db userID channelID then Inl ErrNotFound
         else Inr (map (populateMessageReactions db userID) items))"

definition Store_GetMessage :: "chat_db \<Rightarrow> uuid \<Rightarrow> uuid \<Rightarrow> uuid \<Rightarrow> Message result" where
  "Store_GetMessage db userID channelID messageID =
     (case find_message db channelID messageID of None \<Rightarrow> Inl ErrNotFound
      | Some m \<Rightarrow>
          if \<not> text_access db userID channelID then Inl ErrNotFound
          else (case scanMessage db m of None \<Rightarrow> Inl ErrNotFound
      | Some v \<Rightarrow> Inr (populateMessageReactions db userID v)))"

definition Store_UpdateMessage ::
  "chat_db \<Rightarrow> uuid \<Rightarrow> uuid \<Rightarrow> uuid \<Rightarrow> string \<Rightarrow> time \<Rightarrow> Message result \<times> chat_db" where
  "Store_UpdateMessage db authorID channelID messageID content editedAt =
     (case find_message db channelID messageID of None \<Rightarrow> (Inl ErrNotFound, db)
      | Some m \<Rightarrow>
          if mr_author m \<noteq> authorID then (Inl ErrNotFound, db)
          else let m' = m\<lparr>mr_content := content, mr_edited := Some editedAt\<rparr> in
            if \<not> message_row_ok m' then (Inl (ErrInternal ''update message''), db)
            else let db' = db\<lparr>messages := update_where (\<lambda>x. mr_id x = messageID)
                               (\<lambda>x. x\<lparr>mr_content := content, mr_edited := Some editedAt\<rparr>) (messages db)\<rparr>
                 in (case scanMessage db' m' of None \<Rightarrow> (Inl ErrNotFound, db')
                     | Some v \<Rightarrow> (Inr (populateMessageReactions db' authorID v), db')))"

text \<open>The join with the view: no condition on the type of the channel here.\<close>

definition channel_access :: "chat_db \<Rightarrow> uuid \<Rightarrow> uuid \<Rightarrow> bool" where
  "channel_access db userID channelID \<longleftrightarrow>
     (case find_by cr_id (channels db) channelID of None \<Rightarrow> False | Some c \<Rightarrow> userID \<in> set (participants db c))"

definition Store_DeleteMessage :: "chat_db \<Rightarrow> uuid \<Rightarrow> uuid \<Rightarrow> uuid \<Rightarrow> bool \<Rightarrow> unit result \<times> chat_db" where
  "Store_DeleteMessage db userID channelID messageID canManage =
     (let gone = (\<lambda>m. mr_id m = messageID \<and> mr_channel m = channelID \<and> channel_access db userID channelID
                      \<and> (mr_author m = userID \<or> canManage)) in
      if filter gone (messages db) = []
      then (case Store_GetMessage db userID channelID messageID of Inl err \<Rightarrow> (Inl err, db)
            | Inr v \<Rightarrow> if us_ID (m_Author v) \<noteq> userID then (Inl ErrForbidden, db) else (Inl ErrNotFound, db))
      else (Inr (), drop_messages gone db))"

abbreviation reaction_key :: "reaction_row \<Rightarrow> uuid \<times> uuid \<times> string" where
  "reaction_key r \<equiv> (re_message r, re_user r, re_emoji r)"

definition reaction_row_ok :: "reaction_row \<Rightarrow> bool" where
  "reaction_row_ok r \<longleftrightarrow> char_length_between 1 64 (re_emoji r) \<and> pg_text (re_emoji r)"

definition count_reactions :: "chat_db \<Rightarrow> uuid \<Rightarrow> string \<Rightarrow> nat" where
  "count_reactions db messageID emoji =
     length (filter (\<lambda>r. re_message r = messageID \<and> re_emoji r = emoji) (reactions db))"

text \<open>\<open>changeMessageReaction\<close>: \<open>change\<close> is the statement it runs, \<open>None\<close> its error.\<close>

definition changeMessageReaction ::
  "chat_db \<Rightarrow> uuid \<Rightarrow> uuid \<Rightarrow> uuid \<Rightarrow> string \<Rightarrow> (chat_db \<Rightarrow> (bool \<times> bool \<times> chat_db) option)
     \<Rightarrow> (MessageReaction \<times> bool) result \<times> chat_db" where
  "changeMessageReaction db userID channelID messageID emoji change =
     (if \<not> (find_message db channelID messageID \<noteq> None \<and> text_access db userID channelID) then (Inl ErrNotFound, db)
      else (case change db of None \<Rightarrow> (Inl (ErrInternal ''change message reaction''), db)
      | Some (changed, me, db') \<Rightarrow>
          (Inr (\<lparr>rx_Emoji = emoji, rx_Count = count_reactions db' messageID emoji, rx_Me = me\<rparr>, changed), db')))"

definition Store_AddMessageReaction ::
  "chat_db \<Rightarrow> uuid \<Rightarrow> uuid \<Rightarrow> uuid \<Rightarrow> string \<Rightarrow> time \<Rightarrow> (MessageReaction \<times> bool) result \<times> chat_db" where
  "Store_AddMessageReaction db userID channelID messageID emoji createdAt =
     changeMessageReaction db userID channelID messageID emoji (\<lambda>db.
       let row = \<lparr>re_message = messageID, re_user = userID, re_emoji = emoji, re_created = createdAt\<rparr> in
       if \<not> reaction_row_ok row then None
       else if reaction_key row \<in> keys reaction_key (reactions db) then Some (False, True, db)
       else if messageID \<notin> keys mr_id (messages db) \<or> userID \<notin> keys us_ID (users db) then None
       else Some (True, True, db\<lparr>reactions := reactions db @ [row]\<rparr>))"

definition Store_RemoveMessageReaction ::
  "chat_db \<Rightarrow> uuid \<Rightarrow> uuid \<Rightarrow> uuid \<Rightarrow> string \<Rightarrow> (MessageReaction \<times> bool) result \<times> chat_db" where
  "Store_RemoveMessageReaction db userID channelID messageID emoji =
     changeMessageReaction db userID channelID messageID emoji (\<lambda>db.
       let hit = (\<lambda>r. reaction_key r = (messageID, userID, emoji)) in
       Some (filter hit (reactions db) \<noteq> [], False, db\<lparr>reactions := delete_where hit (reactions db)\<rparr>))"

subsection \<open>The service\<close>

definition maxMessageAttachments :: nat where "maxMessageAttachments = 10"

definition check_attachment_ids :: "uuid list \<Rightarrow> unit result" where
  "check_attachment_ids ids =
     (if length ids > maxMessageAttachments
      then Inl (ValidationError ''attachment_ids'' ''must contain at most 10 attachments'')
      else if \<not> distinct ids then Inl (ValidationError ''attachment_ids'' ''must not contain duplicates'')
      else Inr ())"

definition check_message_content :: "uuid list \<Rightarrow> string \<Rightarrow> unit result" where
  "check_message_content ids content =
     (if ids = [] then validateContent content
      else if utf8_RuneCountInString content > 4000
      then Inl (ValidationError ''content'' ''must contain at most 4000 characters'')
      else Inr ())"

definition check_reply :: "chat_db \<Rightarrow> uuid \<Rightarrow> uuid \<Rightarrow> uuid option \<Rightarrow> unit result" where
  "check_reply db userID channelID replyTo =
     (case replyTo of None \<Rightarrow> Inr ()
      | Some r \<Rightarrow>
          if r = uuid_Nil then Inl (ValidationError ''reply_to_message_id'' ''must be a UUID'')
          else (case Store_GetMessage db userID channelID r of Inl err \<Rightarrow> Inl err | Inr _ \<Rightarrow> Inr ()))"

text \<open>\<open>require\<close> for a channel of a guild, nothing for a direct message.\<close>

definition require_in :: "chat_db \<Rightarrow> uuid \<Rightarrow> Channel \<Rightarrow> permissions \<Rightarrow> unit result" where
  "require_in db userID ch p =
     (case c_GuildID ch of None \<Rightarrow> Inr ()
      | Some g \<Rightarrow> (case require db userID g p of Inl err \<Rightarrow> Inl err | Inr _ \<Rightarrow> Inr ()))"

definition CreateMessage ::
  "uuid option \<Rightarrow> time \<Rightarrow> chat_db \<Rightarrow> uuid \<Rightarrow> uuid \<Rightarrow> string \<Rightarrow> uuid option \<Rightarrow> uuid list \<Rightarrow> Message result \<times> chat_db" where
  "CreateMessage gen now db userID channelID content replyTo ids =
     (case Store_GetChannel db userID channelID of Inl err \<Rightarrow> (Inl err, db)
      | Inr ch \<Rightarrow>
          if \<not> IsText ch then (Inl ErrNotFound, db)
          else (case require_in db userID ch PermSendMessages of Inl err \<Rightarrow> (Inl err, db)
      | Inr _ \<Rightarrow> (case check_attachment_ids ids of Inl err \<Rightarrow> (Inl err, db)
      | Inr _ \<Rightarrow> (case check_message_content ids content of Inl err \<Rightarrow> (Inl err, db)
      | Inr _ \<Rightarrow> (case check_reply db userID channelID replyTo of Inl err \<Rightarrow> (Inl err, db)
      | Inr _ \<Rightarrow> (case newUUIDv7 gen of Inl err \<Rightarrow> (Inl err, db)
      | Inr i \<Rightarrow> Store_CreateMessage db
          \<lparr>m_AttachmentIDs = ids, m_Attachments = [], m_ID = i, m_ChannelID = channelID,
           m_Author = \<lparr>us_ID = userID, us_DisplayName = [], us_AvatarURL = None\<rparr>, m_Content = content,
           m_ReplyToMessageID = replyTo, m_ReplyTo = None, m_Reactions = [], m_CreatedAt = now, m_EditedAt = None\<rparr>))))))"

definition ListMessages :: "cursor_json \<Rightarrow> chat_db \<Rightarrow> uuid \<Rightarrow> uuid \<Rightarrow> string \<Rightarrow> int \<Rightarrow> Message Page result" where
  "ListMessages json db userID channelID cursorValue limit =
     (case decodeCursor json cursorValue cursorMessages of Inl err \<Rightarrow> Inl err
      | Inr cursor \<Rightarrow> (case validateLimit limit of Inl err \<Rightarrow> Inl err
      | Inr _ \<Rightarrow> (case Store_ListMessages db userID channelID cursor (limit + 1) of Inl err \<Rightarrow> Inl err
      | Inr rows \<Rightarrow> channelPage json limit
          (\<lambda>m. \<lparr>pc_Kind = cursorMessages, pc_Time = m_CreatedAt m, pc_Position = 0, pc_ID = m_ID m\<rparr>) (\<lambda>m. m) rows)))"

definition GetMessage :: "chat_db \<Rightarrow> uuid \<Rightarrow> uuid \<Rightarrow> uuid \<Rightarrow> Message result" where
  "GetMessage db userID channelID messageID = Store_GetMessage db userID channelID messageID"

definition UpdateMessage ::
  "time \<Rightarrow> chat_db \<Rightarrow> uuid \<Rightarrow> uuid \<Rightarrow> uuid \<Rightarrow> string \<Rightarrow> Message result \<times> chat_db" where
  "UpdateMessage now db userID channelID messageID content =
     (case validateContent content of Inl err \<Rightarrow> (Inl err, db)
      | Inr _ \<Rightarrow> (case Store_GetMessage db userID channelID messageID of Inl err \<Rightarrow> (Inl err, db)
      | Inr v \<Rightarrow>
          if us_ID (m_Author v) \<noteq> userID then (Inl ErrForbidden, db)
          else Store_UpdateMessage db userID channelID messageID content now))"

definition DeleteMessage :: "chat_db \<Rightarrow> uuid \<Rightarrow> uuid \<Rightarrow> uuid \<Rightarrow> unit result \<times> chat_db" where
  "DeleteMessage db userID channelID messageID =
     (case Store_GetChannel db userID channelID of Inl err \<Rightarrow> (Inl err, db)
      | Inr ch \<Rightarrow> (case (case c_GuildID ch of None \<Rightarrow> Inr False
                         | Some g \<Rightarrow> (case GetAccess db g userID of Inl err \<Rightarrow> Inl err
                             | Inr access \<Rightarrow> Inr (Has access PermManageMessages))) of
          Inl err \<Rightarrow> (Inl err, db)
      | Inr canManage \<Rightarrow> Store_DeleteMessage db userID channelID messageID canManage))"

text \<open>The loop of \<open>validateReactionEmoji\<close> stops at the first rune it refuses.\<close>

definition validateReactionEmoji :: "(nat \<Rightarrow> bool) \<Rightarrow> string \<Rightarrow> unit result" where
  "validateReactionEmoji So emoji =
     (if \<not> utf8_ValidString emoji \<or> utf8_RuneCountInString emoji < 1 \<or> utf8_RuneCountInString emoji > 64
      then Inl (ValidationError ''emoji'' ''must contain 1 to 64 Unicode characters'')
      else if list_ex (\<lambda>(r, _). unicode_IsControl r \<or> unicode_IsSpace r) (runes emoji)
      then Inl (ValidationError ''emoji'' ''must not contain control or whitespace characters'')
      else if \<not> list_ex (\<lambda>(r, _). So r \<or> r = 8419) (runes emoji)
      then Inl (ValidationError ''emoji'' ''must be a Unicode emoji sequence'')
      else Inr ())"

definition AddMessageReaction ::
  "(nat \<Rightarrow> bool) \<Rightarrow> time \<Rightarrow> chat_db \<Rightarrow> uuid \<Rightarrow> uuid \<Rightarrow> uuid \<Rightarrow> string \<Rightarrow> (MessageReaction \<times> bool) result \<times> chat_db" where
  "AddMessageReaction So now db userID channelID messageID emoji =
     (case validateReactionEmoji So emoji of Inl err \<Rightarrow> (Inl err, db)
      | Inr _ \<Rightarrow> Store_AddMessageReaction db userID channelID messageID emoji now)"

definition RemoveMessageReaction ::
  "(nat \<Rightarrow> bool) \<Rightarrow> chat_db \<Rightarrow> uuid \<Rightarrow> uuid \<Rightarrow> uuid \<Rightarrow> string \<Rightarrow> (MessageReaction \<times> bool) result \<times> chat_db" where
  "RemoveMessageReaction So db userID channelID messageID emoji =
     (case validateReactionEmoji So emoji of Inl err \<Rightarrow> (Inl err, db)
      | Inr _ \<Rightarrow> Store_RemoveMessageReaction db userID channelID messageID emoji)"

subsection \<open>Threads\<close>

definition CreateThread ::
  "uuid option \<Rightarrow> time \<Rightarrow> chat_db \<Rightarrow> uuid \<Rightarrow> uuid \<Rightarrow> string \<Rightarrow> uuid option \<Rightarrow> Channel result \<times> chat_db" where
  "CreateThread gen now db userID parentID name messageID =
     (case Store_GetChannel db userID parentID of Inl err \<Rightarrow> (Inl err, db)
      | Inr parent \<Rightarrow>
          if c_Type parent \<noteq> ChannelTypeText then (Inl ErrNotFound, db)
          else (case c_GuildID parent of None \<Rightarrow> (Inl ErrNotFound, db)
      | Some g \<Rightarrow> (case require db userID g PermSendMessages of Inl err \<Rightarrow> (Inl err, db)
      | Inr _ \<Rightarrow> (case validateName ''name'' name of Inl err \<Rightarrow> (Inl err, db)
      | Inr name' \<Rightarrow> (case (case messageID of None \<Rightarrow> Inr ()
                            | Some m \<Rightarrow> (case Store_GetMessage db userID parentID m of Inl err \<Rightarrow> Inl err | Inr _ \<Rightarrow> Inr ())) of
          Inl err \<Rightarrow> (Inl err, db)
      | Inr _ \<Rightarrow> (case newUUIDv7 gen of Inl err \<Rightarrow> (Inl err, db)
      | Inr i \<Rightarrow> Store_CreateThread db
          \<lparr>c_ID = i, c_GuildID = Some g, c_Type = [], c_Name = Some name', c_Topic = None,
           c_ParentID = Some parentID, c_Position = 0, c_Recipients = [], c_CreatedAt = 0\<rparr> messageID now))))))"

end
