(* ===== verification/Attachments.thy ===== *)
theory Attachments
  imports Messages
begin

section \<open>Attachments and object storage\<close>

text \<open>
  \<open>internal/chat/attachments.go\<close>, \<open>attachments_postgres.go\<close>, and package \<open>media\<close>: the interface
  \<open>Storage\<close>, its in-memory implementation, and the janitor. An object storage is a state and
  the four methods on it; \<open>mime.ParseMediaType\<close>, \<open>strings.EqualFold\<close> and the SHA-256 digest
  are arguments.
\<close>

subsection \<open>Object storage\<close>

record ObjectInfo =
  oi_Size :: int
  oi_ContentType :: string
  oi_ChecksumSHA256 :: string

record UploadRequest =
  ur_ContentType :: string
  ur_Size :: int
  ur_ChecksumSHA256 :: string

record Upload =
  up_URL :: string
  up_Headers :: "(string \<times> string) list"
  up_ExpiresAt :: time

record Download =
  dl_URL :: string
  dl_ExpiresAt :: time

datatype storage_error = ErrObjectNotFound | StorageError string

record 's Storage =
  PresignUpload :: "'s \<Rightarrow> string \<Rightarrow> UploadRequest \<Rightarrow> duration \<Rightarrow> storage_error + Upload"
  PresignDownload :: "'s \<Rightarrow> string \<Rightarrow> string \<Rightarrow> string \<Rightarrow> duration \<Rightarrow> storage_error + Download"
  Stat :: "'s \<Rightarrow> string \<Rightarrow> storage_error + ObjectInfo"
  Delete :: "'s \<Rightarrow> string \<Rightarrow> storage_error option \<times> 's"

text \<open>\<open>MemoryStorage\<close>: its objects and the reading of its clock.\<close>

record memoryObject =
  mo_body :: string
  mo_contentType :: string

record MemoryStorage =
  ms_objects :: "string \<rightharpoonup> memoryObject"
  ms_now :: time

definition hex_digit :: "nat \<Rightarrow> char" where
  "hex_digit n = (if n < 10 then char_of (48 + n) else char_of (87 + n))"

definition hex_EncodeToString :: "string \<Rightarrow> string" where
  "hex_EncodeToString s = concat (map (\<lambda>c. [hex_digit (of_char c div 16), hex_digit (of_char c mod 16)]) s)"

definition Memory_Put :: "MemoryStorage \<Rightarrow> string \<Rightarrow> string \<Rightarrow> string \<Rightarrow> MemoryStorage" where
  "Memory_Put m key contentType body =
     m\<lparr>ms_objects := (ms_objects m)(key \<mapsto> \<lparr>mo_body = body, mo_contentType = contentType\<rparr>)\<rparr>"

definition Memory_Has :: "MemoryStorage \<Rightarrow> string \<Rightarrow> bool" where
  "Memory_Has m key \<longleftrightarrow> ms_objects m key \<noteq> None"

definition Memory_Stat :: "(string \<Rightarrow> string) \<Rightarrow> MemoryStorage \<Rightarrow> string \<Rightarrow> storage_error + ObjectInfo" where
  "Memory_Stat sha256 m key =
     (case ms_objects m key of None \<Rightarrow> Inl ErrObjectNotFound
      | Some obj \<Rightarrow> Inr \<lparr>oi_Size = int (length (mo_body obj)), oi_ContentType = mo_contentType obj,
                        oi_ChecksumSHA256 = hex_EncodeToString (sha256 (mo_body obj))\<rparr>)"

definition Memory_Delete :: "MemoryStorage \<Rightarrow> string \<Rightarrow> storage_error option \<times> MemoryStorage" where
  "Memory_Delete m key = (None, m\<lparr>ms_objects := (ms_objects m)(key := None)\<rparr>)"

definition Memory_PresignUpload :: "MemoryStorage \<Rightarrow> string \<Rightarrow> UploadRequest \<Rightarrow> duration \<Rightarrow> storage_error + Upload" where
  "Memory_PresignUpload m key request ttl = Inr \<lparr>up_URL = ''memory://upload/'' @ key,
     up_Headers = [(''Content-Type'', ur_ContentType request)], up_ExpiresAt = ms_now m + ttl\<rparr>"

definition Memory_PresignDownload ::
  "MemoryStorage \<Rightarrow> string \<Rightarrow> string \<Rightarrow> string \<Rightarrow> duration \<Rightarrow> storage_error + Download" where
  "Memory_PresignDownload m key filename contentType ttl =
     Inr \<lparr>dl_URL = ''memory://download/'' @ key, dl_ExpiresAt = ms_now m + ttl\<rparr>"

definition MemoryStorage_methods :: "(string \<Rightarrow> string) \<Rightarrow> MemoryStorage Storage" where
  "MemoryStorage_methods sha256 = \<lparr>PresignUpload = Memory_PresignUpload, PresignDownload = Memory_PresignDownload,
     Stat = Memory_Stat sha256, Delete = Memory_Delete\<rparr>"

subsection \<open>Statements\<close>

definition checksum_ok :: "string \<Rightarrow> bool" where
  "checksum_ok s \<longleftrightarrow> length s = 64 \<and> list_all (\<lambda>c. is_digit c \<or> between CHR ''a'' CHR ''f'' c) s"

definition attachment_row_ok :: "Attachment \<Rightarrow> bool" where
  "attachment_row_ok a \<longleftrightarrow>
     char_length_between 1 255 (at_Filename a) \<and> pg_text (at_Filename a)
     \<and> char_length_between 3 255 (at_ContentType a) \<and> pg_text (at_ContentType a)
     \<and> 1 \<le> at_Size a \<and> at_Size a \<le> 26214400 \<and> checksum_ok (at_ChecksumSHA256 a)
     \<and> at_Status a \<in> {AttachmentPending, AttachmentReady} \<and> pg_text (at_ObjectKey a)
     \<and> (at_MessageID a = None \<or> at_Status a = AttachmentReady)"

definition unused_attachments :: "chat_db \<Rightarrow> uuid \<Rightarrow> Attachment list" where
  "unused_attachments db userID = filter (\<lambda>a. at_UploaderID a = userID \<and> at_MessageID a = None) (attachments db)"

text \<open>One transaction that locks the uploader, so the count and the insert are one step.\<close>

definition Store_CreateAttachment :: "chat_db \<Rightarrow> Attachment \<Rightarrow> nat \<Rightarrow> Attachment result \<times> chat_db" where
  "Store_CreateAttachment db a maxUnused =
     (if length (unused_attachments db (at_UploaderID a)) \<ge> maxUnused then (Inl ErrUploadQuota, db)
      else let row = a\<lparr>at_Status := AttachmentPending, at_MessageID := None\<rparr> in
        if at_ID row \<in> keys at_ID (attachments db) \<or> at_ObjectKey row \<in> keys at_ObjectKey (attachments db)
           \<or> at_ChannelID row \<notin> keys cr_id (channels db) \<or> at_UploaderID row \<notin> keys us_ID (users db)
           \<or> \<not> attachment_row_ok row
        then (Inl (ErrInternal ''insert attachment''), db)
        else (Inr (a\<lparr>at_Status := AttachmentPending\<rparr>), db\<lparr>attachments := attachments db @ [row]\<rparr>))"

definition Store_GetAttachment :: "chat_db \<Rightarrow> uuid \<Rightarrow> uuid \<Rightarrow> Attachment result" where
  "Store_GetAttachment db userID attachmentID =
     (case find_by at_ID (attachments db) attachmentID of None \<Rightarrow> Inl ErrNotFound
      | Some a \<Rightarrow>
          if channel_access db userID (at_ChannelID a) \<and> (at_Status a = AttachmentReady \<or> at_UploaderID a = userID)
          then Inr a else Inl ErrNotFound)"

definition MarkAttachmentReady :: "chat_db \<Rightarrow> uuid \<Rightarrow> Attachment result \<times> chat_db" where
  "MarkAttachmentReady db attachmentID =
     (case find_by at_ID (attachments db) attachmentID of None \<Rightarrow> (Inl ErrNotFound, db)
      | Some a \<Rightarrow> (Inr (a\<lparr>at_Status := AttachmentReady\<rparr>),
          db\<lparr>attachments := update_where (\<lambda>a. at_ID a = attachmentID) (\<lambda>a. a\<lparr>at_Status := AttachmentReady\<rparr>) (attachments db)\<rparr>))"

definition Store_DeleteAttachment :: "chat_db \<Rightarrow> uuid \<Rightarrow> uuid \<Rightarrow> unit result \<times> chat_db" where
  "Store_DeleteAttachment db userID attachmentID =
     (let gone = (\<lambda>a. at_ID a = attachmentID \<and> at_UploaderID a = userID \<and> at_MessageID a = None) in
      if filter gone (attachments db) = []
      then if list_ex (\<lambda>a. at_ID a = attachmentID \<and> at_UploaderID a = userID) (attachments db)
           then (Inl ErrAttachmentInUse, db) else (Inl ErrNotFound, db)
      else (Inr (), drop_attachments gone db))"

definition expired :: "time \<Rightarrow> time \<Rightarrow> Attachment \<Rightarrow> bool" where
  "expired pendingBefore unusedBefore a \<longleftrightarrow> at_MessageID a = None
     \<and> (at_Status a = AttachmentPending \<and> at_CreatedAt a < pendingBefore
        \<or> at_Status a = AttachmentReady \<and> at_CreatedAt a < unusedBefore)"

definition ExpireAttachments :: "chat_db \<Rightarrow> time \<Rightarrow> time \<Rightarrow> nat \<times> chat_db" where
  "ExpireAttachments db pendingBefore unusedBefore =
     (length (filter (expired pendingBefore unusedBefore) (attachments db)),
      drop_attachments (expired pendingBefore unusedBefore) db)"

definition PendingStorageDeletions :: "chat_db \<Rightarrow> nat \<Rightarrow> string list" where
  "PendingStorageDeletions db limit = map fst (take limit (sort_key (\<lambda>(k, t). (t, k)) (storage_deletions db)))"

definition CompleteStorageDeletion :: "chat_db \<Rightarrow> string \<Rightarrow> chat_db" where
  "CompleteStorageDeletion db key = db\<lparr>storage_deletions := delete_where (\<lambda>(k, _). k = key) (storage_deletions db)\<rparr>"

subsection \<open>The service\<close>

definition maxAttachmentSize :: int where "maxAttachmentSize = 26214400"
definition maxUnusedAttachments :: nat where "maxUnusedAttachments = 25"
definition uploadIntentLifetime :: duration where "uploadIntentLifetime = 15 * time_Minute"
definition downloadIntentLifetime :: duration where "downloadIntentLifetime = 5 * time_Minute"

definition checksumPattern :: "string \<Rightarrow> bool" where
  "checksumPattern s \<longleftrightarrow> length s = 64 \<and> list_all is_hex_digit s"

text \<open>\<open>strings.ToLower\<close> on text the pattern has matched, which is ASCII.\<close>

definition ascii_lower :: "char \<Rightarrow> char" where
  "ascii_lower c = (if between CHR ''A'' CHR ''Z'' c then char_of (of_char c + 32 :: nat) else c)"

definition validateFilename :: "string \<Rightarrow> string result" where
  "validateFilename v =
     (let v' = strings_TrimSpace v; n = utf8_RuneCountInString v' in
      if n < 1 \<or> n > 255 then Inl (ValidationError ''filename'' ''must contain between 1 and 255 characters'')
      else if list_ex (\<lambda>(r, _). unicode_IsControl r \<or> r = 47 \<or> r = 92) (runes v')
      then Inl (ValidationError ''filename'' ''must not contain control characters or path separators'')
      else Inr v')"

definition validateContentType :: "(string \<Rightarrow> string option) \<Rightarrow> string \<Rightarrow> string result" where
  "validateContentType ParseMediaType v =
     (case ParseMediaType v of None \<Rightarrow> Inl (ValidationError ''content_type'' ''must be a valid media type'')
      | Some mediaType \<Rightarrow>
          if CHR ''/'' \<notin> set mediaType \<or> length mediaType < 3 \<or> length mediaType > 255
          then Inl (ValidationError ''content_type'' ''must be a valid media type'') else Inr mediaType)"

definition sameMediaType :: "(string \<Rightarrow> string option) \<Rightarrow> string \<Rightarrow> string \<Rightarrow> bool" where
  "sameMediaType ParseMediaType reported declared \<longleftrightarrow> ParseMediaType reported = Some declared"

definition AttachmentURL :: "(uuid \<Rightarrow> string) \<Rightarrow> uuid \<Rightarrow> string" where
  "AttachmentURL uuid_String i = ''/api/v1/attachments/'' @ uuid_String i @ ''/content''"

definition CreateAttachmentIntent ::
  "(uuid \<Rightarrow> string) \<Rightarrow> (string \<Rightarrow> string option) \<Rightarrow> ('s Storage \<times> 's) option \<Rightarrow> uuid option \<Rightarrow> time \<Rightarrow> chat_db
     \<Rightarrow> uuid \<Rightarrow> uuid \<Rightarrow> CreateAttachmentInput \<Rightarrow> (Attachment \<times> Upload) result \<times> chat_db" where
  "CreateAttachmentIntent uuid_String ParseMediaType storage gen now db userID channelID input =
     (case storage of None \<Rightarrow> (Inl ErrStorageUnavailable, db)
      | Some (media, objects) \<Rightarrow> (case Store_GetChannel db userID channelID of Inl err \<Rightarrow> (Inl err, db)
      | Inr ch \<Rightarrow>
          if \<not> IsText ch then (Inl ErrNotFound, db)
          else (case require_in db userID ch PermSendMessages of Inl err \<Rightarrow> (Inl err, db)
      | Inr _ \<Rightarrow> (case validateFilename (cai_Filename input) of Inl err \<Rightarrow> (Inl err, db)
      | Inr filename \<Rightarrow> (case validateContentType ParseMediaType (cai_ContentType input) of Inl err \<Rightarrow> (Inl err, db)
      | Inr contentType \<Rightarrow>
          if cai_Size input < 1 \<or> cai_Size input > maxAttachmentSize
          then (Inl (ValidationError ''size'' ''must be between 1 byte and 25 MiB''), db)
          else if \<not> checksumPattern (cai_ChecksumSHA256 input)
          then (Inl (ValidationError ''checksum_sha256'' ''must be a SHA-256 hex digest''), db)
          else (case newUUIDv7 gen of Inl err \<Rightarrow> (Inl err, db)
      | Inr i \<Rightarrow> (case Store_CreateAttachment db
            \<lparr>at_ID = i, at_ChannelID = channelID, at_UploaderID = userID, at_MessageID = None, at_Filename = filename,
             at_ContentType = contentType, at_Size = cai_Size input,
             at_ChecksumSHA256 = map ascii_lower (cai_ChecksumSHA256 input), at_Status = [],
             at_ObjectKey = ''attachments/'' @ uuid_String channelID @ ''/'' @ uuid_String i, at_CreatedAt = now\<rparr>
            maxUnusedAttachments of (Inl err, db1) \<Rightarrow> (Inl err, db1)
      | (Inr a, db1) \<Rightarrow> (case PresignUpload media objects (at_ObjectKey a)
            \<lparr>ur_ContentType = at_ContentType a, ur_Size = at_Size a, ur_ChecksumSHA256 = at_ChecksumSHA256 a\<rparr>
            uploadIntentLifetime of Inl _ \<Rightarrow> (Inl (ErrInternal ''presign upload''), db1)
      | Inr upload \<Rightarrow> (Inr (a, upload), db1)))))))))"

definition object_matches ::
  "(string \<Rightarrow> string option) \<Rightarrow> (string \<Rightarrow> string \<Rightarrow> bool) \<Rightarrow> ObjectInfo \<Rightarrow> Attachment \<Rightarrow> bool" where
  "object_matches ParseMediaType EqualFold info a \<longleftrightarrow>
     \<not> (oi_Size info \<noteq> at_Size a \<or> \<not> sameMediaType ParseMediaType (oi_ContentType info) (at_ContentType a))
     \<and> \<not> (oi_ChecksumSHA256 info \<noteq> [] \<and> \<not> EqualFold (oi_ChecksumSHA256 info) (at_ChecksumSHA256 a))"

definition FinalizeAttachment ::
  "(string \<Rightarrow> string option) \<Rightarrow> (string \<Rightarrow> string \<Rightarrow> bool) \<Rightarrow> ('s Storage \<times> 's) option \<Rightarrow> chat_db \<Rightarrow> uuid \<Rightarrow> uuid
     \<Rightarrow> Attachment result \<times> chat_db" where
  "FinalizeAttachment ParseMediaType EqualFold storage db userID attachmentID =
     (case storage of None \<Rightarrow> (Inl ErrStorageUnavailable, db)
      | Some (media, objects) \<Rightarrow> (case Store_GetAttachment db userID attachmentID of Inl err \<Rightarrow> (Inl err, db)
      | Inr a \<Rightarrow>
          if at_UploaderID a \<noteq> userID then (Inl ErrForbidden, db)
          else if at_Status a = AttachmentReady then (Inr a, db)
          else (case Stat media objects (at_ObjectKey a) of
              Inl err \<Rightarrow> (Inl (if err = ErrObjectNotFound then ErrAttachmentMismatch else ErrInternal ''stat''), db)
            | Inr info \<Rightarrow>
                if \<not> object_matches ParseMediaType EqualFold info a then (Inl ErrAttachmentMismatch, db)
                else MarkAttachmentReady db attachmentID)))"

definition GetAttachment :: "chat_db \<Rightarrow> uuid \<Rightarrow> uuid \<Rightarrow> Attachment result" where
  "GetAttachment db userID attachmentID = Store_GetAttachment db userID attachmentID"

definition DeleteAttachment :: "chat_db \<Rightarrow> uuid \<Rightarrow> uuid \<Rightarrow> unit result \<times> chat_db" where
  "DeleteAttachment db userID attachmentID =
     (case Store_GetAttachment db userID attachmentID of Inl err \<Rightarrow> (Inl err, db)
      | Inr a \<Rightarrow>
          if at_UploaderID a \<noteq> userID then (Inl ErrForbidden, db)
          else Store_DeleteAttachment db userID attachmentID)"

definition AttachmentDownload :: "('s Storage \<times> 's) option \<Rightarrow> chat_db \<Rightarrow> uuid \<Rightarrow> uuid \<Rightarrow> Download result" where
  "AttachmentDownload storage db userID attachmentID =
     (case storage of None \<Rightarrow> Inl ErrStorageUnavailable
      | Some (media, objects) \<Rightarrow> (case Store_GetAttachment db userID attachmentID of Inl err \<Rightarrow> Inl err
      | Inr a \<Rightarrow>
          if at_Status a \<noteq> AttachmentReady then Inl ErrNotFound
          else (case PresignDownload media objects (at_ObjectKey a) (at_Filename a) (at_ContentType a) downloadIntentLifetime of
              Inl _ \<Rightarrow> Inl (ErrInternal ''presign download'') | Inr d \<Rightarrow> Inr d)))"

subsection \<open>The janitor\<close>

definition pendingUploadLifetime :: duration where "pendingUploadLifetime = time_Hour"
definition unusedUploadLifetime :: duration where "unusedUploadLifetime = 24 * time_Hour"
definition deletionBatchSize :: nat where "deletionBatchSize = 100"

text \<open>The loop over the keys: a failed deletion is skipped and stays queued.\<close>

fun sweep_keys :: "'s Storage \<Rightarrow> string list \<Rightarrow> chat_db \<times> 's \<Rightarrow> chat_db \<times> 's" where
  "sweep_keys media [] (db, objects) = (db, objects)"
| "sweep_keys media (key # ks) (db, objects) =
     (case Delete media objects key of
        (Some err, objects') \<Rightarrow> sweep_keys media ks (db, objects')
      | (None, objects') \<Rightarrow> sweep_keys media ks (CompleteStorageDeletion db key, objects'))"

definition Sweep :: "'s Storage \<Rightarrow> time \<Rightarrow> chat_db \<times> 's \<Rightarrow> chat_db \<times> 's" where
  "Sweep media now = (\<lambda>(db, objects).
     let (_, db1) = ExpireAttachments db (now - pendingUploadLifetime) (now - unusedUploadLifetime);
         ks = PendingStorageDeletions db1 deletionBatchSize
     in sweep_keys media ks (db1, objects))"

text \<open>\<open>Run\<close>: a sweep, then one more each time the ticker fires, until the context ends. The instants are
  the readings of the janitor's clock, one for each pass the context allowed.\<close>

fun Run :: "'s Storage \<Rightarrow> time list \<Rightarrow> chat_db \<times> 's \<Rightarrow> chat_db \<times> 's" where
  "Run media [] s = s"
| "Run media (now # ticks) s = Run media ticks (Sweep media now s)"

end
