(* ===== verification/Read_State.thy ===== *)
theory Read_State
  imports Messages
begin

section \<open>Read positions and search\<close>

text \<open>
  \<open>internal/chat/readstate.go\<close> and \<open>readstate_postgres.go\<close>: the read position of a user in a
  channel, the search of the messages of a guild, the excerpt of a result. \<open>ILIKE\<close> is the
  pattern language of PostgreSQL over characters; the comparison of characters that ignores
  case, and \<open>strings.EqualFold\<close>, are arguments.
\<close>

subsection \<open>Read positions\<close>

abbreviation read_key :: "read_row \<Rightarrow> uuid \<times> uuid" where
  "read_key r \<equiv> (rd_user r, rd_channel r)"

text \<open>Whether the stored position is at or past the new message; a message that is gone is behind.\<close>

definition behind :: "chat_db \<Rightarrow> read_row \<Rightarrow> message_row \<Rightarrow> bool" where
  "behind db r m =
     (case find_by mr_id (messages db) (rd_message r) of None \<Rightarrow> False
      | Some current \<Rightarrow> mr_created m < mr_created current
          \<or> mr_created m = mr_created current \<and> mr_id m \<le> rd_message r)"

text \<open>One transaction; the row of the position is locked.\<close>

definition Store_UpdateReadState ::
  "chat_db \<Rightarrow> uuid \<Rightarrow> uuid \<Rightarrow> uuid \<Rightarrow> time \<Rightarrow> (ReadState \<times> bool) result \<times> chat_db" where
  "Store_UpdateReadState db userID channelID messageID now =
     (case find_message db channelID messageID of None \<Rightarrow> (Inl ErrNotFound, db)
      | Some m \<Rightarrow>
          if \<not> text_access db userID channelID then (Inl ErrNotFound, db)
          else let state = \<lparr>rs_ChannelID = channelID, rs_LastReadMessageID = Some messageID, rs_UpdatedAt = now\<rparr>;
                   row = \<lparr>rd_user = userID, rd_channel = channelID, rd_message = messageID, rd_updated = now\<rparr> in
            (case find_by read_key (read_states db) (userID, channelID) of
               None \<Rightarrow>
                 if userID \<notin> keys us_ID (users db) then (Inl (ErrInternal ''upsert read state''), db)
                 else (Inr (state, True), db\<lparr>read_states := read_states db @ [row]\<rparr>)
             | Some r \<Rightarrow>
                 if behind db r m
                 then (Inr (\<lparr>rs_ChannelID = channelID, rs_LastReadMessageID = Some (rd_message r), rs_UpdatedAt = rd_updated r\<rparr>, False), db)
                 else (Inr (state, True),
                       db\<lparr>read_states := update_where (\<lambda>r. read_key r = (userID, channelID)) (\<lambda>_. row) (read_states db)\<rparr>)))"

definition UpdateReadState ::
  "time \<Rightarrow> chat_db \<Rightarrow> uuid \<Rightarrow> uuid \<Rightarrow> uuid \<Rightarrow> (ReadState \<times> bool) result \<times> chat_db" where
  "UpdateReadState now db userID channelID messageID =
     (if messageID = uuid_Nil then (Inl (ValidationError ''last_read_message_id'' ''must be a UUID''), db)
      else Store_UpdateReadState db userID channelID messageID now)"

definition maxReadStates :: nat where "maxReadStates = 1000"

definition Store_ListReadStates :: "chat_db \<Rightarrow> uuid \<Rightarrow> ReadState list" where
  "Store_ListReadStates db userID =
     map (\<lambda>c. case find_by read_key (read_states db) (userID, cr_id c) of
            None \<Rightarrow> \<lparr>rs_ChannelID = cr_id c, rs_LastReadMessageID = None, rs_UpdatedAt = cr_created c\<rparr>
          | Some r \<Rightarrow> \<lparr>rs_ChannelID = cr_id c, rs_LastReadMessageID = Some (rd_message r), rs_UpdatedAt = rd_updated r\<rparr>)
       (take maxReadStates (sort_key cr_id
         (filter (\<lambda>c. cr_type c \<in> text_types \<and> userID \<in> set (participants db c)) (channels db))))"

definition ListReadStates :: "chat_db \<Rightarrow> uuid \<Rightarrow> ReadState list" where
  "ListReadStates db userID = Store_ListReadStates db userID"

subsection \<open>Search\<close>

text \<open>\<open>strings.NewReplacer\<close> with three one-byte patterns rewrites byte by byte.\<close>

definition escapeLike :: "string \<Rightarrow> string" where
  "escapeLike s = concat (map (\<lambda>c. if c = CHR 0x5C \<or> c = CHR ''%'' \<or> c = CHR ''_'' then [CHR 0x5C, c] else [c]) s)"

text \<open>\<open>t LIKE p ESCAPE '\'\<close> on characters, \<open>eq\<close> comparing a character of the pattern with one of the text.\<close>

fun like :: "(nat \<Rightarrow> nat \<Rightarrow> bool) \<Rightarrow> nat list \<Rightarrow> nat list \<Rightarrow> bool" where
  "like eq [] t \<longleftrightarrow> t = []"
| "like eq (c # p) t \<longleftrightarrow>
     (if c = 37 then like eq p t \<or> (case t of [] \<Rightarrow> False | _ # t' \<Rightarrow> like eq (c # p) t')
      else case t of [] \<Rightarrow> False
        | x # t' \<Rightarrow>
            if c = 95 then like eq p t'
            else if c = 92 then (case p of [] \<Rightarrow> False | d # p' \<Rightarrow> eq d x \<and> like eq p' t')
            else eq c x \<and> like eq p t')"

definition chars_of :: "string \<Rightarrow> nat list" where
  "chars_of s = map fst (runes s)"

definition search_rows :: "(nat \<Rightarrow> nat \<Rightarrow> bool) \<Rightarrow> chat_db \<Rightarrow> uuid \<Rightarrow> uuid \<Rightarrow> SearchInput \<Rightarrow> Message list" where
  "search_rows eq db userID guildID input =
     List.map_filter (scanMessage db) (filter (\<lambda>m.
       (case find_by cr_id (channels db) (mr_channel m) of None \<Rightarrow> False
        | Some c \<Rightarrow> cr_guild c = Some guildID \<and> cr_type c \<in> {ChannelTypeText, ChannelTypeThread} \<and> is_member db guildID userID)
       \<and> like eq (chars_of (''%'' @ escapeLike (si_Query input) @ ''%'')) (chars_of (mr_content m))
       \<and> (case si_ChannelID input of None \<Rightarrow> True | Some x \<Rightarrow> mr_channel m = x)
       \<and> (case si_AuthorID input of None \<Rightarrow> True | Some x \<Rightarrow> mr_author m = x)) (messages db))"

definition Store_SearchMessages ::
  "(nat \<Rightarrow> nat \<Rightarrow> bool) \<Rightarrow> chat_db \<Rightarrow> uuid \<Rightarrow> uuid \<Rightarrow> SearchInput \<Rightarrow> pageCursor option \<Rightarrow> int \<Rightarrow> Message list result" where
  "Store_SearchMessages eq db userID guildID input cursor limit =
     (let items = keyset_desc message_page_key (map_option (\<lambda>c. (pc_Time c, pc_ID c)) cursor) limit
                    (search_rows eq db userID guildID input)
      in if \<not> pg_text (si_Query input) then Inl (ErrInternal ''search messages'')
         else if items = [] \<and> \<not> is_member db guildID userID then Inl ErrNotFound
         else Inr (map (populateMessageReactions db userID) items))"

definition minSearchLength :: nat where "minSearchLength = 2"
definition maxSearchLength :: nat where "maxSearchLength = 100"
definition excerptContextRuns :: int where "excerptContextRuns = 100"
definition excerptMaxRunes :: int where "excerptMaxRunes = 480"

definition ellipsis :: string where
  "ellipsis = [CHR 0xE2, CHR 0x80, CHR 0xA6]"

text \<open>The loop that looks for the first match: its index, 0 when there is none.\<close>

definition first_match :: "(string \<Rightarrow> string \<Rightarrow> bool) \<Rightarrow> (nat \<times> string) list \<Rightarrow> string \<Rightarrow> nat" where
  "first_match EqualFold rs query =
     (let n = utf8_RuneCountInString query in
      case List.find (\<lambda>i. EqualFold (string_of (take n (drop i rs))) query) [0..<length rs + 1 - n] of
        None \<Rightarrow> 0 | Some i \<Rightarrow> i)"

definition makeExcerpt :: "(string \<Rightarrow> string \<Rightarrow> bool) \<Rightarrow> string \<Rightarrow> string \<Rightarrow> string" where
  "makeExcerpt EqualFold content query =
     (let rs = runes content;
          start = max 0 (int (first_match EqualFold rs query) - excerptContextRuns);
          end' = min (start + excerptMaxRunes) (int (length rs));
          excerpt = string_of (take (nat end' - nat start) (drop (nat start) rs))
      in (if start > 0 then ellipsis else []) @ excerpt @ (if end' < int (length rs) then ellipsis else []))"

definition SearchMessages ::
  "(nat \<Rightarrow> nat \<Rightarrow> bool) \<Rightarrow> (string \<Rightarrow> string \<Rightarrow> bool) \<Rightarrow> cursor_json \<Rightarrow> chat_db \<Rightarrow> uuid \<Rightarrow> uuid \<Rightarrow> SearchInput
     \<Rightarrow> string \<Rightarrow> int \<Rightarrow> SearchResult Page result" where
  "SearchMessages eq EqualFold json db userID guildID input0 cursorValue limit =
     (let input = input0\<lparr>si_Query := strings_TrimSpace (si_Query input0)\<rparr>;
          n = utf8_RuneCountInString (si_Query input) in
      if n < minSearchLength \<or> n > maxSearchLength
      then Inl (ValidationError ''query'' ''must contain between 2 and 100 characters'')
      else (case decodeCursor json cursorValue cursorSearch of Inl err \<Rightarrow> Inl err
      | Inr cursor \<Rightarrow> (case validateLimit limit of Inl err \<Rightarrow> Inl err
      | Inr _ \<Rightarrow> (case Store_SearchMessages eq db userID guildID input cursor (limit + 1) of Inl err \<Rightarrow> Inl err
      | Inr rows \<Rightarrow> channelPage json limit
          (\<lambda>m. \<lparr>pc_Kind = cursorSearch, pc_Time = m_CreatedAt m, pc_Position = 0, pc_ID = m_ID m\<rparr>)
          (\<lambda>m. \<lparr>sr_Message = m, sr_Excerpt = makeExcerpt EqualFold (m_Content m) (si_Query input)\<rparr>) rows))))"

end
