(* ===== verification/Text_Inv.thy ===== *)
theory Text_Inv
  imports Attachments Read_State
begin

section \<open>The invariant of channels, messages and attachments\<close>

text \<open>
  What the schema enforces on these tables (keys, references, checks) and what the program keeps
  true on top of it: a direct channel has exactly the two participants its key names and other
  channels have none of their own, a message stands in a channel that takes text, and an attachment
  of a message was uploaded by its author to its channel. The lemmas show that each elementary change
  of the tables keeps the invariant.
\<close>

subsection \<open>Channels\<close>

definition unique_some :: "('r \<Rightarrow> 'k option) \<Rightarrow> 'r list \<Rightarrow> bool" where
  "unique_some key t \<longleftrightarrow> (\<forall>r\<in>set t. \<forall>r'\<in>set t. key r \<noteq> None \<longrightarrow> key r = key r' \<longrightarrow> r = r')"

definition refers :: "'k option \<Rightarrow> 'k set \<Rightarrow> bool" where
  "refers k K \<longleftrightarrow> (case k of None \<Rightarrow> True | Some x \<Rightarrow> x \<in> K)"

lemma refers_simps [simp]: "refers None K" "refers (Some k) K \<longleftrightarrow> k \<in> K"
  by (simp_all add: refers_def)

lemma refers_mono: "refers k K \<Longrightarrow> K \<subseteq> L \<Longrightarrow> refers k L"
  by (cases k) auto

definition channels_ok :: "chat_db \<Rightarrow> bool" where
  "channels_ok db \<longleftrightarrow> distinct (map cr_id (channels db)) \<and> unique_some cr_dm_key (channels db) \<and> unique_some cr_starter (channels db)
     \<and> (\<forall>c\<in>set (channels db). channel_row_ok c \<and> refers (cr_guild c) (keys g_ID (guilds db))
          \<and> refers (cr_parent c) (keys cr_id (channels db)) \<and> refers (cr_starter c) (keys mr_id (messages db)))"

definition direct_users :: "channel_row \<Rightarrow> uuid set" where
  "direct_users c = (case cr_dm_key c of None \<Rightarrow> {} | Some (a, b) \<Rightarrow> {a, b})"

definition directs_ok :: "chat_db \<Rightarrow> bool" where
  "directs_ok db \<longleftrightarrow> distinct (dm_participants db)
     \<and> (\<forall>(x, u)\<in>set (dm_participants db). x \<in> keys cr_id (channels db) \<and> u \<in> keys us_ID (users db))
     \<and> (\<forall>c\<in>set (channels db). {u. (cr_id c, u) \<in> set (dm_participants db)} = direct_users c \<and> refers (cr_dm_key c) {(a, b). a < b})"

subsection \<open>Messages\<close>

definition messages_ok :: "chat_db \<Rightarrow> bool" where
  "messages_ok db \<longleftrightarrow> distinct (map mr_id (messages db))
     \<and> (\<forall>m\<in>set (messages db). message_row_ok m \<and> mr_author m \<in> keys us_ID (users db)
          \<and> (\<exists>c\<in>set (channels db). cr_id c = mr_channel m \<and> cr_type c \<in> text_types))"

definition reactions_ok :: "chat_db \<Rightarrow> bool" where
  "reactions_ok db \<longleftrightarrow> distinct (map reaction_key (reactions db))
     \<and> (\<forall>r\<in>set (reactions db). reaction_row_ok r \<and> re_message r \<in> keys mr_id (messages db) \<and> re_user r \<in> keys us_ID (users db))"

definition reads_ok :: "chat_db \<Rightarrow> bool" where
  "reads_ok db \<longleftrightarrow> distinct (map read_key (read_states db))
     \<and> (\<forall>r\<in>set (read_states db). rd_channel r \<in> keys cr_id (channels db) \<and> rd_user r \<in> keys us_ID (users db))"

definition attached_ok :: "chat_db \<Rightarrow> Attachment \<Rightarrow> bool" where
  "attached_ok db a \<longleftrightarrow> (\<forall>i. at_MessageID a = Some i \<longrightarrow>
     (\<exists>m\<in>set (messages db). mr_id m = i \<and> mr_channel m = at_ChannelID a \<and> mr_author m = at_UploaderID a))"

definition attachments_ok :: "chat_db \<Rightarrow> bool" where
  "attachments_ok db \<longleftrightarrow> distinct (map at_ID (attachments db)) \<and> distinct (map at_ObjectKey (attachments db))
     \<and> (\<forall>a\<in>set (attachments db). attachment_row_ok a \<and> at_ChannelID a \<in> keys cr_id (channels db)
          \<and> at_UploaderID a \<in> keys us_ID (users db) \<and> attached_ok db a)"

definition text_inv :: "chat_db \<Rightarrow> bool" where
  "text_inv db \<longleftrightarrow> channels_ok db \<and> directs_ok db \<and> messages_ok db \<and> reactions_ok db \<and> reads_ok db \<and> attachments_ok db"

lemmas text_parts = channels_ok_def directs_ok_def messages_ok_def reactions_ok_def reads_ok_def attachments_ok_def

lemma text_inv_empty: "text_inv empty_db"
  by (simp add: text_inv_def text_parts empty_db_def unique_some_def)

text \<open>Operations on other tables: users and guilds are only added.\<close>

lemma text_inv_frame:
  assumes "text_inv db" and "channels db' = channels db" "dm_participants db' = dm_participants db" "messages db' = messages db"
    "reactions db' = reactions db" "read_states db' = read_states db" "attachments db' = attachments db"
    and "keys us_ID (users db) \<subseteq> keys us_ID (users db')" "keys g_ID (guilds db) \<subseteq> keys g_ID (guilds db')"
  shows "text_inv db'"
  using assms(1,8,9) unfolding text_inv_def text_parts attached_ok_def assms(2-7)
  by (auto intro: refers_mono)

subsection \<open>Deletes\<close>

lemma enqueue_deletions_set: "set (enqueue_deletions t ks q) = set q \<union> {(k, t) | k. k \<in> set ks \<and> k \<notin> keys fst q}"
proof (induction ks arbitrary: q)
  case (Cons k ks)
  then show ?case by (force simp: enqueue_deletions_def)
qed (simp add: enqueue_deletions_def)

lemma drop_attachments_text: "text_inv db \<Longrightarrow> text_inv (drop_attachments p db)"
  unfolding text_inv_def text_parts attached_ok_def
  by (auto simp: drop_attachments_def set_delete_where distinct_map_delete_where)

lemma ball_update_where: "(\<forall>r\<in>set (update_where p f t). P r) \<longleftrightarrow> (\<forall>r\<in>set t. P (if p r then f r else r))"
  by (auto simp: update_where_def)

lemma updated_row: "r \<in> set t \<Longrightarrow> (if p r then f r else r) \<in> set (update_where p f t)"
  unfolding update_where_def set_map by (rule imageI)

lemma keys_delete_where:
  assumes "distinct (map key t)"
  shows "keys key (delete_where p t) = keys key t - key ` {r \<in> set t. p r}"
  using distinct_key_eq [OF assms] by (auto simp: set_delete_where)

lemma unique_some_update:
  assumes "unique_some key t" and "\<And>r. key (f r) = key r"
  shows "unique_some key (update_where p f t)"
proof -
  have "key (if p r then f r else r) = key r" for r
    using assms(2) by simp
  then show ?thesis
    using assms(1) unfolding unique_some_def ball_update_where by metis
qed

lemma unique_some_delete: "unique_some key t \<Longrightarrow> unique_some key (delete_where p t)"
  unfolding unique_some_def by (auto simp: set_delete_where)

text \<open>The rows of the channels rewritten without touching what other tables rely on.\<close>

lemma channels_update:
  assumes "\<And>c. cr_id (f c) = cr_id c" "\<And>c. cr_type (f c) = cr_type c" "\<And>c. cr_dm_key (f c) = cr_dm_key c"
  shows "directs_ok db \<Longrightarrow> directs_ok (db\<lparr>channels := update_where p f (channels db)\<rparr>)"
    and "messages_ok db \<Longrightarrow> messages_ok (db\<lparr>channels := update_where p f (channels db)\<rparr>)"
    and "reads_ok db \<Longrightarrow> reads_ok (db\<lparr>channels := update_where p f (channels db)\<rparr>)"
    and "attachments_ok db \<Longrightarrow> attachments_ok (db\<lparr>channels := update_where p f (channels db)\<rparr>)"
    and "reactions_ok db \<Longrightarrow> reactions_ok (db\<lparr>channels := update_where p f (channels db)\<rparr>)"
proof -
  have k: "keys cr_id (update_where p f (channels db)) = keys cr_id (channels db)"
    by (rule keys_update_where) (rule assms)
  have du: "direct_users (f c) = direct_users c" for c
    by (simp add: direct_users_def assms)
  show "directs_ok db \<Longrightarrow> directs_ok (db\<lparr>channels := update_where p f (channels db)\<rparr>)"
    unfolding directs_ok_def by (simp add: k ball_update_where assms if_distrib [of cr_id] if_distrib [of direct_users] if_distrib [of cr_dm_key] du)
  have "\<exists>c'\<in>set (update_where p f (channels db)). cr_id c' = cr_id c \<and> cr_type c' = cr_type c" if "c \<in> set (channels db)" for c
    using updated_row [OF that, of p f] assms by (intro bexI [of _ "if p c then f c else c"]) simp_all
  then show "messages_ok db \<Longrightarrow> messages_ok (db\<lparr>channels := update_where p f (channels db)\<rparr>)"
    unfolding messages_ok_def by simp metis
  show "reads_ok db \<Longrightarrow> reads_ok (db\<lparr>channels := update_where p f (channels db)\<rparr>)"
    "attachments_ok db \<Longrightarrow> attachments_ok (db\<lparr>channels := update_where p f (channels db)\<rparr>)"
    "reactions_ok db \<Longrightarrow> reactions_ok (db\<lparr>channels := update_where p f (channels db)\<rparr>)"
    unfolding reads_ok_def attachments_ok_def reactions_ok_def attached_ok_def by (simp_all add: k)
qed

lemma channel_row_ok_simps [simp]:
  "channel_row_ok (c\<lparr>cr_starter := m\<rparr>) = channel_row_ok c" "channel_row_ok (c\<lparr>cr_updated := t\<rparr>) = channel_row_ok c"
  "channel_row_ok c \<Longrightarrow> channel_row_ok (c\<lparr>cr_parent := None\<rparr>)"
  unfolding channel_row_ok_def by (simp_all cong: option.case_cong) blast

lemma drop_messages_text:
  assumes inv: "text_inv db"
  shows "text_inv (drop_messages p db)"
proof -
  define gone where "gone = set (map mr_id (filter p (messages db)))"
  let ?a = "drop_attachments (\<lambda>a. \<exists>m\<in>gone. at_MessageID a = Some m) db"
  have a: "text_inv ?a" by (rule drop_attachments_text [OF inv])
  have eq: "drop_messages p db = ?a\<lparr>messages := delete_where p (messages db), reactions := delete_where (\<lambda>r. re_message r \<in> gone) (reactions db),
      channels := update_where (\<lambda>c. \<exists>m\<in>gone. cr_starter c = Some m) (\<lambda>c. c\<lparr>cr_starter := None\<rparr>) (channels db)\<rparr>"
    by (simp add: drop_messages_def Let_def gone_def frame)
  have "distinct (map mr_id (messages db))"
    using inv by (simp add: text_inv_def messages_ok_def)
  from keys_delete_where [OF this] have alive: "keys mr_id (delete_where p (messages db)) = keys mr_id (messages db) - gone"
    by (simp add: gone_def)
  let ?b = "?a\<lparr>messages := delete_where p (messages db), reactions := delete_where (\<lambda>r. re_message r \<in> gone) (reactions db)\<rparr>"
  have kept: "m \<in> set (delete_where p (messages db))" if "m \<in> set (messages db)" "mr_id m \<notin> gone" for m
    using that by (auto simp: gone_def set_delete_where)
  have "attached_ok ?b x" if "x \<in> set (attachments ?a)" for x
    unfolding attached_ok_def
  proof (intro allI impI)
    fix i assume i: "at_MessageID x = Some i"
    have x: "x \<in> set (attachments db)" "i \<notin> gone"
      using that i by (auto simp: drop_attachments_def set_delete_where)
    then obtain m where "m \<in> set (messages db)" "mr_id m = i" "mr_channel m = at_ChannelID x" "mr_author m = at_UploaderID x"
      using inv i unfolding text_inv_def attachments_ok_def attached_ok_def by blast
    then show "\<exists>m\<in>set (messages ?b). mr_id m = i \<and> mr_channel m = at_ChannelID x \<and> mr_author m = at_UploaderID x"
      using kept x by auto
  qed
  then have "attachments_ok ?b"
    using a unfolding text_inv_def attachments_ok_def by (simp add: frame)
  moreover have "reactions_ok ?b"
    using inv alive unfolding text_inv_def reactions_ok_def
    by (auto simp: frame set_delete_where distinct_map_delete_where)
  moreover have "messages_ok ?b" "reads_ok ?b" "directs_ok ?b"
    using inv unfolding text_inv_def messages_ok_def reads_ok_def directs_ok_def
    by (auto simp: frame set_delete_where distinct_map_delete_where)
  ultimately have rest: "directs_ok (drop_messages p db)" "messages_ok (drop_messages p db)" "reads_ok (drop_messages p db)"
      "attachments_ok (drop_messages p db)" "reactions_ok (drop_messages p db)"
    unfolding eq using channels_update [where f = "\<lambda>c. c\<lparr>cr_starter := None\<rparr>" and db = ?b] by (simp_all add: frame)
  have "channels_ok (drop_messages p db)"
  proof -
    let ?cs = "update_where (\<lambda>c. \<exists>m\<in>gone. cr_starter c = Some m) (\<lambda>c. c\<lparr>cr_starter := None\<rparr>) (channels db)"
    have old: "channels_ok db" using inv by (simp add: text_inv_def)
    have "map cr_id ?cs = map cr_id (channels db)" "keys cr_id ?cs = keys cr_id (channels db)"
      by (simp_all add: map_update_where keys_update_where)
    moreover have "unique_some cr_dm_key ?cs"
      using old by (intro unique_some_update) (simp_all add: channels_ok_def)
    moreover have "unique_some cr_starter ?cs"
      using old unfolding channels_ok_def unique_some_def by (auto simp: set_update_where)
    moreover have "refers (cr_starter c) (keys mr_id (messages db) - gone)" if "c \<in> set (channels db)" "\<not> (\<exists>m\<in>gone. cr_starter c = Some m)" for c
      using that old by (cases "cr_starter c") (auto simp: channels_ok_def)
    then have "\<forall>c\<in>set ?cs. channel_row_ok c \<and> refers (cr_guild c) (keys g_ID (guilds db)) \<and> refers (cr_parent c) (keys cr_id (channels db))
        \<and> refers (cr_starter c) (keys mr_id (messages db) - gone)"
      using old unfolding ball_update_where channels_ok_def by simp
    ultimately show ?thesis
      using old unfolding channels_ok_def eq by (simp add: frame alive)
  qed
  then show ?thesis using rest by (simp add: text_inv_def)
qed

lemma drop_channels_text:
  assumes inv: "text_inv db"
  shows "text_inv (drop_channels p db)"
proof -
  define gone where "gone = set (map cr_id (filter p (channels db)))"
  let ?a = "drop_attachments (\<lambda>a. at_ChannelID a \<in> gone) (drop_messages (\<lambda>m. mr_channel m \<in> gone) db)"
  have a: "text_inv ?a" by (intro drop_attachments_text drop_messages_text inv)
  define cs where "cs = delete_where (\<lambda>c. cr_id c \<in> gone) (channels ?a)"
  let ?b = "?a\<lparr>channels := cs, dm_participants := delete_where (\<lambda>(c, _). c \<in> gone) (dm_participants ?a),
      read_states := delete_where (\<lambda>r. rd_channel r \<in> gone) (read_states ?a)\<rparr>"
  let ?f = "\<lambda>c. c\<lparr>cr_parent := None\<rparr>" and ?p = "\<lambda>c. \<exists>x\<in>gone. cr_parent c = Some x"
  have eq: "drop_channels p db = ?b\<lparr>channels := update_where ?p ?f (channels ?b)\<rparr>"
    by (simp add: drop_channels_def Let_def gone_def cs_def frame)
  have mem: "c \<in> set cs \<longleftrightarrow> c \<in> set (channels ?a) \<and> cr_id c \<notin> gone" for c
    by (simp add: cs_def set_delete_where)
  have keys: "keys cr_id cs = keys cr_id (channels ?a) - gone"
    by (auto simp: cs_def set_delete_where)
  have msgs: "mr_channel m \<notin> gone" if "m \<in> set (messages ?a)" for m
    using that by (simp add: frame set_delete_where)
  have atts: "at_ChannelID x \<notin> gone" if "x \<in> set (attachments ?a)" for x
    using that by (simp add: drop_attachments_def set_delete_where)
  have "\<exists>c\<in>set cs. cr_id c = mr_channel m \<and> cr_type c \<in> text_types" if m: "m \<in> set (messages ?a)" for m
  proof -
    obtain c where "c \<in> set (channels ?a)" "cr_id c = mr_channel m" "cr_type c \<in> text_types"
      using a m unfolding text_inv_def messages_ok_def by blast
    then show ?thesis using msgs [OF m] mem by auto
  qed
  then have "messages_ok ?b"
    using a unfolding text_inv_def messages_ok_def by simp
  moreover have "reactions_ok ?b" "attachments_ok ?b"
    using a atts unfolding text_inv_def reactions_ok_def attachments_ok_def attached_ok_def by (simp_all add: keys)
  moreover have "reads_ok ?b" "directs_ok ?b"
    using a unfolding text_inv_def reads_ok_def directs_ok_def
    by (auto simp: keys mem set_delete_where distinct_map_delete_where distinct_delete_where)
  ultimately have rest: "directs_ok (drop_channels p db)" "messages_ok (drop_channels p db)" "reads_ok (drop_channels p db)"
      "attachments_ok (drop_channels p db)" "reactions_ok (drop_channels p db)"
    unfolding eq by (intro channels_update; simp)+
  have "channels_ok (drop_channels p db)"
  proof -
    have old: "channels_ok ?a" using a by (simp add: text_inv_def)
    have ids: "map cr_id (update_where ?p ?f cs) = map cr_id cs" "keys cr_id (update_where ?p ?f cs) = keys cr_id cs"
      by (simp_all add: map_update_where keys_update_where)
    have "unique_some cr_dm_key (update_where ?p ?f cs)" "unique_some cr_starter (update_where ?p ?f cs)"
      using old unfolding cs_def by (intro unique_some_update unique_some_delete; simp add: channels_ok_def)+
    moreover have "distinct (map cr_id cs)"
      using old unfolding cs_def by (intro distinct_map_delete_where) (simp add: channels_ok_def)
    moreover have "refers (cr_parent c) (keys cr_id cs)" if "c \<in> set cs" "\<not> ?p c" for c
      using that old unfolding keys by (cases "cr_parent c") (auto simp: channels_ok_def mem)
    then have "\<forall>c\<in>set (update_where ?p ?f cs). channel_row_ok c \<and> refers (cr_guild c) (keys g_ID (guilds ?a))
        \<and> refers (cr_parent c) (keys cr_id cs) \<and> refers (cr_starter c) (keys mr_id (messages ?a))"
      using old mem unfolding ball_update_where channels_ok_def by simp
    ultimately show ?thesis
      unfolding channels_ok_def eq by (simp add: ids)
  qed
  then show ?thesis using rest by (simp add: text_inv_def)
qed

lemma drop_messages_channel:
  "c \<in> set (channels (drop_messages p db)) \<Longrightarrow> \<exists>c'\<in>set (channels db). cr_id c' = cr_id c \<and> cr_guild c' = cr_guild c"
  by (auto simp: drop_messages_def Let_def frame set_update_where)

lemma drop_channels_channel:
  assumes "c \<in> set (channels (drop_channels p db))"
  shows "\<exists>c'\<in>set (channels db). cr_id c' = cr_id c \<and> cr_guild c' = cr_guild c \<and> \<not> p c'"
proof -
  obtain c1 where c1: "c1 \<in> set (channels (drop_messages (\<lambda>m. mr_channel m \<in> set (map cr_id (filter p (channels db)))) db))"
      "cr_id c1 = cr_id c" "cr_guild c1 = cr_guild c" "cr_id c1 \<notin> set (map cr_id (filter p (channels db)))"
    using assms by (auto simp: drop_channels_def Let_def frame set_update_where set_delete_where)
  obtain c2 where "c2 \<in> set (channels db)" "cr_id c2 = cr_id c1" "cr_guild c2 = cr_guild c1"
    using drop_messages_channel [OF c1(1)] by blast
  moreover have "\<not> p c2"
  proof
    assume "p c2"
    then have "cr_id c2 \<in> set (map cr_id (filter p (channels db)))" using calculation(1) by simp
    then show False using c1(4) calculation(2) by simp
  qed
  ultimately show ?thesis using c1 by (intro bexI [of _ c2]) auto
qed

lemma drop_guilds_text:
  assumes inv: "text_inv db" and keys: "distinct (map g_ID (guilds db))"
  shows "text_inv (drop_guilds p db)"
proof -
  define gone where "gone = set (map g_ID (filter p (guilds db)))"
  let ?m = "drop_roles (\<lambda>r. rr_guild r \<in> gone) (drop_members (\<lambda>m. gm_guild m \<in> gone) db)"
  let ?a = "drop_channels (\<lambda>c. \<exists>g\<in>gone. cr_guild c = Some g) ?m"
  have "text_inv ?m"
    by (rule text_inv_frame [OF inv]) (simp_all add: frame)
  then have a: "text_inv ?a" by (rule drop_channels_text)
  have eq: "drop_guilds p db = ?a\<lparr>guilds := delete_where p (guilds ?a), invites := delete_where (\<lambda>i. ir_guild i \<in> gone) (invites ?a)\<rparr>"
    by (simp add: drop_guilds_def Let_def gone_def frame)
  have gk: "keys g_ID (delete_where p (guilds ?a)) = keys g_ID (guilds ?a) - gone"
    using keys_delete_where [OF keys, of p] by (auto simp: frame gone_def)
  have "refers (cr_guild c) (keys g_ID (guilds ?a) - gone)" if "c \<in> set (channels ?a)" for c
  proof (cases "cr_guild c")
    case (Some g)
    have "g \<notin> gone" using drop_channels_channel [OF that] Some by auto
    moreover have "g \<in> keys g_ID (guilds ?a)"
      using a that Some by (auto simp: text_inv_def channels_ok_def)
    ultimately show ?thesis using Some by simp
  qed simp
  then show ?thesis
    using a unfolding eq text_inv_def text_parts attached_ok_def by (simp add: gk)
qed

subsection \<open>New rows\<close>

lemma unique_some_append:
  assumes "unique_some key t" and "key r = None \<or> key r \<notin> key ` set t"
  shows "unique_some key (t @ [r])"
  unfolding unique_some_def
proof (intro ballI impI)
  fix x y
  assume "x \<in> set (t @ [r])" "y \<in> set (t @ [r])" and k: "key x \<noteq> None" "key x = key y"
  then consider "x \<in> set t" "y \<in> set t" | "x = r" "y = r" | "x \<in> set t" "y = r" | "x = r" "y \<in> set t"
    by auto
  then show "x = y"
  proof cases
    case 1
    then show ?thesis using assms(1) k unfolding unique_some_def by blast
  next
    case 3
    then show ?thesis using assms(2) k imageI [of x "set t" key] by simp
  next
    case 4
    then show ?thesis using assms(2) k imageI [of y "set t" key] by simp
  qed simp
qed

lemma add_channel_text:
  assumes inv: "text_inv db" and new: "cr_id row \<notin> keys cr_id (channels db)" "channel_row_ok row"
    and refs: "refers (cr_guild row) (keys g_ID (guilds db))" "refers (cr_parent row) (keys cr_id (channels db))"
      "refers (cr_starter row) (keys mr_id (messages db))"
    and one: "cr_starter row = None \<or> cr_starter row \<notin> cr_starter ` set (channels db)"
    and dm: "cr_dm_key row = None"
  shows "text_inv (db\<lparr>channels := channels db @ [row]\<rparr>)"
proof -
  let ?db = "db\<lparr>channels := channels db @ [row]\<rparr>"
  have k: "keys cr_id (channels ?db) = insert (cr_id row) (keys cr_id (channels db))" by simp
  have "channels_ok ?db"
    using inv new refs one dm unfolding text_inv_def channels_ok_def
    by (auto intro!: unique_some_append intro: refers_mono simp: refers_mono [OF refs(2) subset_insertI])
  moreover have "{u. (cr_id row, u) \<in> set (dm_participants db)} = {}"
    using inv new(1) by (auto simp: text_inv_def directs_ok_def)
  then have "directs_ok ?db"
    using inv dm unfolding text_inv_def directs_ok_def by (auto simp: direct_users_def)
  moreover have "messages_ok ?db" "reactions_ok ?db" "reads_ok ?db" "attachments_ok ?db"
    using inv unfolding text_inv_def messages_ok_def reactions_ok_def reads_ok_def attachments_ok_def attached_ok_def by auto
  ultimately show ?thesis by (simp add: text_inv_def)
qed

lemma add_direct_text:
  assumes inv: "text_inv db" and new: "cr_id row \<notin> keys cr_id (channels db)" "channel_row_ok row"
    and row: "cr_guild row = None" "cr_parent row = None" "cr_starter row = None" "cr_dm_key row = Some (dm_pair a b)"
    and one: "Some (dm_pair a b) \<notin> cr_dm_key ` set (channels db)"
    and users: "a \<in> keys us_ID (users db)" "b \<in> keys us_ID (users db)" "a \<noteq> b"
  shows "text_inv (db\<lparr>channels := channels db @ [row], dm_participants := dm_participants db @ [(cr_id row, a), (cr_id row, b)]\<rparr>)"
proof -
  let ?db = "db\<lparr>channels := channels db @ [row], dm_participants := dm_participants db @ [(cr_id row, a), (cr_id row, b)]\<rparr>"
  have "unique_some cr_dm_key (channels db @ [row])"
    by (rule unique_some_append) (use inv row(4) one in \<open>simp_all add: text_inv_def channels_ok_def\<close>)
  then have "channels_ok ?db"
    using inv new row unfolding text_inv_def channels_ok_def by (auto intro!: unique_some_append [of cr_starter] intro: refers_mono)
  moreover have none: "(cr_id row, u) \<notin> set (dm_participants db)" for u
    using inv new(1) by (auto simp: text_inv_def directs_ok_def)
  have "direct_users row = {a, b}" "refers (cr_dm_key row) {(a, b). a < b}"
    using row(4) users(3) by (auto simp: direct_users_def dm_pair_def)
  then have "directs_ok ?db"
    using inv none new(1) users unfolding text_inv_def directs_ok_def by (auto simp: image_iff)
  moreover have "messages_ok ?db" "reactions_ok ?db" "reads_ok ?db" "attachments_ok ?db"
    using inv unfolding text_inv_def messages_ok_def reactions_ok_def reads_ok_def attachments_ok_def attached_ok_def by auto
  ultimately show ?thesis by (simp add: text_inv_def)
qed

lemma channels_bump_text:
  assumes "text_inv db"
  shows "text_inv (db\<lparr>channels := update_where p (\<lambda>c. c\<lparr>cr_updated := t\<rparr>) (channels db)\<rparr>)"
proof -
  have "channels_ok (db\<lparr>channels := update_where p (\<lambda>c. c\<lparr>cr_updated := t\<rparr>) (channels db)\<rparr>)"
    using assms unfolding text_inv_def channels_ok_def
    by (auto simp: ball_update_where map_update_where keys_update_where intro!: unique_some_update)
  then show ?thesis
    using assms channels_update [where f = "\<lambda>c. c\<lparr>cr_updated := t\<rparr>"] by (simp add: text_inv_def)
qed

lemma add_message_text:
  assumes inv: "text_inv db" and "mr_id m \<notin> keys mr_id (messages db)" "message_row_ok m" "mr_author m \<in> keys us_ID (users db)"
    and "c \<in> set (channels db)" "cr_id c = mr_channel m" "cr_type c \<in> text_types"
  shows "text_inv (db\<lparr>messages := messages db @ [m]\<rparr>)"
proof -
  have "messages_ok (db\<lparr>messages := messages db @ [m]\<rparr>)"
    using assms unfolding text_inv_def messages_ok_def by auto
  then show ?thesis
    using inv unfolding text_inv_def channels_ok_def directs_ok_def reactions_ok_def reads_ok_def attachments_ok_def attached_ok_def
    by (auto intro: refers_mono)
qed

lemma attach_text:
  assumes inv: "text_inv db" and "m \<in> set (messages db)" "mr_channel m = ch" "mr_author m = u"
  shows "text_inv (db\<lparr>attachments := update_where (attachable ids ch u) (\<lambda>a. a\<lparr>at_MessageID := Some (mr_id m)\<rparr>) (attachments db)\<rparr>)"
proof -
  let ?as = "update_where (attachable ids ch u) (\<lambda>a. a\<lparr>at_MessageID := Some (mr_id m)\<rparr>) (attachments db)"
  have k: "map at_ID ?as = map at_ID (attachments db)" "map at_ObjectKey ?as = map at_ObjectKey (attachments db)"
    by (simp_all add: update_where_def)
  have old: "attachment_row_ok a \<and> at_ChannelID a \<in> keys cr_id (channels db) \<and> at_UploaderID a \<in> keys us_ID (users db) \<and> attached_ok db a"
    if "a \<in> set (attachments db)" for a
    using inv that by (simp add: text_inv_def attachments_ok_def)
  have "attachment_row_ok (a\<lparr>at_MessageID := Some (mr_id m)\<rparr>) \<and> attached_ok db (a\<lparr>at_MessageID := Some (mr_id m)\<rparr>)"
    if "a \<in> set (attachments db)" "attachable ids ch u a" for a
    using old [OF that(1)] that(2) assms(2-4) by (auto simp: attachable_def attachment_row_ok_def attached_ok_def)
  then have "\<forall>a\<in>set ?as. attachment_row_ok a \<and> at_ChannelID a \<in> keys cr_id (channels db) \<and> at_UploaderID a \<in> keys us_ID (users db) \<and> attached_ok db a"
    using old unfolding ball_update_where by simp
  then have "attachments_ok (db\<lparr>attachments := ?as\<rparr>)"
    using inv unfolding text_inv_def attachments_ok_def by (simp add: k attached_ok_def)
  then show ?thesis
    using inv unfolding text_inv_def channels_ok_def directs_ok_def messages_ok_def reactions_ok_def reads_ok_def by auto
qed

lemma edit_message_text:
  assumes inv: "text_inv db" and ok: "\<And>m. m \<in> set (messages db) \<Longrightarrow> p m \<Longrightarrow> message_row_ok (f m)"
    and f: "\<And>m. mr_id (f m) = mr_id m" "\<And>m. mr_author (f m) = mr_author m" "\<And>m. mr_channel (f m) = mr_channel m"
  shows "text_inv (db\<lparr>messages := update_where p f (messages db)\<rparr>)"
proof -
  let ?ms = "update_where p f (messages db)"
  have k: "map mr_id ?ms = map mr_id (messages db)" "keys mr_id ?ms = keys mr_id (messages db)"
    by (simp_all add: map_update_where keys_update_where f)
  have rows: "\<exists>m'\<in>set ?ms. mr_id m' = mr_id m \<and> mr_channel m' = mr_channel m \<and> mr_author m' = mr_author m" if "m \<in> set (messages db)" for m
    using updated_row [OF that, of p f] f by (intro bexI [of _ "if p m then f m else m"]) simp_all
  have "attached_ok db a \<Longrightarrow> attached_ok (db\<lparr>messages := ?ms\<rparr>) a" for a
    unfolding attached_ok_def using rows by simp metis
  then have "attachments_ok (db\<lparr>messages := ?ms\<rparr>)"
    using inv unfolding text_inv_def attachments_ok_def by simp
  moreover have "messages_ok (db\<lparr>messages := ?ms\<rparr>)"
    using inv ok f unfolding text_inv_def messages_ok_def by (simp add: k ball_update_where)
  ultimately show ?thesis
    using inv unfolding text_inv_def channels_ok_def directs_ok_def reactions_ok_def reads_ok_def by (simp add: k)
qed

lemma reactions_text:
  assumes "text_inv db" and "reactions_ok (db\<lparr>reactions := rs\<rparr>)"
  shows "text_inv (db\<lparr>reactions := rs\<rparr>)"
  using assms unfolding text_inv_def channels_ok_def directs_ok_def messages_ok_def reads_ok_def attachments_ok_def attached_ok_def by simp

lemma reads_text:
  assumes "text_inv db" and "reads_ok (db\<lparr>read_states := rs\<rparr>)"
  shows "text_inv (db\<lparr>read_states := rs\<rparr>)"
  using assms unfolding text_inv_def channels_ok_def directs_ok_def messages_ok_def reactions_ok_def attachments_ok_def attached_ok_def by simp

lemma attachments_text:
  assumes "text_inv db" and "attachments_ok (db\<lparr>attachments := as\<rparr>)"
  shows "text_inv (db\<lparr>attachments := as\<rparr>)"
  using assms unfolding text_inv_def channels_ok_def directs_ok_def messages_ok_def reactions_ok_def reads_ok_def by simp

lemma deletions_text: "text_inv (db\<lparr>storage_deletions := q\<rparr>) = text_inv db"
  unfolding text_inv_def text_parts attached_ok_def by simp

end
