(* ===== verification/Chat_Steps.thy ===== *)
theory Chat_Steps
  imports Text_Inv
begin

section \<open>Runs of the chat service\<close>

text \<open>
  Every operation of package \<open>chat\<close> that writes keeps the invariants of both halves of the
  database, and so does every run: a sequence of operations by anyone, in the order in which their
  transactions commit, with users that register in between and sweeps of the janitor.
\<close>

definition chat_inv :: "chat_db \<Rightarrow> bool" where
  "chat_inv db \<longleftrightarrow> guild_inv db \<and> text_inv db"

lemma chat_inv_empty: "chat_inv empty_db"
  by (simp add: chat_inv_def guild_inv_empty text_inv_empty)

text \<open>An operation on channels and messages leaves the other half alone.\<close>

definition guild_same :: "chat_db \<Rightarrow> chat_db \<Rightarrow> bool" where
  "guild_same db db' \<longleftrightarrow> users db' = users db \<and> guilds db' = guilds db \<and> members db' = members db
     \<and> roles db' = roles db \<and> member_roles db' = member_roles db \<and> invites db' = invites db"

definition text_kept :: "chat_db \<Rightarrow> chat_db \<Rightarrow> bool" where
  "text_kept db db' \<longleftrightarrow> guild_same db db' \<and> (text_inv db \<longrightarrow> text_inv db')"

lemma text_kept_refl [simp]: "text_kept db db"
  by (simp add: text_kept_def guild_same_def)

lemma text_kept_trans: "text_kept a b \<Longrightarrow> text_kept b c \<Longrightarrow> text_kept a c"
  by (simp add: text_kept_def guild_same_def)

lemma text_kept_inv: "text_kept db db' \<Longrightarrow> chat_inv db \<Longrightarrow> chat_inv db'"
  unfolding text_kept_def guild_same_def chat_inv_def using guild_inv_cong [of db' db] by simp

lemma text_keptI:
  "(text_inv db \<Longrightarrow> text_inv db') \<Longrightarrow> guild_same db db' \<Longrightarrow> text_kept db db'"
  by (simp add: text_kept_def)

lemma drops_kept: "text_kept db (drop_attachments pa db)" "text_kept db (drop_messages pm db)" "text_kept db (drop_channels pc db)"
  by (simp_all add: text_kept_def guild_same_def frame drop_attachments_text drop_messages_text drop_channels_text)

subsection \<open>Channels\<close>

lemma find_by_mem: "find_by key t k = Some r \<Longrightarrow> r \<in> set t" "find_by key t k = Some r \<Longrightarrow> key r = k"
  using find_by_SomeD by fast+

lemma Store_CreateChannel_text:
  assumes "text_inv db" and "Store_CreateChannel db ch = (res, db')"
  shows "text_inv db'"
proof (cases "db' = db")
  case False
  let ?p = "max_or (- 1) (map cr_position (filter (\<lambda>c. cr_guild c = c_GuildID ch \<and> cr_type c \<noteq> ChannelTypeThread) (channels db))) + 1"
  let ?row = "\<lparr>cr_id = c_ID ch, cr_guild = c_GuildID ch, cr_type = c_Type ch, cr_name = c_Name ch,
     cr_topic = c_Topic ch, cr_parent = c_ParentID ch, cr_position = ?p,
     cr_starter = None, cr_dm_key = None, cr_created = c_CreatedAt ch, cr_updated = c_CreatedAt ch\<rparr>"
  have "c_ID ch \<notin> keys cr_id (channels db)" "channel_row_ok ?row" "refers (c_GuildID ch) (keys g_ID (guilds db))"
    "refers (c_ParentID ch) (keys cr_id (channels db))" "db' = db\<lparr>channels := channels db @ [?row]\<rparr>"
    using assms(2) False unfolding Store_CreateChannel_def Let_def
    by (auto simp: refers_def split: option.split_asm if_split_asm)
  then show ?thesis
    using assms(1) by (simp add: add_channel_text)
qed (use assms in simp)

lemma CreateChannel_cases:
  assumes "CreateChannel gen now db u g input = (res, db')"
  shows "(\<exists>e. res = Inl e) \<and> db' = db \<or> (\<exists>ch. Store_CreateChannel db ch = (res, db'))"
  using assms unfolding CreateChannel_def runs by blast

lemma patch_channel_keeps [simp]:
  "cr_id (patch_channel input t c) = cr_id c" "cr_type (patch_channel input t c) = cr_type c"
  "cr_dm_key (patch_channel input t c) = cr_dm_key c" "cr_starter (patch_channel input t c) = cr_starter c"
  "cr_guild (patch_channel input t c) = cr_guild c"
  by (simp_all add: patch_channel_def)

lemma Store_UpdateChannel_text:
  assumes inv: "text_inv db" and "Store_UpdateChannel db u i input t = (res, db')"
  shows "text_inv db'"
proof (cases "db' = db")
  case False
  let ?cs = "update_where (\<lambda>c. cr_id c = i) (patch_channel input t) (channels db)"
  obtain c where c: "find_by cr_id (channels db) i = Some c" "channel_row_ok (patch_channel input t c)"
      "refers (cr_parent (patch_channel input t c)) (keys cr_id (channels db))" and db': "db' = db\<lparr>channels := ?cs\<rparr>"
    using assms(2) False unfolding Store_UpdateChannel_def by (auto simp: refers_def split: option.split_asm if_split_asm)
  have old: "channels_ok db" using inv by (simp add: text_inv_def)
  have only: "x = c" if "x \<in> set (channels db)" "cr_id x = i" for x
    by (rule distinct_key_eq [of cr_id, OF _ that(1) find_by_mem(1) [OF c(1)]])
      (use old that find_by_mem(2) [OF c(1)] in \<open>simp_all add: channels_ok_def\<close>)
  have k: "map cr_id ?cs = map cr_id (channels db)" "keys cr_id ?cs = keys cr_id (channels db)"
    by (simp_all add: map_update_where keys_update_where)
  have "unique_some cr_dm_key ?cs" "unique_some cr_starter ?cs"
    using old by (intro unique_some_update; simp add: channels_ok_def)+
  moreover have "\<forall>c\<in>set ?cs. channel_row_ok c \<and> refers (cr_guild c) (keys g_ID (guilds db))
      \<and> refers (cr_parent c) (keys cr_id (channels db)) \<and> refers (cr_starter c) (keys mr_id (messages db))"
    unfolding ball_update_where
  proof
    fix x assume x: "x \<in> set (channels db)"
    then have "channel_row_ok x \<and> refers (cr_guild x) (keys g_ID (guilds db))
      \<and> refers (cr_parent x) (keys cr_id (channels db)) \<and> refers (cr_starter x) (keys mr_id (messages db))"
      using old by (simp add: channels_ok_def)
    then show "channel_row_ok (if cr_id x = i then patch_channel input t x else x)
        \<and> refers (cr_guild (if cr_id x = i then patch_channel input t x else x)) (keys g_ID (guilds db))
        \<and> refers (cr_parent (if cr_id x = i then patch_channel input t x else x)) (keys cr_id (channels db))
        \<and> refers (cr_starter (if cr_id x = i then patch_channel input t x else x)) (keys mr_id (messages db))"
      using only [OF x] c by (cases "cr_id x = i") simp_all
  qed
  ultimately have "channels_ok db'"
    using old unfolding db' channels_ok_def by (simp add: k)
  then show ?thesis
    using inv channels_update [where f = "patch_channel input t"] by (simp add: db' text_inv_def)
qed (use assms in simp)

lemma Store_CreateChannel_kept: "Store_CreateChannel db ch = (res, db') \<Longrightarrow> text_kept db db'"
  using Store_CreateChannel_text
  by (auto simp: text_kept_def guild_same_def) (auto simp: Store_CreateChannel_def Let_def split: option.split_asm if_split_asm)

lemma CreateChannel_kept: "CreateChannel gen now db u g input = (res, db') \<Longrightarrow> text_kept db db'"
  using CreateChannel_cases Store_CreateChannel_kept by (metis text_kept_refl)

lemma Store_UpdateChannel_kept: "Store_UpdateChannel db u i input t = (res, db') \<Longrightarrow> text_kept db db'"
  using Store_UpdateChannel_text
  by (auto simp: text_kept_def guild_same_def) (auto simp: Store_UpdateChannel_def split: option.split_asm if_split_asm)

lemma UpdateChannel_kept: "UpdateChannel now db u i input = (res, db') \<Longrightarrow> text_kept db db'"
  unfolding UpdateChannel_def runs using Store_UpdateChannel_kept text_kept_refl by blast

lemma DeleteChannel_kept: "DeleteChannel db u i = (res, db') \<Longrightarrow> text_kept db db'"
  unfolding DeleteChannel_def Store_DeleteChannel_def Let_def runs using drops_kept(3) text_kept_refl by blast

lemma Store_CreateThread_kept:
  assumes "Store_CreateThread db thread starter now = (res, db')"
  shows "text_kept db db'"
proof (cases "db' = db")
  case False
  let ?row = "\<lparr>cr_id = c_ID thread, cr_guild = c_GuildID thread, cr_type = ChannelTypeThread, cr_name = c_Name thread,
                 cr_topic = None, cr_parent = c_ParentID thread, cr_position = 0, cr_starter = starter,
                 cr_dm_key = None, cr_created = now, cr_updated = now\<rparr>"
  have "channel_row_ok ?row" "c_ID thread \<notin> keys cr_id (channels db)" "starter = None \<or> starter \<notin> keys cr_starter (channels db)"
    "refers (c_GuildID thread) (keys g_ID (guilds db))" "refers (c_ParentID thread) (keys cr_id (channels db))"
    "refers starter (keys mr_id (messages db))" "db' = db\<lparr>channels := channels db @ [?row]\<rparr>"
    using assms False unfolding Store_CreateThread_def Let_def by (auto simp: refers_def split: if_split_asm option.split_asm)
  then show ?thesis
    by (intro text_keptI) (simp_all add: add_channel_text guild_same_def)
qed simp

lemma CreateThread_kept: "CreateThread gen now db u i name m = (res, db') \<Longrightarrow> text_kept db db'"
  unfolding CreateThread_def runs using Store_CreateThread_kept text_kept_refl by blast

lemma Store_OpenDirectChannel_kept:
  assumes "Store_OpenDirectChannel db ch u r = (res, db')"
  shows "text_kept db db'"
proof (cases "db' = db")
  case False
  let ?row = "\<lparr>cr_id = c_ID ch, cr_guild = None, cr_type = ChannelTypeDirect, cr_name = None, cr_topic = None,
                cr_parent = None, cr_position = 0, cr_starter = None, cr_dm_key = Some (dm_pair u r),
                cr_created = c_CreatedAt ch, cr_updated = c_CreatedAt ch\<rparr>"
  have new: "r \<in> keys us_ID (users db)" "u \<in> keys us_ID (users db)" "u \<noteq> r" "Some (dm_pair u r) \<notin> keys cr_dm_key (channels db)"
      "c_ID ch \<notin> keys cr_id (channels db)"
    and db': "db' = db\<lparr>channels := channels db @ [?row], dm_participants := dm_participants db @ [(cr_id ?row, u), (cr_id ?row, r)]\<rparr>"
    using assms False unfolding Store_OpenDirectChannel_def Let_def
    by (auto simp: find_by_None_iff split: if_split_asm option.split_asm)
  have "channel_row_ok ?row"
    by (simp add: channel_row_ok_def int4_def)
  then show ?thesis
    unfolding db' using new by (intro text_keptI add_direct_text) (simp_all add: guild_same_def)
qed simp

lemma OpenDirectChannel_kept: "OpenDirectChannel gen now db u r = (res, db') \<Longrightarrow> text_kept db db'"
  unfolding OpenDirectChannel_def runs using Store_OpenDirectChannel_kept text_kept_refl by blast

subsection \<open>Messages\<close>

text \<open>What a stored message changed, and what its attachments had to be.\<close>

lemma Store_CreateMessage_cases:
  assumes "Store_CreateMessage db msg = (res, db')"
  obtains (failed) e where "res = Inl e" "db' = db"
  | (stored) v c row db1 where "res = Inr v"
      "row = \<lparr>mr_id = m_ID msg, mr_channel = m_ChannelID msg, mr_author = us_ID (m_Author msg), mr_content = m_Content msg,
                 mr_reply_to = m_ReplyToMessageID msg, mr_created = m_CreatedAt msg, mr_edited = None\<rparr>"
      "c \<in> set (channels db)" "cr_id c = m_ChannelID msg" "cr_type c \<in> text_types" "us_ID (m_Author msg) \<in> set (participants db c)"
      "m_ID msg \<notin> keys mr_id (messages db)" "message_row_ok row" "us_ID (m_Author msg) \<in> keys us_ID (users db)"
      "\<And>r. m_ReplyToMessageID msg = Some r \<Longrightarrow> find_message db (m_ChannelID msg) r \<noteq> None"
      "db1 = db\<lparr>messages := messages db @ [row],
                channels := update_where (\<lambda>c. cr_id c = m_ChannelID msg) (\<lambda>c. c\<lparr>cr_updated := m_CreatedAt msg\<rparr>) (channels db)\<rparr>"
      "m_AttachmentIDs msg = [] \<or> length (filter (attachable (m_AttachmentIDs msg) (m_ChannelID msg) (us_ID (m_Author msg))) (attachments db)) = length (m_AttachmentIDs msg)"
      "db' = db1\<lparr>attachments := update_where (attachable (m_AttachmentIDs msg) (m_ChannelID msg) (us_ID (m_Author msg)))
                  (\<lambda>a. a\<lparr>at_MessageID := Some (m_ID msg)\<rparr>) (attachments db)\<rparr>"
proof (cases "db' = db \<and> (\<exists>e. res = Inl e)")
  case True
  then show ?thesis using failed by blast
next
  case False
  let ?cid = "m_ChannelID msg" and ?u = "us_ID (m_Author msg)"
  let ?row = "\<lparr>mr_id = m_ID msg, mr_channel = ?cid, mr_author = ?u, mr_content = m_Content msg,
                 mr_reply_to = m_ReplyToMessageID msg, mr_created = m_CreatedAt msg, mr_edited = None\<rparr>"
  let ?db1 = "db\<lparr>messages := messages db @ [?row],
                channels := update_where (\<lambda>c. cr_id c = ?cid) (\<lambda>c. c\<lparr>cr_updated := m_CreatedAt msg\<rparr>) (channels db)\<rparr>"
  note run = assms [unfolded Store_CreateMessage_def Let_def]
  have guards: "text_access db ?u ?cid" "\<And>r. m_ReplyToMessageID msg = Some r \<Longrightarrow> find_message db ?cid r \<noteq> None"
    "m_ID msg \<notin> keys mr_id (messages db)" "message_row_ok ?row"
    using run False by (auto split: if_split_asm option.split_asm)
  obtain c where c: "c \<in> set (channels db)" "cr_id c = ?cid" "cr_type c \<in> text_types" "?u \<in> set (participants db c)"
    using guards(1) by (auto simp: text_access_def dest!: find_by_SomeD split: option.split_asm)
  obtain scanned where scanned: "scanMessage db ?row = Some scanned"
    using run False guards by (cases "scanMessage db ?row") (auto split: if_split_asm option.split_asm)
  then obtain a where "find_by us_ID (users db) ?u = Some a"
    by (auto simp: scanMessage_def)
  from find_by_SomeD [OF this] have u: "?u \<in> keys us_ID (users db)"
    using imageI [of a "set (users db)" us_ID] by simp
  have none: "update_where (attachable [] ?cid ?u) f t = t" for f t
    by (simp add: update_where_def attachable_def)
  have g: "(case m_ReplyToMessageID msg of None \<Rightarrow> False | Some r \<Rightarrow> find_message db ?cid r = None) = False"
    using guards(2) by (simp split: option.split)
  obtain v where v: "res = Inr v"
    "m_AttachmentIDs msg = [] \<or> length (filter (attachable (m_AttachmentIDs msg) ?cid ?u) (attachments db)) = length (m_AttachmentIDs msg)"
    "db' = ?db1\<lparr>attachments := update_where (attachable (m_AttachmentIDs msg) ?cid ?u) (\<lambda>a. a\<lparr>at_MessageID := Some (m_ID msg)\<rparr>) (attachments db)\<rparr>"
    using run False unfolding message_row.simps Message.simps g scanned option.case
    by (auto simp: guards(1,3,4) none split: if_split_asm)
  show ?thesis by (rule stored [OF v(1) refl c guards(3,4) u guards(2) refl v(2,3)])
qed

lemma Store_CreateMessage_kept:
  assumes "Store_CreateMessage db msg = (res, db')"
  shows "text_kept db db'"
  using assms
proof (cases rule: Store_CreateMessage_cases)
  case (stored v c row db1)
  have "text_inv db'" if "text_inv db"
  proof -
    have "text_inv (db\<lparr>messages := messages db @ [row]\<rparr>)"
      using stored by (intro add_message_text [OF that]) simp_all
    from channels_bump_text [OF this, of "\<lambda>c. cr_id c = m_ChannelID msg" "m_CreatedAt msg"] have "text_inv db1"
      using stored(11) by simp
    from attach_text [OF this, of row, OF _ refl refl, of "m_AttachmentIDs msg"] show ?thesis
      using stored(2,11,13) by simp
  qed
  then show ?thesis
    using stored by (intro text_keptI) (simp_all add: guild_same_def)
qed simp

lemma CreateMessage_kept: "CreateMessage gen now db u i content r ids = (res, db') \<Longrightarrow> text_kept db db'"
  unfolding CreateMessage_def runs using Store_CreateMessage_kept text_kept_refl by blast

lemma Store_UpdateMessage_kept:
  assumes "Store_UpdateMessage db u c i content t = (res, db')"
  shows "text_kept db db'"
proof (cases "db' = db")
  case False
  obtain m where m: "find_message db c i = Some m" "message_row_ok (m\<lparr>mr_content := content, mr_edited := Some t\<rparr>)"
      and db': "db' = db\<lparr>messages := update_where (\<lambda>x. mr_id x = i) (\<lambda>x. x\<lparr>mr_content := content, mr_edited := Some t\<rparr>) (messages db)\<rparr>"
    using assms False unfolding Store_UpdateMessage_def Let_def by (auto split: if_split_asm option.split_asm)
  show ?thesis
    unfolding db' using m(2) by (intro text_keptI edit_message_text) (simp_all add: guild_same_def message_row_ok_def)
qed simp

lemma UpdateMessage_kept: "UpdateMessage now db u c i content = (res, db') \<Longrightarrow> text_kept db db'"
  unfolding UpdateMessage_def runs using Store_UpdateMessage_kept text_kept_refl by blast

lemma Store_DeleteMessage_kept: "Store_DeleteMessage db u c i b = (res, db') \<Longrightarrow> text_kept db db'"
  unfolding Store_DeleteMessage_def Let_def
  by (auto simp: drops_kept split: if_split_asm sum.split_asm)

lemma DeleteMessage_kept: "DeleteMessage db u c i = (res, db') \<Longrightarrow> text_kept db db'"
  unfolding DeleteMessage_def runs using Store_DeleteMessage_kept text_kept_refl by blast

lemma reaction_change_kept:
  assumes "changeMessageReaction db u c i emoji change = (res, db')" and "\<And>b me d. change db = Some (b, me, d) \<Longrightarrow> text_kept db d"
  shows "text_kept db db'"
  using assms unfolding changeMessageReaction_def by (auto split: if_split_asm option.split_asm)

lemma AddMessageReaction_kept:
  assumes "AddMessageReaction So now db u c i emoji = (res, db')"
  shows "text_kept db db'"
proof -
  let ?row = "\<lparr>re_message = i, re_user = u, re_emoji = emoji, re_created = now\<rparr>"
  have "text_inv (db\<lparr>reactions := reactions db @ [?row]\<rparr>)"
    if "text_inv db" "reaction_row_ok ?row" "(i, u, emoji) \<notin> keys reaction_key (reactions db)"
      "i \<in> keys mr_id (messages db)" "u \<in> keys us_ID (users db)"
    using that by (intro reactions_text) (simp_all add: text_inv_def reactions_ok_def)
  then have "text_kept db (db\<lparr>reactions := reactions db @ [?row]\<rparr>)"
    if "reaction_row_ok ?row" "(i, u, emoji) \<notin> keys reaction_key (reactions db)" "i \<in> keys mr_id (messages db)" "u \<in> keys us_ID (users db)"
    using that by (intro text_keptI) (simp_all add: guild_same_def)
  then show ?thesis
    using assms unfolding AddMessageReaction_def Store_AddMessageReaction_def runs
    by (auto elim!: reaction_change_kept simp: Let_def split: if_split_asm)
qed

lemma RemoveMessageReaction_kept:
  assumes "RemoveMessageReaction So db u c i emoji = (res, db')"
  shows "text_kept db db'"
proof -
  have "text_kept db (db\<lparr>reactions := delete_where p (reactions db)\<rparr>)" for p
    by (intro text_keptI reactions_text)
      (auto simp: guild_same_def text_inv_def reactions_ok_def set_delete_where distinct_map_delete_where)
  then show ?thesis
    using assms unfolding RemoveMessageReaction_def Store_RemoveMessageReaction_def runs
    by (auto elim!: reaction_change_kept simp: Let_def)
qed

subsection \<open>Read positions and attachments\<close>

lemma UpdateReadState_kept:
  assumes "UpdateReadState now db u c m = (res, db')"
  shows "text_kept db db'"
proof (cases "db' = db")
  case False
  let ?row = "\<lparr>rd_user = u, rd_channel = c, rd_message = m, rd_updated = now\<rparr>"
  have "text_access db u c" and cases: "u \<in> keys us_ID (users db) \<and> find_by read_key (read_states db) (u, c) = None
        \<and> db' = db\<lparr>read_states := read_states db @ [?row]\<rparr>
      \<or> (\<exists>r. find_by read_key (read_states db) (u, c) = Some r)
        \<and> db' = db\<lparr>read_states := update_where (\<lambda>r. read_key r = (u, c)) (\<lambda>_. ?row) (read_states db)\<rparr>"
    using assms False unfolding UpdateReadState_def Store_UpdateReadState_def Let_def
    by (auto split: if_split_asm option.split_asm)
  then have c: "c \<in> keys cr_id (channels db)"
    by (auto simp: text_access_def dest!: find_by_SomeD split: option.split_asm)
  have "reads_ok db'" if ok: "reads_ok db"
    using cases
  proof (elim disjE conjE exE)
    assume "u \<in> keys us_ID (users db)" "find_by read_key (read_states db) (u, c) = None" "db' = db\<lparr>read_states := read_states db @ [?row]\<rparr>"
    then show ?thesis
      using ok c unfolding reads_ok_def by (simp add: find_by_None_iff)
  next
    fix r
    assume r: "find_by read_key (read_states db) (u, c) = Some r"
      and db': "db' = db\<lparr>read_states := update_where (\<lambda>r. read_key r = (u, c)) (\<lambda>_. ?row) (read_states db)\<rparr>"
    have "u \<in> keys us_ID (users db)"
      using ok find_by_SomeD [OF r] by (auto simp: reads_ok_def)
    moreover have "map read_key (update_where (\<lambda>r. read_key r = (u, c)) (\<lambda>_. ?row) t) = map read_key t" for t
      by (induction t) (auto simp: update_where_def)
    ultimately show ?thesis
      using ok c unfolding reads_ok_def db' by (simp add: ball_update_where)
  qed
  then have "text_inv db'" if "text_inv db"
    using that cases reads_text by (auto simp: text_inv_def)
  then show ?thesis
    using cases by (intro text_keptI) (auto simp: guild_same_def)
qed simp

lemma CreateAttachmentIntent_kept:
  assumes "CreateAttachmentIntent us pm st gen now db u c input = (res, db')"
  shows "text_kept db db'"
proof -
  have store: "text_kept db d" if run: "Store_CreateAttachment db a n = (r, d)" for a n r d
  proof (cases "d = db")
    case False
    let ?row = "a\<lparr>at_Status := AttachmentPending, at_MessageID := None\<rparr>"
    have ok: "at_ID ?row \<notin> keys at_ID (attachments db)" "at_ObjectKey ?row \<notin> keys at_ObjectKey (attachments db)"
        "at_ChannelID ?row \<in> keys cr_id (channels db)" "at_UploaderID ?row \<in> keys us_ID (users db)" "attachment_row_ok ?row"
      and d: "d = db\<lparr>attachments := attachments db @ [?row]\<rparr>"
      using run False unfolding Store_CreateAttachment_def Let_def by (auto split: if_split_asm)
    have "attachments_ok d" if "attachments_ok db"
      using that ok unfolding d attachments_ok_def attached_ok_def by simp
    then show ?thesis
      unfolding d by (intro text_keptI attachments_text) (simp_all add: text_inv_def guild_same_def)
  qed simp
  show ?thesis
    using assms unfolding CreateAttachmentIntent_def
    by (auto split: option.split_asm sum.split_asm prod.split_asm if_split_asm intro: store)
qed

lemma FinalizeAttachment_kept:
  assumes "FinalizeAttachment pm ef st db u i = (res, db')"
  shows "text_kept db db'"
proof (cases "db' = db")
  case False
  let ?f = "\<lambda>a. a\<lparr>at_Status := AttachmentReady\<rparr>" and ?p = "\<lambda>a. at_ID a = i"
  have db': "db' = db\<lparr>attachments := update_where ?p ?f (attachments db)\<rparr>"
    using assms False unfolding FinalizeAttachment_def MarkAttachmentReady_def
    by (auto split: option.split_asm sum.split_asm prod.split_asm if_split_asm)
  have "map at_ID (update_where ?p ?f t) = map at_ID t" "map at_ObjectKey (update_where ?p ?f t) = map at_ObjectKey t" for t :: "Attachment list"
    by (simp_all add: map_update_where)
  moreover have "attachment_row_ok a \<Longrightarrow> attachment_row_ok (?f a)" "attached_ok d (?f a) = attached_ok d a" for a :: Attachment and d
    by (simp_all add: attachment_row_ok_def attached_ok_def)
  ultimately have "attachments_ok db'" if "attachments_ok db"
    using that unfolding db' attachments_ok_def ball_update_where by (simp add: attached_ok_def ball_update_where)
  then show ?thesis
    unfolding db' by (intro text_keptI attachments_text) (simp_all add: text_inv_def guild_same_def)
qed simp

lemma DeleteAttachment_kept: "DeleteAttachment db u i = (res, db') \<Longrightarrow> text_kept db db'"
  unfolding DeleteAttachment_def Store_DeleteAttachment_def Let_def
  by (auto simp: drops_kept split: if_split_asm sum.split_asm)

lemma sweep_keys_kept: "sweep_keys media ks (db, objects) = (db', objects') \<Longrightarrow> text_kept db db'"
proof (induction ks arbitrary: db objects)
  case (Cons k ks)
  have "text_kept db (CompleteStorageDeletion db k)"
    by (intro text_keptI) (simp_all add: CompleteStorageDeletion_def deletions_text guild_same_def)
  then show ?case
    using Cons by (auto split: prod.split_asm option.split_asm intro: text_kept_trans)
qed simp

lemma Sweep_kept:
  assumes "Sweep media now (db, objects) = (db', objects')"
  shows "text_kept db db'"
proof -
  let ?db1 = "drop_attachments (expired (now - pendingUploadLifetime) (now - unusedUploadLifetime)) db"
  have "sweep_keys media (PendingStorageDeletions ?db1 deletionBatchSize) (?db1, objects) = (db', objects')"
    using assms by (simp add: Sweep_def ExpireAttachments_def Let_def)
  from sweep_keys_kept [OF this] show ?thesis
    using drops_kept(1) text_kept_trans by blast
qed

subsection \<open>Guilds, roles and members\<close>

text \<open>An operation on guilds, roles, members or invites leaves channels and messages alone.\<close>

definition text_same :: "chat_db \<Rightarrow> chat_db \<Rightarrow> bool" where
  "text_same db db' \<longleftrightarrow> channels db' = channels db \<and> dm_participants db' = dm_participants db \<and> messages db' = messages db
     \<and> reactions db' = reactions db \<and> read_states db' = read_states db \<and> attachments db' = attachments db
     \<and> storage_deletions db' = storage_deletions db
     \<and> users db' = users db \<and> keys g_ID (guilds db) \<subseteq> keys g_ID (guilds db')"

lemma text_same_refl [simp]: "text_same db db"
  by (simp add: text_same_def)

lemma text_same_trans: "text_same a b \<Longrightarrow> text_same b c \<Longrightarrow> text_same a c"
  unfolding text_same_def by auto

lemma text_same_inv: "text_same db db' \<Longrightarrow> text_inv db \<Longrightarrow> text_inv db'"
  unfolding text_same_def by (elim conjE) (rule text_inv_frame, simp_all)

named_theorems same \<open>operations that leave channels and messages alone\<close>

lemma same_updates [same]:
  "text_same db (db\<lparr>roles := r\<rparr>)" "text_same db (db\<lparr>members := m\<rparr>)" "text_same db (db\<lparr>member_roles := mr\<rparr>)"
  "text_same db (db\<lparr>invites := i\<rparr>)" "text_same db (db\<lparr>members := m, invites := i\<rparr>)"
  "text_same db (db\<lparr>guilds := guilds db @ gs, members := m, roles := r\<rparr>)"
  "text_same db (drop_members pm db)" "text_same db (drop_roles pr db)"
  by (auto simp: text_same_def frame)

lemma CreateRole_same: "CreateRole gen now db u g input = (res, db') \<Longrightarrow> text_same db db'"
  unfolding CreateRole_def Store_CreateRole_def runs Let_def by (auto simp: same)

lemma UpdateRole_same: "UpdateRole db u g i input = (res, db') \<Longrightarrow> text_same db db'"
  unfolding UpdateRole_def Store_UpdateRole_def runs by (auto simp: same)

lemma DeleteRole_same: "DeleteRole db u g i = (res, db') \<Longrightarrow> text_same db db'"
  unfolding DeleteRole_def Store_DeleteRole_def runs Let_def by (auto simp: same)

lemma insert_member_roles_same: "insert_member_roles db g u ids = Some db' \<Longrightarrow> text_same db db'"
proof (induction ids arbitrary: db)
  case (Cons i ids)
  then show ?case
    by (auto simp: insert_member_role_def split: option.split_asm if_split_asm intro: text_same_trans [OF same_updates(3)])
qed simp

lemma SetMemberRoles_same: "SetMemberRoles db g u ids = (res, db') \<Longrightarrow> text_same db db'"
  unfolding SetMemberRoles_def clear_member_roles_def
  by (auto split: option.split_asm dest!: insert_member_roles_same intro: text_same_trans [OF same_updates(3)])

lemma UpdateMember_same: "UpdateMember us t db v g u input = (res, db') \<Longrightarrow> text_same db db'"
proof -
  have assign: "text_same db d" if "assignRoles us db a m ids = (r, d)" for a m ids r d
    using that unfolding assignRoles_def Let_def by (auto split: option.split_asm sum.split_asm if_split_asm dest: SetMemberRoles_same)
  have nick: "text_same db1 d" if "UpdateMemberNickname db1 g u n = (r, d)" for n r d db1
    using that unfolding UpdateMemberNickname_def Let_def runs by (auto simp: same)
  assume "UpdateMember us t db v g u input = (res, db')"
  from UpdateMember_cases [OF this] show ?thesis
  proof (elim disjE exE conjE)
    fix a m r1 db1
    assume "change_roles us db a v g u m input = (r1, db1)"
    from change_roles_cases [OF this] have "text_same db db1"
      using assign by auto
    then show "db' = db1 \<Longrightarrow> text_same db db'" and "UpdateMemberNickname db1 g u n = (r2, db') \<Longrightarrow> text_same db db'" for n r2
      using nick text_same_trans by blast+
  qed simp
qed

lemma Store_RemoveMember_same: "Store_RemoveMember db g u = (res, db') \<Longrightarrow> text_same db db'"
  unfolding Store_RemoveMember_def by (auto simp: same split: if_split_asm)

lemma RemoveMember_same: "RemoveMember db v g u = (res, db') \<Longrightarrow> text_same db db'"
  unfolding RemoveMember_def runs by (auto dest: Store_RemoveMember_same)

lemma LeaveGuild_same: "LeaveGuild db u g = (res, db') \<Longrightarrow> text_same db db'"
  unfolding LeaveGuild_def runs by (auto dest: Store_RemoveMember_same)

lemma CreateInvite_same: "CreateInvite gen rand now db u g input = (res, db') \<Longrightarrow> text_same db db'"
  unfolding CreateInvite_def Store_CreateInvite_def runs Let_def by (auto simp: same split: option.split_asm)

lemma RevokeInvite_same: "RevokeInvite now db u g i = (res, db') \<Longrightarrow> text_same db db'"
  unfolding RevokeInvite_def Store_RevokeInvite_def runs Let_def by (auto simp: same)

lemma AcceptInvite_same:
  assumes "guild_inv db" and run: "AcceptInvite t now db u code = (res, db')"
  shows "text_same db db'"
proof (cases "db' = db")
  case False
  with AcceptInvite_run [OF run] obtain r where "Store_AcceptInvite db code u now = (r, db')"
    by blast
  with False assms(1) Store_AcceptInvite_cases [of db code u now r db'] obtain i where "db' = accepted db i u now"
    unfolding guild_inv_def by blast
  then show ?thesis
    by (simp add: accepted_def same)
qed simp

lemma CreateGuild_same: "CreateGuild gen gen2 now db u input = (res, db') \<Longrightarrow> text_same db db'"
  unfolding CreateGuild_def Store_CreateGuild_def runs Let_def by (auto simp: same)

lemma UpdateGuild_same: "UpdateGuild db u g input = (res, db') \<Longrightarrow> text_same db db'"
  unfolding UpdateGuild_def Store_UpdateGuild_def runs
  by (auto simp: text_same_def keys_update_where patch_guild_def)

lemma DeleteGuild_text_inv:
  assumes "chat_inv db" and "DeleteGuild db u g = (res, db')"
  shows "text_inv db'"
proof -
  have "distinct (map g_ID (guilds db))" "text_inv db"
    using assms(1) by (simp_all add: chat_inv_def guild_inv_def guild_schema_def guild_keys_def)
  then show ?thesis
    using assms(2) drop_guilds_text unfolding DeleteGuild_def Store_DeleteGuild_def runs Let_def by auto
qed

subsection \<open>Runs\<close>

text \<open>
  The accounts are the other package's: a user registers, or changes the name it shows. \<open>media\<close>
  is the object storage, whose objects clients change on their own through presigned uploads.
\<close>

lemma register_inv:
  assumes "chat_inv db" and "us_ID usr \<notin> keys us_ID (users db)"
  shows "chat_inv (db\<lparr>users := users db @ [usr]\<rparr>)"
proof -
  let ?db = "db\<lparr>users := users db @ [usr]\<rparr>"
  have "text_inv ?db"
    by (rule text_inv_frame [of db]) (use assms in \<open>auto simp: chat_inv_def\<close>)
  moreover have "guild_inv ?db"
    using assms unfolding chat_inv_def guild_inv_defs by (auto simp: is_member_def default_roles_def)
  ultimately show ?thesis by (simp add: chat_inv_def)
qed

lemma profile_inv:
  assumes "chat_inv db" and "\<And>r. us_ID (f r) = us_ID r"
  shows "chat_inv (db\<lparr>users := update_where p f (users db)\<rparr>)"
proof -
  let ?db = "db\<lparr>users := update_where p f (users db)\<rparr>"
  have k: "map us_ID (update_where p f (users db)) = map us_ID (users db)" "keys us_ID (update_where p f (users db)) = keys us_ID (users db)"
    by (simp_all add: map_update_where keys_update_where assms(2))
  have "text_inv ?db"
    by (rule text_inv_frame [of db]) (use assms(1) in \<open>auto simp: chat_inv_def k(2)\<close>)
  moreover have "guild_inv ?db"
    using assms(1) unfolding chat_inv_def guild_inv_defs by (auto simp: is_member_def default_roles_def k)
  ultimately show ?thesis by (simp add: chat_inv_def)
qed

lemma clock_inv: "chat_inv db \<Longrightarrow> chat_inv (db\<lparr>clock := t\<rparr>)"
  by (rule text_kept_inv [OF text_keptI]) (auto simp: guild_same_def intro: text_inv_frame [of db])

text \<open>One committed request, sweep, registration, change of profile, tick of the clock, or change of objects.\<close>

inductive chat_step :: "'s Storage \<Rightarrow> chat_db \<times> 's \<Rightarrow> chat_db \<times> 's \<Rightarrow> bool" for media where
  create_guild: "CreateGuild gen gen2 now db u i1 = (r1, db') \<Longrightarrow> chat_step media (db, objs) (db', objs)"
| update_guild: "UpdateGuild db u g i2 = (r2, db') \<Longrightarrow> chat_step media (db, objs) (db', objs)"
| delete_guild: "DeleteGuild db u g = (r3, db') \<Longrightarrow> chat_step media (db, objs) (db', objs)"
| create_role: "CreateRole gen now db u g i4 = (r4, db') \<Longrightarrow> chat_step media (db, objs) (db', objs)"
| update_role: "UpdateRole db u g i i5 = (r5, db') \<Longrightarrow> chat_step media (db, objs) (db', objs)"
| delete_role: "DeleteRole db u g i = (r6, db') \<Longrightarrow> chat_step media (db, objs) (db', objs)"
| update_member: "UpdateMember us t db v g u i7 = (r7, db') \<Longrightarrow> chat_step media (db, objs) (db', objs)"
| remove_member: "RemoveMember db v g u = (r8, db') \<Longrightarrow> chat_step media (db, objs) (db', objs)"
| leave_guild: "LeaveGuild db u g = (r9, db') \<Longrightarrow> chat_step media (db, objs) (db', objs)"
| create_invite: "CreateInvite gen rand now db u g i10 = (r10, db') \<Longrightarrow> chat_step media (db, objs) (db', objs)"
| revoke_invite: "RevokeInvite now db u g i = (r11, db') \<Longrightarrow> chat_step media (db, objs) (db', objs)"
| accept_invite: "AcceptInvite t now db u code = (r12, db') \<Longrightarrow> chat_step media (db, objs) (db', objs)"
| create_channel: "CreateChannel gen now db u g i13 = (r13, db') \<Longrightarrow> chat_step media (db, objs) (db', objs)"
| update_channel: "UpdateChannel now db u c i14 = (r14, db') \<Longrightarrow> chat_step media (db, objs) (db', objs)"
| delete_channel: "DeleteChannel db u c = (r15, db') \<Longrightarrow> chat_step media (db, objs) (db', objs)"
| create_thread: "CreateThread gen now db u c name m' = (r16, db') \<Longrightarrow> chat_step media (db, objs) (db', objs)"
| open_direct: "OpenDirectChannel gen now db u v = (r17, db') \<Longrightarrow> chat_step media (db, objs) (db', objs)"
| create_message: "CreateMessage gen now db u c content m' ids = (r18, db') \<Longrightarrow> chat_step media (db, objs) (db', objs)"
| update_message: "UpdateMessage now db u c m content = (r19, db') \<Longrightarrow> chat_step media (db, objs) (db', objs)"
| delete_message: "DeleteMessage db u c m = (r20, db') \<Longrightarrow> chat_step media (db, objs) (db', objs)"
| add_reaction: "AddMessageReaction So now db u c m emoji = (r21, db') \<Longrightarrow> chat_step media (db, objs) (db', objs)"
| remove_reaction: "RemoveMessageReaction So db u c m emoji = (r22, db') \<Longrightarrow> chat_step media (db, objs) (db', objs)"
| read: "UpdateReadState now db u c m = (r23, db') \<Longrightarrow> chat_step media (db, objs) (db', objs)"
| intent: "CreateAttachmentIntent us pm (Some (media, objs)) gen now db u c i24 = (r24, db') \<Longrightarrow> chat_step media (db, objs) (db', objs)"
| finalize: "FinalizeAttachment pm ef (Some (media, objs)) db u i = (r25, db') \<Longrightarrow> chat_step media (db, objs) (db', objs)"
| delete_attachment: "DeleteAttachment db u i = (r26, db') \<Longrightarrow> chat_step media (db, objs) (db', objs)"
| sweep: "Sweep media now (db, objs) = (db', objs') \<Longrightarrow> chat_step media (db, objs) (db', objs')"
| register: "us_ID usr \<notin> keys us_ID (users db) \<Longrightarrow> chat_step media (db, objs) (db\<lparr>users := users db @ [usr]\<rparr>, objs)"
| profile: "(\<And>r. us_ID (f r) = us_ID r) \<Longrightarrow> chat_step media (db, objs) (db\<lparr>users := update_where p f (users db)\<rparr>, objs)"
| tick: "chat_step media (db, objs) (db\<lparr>clock := now\<rparr>, objs)"
| upload: "chat_step media (db, objs) (db, objs')"

inductive_cases chat_stepE: "chat_step media s s'"

lemmas kept_rules =
  CreateChannel_kept UpdateChannel_kept DeleteChannel_kept CreateThread_kept OpenDirectChannel_kept CreateMessage_kept
  UpdateMessage_kept DeleteMessage_kept AddMessageReaction_kept RemoveMessageReaction_kept UpdateReadState_kept
  CreateAttachmentIntent_kept FinalizeAttachment_kept DeleteAttachment_kept Sweep_kept

lemmas same_rules =
  CreateRole_same UpdateRole_same DeleteRole_same UpdateMember_same RemoveMember_same LeaveGuild_same CreateInvite_same
  RevokeInvite_same CreateGuild_same UpdateGuild_same

lemmas guild_inv_rules =
  CreateRole_guild_inv UpdateRole_guild_inv DeleteRole_guild_inv UpdateMember_guild_inv RemoveMember_guild_inv
  LeaveGuild_guild_inv CreateInvite_guild_inv RevokeInvite_guild_inv AcceptInvite_guild_inv CreateGuild_guild_inv
  UpdateGuild_guild_inv DeleteGuild_guild_inv

lemma chat_invI: "text_same db db' \<Longrightarrow> (guild_inv db \<Longrightarrow> guild_inv db') \<Longrightarrow> chat_inv db \<Longrightarrow> chat_inv db'"
  unfolding chat_inv_def using text_same_inv by blast

lemma chat_step_inv: "chat_step media s s' \<Longrightarrow> chat_inv (fst s) \<Longrightarrow> chat_inv (fst s')"
proof (induction rule: chat_step.induct)
  case (accept_invite t now db u code r db' objs)
  then show ?case
    using AcceptInvite_same AcceptInvite_guild_inv text_same_inv by (fastforce simp: chat_inv_def)
next
  case (delete_guild db u g r db' objs)
  then show ?case
    using DeleteGuild_text_inv DeleteGuild_guild_inv by (fastforce simp: chat_inv_def)
next
  case (register usr db objs)
  then show ?case by (simp add: register_inv)
next
  case (profile f db objs p)
  then show ?case by (simp add: profile_inv)
next
  case (tick db objs now)
  then show ?case by (simp add: clock_inv)
qed (simp_all, (blast intro: text_kept_inv dest: kept_rules | blast intro: chat_invI dest: same_rules guild_inv_rules)+)

inductive chat_run :: "'s Storage \<Rightarrow> chat_db \<times> 's \<Rightarrow> bool" for media where
  start: "chat_run media (empty_db, objs)"
| step: "chat_run media s \<Longrightarrow> chat_step media s s' \<Longrightarrow> chat_run media s'"

lemma chat_run_inv: "chat_run media s \<Longrightarrow> chat_inv (fst s)"
  by (induction rule: chat_run.induct) (simp_all add: chat_inv_empty chat_step_inv)

end
