(* ===== verification/Uploads.thy ===== *)
theory Uploads
  imports Chat_Steps "HOL-Library.Multiset"
begin

section \<open>Uploads over a run\<close>

text \<open>
  What every operation does to the uploads: the key of an object never disappears from the tables
  before the object is deleted, and nobody ever has more than \<open>maxUnusedAttachments\<close> uploads that no
  message carries. The interface \<open>object_store\<close> states what a storage promises the janitor;
  \<open>MemoryStorage\<close> keeps it.
\<close>

subsection \<open>Keys that are tracked\<close>

definition tracked :: "chat_db \<Rightarrow> string set" where
  "tracked db = keys at_ObjectKey (attachments db) \<union> keys fst (storage_deletions db)"

definition uploads_kept :: "chat_db \<Rightarrow> chat_db \<Rightarrow> bool" where
  "uploads_kept db db' \<longleftrightarrow> tracked db \<subseteq> tracked db'
     \<and> (\<forall>u. length (unused_attachments db' u) \<le> max maxUnusedAttachments (length (unused_attachments db u)))"

lemma uploads_kept_refl [simp]: "uploads_kept db db"
  by (simp add: uploads_kept_def)

lemma uploads_kept_trans: "uploads_kept a b \<Longrightarrow> uploads_kept b c \<Longrightarrow> uploads_kept a c"
  unfolding uploads_kept_def by (meson le_trans max.mono order_refl subset_trans max.boundedI max.cobounded1)

text \<open>Operations that do not touch uploads.\<close>

lemma uploads_kept_cong:
  "attachments db' = attachments db \<Longrightarrow> storage_deletions db' = storage_deletions db \<Longrightarrow> uploads_kept db db'"
  by (simp add: uploads_kept_def tracked_def unused_attachments_def)

lemma text_same_uploads: "text_same db db' \<Longrightarrow> uploads_kept db db'"
  by (simp add: text_same_def uploads_kept_cong)

named_theorems uploads \<open>operations keep the uploads\<close>

lemma keys_enqueue: "keys fst (enqueue_deletions t ks q) = keys fst q \<union> set ks"
  by (auto simp: enqueue_deletions_set image_Un) force

lemma drop_attachments_uploads [uploads]: "uploads_kept db (drop_attachments p db)"
proof -
  have "tracked db \<subseteq> tracked (drop_attachments p db)"
    by (auto simp: tracked_def drop_attachments_def keys_enqueue set_delete_where)
  moreover have "length (filter q (delete_where p t)) \<le> length (filter q t)" for q and t :: "Attachment list"
    by (induction t) (auto simp: delete_where_def)
  then have "length (unused_attachments (drop_attachments p db) u) \<le> length (unused_attachments db u)" for u
    by (simp add: unused_attachments_def drop_attachments_def)
  ultimately show ?thesis
    unfolding uploads_kept_def by (simp add: le_max_iff_disj)
qed

lemma drop_messages_uploads [uploads]: "uploads_kept db (drop_messages p db)"
  unfolding drop_messages_def Let_def
  by (rule uploads_kept_trans [OF drop_attachments_uploads uploads_kept_cong]) simp_all

lemma drop_channels_uploads [uploads]: "uploads_kept db (drop_channels p db)"
  unfolding drop_channels_def Let_def
  by (rule uploads_kept_trans [OF uploads_kept_trans [OF drop_messages_uploads drop_attachments_uploads] uploads_kept_cong]) simp_all

lemma drop_guilds_uploads [uploads]: "uploads_kept db (drop_guilds p db)"
proof -
  have "uploads_kept db (drop_roles pr (drop_members pm db))" for pr pm
    by (rule uploads_kept_cong) (simp_all add: frame)
  from uploads_kept_trans [OF uploads_kept_trans [OF this drop_channels_uploads] uploads_kept_cong] show ?thesis
    unfolding drop_guilds_def Let_def by simp
qed

subsection \<open>The operations\<close>

lemma DeleteGuild_uploads: "DeleteGuild db u g = (res, db') \<Longrightarrow> uploads_kept db db'"
  unfolding DeleteGuild_def Store_DeleteGuild_def runs Let_def by (auto simp: uploads)

lemma CreateChannel_uploads: "CreateChannel gen now db u g input = (res, db') \<Longrightarrow> uploads_kept db db'"
  unfolding CreateChannel_def Store_CreateChannel_def runs Let_def by (auto intro: uploads_kept_cong)

lemma UpdateChannel_uploads: "UpdateChannel now db u i input = (res, db') \<Longrightarrow> uploads_kept db db'"
  unfolding UpdateChannel_def Store_UpdateChannel_def runs by (auto intro: uploads_kept_cong)

lemma DeleteChannel_uploads: "DeleteChannel db u i = (res, db') \<Longrightarrow> uploads_kept db db'"
  unfolding DeleteChannel_def Store_DeleteChannel_def runs Let_def by (auto simp: uploads)

lemma CreateThread_uploads: "CreateThread gen now db u i name m = (res, db') \<Longrightarrow> uploads_kept db db'"
  unfolding CreateThread_def Store_CreateThread_def runs Let_def by (auto intro: uploads_kept_cong)

lemma OpenDirectChannel_uploads: "OpenDirectChannel gen now db u r = (res, db') \<Longrightarrow> uploads_kept db db'"
  unfolding OpenDirectChannel_def Store_OpenDirectChannel_def runs Let_def
  by (auto intro: uploads_kept_cong split: option.split_asm if_split_asm)

lemma updated_uploads:
  assumes "\<And>a. at_ObjectKey (f a) = at_ObjectKey a" "\<And>a. at_UploaderID (f a) = at_UploaderID a"
    and "\<And>a. at_MessageID (f a) = None \<Longrightarrow> at_MessageID a = None"
    and "attachments db' = update_where p f (attachments db)" "storage_deletions db' = storage_deletions db"
  shows "uploads_kept db db'"
proof -
  have "length (filter (\<lambda>a. at_UploaderID a = u \<and> at_MessageID a = None) (update_where p f t))
      \<le> length (filter (\<lambda>a. at_UploaderID a = u \<and> at_MessageID a = None) t)" for u t
    by (induction t) (auto simp: update_where_def assms(2) dest: assms(3))
  then show ?thesis
    unfolding uploads_kept_def tracked_def unused_attachments_def assms(4,5)
    by (simp add: keys_update_where assms(1) le_max_iff_disj)
qed

lemma CreateMessage_uploads:
  assumes "CreateMessage gen now db u i content r ids = (res, db')"
  shows "uploads_kept db db'"
proof -
  have "uploads_kept db d" if "Store_CreateMessage db msg = (x, d)" for msg x d
    using that
    by (cases rule: Store_CreateMessage_cases)
      (auto intro: updated_uploads [where f = "\<lambda>a. a\<lparr>at_MessageID := Some (m_ID msg)\<rparr>"])
  then show ?thesis
    using assms unfolding CreateMessage_def runs by auto
qed

lemma UpdateMessage_uploads: "UpdateMessage now db u c i content = (res, db') \<Longrightarrow> uploads_kept db db'"
  unfolding UpdateMessage_def Store_UpdateMessage_def runs Let_def
  by (auto intro: uploads_kept_cong split: option.split_asm if_split_asm)

lemma DeleteMessage_uploads: "DeleteMessage db u c i = (res, db') \<Longrightarrow> uploads_kept db db'"
  unfolding DeleteMessage_def Store_DeleteMessage_def runs Let_def
  by (auto simp: uploads split: sum.split_asm if_split_asm)

lemma AddMessageReaction_uploads: "AddMessageReaction So now db u c i emoji = (res, db') \<Longrightarrow> uploads_kept db db'"
  unfolding AddMessageReaction_def Store_AddMessageReaction_def changeMessageReaction_def runs Let_def
  by (auto intro: uploads_kept_cong split: option.split_asm if_split_asm)

lemma RemoveMessageReaction_uploads: "RemoveMessageReaction So db u c i emoji = (res, db') \<Longrightarrow> uploads_kept db db'"
  unfolding RemoveMessageReaction_def Store_RemoveMessageReaction_def changeMessageReaction_def runs Let_def
  by (auto intro: uploads_kept_cong)

lemma UpdateReadState_uploads: "UpdateReadState now db u c m = (res, db') \<Longrightarrow> uploads_kept db db'"
  unfolding UpdateReadState_def Store_UpdateReadState_def Let_def
  by (auto intro: uploads_kept_cong split: option.split_asm if_split_asm)

lemma Store_CreateAttachment_uploads:
  assumes "Store_CreateAttachment db a maxUnusedAttachments = (res, db')"
  shows "uploads_kept db db'"
proof (cases "db' = db")
  case False
  then show ?thesis
    using assms unfolding Store_CreateAttachment_def Let_def uploads_kept_def
    by (auto simp: tracked_def unused_attachments_def split: if_split_asm)
qed simp

lemma CreateAttachmentIntent_uploads:
  "CreateAttachmentIntent us pm st gen now db u c input = (res, db') \<Longrightarrow> uploads_kept db db'"
  unfolding CreateAttachmentIntent_def
  by (auto intro: Store_CreateAttachment_uploads split: option.split_asm sum.split_asm prod.split_asm if_split_asm)

lemma FinalizeAttachment_uploads:
  "FinalizeAttachment pm ef st db u i = (res, db') \<Longrightarrow> uploads_kept db db'"
  unfolding FinalizeAttachment_def MarkAttachmentReady_def
  by (auto intro: updated_uploads [where f = "\<lambda>a. a\<lparr>at_Status := AttachmentReady\<rparr>"]
      split: option.split_asm sum.split_asm prod.split_asm if_split_asm)

lemma DeleteAttachment_uploads: "DeleteAttachment db u i = (res, db') \<Longrightarrow> uploads_kept db db'"
  unfolding DeleteAttachment_def Store_DeleteAttachment_def Let_def
  by (auto simp: uploads split: if_split_asm sum.split_asm)

lemmas uploads_rules =
  DeleteGuild_uploads CreateChannel_uploads UpdateChannel_uploads DeleteChannel_uploads CreateThread_uploads
  OpenDirectChannel_uploads CreateMessage_uploads UpdateMessage_uploads DeleteMessage_uploads AddMessageReaction_uploads
  RemoveMessageReaction_uploads UpdateReadState_uploads CreateAttachmentIntent_uploads FinalizeAttachment_uploads
  DeleteAttachment_uploads

subsection \<open>What a storage promises\<close>

lemma sweep_keys_attachments: "sweep_keys media ks (db, s) = (db', s') \<Longrightarrow> attachments db' = attachments db"
  by (induction ks arbitrary: db s) (auto simp: CompleteStorageDeletion_def split: prod.split_asm option.split_asm)

text \<open>
  Deleting an object leaves the others alone and never brings one back; a deletion that reports
  success has removed the object.
\<close>

locale object_store =
  fixes media :: "'s Storage"
  assumes delete_gone: "Delete media s k = (None, s') \<Longrightarrow> Stat media s' k = Inl ErrObjectNotFound"
    and delete_other: "Delete media s k = (e, s') \<Longrightarrow> k' \<noteq> k \<Longrightarrow> Stat media s' k' = Stat media s k'"
    and delete_absent: "Delete media s k = (e, s') \<Longrightarrow> Stat media s k = Inl ErrObjectNotFound \<Longrightarrow> Stat media s' k = Inl ErrObjectNotFound"
begin

lemma delete_keeps_absent:
  "Delete media s k = (e, s') \<Longrightarrow> Stat media s k' = Inl ErrObjectNotFound \<Longrightarrow> Stat media s' k' = Inl ErrObjectNotFound"
  by (cases "k' = k") (auto simp: delete_absent delete_other)

lemma sweep_keys_absent:
  "sweep_keys media ks (db, s) = (db', s') \<Longrightarrow> Stat media s k = Inl ErrObjectNotFound \<Longrightarrow> Stat media s' k = Inl ErrObjectNotFound"
proof (induction ks arbitrary: db s)
  case (Cons a ks)
  then show ?case
    using delete_keeps_absent by (auto split: prod.split_asm option.split_asm)
qed simp

lemma sweep_keys_tracked:
  "sweep_keys media ks (db, s) = (db', s') \<Longrightarrow> k \<in> tracked db \<Longrightarrow> k \<in> tracked db' \<or> Stat media s' k = Inl ErrObjectNotFound"
proof (induction ks arbitrary: db s)
  case (Cons a ks)
  obtain e s1 where del: "Delete media s a = (e, s1)" by fastforce
  show ?case
  proof (cases e)
    case None
    then have run: "sweep_keys media ks (CompleteStorageDeletion db a, s1) = (db', s')"
      using Cons.prems del by simp
    show ?thesis
    proof (cases "k = a")
      case True
      with sweep_keys_absent [OF run] delete_gone del None show ?thesis by blast
    next
      case False
      then have "k \<in> tracked (CompleteStorageDeletion db a)"
        using Cons.prems(2) by (auto simp: tracked_def CompleteStorageDeletion_def set_delete_where)
      with Cons.IH [OF run] show ?thesis by blast
    qed
  qed (use Cons del in auto)
qed simp

lemma sweep_keys_other:
  "sweep_keys media ks (db, s) = (db', s') \<Longrightarrow> k \<notin> set ks \<Longrightarrow> Stat media s' k = Stat media s k"
proof (induction ks arbitrary: db s)
  case (Cons a ks)
  then show ?case
    using delete_other by (auto split: prod.split_asm option.split_asm)
qed simp

lemma Sweep_tracked:
  assumes "Sweep media now (db, s) = (db', s')" and "k \<in> tracked db"
  shows "k \<in> tracked db' \<or> Stat media s' k = Inl ErrObjectNotFound"
proof -
  let ?db1 = "drop_attachments (expired (now - pendingUploadLifetime) (now - unusedUploadLifetime)) db"
  have "sweep_keys media (PendingStorageDeletions ?db1 deletionBatchSize) (?db1, s) = (db', s')"
    using assms(1) by (simp add: Sweep_def ExpireAttachments_def Let_def)
  moreover have "k \<in> tracked ?db1"
    using drop_attachments_uploads assms(2) by (auto simp: uploads_kept_def)
  ultimately show ?thesis by (rule sweep_keys_tracked)
qed

text \<open>The object of an upload that stays is not touched.\<close>

lemma Sweep_live:
  assumes run: "Sweep media now (db, s) = (db', s')" and keys: "distinct (map at_ObjectKey (attachments db))"
    and live: "a \<in> set (attachments db')" and new: "at_ObjectKey a \<notin> keys fst (storage_deletions db)"
  shows "Stat media s' (at_ObjectKey a) = Stat media s (at_ObjectKey a)"
proof -
  let ?p = "expired (now - pendingUploadLifetime) (now - unusedUploadLifetime)"
  let ?db1 = "drop_attachments ?p db"
  have run': "sweep_keys media (PendingStorageDeletions ?db1 deletionBatchSize) (?db1, s) = (db', s')"
    using run by (simp add: Sweep_def ExpireAttachments_def Let_def)
  have "a \<in> set (attachments db)" "\<not> ?p a"
    using live sweep_keys_attachments [OF run'] by (auto simp: drop_attachments_def set_delete_where)
  then have "at_ObjectKey a \<notin> set (map at_ObjectKey (filter ?p (attachments db)))"
    using distinct_key_eq [OF keys] by auto
  then have "at_ObjectKey a \<notin> keys fst (storage_deletions ?db1)"
    using new by (simp add: drop_attachments_def keys_enqueue)
  then have "at_ObjectKey a \<notin> set (PendingStorageDeletions ?db1 deletionBatchSize)"
    unfolding PendingStorageDeletions_def set_map using set_take_subset by fastforce
  with sweep_keys_other [OF run'] show ?thesis .
qed

end

text \<open>\<open>MemoryStorage\<close>.\<close>

lemma Memory_Stat_absent: "Memory_Stat sha m k = Inl ErrObjectNotFound \<longleftrightarrow> ms_objects m k = None"
  by (simp add: Memory_Stat_def split: option.split)

interpretation memory: object_store "MemoryStorage_methods sha256" for sha256
  by unfold_locales (auto simp: MemoryStorage_methods_def Memory_Delete_def Memory_Stat_def)

lemma memory_absent [simp]:
  "Stat (MemoryStorage_methods sha) m k = Inl ErrObjectNotFound \<longleftrightarrow> ms_objects m k = None"
  by (simp add: MemoryStorage_methods_def Memory_Stat_absent)

subsection \<open>Steps of a run\<close>

text \<open>Every step but a sweep keeps the keys and the counts; a sweep keeps the counts.\<close>

lemma Sweep_unused:
  assumes "Sweep media now (db, s) = (db', s')"
  shows "length (unused_attachments db' u) \<le> max maxUnusedAttachments (length (unused_attachments db u))"
proof -
  let ?db1 = "drop_attachments (expired (now - pendingUploadLifetime) (now - unusedUploadLifetime)) db"
  have "sweep_keys media (PendingStorageDeletions ?db1 deletionBatchSize) (?db1, s) = (db', s')"
    using assms by (simp add: Sweep_def ExpireAttachments_def Let_def)
  then have "unused_attachments db' u = unused_attachments ?db1 u"
    unfolding unused_attachments_def by (simp add: sweep_keys_attachments)
  with drop_attachments_uploads show ?thesis
    by (simp add: uploads_kept_def)
qed

lemma chat_step_uploads:
  assumes "chat_step media s s'" and "chat_inv (fst s)"
  shows "uploads_kept (fst s) (fst s') \<or> (\<exists>now. Sweep media now s = s')"
  using assms
proof (induction rule: chat_step.induct)
  case (accept_invite t now db u code r db' objs)
  then show ?case
    using AcceptInvite_same text_same_uploads by (fastforce simp: chat_inv_def)
qed (simp_all, (blast dest: uploads_rules | blast intro: text_same_uploads dest: same_rules | simp add: uploads_kept_cong)+)

lemma chat_step_unused:
  assumes "chat_step media s s'" and "chat_inv (fst s)"
  shows "length (unused_attachments (fst s') u) \<le> max maxUnusedAttachments (length (unused_attachments (fst s) u))"
  using chat_step_uploads [OF assms]
proof
  assume "\<exists>now. Sweep media now s = s'"
  then obtain now where "Sweep media now (fst s, snd s) = (fst s', snd s')" by auto
  then show ?thesis by (rule Sweep_unused)
qed (simp add: uploads_kept_def)

lemma chat_run_unused: "chat_run media s \<Longrightarrow> length (unused_attachments (fst s) u) \<le> maxUnusedAttachments"
proof (induction rule: chat_run.induct)
  case (step s s')
  with chat_step_unused [OF step(2) chat_run_inv [OF step(1)], of u] show ?case by simp
qed (simp add: unused_attachments_def empty_db_def)

subsection \<open>A storage that never fails\<close>

lemma filter_not_taken:
  assumes "distinct (map fst xs)"
  shows "filter (\<lambda>x. fst x \<notin> fst ` set (take n xs)) xs = drop n xs"
proof -
  have "distinct (map fst (take n xs @ drop n xs))"
    using assms by simp
  then have "fst x \<notin> fst ` set (take n xs)" if "x \<in> set (drop n xs)" for x
    using that unfolding map_append distinct_append by auto
  then have "filter (\<lambda>x. fst x \<notin> fst ` set (take n xs)) (drop n xs) = drop n xs"
    by (intro filter_True) simp
  moreover have "filter (\<lambda>x. fst x \<notin> fst ` set (take n xs)) (take n xs) = []"
    by (auto simp: filter_empty_conv)
  ultimately show ?thesis
    by (metis append_Nil append_take_drop_id filter_append)
qed

lemma pending_rest:
  assumes "distinct (map fst (storage_deletions db))"
  shows "length (delete_where (\<lambda>(k, _). k \<in> set (PendingStorageDeletions db n)) (storage_deletions db))
    = length (storage_deletions db) - n"
proof -
  let ?q = "storage_deletions db" and ?f = "\<lambda>(k, t). (t, k)"
  let ?xs = "sort_key ?f ?q"
  have m: "mset ?xs = mset ?q" by simp
  then have "mset (map fst ?xs) = mset (map fst ?q)" by (simp only: mset_map)
  with assms have d: "distinct (map fst ?xs)" using mset_eq_imp_distinct_iff by blast
  have "length (filter P ?q) = length (filter P ?xs)" for P
    using m by (metis mset_filter size_mset)
  then have "length (delete_where (\<lambda>(k, _). k \<in> set (PendingStorageDeletions db n)) ?q)
      = length (filter (\<lambda>x. fst x \<notin> fst ` set (take n ?xs)) ?xs)"
    by (simp add: delete_where_def PendingStorageDeletions_def case_prod_beta)
  also have "\<dots> = length ?q - n"
    unfolding filter_not_taken [OF d] by simp
  finally show ?thesis .
qed

text \<open>The queue has each key once, and no key of an upload that is still there.\<close>

definition queue_ok :: "chat_db \<Rightarrow> bool" where
  "queue_ok db \<longleftrightarrow> distinct (map fst (storage_deletions db)) \<and> distinct (map at_ObjectKey (attachments db))
     \<and> keys at_ObjectKey (attachments db) \<inter> keys fst (storage_deletions db) = {}"

lemma enqueue_distinct: "distinct (map fst q) \<Longrightarrow> distinct (map fst (enqueue_deletions t ks q))"
  by (induction ks arbitrary: q) (auto simp: enqueue_deletions_def)

lemma enqueue_length: "length (enqueue_deletions t ks q) \<le> length q + length ks"
proof (induction ks arbitrary: q)
  case (Cons k ks)
  from Cons [of q] Cons [of "q @ [(k, t)]"] show ?case
    by (simp add: enqueue_deletions_def)
qed (simp add: enqueue_deletions_def)

lemma drop_attachments_queue_ok:
  assumes "queue_ok db"
  shows "queue_ok (drop_attachments p db)"
  using assms distinct_key_eq [of at_ObjectKey "attachments db"] unfolding queue_ok_def drop_attachments_def
  by (auto simp: enqueue_distinct keys_enqueue set_delete_where distinct_map_delete_where)

definition sweep_work :: "chat_db \<Rightarrow> nat" where
  "sweep_work db = length (storage_deletions db) + length (attachments db)"

lemma drop_attachments_work: "sweep_work (drop_attachments p db) \<le> sweep_work db"
proof -
  have "length (filter p t) + length (delete_where p t) = length t" for t :: "Attachment list"
    by (simp add: delete_where_def sum_length_filter_compl)
  then show ?thesis
    using enqueue_length [of "clock db" "map at_ObjectKey (filter p (attachments db))" "storage_deletions db"]
    by (simp add: sweep_work_def drop_attachments_def) (metis add.assoc add_le_mono1)
qed

locale reliable_store = object_store media for media :: "'s Storage" +
  assumes delete_succeeds: "fst (Delete media s k) = None"
begin

lemma sweep_keys_all:
  assumes "sweep_keys media ks (db, s) = (db', s')"
  shows "storage_deletions db' = delete_where (\<lambda>(k, _). k \<in> set ks) (storage_deletions db)"
    and "\<forall>k\<in>set ks. Stat media s' k = Inl ErrObjectNotFound"
proof -
  have "storage_deletions db' = delete_where (\<lambda>(k, _). k \<in> set ks) (storage_deletions db)
      \<and> (\<forall>k\<in>set ks. Stat media s' k = Inl ErrObjectNotFound)"
    using assms
  proof (induction ks arbitrary: db s)
    case (Cons a ks)
    obtain s1 where s1: "Delete media s a = (None, s1)"
      using delete_succeeds [of s a] by (metis prod.collapse)
    with Cons.prems have run: "sweep_keys media ks (CompleteStorageDeletion db a, s1) = (db', s')"
      by simp
    from Cons.IH [OF run] sweep_keys_absent [OF run delete_gone [OF s1]] show ?case
      by (auto simp: CompleteStorageDeletion_def delete_where_def intro!: filter_cong)
  qed (simp add: delete_where_def)
  then show "storage_deletions db' = delete_where (\<lambda>(k, _). k \<in> set ks) (storage_deletions db)"
    and "\<forall>k\<in>set ks. Stat media s' k = Inl ErrObjectNotFound" by auto
qed

lemma Sweep_progress:
  assumes run: "Sweep media now (db, s) = (db', s')" and ok: "queue_ok db"
  shows "queue_ok db'" and "storage_deletions db' = [] \<or> sweep_work db' + deletionBatchSize \<le> sweep_work db"
    and "\<And>k. k \<in> keys fst (storage_deletions db) \<Longrightarrow> k \<in> keys fst (storage_deletions db') \<or> Stat media s' k = Inl ErrObjectNotFound \<and> k \<notin> tracked db'"
proof -
  let ?db1 = "drop_attachments (expired (now - pendingUploadLifetime) (now - unusedUploadLifetime)) db"
  let ?ks = "PendingStorageDeletions ?db1 deletionBatchSize"
  have run': "sweep_keys media ?ks (?db1, s) = (db', s')"
    using run by (simp add: Sweep_def ExpireAttachments_def Let_def)
  note all = sweep_keys_all [OF run'] and att = sweep_keys_attachments [OF run']
  have ok1: "queue_ok ?db1" by (rule drop_attachments_queue_ok [OF ok])
  then show "queue_ok db'"
    unfolding queue_ok_def all att by (auto simp: set_delete_where distinct_map_delete_where)
  have "length (storage_deletions db') = length (storage_deletions ?db1) - deletionBatchSize"
    unfolding all using ok1 by (intro pending_rest) (simp add: queue_ok_def)
  then show "storage_deletions db' = [] \<or> sweep_work db' + deletionBatchSize \<le> sweep_work db"
    using drop_attachments_work [of "expired (now - pendingUploadLifetime) (now - unusedUploadLifetime)" db] att
    by (cases "length (storage_deletions ?db1) \<le> deletionBatchSize") (simp_all add: sweep_work_def)
  show "k \<in> keys fst (storage_deletions db') \<or> Stat media s' k = Inl ErrObjectNotFound \<and> k \<notin> tracked db'"
    if k: "k \<in> keys fst (storage_deletions db)" for k
  proof (cases "k \<in> set ?ks")
    case True
    have "k \<in> keys fst (storage_deletions ?db1)"
      using k by (simp add: drop_attachments_def keys_enqueue)
    then have "k \<notin> keys at_ObjectKey (attachments ?db1)"
      using ok1 unfolding queue_ok_def by blast
    with True all show ?thesis
      unfolding tracked_def att by (auto simp: set_delete_where)
  next
    case False
    have "k \<in> keys fst (storage_deletions ?db1)"
      using k by (simp add: drop_attachments_def keys_enqueue)
    with False all(1) show ?thesis
      by (force simp: set_delete_where)
  qed
qed

lemma Sweep_absent:
  assumes "Sweep media now (db, s) = (db', s')" and "Stat media s k = Inl ErrObjectNotFound" and "k \<notin> tracked db"
  shows "Stat media s' k = Inl ErrObjectNotFound" and "k \<notin> tracked db'"
proof -
  let ?db1 = "drop_attachments (expired (now - pendingUploadLifetime) (now - unusedUploadLifetime)) db"
  have run: "sweep_keys media (PendingStorageDeletions ?db1 deletionBatchSize) (?db1, s) = (db', s')"
    using assms(1) by (simp add: Sweep_def ExpireAttachments_def Let_def)
  show "Stat media s' k = Inl ErrObjectNotFound" by (rule sweep_keys_absent [OF run assms(2)])
  have "k \<notin> tracked ?db1"
    using assms(3) by (auto simp: tracked_def drop_attachments_def keys_enqueue set_delete_where)
  then show "k \<notin> tracked db'"
    using sweep_keys_all(1) [OF run] sweep_keys_attachments [OF run] by (auto simp: tracked_def set_delete_where)
qed

lemma Run_absent:
  "Run media ticks (db, s) = (db', s') \<Longrightarrow> Stat media s k = Inl ErrObjectNotFound \<Longrightarrow> k \<notin> tracked db
    \<Longrightarrow> Stat media s' k = Inl ErrObjectNotFound \<and> k \<notin> tracked db'"
proof (induction ticks arbitrary: db s)
  case (Cons now ticks)
  obtain db1 s1 where "Sweep media now (db, s) = (db1, s1)" by fastforce
  with Cons Sweep_absent show ?case by (metis Run.simps(2))
qed simp

text \<open>Enough sweeps remove every object that was queued, whatever expires in between.\<close>

lemma Run_drains:
  assumes "Run media ticks (db, s) = (db', s')" and "queue_ok db" and "sweep_work db \<le> deletionBatchSize * length ticks"
    and "k \<in> keys fst (storage_deletions db)"
  shows "Stat media s' k = Inl ErrObjectNotFound \<and> k \<notin> tracked db'"
  using assms
proof (induction ticks arbitrary: db s)
  case Nil
  then show ?case by (simp add: sweep_work_def)
next
  case (Cons now ticks)
  obtain db1 s1 where sweep: "Sweep media now (db, s) = (db1, s1)" by fastforce
  with Cons.prems have run: "Run media ticks (db1, s1) = (db', s')" by simp
  note p = Sweep_progress [OF sweep Cons.prems(2)]
  show ?case
  proof (cases "k \<in> keys fst (storage_deletions db1)")
    case True
    then have "sweep_work db1 + deletionBatchSize \<le> sweep_work db" using p(2) by auto
    then have "sweep_work db1 \<le> deletionBatchSize * length ticks" using Cons.prems(3) by simp
    from Cons.IH [OF run p(1) this True] show ?thesis .
  next
    case False
    with p(3) [OF Cons.prems(4)] Run_absent [OF run] show ?thesis by blast
  qed
qed

end

interpretation memory_reliable: reliable_store "MemoryStorage_methods sha256" for sha256
  by unfold_locales (simp add: MemoryStorage_methods_def Memory_Delete_def)

end
