(* ===== verification/Guild_Claims.thy ===== *)
theory Guild_Claims
  imports Guilds
begin

section \<open>Properties of guilds, roles, members and invites\<close>

text \<open>
  The properties of the guild components, each over the operations of the code, with a witness
  on \<open>demo_db\<close>: a guild of an owner, a moderator who manages roles and members, and a member
  with a lower role, with one invite left.
\<close>

subsection \<open>A concrete database\<close>

abbreviation demo_user :: "uuid \<Rightarrow> string \<Rightarrow> UserSummary" where
  "demo_user i n \<equiv> \<lparr>us_ID = i, us_DisplayName = n, us_AvatarURL = None\<rparr>"

abbreviation demo_role :: "uuid \<Rightarrow> string \<Rightarrow> 32 word \<Rightarrow> int \<Rightarrow> bool \<Rightarrow> role_row" where
  "demo_role i n p pos d \<equiv> \<lparr>rr_id = i, rr_guild = 100, rr_name = n, rr_color = None, rr_permissions = p,
     rr_position = pos, rr_managed = d, rr_default = d, rr_created = 0\<rparr>"

abbreviation demo_member :: "uuid \<Rightarrow> member_row" where
  "demo_member u \<equiv> \<lparr>gm_guild = 100, gm_user = u, gm_joined = 5, gm_nickname = None\<rparr>"

definition demo_invite :: invite_row where
  "demo_invite = \<lparr>ir_id = 300, ir_guild = 100, ir_inviter = 1, ir_code = ''abcdefghijklmnop'',
     ir_max_uses = Some 1, ir_uses = 0, ir_expires = Some 1000, ir_revoked = None, ir_created = 0\<rparr>"

definition demo_db :: chat_db where
  "demo_db = empty_db\<lparr>
     users := [demo_user 1 ''ann'', demo_user 2 ''bob'', demo_user 3 ''cy'', demo_user 4 ''dan''],
     guilds := [\<lparr>g_ID = 100, g_OwnerID = 1, g_Name = ''den'', g_Description = None, g_IconURL = None, g_CreatedAt = 0\<rparr>],
     members := [demo_member 1, demo_member 2, demo_member 3],
     roles := [demo_role 200 ''@everyone'' 1795 0 True, demo_role 202 ''helpers'' 3 2 False,
               demo_role 201 ''mods'' 2047 5 False],
     member_roles := [(100, 2, 201), (100, 3, 202)],
     invites := [demo_invite]\<rparr>"

named_theorems demo \<open>evaluation of the operations on the concrete database\<close>

lemma demo_fields [demo]:
  "users demo_db = [demo_user 1 ''ann'', demo_user 2 ''bob'', demo_user 3 ''cy'', demo_user 4 ''dan'']"
  "guilds demo_db = [\<lparr>g_ID = 100, g_OwnerID = 1, g_Name = ''den'', g_Description = None, g_IconURL = None, g_CreatedAt = 0\<rparr>]"
  "members demo_db = [demo_member 1, demo_member 2, demo_member 3]"
  "roles demo_db = [demo_role 200 ''@everyone'' 1795 0 True, demo_role 202 ''helpers'' 3 2 False, demo_role 201 ''mods'' 2047 5 False]"
  "member_roles demo_db = [(100, 2, 201), (100, 3, 202)]"
  "invites demo_db = [demo_invite]"
  "channels demo_db = []" "dm_participants demo_db = []" "messages demo_db = []" "reactions demo_db = []"
  "read_states demo_db = []" "attachments demo_db = []" "storage_deletions demo_db = []" "clock demo_db = 0"
  by (simp_all add: demo_db_def empty_db_def)

lemma literal_ok [demo]:
  "char_length_between m n [] \<longleftrightarrow> m = 0"
  "(of_char c :: nat) < 128 \<Longrightarrow> char_length_between m n (c # s) \<longleftrightarrow> m \<le> Suc (length (runes s)) \<and> Suc (length (runes s)) \<le> n"
  "pg_text []"
  "(of_char c :: nat) < 128 \<Longrightarrow> c \<noteq> CHR 0x00 \<Longrightarrow> pg_text (c # s) \<longleftrightarrow> pg_text s"
  by (auto simp: char_length_between_def utf8_RuneCountInString_def pg_text_def utf8_ValidString_def rune_error_def)

lemma from_int32_demo [demo]:
  "from_int32 1795 = 1795" "from_int32 2047 = 2047" "from_int32 3 = 3" "from_int32 7 = 7" "to_int32 7 = 7"
  by (simp_all add: from_int32_def to_int32_def)

lemma known_demo [demo]:
  "known_permissions 1795" "known_permissions 2047" "known_permissions 3" "known_permissions 7"
  by (rule known_permissions_and_not [THEN iffD1], simp add: AllPermissions_def)+

lemma demo_inv: "guild_inv demo_db"
  unfolding guild_inv_def guild_schema_def
proof (intro conjI)
  show "guild_keys demo_db" "guild_refs demo_db" "owners_are_members demo_db"
    by (simp_all add: guild_keys_def guild_refs_def owners_are_members_def is_member_def demo demo_invite_def role_key_def)
  show "guild_checks demo_db"
    by (simp add: guild_checks_def demo guild_row_ok_def member_row_ok_def role_row_ok_def invite_row_ok_def
        demo_invite_def int4_def validInviteCode_def is_code_char_def between_def)
  show "roles_inv demo_db"
    by (simp add: roles_inv_def default_roles_def demo)
qed

lemma demo_access [demo]:
  "GetAccess demo_db 100 1 = Inr ownerAccess"
  "GetAccess demo_db 100 2 = Inr \<lparr>a_Owner = False, a_Permissions = 2047, a_TopPosition = 5\<rparr>"
  "GetAccess demo_db 100 3 = Inr \<lparr>a_Owner = False, a_Permissions = 1795, a_TopPosition = 2\<rparr>"
  by (simp_all add: GetAccess_def demo roles_of_def max_or_def)

lemma demo_top [demo]:
  "top_position demo_db 100 1 = 0" "top_position demo_db 100 2 = 5" "top_position demo_db 100 3 = 2"
  by (simp_all add: top_position_def roles_of_def demo max_or_def)

lemma demo_owner [demo]: "is_owner demo_db 100 u \<longleftrightarrow> u = 1"
  by (auto simp: is_owner_def demo)

lemma demo_is_member [demo]: "is_member demo_db g u \<longleftrightarrow> g = 100 \<and> u \<in> {1, 2, 3}"
  by (auto simp: is_member_def demo)

lemma demo_roles [demo]:
  "Store_ListRoles demo_db 100 = Inr (map scanRole (roles demo_db))"
  by (simp add: Store_ListRoles_def demo)

text \<open>The moderator renames the lower role and moves it up by one.\<close>

abbreviation demo_patch :: UpdateRoleInput where
  "demo_patch \<equiv> \<lparr>uri_Name = Some ''aides'', uri_Color = \<lparr>opt_Set = False, opt_Value = None\<rparr>,
     uri_Permissions = Some 7, uri_Position = Some 3\<rparr>"

definition demo_updated :: chat_db where
  "demo_updated = demo_db\<lparr>roles := [demo_role 200 ''@everyone'' 1795 0 True, demo_role 202 ''aides'' 7 3 False,
     demo_role 201 ''mods'' 2047 5 False]\<rparr>"

lemma demo_name [demo]: "validateName f ''aides'' = Inr ''aides''"
  by (simp add: validateName_def strings_TrimSpace_def trim_runes_def unicode_IsSpace_def utf8_RuneCountInString_def Let_def)

lemma demo_update: "UpdateRole demo_db 2 100 202 demo_patch
    = (Inr (scanRole (demo_role 202 ''aides'' 7 3 False)), demo_updated)"
  by (simp add: UpdateRole_def require_def demo Has_def Outranks_def findRole_def perm_defs patch_name_def
      patch_color_def patch_permissions_def patch_position_def Store_UpdateRole_def role_key_def scanRole_def
      set_role_def role_row_ok_def int4_def update_where_def demo_updated_def
      validatePermissions_Inr [of 7 7, THEN iffD2])

subsection \<open>The hierarchy of ranks\<close>

text \<open>
  C1. Whatever sequence of role and member requests (\<open>CreateRole\<close>, \<open>UpdateRole\<close>, \<open>DeleteRole\<close>,
  \<open>UpdateMember\<close>) the members of a set \<open>S\<close> make, none of them the owner and all at rank \<open>t\<close> or
  below: a member above \<open>t\<close> keeps its rank, and nobody at \<open>t\<close> or below, the callers included,
  rises above \<open>t\<close>.
\<close>

theorem rank_hierarchy:
  assumes "role_steps S g db db'" and "guild_inv db"
    and "\<And>v. v \<in> S \<Longrightarrow> \<not> is_owner db g v \<and> top_position db g v \<le> t"
  shows "if t < top_position db g u then top_position db' g u = top_position db g u else top_position db' g u \<le> t"
  using role_steps_kept [OF assms(1,2), of t] assms(3) by blast

theorem rank_hierarchy_witness:
  "top_position demo_updated 100 2 \<le> 5 \<and> demo_updated \<noteq> demo_db"
proof
  have "role_steps {2} 100 demo_db demo_updated"
    using role_step.update [OF demo_update] by (intro role_steps.more [OF role_steps.none, of 2]) simp_all
  from rank_hierarchy [OF this demo_inv, of 5 2] show "top_position demo_updated 100 2 \<le> 5"
    by (simp add: demo)
  show "demo_updated \<noteq> demo_db"
  proof
    assume "demo_updated = demo_db"
    then have "roles demo_updated = roles demo_db" by simp
    then show False by (simp add: demo_updated_def demo)
  qed
qed

text \<open>
  C35. A caller who is not the owner changes, by updating a role, only permission bits it holds
  itself: whatever bit of whatever member's effective permissions differs after \<open>UpdateRole\<close>, the
  caller had it.
\<close>

theorem UpdateRole_grants_only_held:
  assumes "guild_inv db" and "UpdateRole db v g i input = (res, db')" and "\<not> is_owner db g v"
    and "bit (member_permissions db g u) n \<noteq> bit (member_permissions db' g u) n"
  shows "bit (member_permissions db g v) n"
proof (cases "GetAccess db g v")
  case (Inl err)
  then have "db' = db"
    using assms(2) by (auto simp: UpdateRole_def require_def split: if_splits)
  with assms(4) show ?thesis by simp
next
  case (Inr a)
  then show ?thesis
    using UpdateRole_changes_held_permissions [OF assms(1,2) Inr assms(3,4)] plain_access(4) [OF assms(1) Inr assms(3)]
    by simp
qed

theorem UpdateRole_grants_only_held_witness: "bit (member_permissions demo_db 100 2) 2"
proof (rule UpdateRole_grants_only_held [OF demo_inv demo_update])
  show "\<not> is_owner demo_db 100 2"
    by (simp add: demo)
  show "bit (member_permissions demo_db 100 3) 2 \<noteq> bit (member_permissions demo_updated 100 3) 2"
    unfolding bit_member_permissions by (simp add: demo_updated_def roles_of_def demo bit_numeral_rec)
qed

text \<open>
  A role that \<open>CreateRole\<close> returns carries only permissions its creator holds, changes the
  access of nobody, and stands at position 1 below its creator, or above every role of the guild
  when the owner created it.
\<close>

lemma CreateRole_no_escalation:
  assumes inv: "guild_inv db" and run: "CreateRole gen now db v g input = (Inr role, db')"
  shows "(\<forall>g' u. GetAccess db' g' u = GetAccess db g' u)
    \<and> (if is_owner db g v then \<forall>r\<in>set (roles db). rr_guild r = g \<longrightarrow> rr_position r < r_Position role
       else r_Position role = 1 \<and> 1 < top_position db g v
            \<and> (\<forall>n. bit (r_Permissions role) n \<longrightarrow> bit (member_permissions db g v) n))"
proof -
  obtain a row where row: "role = scanRole row" "GetAccess db g v = Inr a"
      "new_role_position db a g = Inr (rr_position row)" "Has a (from_int32 (rr_permissions row))"
    using CreateRole_ok [OF run] by blast
  have owner: "a_Owner a = is_owner db g v"
    using row(2) inv by (auto simp: guild_inv_def GetAccess_Inr ownerAccess_def split: if_splits)
  have "if is_owner db g v then \<forall>r\<in>set (roles db). rr_guild r = g \<longrightarrow> rr_position r < r_Position role
       else r_Position role = 1 \<and> 1 < top_position db g v
            \<and> (\<forall>n. bit (r_Permissions role) n \<longrightarrow> bit (member_permissions db g v) n)"
  proof (cases "is_owner db g v")
    case True
    then obtain rs where "Store_ListRoles db g = Inr rs" "rr_position row = r_Position (last rs) + 1"
      using row(3) owner by (auto simp: new_role_position_def returns)
    with True row(1) Store_ListRoles_last show ?thesis
      by fastforce
  next
    case False
    with row owner plain_access [OF inv row(2) False] show ?thesis
      by (auto simp: new_role_position_def Has_iff_bits split: if_splits)
  qed
  then show ?thesis
    using CreateRole_keeps_access [OF inv run] by blast
qed

theorem CreateRole_no_escalation_witness:
  "\<exists>role db'. CreateRole (Some 400) 9 demo_db 2 100 \<lparr>cri_Name = ''aides'', cri_Color = None, cri_Permissions = Some 7\<rparr> = (Inr role, db')
     \<and> GetAccess db' 100 3 = GetAccess demo_db 100 3 \<and> r_Position role = 1"
proof -
  let ?row = "\<lparr>rr_id = 400, rr_guild = 100, rr_name = ''aides'', rr_color = None, rr_permissions = 7,
     rr_position = 1, rr_managed = False, rr_default = False, rr_created = 9\<rparr>"
  have run: "CreateRole (Some 400) 9 demo_db 2 100 \<lparr>cri_Name = ''aides'', cri_Color = None, cri_Permissions = Some 7\<rparr>
      = (Inr (scanRole ?row), demo_db\<lparr>roles := roles demo_db @ [?row]\<rparr>)"
    by (simp add: CreateRole_def require_def demo Has_def perm_defs validateRoleColor_def new_role_position_def
        newUUIDv7_def Store_CreateRole_def role_row_ok_def int4_def Let_def
        validatePermissions_Inr [of 7 7, THEN iffD2])
  have "GetAccess (demo_db\<lparr>roles := roles demo_db @ [?row]\<rparr>) 100 3 = GetAccess demo_db 100 3"
    using CreateRole_no_escalation [OF demo_inv run] by blast
  then show ?thesis
    using run by (intro exI [of _ "scanRole ?row"] exI [of _ "demo_db\<lparr>roles := roles demo_db @ [?row]\<rparr>"]) simp
qed

text \<open>
  \<open>UpdateMember\<close> on another member leaves the tables alone unless the caller outranks that
  member: the target is not the owner, and the caller is the owner or stands strictly above it.
\<close>

lemma UpdateMember_needs_rank:
  assumes "guild_inv db" and "UpdateMember us t db v g u input = (res, db')" and "v \<noteq> u" and "db' \<noteq> db"
  shows "\<not> is_owner db g u \<and> (is_owner db g v \<or> top_position db g u < top_position db g v)"
  using UpdateMember_other_outranked [OF assms] by blast

abbreviation demo_clear_roles :: UpdateMemberInput where
  "demo_clear_roles \<equiv> \<lparr>umi_Nickname = \<lparr>opt_Set = False, opt_Value = None\<rparr>, umi_RoleIDs = Some []\<rparr>"

lemma demo_assign:
  "snd (UpdateMember us t demo_db 2 100 3 demo_clear_roles) = demo_db\<lparr>member_roles := [(100, 2, 201)]\<rparr>"
proof -
  have "Store_GetMember demo_db 2 100 3 = Inr (scanMember demo_db (demo_member 3) (demo_user 3 ''cy''))"
    by (simp add: Store_GetMember_def getMemberByID_def demo)
  moreover have "mb_RoleIDs (scanMember demo_db (demo_member 3) (demo_user 3 ''cy'')) = [202]"
    by (simp add: scanMember_def member_role_ids_def demo)
  moreover have "mb_GuildID (scanMember demo_db (demo_member 3) (demo_user 3 ''cy'')) = 100"
      "mb_User (scanMember demo_db (demo_member 3) (demo_user 3 ''cy'')) = demo_user 3 ''cy''"
    by (simp_all add: scanMember_def)
  ultimately show ?thesis
    by (simp add: UpdateMember_def demo check_nickname_change_def change_roles_def Has_def perm_defs Outranks_def
        checkOutranksMember_def assignRoles_def byID_Position_def SetMemberRoles_def clear_member_roles_def
        delete_where_def finish_member_update_def Let_def)
qed

theorem UpdateMember_needs_rank_witness: "\<not> is_owner demo_db 100 3"
proof -
  obtain res db' where run: "UpdateMember (\<lambda>_. []) Map.empty demo_db 2 100 3 demo_clear_roles = (res, db')"
    by (cases "UpdateMember (\<lambda>_. []) Map.empty demo_db 2 100 3 demo_clear_roles")
  then have "member_roles db' \<noteq> member_roles demo_db"
    using demo_assign [of "\<lambda>_. []" Map.empty] by (simp add: demo)
  then have "db' \<noteq> demo_db" by metis
  then show ?thesis
    using UpdateMember_needs_rank [OF demo_inv run] by simp
qed

text \<open>
  C36. When \<open>RemoveMember\<close> succeeds, the caller is another member, the target was a member and not
  the owner, the caller is the owner or holds \<open>MANAGE_MEMBERS\<close> and outranks the target; afterwards
  exactly that membership is gone, with its role assignments. Otherwise nothing changed.
\<close>

theorem RemoveMember_safe:
  assumes "guild_inv db" and "RemoveMember db v g u = (res, db')"
  shows "case res of Inl err \<Rightarrow> db' = db
    | Inr _ \<Rightarrow> v \<noteq> u \<and> is_member db g v \<and> is_member db g u \<and> \<not> is_owner db g u
        \<and> (is_owner db g v \<or> Has \<lparr>a_Owner = False, a_Permissions = member_permissions db g v, a_TopPosition = 0\<rparr> PermManageMembers
             \<and> top_position db g u < top_position db g v)
        \<and> (\<forall>g' u'. is_member db' g' u' \<longleftrightarrow> is_member db g' u' \<and> (g', u') \<noteq> (g, u))
        \<and> held_roles db' g u = {}"
proof (cases res)
  case (Inl err)
  with assms(2) RemoveMember_error show ?thesis by simp
next
  case (Inr x)
  with RemoveMember_ok [OF assms(1), of v g u x db'] assms(2) have *:
    "v \<noteq> u" "is_member db g v" "is_member db g u" "\<not> is_owner db g u"
    "is_owner db g v \<or> bit (member_permissions db g v) 6 \<and> top_position db g u < top_position db g v"
    "db' = drop_members (\<lambda>m. member_key m = (g, u)) db"
    by auto
  have "bit PermManageMembers n \<longleftrightarrow> n = 6" for n
    by (unfold PermManageMembers_def bit_push_bit_iff bit_1_iff) auto
  then have "bit p 6 \<longleftrightarrow> Has \<lparr>a_Owner = False, a_Permissions = p, a_TopPosition = 0\<rparr> PermManageMembers" for p
    by (auto simp: Has_iff_bits)
  moreover have "is_member db' g' u' \<longleftrightarrow> is_member db g' u' \<and> (g', u') \<noteq> (g, u)" for g' u'
    unfolding *(6) is_member_drop_members by (auto simp: is_member_def)
  moreover have "held_roles db' g u = {}"
    using *(3) unfolding *(6) held_roles_def
    by (auto simp: drop_members_def Let_def set_delete_where is_member_def image_iff)
  ultimately show ?thesis
    using Inr * by simp
qed

theorem RemoveMember_safe_witness: "\<not> is_member (snd (RemoveMember demo_db 2 100 3)) 100 3"
proof -
  have "RemoveMember demo_db 2 100 3 = (Inr (), drop_members (\<lambda>m. member_key m = (100, 3)) demo_db)"
    by (simp add: RemoveMember_def require_def demo Has_def perm_defs checkOutranksMember_def Outranks_def Store_RemoveMember_def)
  from RemoveMember_safe [OF demo_inv this] this show ?thesis
    by simp
qed

subsection \<open>Invites\<close>

text \<open>
  C37. The outcomes of \<open>AcceptInvite\<close>: an error changes nothing; an existing member gets its
  membership back and no use is counted; a new membership appears only through an invite that is
  not revoked, not expired and not used up, and counts exactly one use on that invite. In both
  good cases the user is a member afterwards.
\<close>

theorem AcceptInvite_outcomes:
  assumes inv: "guild_inv db" and run: "AcceptInvite t now db u code = (res, db')"
  shows "(\<exists>err. res = Inl err \<and> db' = db) \<or>
    (\<exists>i m joined. i \<in> set (invites db) \<and> ir_code i = code \<and> res = Inr (m, joined)
       \<and> is_member db' (ir_guild i) u \<and> joined = (\<not> is_member db (ir_guild i) u)
       \<and> db' = (if joined then accepted db i u now else db) \<and> (joined \<longrightarrow> invite_open now i))"
proof -
  have schema: "guild_schema db"
    using inv by (simp add: guild_inv_def)
  have acc: "is_member (accepted db i u now) (ir_guild i) u" for i
    by (simp add: accepted_def is_member_def)
  from AcceptInvite_run [OF run] show ?thesis
  proof (elim disjE exE conjE)
    fix r assume r: "Store_AcceptInvite db code u now = (r, db')"
      "res = map_sum (\<lambda>err. err) (map_prod (applyPresence t) (\<lambda>b. b)) r"
    from Store_AcceptInvite_cases [OF schema r(1)] show ?thesis
    proof (elim disjE exE conjE)
      fix i m assume *: "i \<in> set (invites db)" "ir_code i = code" "r = Inr (m, False)" "db' = db" "is_member db (ir_guild i) u"
      then show ?thesis
        using r(2) by (intro disjI2 exI [of _ i] exI [of _ "applyPresence t m"] exI [of _ False]) simp
    next
      fix i m assume *: "i \<in> set (invites db)" "ir_code i = code" "r = Inr (m, True)" "invite_open now i"
        "\<not> is_member db (ir_guild i) u" "db' = accepted db i u now"
      then show ?thesis
        using r(2) acc by (intro disjI2 exI [of _ i] exI [of _ "applyPresence t m"] exI [of _ True]) simp
    qed (use r(2) in simp)
  qed simp
qed

lemma demo_join:
  "AcceptInvite t 10 demo_db 4 ''abcdefghijklmnop'' =
     (Inr (applyPresence t \<lparr>mb_GuildID = 100, mb_User = demo_user 4 ''dan'', mb_Nickname = None, mb_RoleIDs = [],
        mb_JoinedAt = 10, mb_Presence = None\<rparr>, True), accepted demo_db demo_invite 4 10)"
proof -
  have 1: "Store_AcceptInvite demo_db ''abcdefghijklmnop'' 4 10 =
     (Inr (\<lparr>mb_GuildID = 100, mb_User = demo_user 4 ''dan'', mb_Nickname = None, mb_RoleIDs = [],
        mb_JoinedAt = 10, mb_Presence = None\<rparr>, True), accepted demo_db demo_invite 4 10)"
    by (simp add: Store_AcceptInvite_def demo demo_invite_def getMemberByID_def accepted_def invite_row_ok_def Let_def
        int4_def validInviteCode_def is_code_char_def between_def scanMember_def member_role_ids_def)
  have 2: "validInviteCode ''abcdefghijklmnop''"
    by (simp add: validInviteCode_def is_code_char_def between_def)
  show ?thesis
    by (simp only: AcceptInvite_def 1 2 not_True_eq_False if_False prod.case sum.case)
qed

theorem AcceptInvite_outcomes_witness:
  "is_member (snd (AcceptInvite Map.empty 10 demo_db 4 ''abcdefghijklmnop'')) 100 4 \<and> \<not> is_member demo_db 100 4"
proof -
  from AcceptInvite_outcomes [OF demo_inv demo_join [of Map.empty]] obtain i where
    "i \<in> set (invites demo_db)" "is_member (accepted demo_db demo_invite 4 10) (ir_guild i) 4"
    by blast
  then show ?thesis
    by (simp add: demo_join demo demo_invite_def)
qed

text \<open>
  Accepting again is harmless: after an acceptance that created a membership, any later
  attempt of the same user with the same code returns the membership, reports that nothing was
  created and leaves the tables as they are, even when the invite has expired or is used up.
\<close>

lemma AcceptInvite_retry:
  assumes inv: "guild_inv db" and run: "AcceptInvite t now db u code = (Inr (m, joined), db')"
  shows "\<exists>m'. AcceptInvite t' now' db' u code = (Inr (m', False), db')"
proof -
  have inv': "guild_inv db'"
    using AcceptInvite_guild_inv [OF inv run] .
  have valid: "validInviteCode code"
    using run by (auto simp: AcceptInvite_def split: if_splits)
  from AcceptInvite_outcomes [OF inv run] obtain i where
    i: "i \<in> set (invites db)" "ir_code i = code" "is_member db' (ir_guild i) u"
    and db': "db' = (if joined then accepted db i u now else db)" and op: "joined \<longrightarrow> invite_open now i"
    by auto
  obtain i0 where i0: "find_by ir_code (invites db) code = Some i0" "ir_revoked i0 = None"
    using AcceptInvite_run [OF run] unfolding Store_AcceptInvite_def by (auto split: option.splits if_splits)
  have keys: "guild_keys db" "distinct (map ir_code (invites db'))"
    using inv inv' by (simp_all add: guild_inv_def guild_schema_def guild_keys_def)
  have "i0 = i"
    using find_by_distinct [of ir_code "invites db" i] i(1,2) i0(1) keys(1) by (simp add: guild_keys_def)
  define j where "j = (if joined then i\<lparr>ir_uses := ir_uses i + 1\<rparr> else i)"
  have "j \<in> set (invites db')"
    using i(1) unfolding j_def db' accepted_def by (auto simp: set_update_where)
  moreover have "ir_code j = code" "ir_revoked j = None" "ir_guild j = ir_guild i"
    using i(2) i0(2) \<open>i0 = i\<close> by (simp_all add: j_def)
  ultimately have "find_by ir_code (invites db') code = Some j"
    using find_by_distinct [OF keys(2)] by metis
  moreover obtain m' where "getMemberByID db' (ir_guild i) u = Inr m'"
    using getMemberByID_member [of db' "ir_guild i" u] inv' i(3) by (auto simp: guild_inv_def)
  ultimately have "Store_AcceptInvite db' code u now' = (Inr (m', False), db')"
    using \<open>ir_revoked j = None\<close> \<open>ir_guild j = ir_guild i\<close> by (simp add: Store_AcceptInvite_def)
  then show ?thesis
    using valid by (simp add: AcceptInvite_def)
qed

theorem AcceptInvite_retry_witness:
  "\<exists>m. AcceptInvite Map.empty 5000 (accepted demo_db demo_invite 4 10) 4 ''abcdefghijklmnop''
     = (Inr (m, False), accepted demo_db demo_invite 4 10)"
  by (rule AcceptInvite_retry [OF demo_inv demo_join [of Map.empty]])

lemma distinct_member_rows:
  assumes "guild_schema db"
  shows "distinct (map member_page_key (member_rows db g))"
proof (rule distinct_map_pair)
  have "distinct (map gm_user (filter (\<lambda>m. gm_guild m = g) (members db)))"
    using assms by (auto simp: guild_schema_def guild_keys_def distinct_map inj_on_def)
  then show "distinct (map (\<lambda>m. us_ID (mb_User m)) (member_rows db g))"
    unfolding member_rows_def
    by (rule distinct_map_filter_key) (auto simp: scanMember_def dest: find_by_SomeD)
qed

lemma keys_member_rows:
  assumes "guild_schema db"
  shows "(\<lambda>m. us_ID (mb_User m)) ` set (member_rows db g) = {w. is_member db g w}"
proof -
  have "\<exists>u. find_by us_ID (users db) (gm_user m) = Some u" if "m \<in> set (members db)" for m
    using assms that find_by_None_iff [of us_ID "users db" "gm_user m"]
    by (cases "find_by us_ID (users db) (gm_user m)") (auto simp: guild_schema_def guild_refs_def)
  then show ?thesis
    by (force simp: member_rows_def set_map_filter scanMember_def is_member_def dest: find_by_SomeD)
qed

abbreviation member_cursor :: "Member \<Rightarrow> pageCursor" where
  "member_cursor m \<equiv> \<lparr>pc_Kind = cursorMembers, pc_Time = mb_JoinedAt m, pc_Position = 0, pc_ID = us_ID (mb_User m)\<rparr>"

text \<open>
  Following the cursors of \<open>ListMembers\<close> from the first page to the last returns every member
  of the guild exactly once, in the order of joining, each with its presence, for every page size
  from 1 to 100. The JSON codec of the cursors is any that reads back what it wrote for the
  cursors of these members.
\<close>

lemma ListMembers_complete:
  assumes "guild_inv db" and "is_member db g v" and "1 \<le> limit \<and> limit \<le> 100"
    and "\<forall>m\<in>set (member_rows db g). json_codes json (member_cursor m) \<and> cursor_ok (member_cursor m)"
  shows "walk (Suc (length (member_rows db g))) (\<lambda>c. ListMembers json t db v g c limit) []
      = Some (map (applyPresence t) (sort_key member_page_key (member_rows db g)))
    \<and> (\<lambda>m. us_ID (mb_User m)) ` set (member_rows db g) = {w. is_member db g w}"
proof
  have schema: "guild_schema db"
    using assms(1) by (simp add: guild_inv_def)
  show "walk (Suc (length (member_rows db g))) (\<lambda>c. ListMembers json t db v g c limit) []
      = Some (map (applyPresence t) (sort_key member_page_key (member_rows db g)))"
    using assms distinct_member_rows [OF schema]
    by (intro asc.walk_all [where kind = cursorMembers and cursor = member_cursor])
      (auto simp: ListMembers_def Store_ListMembers_def validateLimit_def decodeCursor_def [of _ "[]"])
  show "(\<lambda>m. us_ID (mb_User m)) ` set (member_rows db g) = {w. is_member db g w}"
    by (rule keys_member_rows [OF schema])
qed

definition demo_json :: cursor_json where
  "demo_json = \<lparr>json_Marshal = \<lambda>c. Some [char_of (unat (pc_ID c))],
     json_Unmarshal = \<lambda>s. Some \<lparr>pc_Kind = cursorMembers, pc_Time = 5, pc_Position = 0, pc_ID = of_nat (of_char (hd s))\<rparr>\<rparr>"

theorem ListMembers_complete_witness:
  "walk 4 (\<lambda>c. ListMembers demo_json Map.empty demo_db 3 100 c 2) []
     = Some (map (applyPresence Map.empty) (sort_key member_page_key (member_rows demo_db 100)))"
proof -
  have rows: "member_rows demo_db 100 =
      [scanMember demo_db (demo_member 1) (demo_user 1 ''ann''), scanMember demo_db (demo_member 2) (demo_user 2 ''bob''),
       scanMember demo_db (demo_member 3) (demo_user 3 ''cy'')]"
    by (simp add: member_rows_def demo List.map_filter_simps)
  have "\<forall>m\<in>set (member_rows demo_db 100). json_codes demo_json (member_cursor m) \<and> cursor_ok (member_cursor m)"
    unfolding rows by (simp add: json_codes_def demo_json_def cursor_ok_def scanMember_def)
  then show ?thesis
    using ListMembers_complete [OF demo_inv, of 100 3 2 demo_json Map.empty] rows by (simp add: demo numeral_eq_Suc)
qed

text \<open>
  A limit of the position column: once a role stands at the largest 32-bit number, the owner can create
  no role, since a new one is to stand one higher.
\<close>

lemma CreateRole_full:
  assumes "GetAccess db g u = Inr a" "a_Owner a"
    and "r \<in> set (roles db)" "rr_guild r = g" "rr_position r = 2147483647"
  shows "fst (CreateRole gen now db u g input) \<noteq> Inr role"
proof
  assume "fst (CreateRole gen now db u g input) = Inr role"
  then obtain db' where "CreateRole gen now db u g input = (Inr role, db')"
    by (metis prod.collapse)
  then obtain a' n row where access: "require db u g PermManageRoles = Inr a'" and n: "new_role_position db a' g = Inr n"
    and row: "role_row_ok row" "rr_position row = n"
    unfolding CreateRole_def Store_CreateRole_def Let_def returns by (auto split: if_split_asm)
  from access assms(1,2) have "a_Owner a'"
    by (auto simp: require_Inr)
  with n obtain rs where rs: "Store_ListRoles db g = Inr rs" "n = r_Position (last rs) + 1"
    by (auto simp: new_role_position_def split: sum.splits if_splits)
  have "2147483647 < n"
    using Store_ListRoles_last [OF rs(1) assms(3,4)] assms(5) rs(2) by simp
  then show False
    using row by (simp add: role_row_ok_def int4_def)
qed

end
