(* ===== verification/Text_Claims.thy ===== *)
theory Text_Claims
  imports Uploads Guild_Claims
begin

section \<open>Properties of channels, messages and attachments\<close>

text \<open>
  The properties of the chat service over runs and over single operations, with witnesses on
  \<open>demo_text\<close>: the guild of \<open>demo_db\<close> with a text channel, one message, a finished upload that no
  message carries yet and one object waiting for the janitor.
\<close>

subsection \<open>A concrete database\<close>

abbreviation demo_channel :: channel_row where
  "demo_channel \<equiv> \<lparr>cr_id = 400, cr_guild = Some 100, cr_type = ChannelTypeText, cr_name = Some ''hall'', cr_topic = None,
     cr_parent = None, cr_position = 0, cr_starter = None, cr_dm_key = None, cr_created = 5, cr_updated = 6\<rparr>"

abbreviation demo_message :: message_row where
  "demo_message \<equiv> \<lparr>mr_id = 500, mr_channel = 400, mr_author = 3, mr_content = ''hi'', mr_reply_to = None, mr_created = 6, mr_edited = None\<rparr>"

abbreviation demo_file :: Attachment where
  "demo_file \<equiv> \<lparr>at_ID = 600, at_ChannelID = 400, at_UploaderID = 3, at_MessageID = None, at_Filename = ''a'',
     at_ContentType = ''t/p'', at_Size = 1, at_ChecksumSHA256 = replicate 64 CHR ''0'', at_Status = AttachmentReady,
     at_ObjectKey = ''k'', at_CreatedAt = 7\<rparr>"

definition demo_text :: chat_db where
  "demo_text = demo_db\<lparr>channels := [demo_channel], messages := [demo_message], attachments := [demo_file],
     storage_deletions := [(''old'', 1)]\<rparr>"

lemma demo_text_fields [demo]:
  "users demo_text = users demo_db" "guilds demo_text = guilds demo_db" "members demo_text = members demo_db"
  "roles demo_text = roles demo_db" "member_roles demo_text = member_roles demo_db" "invites demo_text = invites demo_db"
  "channels demo_text = [demo_channel]" "dm_participants demo_text = []" "messages demo_text = [demo_message]"
  "reactions demo_text = []" "read_states demo_text = []" "attachments demo_text = [demo_file]"
  "storage_deletions demo_text = [(''old'', 1)]" "clock demo_text = 0"
  by (simp_all add: demo_text_def demo)

lemma demo_text_guild: "guild_inv demo_text"
  using demo_inv guild_inv_cong [of demo_text demo_db] by (simp add: demo)

lemma checksum_zeros: "checksum_ok (replicate 64 CHR ''0'')"
  by (simp add: checksum_ok_def list_all_iff is_digit_def between_def)

lemma demo_text_inv: "chat_inv demo_text"
proof -
  have "channels_ok demo_text" "directs_ok demo_text" "messages_ok demo_text" "reactions_ok demo_text" "reads_ok demo_text"
    by (simp_all add: text_parts demo unique_some_def channel_row_ok_def direct_users_def message_row_ok_def text_types_def int4_def)
  moreover have "attachments_ok demo_text"
    by (simp add: text_parts attached_ok_def demo attachment_row_ok_def checksum_zeros)
  ultimately show ?thesis
    by (simp add: chat_inv_def text_inv_def demo_text_guild)
qed

lemma demo_text_same [demo]:
  "GetAccess demo_text = GetAccess demo_db" "is_member demo_text = is_member demo_db" "is_owner demo_text = is_owner demo_db"
  "top_position demo_text = top_position demo_db" "member_permissions demo_text = member_permissions demo_db"
  unfolding fun_eq_iff GetAccess_def is_member_def is_owner_def top_position_def member_permissions_def roles_of_def demo_text_fields
  by simp_all

lemma demo_text_access [demo]:
  "participants demo_text demo_channel = [1, 2, 3]"
  "text_access demo_text u 400 \<longleftrightarrow> u \<in> {1, 2, 3}"
  "channel_access demo_text u 400 \<longleftrightarrow> u \<in> {1, 2, 3}"
  by (auto simp: participants_def text_access_def channel_access_def text_types_def demo)

subsection \<open>The invariant over every run\<close>

text \<open>
  C2. Whatever sequence of requests, sweeps, registrations and changes of profile the service has
  served from the empty database, in any interleaving of their transactions, the guild tables and the
  channel tables keep their keys, references and checks and what the program maintains on top: owners
  are members, one default role for each guild, ranks of at least one for the others, direct channels
  with exactly the two participants of their key, messages in channels that take text, and attachments
  only on messages of their uploader in their channel.
\<close>

theorem chat_invariant:
  assumes "chat_run media s"
  shows "guild_inv (fst s) \<and> text_inv (fst s)"
  using chat_run_inv [OF assms] by (simp add: chat_inv_def)

lemma demo_run: "chat_run media (empty_db\<lparr>users := [demo_user 1 ''ann'']\<rparr>, objs)"
proof -
  have "chat_step media (empty_db, objs) (empty_db\<lparr>users := users empty_db @ [demo_user 1 ''ann'']\<rparr>, objs)"
    by (rule chat_step.register) (simp add: empty_db_def)
  from chat_run.step [OF chat_run.start this] show ?thesis
    by (simp add: empty_db_def)
qed

theorem chat_invariant_witness:
  "guild_inv (snd (CreateGuild (Some 100) (Some 200) 0 (empty_db\<lparr>users := [demo_user 1 ''ann'']\<rparr>) 1
      \<lparr>cgi_Name = ''aides'', cgi_Description = None\<rparr>))"
proof -
  let ?run = "CreateGuild (Some 100) (Some 200) 0 (empty_db\<lparr>users := [demo_user 1 ''ann'']\<rparr>) 1 \<lparr>cgi_Name = ''aides'', cgi_Description = None\<rparr>"
  have "chat_step (MemoryStorage_methods (\<lambda>s. s)) (empty_db\<lparr>users := [demo_user 1 ''ann'']\<rparr>, objs) (snd ?run, objs)" for objs
    by (rule chat_step.create_guild [OF prod.collapse [symmetric]])
  from chat_invariant [OF chat_run.step [OF demo_run this]] show ?thesis by simp
qed

text \<open>
  C25. In every state a run reaches, nobody has more than 25 uploads that no message carries, however
  the requests of its clients interleave: the count and the insert are one transaction, and no other
  operation takes an attachment off a message that stays.
\<close>

theorem uploads_bounded:
  assumes "chat_run media s"
  shows "length (unused_attachments (fst s) u) \<le> 25"
  using chat_run_unused [OF assms, of u] by (simp add: maxUnusedAttachments_def)

theorem uploads_bounded_witness: "length (unused_attachments (empty_db\<lparr>users := [demo_user 1 ''ann'']\<rparr>) 1) \<le> 25"
  using uploads_bounded [OF demo_run [of "MemoryStorage_methods (\<lambda>s. s)" undefined], of 1] by simp

subsection \<open>Objects and the janitor\<close>


abbreviation demo_objects :: MemoryStorage where
  "demo_objects \<equiv> \<lparr>ms_objects = [''k'' \<mapsto> \<lparr>mo_body = ''x'', mo_contentType = ''t/p''\<rparr>, ''old'' \<mapsto> \<lparr>mo_body = ''y'', mo_contentType = ''t/p''\<rparr>], ms_now = 0\<rparr>"

lemma demo_sweep:
  "Sweep (MemoryStorage_methods sha256) 8 (demo_text, demo_objects) =
     (demo_text\<lparr>storage_deletions := []\<rparr>, demo_objects\<lparr>ms_objects := (ms_objects demo_objects)(''old'' := None)\<rparr>)"
proof -
  have "drop_attachments (expired t t') demo_text = demo_text" if "t' \<le> 7" for t t'
    using that by (simp add: drop_attachments_def expired_def demo delete_where_def enqueue_deletions_def)
  then show ?thesis
    by (simp add: Sweep_def ExpireAttachments_def PendingStorageDeletions_def deletionBatchSize_def CompleteStorageDeletion_def
        unusedUploadLifetime_def durations MemoryStorage_methods_def Memory_Delete_def demo delete_where_def)
qed




text \<open>
  A sweep never touches the object of an upload that stays: whatever the storage, as long as it
  keeps its promise, an object whose attachment is still in the tables after the sweep and was not
  queued reads the same as before. Stated for \<open>MemoryStorage\<close>.
\<close>

lemma janitor_spares_live:
  assumes "Sweep (MemoryStorage_methods sha256) now (db, objs) = (db', objs')" and "chat_inv db"
    and "a \<in> set (attachments db')" and "at_ObjectKey a \<notin> keys fst (storage_deletions db)"
  shows "Memory_Stat sha256 objs' (at_ObjectKey a) = Memory_Stat sha256 objs (at_ObjectKey a)"
  using memory.Sweep_live [OF assms(1) _ assms(3,4)] assms(2)
  by (simp add: MemoryStorage_methods_def chat_inv_def text_inv_def attachments_ok_def)

theorem janitor_spares_live_witness:
  "Memory_Stat (\<lambda>s. s) (demo_objects\<lparr>ms_objects := (ms_objects demo_objects)(''old'' := None)\<rparr>) ''k''
     = Memory_Stat (\<lambda>s. s) demo_objects ''k''"
  using janitor_spares_live [OF demo_sweep demo_text_inv, of demo_file "\<lambda>s. s"] by (simp add: demo)

subsection \<open>Messages\<close>

lemma find_message_Some:
  "find_message db c i = Some m \<Longrightarrow> m \<in> set (messages db) \<and> mr_id m = i \<and> mr_channel m = c"
  by (auto simp: find_message_def dest!: find_by_SomeD split: option.split_asm if_split_asm)

lemma text_access_channel:
  "text_access db u c \<Longrightarrow> \<exists>ch\<in>set (channels db). cr_id ch = c \<and> cr_type ch \<in> text_types \<and> u \<in> set (participants db ch)"
  by (auto simp: text_access_def dest!: find_by_SomeD split: option.split_asm)

lemma Store_GetChannel_Inr:
  assumes "Store_GetChannel db u c = Inr ch"
  obtains row where "find_by cr_id (channels db) c = Some row" "row \<in> set (channels db)" "cr_id row = c" "c_GuildID ch = cr_guild row"
    "u \<in> set (participants db row)" "c_Type ch = cr_type row"
  using assms find_by_SomeD [of cr_id "channels db" c]
  by (auto simp: Store_GetChannel_def populateRecipients_def scanChannel_def split: option.split_asm if_split_asm)

lemma has_permission:
  assumes "guild_inv db" and "GetAccess db g u = Inr a" and "Has a (push_bit n 1)" and "n < 64"
  shows "is_owner db g u \<or> bit (member_permissions db g u) n"
proof -
  have "bit (push_bit n 1 :: permissions) n"
    using assms(4) by (simp add: bit_simps)
  then show ?thesis
    using assms by (auto simp: guild_inv_def GetAccess_Inr ownerAccess_def Has_iff_bits split: if_splits)
qed

text \<open>The attachments a stored message carries are the ones it was asked to carry.\<close>

lemma attached_exactly:
  assumes ok: "attachments_ok db" and fresh: "i \<notin> keys mr_id (messages db)" and d: "distinct ids"
    and all: "ids = [] \<or> length (filter (attachable ids c u) (attachments db)) = length ids"
  shows "at_ID ` {a \<in> set (update_where (attachable ids c u) (\<lambda>a. a\<lparr>at_MessageID := Some i\<rparr>) (attachments db)). at_MessageID a = Some i} = set ids"
proof -
  let ?hits = "filter (attachable ids c u) (attachments db)"
  have "at_MessageID a \<noteq> Some i" if "a \<in> set (attachments db)" for a
    using ok fresh that by (auto simp: attachments_ok_def attached_ok_def)
  then have "{a \<in> set (update_where (attachable ids c u) (\<lambda>a. a\<lparr>at_MessageID := Some i\<rparr>) (attachments db)). at_MessageID a = Some i}
      = (\<lambda>a. a\<lparr>at_MessageID := Some i\<rparr>) ` set ?hits"
    unfolding set_update_where by (auto split: if_split_asm)
  then have "at_ID ` {a \<in> set (update_where (attachable ids c u) (\<lambda>a. a\<lparr>at_MessageID := Some i\<rparr>) (attachments db)). at_MessageID a = Some i}
      = at_ID ` set ?hits"
    by (simp add: image_image)
  also have "\<dots> = set ids"
  proof (cases "ids = []")
    case False
    have "distinct (map at_ID ?hits)"
      using ok by (simp add: attachments_ok_def distinct_map_filter)
    then have "card (set (map at_ID ?hits)) = length ids"
      using all False distinct_card by fastforce
    moreover have "set (map at_ID ?hits) \<subseteq> set ids"
      by (auto simp: attachable_def)
    moreover have "card (set ids) = length ids"
      using d by (rule distinct_card)
    ultimately show ?thesis
      by (metis List.finite_set card_subset_eq set_map)
  qed (auto simp: attachable_def)
  finally show ?thesis .
qed

lemma CreateMessage_Inr:
  assumes "CreateMessage gen now db u c content r ids = (Inr v, db')"
  shows "\<exists>ch i. Store_GetChannel db u c = Inr ch \<and> require_in db u ch PermSendMessages = Inr () \<and> distinct ids \<and> length ids \<le> 10
    \<and> Store_CreateMessage db \<lparr>m_AttachmentIDs = ids, m_Attachments = [], m_ID = i, m_ChannelID = c,
         m_Author = \<lparr>us_ID = u, us_DisplayName = [], us_AvatarURL = None\<rparr>, m_Content = content,
         m_ReplyToMessageID = r, m_ReplyTo = None, m_Reactions = [], m_CreatedAt = now, m_EditedAt = None\<rparr> = (Inr v, db')"
  using assms unfolding CreateMessage_def check_attachment_ids_def
  by (auto simp: returns maxMessageAttachments_def)

lemma CreateMessage_Inl: "CreateMessage gen now db u c content r ids = (Inl e, db') \<Longrightarrow> db' = db"
  unfolding CreateMessage_def runs by (auto elim: Store_CreateMessage_cases)

text \<open>
  C13. Creating a message is all or nothing. A request that fails leaves the database as it was. One
  that succeeds adds exactly one message, by the caller, in a channel the caller participates in and,
  in a guild, holds \<open>SEND_MESSAGES\<close> in; and the attachments the message then has are exactly the
  requested ones, at most 10, each uploaded by the caller to that channel, finished, and free before.
\<close>

theorem CreateMessage_outcome:
  assumes inv: "chat_inv db" and run: "CreateMessage gen now db u c content r ids = (res, db')"
  shows "case res of Inl _ \<Rightarrow> db' = db
    | Inr v \<Rightarrow> \<exists>m. messages db' = messages db @ [m] \<and> mr_channel m = c \<and> mr_author m = u \<and> mr_content m = content
        \<and> (\<exists>ch\<in>set (channels db). cr_id ch = c \<and> u \<in> set (participants db ch)
             \<and> (\<forall>g. cr_guild ch = Some g \<longrightarrow> is_owner db g u \<or> bit (member_permissions db g u) 1))
        \<and> at_ID ` {a \<in> set (attachments db'). at_MessageID a = Some (mr_id m)} = set ids \<and> length ids \<le> 10
        \<and> (\<forall>i\<in>set ids. \<exists>a\<in>set (attachments db). at_ID a = i \<and> at_UploaderID a = u \<and> at_ChannelID a = c
             \<and> at_Status a = AttachmentReady \<and> at_MessageID a = None)"
proof (cases res)
  case (Inl e)
  with run CreateMessage_Inl show ?thesis by auto
next
  case (Inr v)
  from CreateMessage_Inr [OF run [unfolded Inr]] obtain ch i where
    ch: "Store_GetChannel db u c = Inr ch" "require_in db u ch PermSendMessages = Inr ()"
    and ids: "distinct ids" "length ids \<le> 10"
    and store: "Store_CreateMessage db \<lparr>m_AttachmentIDs = ids, m_Attachments = [], m_ID = i, m_ChannelID = c,
         m_Author = \<lparr>us_ID = u, us_DisplayName = [], us_AvatarURL = None\<rparr>, m_Content = content,
         m_ReplyToMessageID = r, m_ReplyTo = None, m_Reactions = [], m_CreatedAt = now, m_EditedAt = None\<rparr> = (Inr v, db')"
    by blast
  obtain row where row: "row \<in> set (channels db)" "cr_id row = c" "c_GuildID ch = cr_guild row" "u \<in> set (participants db row)"
    using ch(1) by (rule Store_GetChannel_Inr)
  have perm: "is_owner db g u \<or> bit (member_permissions db g u) 1" if "cr_guild row = Some g" for g
    using ch(2) row(3) that inv has_permission [of db g u _ 1]
    by (auto simp: require_in_def returns require_Inr PermSendMessages_def chat_inv_def)
  from store show ?thesis
  proof (cases rule: Store_CreateMessage_cases)
    case (stored v' ch' m db1)
    have ok: "attachments_ok db" using inv by (simp add: chat_inv_def text_inv_def)
    have att: "attachments db' = update_where (attachable ids c u) (\<lambda>a. a\<lparr>at_MessageID := Some i\<rparr>) (attachments db)"
      and all: "ids = [] \<or> length (filter (attachable ids c u) (attachments db)) = length ids" and new: "i \<notin> keys mr_id (messages db)"
      using stored by simp_all
    note exact = attached_exactly [OF ok new ids(1) all]
    have "\<exists>a\<in>set (attachments db). at_ID a = k \<and> attachable ids c u a" if "k \<in> set ids" for k
    proof -
      have "k \<in> at_ID ` {a \<in> set (attachments db'). at_MessageID a = Some i}" using that exact att by simp
      moreover have "at_MessageID a \<noteq> Some i" if "a \<in> set (attachments db)" for a
        using ok new that by (auto simp: attachments_ok_def attached_ok_def)
      ultimately show ?thesis unfolding att by (auto simp: set_update_where split: if_split_asm)
    qed
    then have "\<forall>k\<in>set ids. \<exists>a\<in>set (attachments db). at_ID a = k \<and> at_UploaderID a = u \<and> at_ChannelID a = c
             \<and> at_Status a = AttachmentReady \<and> at_MessageID a = None"
      unfolding attachable_def by blast
    with stored row perm ids exact att show ?thesis
      unfolding Inr by (auto intro!: exI [of _ m])
  qed simp
qed

text \<open>The member who uploaded the file sends it.\<close>

definition demo_sent :: chat_db where
  "demo_sent = demo_text\<lparr>messages := [demo_message, \<lparr>mr_id = 501, mr_channel = 400, mr_author = 3, mr_content = ''yo'',
       mr_reply_to = None, mr_created = 9, mr_edited = None\<rparr>],
     channels := [demo_channel\<lparr>cr_updated := 9\<rparr>], attachments := [demo_file\<lparr>at_MessageID := Some 501\<rparr>]\<rparr>"

lemma demo_get_channel [demo]:
  "u \<in> {1, 2, 3} \<Longrightarrow> Store_GetChannel demo_text u 400 = Inr (scanChannel demo_channel)"
  by (simp add: Store_GetChannel_def demo populateRecipients_def scanChannel_def)

lemma demo_require [demo]:
  "require_in demo_text 3 (scanChannel demo_channel) PermSendMessages = Inr ()"
  by (simp add: require_in_def require_def scanChannel_def demo Has_def PermSendMessages_def)

lemma demo_create: "\<exists>v. CreateMessage (Some 501) 9 demo_text 3 400 ''yo'' None [600] = (Inr v, demo_sent)"
proof -
  have t: "\<not> 4000 < utf8_RuneCountInString ''yo''"
    by (simp add: utf8_RuneCountInString_def)
  have "\<exists>v. Store_CreateMessage demo_text \<lparr>m_AttachmentIDs = [600], m_Attachments = [], m_ID = 501, m_ChannelID = 400,
         m_Author = \<lparr>us_ID = 3, us_DisplayName = [], us_AvatarURL = None\<rparr>, m_Content = ''yo'',
         m_ReplyToMessageID = None, m_ReplyTo = None, m_Reactions = [], m_CreatedAt = 9, m_EditedAt = None\<rparr> = (Inr v, demo_sent)"
    by (simp add: Store_CreateMessage_def Let_def demo message_row_ok_def scanMessage_def attachable_def update_where_def demo_sent_def)
  moreover have "IsText (scanChannel demo_channel)"
    by (simp add: IsText_def scanChannel_def)
  ultimately show ?thesis
    by (simp add: CreateMessage_def demo check_attachment_ids_def maxMessageAttachments_def
        check_message_content_def check_reply_def newUUIDv7_def t)
qed

theorem CreateMessage_outcome_witness:
  "at_ID ` {a \<in> set (attachments demo_sent). at_MessageID a = Some 501} = {600}"
proof -
  obtain v where "CreateMessage (Some 501) 9 demo_text 3 400 ''yo'' None [600] = (Inr v, demo_sent)"
    using demo_create by blast
  from CreateMessage_outcome [OF demo_text_inv this] show ?thesis
    by (auto simp: demo_sent_def demo)
qed

text \<open>
  Only its author edits a message: when \<open>UpdateMessage\<close> changes the database at all, the message
  is the caller's own, in a channel the caller still has access to, and every other message is as it was.
\<close>

lemma UpdateMessage_author_only:
  assumes "UpdateMessage now db u c i content = (res, db')" and "db' \<noteq> db"
  shows "(\<exists>m\<in>set (messages db). mr_id m = i \<and> mr_channel m = c \<and> mr_author m = u) \<and> text_access db u c
    \<and> messages db' = update_where (\<lambda>x. mr_id x = i) (\<lambda>x. x\<lparr>mr_content := content, mr_edited := Some now\<rparr>) (messages db)"
proof -
  obtain v where v: "Store_GetMessage db u c i = Inr v" "Store_UpdateMessage db u c i content now = (res, db')"
    using assms unfolding UpdateMessage_def runs by auto
  then show ?thesis
    using assms(2) unfolding Store_UpdateMessage_def Store_GetMessage_def Let_def
    by (auto dest!: find_message_Some split: option.split_asm if_split_asm)
qed

lemma demo_edit: "\<exists>v. UpdateMessage 9 demo_text 3 400 500 ''yo'' = (Inr v, demo_text\<lparr>messages :=
    [demo_message\<lparr>mr_content := ''yo'', mr_edited := Some 9\<rparr>]\<rparr>)"
proof -
  have "validateContent ''yo'' = Inr ()"
    by (simp add: validateContent_def utf8_RuneCountInString_def)
  then show ?thesis
    by (simp add: UpdateMessage_def Store_UpdateMessage_def Store_GetMessage_def find_message_def scanMessage_def Let_def
        demo populateMessageReactions_def message_row_ok_def update_where_def)
qed

theorem UpdateMessage_author_only_witness:
  "\<exists>m\<in>set (messages demo_text). mr_id m = 500 \<and> mr_author m = 3"
proof -
  obtain v where run: "UpdateMessage 9 demo_text 3 400 500 ''yo'' = (Inr v, demo_text\<lparr>messages :=
      [demo_message\<lparr>mr_content := ''yo'', mr_edited := Some 9\<rparr>]\<rparr>)"
    using demo_edit by blast
  have "messages (demo_text\<lparr>messages := [demo_message\<lparr>mr_content := ''yo'', mr_edited := Some 9\<rparr>]\<rparr>) \<noteq> messages demo_text"
    by (simp add: demo)
  then have "demo_text\<lparr>messages := [demo_message\<lparr>mr_content := ''yo'', mr_edited := Some 9\<rparr>]\<rparr> \<noteq> demo_text"
    by metis
  from UpdateMessage_author_only [OF run this] show ?thesis by blast
qed

text \<open>
  C33. A message is deleted only by its author, or in a channel of a guild by a member who holds
  \<open>MANAGE_MESSAGES\<close> there; either takes part in the channel. Exactly that message goes, with its
  reactions, and its attachments leave the tables with their objects queued for removal.
\<close>

theorem DeleteMessage_authority:
  assumes inv: "chat_inv db" and run: "DeleteMessage db u c i = (Inr x, db')"
  shows "\<exists>m\<in>set (messages db). mr_id m = i \<and> mr_channel m = c \<and> channel_access db u c
    \<and> (mr_author m = u \<or> (\<exists>ch\<in>set (channels db). \<exists>g. cr_id ch = c \<and> cr_guild ch = Some g
          \<and> (is_owner db g u \<or> bit (member_permissions db g u) 2)))
    \<and> messages db' = filter (\<lambda>n. mr_id n \<noteq> i) (messages db)
    \<and> (\<forall>a\<in>set (attachments db). at_MessageID a = Some i \<longrightarrow> at_ObjectKey a \<in> keys fst (storage_deletions db'))"
proof -
  obtain ch can where ch: "Store_GetChannel db u c = Inr ch"
    and can: "(case c_GuildID ch of None \<Rightarrow> Inr False
        | Some g \<Rightarrow> (case GetAccess db g u of Inl err \<Rightarrow> Inl err | Inr access \<Rightarrow> Inr (Has access PermManageMessages))) = Inr can"
    and del: "Store_DeleteMessage db u c i can = (Inr x, db')"
    using run unfolding DeleteMessage_def returns by blast
  obtain row where row: "row \<in> set (channels db)" "cr_id row = c" "c_GuildID ch = cr_guild row"
    using ch by (rule Store_GetChannel_Inr)
  let ?gone = "\<lambda>m. mr_id m = i \<and> mr_channel m = c \<and> channel_access db u c \<and> (mr_author m = u \<or> can)"
  have db': "db' = drop_messages ?gone db" and "filter ?gone (messages db) \<noteq> []"
    using del unfolding Store_DeleteMessage_def Let_def by (auto split: if_split_asm sum.split_asm)
  then obtain m where m: "m \<in> set (messages db)" "?gone m"
    by (auto simp: filter_empty_conv)
  have "\<exists>g. cr_guild row = Some g \<and> (is_owner db g u \<or> bit (member_permissions db g u) 2)" if can
    using can row(3) that inv has_permission [of db _ u _ 2]
    by (auto simp: PermManageMessages_def chat_inv_def split: option.split_asm sum.split_asm)
  then have authority: "mr_author m = u \<or> (\<exists>ch\<in>set (channels db). \<exists>g. cr_id ch = c \<and> cr_guild ch = Some g
      \<and> (is_owner db g u \<or> bit (member_permissions db g u) 2))"
    using m(2) row by blast
  have only: "n = m" if "n \<in> set (messages db)" "mr_id n = i" for n
    by (rule distinct_key_eq [of mr_id, OF _ that(1) m(1)])
      (use inv that(2) m(2) in \<open>simp_all add: chat_inv_def text_inv_def messages_ok_def\<close>)
  then have "messages db' = filter (\<lambda>n. mr_id n \<noteq> i) (messages db)"
    using m(2) unfolding db' drop_messages_frame delete_where_def by (auto intro!: filter_cong)
  moreover have "at_ObjectKey a \<in> keys fst (storage_deletions db')" if "a \<in> set (attachments db)" "at_MessageID a = Some i" for a
    using that m unfolding db' drop_messages_def Let_def
    by (auto simp: drop_attachments_def keys_enqueue image_iff)
  ultimately show ?thesis
    using m authority by blast
qed

theorem DeleteMessage_authority_witness:
  "\<exists>m\<in>set (messages demo_text). mr_id m = 500 \<and> mr_author m \<noteq> 2 \<and> bit (member_permissions demo_text 100 2) 2"
proof -
  have "fst (DeleteMessage demo_text 2 400 500) = Inr ()"
    by (simp add: DeleteMessage_def demo scanChannel_def Has_def PermManageMessages_def Store_DeleteMessage_def Let_def)
  then have "DeleteMessage demo_text 2 400 500 = (Inr (), snd (DeleteMessage demo_text 2 400 500))"
    by (metis prod.collapse)
  from DeleteMessage_authority [OF demo_text_inv this] show ?thesis
    by (auto simp: demo)
qed

end
