(* ===== verification/Chat_Claims.thy ===== *)
theory Chat_Claims
  imports Text_Claims
begin

section \<open>Properties of reactions, direct messages, uploads and voice channels\<close>

text \<open>
  More properties of single operations of the chat service, with witnesses on \<open>demo_text\<close>.
\<close>

subsection \<open>Reactions\<close>

text \<open>The rows of one emoji on one message are as many as its users.\<close>

lemma count_reactions_users:
  assumes "distinct (map reaction_key (reactions db))"
  shows "count_reactions db i e = card {u. (i, u, e) \<in> keys reaction_key (reactions db)}"
proof -
  let ?rs = "filter (\<lambda>r. re_message r = i \<and> re_emoji r = e) (reactions db)"
  have "inj_on re_user (set ?rs)"
    using distinct_key_eq [OF assms] by (auto intro!: inj_onI)
  moreover have "distinct ?rs"
    using assms by (simp add: distinct_map)
  moreover have "{u. (i, u, e) \<in> keys reaction_key (reactions db)} = re_user ` set ?rs"
    by force
  ultimately show ?thesis
    unfolding count_reactions_def using card_image [of re_user "set ?rs"] distinct_card [of ?rs] by presburger
qed

lemma add_reaction_runs:
  assumes "AddMessageReaction So now db u c i e = (Inr (r, changed), db')"
  shows "validateReactionEmoji So e = Inr ()" and "find_message db c i \<noteq> None" and "text_access db u c"
    and "reaction_row_ok \<lparr>re_message = i, re_user = u, re_emoji = e, re_created = now\<rparr>"
    and "r = \<lparr>rx_Emoji = e, rx_Count = count_reactions db' i e, rx_Me = True\<rparr>"
    and "changed = ((i, u, e) \<notin> keys reaction_key (reactions db))"
    and "db' = (if changed then db\<lparr>reactions := reactions db @ [\<lparr>re_message = i, re_user = u, re_emoji = e, re_created = now\<rparr>]\<rparr> else db)"
  using assms unfolding AddMessageReaction_def Store_AddMessageReaction_def changeMessageReaction_def Let_def returns
  by (auto split: if_split_asm)

lemma participants_reactions [simp]: "participants (db\<lparr>reactions := rs\<rparr>) = participants db"
  by (auto simp: fun_eq_iff participants_def split: option.split)

lemma text_access_reactions [simp]: "text_access (db\<lparr>reactions := rs\<rparr>) = text_access db"
  by (auto simp: fun_eq_iff text_access_def split: option.split)

lemma find_message_reactions [simp]: "find_message (db\<lparr>reactions := rs\<rparr>) = find_message db"
  by (simp add: fun_eq_iff find_message_def)

text \<open>
  C26. Reacting is idempotent and undone by its removal. After an addition that succeeds, adding the
  same emoji again, at any later instant, answers the same counter, reports no change and writes
  nothing; if the addition did change something, removing it restores the database exactly. The
  counter is the number of users who reacted with that emoji.
\<close>

theorem reaction_roundtrip:
  assumes "chat_inv db" and "AddMessageReaction So now db u c i e = (Inr (r, changed), db')"
  shows "AddMessageReaction So later db' u c i e = (Inr (r, False), db')
    \<and> (changed \<longrightarrow> (\<exists>r'. RemoveMessageReaction So db' u c i e = (Inr (r', True), db)))
    \<and> rx_Count r = card {v. (i, v, e) \<in> keys reaction_key (reactions db')}"
proof (intro conjI impI)
  note run = add_reaction_runs [OF assms(2)]
  have "find_message db' c i \<noteq> None" "text_access db' u c" "(i, u, e) \<in> keys reaction_key (reactions db')"
    using run(2,3,6) by (auto simp: run(7))
  moreover have "reaction_row_ok \<lparr>re_message = i, re_user = u, re_emoji = e, re_created = later\<rparr>"
    using run(4) by (simp add: reaction_row_ok_def)
  ultimately show "AddMessageReaction So later db' u c i e = (Inr (r, False), db')"
    using run(1,5) by (simp add: AddMessageReaction_def Store_AddMessageReaction_def changeMessageReaction_def)
  show "\<exists>r'. RemoveMessageReaction So db' u c i e = (Inr (r', True), db)" if changed
  proof -
    let ?row = "\<lparr>re_message = i, re_user = u, re_emoji = e, re_created = now\<rparr>"
    have "delete_where (\<lambda>r. reaction_key r = (i, u, e)) (reactions db @ [?row]) = reactions db"
      using run(6) that by (auto simp: delete_where_def intro!: filter_True)
    then show ?thesis
      using run(1,2,3,7) that by (simp add: RemoveMessageReaction_def Store_RemoveMessageReaction_def changeMessageReaction_def)
  qed
  have "text_kept db db'" by (rule AddMessageReaction_kept [OF assms(2)])
  with assms(1) have "reactions_ok db'"
    by (simp add: text_kept_def chat_inv_def text_inv_def)
  then show "rx_Count r = card {v. (i, v, e) \<in> keys reaction_key (reactions db')}"
    by (simp add: run(5) reactions_ok_def count_reactions_users)
qed

text \<open>U+2615 in UTF-8: a member reacts to the message.\<close>

abbreviation demo_emoji :: string where
  "demo_emoji \<equiv> [CHR 0xE2, CHR 0x98, CHR 0x95]"

definition demo_reacted :: chat_db where
  "demo_reacted = demo_text\<lparr>reactions := [\<lparr>re_message = 500, re_user = 2, re_emoji = demo_emoji, re_created = 9\<rparr>]\<rparr>"

lemma demo_emoji_runes: "runes demo_emoji = [(9749, demo_emoji)]"
  by (code_simp)

lemma demo_react:
  "AddMessageReaction (\<lambda>r. r = 9749) 9 demo_text 2 400 500 demo_emoji
     = (Inr (\<lparr>rx_Emoji = demo_emoji, rx_Count = 1, rx_Me = True\<rparr>, True), demo_reacted)"
proof -
  have "validateReactionEmoji (\<lambda>r. r = 9749) demo_emoji = Inr ()"
    by (simp add: validateReactionEmoji_def utf8_ValidString_def utf8_RuneCountInString_def demo_emoji_runes
        unicode_IsControl_def unicode_IsSpace_def rune_error_def)
  moreover have "reaction_row_ok \<lparr>re_message = 500, re_user = 2, re_emoji = demo_emoji, re_created = 9\<rparr>"
    by (simp add: reaction_row_ok_def char_length_between_def pg_text_def utf8_ValidString_def utf8_RuneCountInString_def
        demo_emoji_runes rune_error_def)
  ultimately show ?thesis
    by (simp add: AddMessageReaction_def Store_AddMessageReaction_def changeMessageReaction_def find_message_def demo
        count_reactions_def demo_reacted_def)
qed

theorem reaction_roundtrip_witness:
  "AddMessageReaction (\<lambda>r. r = 9749) 10 demo_reacted 2 400 500 demo_emoji
     = (Inr (\<lparr>rx_Emoji = demo_emoji, rx_Count = 1, rx_Me = True\<rparr>, False), demo_reacted)"
  using reaction_roundtrip [OF demo_text_inv demo_react] by blast


subsection \<open>Direct messages\<close>

lemma dm_pair_commute: "dm_pair a b = dm_pair b a"
  by (auto simp: dm_pair_def)

lemma populateRecipients_ID [simp]: "c_ID (populateRecipients db ch) = c_ID ch"
  by (simp add: populateRecipients_def)

lemma Store_OpenDirectChannel_row:
  assumes "Store_OpenDirectChannel db ch u v = (Inr (d, created), db')"
  shows "\<exists>row. find_by cr_dm_key (channels db') (Some (dm_pair u v)) = Some row \<and> d = populateRecipients db' (scanChannel row)"
proof (cases "find_by cr_dm_key (channels db) (Some (dm_pair u v))")
  case None
  then show ?thesis
    using assms unfolding Store_OpenDirectChannel_def Let_def
    by (auto simp: find_by_append split: if_split_asm)
next
  case (Some row)
  then show ?thesis
    using assms unfolding Store_OpenDirectChannel_def Let_def by (auto split: if_split_asm)
qed

lemma direct_participants:
  assumes inv: "text_inv db" and row: "find_by cr_dm_key (channels db) (Some (dm_pair u v)) = Some row"
  shows "channel_access db w (cr_id row) \<longleftrightarrow> w \<in> {u, v}"
proof -
  have r: "row \<in> set (channels db)" "cr_dm_key row = Some (dm_pair u v)"
    using find_by_SomeD [OF row] by simp_all
  have ok: "channels_ok db" "directs_ok db" using inv by (simp_all add: text_inv_def)
  then have "channel_row_ok row" using r(1) by (simp add: channels_ok_def)
  then have g: "cr_guild row = None" using r(2) by (auto simp: channel_row_ok_def)
  have "{w. (cr_id row, w) \<in> set (dm_participants db)} = direct_users row"
    using ok(2) r(1) by (simp add: directs_ok_def)
  then have "(cr_id row, w) \<in> set (dm_participants db) \<longleftrightarrow> w \<in> {u, v}"
    using r(2) by (auto simp: direct_users_def dm_pair_def split: if_split_asm)
  then have "w \<in> set (participants db row) \<longleftrightarrow> w \<in> {u, v}"
    unfolding participants_def g by force
  moreover have "find_by cr_id (channels db) (cr_id row) = Some row"
    using ok(1) r(1) by (simp add: channels_ok_def find_by_distinct)
  ultimately show ?thesis
    by (simp add: channel_access_def)
qed

text \<open>
  C27. Two users have one direct channel, whoever asks first. After \<open>OpenDirectChannel\<close> succeeds,
  asking for it again from either side, with any identifier at hand and at any later instant, answers the
  same channel, creates nothing and writes nothing; and exactly the two users have access to it.
\<close>

theorem OpenDirectChannel_once:
  assumes inv: "chat_inv db" and run: "OpenDirectChannel gen now db u v = (Inr (ch, created), db')" and nil: "u \<noteq> uuid_Nil"
  shows "OpenDirectChannel (Some i) later db' v u = (Inr (ch, False), db')
    \<and> OpenDirectChannel (Some i) later db' u v = (Inr (ch, False), db')
    \<and> (\<forall>w. channel_access db' w (c_ID ch) \<longleftrightarrow> w \<in> {u, v})"
proof -
  obtain x where store: "Store_OpenDirectChannel db x u v = (Inr (ch, created), db')" and uv: "v \<noteq> uuid_Nil" "v \<noteq> u"
    using run unfolding OpenDirectChannel_def returns by auto
  obtain row where row: "find_by cr_dm_key (channels db') (Some (dm_pair u v)) = Some row" "ch = populateRecipients db' (scanChannel row)"
    using Store_OpenDirectChannel_row [OF store] by blast
  have "chat_inv db'"
    using text_kept_inv [OF OpenDirectChannel_kept [OF run] inv] .
  then have inv': "text_inv db'" by (simp add: chat_inv_def)
  have acc: "channel_access db' w (c_ID ch) \<longleftrightarrow> w \<in> {u, v}" for w
    using direct_participants [OF inv' row(1)] by (simp add: row(2) scanChannel_def)
  have "row \<in> set (channels db')" "cr_dm_key row = Some (dm_pair u v)"
    using find_by_SomeD [OF row(1)] by simp_all
  then have "direct_users row = {u, v}" "(cr_id row, w) \<in> set (dm_participants db') \<Longrightarrow> w \<in> keys us_ID (users db')"
      "{w. (cr_id row, w) \<in> set (dm_participants db')} = direct_users row" for w
    using inv' by (auto simp: text_inv_def directs_ok_def direct_users_def dm_pair_def split: if_split_asm)
  then have "u \<in> keys us_ID (users db')" "v \<in> keys us_ID (users db')" by blast+
  then show ?thesis
    using row uv nil acc by (simp add: OpenDirectChannel_def Store_OpenDirectChannel_def newUUIDv7_def dm_pair_commute [of v u])
qed

lemma demo_open: "\<exists>ch db'. OpenDirectChannel (Some 401) 9 demo_text 2 3 = (Inr (ch, True), db')"
  by (simp add: OpenDirectChannel_def Store_OpenDirectChannel_def newUUIDv7_def demo dm_pair_def Let_def)

theorem OpenDirectChannel_once_witness:
  "\<exists>ch db'. OpenDirectChannel (Some 402) 10 db' 3 2 = (Inr (ch, False), db') \<and> \<not> channel_access db' 1 (c_ID ch)"
proof -
  obtain ch db' where "OpenDirectChannel (Some 401) 9 demo_text 2 3 = (Inr (ch, True), db')"
    using demo_open by blast
  from OpenDirectChannel_once [OF demo_text_inv this, of 402 10] show ?thesis
    by (intro exI [of _ ch] exI [of _ db']) simp
qed

subsection \<open>Finished uploads\<close>


text \<open>The upload of the member before it was finished.\<close>

definition demo_pending :: chat_db where
  "demo_pending = demo_text\<lparr>attachments := [demo_file\<lparr>at_Status := AttachmentPending\<rparr>]\<rparr>"

lemma demo_finalize:
  "FinalizeAttachment Some (\<lambda>a b. a = b) (Some (MemoryStorage_methods (\<lambda>b. replicate 32 (CHR 0x00)), demo_objects)) demo_pending 3 600
     = (Inr demo_file, demo_text)"
proof -
  have "participants demo_pending demo_channel = participants demo_text demo_channel"
    by (simp add: participants_def demo_pending_def)
  then have get: "Store_GetAttachment demo_pending 3 600 = Inr (demo_file\<lparr>at_Status := AttachmentPending\<rparr>)"
    by (simp add: Store_GetAttachment_def demo_pending_def channel_access_def demo)
  have z: "hex_EncodeToString (replicate 32 (CHR 0x00)) = replicate 64 CHR ''0''"
    by code_simp
  have "MarkAttachmentReady demo_pending 600 = (Inr demo_file, demo_text)"
    by (simp add: MarkAttachmentReady_def demo_pending_def update_where_def) (simp add: demo_text_def)
  then show ?thesis
    unfolding FinalizeAttachment_def option.case prod.case get sum.case
    by (simp add: MemoryStorage_methods_def Memory_Stat_def object_matches_def sameMediaType_def z)
qed


end
