(* ===== verification/Read_Claims.thy ===== *)
theory Read_Claims
  imports Text_Claims
begin

section \<open>Properties of read positions, search and message pages\<close>

text \<open>
  The read position of a user never moves back, a search finds exactly the messages that contain the
  query as it is written, an excerpt is short and shows the first match, and the pages of a channel
  are complete. Witnesses are on \<open>demo_text\<close>.
\<close>

subsection \<open>Search\<close>

text \<open>The bytes of a rune of several bytes are no ASCII characters, and so is the rune.\<close>

lemma decode_multi:
  assumes "decode_rune bs = (r, k)" and "1 < k"
  shows "decode_rune (take k bs @ ys) = (r, k)" and "list_all (\<lambda>x. 128 \<le> x) (take k bs)" and "128 \<le> r"
proof -
  obtain b ts where bs: "bs = b # ts"
    using assms by (cases bs) auto
  have b: "\<not> b < 128" using assms by (auto simp: bs)
  obtain n lo hi where l: "lead_byte b = Some (n, lo, hi)"
    using assms b by (cases "lead_byte b") (auto simp: bs)
  let ?t = "take (n - 1) ts"
  have ok: "length ?t = n - 1" "cont lo hi (hd ?t)" "list_all (cont 128 191) (tl ?t)" and k: "k = n"
      and r: "r = foldl (\<lambda>a b. a * 64 + (b - 128)) (b - (256 - 2 ^ (8 - n))) ?t"
    using assms b by (auto simp: bs l Let_def split: if_split_asm)
  have n: "2 \<le> n" by (rule lead_byte_width [OF l])
  have pre: "take k bs = b # ?t" using n by (cases n) (simp_all add: bs k)
  have "take (n - 1) (?t @ ys) = ?t" using ok(1) by simp
  then have "decode_rune (b # ?t @ ys) = (r, k)"
    using b ok r by (simp add: l k Let_def del: take_append)
  then show "decode_rune (take k bs @ ys) = (r, k)"
    by (simp add: pre)
  have cont: "128 \<le> lo" using l by (auto simp: lead_byte_def split: if_split_asm)
  have "?t \<noteq> []" using ok(1) n by (metis One_nat_def Suc_1 Suc_le_eq diff_is_0_eq list.size(3) not_le)
  then obtain x xs where t: "?t = x # xs" by (cases ?t) auto
  with ok(2,3) cont have "list_all (\<lambda>x. 128 \<le> x) ?t"
    by (auto simp: list_all_iff cont_def)
  then show "list_all (\<lambda>x. 128 \<le> x) (take k bs)"
    using b by (simp add: pre)
  have "length (x # xs) = n - 1" using ok(1) unfolding t .
  then have x: "cont lo hi x" "length xs = n - 2" using ok(2) unfolding t by simp_all
  consider "n = 2" "194 \<le> b" | "n = 3" "225 \<le> b \<or> 160 \<le> x" | "n = 4" "241 \<le> b \<or> 144 \<le> x"
    using l x(1) by (auto simp: lead_byte_def cont_def split: if_split_asm)
  then have "128 \<le> foldl (\<lambda>a b. a * 64 + (b - 128)) (b - (256 - 2 ^ (8 - n))) (x # xs)"
  proof cases
    case 1
    with x(2) show ?thesis by simp
  next
    case 2
    then obtain y where "xs = [y]" using x(2) by (auto simp: length_Suc_conv)
    with 2 show ?thesis by auto
  next
    case 3
    then have "length xs = Suc (Suc 0)" using x(2) by simp
    then obtain y z where "xs = [y, z]" by (auto simp: length_Suc_conv)
    with 3 show ?thesis by auto
  qed
  then show "128 \<le> r" unfolding r t .
qed

text \<open>The characters of an escaped query: a backslash before each special character, in place.\<close>

definition special :: "nat \<Rightarrow> bool" where
  "special r \<longleftrightarrow> r = 92 \<or> r = 37 \<or> r = 95"

definition escape_chars :: "nat list \<Rightarrow> nat list" where
  "escape_chars rs = concat (map (\<lambda>r. if special r then [92, r] else [r]) rs)"

lemma escapeLike_Nil [simp]: "escapeLike [] = []"
  by (simp add: escapeLike_def)

lemma escapeLike_append: "escapeLike (a @ b) = escapeLike a @ escapeLike b"
  by (simp add: escapeLike_def)

lemma escapeLike_high: "list_all (\<lambda>x. 128 \<le> x) (map of_char bs :: nat list) \<Longrightarrow> escapeLike bs = bs"
  by (induction bs) (auto simp: escapeLike_def)

lemma special_char: "special (of_char c) \<longleftrightarrow> c = CHR 0x5C \<or> c = CHR ''%'' \<or> c = CHR ''_''"
proof -
  have "of_char c = (92 :: nat) \<longleftrightarrow> c = CHR 0x5C" "of_char c = (37 :: nat) \<longleftrightarrow> c = CHR ''%''" "of_char c = (95 :: nat) \<longleftrightarrow> c = CHR ''_''"
    using of_char_eq_iff [of c "CHR 0x5C", where 'a = nat] of_char_eq_iff [of c "CHR ''%''", where 'a = nat]
      of_char_eq_iff [of c "CHR ''_''", where 'a = nat] by simp_all
  then show ?thesis by (simp add: special_def)
qed

lemma chars_of_Nil [simp]: "chars_of [] = []"
  by (simp add: chars_of_def)

lemma chars_of_ascii [simp]: "(of_char c :: nat) < 128 \<Longrightarrow> chars_of (c # s) = of_char c # chars_of s"
  by (simp add: chars_of_def)

lemma utf8_ValidString_step: "runes s = (r, bs) # rs \<Longrightarrow> runes s' = rs \<Longrightarrow> utf8_ValidString s \<longleftrightarrow> (r \<noteq> rune_error \<or> length bs = 3) \<and> utf8_ValidString s'"
  by (simp add: utf8_ValidString_def)

lemma escape_runes:
  "utf8_ValidString s \<Longrightarrow> chars_of (escapeLike s @ t) = escape_chars (chars_of s) @ chars_of t"
proof (induction s rule: length_induct)
  case (1 s)
  show ?case
  proof (cases "s = []")
    case False
    then obtain r k where d: "decode_rune (map of_char s) = (r, k)" "0 < k" "k \<le> length s"
        "runes s = (r, take k s) # runes (drop k s)"
      by (rule runes_step)
    from utf8_ValidString_step [OF d(4) refl] 1(2) have ok: "r \<noteq> rune_error \<or> k = 3" "utf8_ValidString (drop k s)"
      using d(3) by auto
    have IH: "chars_of (escapeLike (drop k s) @ t) = escape_chars (chars_of (drop k s)) @ chars_of t"
      using 1(1) ok(2) d(2,3) by simp
    have chars: "chars_of s = r # chars_of (drop k s)"
      by (simp add: chars_of_def d(4))
    show ?thesis
    proof (cases "1 < k")
      case True
      note m = decode_multi [OF d(1) True]
      have esc: "escapeLike (take k s) = take k s"
        using m(2) by (intro escapeLike_high) (simp add: take_map)
      have "s = take k s @ drop k s" by simp
      then have "escapeLike s = take k s @ escapeLike (drop k s)"
        using esc by (metis escapeLike_append)
      moreover have "chars_of (take k s @ w) = r # chars_of w" for w
      proof -
        have dec: "decode_rune (map of_char (take k s @ w)) = (r, k)"
          using m(1) [of "map of_char w"] by (simp add: take_map)
        have "take k s @ w \<noteq> []" using d(2) False by simp
        then show ?thesis
          using dec d(3) by (subst chars_of_def, subst runes.simps) (simp add: chars_of_def)
      qed
      ultimately show ?thesis
        using m(3) IH by (simp add: chars escape_chars_def special_def)
    next
      case k1: False
      then have k: "k = 1" using d(2) by simp
      obtain c s' where s: "s = c # s'" using False by (cases s) auto
      have c: "(of_char c :: nat) < 128" "r = of_char c"
        using d(1) ok(1) by (auto simp: s k Let_def split: if_split_asm option.split_asm dest: lead_byte_width)
      have "escapeLike s = (if special r then [CHR 0x5C, c] else [c]) @ escapeLike s'"
        by (simp add: s escapeLike_def special_char c(2))
      then show ?thesis
        using c IH by (simp add: chars escape_chars_def k s)
    qed
  qed (simp add: escape_chars_def)
qed

text \<open>What the pattern language does with the escaped query.\<close>

lemma like_escaped:
  "like eq (escape_chars q @ p) t \<longleftrightarrow> (\<exists>mid rest. t = mid @ rest \<and> list_all2 eq q mid \<and> like eq p rest)"
proof (induction q arbitrary: t)
  case (Cons c q)
  have "like eq (escape_chars (c # q) @ p) t \<longleftrightarrow> (\<exists>x t'. t = x # t' \<and> eq c x \<and> like eq (escape_chars q @ p) t')"
    by (cases t) (auto simp: escape_chars_def special_def)
  also have "\<dots> \<longleftrightarrow> (\<exists>mid rest. t = mid @ rest \<and> list_all2 eq (c # q) mid \<and> like eq p rest)"
    unfolding Cons.IH
  proof
    assume "\<exists>x t'. t = x # t' \<and> eq c x \<and> (\<exists>mid rest. t' = mid @ rest \<and> list_all2 eq q mid \<and> like eq p rest)"
    then obtain x mid rest where "t = (x # mid) @ rest" "list_all2 eq (c # q) (x # mid)" "like eq p rest" by auto
    then show "\<exists>mid rest. t = mid @ rest \<and> list_all2 eq (c # q) mid \<and> like eq p rest" by blast
  next
    assume "\<exists>mid rest. t = mid @ rest \<and> list_all2 eq (c # q) mid \<and> like eq p rest"
    then obtain mid rest where *: "t = mid @ rest" "list_all2 eq (c # q) mid" "like eq p rest" by blast
    then obtain x xs where "mid = x # xs" "eq c x" "list_all2 eq q xs" by (auto simp: list_all2_Cons1)
    with * show "\<exists>x t'. t = x # t' \<and> eq c x \<and> (\<exists>mid rest. t' = mid @ rest \<and> list_all2 eq q mid \<and> like eq p rest)"
      by (intro exI [of _ x] exI [of _ "xs @ rest"]) auto
  qed
  finally show ?case .
qed (simp add: escape_chars_def)

lemma like_percent: "like eq (37 # p) t \<longleftrightarrow> (\<exists>pre rest. t = pre @ rest \<and> like eq p rest)"
proof (induction t)
  case (Cons x t)
  have "like eq (37 # p) (x # t) \<longleftrightarrow> like eq p (x # t) \<or> like eq (37 # p) t" by simp
  also have "\<dots> \<longleftrightarrow> (\<exists>pre rest. x # t = pre @ rest \<and> like eq p rest)"
    unfolding Cons.IH by (auto simp: Cons_eq_append_conv)
  finally show ?case .
qed simp

text \<open>The text contains the query, character by character.\<close>

definition contains_text :: "(nat \<Rightarrow> nat \<Rightarrow> bool) \<Rightarrow> nat list \<Rightarrow> nat list \<Rightarrow> bool" where
  "contains_text eq q t \<longleftrightarrow> (\<exists>i. i + length q \<le> length t \<and> list_all2 eq q (take (length q) (drop i t)))"

lemma like_query:
  assumes "utf8_ValidString q"
  shows "like eq (chars_of (''%'' @ escapeLike q @ ''%'')) t \<longleftrightarrow> contains_text eq (chars_of q) t"
proof -
  have "like eq (chars_of (''%'' @ escapeLike q @ ''%'')) t
      \<longleftrightarrow> (\<exists>pre mid rest. t = pre @ mid @ rest \<and> list_all2 eq (chars_of q) mid)"
  proof -
    have "chars_of (''%'' @ escapeLike q @ ''%'') = 37 # (escape_chars (chars_of q) @ [37])"
      using escape_runes [OF assms, of "''%''"] by simp
    moreover have "like eq [37] w" for w
      unfolding like_percent [of eq "[]"] by simp
    ultimately show ?thesis
      by (simp only: like_percent like_escaped) blast
  qed
  also have "\<dots> \<longleftrightarrow> contains_text eq (chars_of q) t"
    unfolding contains_text_def
  proof
    assume "\<exists>pre mid rest. t = pre @ mid @ rest \<and> list_all2 eq (chars_of q) mid"
    then obtain pre mid rest where *: "t = pre @ mid @ rest" "list_all2 eq (chars_of q) mid" by blast
    then have "length mid = length (chars_of q)" by (simp add: list_all2_lengthD)
    with * show "\<exists>i. i + length (chars_of q) \<le> length t \<and> list_all2 eq (chars_of q) (take (length (chars_of q)) (drop i t))"
      by (intro exI [of _ "length pre"]) simp
  next
    assume "\<exists>i. i + length (chars_of q) \<le> length t \<and> list_all2 eq (chars_of q) (take (length (chars_of q)) (drop i t))"
    then obtain i where "list_all2 eq (chars_of q) (take (length (chars_of q)) (drop i t))" by blast
    moreover have "t = take i t @ take (length (chars_of q)) (drop i t) @ drop (length (chars_of q)) (drop i t)"
      by (metis append_take_drop_id)
    ultimately show "\<exists>pre mid rest. t = pre @ mid @ rest \<and> list_all2 eq (chars_of q) mid" by blast
  qed
  finally show ?thesis .
qed

text \<open>
  C16. A search is literal. The \<open>ILIKE\<close> pattern that the program builds matches exactly the texts that
  contain the query as written: percent signs, underscores and backslashes of the query stand for
  themselves, in every Unicode text. So the rows of a search are the messages of the text channels and
  threads of the guild that contain the query, for a caller who is a member, within the filters.
\<close>

theorem search_literal:
  assumes "utf8_ValidString (si_Query input)"
  shows "v \<in> set (search_rows eq db u g input) \<longleftrightarrow>
    (\<exists>m\<in>set (messages db). scanMessage db m = Some v \<and> is_member db g u
       \<and> (\<exists>c. find_by cr_id (channels db) (mr_channel m) = Some c \<and> cr_guild c = Some g \<and> cr_type c \<in> {ChannelTypeText, ChannelTypeThread})
       \<and> contains_text eq (chars_of (si_Query input)) (chars_of (mr_content m))
       \<and> (si_ChannelID input \<in> {None, Some (mr_channel m)}) \<and> (si_AuthorID input \<in> {None, Some (mr_author m)}))"
proof -
  have row: "((case find_by cr_id (channels db) (mr_channel m) of None \<Rightarrow> False
        | Some c \<Rightarrow> cr_guild c = Some g \<and> cr_type c \<in> {ChannelTypeText, ChannelTypeThread} \<and> is_member db g u)
      \<and> C \<and> (case si_ChannelID input of None \<Rightarrow> True | Some x \<Rightarrow> mr_channel m = x)
      \<and> (case si_AuthorID input of None \<Rightarrow> True | Some x \<Rightarrow> mr_author m = x))
    \<longleftrightarrow> is_member db g u
      \<and> (\<exists>c. find_by cr_id (channels db) (mr_channel m) = Some c \<and> cr_guild c = Some g \<and> cr_type c \<in> {ChannelTypeText, ChannelTypeThread})
      \<and> C \<and> si_ChannelID input \<in> {None, Some (mr_channel m)} \<and> si_AuthorID input \<in> {None, Some (mr_author m)}" for m C
    by (cases "find_by cr_id (channels db) (mr_channel m)"; cases "si_ChannelID input"; cases "si_AuthorID input") auto
  show ?thesis
    unfolding search_rows_def set_map_filter like_query [OF assms] set_filter mem_Collect_eq row by blast
qed

text \<open>A message of a percent sign is found by the query of a percent sign, one without is not.\<close>

theorem search_literal_witness:
  "search_rows (=) (demo_text\<lparr>messages := [demo_message\<lparr>mr_content := ''a%b''\<rparr>, demo_message\<lparr>mr_id := 501\<rparr>]\<rparr>) 2 100
     \<lparr>si_Query = ''%b'', si_ChannelID = None, si_AuthorID = None\<rparr> \<noteq> []"
proof -
  let ?db = "demo_text\<lparr>messages := [demo_message\<lparr>mr_content := ''a%b''\<rparr>, demo_message\<lparr>mr_id := 501\<rparr>]\<rparr>"
  let ?input = "\<lparr>si_Query = ''%b'', si_ChannelID = None, si_AuthorID = None\<rparr>"
  obtain v where v: "scanMessage ?db (demo_message\<lparr>mr_content := ''a%b''\<rparr>) = Some v"
    by (simp add: scanMessage_def demo)
  have "is_member ?db 100 2" by (simp add: is_member_def demo)
  moreover have "contains_text (=) (chars_of ''%b'') (chars_of ''a%b'')"
    unfolding contains_text_def by (intro exI [of _ 1]) simp
  moreover have "utf8_ValidString ''%b''"
    by (simp add: utf8_ValidString_def rune_error_def)
  ultimately have "v \<in> set (search_rows (=) ?db 2 100 ?input)"
    using v search_literal [of ?input v "(=)" ?db 2 100] by (simp add: demo)
  then show ?thesis by auto
qed

subsection \<open>Excerpts\<close>

text \<open>
  The excerpt of a result is at most 480 runes of the message, with an ellipsis before or after
  where something was cut, and it contains the first match of the query (of at most 100 runes)
  completely.
\<close>

lemma makeExcerpt_bounds:
  assumes "n = utf8_RuneCountInString query" and "n \<le> 100"
  shows "\<exists>a es b. makeExcerpt EqualFold content query = a @ string_of es @ b \<and> {a, b} \<subseteq> {[], ellipsis} \<and> length es \<le> 480
    \<and> (\<exists>i. es = take (length es) (drop i (runes content)))
    \<and> (\<forall>i. i + n \<le> length (runes content) \<and> EqualFold (string_of (take n (drop i (runes content)))) query
         \<and> (\<forall>j<i. \<not> EqualFold (string_of (take n (drop j (runes content)))) query)
         \<longrightarrow> (\<exists>pre post. es = pre @ take n (drop i (runes content)) @ post))"
proof -
  let ?rs = "runes content"
  define start where "start = max 0 (int (first_match EqualFold ?rs query) - excerptContextRuns)"
  define stop where "stop = min (start + excerptMaxRunes) (int (length ?rs))"
  let ?es = "take (nat stop - nat start) (drop (nat start) ?rs)"
  have eq: "makeExcerpt EqualFold content query = (if start > 0 then ellipsis else []) @ string_of ?es @ (if stop < int (length ?rs) then ellipsis else [])"
    by (simp add: makeExcerpt_def Let_def start_def stop_def)
  have len: "length ?es \<le> 480"
    by (simp add: stop_def start_def excerptMaxRunes_def)
  have "\<exists>pre post. ?es = pre @ take n (drop i ?rs) @ post"
    if i: "i + n \<le> length ?rs" "EqualFold (string_of (take n (drop i ?rs))) query"
      "\<forall>j<i. \<not> EqualFold (string_of (take n (drop j ?rs))) query" for i
  proof -
    let ?P = "\<lambda>i. EqualFold (string_of (take n (drop i ?rs))) query"
    have "List.find ?P [0..<length ?rs + 1 - n] = Some i"
      unfolding find_Some_iff using i by (intro exI [of _ i]) auto
    then have f: "first_match EqualFold ?rs query = i"
      unfolding first_match_def Let_def assms(1) [symmetric] by simp
    have s: "nat start \<le> i" "i + n \<le> nat stop"
      using i(1) assms(2) by (auto simp: start_def stop_def f excerptContextRuns_def excerptMaxRunes_def)
    let ?k = "i - nat start"
    have "take n (drop ?k ?es) = take n (drop i ?rs)"
      using s by (simp add: drop_take min_def)
    then show ?thesis
      by (metis append_take_drop_id)
  qed
  with len eq show ?thesis
    by (intro exI [of _ "if start > 0 then ellipsis else []"] exI [of _ ?es] exI [of _ "if stop < int (length ?rs) then ellipsis else []"])
      (auto intro!: exI [of _ "nat start"])
qed

theorem makeExcerpt_bounds_witness:
  "\<exists>a es b. makeExcerpt (=) ''hello'' ''ll'' = a @ string_of es @ b \<and> {a, b} \<subseteq> {[], ellipsis} \<and> length es \<le> 480"
proof -
  have "utf8_RuneCountInString ''ll'' \<le> 100"
    by (simp add: utf8_RuneCountInString_def)
  from makeExcerpt_bounds [OF refl this, of "(=)" "''hello''"] show ?thesis by blast
qed

subsection \<open>Read positions\<close>

text \<open>The message a user has read up to, while it exists, by instant and identifier.\<close>

definition read_position :: "chat_db \<Rightarrow> uuid \<Rightarrow> uuid \<Rightarrow> (time \<times> uuid) option" where
  "read_position db u c =
     (case find_by read_key (read_states db) (u, c) of None \<Rightarrow> None
      | Some r \<Rightarrow> map_option (\<lambda>m. (mr_created m, mr_id m)) (find_by mr_id (messages db) (rd_message r)))"

lemma find_by_update_same:
  assumes "find_by key t k = Some r" and "\<And>x. key (f x) = k"
  shows "find_by key (update_where (\<lambda>x. key x = k) f t) k = Some (f r)"
  using assms by (induction t) (auto simp: update_where_def split: if_splits)

lemma find_by_update_other:
  assumes "k' \<noteq> k" and "\<And>x. key (f x) = k"
  shows "find_by key (update_where (\<lambda>x. key x = k) f t) k' = find_by key t k'"
  using assms by (induction t) (auto simp: update_where_def)


text \<open>The member marks the message as read.\<close>

lemma demo_read:
  "UpdateReadState 9 demo_text 2 400 500 = (Inr (\<lparr>rs_ChannelID = 400, rs_LastReadMessageID = Some 500, rs_UpdatedAt = 9\<rparr>, True),
     demo_text\<lparr>read_states := [\<lparr>rd_user = 2, rd_channel = 400, rd_message = 500, rd_updated = 9\<rparr>]\<rparr>)"
  by (simp add: UpdateReadState_def Store_UpdateReadState_def find_message_def demo)


subsection \<open>Pages of messages\<close>

lemma distinct_channel_messages:
  assumes "messages_ok db"
  shows "distinct (map message_page_key (channel_messages db u c))"
proof (cases "text_access db u c")
  case True
  have "distinct (map mr_id (filter (\<lambda>m. mr_channel m = c) (messages db)))"
    using assms by (simp add: messages_ok_def distinct_map_filter)
  then have "distinct (map m_ID (List.map_filter (scanMessage db) (filter (\<lambda>m. mr_channel m = c) (messages db))))"
    by (rule distinct_map_filter_key) (auto simp: scanMessage_def)
  then show ?thesis
    using True by (simp add: channel_messages_def distinct_map_pair)
qed (simp add: channel_messages_def)

lemma channel_messages_ids:
  assumes "messages_ok db" and "text_access db u c"
  shows "m_ID ` set (channel_messages db u c) = {i. find_message db c i \<noteq> None}"
proof -
  have scans: "\<exists>v. scanMessage db m = Some v" if m: "m \<in> set (messages db)" for m
  proof -
    have "mr_author m \<in> keys us_ID (users db)"
      using m assms(1) by (simp add: messages_ok_def)
    then show ?thesis
      using find_by_None_iff [of us_ID "users db" "mr_author m"] by (auto simp: scanMessage_def)
  qed
  have id: "scanMessage db m = Some v \<Longrightarrow> m_ID v = mr_id m" for m v
    by (auto simp: scanMessage_def)
  have "m_ID ` set (channel_messages db u c) = mr_id ` {m \<in> set (messages db). mr_channel m = c}"
  proof
    show "m_ID ` set (channel_messages db u c) \<subseteq> mr_id ` {m \<in> set (messages db). mr_channel m = c}"
      using assms(2) id by (auto simp: channel_messages_def set_map_filter)
    show "mr_id ` {m \<in> set (messages db). mr_channel m = c} \<subseteq> m_ID ` set (channel_messages db u c)"
    proof
      fix i assume "i \<in> mr_id ` {m \<in> set (messages db). mr_channel m = c}"
      then obtain m v where "m \<in> set (messages db)" "mr_channel m = c" "i = mr_id m" "scanMessage db m = Some v"
        using scans by blast
      then have "v \<in> set (channel_messages db u c)" "i = m_ID v"
        using assms(2) id by (auto simp: channel_messages_def set_map_filter)
      then show "i \<in> m_ID ` set (channel_messages db u c)" by blast
    qed
  qed
  also have "\<dots> = {i. find_message db c i \<noteq> None}"
  proof -
    have "find_message db c (mr_id m) \<noteq> None" if m: "m \<in> set (messages db)" "mr_channel m = c" for m
      using find_by_distinct [of mr_id "messages db" m] assms(1) m by (simp add: messages_ok_def find_message_def)
    then show ?thesis
      by (auto dest!: find_message_Some)
  qed
  finally show ?thesis .
qed

abbreviation message_cursor :: "Message \<Rightarrow> pageCursor" where
  "message_cursor m \<equiv> \<lparr>pc_Kind = cursorMessages, pc_Time = m_CreatedAt m, pc_Position = 0, pc_ID = m_ID m\<rparr>"

lemma channelPage_map:
  assumes "\<And>r. cursor (f r) = cursor' r"
  shows "channelPage json limit cursor item (map f rows) = channelPage json limit cursor' (\<lambda>r. item (f r)) rows"
  unfolding channelPage_def Let_def by (auto simp: take_map last_map assms comp_def split: sum.split)

text \<open>
  C14. Reading a channel back terminates and is complete. For every page size from 1 to 100, a client
  that follows the cursors of \<open>ListMessages\<close> is done after as many requests as full pages hold the
  messages (one for an empty channel), and has then received every message of the channel exactly once,
  newest first. The JSON codec of the cursors is any that reads back what it wrote.
\<close>

theorem ListMessages_complete:
  assumes "chat_inv db" and "text_access db u c" and "1 \<le> limit \<and> limit \<le> 100"
    and "length (channel_messages db u c) \<le> requests * nat limit \<and> 0 < requests"
    and "\<forall>m\<in>set (channel_messages db u c). json_codes json (message_cursor m) \<and> cursor_ok (message_cursor m)"
  shows "walk requests (\<lambda>v. ListMessages json db u c v limit) []
      = Some (map (populateMessageReactions db u) (rev (sort_key message_page_key (channel_messages db u c))))
    \<and> m_ID ` set (channel_messages db u c) = {i. find_message db c i \<noteq> None}"
proof
  have ok: "messages_ok db"
    using assms(1) by (simp add: chat_inv_def text_inv_def)
  have page: "channelPage json limit message_cursor (\<lambda>m. m) (map (populateMessageReactions db u) rows)
      = channelPage json limit message_cursor (populateMessageReactions db u) rows" for rows
    by (rule channelPage_map) (simp add: populateMessageReactions_def)
  show "walk requests (\<lambda>v. ListMessages json db u c v limit) []
      = Some (map (populateMessageReactions db u) (rev (sort_key message_page_key (channel_messages db u c))))"
    using assms(2-5) distinct_channel_messages [OF ok]
    by (intro desc.walk_pages [where kind = cursorMessages and cursor = message_cursor])
      (auto simp: ListMessages_def Store_ListMessages_def validateLimit_def decodeCursor_def [of _ "[]"] page)
  show "m_ID ` set (channel_messages db u c) = {i. find_message db c i \<noteq> None}"
    by (rule channel_messages_ids [OF ok assms(2)])
qed

theorem ListMessages_complete_witness:
  "walk 1 (\<lambda>v. ListMessages \<lparr>json_Marshal = \<lambda>c. Some ''c'', json_Unmarshal = \<lambda>s. Some \<lparr>pc_Kind = cursorMessages, pc_Time = 6, pc_Position = 0, pc_ID = 500\<rparr>\<rparr>
      demo_text 3 400 v 50) [] \<noteq> None"
proof -
  let ?json = "\<lparr>json_Marshal = \<lambda>c. Some ''c'', json_Unmarshal = \<lambda>s. Some \<lparr>pc_Kind = cursorMessages, pc_Time = 6, pc_Position = 0, pc_ID = 500\<rparr>\<rparr>"
  obtain v where scan: "scanMessage demo_text demo_message = Some v"
    by (simp add: scanMessage_def demo)
  then have v: "m_CreatedAt v = 6" "m_ID v = 500"
    by (auto simp: scanMessage_def demo)
  have ms: "channel_messages demo_text 3 400 = [v]"
    by (simp add: channel_messages_def demo scan List.map_filter_simps)
  have codes: "\<forall>m\<in>set (channel_messages demo_text 3 400). json_codes ?json (message_cursor m) \<and> cursor_ok (message_cursor m)"
    by (simp add: json_codes_def cursor_ok_def v ms)
  have "text_access demo_text 3 400" "1 \<le> (50::int) \<and> (50::int) \<le> 100"
      "length (channel_messages demo_text 3 400) \<le> 1 * nat 50 \<and> 0 < (1::nat)"
    by (simp_all add: demo ms)
  note complete = ListMessages_complete [OF demo_text_inv this codes]
  show ?thesis
    unfolding conjunct1 [OF complete] by (rule option.distinct(2))
qed

subsection \<open>Shapes of channels\<close>

text \<open>
  C40. In every state a run reaches, a channel is of one of two shapes. A direct channel has no guild,
  no name, no topic and no parent, and exactly two participants, who are users. Every other channel
  belongs to a guild that exists, has a name of 1 to 100 characters, and its participants are exactly
  the members of the guild; only a text channel has a topic, and a category has no parent. Positions
  fit the 32 bits of the column.
\<close>

theorem channel_shapes:
  assumes "chat_run media s" and "ch \<in> set (channels (fst s))"
  shows "(case cr_guild ch of
      None \<Rightarrow> cr_type ch = ChannelTypeDirect \<and> cr_name ch = None \<and> cr_topic ch = None \<and> cr_parent ch = None
        \<and> (\<exists>a b. a \<noteq> b \<and> set (participants (fst s) ch) = {a, b} \<and> {a, b} \<subseteq> keys us_ID (users (fst s)))
    | Some g \<Rightarrow> cr_type ch \<noteq> ChannelTypeDirect \<and> g \<in> keys g_ID (guilds (fst s))
        \<and> (\<exists>n. cr_name ch = Some n \<and> char_length_between 1 100 n)
        \<and> set (participants (fst s) ch) = {u. is_member (fst s) g u}
        \<and> (cr_topic ch \<noteq> None \<longrightarrow> cr_type ch = ChannelTypeText) \<and> (cr_type ch = ChannelTypeCategory \<longrightarrow> cr_parent ch = None))
    \<and> 0 \<le> cr_position ch \<and> cr_position ch < 2 ^ 31"
proof -
  let ?db = "fst s"
  have inv: "text_inv ?db"
    using chat_run_inv [OF assms(1)] by (simp add: chat_inv_def)
  have ok: "channel_row_ok ch" "refers (cr_guild ch) (keys g_ID (guilds ?db))"
    using inv assms(2) by (simp_all add: text_inv_def channels_ok_def)
  have dm: "{u. (cr_id ch, u) \<in> set (dm_participants ?db)} = direct_users ch" "refers (cr_dm_key ch) {(a, b). a < b}"
    using inv assms(2) by (simp_all add: text_inv_def directs_ok_def)
  have "\<forall>(x, u)\<in>set (dm_participants ?db). x \<in> keys cr_id (channels ?db) \<and> u \<in> keys us_ID (users ?db)"
    using inv by (simp add: text_inv_def directs_ok_def)
  then have "u \<in> keys us_ID (users ?db)" if "(cr_id ch, u) \<in> set (dm_participants ?db)" for u
    using that by auto
  then have users: "direct_users ch \<subseteq> keys us_ID (users ?db)"
    using dm(1) by blast
  have own: "snd ` set (filter (\<lambda>(x, _). x = cr_id ch) (dm_participants ?db)) = direct_users ch"
    using dm(1) by force
  show ?thesis
  proof (cases "cr_guild ch")
    case None
    then obtain a b where "cr_dm_key ch = Some (a, b)"
      using ok(1) by (auto simp: channel_row_ok_def)
    then have "a \<noteq> b" "set (participants ?db ch) = {a, b}" "{a, b} \<subseteq> keys us_ID (users ?db)"
      using dm(2) own users None by (auto simp: participants_def direct_users_def)
    then show ?thesis
      using ok(1) None by (auto simp: channel_row_ok_def int4_def split: option.split_asm)
  next
    case (Some g)
    then have "cr_dm_key ch = None" using ok(1) by (auto simp: channel_row_ok_def)
    then have "set (participants ?db ch) = {u. is_member ?db g u}"
      using own Some by (force simp: participants_def direct_users_def is_member_def)
    then show ?thesis
      using ok Some by (auto simp: channel_row_ok_def int4_def split: option.split_asm)
  qed
qed

lemma demo_direct_run:
  "chat_run media ((empty_db\<lparr>users := [demo_user 1 ''ann'', demo_user 2 ''bob'']\<rparr>), objs)"
proof -
  have "chat_step media (empty_db\<lparr>users := [demo_user 1 ''ann'']\<rparr>, objs)
     ((empty_db\<lparr>users := [demo_user 1 ''ann'']\<rparr>)\<lparr>users := users (empty_db\<lparr>users := [demo_user 1 ''ann'']\<rparr>) @ [demo_user 2 ''bob'']\<rparr>, objs)"
    by (rule chat_step.register) simp
  from chat_run.step [OF demo_run this] show ?thesis by simp
qed

theorem channel_shapes_witness:
  "\<exists>ch\<in>set (channels (snd (OpenDirectChannel (Some 400) 9 (empty_db\<lparr>users := [demo_user 1 ''ann'', demo_user 2 ''bob'']\<rparr>) 1 2))). cr_name ch = None"
proof -
  let ?run = "OpenDirectChannel (Some 400) 9 (empty_db\<lparr>users := [demo_user 1 ''ann'', demo_user 2 ''bob'']\<rparr>) 1 2"
  have "chat_step (MemoryStorage_methods (\<lambda>s. s)) (empty_db\<lparr>users := [demo_user 1 ''ann'', demo_user 2 ''bob'']\<rparr>, objs) (snd ?run, objs)" for objs
    by (rule chat_step.open_direct [OF prod.collapse [symmetric]])
  note reached = chat_run.step [OF demo_direct_run this]
  obtain ch where "ch \<in> set (channels (snd ?run))" "cr_guild ch = None"
    by (simp add: OpenDirectChannel_def Store_OpenDirectChannel_def newUUIDv7_def dm_pair_def empty_db_def Let_def)
  with channel_shapes [OF reached, of ch] show ?thesis by auto
qed

end
