(* ===== verification/Gateway_Protocol.thy ===== *)
theory Gateway_Protocol
  imports Prelude
begin

section \<open>The gateway's protocol\<close>

text \<open>
  \<open>internal/gateway/protocol.go\<close>: operation codes, intents, the values the rest of the server
  publishes and the payloads the gateway makes of them. The Go types of the published values are
  called \<open>Message\<close>, \<open>Member\<close>, \<open>Channel\<close>, \<dots> as those of package \<open>chat\<close>; here their
  names start with \<open>Event\<close>. The field \<open>D any\<close> of a frame is the sum \<open>event_data\<close> of what
  the gateway puts there.
\<close>

type_synonym op = int

definition opDispatch :: op where "opDispatch = 0"
definition opHeartbeat :: op where "opHeartbeat = 1"
definition opIdentify :: op where "opIdentify = 2"
definition opResume :: op where "opResume = 6"
definition opInvalidSession :: op where "opInvalidSession = 9"
definition opHello :: op where "opHello = 10"
definition opHeartbeatAck :: op where "opHeartbeatAck = 11"

type_synonym intents = "64 word"

definition intentGuilds :: intents where "intentGuilds = push_bit 0 1"
definition intentGuildMembers :: intents where "intentGuildMembers = push_bit 1 1"
definition intentGuildMessages :: intents where "intentGuildMessages = push_bit 2 1"
definition intentDirectMessages :: intents where "intentDirectMessages = push_bit 3 1"
definition intentMessageContent :: intents where "intentMessageContent = push_bit 4 1"
definition intentGuildVoiceStates :: intents where "intentGuildVoiceStates = push_bit 5 1"
definition intentGuildPresences :: intents where "intentGuildPresences = push_bit 6 1"
definition intentReactions :: intents where "intentReactions = push_bit 7 1"
definition intentTyping :: intents where "intentTyping = push_bit 9 1"

named_theorems intent_defs \<open>the intents as numbers\<close>

declare intentGuilds_def [intent_defs] intentGuildMembers_def [intent_defs] intentGuildMessages_def [intent_defs]
  intentDirectMessages_def [intent_defs] intentMessageContent_def [intent_defs] intentGuildVoiceStates_def [intent_defs]
  intentGuildPresences_def [intent_defs] intentReactions_def [intent_defs] intentTyping_def [intent_defs]

subsection \<open>Events\<close>

definition eventReady :: string where "eventReady = ''READY''"
definition eventResumed :: string where "eventResumed = ''RESUMED''"
definition eventChannelCreate :: string where "eventChannelCreate = ''CHANNEL_CREATE''"
definition eventChannelUpdate :: string where "eventChannelUpdate = ''CHANNEL_UPDATE''"
definition eventChannelDelete :: string where "eventChannelDelete = ''CHANNEL_DELETE''"
definition eventReadStateUpdate :: string where "eventReadStateUpdate = ''READ_STATE_UPDATE''"
definition eventVoiceStateUpdate :: string where "eventVoiceStateUpdate = ''VOICE_STATE_UPDATE''"
definition eventMemberJoin :: string where "eventMemberJoin = ''MEMBER_JOIN''"
definition eventMemberUpdate :: string where "eventMemberUpdate = ''MEMBER_UPDATE''"
definition eventMemberLeave :: string where "eventMemberLeave = ''MEMBER_LEAVE''"
definition eventPresenceUpdate :: string where "eventPresenceUpdate = ''PRESENCE_UPDATE''"
definition eventMessageCreate :: string where "eventMessageCreate = ''MESSAGE_CREATE''"
definition eventMessageUpdate :: string where "eventMessageUpdate = ''MESSAGE_UPDATE''"
definition eventMessageDelete :: string where "eventMessageDelete = ''MESSAGE_DELETE''"
definition eventMessageReactionAdd :: string where "eventMessageReactionAdd = ''MESSAGE_REACTION_ADD''"
definition eventMessageReactionRemove :: string where "eventMessageReactionRemove = ''MESSAGE_REACTION_REMOVE''"
definition eventTypingStart :: string where "eventTypingStart = ''TYPING_START''"

subsection \<open>Published values\<close>

record EventUser =
  eu_ID :: uuid
  eu_DisplayName :: string
  eu_AvatarURL :: "string option"

record EventAttachment =
  ea_ID :: uuid
  ea_UploaderID :: uuid
  ea_ChannelID :: uuid
  ea_Filename :: string
  ea_ContentType :: string
  ea_Size :: int
  ea_ChecksumSHA256 :: string
  ea_Status :: string
  ea_DownloadURL :: string
  ea_CreatedAt :: time

record EventReply =
  er_ID :: uuid
  er_ChannelID :: uuid
  er_Author :: EventUser
  er_Content :: string
  er_CreatedAt :: time
  er_EditedAt :: "time option"

record EventMessage =
  em_Direct :: bool
  em_Attachments :: "EventAttachment list"
  em_ID :: uuid
  em_ChannelID :: uuid
  em_Author :: EventUser
  em_Content :: string
  em_ReplyToMessageID :: "uuid option"
  em_ReplyTo :: "EventReply option"
  em_CreatedAt :: time
  em_EditedAt :: "time option"

record EventReaction =
  ex_MessageID :: uuid
  ex_ChannelID :: uuid
  ex_UserID :: uuid
  ex_Emoji :: string
  ex_Count :: int

record EventTyping =
  ety_ChannelID :: uuid
  ety_User :: EventUser
  ety_StartedAt :: time

record EventPresence =
  ep_UserID :: uuid
  ep_Status :: string
  ep_CustomText :: "string option"
  ep_UpdatedAt :: time

text \<open>A nil slice and an empty one are two values in Go: \<open>None\<close> and \<open>Some []\<close>.\<close>

record EventMember =
  eme_GuildID :: uuid
  eme_User :: EventUser
  eme_Nickname :: "string option"
  eme_RoleIDs :: "uuid list option"
  eme_JoinedAt :: time
  eme_Presence :: "EventPresence option"

record EventChannel =
  ec_ID :: uuid
  ec_GuildID :: "uuid option"
  ec_ParentID :: "uuid option"
  ec_Type :: string
  ec_Name :: "string option"
  ec_Topic :: "string option"
  ec_Position :: int
  ec_CreatedAt :: time
  ec_Recipients :: "EventUser list"

record EventReadState =
  ers_ChannelID :: uuid
  ers_LastReadMessageID :: "uuid option"
  ers_UpdatedAt :: time

record EventVoiceState =
  evs_UserID :: uuid
  evs_ChannelID :: "uuid option"
  evs_SessionID :: "uuid option"
  evs_SelfMute :: bool
  evs_SelfDeaf :: bool
  evs_SelfVideo :: bool
  evs_SelfStream :: bool
  evs_UpdatedAt :: time

subsection \<open>Payloads\<close>

record userPayload =
  up_ID :: uuid
  up_DisplayName :: string
  up_AvatarURL :: "string option"

record messageReplyPayload =
  mrp_ID :: uuid
  mrp_ChannelID :: uuid
  mrp_Author :: userPayload
  mrp_Content :: "string option"
  mrp_CreatedAt :: time
  mrp_EditedAt :: "time option"

text \<open>\<open>attachmentPayload\<close> has the fields of the event's attachment; the code converts one into the other.\<close>

record messagePayload =
  mp_ID :: uuid
  mp_ChannelID :: uuid
  mp_Author :: userPayload
  mp_Content :: "string option"
  mp_ReplyToMessageID :: "uuid option"
  mp_ReplyTo :: "messageReplyPayload option"
  mp_Attachments :: "EventAttachment list"
  mp_CreatedAt :: time
  mp_EditedAt :: "time option"

record messageReactionPayload =
  xp_MessageID :: uuid
  xp_ChannelID :: uuid
  xp_UserID :: uuid
  xp_Emoji :: string
  xp_Count :: int

record typingStartPayload =
  tp_ChannelID :: uuid
  tp_User :: userPayload
  tp_StartedAt :: time

record presencePayload =
  pp_UserID :: uuid
  pp_Status :: string
  pp_CustomText :: "string option"
  pp_UpdatedAt :: time

record memberPayload =
  mep_GuildID :: uuid
  mep_User :: userPayload
  mep_Nickname :: "string option"
  mep_RoleIDs :: "uuid list"
  mep_JoinedAt :: time
  mep_Presence :: presencePayload

record channelPayload =
  cp_ID :: uuid
  cp_GuildID :: "uuid option"
  cp_ParentID :: "uuid option"
  cp_Type :: string
  cp_Name :: "string option"
  cp_Topic :: "string option"
  cp_Position :: int
  cp_CreatedAt :: time
  cp_Recipients :: "userPayload list"

datatype event_data =
    HelloData int
  | ReadyData uuid string
  | EmptyData
  | NullData
  | ResumableData bool
  | MessageData messagePayload
  | MessageDeleteData uuid uuid
  | ReactionData messageReactionPayload
  | TypingData typingStartPayload
  | ChannelData channelPayload
  | ChannelDeleteData uuid "uuid option"
  | MemberData memberPayload
  | MemberLeaveData uuid uuid
  | PresenceData uuid presencePayload
  | ReadStateData EventReadState
  | VoiceStateData EventVoiceState

record gatewayMessage =
  gwm_Op :: op
  gwm_T :: string
  gwm_S :: "int option"
  gwm_D :: event_data

definition user_payload :: "EventUser \<Rightarrow> userPayload" where
  "user_payload u = \<lparr>up_ID = eu_ID u, up_DisplayName = eu_DisplayName u, up_AvatarURL = eu_AvatarURL u\<rparr>"

definition messageEventPayload :: "EventMessage \<Rightarrow> bool \<Rightarrow> messagePayload" where
  "messageEventPayload m includeContent = \<lparr>
     mp_ID = em_ID m, mp_ChannelID = em_ChannelID m, mp_Author = user_payload (em_Author m),
     mp_Content = (if includeContent then Some (em_Content m) else None),
     mp_ReplyToMessageID = em_ReplyToMessageID m,
     mp_ReplyTo = (case em_ReplyTo m of None \<Rightarrow> None
       | Some r \<Rightarrow> Some \<lparr>mrp_ID = er_ID r, mrp_ChannelID = er_ChannelID r, mrp_Author = user_payload (er_Author r),
           mrp_Content = (if includeContent then Some (er_Content r) else None),
           mrp_CreatedAt = er_CreatedAt r, mrp_EditedAt = er_EditedAt r\<rparr>),
     mp_Attachments = em_Attachments m, mp_CreatedAt = em_CreatedAt m, mp_EditedAt = em_EditedAt m\<rparr>"

definition presenceEventPayload :: "EventPresence \<Rightarrow> presencePayload" where
  "presenceEventPayload p = \<lparr>pp_UserID = ep_UserID p, pp_Status = ep_Status p, pp_CustomText = ep_CustomText p,
     pp_UpdatedAt = ep_UpdatedAt p\<rparr>"

definition nonNilIDs :: "uuid list option \<Rightarrow> uuid list" where
  "nonNilIDs ids = (case ids of None \<Rightarrow> [] | Some xs \<Rightarrow> xs)"

definition memberEventPayload :: "EventMember \<Rightarrow> memberPayload" where
  "memberEventPayload m = \<lparr>mep_GuildID = eme_GuildID m, mep_User = user_payload (eme_User m),
     mep_Nickname = eme_Nickname m, mep_RoleIDs = nonNilIDs (eme_RoleIDs m), mep_JoinedAt = eme_JoinedAt m,
     mep_Presence = (case eme_Presence m of
         None \<Rightarrow> \<lparr>pp_UserID = eu_ID (eme_User m), pp_Status = ''OFFLINE'', pp_CustomText = None, pp_UpdatedAt = eme_JoinedAt m\<rparr>
       | Some p \<Rightarrow> presenceEventPayload p)\<rparr>"

definition channelEventPayload :: "EventChannel \<Rightarrow> channelPayload" where
  "channelEventPayload c = \<lparr>cp_ID = ec_ID c, cp_GuildID = ec_GuildID c, cp_ParentID = ec_ParentID c, cp_Type = ec_Type c,
     cp_Name = ec_Name c, cp_Topic = ec_Topic c, cp_Position = ec_Position c, cp_CreatedAt = ec_CreatedAt c,
     cp_Recipients = map user_payload (ec_Recipients c)\<rparr>"

definition messageIntent :: "bool \<Rightarrow> intents" where
  "messageIntent direct = (if direct then intentDirectMessages else intentGuildMessages)"

definition channelIntent :: "EventChannel \<Rightarrow> intents" where
  "channelIntent c = (if ec_GuildID c = None then intentDirectMessages else intentGuilds)"

text \<open>What a payload tells of a message's text.\<close>

definition texts_of :: "event_data \<Rightarrow> string option list" where
  "texts_of d = (case d of MessageData p \<Rightarrow> mp_Content p # (case mp_ReplyTo p of None \<Rightarrow> [] | Some r \<Rightarrow> [mrp_Content r]) | _ \<Rightarrow> [])"

lemma messageEventPayload_hides_text:
  "set (texts_of (MessageData (messageEventPayload m False))) \<subseteq> {None}"
  by (auto simp: texts_of_def messageEventPayload_def split: option.splits)

end
