(* ===== verification/Gateway_Hub.thy ===== *)
theory Gateway_Hub
  imports Gateway_Protocol
begin

section \<open>Gateway sessions\<close>

text \<open>
  \<open>internal/gateway/hub.go\<close> and the \<open>client\<close> of \<open>service.go\<close>: sessions with their buffers of
  events, the index of the sessions of a user, and the queues of the connections. A connection
  is a number, its client the value \<open>h_conn\<close> has there, so that sessions share clients by
  pointer as in the code. Every method of the hub runs under its lock and is one step.

  \<open>marshal\<close> is \<open>json.Marshal\<close> on frames (\<open>None\<close> its error); \<open>now\<close> the clock's reading. Go
  iterates maps in random order: the model takes the order of insertion, and the sessions a
  publication touches are written independently. A goroutine started with \<open>go h.onUserGone\<close>
  is recorded in \<open>h_gone\<close>.
\<close>

subsection \<open>Clients\<close>

text \<open>
  \<open>cl_send\<close> is the channel with its capacity, \<open>cl_done\<close> whether \<open>done\<close> is closed,
  \<open>cl_written\<close> the frames written to the socket. When the channel has room and \<open>done\<close> is
  closed, \<open>select\<close> takes either case: \<open>cl_pick\<close> holds what it will take, next one first.
\<close>

record 'p client =
  cl_size :: nat
  cl_send :: "'p list"
  cl_done :: bool
  cl_written :: "'p list"
  cl_pick :: "bool list"

definition newClient :: "nat \<Rightarrow> bool list \<Rightarrow> 'p client" where
  "newClient queueSize pick = \<lparr>cl_size = queueSize, cl_send = [], cl_done = False, cl_written = [], cl_pick = pick\<rparr>"

definition terminate :: "'p client \<Rightarrow> 'p client" where
  "terminate c = c\<lparr>cl_done := True\<rparr>"

definition enqueue :: "'p client \<Rightarrow> 'p \<Rightarrow> bool \<times> 'p client" where
  "enqueue c payload =
     (if cl_done c
      then if length (cl_send c) < cl_size c
           then (case cl_pick c of [] \<Rightarrow> (False, c)
                 | b # bs \<Rightarrow> if b then (True, c\<lparr>cl_send := cl_send c @ [payload], cl_pick := bs\<rparr>)
                            else (False, c\<lparr>cl_pick := bs\<rparr>))
           else (False, c)
      else if length (cl_send c) < cl_size c then (True, c\<lparr>cl_send := cl_send c @ [payload]\<rparr>)
      else (False, terminate c))"

text \<open>One round of \<open>writeLoop\<close>: a closed client writes nothing more, a failed write closes it.\<close>

definition writeLoop_step :: "bool \<Rightarrow> 'p client \<Rightarrow> 'p client" where
  "writeLoop_step written c =
     (case cl_send c of [] \<Rightarrow> c
      | payload # rest \<Rightarrow>
          if cl_done c then c
          else if written then c\<lparr>cl_send := rest, cl_written := cl_written c @ [payload]\<rparr>
          else terminate (c\<lparr>cl_send := rest\<rparr>))"

subsection \<open>Sessions and the hub\<close>

record 'p session =
  s_id :: uuid
  s_userID :: uuid
  s_intents :: intents
  s_sequence :: int
  s_events :: "(int \<times> 'p) list"
  s_client :: "nat option"
  s_disconnectedAt :: "time option"

record 'p hub =
  h_sessions :: "'p session list"
  h_byUser :: "uuid \<Rightarrow> uuid list option"
  h_gatewayURL :: string
  h_retention :: duration
  h_buffer :: nat
  h_conn :: "nat \<Rightarrow> 'p client"
  h_gone :: "uuid list"

definition maxSessions :: nat where "maxSessions = 10000"
definition maxSessionsPerUser :: nat where "maxSessionsPerUser = 10"

definition newHub :: "string \<Rightarrow> duration \<Rightarrow> nat \<Rightarrow> (nat \<Rightarrow> 'p client) \<Rightarrow> 'p hub" where
  "newHub url retention bufferSize conn = \<lparr>h_sessions = [], h_byUser = (\<lambda>_. None), h_gatewayURL = url,
     h_retention = retention, h_buffer = bufferSize, h_conn = conn, h_gone = []\<rparr>"

definition user_sessions :: "'p hub \<Rightarrow> uuid \<Rightarrow> uuid list" where
  "user_sessions h u = (case h_byUser h u of None \<Rightarrow> [] | Some ids \<Rightarrow> ids)"

definition put_session :: "'p session \<Rightarrow> 'p hub \<Rightarrow> 'p hub" where
  "put_session s h = h\<lparr>h_sessions := update_where (\<lambda>x. s_id x = s_id s) (\<lambda>_. s) (h_sessions h)\<rparr>"

definition enqueue_on :: "nat \<Rightarrow> 'p \<Rightarrow> 'p hub \<Rightarrow> bool \<times> 'p hub" where
  "enqueue_on k payload h = (let (sent, c) = enqueue (h_conn h k) payload in (sent, h\<lparr>h_conn := (h_conn h)(k := c)\<rparr>))"

definition terminate_on :: "nat \<Rightarrow> 'p hub \<Rightarrow> 'p hub" where
  "terminate_on k h = h\<lparr>h_conn := (h_conn h)(k := terminate (h_conn h k))\<rparr>"

definition appendEvent :: "nat \<Rightarrow> 'p session \<Rightarrow> int \<times> 'p \<Rightarrow> 'p session" where
  "appendEvent bufferSize s event =
     (let events = s_events s @ [event]
      in s\<lparr>s_events := (if length events > bufferSize then drop (length events - bufferSize) events else events)\<rparr>)"

definition detach_session :: "time \<Rightarrow> 'p session \<Rightarrow> nat \<Rightarrow> 'p session" where
  "detach_session now s k =
     (if s_client s \<noteq> Some k then s else s\<lparr>s_client := None, s_disconnectedAt := Some now\<rparr>)"

text \<open>\<open>removeLocked\<close>: the last session of a user starts the callback.\<close>

definition removeLocked :: "'p session \<Rightarrow> 'p hub \<Rightarrow> 'p hub" where
  "removeLocked s h =
     (let rest = filter (\<lambda>i. i \<noteq> s_id s) (user_sessions h (s_userID s));
          h' = h\<lparr>h_sessions := delete_where (\<lambda>x. s_id x = s_id s) (h_sessions h),
                 h_byUser := (h_byUser h)(s_userID s := (if h_byUser h (s_userID s) = None then None else Some rest))\<rparr>
      in if rest = []
         then h'\<lparr>h_byUser := (h_byUser h')(s_userID s := None), h_gone := h_gone h' @ [s_userID s]\<rparr>
         else h')"

definition expired_session :: "time \<Rightarrow> 'p hub \<Rightarrow> 'p session \<Rightarrow> bool" where
  "expired_session now h s \<longleftrightarrow> (case s_disconnectedAt s of None \<Rightarrow> False | Some t \<Rightarrow> now - t \<ge> h_retention h)"

definition pruneLocked :: "time \<Rightarrow> 'p hub \<Rightarrow> 'p hub" where
  "pruneLocked now h = fold (\<lambda>s h. if expired_session now h s then removeLocked s h else h) (h_sessions h) h"

text \<open>\<open>dispatchLocked\<close>: the sequence number is spent even when the frame cannot be encoded.\<close>

definition dispatchLocked ::
  "(gatewayMessage \<Rightarrow> 'p option) \<Rightarrow> time \<Rightarrow> 'p session \<Rightarrow> string \<Rightarrow> event_data \<Rightarrow> 'p hub \<Rightarrow> bool \<times> 'p hub" where
  "dispatchLocked marshal now s eventName data h =
     (let sequence = s_sequence s + 1; s1 = s\<lparr>s_sequence := sequence\<rparr> in
      case marshal \<lparr>gwm_Op = opDispatch, gwm_T = eventName, gwm_S = Some sequence, gwm_D = data\<rparr> of
        None \<Rightarrow> (False, put_session s1 h)
      | Some payload \<Rightarrow>
          let s2 = appendEvent (h_buffer h) s1 (sequence, payload) in
          (case s_client s2 of None \<Rightarrow> (True, put_session s2 h)
           | Some k \<Rightarrow> (case enqueue_on k payload h of
               (True, h') \<Rightarrow> (True, put_session s2 h')
             | (False, h') \<Rightarrow> (False, put_session (detach_session now s2 k) h'))))"

subsection \<open>Methods\<close>

datatype hub_error = errSessionCapacity | HubInternal string

definition identify ::
  "(gatewayMessage \<Rightarrow> 'p option) \<Rightarrow> uuid option \<Rightarrow> time \<Rightarrow> 'p hub \<Rightarrow> uuid \<Rightarrow> intents \<Rightarrow> nat \<Rightarrow> (hub_error + uuid) \<times> 'p hub" where
  "identify marshal gen now h0 userID intents k =
     (let h = pruneLocked now h0 in
      if length (h_sessions h) \<ge> maxSessions \<or> length (user_sessions h userID) \<ge> maxSessionsPerUser
      then (Inl errSessionCapacity, h)
      else (case gen of None \<Rightarrow> (Inl (HubInternal ''generate session id''), h)
      | Some i \<Rightarrow>
          let s = \<lparr>s_id = i, s_userID = userID, s_intents = intents, s_sequence = 0, s_events = [],
                  s_client = Some k, s_disconnectedAt = None\<rparr>;
              h1 = h\<lparr>h_sessions := h_sessions h @ [s],
                     h_byUser := (h_byUser h)(userID \<mapsto> user_sessions h userID @ [i])\<rparr> in
          (case marshal \<lparr>gwm_Op = opDispatch, gwm_T = eventReady, gwm_S = Some 0, gwm_D = ReadyData i (h_gatewayURL h1)\<rparr> of
             None \<Rightarrow> (Inl (HubInternal ''marshal''), removeLocked s h1)
           | Some payload \<Rightarrow>
               let s2 = appendEvent (h_buffer h1) s (0, payload) in
               (case enqueue_on k payload h1 of
                  (True, h2) \<Rightarrow> (Inr i, put_session s2 h2)
                | (False, h2) \<Rightarrow> (Inr i, put_session (detach_session now s2 k) h2)))))"

text \<open>The loop of \<open>resume\<close>: the missed events, until the queue refuses one.\<close>

fun replay :: "int \<Rightarrow> nat \<Rightarrow> (int \<times> 'p) list \<Rightarrow> 'p hub \<Rightarrow> bool \<times> 'p hub" where
  "replay after k [] h = (True, h)"
| "replay after k ((sequence, payload) # es) h =
     (if sequence > after
      then (case enqueue_on k payload h of (False, h') \<Rightarrow> (False, h') | (True, h') \<Rightarrow> replay after k es h')
      else replay after k es h)"

definition resume ::
  "(gatewayMessage \<Rightarrow> 'p option) \<Rightarrow> time \<Rightarrow> 'p hub \<Rightarrow> uuid \<Rightarrow> uuid \<Rightarrow> int \<Rightarrow> nat \<Rightarrow> bool \<times> 'p hub" where
  "resume marshal now h0 userID sessionID after k =
     (let h = pruneLocked now h0 in
      case find_by s_id (h_sessions h) sessionID of None \<Rightarrow> (False, h)
      | Some s \<Rightarrow>
          if s_userID s \<noteq> userID \<or> after < 0 \<or> after > s_sequence s then (False, h)
          else if s_events s \<noteq> [] \<and> after < fst (hd (s_events s)) - 1 then (False, h)
          else
            let h1 = (case s_client s of None \<Rightarrow> h | Some k' \<Rightarrow> if k' \<noteq> k then terminate_on k' h else h);
                s1 = s\<lparr>s_client := Some k, s_disconnectedAt := None\<rparr>;
                h2 = put_session s1 h1 in
            (case replay after k (s_events s1) h2 of
               (False, h3) \<Rightarrow> (False, put_session (detach_session now s1 k) h3)
             | (True, h3) \<Rightarrow> dispatchLocked marshal now s1 eventResumed EmptyData h3))"

definition detach :: "time \<Rightarrow> 'p hub \<Rightarrow> uuid \<Rightarrow> nat \<Rightarrow> 'p hub" where
  "detach now h sessionID k =
     (case find_by s_id (h_sessions h) sessionID of None \<Rightarrow> h
      | Some s \<Rightarrow> put_session (detach_session now s k) h)"

text \<open>
  The two loops of every publication: over the sessions of a user, where \<open>event\<close> gives what a
  session is sent, and over the recipients, skipping those already seen.
\<close>

definition dispatch_to :: "(gatewayMessage \<Rightarrow> 'p option) \<Rightarrow> time \<Rightarrow> ('p session \<Rightarrow> (string \<times> event_data) option) \<Rightarrow> uuid \<Rightarrow> 'p hub \<Rightarrow> 'p hub" where
  "dispatch_to marshal now event i h =
     (case find_by s_id (h_sessions h) i of None \<Rightarrow> h
      | Some s \<Rightarrow> (case event s of None \<Rightarrow> h
      | Some (name, data) \<Rightarrow> snd (dispatchLocked marshal now s name data h)))"

fun each_recipient :: "(uuid \<Rightarrow> 'h \<Rightarrow> 'h) \<Rightarrow> uuid set \<Rightarrow> uuid list \<Rightarrow> 'h \<Rightarrow> 'h" where
  "each_recipient body seen [] h = h"
| "each_recipient body seen (u # us) h =
     (if u \<in> seen then each_recipient body seen us h
      else each_recipient body (insert u seen) us (body u h))"

definition publish ::
  "(gatewayMessage \<Rightarrow> 'p option) \<Rightarrow> time \<Rightarrow> ('p session \<Rightarrow> (string \<times> event_data) option) \<Rightarrow> uuid list \<Rightarrow> 'p hub \<Rightarrow> 'p hub" where
  "publish marshal now event recipients h =
     each_recipient (\<lambda>u h. fold (dispatch_to marshal now event) (user_sessions h u) h) {} recipients (pruneLocked now h)"

definition subscribed :: "intents \<Rightarrow> 'p session \<Rightarrow> bool" where
  "subscribed intent s \<longleftrightarrow> s_intents s AND intent \<noteq> 0"

definition message_event :: "string \<Rightarrow> EventMessage \<Rightarrow> 'p session \<Rightarrow> (string \<times> event_data) option" where
  "message_event eventName m s =
     (if subscribed (messageIntent (em_Direct m)) s
      then Some (eventName, MessageData (messageEventPayload m (subscribed intentMessageContent s))) else None)"

definition intent_event :: "intents \<Rightarrow> string \<Rightarrow> event_data \<Rightarrow> 'p session \<Rightarrow> (string \<times> event_data) option" where
  "intent_event intent eventName data s = (if subscribed intent s then Some (eventName, data) else None)"

definition publishMessage where
  "publishMessage marshal now eventName recipients m h = publish marshal now (message_event eventName m) recipients h"

definition publishMessageDelete where
  "publishMessageDelete marshal now recipients messageID channelID direct h =
     publish marshal now (intent_event (messageIntent direct) eventMessageDelete (MessageDeleteData messageID channelID)) recipients h"

definition publishMessageReaction where
  "publishMessageReaction marshal now eventName recipients r h =
     publish marshal now (intent_event intentReactions eventName
       (ReactionData \<lparr>xp_MessageID = ex_MessageID r, xp_ChannelID = ex_ChannelID r, xp_UserID = ex_UserID r,
          xp_Emoji = ex_Emoji r, xp_Count = ex_Count r\<rparr>)) recipients h"

definition publishTypingStart where
  "publishTypingStart marshal now recipients t h =
     publish marshal now (intent_event intentTyping eventTypingStart
       (TypingData \<lparr>tp_ChannelID = ety_ChannelID t, tp_User = user_payload (ety_User t), tp_StartedAt = ety_StartedAt t\<rparr>)) recipients h"

definition publishToIntent where
  "publishToIntent marshal now intent eventName recipients payload h =
     publish marshal now (intent_event intent eventName payload) recipients h"

definition publishToUser where
  "publishToUser marshal now userID eventName payload h0 =
     (let h = pruneLocked now h0
      in fold (dispatch_to marshal now (\<lambda>_. Some (eventName, payload))) (user_sessions h userID) h)"

definition prune :: "time \<Rightarrow> 'p hub \<Rightarrow> 'p hub" where
  "prune now h = pruneLocked now h"

end
