(* ===== verification/Gateway_Inv.thy ===== *)
theory Gateway_Inv
  imports Gateway_Hub
begin

section \<open>The hub's invariant\<close>

text \<open>
  What holds of the hub between any two calls of its methods: the two maps agree, the limits on
  sessions are kept, no connection serves two sessions, and every buffer holds the last events
  of its session in the order of their numbers.
\<close>

subsection \<open>The index of sessions\<close>

definition index_ok :: "'p hub \<Rightarrow> bool" where
  "index_ok h \<longleftrightarrow> distinct (map s_id (h_sessions h))
     \<and> (\<forall>u. h_byUser h u \<noteq> Some [])
     \<and> (\<forall>u. user_sessions h u = map s_id (filter (\<lambda>s. s_userID s = u) (h_sessions h)))"

definition clients_ok :: "'p hub \<Rightarrow> bool" where
  "clients_ok h \<longleftrightarrow> (\<forall>s\<in>set (h_sessions h). \<forall>s'\<in>set (h_sessions h). \<forall>k.
     s_client s = Some k \<longrightarrow> s_client s' = Some k \<longrightarrow> s = s')"

definition within_limits :: "'p hub \<Rightarrow> bool" where
  "within_limits h \<longleftrightarrow> length (h_sessions h) \<le> maxSessions \<and> (\<forall>u. length (user_sessions h u) \<le> maxSessionsPerUser)"

text \<open>The buffer of a session: at most \<open>eventBufferSize\<close> frames, numbered without a gap up to the last one sent.\<close>

definition session_ok :: "(gatewayMessage \<Rightarrow> 'p option) \<Rightarrow> nat \<Rightarrow> 'p session \<Rightarrow> bool" where
  "session_ok marshal bufferSize s \<longleftrightarrow>
     0 \<le> s_sequence s
     \<and> map fst (s_events s) = [s_sequence s - int (length (s_events s)) + 1 .. s_sequence s]
     \<and> 0 < length (s_events s) \<and> length (s_events s) \<le> bufferSize \<and> int (length (s_events s)) \<le> s_sequence s + 1
     \<and> (\<forall>(q, p)\<in>set (s_events s). \<exists>name data. marshal \<lparr>gwm_Op = opDispatch, gwm_T = name, gwm_S = Some q, gwm_D = data\<rparr> = Some p)
     \<and> (s_client s = None \<longleftrightarrow> s_disconnectedAt s \<noteq> None)"

definition sessions_ok :: "(gatewayMessage \<Rightarrow> 'p option) \<Rightarrow> 'p hub \<Rightarrow> bool" where
  "sessions_ok marshal h \<longleftrightarrow> (\<forall>s\<in>set (h_sessions h). session_ok marshal (h_buffer h) s)"

definition hub_inv :: "(gatewayMessage \<Rightarrow> 'p option) \<Rightarrow> 'p hub \<Rightarrow> bool" where
  "hub_inv marshal h \<longleftrightarrow> index_ok h \<and> clients_ok h \<and> within_limits h \<and> sessions_ok marshal h"

lemma user_sessions_None [simp]: "h_byUser h u = None \<Longrightarrow> user_sessions h u = []"
  by (simp add: user_sessions_def)

lemma index_ok_distinct: "index_ok h \<Longrightarrow> distinct (map s_id (h_sessions h))"
  by (simp add: index_ok_def)

lemma index_ok_users: "index_ok h \<Longrightarrow> user_sessions h u = map s_id (filter (\<lambda>s. s_userID s = u) (h_sessions h))"
  by (simp add: index_ok_def)

lemma find_session: "index_ok h \<Longrightarrow> s \<in> set (h_sessions h) \<Longrightarrow> find_by s_id (h_sessions h) (s_id s) = Some s"
  by (simp add: index_ok_distinct find_by_distinct)

lemma session_eq: "index_ok h \<Longrightarrow> s \<in> set (h_sessions h) \<Longrightarrow> s' \<in> set (h_sessions h) \<Longrightarrow> s_id s = s_id s' \<Longrightarrow> s = s'"
  using index_ok_distinct distinct_key_eq by metis

subsection \<open>Removing sessions\<close>

lemma removeLocked_fields [simp]:
  "h_sessions (removeLocked s h) = filter (\<lambda>x. s_id x \<noteq> s_id s) (h_sessions h)"
  "h_conn (removeLocked s h) = h_conn h" "h_buffer (removeLocked s h) = h_buffer h"
  "h_retention (removeLocked s h) = h_retention h" "h_gatewayURL (removeLocked s h) = h_gatewayURL h"
  by (simp_all add: removeLocked_def Let_def delete_where_def)

lemma removeLocked_user_sessions:
  "user_sessions (removeLocked s h) u =
     (if u = s_userID s then filter (\<lambda>i. i \<noteq> s_id s) (user_sessions h u) else user_sessions h u)"
  by (auto simp: removeLocked_def Let_def user_sessions_def split: option.splits)

lemma removeLocked_index_ok:
  assumes "index_ok h" and "s \<in> set (h_sessions h)"
  shows "index_ok (removeLocked s h)"
proof -
  have own: "s_userID x = s_userID s" if "x \<in> set (h_sessions h)" "s_id x = s_id s" for x
    using session_eq [OF assms(1) that(1) assms(2) that(2)] by simp
  have "h_byUser (removeLocked s h) u \<noteq> Some []" for u
    using assms(1) by (auto simp: removeLocked_def Let_def index_ok_def)
  moreover have "user_sessions (removeLocked s h) u = map s_id (filter (\<lambda>x. s_userID x = u) (h_sessions (removeLocked s h)))" for u
    using own by (auto simp: removeLocked_user_sessions index_ok_users [OF assms(1)] filter_map o_def conj_commute
        intro!: arg_cong [where f = "map s_id"] filter_cong)
  ultimately show ?thesis
    using assms(1) by (simp add: index_ok_def distinct_map_filter)
qed

lemma pruneLocked_fold:
  assumes "index_ok h" and "distinct (map s_id ss)" and "set ss \<subseteq> set (h_sessions h)"
    and "h' = fold (\<lambda>s h. if expired_session now h s then removeLocked s h else h) ss h"
  shows "index_ok h' \<and> h_sessions h' = filter (\<lambda>x. \<not> (\<exists>s\<in>set ss. s_id s = s_id x \<and> expired_session now h s)) (h_sessions h)
     \<and> h_conn h' = h_conn h \<and> h_buffer h' = h_buffer h \<and> h_retention h' = h_retention h \<and> h_gatewayURL h' = h_gatewayURL h"
  using assms
proof (induction ss arbitrary: h)
  case (Cons s ss)
  let ?h = "if expired_session now h s then removeLocked s h else h"
  have same: "expired_session now ?h = expired_session now h"
    by (simp add: expired_session_def fun_eq_iff split: option.split)
  have "set ss \<subseteq> set (h_sessions ?h)"
    using Cons.prems(2,3) by (auto simp: image_iff)
  moreover have "index_ok ?h"
    using Cons.prems(1,3) removeLocked_index_ok by auto
  ultimately have *: "index_ok h' \<and> h_sessions h' = filter (\<lambda>x. \<not> (\<exists>s\<in>set ss. s_id s = s_id x \<and> expired_session now ?h s)) (h_sessions ?h)
     \<and> h_conn h' = h_conn ?h \<and> h_buffer h' = h_buffer ?h \<and> h_retention h' = h_retention ?h \<and> h_gatewayURL h' = h_gatewayURL ?h"
    using Cons.IH [of ?h] Cons.prems(2,4) by simp
  show ?case
    unfolding same using * [unfolded same] by (auto intro!: filter_cong)
qed simp

lemma pruneLocked_fields:
  assumes "index_ok h"
  shows "index_ok (pruneLocked now h)"
    and "h_sessions (pruneLocked now h) = filter (\<lambda>s. \<not> expired_session now h s) (h_sessions h)"
    and "h_conn (pruneLocked now h) = h_conn h" and "h_buffer (pruneLocked now h) = h_buffer h"
    and "h_retention (pruneLocked now h) = h_retention h" and "h_gatewayURL (pruneLocked now h) = h_gatewayURL h"
proof -
  note * = pruneLocked_fold [OF assms index_ok_distinct [OF assms] subset_refl refl, of now]
  show "index_ok (pruneLocked now h)" "h_conn (pruneLocked now h) = h_conn h"
    "h_buffer (pruneLocked now h) = h_buffer h" "h_retention (pruneLocked now h) = h_retention h"
    "h_gatewayURL (pruneLocked now h) = h_gatewayURL h"
    using * by (simp_all add: pruneLocked_def)
  have "h_sessions (pruneLocked now h) = filter (\<lambda>x. \<not> (\<exists>s\<in>set (h_sessions h). s_id s = s_id x \<and> expired_session now h s)) (h_sessions h)"
    using * by (simp add: pruneLocked_def)
  also have "\<dots> = filter (\<lambda>s. \<not> expired_session now h s) (h_sessions h)"
    using session_eq [OF assms] by (intro filter_cong) auto
  finally show "h_sessions (pruneLocked now h) = filter (\<lambda>s. \<not> expired_session now h s) (h_sessions h)" .
qed

lemma within_limits_fewer:
  assumes "within_limits h" and "index_ok h" and "index_ok h'" and "h_sessions h' = filter P (h_sessions h)"
  shows "within_limits h'"
proof -
  have "length (user_sessions h' u) \<le> length (user_sessions h u)" for u
  proof -
    have *: "filter (\<lambda>s. s_userID s = u) (h_sessions h') = filter P (filter (\<lambda>s. s_userID s = u) (h_sessions h))"
      by (simp add: assms(4) conj_commute)
    then show ?thesis
      by (simp only: index_ok_users [OF assms(2)] index_ok_users [OF assms(3)] length_map * length_filter_le)
  qed
  then show ?thesis
    using assms(1,4) length_filter_le [of P "h_sessions h"] unfolding within_limits_def
    by (metis le_trans)
qed

lemma pruneLocked_inv:
  assumes "hub_inv marshal h"
  shows "hub_inv marshal (pruneLocked now h)"
proof -
  have i: "index_ok h" using assms by (simp add: hub_inv_def)
  note p = pruneLocked_fields [OF i, of now]
  have "within_limits (pruneLocked now h)"
    using within_limits_fewer [OF _ i p(1) p(2)] assms by (simp add: hub_inv_def)
  then show ?thesis
    using assms p by (simp add: hub_inv_def clients_ok_def sessions_ok_def)
qed


subsection \<open>What one event does to a session\<close>

lemma upto_snoc: "a \<le> b + 1 \<Longrightarrow> [a..b] @ [b + 1] = [a..b + 1]"
  by (simp add: upto_rec2 [of a "b + 1"])

lemma drop_upto: "drop n [a..b] = [a + int n..b]"
proof (induction n arbitrary: a)
  case (Suc n)
  show ?case
  proof (cases "a \<le> b")
    case True
    then show ?thesis
      using Suc.IH [of "a + 1"] by (simp add: upto_rec1 algebra_simps)
  qed simp
qed simp

definition frame_of :: "int \<Rightarrow> string \<Rightarrow> event_data \<Rightarrow> gatewayMessage" where
  "frame_of q name data = \<lparr>gwm_Op = opDispatch, gwm_T = name, gwm_S = Some q, gwm_D = data\<rparr>"

text \<open>The session after one event, as a function of the session and its client alone.\<close>

definition deliver ::
  "(gatewayMessage \<Rightarrow> 'p option) \<Rightarrow> time \<Rightarrow> nat \<Rightarrow> (nat \<Rightarrow> 'p client) \<Rightarrow> string \<times> event_data \<Rightarrow> 'p session \<Rightarrow> 'p session" where
  "deliver marshal now bufferSize conn = (\<lambda>(name, data) s.
     let q = s_sequence s + 1; s1 = s\<lparr>s_sequence := q\<rparr> in
     case marshal (frame_of q name data) of None \<Rightarrow> s1
     | Some p \<Rightarrow> let s2 = appendEvent bufferSize s1 (q, p) in
         case s_client s of None \<Rightarrow> s2
         | Some k \<Rightarrow> if fst (enqueue (conn k) p) then s2 else s2\<lparr>s_client := None, s_disconnectedAt := Some now\<rparr>)"

lemma appendEvent_fields [simp]:
  "s_id (appendEvent n s e) = s_id s" "s_userID (appendEvent n s e) = s_userID s"
  "s_intents (appendEvent n s e) = s_intents s" "s_sequence (appendEvent n s e) = s_sequence s"
  "s_client (appendEvent n s e) = s_client s" "s_disconnectedAt (appendEvent n s e) = s_disconnectedAt s"
  by (simp_all add: appendEvent_def Let_def)

lemma detach_session_fields [simp]:
  "s_id (detach_session now s k) = s_id s" "s_userID (detach_session now s k) = s_userID s"
  "s_intents (detach_session now s k) = s_intents s" "s_sequence (detach_session now s k) = s_sequence s"
  "s_events (detach_session now s k) = s_events s"
  by (simp_all add: detach_session_def)

lemma put_session_fields [simp]:
  "h_sessions (put_session s h) = update_where (\<lambda>x. s_id x = s_id s) (\<lambda>_. s) (h_sessions h)"
  "h_byUser (put_session s h) = h_byUser h" "h_conn (put_session s h) = h_conn h"
  "h_buffer (put_session s h) = h_buffer h" "h_retention (put_session s h) = h_retention h"
  "h_gone (put_session s h) = h_gone h" "h_gatewayURL (put_session s h) = h_gatewayURL h"
  "user_sessions (put_session s h) = user_sessions h"
  by (simp_all add: put_session_def user_sessions_def fun_eq_iff)

lemma enqueue_on_eq:
  "enqueue_on k p h = (fst (enqueue (h_conn h k) p), h\<lparr>h_conn := (h_conn h)(k := snd (enqueue (h_conn h k) p))\<rparr>)"
  by (simp add: enqueue_on_def split_beta Let_def)

lemma terminate_on_fields [simp]:
  "h_sessions (terminate_on k h) = h_sessions h" "h_byUser (terminate_on k h) = h_byUser h"
  "h_buffer (terminate_on k h) = h_buffer h" "h_retention (terminate_on k h) = h_retention h"
  "h_gone (terminate_on k h) = h_gone h" "user_sessions (terminate_on k h) = user_sessions h"
  "h_gatewayURL (terminate_on k h) = h_gatewayURL h"
  "h_conn (terminate_on k h) = (h_conn h)(k := terminate (h_conn h k))"
  by (simp_all add: terminate_on_def user_sessions_def fun_eq_iff)

lemma deliver_fields [simp]:
  "s_id (deliver marshal now n conn e s) = s_id s" "s_userID (deliver marshal now n conn e s) = s_userID s"
  "s_intents (deliver marshal now n conn e s) = s_intents s"
  "s_sequence (deliver marshal now n conn e s) = s_sequence s + 1"
  by (auto simp: deliver_def Let_def split: option.splits prod.splits)

lemma deliver_client: "s_client (deliver marshal now n conn e s) = Some k \<Longrightarrow> s_client s = Some k"
  by (auto simp: deliver_def Let_def split: option.splits prod.splits if_splits)

lemma deliver_cong: "(\<And>k. s_client s = Some k \<Longrightarrow> conn k = conn' k) \<Longrightarrow> deliver marshal now n conn e s = deliver marshal now n conn' e s"
  by (auto simp: deliver_def Let_def split: option.splits prod.splits)

lemma dispatchLocked_fields:
  assumes "dispatchLocked marshal now s name data h = (b, h')"
  shows "h_sessions h' = update_where (\<lambda>x. s_id x = s_id s) (\<lambda>_. deliver marshal now (h_buffer h) (h_conn h) (name, data) s) (h_sessions h)"
    and "h_byUser h' = h_byUser h" and "h_buffer h' = h_buffer h" and "h_retention h' = h_retention h"
    and "h_gone h' = h_gone h" and "h_gatewayURL h' = h_gatewayURL h"
    and "s_client s \<noteq> Some k \<Longrightarrow> h_conn h' k = h_conn h k"
  using assms
  by (auto simp: dispatchLocked_def deliver_def frame_of_def Let_def detach_session_def enqueue_on_eq
      split: option.splits bool.splits)

lemma appendEvent_ok:
  assumes "session_ok marshal bufferSize s" and "marshal (frame_of (s_sequence s + 1) name data) = Some p" and "0 < bufferSize"
  shows "session_ok marshal bufferSize (appendEvent bufferSize (s\<lparr>s_sequence := s_sequence s + 1\<rparr>) (s_sequence s + 1, p))"
proof -
  let ?es = "s_events s @ [(s_sequence s + 1, p)]"
  have "map fst ?es = [s_sequence s - int (length (s_events s)) + 1..s_sequence s + 1]"
    using assms(1) upto_snoc [of "s_sequence s - int (length (s_events s)) + 1" "s_sequence s"] by (simp add: session_ok_def)
  then have nums: "map fst (drop n ?es) = [s_sequence s - int (length (s_events s)) + 1 + int n..s_sequence s + 1]" for n
    by (simp only: drop_map [symmetric] drop_upto)
  show ?thesis
    using assms nums [of 0] nums [of "length ?es - bufferSize"]
    by (auto simp: session_ok_def appendEvent_def Let_def frame_of_def of_nat_diff algebra_simps dest: in_set_dropD)
qed

lemma deliver_ok:
  assumes "session_ok marshal bufferSize s" and "\<And>f. marshal f \<noteq> None" and "0 < bufferSize"
  shows "session_ok marshal bufferSize (deliver marshal now bufferSize conn e s)"
proof -
  obtain name data where e: "e = (name, data)" by (cases e)
  obtain p where p: "marshal (frame_of (s_sequence s + 1) name data) = Some p"
    using assms(2) by blast
  note ok = appendEvent_ok [OF assms(1) p assms(3)]
  then show ?thesis
    by (auto simp: deliver_def e p Let_def session_ok_def split: option.splits)
qed

end
