(* ===== verification/Gateway_Publish.thy ===== *)
theory Gateway_Publish
  imports Gateway_Inv
begin

section \<open>What a publication does\<close>

text \<open>
  The loops of \<open>hub.go\<close> as one simultaneous update: every chosen session gets its event, on its
  own client, and nothing else changes. The order in which Go visits the sessions of a user does
  not matter, since no two of them share a client.
\<close>

definition receive ::
  "(gatewayMessage \<Rightarrow> 'p option) \<Rightarrow> time \<Rightarrow> nat \<Rightarrow> (nat \<Rightarrow> 'p client) \<Rightarrow> ('p session \<Rightarrow> (string \<times> event_data) option)
     \<Rightarrow> 'p session \<Rightarrow> 'p session" where
  "receive marshal now bufferSize conn event s =
     (case event s of None \<Rightarrow> s | Some e \<Rightarrow> deliver marshal now bufferSize conn e s)"

definition receive_on ::
  "(gatewayMessage \<Rightarrow> 'p option) \<Rightarrow> ('p session \<Rightarrow> (string \<times> event_data) option) \<Rightarrow> 'p session \<Rightarrow> 'p client \<Rightarrow> 'p client" where
  "receive_on marshal event s c =
     (case event s of None \<Rightarrow> c
      | Some (name, data) \<Rightarrow> (case marshal (frame_of (s_sequence s + 1) name data) of None \<Rightarrow> c
      | Some p \<Rightarrow> snd (enqueue c p)))"

definition touched ::
  "(gatewayMessage \<Rightarrow> 'p option) \<Rightarrow> time \<Rightarrow> ('p session \<Rightarrow> (string \<times> event_data) option) \<Rightarrow> uuid set \<Rightarrow> 'p hub \<Rightarrow> 'p hub \<Rightarrow> bool" where
  "touched marshal now event I h h' \<longleftrightarrow>
     h_sessions h' = map (\<lambda>s. if s_id s \<in> I then receive marshal now (h_buffer h) (h_conn h) event s else s) (h_sessions h)
     \<and> (\<forall>s\<in>set (h_sessions h). \<forall>k. s_client s = Some k \<longrightarrow>
          h_conn h' k = (if s_id s \<in> I then receive_on marshal event s (h_conn h k) else h_conn h k))
     \<and> (\<forall>k. (\<forall>s\<in>set (h_sessions h). s_client s \<noteq> Some k) \<longrightarrow> h_conn h' k = h_conn h k)
     \<and> h_byUser h' = h_byUser h \<and> h_buffer h' = h_buffer h \<and> h_retention h' = h_retention h
     \<and> h_gone h' = h_gone h \<and> h_gatewayURL h' = h_gatewayURL h"

lemma receive_fields [simp]:
  "s_id (receive marshal now n conn event s) = s_id s" "s_userID (receive marshal now n conn event s) = s_userID s"
  "s_intents (receive marshal now n conn event s) = s_intents s"
  by (simp_all add: receive_def split: option.split)

lemma receive_client: "s_client (receive marshal now n conn event s) = Some k \<Longrightarrow> s_client s = Some k"
  by (auto simp: receive_def dest: deliver_client split: option.splits)

lemma receive_cong:
  "(\<And>k. s_client s = Some k \<Longrightarrow> conn k = conn' k) \<Longrightarrow> receive marshal now n conn event s = receive marshal now n conn' event s"
  by (auto simp: receive_def intro!: deliver_cong split: option.split)

lemma index_ok_map:
  assumes "index_ok h" and "h_sessions h' = map f (h_sessions h)" and "h_byUser h' = h_byUser h"
    and "\<And>s. s_id (f s) = s_id s" and "\<And>s. s_userID (f s) = s_userID s"
  shows "index_ok h'"
proof -
  have "map s_id (map f (h_sessions h)) = map s_id (h_sessions h)"
    by (simp add: assms(4))
  moreover have "map s_id (filter (\<lambda>s. s_userID s = u) (map f (h_sessions h))) = map s_id (filter (\<lambda>s. s_userID s = u) (h_sessions h))" for u
    by (simp add: filter_map o_def assms(4,5))
  ultimately show ?thesis
    using assms(1,2,3) by (simp add: index_ok_def user_sessions_def del: map_map)
qed

lemma clients_ok_map:
  assumes "clients_ok h" and "h_sessions h' = map f (h_sessions h)"
    and "\<And>s k. s_client (f s) = Some k \<Longrightarrow> s_client s = Some k"
  shows "clients_ok h'"
  unfolding clients_ok_def
proof (intro ballI allI impI)
  fix a b k
  assume a: "a \<in> set (h_sessions h')" "b \<in> set (h_sessions h')" "s_client a = Some k" "s_client b = Some k"
  then obtain s t where "s \<in> set (h_sessions h)" "t \<in> set (h_sessions h)" "a = f s" "b = f t"
    using assms(2) by auto
  moreover from this have "s = t"
    using a(3,4) assms(1,3) unfolding clients_ok_def by metis
  ultimately show "a = b" by simp
qed

lemma touched_index_ok: "touched marshal now event I h h' \<Longrightarrow> index_ok h \<Longrightarrow> index_ok h'"
  unfolding touched_def by (elim conjE, erule index_ok_map, assumption, assumption) simp_all

lemma touched_clients_ok: "touched marshal now event I h h' \<Longrightarrow> clients_ok h \<Longrightarrow> clients_ok h'"
  unfolding touched_def by (elim conjE, erule clients_ok_map, assumption) (auto dest: receive_client split: if_splits)

lemma touched_inv:
  assumes "touched marshal now event I h h'" and "hub_inv marshal h" and "\<And>f. marshal f \<noteq> None" and "0 < h_buffer h"
  shows "hub_inv marshal h'"
proof -
  have "session_ok marshal (h_buffer h) (receive marshal now (h_buffer h) conn event s)"
    if "session_ok marshal (h_buffer h) s" for s conn
    using that deliver_ok [OF that assms(3,4)] by (simp add: receive_def split: option.split)
  then have "sessions_ok marshal h'"
    using assms(1,2) by (auto simp: touched_def hub_inv_def sessions_ok_def)
  moreover have "within_limits h'"
    using assms(1,2) by (auto simp: touched_def hub_inv_def within_limits_def user_sessions_def)
  ultimately show ?thesis
    using assms(2) touched_index_ok [OF assms(1)] touched_clients_ok [OF assms(1)] by (simp add: hub_inv_def)
qed

lemma touched_none: "touched marshal now event I h h" if "\<And>s. s \<in> set (h_sessions h) \<Longrightarrow> s_id s \<in> I \<Longrightarrow> event s = None"
  using that by (auto simp: touched_def receive_def receive_on_def intro!: map_idI [symmetric])

lemma touched_compose:
  assumes t: "touched marshal now event I h h1" "touched marshal now event J h1 h2" and "I \<inter> J = {}"
    and c: "clients_ok h"
  shows "touched marshal now event (I \<union> J) h h2"
proof -
  let ?r = "\<lambda>h s. receive marshal now (h_buffer h) (h_conn h) event s"
  have other: "h_conn h1 k = h_conn h k" if "s \<in> set (h_sessions h)" "s_client s = Some k" "s_id s \<notin> I" for s k
    using t(1) that by (auto simp: touched_def)
  have same: "?r h1 s = ?r h s" if "s \<in> set (h_sessions h)" "s_id s \<notin> I" for s
    using other that t(1) by (auto simp: touched_def intro!: receive_cong)
  have "h_sessions h2 = map (\<lambda>s. if s_id s \<in> J then ?r h1 s else s) (map (\<lambda>s. if s_id s \<in> I then ?r h s else s) (h_sessions h))"
    using t by (simp add: touched_def)
  also have "\<dots> = map (\<lambda>s. if s_id s \<in> I \<union> J then ?r h s else s) (h_sessions h)"
    using same \<open>I \<inter> J = {}\<close> by auto
  finally have sessions: "h_sessions h2 = \<dots>" .
  have conns: "h_conn h2 k = (if s_id s \<in> I \<union> J then receive_on marshal event s (h_conn h k) else h_conn h k)"
    if s: "s \<in> set (h_sessions h)" "s_client s = Some k" for s k
  proof (cases "s_id s \<in> I")
    case True
    let ?s = "?r h s"
    have "?s \<in> set (h_sessions h1)"
      using t(1) s True by (force simp: touched_def)
    have one: "h_conn h1 k = receive_on marshal event s (h_conn h k)"
      using t(1) s True by (auto simp: touched_def)
    have "h_conn h2 k = h_conn h1 k"
    proof (cases "s_client ?s = Some k")
      case True
      then show ?thesis
        using t(2) \<open>?s \<in> set (h_sessions h1)\<close> \<open>s_id s \<in> I\<close> \<open>I \<inter> J = {}\<close> by (auto simp: touched_def)
    next
      case False
      have "s_client x \<noteq> Some k" if "x \<in> set (h_sessions h1)" for x
      proof
        assume x: "s_client x = Some k"
        have "x \<in> (\<lambda>s. if s_id s \<in> I then ?r h s else s) ` set (h_sessions h)"
          using t(1) that by (simp add: touched_def)
        then obtain y where y: "x = (if s_id y \<in> I then ?r h y else y)" "y \<in> set (h_sessions h)"
          by (rule imageE)
        with x have "s_client y = Some k"
          by (auto dest: receive_client split: if_splits)
        with c y(2) s have "y = s"
          by (auto simp: clients_ok_def)
        with y(1) x False show False
          using \<open>s_id s \<in> I\<close> by simp
      qed
      then show ?thesis
        using t(2) by (auto simp: touched_def)
    qed
    with one True show ?thesis by simp
  next
    case False
    then have "s \<in> set (h_sessions h1)"
      using t(1) s by (force simp: touched_def)
    then have "h_conn h2 k = (if s_id s \<in> J then receive_on marshal event s (h_conn h1 k) else h_conn h1 k)"
      using t(2) s(2) by (auto simp: touched_def)
    then show ?thesis
      using False other [OF s False] by simp
  qed
  have "h_conn h2 k = h_conn h k" if "\<forall>s\<in>set (h_sessions h). s_client s \<noteq> Some k" for k
  proof -
    have "\<forall>s\<in>set (h_sessions h1). s_client s \<noteq> Some k"
      using t(1) that by (auto simp: touched_def dest: receive_client)
    then show ?thesis
      using t that by (auto simp: touched_def)
  qed
  with sessions conns t show ?thesis
    by (auto simp: touched_def)
qed


subsection \<open>The loops\<close>

lemma dispatchLocked_conn:
  assumes "dispatchLocked marshal now s name data h = (b, h')"
  shows "s_client s = Some k \<Longrightarrow> h_conn h' k = (case marshal (frame_of (s_sequence s + 1) name data) of
     None \<Rightarrow> h_conn h k | Some p \<Rightarrow> snd (enqueue (h_conn h k) p))"
  using assms
  by (auto simp: dispatchLocked_def frame_of_def Let_def enqueue_on_eq split: option.splits bool.splits)

lemma touched_dispatch_to:
  assumes "index_ok h" and "clients_ok h"
  shows "touched marshal now event {i} h (dispatch_to marshal now event i h)"
proof (cases "find_by s_id (h_sessions h) i")
  case None
  then have "\<And>s. s \<in> set (h_sessions h) \<Longrightarrow> s_id s \<noteq> i"
    by (auto simp: find_by_None_iff)
  with None show ?thesis
    by (auto simp: dispatch_to_def intro: touched_none)
next
  case (Some s)
  then have s: "s \<in> set (h_sessions h)" "s_id s = i"
    using find_by_SomeD by fastforce+
  have only: "x = s" if "x \<in> set (h_sessions h)" "s_id x = i" for x
    using session_eq [OF assms(1) that(1) s(1)] that(2) s(2) by simp
  show ?thesis
  proof (cases "event s")
    case None
    then show ?thesis
      using Some only by (auto simp: dispatch_to_def intro: touched_none)
  next
    case (Some e)
    obtain name data where e: "e = (name, data)" by (cases e)
    obtain b h' where d: "dispatchLocked marshal now s name data h = (b, h')" by fastforce
    note f = dispatchLocked_fields [OF d] and c = dispatchLocked_conn [OF d]
    have "h_sessions h' = map (\<lambda>x. if s_id x \<in> {i} then receive marshal now (h_buffer h) (h_conn h) event x else x) (h_sessions h)"
      using only Some by (auto simp: f(1) update_where_def s(2) receive_def e)
    moreover have "h_conn h' k = (if s_id x \<in> {i} then receive_on marshal event x (h_conn h k) else h_conn h k)"
      if x: "x \<in> set (h_sessions h)" "s_client x = Some k" for x k
    proof (cases "x = s")
      case True
      then show ?thesis
        using c x(2) s(2) Some by (simp add: receive_on_def e)
    next
      case False
      then have "s_client s \<noteq> Some k"
        using x s(1) assms(2) unfolding clients_ok_def by blast
      then show ?thesis
        using f(7) False only [OF x(1)] by auto
    qed
    moreover have "h_conn h' k = h_conn h k" if "\<forall>x\<in>set (h_sessions h). s_client x \<noteq> Some k" for k
      using that s(1) f(7) by blast
    moreover have "dispatch_to marshal now event i h = h'"
      using Some \<open>find_by s_id (h_sessions h) i = Some s\<close> d by (simp add: dispatch_to_def e)
    ultimately show ?thesis
      by (simp add: touched_def f)
  qed
qed

lemma touched_refl: "touched marshal now event {} h h"
  by (rule touched_none) simp

lemma touched_fold:
  assumes "index_ok h" and "clients_ok h" and "distinct ids"
  shows "touched marshal now event (set ids) h (fold (dispatch_to marshal now event) ids h)"
  using assms
proof (induction ids arbitrary: h)
  case Nil
  then show ?case by (simp add: touched_refl)
next
  case (Cons i ids)
  note t = touched_dispatch_to [OF Cons.prems(1,2), of marshal now event i]
  have "touched marshal now event (set ids) (dispatch_to marshal now event i h)
          (fold (dispatch_to marshal now event) ids (dispatch_to marshal now event i h))"
    using Cons.IH Cons.prems t touched_index_ok touched_clients_ok by (metis distinct.simps(2))
  from touched_compose [OF t this _ Cons.prems(2)] Cons.prems(3) show ?case
    by simp
qed

definition sessions_of :: "uuid set \<Rightarrow> 'p hub \<Rightarrow> uuid set" where
  "sessions_of U h = {s_id s |s. s \<in> set (h_sessions h) \<and> s_userID s \<in> U}"

lemma sessions_of_touched: "touched marshal now event I h h' \<Longrightarrow> sessions_of U h' = sessions_of U h"
proof -
  assume "touched marshal now event I h h'"
  then have "h_sessions h' = map (\<lambda>s. if s_id s \<in> I then receive marshal now (h_buffer h) (h_conn h) event s else s) (h_sessions h)"
    by (simp add: touched_def)
  then have "map (\<lambda>s. (s_id s, s_userID s)) (h_sessions h') = map (\<lambda>s. (s_id s, s_userID s)) (h_sessions h)"
    by simp
  from arg_cong [OF this, of set]
  have "(\<lambda>s. (s_id s, s_userID s)) ` set (h_sessions h') = (\<lambda>s. (s_id s, s_userID s)) ` set (h_sessions h)"
    by (simp only: list.set_map)
  moreover have "sessions_of U x = {i. \<exists>u\<in>U. (i, u) \<in> (\<lambda>s. (s_id s, s_userID s)) ` set (h_sessions x)}" for x :: "'a hub"
    by (auto simp: sessions_of_def)
  ultimately show ?thesis by simp
qed

lemma set_user_sessions: "index_ok h \<Longrightarrow> set (user_sessions h u) = sessions_of {u} h"
  by (auto simp: index_ok_users sessions_of_def)

lemma touched_each_recipient:
  assumes "index_ok h" and "clients_ok h"
  shows "touched marshal now event (sessions_of (set us - seen) h) h
    (each_recipient (\<lambda>u h. fold (dispatch_to marshal now event) (user_sessions h u) h) seen us h)"
  using assms
proof (induction us arbitrary: h seen)
  case Nil
  then show ?case by (simp add: touched_refl sessions_of_def)
next
  case (Cons u us)
  show ?case
  proof (cases "u \<in> seen")
    case True
    then show ?thesis
      using Cons by (simp add: insert_Diff_if)
  next
    case False
    let ?h = "fold (dispatch_to marshal now event) (user_sessions h u) h"
    have "distinct (user_sessions h u)"
      using Cons.prems(1) by (simp add: index_ok_users distinct_map_filter index_ok_distinct)
    then have t: "touched marshal now event (sessions_of {u} h) h ?h"
      using touched_fold [OF Cons.prems] by (simp flip: set_user_sessions [OF Cons.prems(1)])
    have "touched marshal now event (sessions_of (set us - insert u seen) h) ?h
        (each_recipient (\<lambda>u h. fold (dispatch_to marshal now event) (user_sessions h u) h) (insert u seen) us ?h)"
      using Cons.IH [of ?h "insert u seen"] touched_index_ok [OF t Cons.prems(1)] touched_clients_ok [OF t Cons.prems(2)]
      by (simp add: sessions_of_touched [OF t])
    note rest = this
    have "sessions_of {u} h \<inter> sessions_of (set us - insert u seen) h = {}"
      using session_eq [OF Cons.prems(1)] by (auto simp: sessions_of_def)
    moreover have "sessions_of {u} h \<union> sessions_of (set us - insert u seen) h = sessions_of (set (u # us) - seen) h"
      using False by (auto simp: sessions_of_def)
    ultimately have "touched marshal now event (sessions_of (set (u # us) - seen) h) h
        (each_recipient (\<lambda>u h. fold (dispatch_to marshal now event) (user_sessions h u) h) (insert u seen) us ?h)"
      using touched_compose [OF t rest _ Cons.prems(2)] by simp
    then show ?thesis
      using False by simp
  qed
qed

lemma touched_publish:
  assumes "index_ok h" and "clients_ok h"
  shows "touched marshal now event (sessions_of (set us) (pruneLocked now h)) (pruneLocked now h) (publish marshal now event us h)"
proof -
  have "clients_ok (pruneLocked now h)"
    using assms pruneLocked_fields(2) [OF assms(1)] by (simp add: clients_ok_def)
  then show ?thesis
    using touched_each_recipient [OF pruneLocked_fields(1) [OF assms(1)], of now marshal now event us "{}"] by (simp add: publish_def)
qed

lemma publish_inv:
  assumes "hub_inv marshal h" and "\<And>f. marshal f \<noteq> None" and "0 < h_buffer h"
  shows "hub_inv marshal (publish marshal now event us h)"
proof -
  have "index_ok h" "clients_ok h"
    using assms(1) by (simp_all add: hub_inv_def)
  from touched_inv [OF touched_publish [OF this]] show ?thesis
    using pruneLocked_inv [OF assms(1)] assms(2,3) pruneLocked_fields(4) [OF \<open>index_ok h\<close>] by simp
qed

lemma publishToUser_eq:
  "publishToUser marshal now u name data h = publish marshal now (\<lambda>_. Some (name, data)) [u] h"
  by (simp add: publishToUser_def publish_def Let_def)

end
