(* ===== verification/Gateway_Steps.thy ===== *)
theory Gateway_Steps
  imports Gateway_Publish
begin

section \<open>Reachable hubs\<close>

text \<open>
  The methods of the hub as steps, with what their callers guarantee: \<open>uuid.NewV7\<close> never
  repeats an identifier, and \<open>ServeHTTP\<close> identifies or resumes once on a connection of its own.
\<close>

definition unused :: "nat \<Rightarrow> 'p hub \<Rightarrow> bool" where
  "unused k h \<longleftrightarrow> (\<forall>s\<in>set (h_sessions h). s_client s \<noteq> Some k)"

inductive hub_step :: "(gatewayMessage \<Rightarrow> 'p option) \<Rightarrow> 'p hub \<Rightarrow> 'p hub \<Rightarrow> bool"
  for marshal where
  Identify: "\<forall>i. gen = Some i \<longrightarrow> i \<notin> keys s_id (h_sessions h) \<Longrightarrow> unused k h \<Longrightarrow>
    hub_step marshal h (snd (identify marshal gen now h u intents k))"
| Resume: "unused k h \<Longrightarrow> hub_step marshal h (snd (resume marshal now h u i after k))"
| Detach: "hub_step marshal h (detach now h i k)"
| Publish: "hub_step marshal h (publish marshal now event us h)"
| ToUser: "hub_step marshal h (publishToUser marshal now u name data h)"
| Prune: "hub_step marshal h (prune now h)"
| Reply: "hub_step marshal h (snd (enqueue_on k p h))"
| Terminate: "hub_step marshal h (terminate_on k h)"
| Write: "hub_step marshal h (h\<lparr>h_conn := (h_conn h)(k := writeLoop_step written (h_conn h k))\<rparr>)"

abbreviation hub_steps :: "(gatewayMessage \<Rightarrow> 'p option) \<Rightarrow> 'p hub \<Rightarrow> 'p hub \<Rightarrow> bool" where
  "hub_steps marshal \<equiv> (hub_step marshal)\<^sup>*\<^sup>*"

lemma hub_inv_cong:
  "hub_inv marshal h \<Longrightarrow> h_sessions h' = h_sessions h \<Longrightarrow> h_byUser h' = h_byUser h \<Longrightarrow> h_buffer h' = h_buffer h \<Longrightarrow> hub_inv marshal h'"
proof -
  assume *: "hub_inv marshal h" "h_sessions h' = h_sessions h" "h_byUser h' = h_byUser h" "h_buffer h' = h_buffer h"
  then have "user_sessions h' = user_sessions h"
    by (simp add: user_sessions_def fun_eq_iff)
  then have "index_ok h' = index_ok h" "clients_ok h' = clients_ok h" "within_limits h' = within_limits h"
    "sessions_ok marshal h' = sessions_ok marshal h"
    using *(2-4) by (simp_all add: index_ok_def clients_ok_def within_limits_def sessions_ok_def)
  with *(1) show ?thesis
    by (simp add: hub_inv_def)
qed

lemma update_one:
  assumes "distinct (map key t)" and "r \<in> set t"
  shows "update_where (\<lambda>x. key x = key r) f t = map (\<lambda>x. if x = r then f r else x) t"
  using distinct_key_eq [OF assms(1) _ assms(2)] by (auto simp: update_where_def)

lemma put_session_inv:
  assumes inv: "hub_inv marshal h" and s: "s \<in> set (h_sessions h)" and "s_id s' = s_id s" and "s_userID s' = s_userID s"
    and ok: "session_ok marshal (h_buffer h) s'"
    and own: "\<And>k x. s_client s' = Some k \<Longrightarrow> x \<in> set (h_sessions h) \<Longrightarrow> x \<noteq> s \<Longrightarrow> s_client x \<noteq> Some k"
  shows "hub_inv marshal (put_session s' h)"
proof -
  let ?f = "\<lambda>x. if x = s then s' else x"
  have i: "index_ok h" using inv by (simp add: hub_inv_def)
  have S: "h_sessions (put_session s' h) = map ?f (h_sessions h)"
    using update_one [OF index_ok_distinct [OF i] s, of "\<lambda>_. s'"] assms(3) by simp
  have "index_ok (put_session s' h)"
    using index_ok_map [OF i S] assms(3,4) by simp
  moreover have "clients_ok (put_session s' h)"
    unfolding clients_ok_def
  proof (intro ballI allI impI)
    fix a b k
    assume ab: "a \<in> set (h_sessions (put_session s' h))" "b \<in> set (h_sessions (put_session s' h))"
      and k: "s_client a = Some k" "s_client b = Some k"
    from ab(1) obtain x where x: "a = ?f x" "x \<in> set (h_sessions h)"
      unfolding S set_map by (rule imageE)
    from ab(2) obtain y where y: "b = ?f y" "y \<in> set (h_sessions h)"
      unfolding S set_map by (rule imageE)
    have "x = y" if "s_client x = Some k" "s_client y = Some k"
      using inv x(2) y(2) that unfolding hub_inv_def clients_ok_def by blast
    then show "a = b"
      using own [OF _ x(2)] own [OF _ y(2)] k x(1) y(1) by (cases "x = s"; cases "y = s") auto
  qed
  moreover have "within_limits (put_session s' h)"
    using inv by (simp add: S hub_inv_def within_limits_def del: put_session_fields(1))
  moreover have "sessions_ok marshal (put_session s' h)"
    using inv ok by (auto simp: sessions_ok_def S hub_inv_def simp del: put_session_fields(1))
  ultimately show ?thesis
    by (simp add: hub_inv_def)
qed

lemma detach_session_ok: "session_ok marshal n s \<Longrightarrow> session_ok marshal n (detach_session now s k)"
  by (simp add: session_ok_def detach_session_def)

lemma detach_inv:
  assumes "hub_inv marshal h"
  shows "hub_inv marshal (detach now h i k)"
proof (cases "find_by s_id (h_sessions h) i")
  case (Some s)
  then have "s \<in> set (h_sessions h)"
    using find_by_SomeD by fastforce
  moreover have "session_ok marshal (h_buffer h) s"
    using assms calculation by (simp add: hub_inv_def sessions_ok_def)
  moreover have "x = s" if "s_client (detach_session now s k) = Some k'" "x \<in> set (h_sessions h)" "s_client x = Some k'" for k' x
  proof -
    have "s_client s = Some k'"
      using that(1) by (simp add: detach_session_def split: if_splits)
    then show ?thesis
      using assms that(2,3) \<open>s \<in> set (h_sessions h)\<close> unfolding hub_inv_def clients_ok_def by blast
  qed
  ultimately have "hub_inv marshal (put_session (detach_session now s k) h)"
    using detach_session_ok by (intro put_session_inv [OF assms, of s]) auto
  then show ?thesis
    by (simp add: detach_def Some)
qed (simp add: detach_def assms)

lemma dispatchLocked_inv:
  assumes "hub_inv marshal h" and "s \<in> set (h_sessions h)" and "\<And>f. marshal f \<noteq> None" and "0 < h_buffer h"
    and "dispatchLocked marshal now s name data h = (b, h')"
  shows "hub_inv marshal h'"
proof -
  let ?s = "deliver marshal now (h_buffer h) (h_conn h) (name, data) s"
  have "x = s" if "s_client ?s = Some k" "x \<in> set (h_sessions h)" "s_client x = Some k" for k x
    using assms(1,2) that deliver_client [OF that(1)] unfolding hub_inv_def clients_ok_def by blast
  then have "hub_inv marshal (put_session ?s h)"
    using assms(1,2) deliver_ok [OF _ assms(3,4)] by (intro put_session_inv [OF assms(1,2)]) (auto simp: hub_inv_def sessions_ok_def)
  then show ?thesis
    by (rule hub_inv_cong) (simp_all add: dispatchLocked_fields [OF assms(5)])
qed

subsection \<open>Identify\<close>

lemma update_last:
  "key r \<notin> keys key t \<Longrightarrow> key r' = key r \<Longrightarrow> update_where (\<lambda>x. key x = key r) (\<lambda>_. r') (t @ [r]) = t @ [r']"
  by (induction t) (auto simp: update_where_def)

lemma new_session_inv:
  assumes inv: "hub_inv marshal h" and room: "length (h_sessions h) < maxSessions" "length (user_sessions h u) < maxSessionsPerUser"
    and i: "s_id s \<notin> keys s_id (h_sessions h)" and u: "s_userID s = u" and ok: "session_ok marshal (h_buffer h) s"
    and k: "\<And>k. s_client s = Some k \<Longrightarrow> unused k h"
    and h': "h_sessions h' = h_sessions h @ [s]" "h_byUser h' = (h_byUser h)(u \<mapsto> user_sessions h u @ [s_id s])" "h_buffer h' = h_buffer h"
  shows "hub_inv marshal h'"
proof -
  have ix: "index_ok h" using inv by (simp add: hub_inv_def)
  have us: "user_sessions h' v = (if v = u then user_sessions h v @ [s_id s] else user_sessions h v)" for v
    by (simp add: user_sessions_def h'(2))
  have "index_ok h'"
    using ix i u us by (auto simp: index_ok_def h')
  moreover have "clients_ok h'"
    using inv k unfolding hub_inv_def clients_ok_def h'(1) unused_def by auto
  moreover have "within_limits h'"
    using inv room us by (auto simp: hub_inv_def within_limits_def h')
  moreover have "sessions_ok marshal h'"
    using inv ok by (auto simp: hub_inv_def sessions_ok_def h')
  ultimately show ?thesis by (simp add: hub_inv_def)
qed

text \<open>The outcomes of \<open>identify\<close> when frames can be encoded.\<close>

lemma identify_cases [consumes 5, case_names Refused Identified]:
  assumes ix: "index_ok h" and fresh: "\<forall>i. gen = Some i \<longrightarrow> i \<notin> keys s_id (h_sessions h)"
    and total: "\<And>f. marshal f \<noteq> None" and buf: "0 < h_buffer h"
    and run: "identify marshal gen now h u intents k = (r, h')"
  obtains (Refused) e where "r = Inl e" and "h' = pruneLocked now h"
      and "e = errSessionCapacity \<longleftrightarrow> length (h_sessions h') \<ge> maxSessions \<or> length (user_sessions h' u) \<ge> maxSessionsPerUser"
  | (Identified) i p s where "gen = Some i" and "r = Inr i"
      and "marshal (frame_of 0 eventReady (ReadyData i (h_gatewayURL h))) = Some p"
      and "length (h_sessions (pruneLocked now h)) < maxSessions" and "length (user_sessions (pruneLocked now h) u) < maxSessionsPerUser"
      and "s_id s = i" and "s_userID s = u" and "s_intents s = intents" and "s_sequence s = 0" and "s_events s = [(0, p)]"
      and "if fst (enqueue (h_conn h k) p) then s_client s = Some k \<and> s_disconnectedAt s = None
           else s_client s = None \<and> s_disconnectedAt s = Some now"
      and "h_sessions h' = h_sessions (pruneLocked now h) @ [s]"
      and "h_byUser h' = (h_byUser (pruneLocked now h))(u \<mapsto> user_sessions (pruneLocked now h) u @ [i])"
      and "h_buffer h' = h_buffer h" and "h_conn h' = (h_conn h)(k := snd (enqueue (h_conn h k) p))"
proof -
  let ?h = "pruneLocked now h"
  note pr = pruneLocked_fields [OF ix, of now]
  show ?thesis
  proof (cases "length (h_sessions ?h) \<ge> maxSessions \<or> length (user_sessions ?h u) \<ge> maxSessionsPerUser")
    case True
    then show ?thesis
      using run by (intro Refused [of errSessionCapacity]) (auto simp: identify_def)
  next
    case room: False
    show ?thesis
    proof (cases gen)
      case None
      then show ?thesis
        using run room by (intro Refused [of "HubInternal ''generate session id''"]) (auto simp: identify_def)
    next
      case (Some i)
      obtain p where p: "marshal (frame_of 0 eventReady (ReadyData i (h_gatewayURL h))) = Some p"
        using total by blast
      let ?s = "\<lparr>s_id = i, s_userID = u, s_intents = intents, s_sequence = 0, s_events = [],
                  s_client = Some k, s_disconnectedAt = None\<rparr> :: 'a session"
      let ?s2 = "appendEvent (h_buffer h) ?s (0, p)"
      let ?s3 = "if fst (enqueue (h_conn h k) p) then ?s2 else detach_session now ?s2 k"
      have "i \<notin> keys s_id (h_sessions ?h)"
        using fresh Some pr(2) by auto
      then have upd: "update_where (\<lambda>x. s_id x = i) (\<lambda>_. x) (h_sessions ?h @ [?s]) = h_sessions ?h @ [x]" if "s_id x = i" for x
        using update_last [of s_id ?s "h_sessions ?h" x] that by simp
      have ev: "s_events ?s2 = [(0, p)]"
        using buf by (simp add: appendEvent_def)
      show ?thesis
        using run room p upd pr(3,4,6) ev
        by (intro Identified [OF Some, of p ?s3])
          (auto simp: identify_def Some Let_def frame_of_def enqueue_on_eq detach_session_def split: bool.splits if_splits)
    qed
  qed
qed

lemma identify_inv:
  assumes inv: "hub_inv marshal h" and fresh: "\<forall>i. gen = Some i \<longrightarrow> i \<notin> keys s_id (h_sessions h)" and k: "unused k h"
    and total: "\<And>f. marshal f \<noteq> None" and buf: "0 < h_buffer h"
  shows "hub_inv marshal (snd (identify marshal gen now h u intents k))"
proof -
  have ix: "index_ok h" using inv by (simp add: hub_inv_def)
  note pr = pruneLocked_fields [OF ix, of now]
  obtain r h' where run: "identify marshal gen now h u intents k = (r, h')" by fastforce
  from ix fresh total buf run show ?thesis
  proof (cases rule: identify_cases)
    case (Refused e)
    then show ?thesis
      using run pruneLocked_inv [OF inv] by simp
  next
    case (Identified i p s)
    have "session_ok marshal (h_buffer (pruneLocked now h)) s"
      using Identified buf pr(4) by (auto simp: session_ok_def frame_of_def split: if_splits)
    moreover have "unused k (pruneLocked now h)"
      using k pr(2) by (simp add: unused_def)
    moreover have "i \<notin> keys s_id (h_sessions (pruneLocked now h))"
      using fresh Identified pr(2) by auto
    ultimately have "hub_inv marshal h'"
      using Identified pr(4) by (intro new_session_inv [OF pruneLocked_inv [OF inv, of now], of u s]) (auto split: if_splits)
    then show ?thesis
      using run by simp
  qed
qed


subsection \<open>Resume\<close>

lemma replay_fields:
  assumes "replay after k es h = (b, h')"
  shows "h_sessions h' = h_sessions h" and "h_byUser h' = h_byUser h" and "h_buffer h' = h_buffer h"
  using assms by (induction es arbitrary: h) (auto simp: enqueue_on_eq split: if_splits bool.splits)

text \<open>The parameters \<open>resume\<close> accepts.\<close>

definition resumable :: "'p hub \<Rightarrow> uuid \<Rightarrow> uuid \<Rightarrow> int \<Rightarrow> bool" where
  "resumable h u i after \<longleftrightarrow> (\<exists>s\<in>set (h_sessions h). s_id s = i \<and> s_userID s = u \<and> 0 \<le> after \<and> after \<le> s_sequence s
     \<and> (s_events s = [] \<or> fst (hd (s_events s)) - 1 \<le> after))"

lemma resume_refused:
  "index_ok h \<Longrightarrow> \<not> resumable (pruneLocked now h) u i after \<Longrightarrow> resume marshal now h u i after k = (False, pruneLocked now h)"
  by (auto simp: resume_def resumable_def Let_def not_le split: option.splits dest!: find_by_SomeD)

definition resumed_session :: "nat \<Rightarrow> 'p session \<Rightarrow> 'p session" where
  "resumed_session k s = s\<lparr>s_client := Some k, s_disconnectedAt := None\<rparr>"

definition taken_over :: "nat \<Rightarrow> 'p session \<Rightarrow> 'p hub \<Rightarrow> 'p hub" where
  "taken_over k s h = put_session (resumed_session k s)
     (case s_client s of None \<Rightarrow> h | Some k' \<Rightarrow> if k' \<noteq> k then terminate_on k' h else h)"

lemma resume_eq:
  assumes "index_ok h" and "s \<in> set (h_sessions h)" and "resumable h (s_userID s) (s_id s) after" and "pruneLocked now h0 = h"
  shows "resume marshal now h0 (s_userID s) (s_id s) after k =
    (case replay after k (s_events s) (taken_over k s h) of
       (False, h3) \<Rightarrow> (False, put_session (detach_session now (resumed_session k s) k) h3)
     | (True, h3) \<Rightarrow> dispatchLocked marshal now (resumed_session k s) eventResumed EmptyData h3)"
proof -
  have "x = s" if "x \<in> set (h_sessions h)" "s_id x = s_id s" for x
    using session_eq [OF assms(1) that(1) assms(2) that(2)] .
  then have "0 \<le> after \<and> after \<le> s_sequence s \<and> (s_events s = [] \<or> fst (hd (s_events s)) - 1 \<le> after)"
    using assms(3) by (auto simp: resumable_def)
  then show ?thesis
    using find_session [OF assms(1,2)] assms(4)
    by (auto simp: resume_def Let_def taken_over_def resumed_session_def cong: prod.case_cong split: option.split prod.split bool.split)
qed

lemma put_other_session_inv:
  assumes "hub_inv marshal h" and "s \<in> set (h_sessions h)" and "unused k h"
    and "s_id s' = s_id s" and "s_userID s' = s_userID s" and "session_ok marshal (h_buffer h) s'"
    and "s_client s' = None \<or> s_client s' = Some k"
  shows "hub_inv marshal (put_session s' h)"
  using assms(3,7) by (intro put_session_inv [OF assms(1,2,4,5,6)]) (auto simp: unused_def)

lemma resume_inv:
  assumes inv: "hub_inv marshal h0" and k: "unused k h0" and total: "\<And>f. marshal f \<noteq> None" and buf: "0 < h_buffer h0"
  shows "hub_inv marshal (snd (resume marshal now h0 u i after k))"
proof -
  let ?h = "pruneLocked now h0"
  have ix0: "index_ok h0" using inv by (simp add: hub_inv_def)
  note pr = pruneLocked_fields [OF ix0, of now] and h = pruneLocked_inv [OF inv, of now]
  show ?thesis
  proof (cases "resumable ?h u i after")
    case False
    then show ?thesis
      using resume_refused [OF ix0] h by simp
  next
    case True
    then obtain s where s: "s \<in> set (h_sessions ?h)" "s_id s = i" "s_userID s = u"
      by (auto simp: resumable_def)
    let ?s = "resumed_session k s" and ?h2 = "taken_over k s ?h"
    have k': "unused k ?h"
      using k pr(2) by (simp add: unused_def)
    have ok: "session_ok marshal (h_buffer ?h) ?s"
      using h s(1) by (auto simp: hub_inv_def sessions_ok_def session_ok_def resumed_session_def)
    have h2: "hub_inv marshal ?h2"
      unfolding taken_over_def
      by (rule hub_inv_cong [OF put_other_session_inv [OF h s(1) k', of ?s]])
        (use ok in \<open>auto simp: resumed_session_def split: option.split\<close>)
    have "h_buffer ?h2 = h_buffer ?h"
      by (simp add: taken_over_def split: option.split)
    have in2: "?s \<in> set (h_sessions ?h2)"
      using s(1) by (force simp: taken_over_def set_update_where resumed_session_def split: option.split)
    obtain b h3 where r: "replay after k (s_events s) ?h2 = (b, h3)" by fastforce
    note f = replay_fields [OF r]
    have h3: "hub_inv marshal h3"
      using h2 f by (rule hub_inv_cong)
    have eq: "resume marshal now h0 u i after k =
        (if b then dispatchLocked marshal now ?s eventResumed EmptyData h3 else (False, put_session (detach_session now ?s k) h3))"
      using resume_eq [OF pr(1) s(1) _ refl, of after marshal k] True s(2,3) r by (cases b) auto
    show ?thesis
    proof (cases b)
      case True
      obtain c h4 where "dispatchLocked marshal now ?s eventResumed EmptyData h3 = (c, h4)" by fastforce
      moreover have "hub_inv marshal h4"
        using dispatchLocked_inv [OF h3 _ total _ calculation] in2 f buf pr(4) \<open>h_buffer ?h2 = h_buffer ?h\<close> by simp
      ultimately show ?thesis
        by (simp add: eq True)
    next
      case False
      have "hub_inv marshal (put_session (detach_session now ?s k) h3)"
        using in2 f detach_session_ok [OF ok, of now k] \<open>h_buffer ?h2 = h_buffer ?h\<close>
        by (intro put_session_inv [OF h3, of ?s]) (auto simp: detach_session_def resumed_session_def)
      then show ?thesis
        by (simp add: eq False)
    qed
  qed
qed

subsection \<open>Every step keeps the invariant\<close>

lemma identify_buffer: "index_ok h \<Longrightarrow> h_buffer (snd (identify marshal gen now h u intents k)) = h_buffer h"
  by (simp add: identify_def Let_def pruneLocked_fields(4) enqueue_on_eq split: option.split bool.split)

lemma resume_buffer:
  assumes "index_ok h"
  shows "h_buffer (snd (resume marshal now h u i after k)) = h_buffer h"
proof -
  note pr = pruneLocked_fields [OF assms, of now]
  have d: "h_buffer (snd (dispatchLocked marshal now s name data h')) = h_buffer h'" for s name data h'
    using dispatchLocked_fields(3) by (metis prod.collapse)
  have r: "h_buffer (snd (replay after k es h')) = h_buffer h'" for es h'
    using replay_fields(3) by (metis prod.collapse)
  show ?thesis
  proof (cases "resumable (pruneLocked now h) u i after")
    case False
    then show ?thesis by (simp add: resume_refused [OF assms] pr)
  next
    case True
    then obtain s where s: "s \<in> set (h_sessions (pruneLocked now h))" "s_id s = i" "s_userID s = u"
      by (auto simp: resumable_def)
    have t: "h_buffer (taken_over k s (pruneLocked now h)) = h_buffer h"
      by (simp add: taken_over_def pr split: option.split)
    show ?thesis
      using resume_eq [OF pr(1) s(1) _ refl, of after marshal k] True s(2,3) t
        r [of "s_events s" "taken_over k s (pruneLocked now h)"] d
      by (auto split: prod.split bool.split)
  qed
qed

lemma publish_buffer: "index_ok h \<Longrightarrow> clients_ok h \<Longrightarrow> h_buffer (publish marshal now event us h) = h_buffer h"
  using touched_publish [of h marshal now event us] by (simp add: touched_def pruneLocked_fields(4))

lemma hub_step_buffer: "hub_step marshal h h' \<Longrightarrow> index_ok h \<Longrightarrow> clients_ok h \<Longrightarrow> h_buffer h' = h_buffer h"
  by (induction rule: hub_step.induct)
    (auto simp: identify_buffer resume_buffer publish_buffer detach_def publishToUser_eq prune_def pruneLocked_fields(4)
      enqueue_on_eq split: option.split)

lemma hub_step_inv:
  assumes "hub_step marshal h h'" and "hub_inv marshal h" and "\<And>f. marshal f \<noteq> None" and "0 < h_buffer h"
  shows "hub_inv marshal h'"
  using assms
proof (induction rule: hub_step.induct)
  case Identify
  then show ?case by (intro identify_inv) auto
next
  case Resume
  then show ?case by (intro resume_inv) auto
next
  case Detach
  then show ?case by (intro detach_inv) auto
next
  case Publish
  then show ?case by (intro publish_inv) auto
next
  case ToUser
  then show ?case unfolding publishToUser_eq by (intro publish_inv) auto
next
  case Prune
  then show ?case by (simp add: prune_def pruneLocked_inv)
qed (auto intro: hub_inv_cong simp: enqueue_on_eq)

lemma newHub_inv: "hub_inv marshal (newHub url retention n conn)"
  by (simp add: newHub_def hub_inv_def index_ok_def clients_ok_def within_limits_def sessions_ok_def user_sessions_def)

lemma hub_steps_inv:
  assumes "hub_steps marshal h h'" and "hub_inv marshal h" and "\<And>f. marshal f \<noteq> None" and "0 < h_buffer h"
  shows "hub_inv marshal h' \<and> h_buffer h' = h_buffer h"
  using assms(1)
proof (induction rule: rtranclp_induct)
  case base
  then show ?case using assms(2) by simp
next
  case (step y z)
  then show ?case
    using hub_step_inv [OF step(2) _ assms(3)] hub_step_buffer [OF step(2)] assms(4) by (simp add: hub_inv_def)
qed

end
