(* ===== verification/Gateway_Conn.thy ===== *)
theory Gateway_Conn
  imports Gateway_Steps Go_Text
begin

section \<open>Gateway connections\<close>

text \<open>
  \<open>internal/gateway/service.go\<close>: the configuration, the check of origins, \<open>ServeHTTP\<close> as a
  machine that is fed what the socket reads, and the \<open>Publish\<close> methods. \<open>encoding/json\<close> on
  inbound frames is the record \<open>gateway_json\<close>, \<open>url.Parse\<close> and the authenticator are
  arguments.
\<close>

subsection \<open>Configuration\<close>

record url =
  url_Scheme :: string
  url_Host :: string
  url_HasUser :: bool
  url_Path :: string
  url_RawQuery :: string
  url_Fragment :: string

record GatewayConfig =
  gc_URL :: string
  gc_HeartbeatInterval :: duration
  gc_IdentifyTimeout :: duration
  gc_SessionRetention :: duration
  gc_EventBufferSize :: int
  gc_AllowedOrigins :: "string list"

record gateway_service =
  gs_heartbeatInterval :: duration
  gs_identifyTimeout :: duration
  gs_allowedOrigins :: "string list"
  gs_eventBufferSize :: nat

definition trim_slash :: "string \<Rightarrow> string" where
  "trim_slash s = (if s \<noteq> [] \<and> last s = CHR ''/'' then butlast s else s)"

fun parse_origins :: "(string \<Rightarrow> url option) \<Rightarrow> string list \<Rightarrow> (string + string list)" where
  "parse_origins url_Parse [] = Inr []"
| "parse_origins url_Parse (o1 # os) =
     (let origin = trim_slash (strings_TrimSpace o1) in
      case url_Parse origin of None \<Rightarrow> Inl ''gateway allowed origins must be absolute origins''
      | Some u \<Rightarrow>
          if url_Scheme u = [] \<or> url_Host u = [] \<or> url_Path u \<noteq> [] \<or> url_HasUser u \<or> url_RawQuery u \<noteq> [] \<or> url_Fragment u \<noteq> []
          then Inl ''gateway allowed origins must be absolute origins''
          else (case parse_origins url_Parse os of Inl e \<Rightarrow> Inl e | Inr rest \<Rightarrow> Inr (origin # rest)))"

text \<open>\<open>New\<close> without its nil checks, which concern the caller's wiring.\<close>

definition Gateway_New ::
  "(string \<Rightarrow> url option) \<Rightarrow> (nat \<Rightarrow> 'p client) \<Rightarrow> GatewayConfig \<Rightarrow> (string + gateway_service \<times> 'p hub)" where
  "Gateway_New url_Parse conn config =
     (case url_Parse (gc_URL config) of None \<Rightarrow> Inl ''gateway URL must use ws or wss''
      | Some u \<Rightarrow>
          if url_Scheme u \<noteq> ''ws'' \<and> url_Scheme u \<noteq> ''wss'' \<or> url_Host u = [] \<or> url_HasUser u \<or> url_Fragment u \<noteq> []
          then Inl ''gateway URL must use ws or wss''
          else if gc_HeartbeatInterval config \<le> 0 \<or> gc_IdentifyTimeout config \<le> 0 \<or> gc_SessionRetention config \<le> 0 \<or> gc_EventBufferSize config < 1
          then Inl ''gateway timeouts and event buffer size must be positive''
          else (case parse_origins url_Parse (gc_AllowedOrigins config) of Inl e \<Rightarrow> Inl e
      | Inr origins \<Rightarrow> Inr
          (\<lparr>gs_heartbeatInterval = gc_HeartbeatInterval config, gs_identifyTimeout = gc_IdentifyTimeout config,
            gs_allowedOrigins = origins, gs_eventBufferSize = nat (gc_EventBufferSize config)\<rparr>,
           newHub (gc_URL config) (gc_SessionRetention config) (nat (gc_EventBufferSize config)) conn)))"

definition checkOrigin :: "(string \<Rightarrow> url option) \<Rightarrow> string list \<Rightarrow> string \<Rightarrow> string \<Rightarrow> bool" where
  "checkOrigin url_Parse allowed header host =
     (let origin = trim_slash header in
      if origin = [] then True
      else if origin \<in> set allowed then True
      else (case url_Parse origin of None \<Rightarrow> False | Some u \<Rightarrow> url_Host u = host))"

subsection \<open>Inbound frames\<close>

datatype inbound_frame = ReadFailed | BinaryFrame | TextFrame string

record gateway_json =
  gj_inbound :: "string \<Rightarrow> (op \<times> string) option"
  gj_identify :: "string \<Rightarrow> (string \<times> int) option"
  gj_resume :: "string \<Rightarrow> (string \<times> uuid \<times> int) option"
  gj_sequence :: "string \<Rightarrow> int option"

definition closeUnauthorized :: int where "closeUnauthorized = 4001"
definition closeProtocolError :: int where "closeProtocolError = 4002"
definition closeInvalidSession :: int where "closeInvalidSession = 4003"

type_synonym close_frame = "int \<times> string"

definition readInbound :: "gateway_json \<Rightarrow> inbound_frame \<Rightarrow> (close_frame option + op \<times> string)" where
  "readInbound json frame =
     (case frame of ReadFailed \<Rightarrow> Inl None
      | BinaryFrame \<Rightarrow> Inl (Some (closeProtocolError, ''text messages are required''))
      | TextFrame payload \<Rightarrow> (case gj_inbound json payload of
          None \<Rightarrow> Inl (Some (1007, ''invalid gateway message''))
        | Some (opcode, d) \<Rightarrow> if d = [] then Inl (Some (1007, ''invalid gateway message'')) else Inr (opcode, d)))"

definition validHeartbeatPayload :: "gateway_json \<Rightarrow> string \<Rightarrow> bool" where
  "validHeartbeatPayload json d \<longleftrightarrow> d = ''null'' \<or> (case gj_sequence json d of None \<Rightarrow> False | Some n \<Rightarrow> n \<ge> 0)"

subsection \<open>The handler\<close>

text \<open>
  \<open>ServeHTTP\<close> reads one frame at a time: it greets, waits for \<open>IDENTIFY\<close> or \<open>RESUME\<close>, then
  serves heartbeats for its session with the token it was given. Every \<open>return\<close> runs the deferred
  calls: \<open>detach\<close> once there is a session, and \<open>terminate\<close>.
\<close>

datatype phase = Greeted | Serving uuid string | Returned

record conn =
  cn_client :: nat
  cn_phase :: phase
  cn_close :: "close_frame option"

text \<open>A connection and the hub.\<close>

type_synonym 'p conn_hub = "conn \<times> 'p hub"

definition plain_frame :: "op \<Rightarrow> event_data \<Rightarrow> gatewayMessage" where
  "plain_frame opcode d = \<lparr>gwm_Op = opcode, gwm_T = [], gwm_S = None, gwm_D = d\<rparr>"

definition enqueueJSON :: "(gatewayMessage \<Rightarrow> 'p option) \<Rightarrow> nat \<Rightarrow> gatewayMessage \<Rightarrow> 'p hub \<Rightarrow> bool \<times> 'p hub" where
  "enqueueJSON marshal k m h = (case marshal m of None \<Rightarrow> (False, h) | Some p \<Rightarrow> enqueue_on k p h)"

text \<open>\<open>writeJSONNow\<close> goes around the queue.\<close>

definition writeJSONNow :: "(gatewayMessage \<Rightarrow> 'p option) \<Rightarrow> nat \<Rightarrow> gatewayMessage \<Rightarrow> 'p hub \<Rightarrow> 'p hub" where
  "writeJSONNow marshal k m h =
     (case marshal m of None \<Rightarrow> h
      | Some p \<Rightarrow> if cl_done (h_conn h k) then h
                  else h\<lparr>h_conn := (h_conn h)(k := (h_conn h k)\<lparr>cl_written := cl_written (h_conn h k) @ [p]\<rparr>)\<rparr>)"

definition leave :: "time \<Rightarrow> close_frame option \<Rightarrow> 'p conn_hub \<Rightarrow> 'p conn_hub" where
  "leave now close = (\<lambda>(c, h).
     let h1 = (if close = None then h else terminate_on (cn_client c) h);
         h2 = (case cn_phase c of Serving i _ \<Rightarrow> detach now h1 i (cn_client c) | _ \<Rightarrow> h1)
     in (c\<lparr>cn_phase := Returned, cn_close := close\<rparr>, terminate_on (cn_client c) h2))"

definition serve_open :: "(gatewayMessage \<Rightarrow> 'p option) \<Rightarrow> duration \<Rightarrow> bool list \<Rightarrow> nat \<Rightarrow> time \<Rightarrow> 'p hub \<Rightarrow> 'p conn_hub" where
  "serve_open marshal heartbeatInterval pick k now h0 =
     (let h = h0\<lparr>h_conn := (h_conn h0)(k := newClient (h_buffer h0 + 8) pick)\<rparr>;
          c = \<lparr>cn_client = k, cn_phase = Greeted, cn_close = None\<rparr> in
      case enqueueJSON marshal k (plain_frame opHello (HelloData (heartbeatInterval div 1000000))) h of
        (False, h1) \<Rightarrow> leave now None (c, h1)
      | (True, h1) \<Rightarrow> (c, h1))"

definition serve_identify ::
  "(gatewayMessage \<Rightarrow> 'p option) \<Rightarrow> gateway_json \<Rightarrow> (string \<Rightarrow> uuid option) \<Rightarrow> uuid option \<Rightarrow> time \<Rightarrow> string \<Rightarrow> 'p conn_hub \<Rightarrow> 'p conn_hub" where
  "serve_identify marshal json auth gen now d = (\<lambda>(c, h).
     case gj_identify json d of None \<Rightarrow> leave now (Some (closeProtocolError, ''invalid identify payload'')) (c, h)
     | Some (token, intents) \<Rightarrow>
         if token = [] \<or> intents < 0 \<or> intents > 2 ^ 31 - 1
         then leave now (Some (closeProtocolError, ''invalid identify payload'')) (c, h)
         else (case auth token of None \<Rightarrow> leave now (Some (closeUnauthorized, ''authentication failed'')) (c, h)
     | Some u \<Rightarrow> (case identify marshal gen now h u (of_int intents) (cn_client c) of
           (Inl errSessionCapacity, h1) \<Rightarrow> leave now (Some (1013, ''gateway session capacity reached'')) (c, h1)
         | (Inl (HubInternal _), h1) \<Rightarrow> leave now (Some (1011, ''internal error'')) (c, h1)
         | (Inr i, h1) \<Rightarrow> (c\<lparr>cn_phase := Serving i token\<rparr>, h1))))"

definition serve_resume ::
  "(gatewayMessage \<Rightarrow> 'p option) \<Rightarrow> gateway_json \<Rightarrow> (string \<Rightarrow> uuid option) \<Rightarrow> time \<Rightarrow> string \<Rightarrow> 'p conn_hub \<Rightarrow> 'p conn_hub" where
  "serve_resume marshal json auth now d = (\<lambda>(c, h).
     case gj_resume json d of None \<Rightarrow> leave now (Some (closeProtocolError, ''invalid resume payload'')) (c, h)
     | Some (token, i, sequence) \<Rightarrow>
         if token = [] \<or> i = uuid_Nil \<or> sequence < 0
         then leave now (Some (closeProtocolError, ''invalid resume payload'')) (c, h)
         else (case auth token of None \<Rightarrow> leave now (Some (closeUnauthorized, ''authentication failed'')) (c, h)
     | Some u \<Rightarrow> (case resume marshal now h u i sequence (cn_client c) of
           (False, h1) \<Rightarrow> leave now (Some (closeInvalidSession, ''session cannot be resumed''))
             (c, writeJSONNow marshal (cn_client c) (plain_frame opInvalidSession (ResumableData False)) h1)
         | (True, h1) \<Rightarrow> (c\<lparr>cn_phase := Serving i token\<rparr>, h1))))"

definition serve_first ::
  "(gatewayMessage \<Rightarrow> 'p option) \<Rightarrow> gateway_json \<Rightarrow> (string \<Rightarrow> uuid option) \<Rightarrow> uuid option \<Rightarrow> time \<Rightarrow> inbound_frame \<Rightarrow> 'p conn_hub \<Rightarrow> 'p conn_hub" where
  "serve_first marshal json auth gen now frame ch =
     (case readInbound json frame of Inl close \<Rightarrow> leave now close ch
      | Inr (opcode, d) \<Rightarrow>
          if opcode = opIdentify then serve_identify marshal json auth gen now d ch
          else if opcode = opResume then serve_resume marshal json auth now d ch
          else leave now (Some (closeProtocolError, ''identify or resume is required'')) ch)"

definition serve_heartbeat ::
  "(gatewayMessage \<Rightarrow> 'p option) \<Rightarrow> gateway_json \<Rightarrow> (string \<Rightarrow> uuid option) \<Rightarrow> time \<Rightarrow> string \<Rightarrow> inbound_frame \<Rightarrow> 'p conn_hub \<Rightarrow> 'p conn_hub" where
  "serve_heartbeat marshal json auth now accessToken frame ch =
     (case readInbound json frame of Inl close \<Rightarrow> leave now close ch
      | Inr (opcode, d) \<Rightarrow>
          if opcode \<noteq> opHeartbeat \<or> \<not> validHeartbeatPayload json d
          then leave now (Some (closeProtocolError, ''heartbeat is required'')) ch
          else (case auth accessToken of None \<Rightarrow> leave now (Some (closeUnauthorized, ''session expired'')) ch
      | Some _ \<Rightarrow> (case enqueueJSON marshal (cn_client (fst ch)) (plain_frame opHeartbeatAck NullData) (snd ch) of
            (False, h1) \<Rightarrow> leave now None (fst ch, h1)
          | (True, h1) \<Rightarrow> (fst ch, h1))))"

definition ServeHTTP ::
  "(gatewayMessage \<Rightarrow> 'p option) \<Rightarrow> gateway_json \<Rightarrow> (string \<Rightarrow> uuid option) \<Rightarrow> uuid option \<Rightarrow> time \<Rightarrow> inbound_frame \<Rightarrow> 'p conn_hub \<Rightarrow> 'p conn_hub" where
  "ServeHTTP marshal json auth gen now frame ch =
     (case cn_phase (fst ch) of
        Greeted \<Rightarrow> serve_first marshal json auth gen now frame ch
      | Serving _ accessToken \<Rightarrow> serve_heartbeat marshal json auth now accessToken frame ch
      | Returned \<Rightarrow> ch)"

subsection \<open>Publishing\<close>

definition PublishMessageCreate where
  "PublishMessageCreate marshal now recipients m h = publishMessage marshal now eventMessageCreate recipients m h"

definition PublishMessageUpdate where
  "PublishMessageUpdate marshal now recipients m h = publishMessage marshal now eventMessageUpdate recipients m h"

definition PublishMessageDelete where
  "PublishMessageDelete marshal now recipients messageID channelID direct h =
     publishMessageDelete marshal now recipients messageID channelID direct h"

definition PublishChannelCreate where
  "PublishChannelCreate marshal now recipients ch h =
     publishToIntent marshal now (channelIntent ch) eventChannelCreate recipients (ChannelData (channelEventPayload ch)) h"

definition PublishChannelUpdate where
  "PublishChannelUpdate marshal now recipients ch h =
     publishToIntent marshal now (channelIntent ch) eventChannelUpdate recipients (ChannelData (channelEventPayload ch)) h"

definition PublishChannelDelete where
  "PublishChannelDelete marshal now recipients channelID guildID h =
     publishToIntent marshal now (if guildID = None then intentDirectMessages else intentGuilds) eventChannelDelete recipients
       (ChannelDeleteData channelID guildID) h"

definition PublishMessageReaction where
  "PublishMessageReaction marshal now recipients add r h =
     publishMessageReaction marshal now (if add then eventMessageReactionAdd else eventMessageReactionRemove) recipients r h"

definition PublishTypingStart where
  "PublishTypingStart marshal now recipients t h = publishTypingStart marshal now recipients t h"

definition PublishMemberJoin where
  "PublishMemberJoin marshal now recipients m h =
     publishToIntent marshal now intentGuildMembers eventMemberJoin recipients (MemberData (memberEventPayload m)) h"

definition PublishMemberUpdate where
  "PublishMemberUpdate marshal now recipients m h =
     publishToIntent marshal now intentGuildMembers eventMemberUpdate recipients (MemberData (memberEventPayload m)) h"

definition PublishMemberLeave where
  "PublishMemberLeave marshal now recipients guildID userID h =
     publishToIntent marshal now intentGuildMembers eventMemberLeave recipients (MemberLeaveData guildID userID) h"

definition PublishPresenceUpdate where
  "PublishPresenceUpdate marshal now recipients guildID p h =
     publishToIntent marshal now intentGuildPresences eventPresenceUpdate recipients (PresenceData guildID (presenceEventPayload p)) h"

definition PublishReadStateUpdate where
  "PublishReadStateUpdate marshal now userID st h = publishToUser marshal now userID eventReadStateUpdate (ReadStateData st) h"

definition PublishVoiceStateUpdate where
  "PublishVoiceStateUpdate marshal now recipients st h =
     publishToIntent marshal now intentGuildVoiceStates eventVoiceStateUpdate recipients (VoiceStateData st) h"

definition Gateway_Sweep :: "time \<Rightarrow> 'p hub \<Rightarrow> 'p hub" where
  "Gateway_Sweep now h = prune now h"

end
