(* ===== verification/Gateway_Server.thy ===== *)
theory Gateway_Server
  imports Gateway_Conn
begin

section \<open>The gateway as a whole\<close>

text \<open>
  The hub with every connection ever accepted: connections open, are fed frames in any
  interleaving, events are published, sessions swept, queues written. What the steps of the hub
  assumed of their callers is an invariant here: the client of a session belongs to the one
  connection that serves that session.
\<close>

type_synonym 'p server = "'p hub \<times> conn list"

inductive server_step :: "(gatewayMessage \<Rightarrow> 'p option) \<Rightarrow> gateway_json \<Rightarrow> 'p server \<Rightarrow> 'p server \<Rightarrow> bool"
  for marshal json where
  Accept: "serve_open marshal heartbeat pick (length cs) now h = (c, h') \<Longrightarrow> server_step marshal json (h, cs) (h', cs @ [c])"
| Frame: "j < length cs \<Longrightarrow> \<forall>i. gen = Some i \<longrightarrow> i \<notin> keys s_id (h_sessions h) \<Longrightarrow>
    ServeHTTP marshal json auth gen now frame (cs ! j, h) = (c, h') \<Longrightarrow> server_step marshal json (h, cs) (h', cs[j := c])"
| Publish: "server_step marshal json (h, cs) (publish marshal now event us h, cs)"
| ToUser: "server_step marshal json (h, cs) (publishToUser marshal now u name data h, cs)"
| Sweep: "server_step marshal json (h, cs) (Gateway_Sweep now h, cs)"
| Write: "server_step marshal json (h, cs) (h\<lparr>h_conn := (h_conn h)(k := writeLoop_step written (h_conn h k))\<rparr>, cs)"

abbreviation server_steps :: "(gatewayMessage \<Rightarrow> 'p option) \<Rightarrow> gateway_json \<Rightarrow> 'p server \<Rightarrow> 'p server \<Rightarrow> bool" where
  "server_steps marshal json \<equiv> (server_step marshal json)\<^sup>*\<^sup>*"

inductive_cases server_stepE: "server_step marshal json (h, cs) v"

definition server_ok :: "(gatewayMessage \<Rightarrow> 'p option) \<Rightarrow> 'p server \<Rightarrow> bool" where
  "server_ok marshal = (\<lambda>(h, cs). hub_inv marshal h
     \<and> (\<forall>j<length cs. cn_client (cs ! j) = j)
     \<and> (\<forall>s\<in>set (h_sessions h). \<forall>k. s_client s = Some k \<longrightarrow>
          k < length cs \<and> (\<exists>token. cn_phase (cs ! k) = Serving (s_id s) token)))"

subsection \<open>Which connections the sessions keep\<close>

definition kept_clients :: "'p hub \<Rightarrow> 'p hub \<Rightarrow> bool" where
  "kept_clients h h' \<longleftrightarrow> (\<forall>s'\<in>set (h_sessions h'). \<forall>k. s_client s' = Some k \<longrightarrow>
     (\<exists>s\<in>set (h_sessions h). s_id s = s_id s' \<and> s_client s = Some k))"

lemma kept_clients_same: "h_sessions h' = h_sessions h \<Longrightarrow> kept_clients h h'"
  by (auto simp: kept_clients_def)

lemma kept_clients_trans: "kept_clients h h1 \<Longrightarrow> kept_clients h1 h2 \<Longrightarrow> kept_clients h h2"
  unfolding kept_clients_def by metis

lemma kept_clients_prune: "index_ok h \<Longrightarrow> kept_clients h (pruneLocked now h)"
  by (auto simp: kept_clients_def pruneLocked_fields)

lemma kept_clients_touched: "touched marshal now event I h h' \<Longrightarrow> kept_clients h h'"
  by (auto simp: touched_def kept_clients_def dest: receive_client split: if_splits)

lemma kept_clients_publish: "index_ok h \<Longrightarrow> clients_ok h \<Longrightarrow> kept_clients h (publish marshal now event us h)"
  using kept_clients_trans [OF kept_clients_prune kept_clients_touched [OF touched_publish]] .

lemma kept_clients_detach: "kept_clients h (detach now h i k)"
proof (cases "find_by s_id (h_sessions h) i")
  case (Some s)
  then have "s \<in> set (h_sessions h)"
    using find_by_SomeD by fastforce
  then show ?thesis
    using Some by (auto simp: kept_clients_def detach_def set_update_where detach_session_def split: if_splits)
qed (auto simp: detach_def intro: kept_clients_same)

lemma detach_unused:
  assumes "index_ok h" and "\<And>s. s \<in> set (h_sessions h) \<Longrightarrow> s_client s = Some k \<Longrightarrow> s_id s = i"
  shows "unused k (detach now h i k)"
proof (cases "find_by s_id (h_sessions h) i")
  case None
  then have "i \<notin> keys s_id (h_sessions h)"
    by (simp add: find_by_None_iff)
  with None assms(2) show ?thesis
    by (force simp: detach_def unused_def)
next
  case (Some s)
  then have "s_id s = i"
    using find_by_SomeD by fastforce
  with Some assms(2) show ?thesis
    by (auto simp: detach_def unused_def set_update_where detach_session_def)
qed

lemma dispatch_refused:
  assumes total: "\<And>f. marshal f \<noteq> None" and d: "dispatchLocked marshal now s name data h = (b, h')" and k: "s_client s = Some k"
  shows "s_client (deliver marshal now (h_buffer h) (h_conn h) (name, data) s) = (if b then Some k else None)"
proof -
  obtain p where "marshal (frame_of (s_sequence s + 1) name data) = Some p"
    using total by blast
  then show ?thesis
    using d k by (auto simp: dispatchLocked_def deliver_def frame_of_def Let_def enqueue_on_eq split: bool.splits)
qed

lemma resume_clients:
  assumes ix: "index_ok h0" and k: "unused k h0" and total: "\<And>f. marshal f \<noteq> None"
    and run: "resume marshal now h0 u i after k = (b, h')"
    and s': "s' \<in> set (h_sessions h')" "s_client s' = Some k'"
  shows "b \<and> k' = k \<and> s_id s' = i \<or> k' \<noteq> k \<and> (\<exists>s\<in>set (h_sessions h0). s_id s = s_id s' \<and> s_client s = Some k')"
proof (cases "resumable (pruneLocked now h0) u i after")
  case False
  then show ?thesis
    using run s' k by (auto simp: resume_refused [OF ix] pruneLocked_fields(2) [OF ix] unused_def)
next
  case True
  let ?h = "pruneLocked now h0"
  note pr = pruneLocked_fields [OF ix, of now]
  obtain s where s: "s \<in> set (h_sessions ?h)" "s_id s = i" "s_userID s = u"
    using True by (auto simp: resumable_def)
  let ?s = "resumed_session k s" and ?h2 = "taken_over k s ?h"
  obtain c h3 where r: "replay after k (s_events s) ?h2 = (c, h3)" by fastforce
  have S3: "h_sessions h3 = update_where (\<lambda>x. s_id x = i) (\<lambda>_. ?s) (h_sessions ?h)"
    using replay_fields(1) [OF r] s(2) by (simp add: taken_over_def resumed_session_def split: option.splits)
  have eq: "resume marshal now h0 u i after k =
      (if c then dispatchLocked marshal now ?s eventResumed EmptyData h3 else (False, put_session (detach_session now ?s k) h3))"
    using resume_eq [OF pr(1) s(1) _ refl, of after marshal k] True s(2,3) r by (cases c) auto
  have last: "\<exists>x. s_id x = i \<and> s_client x = (if b then Some k else None) \<and>
      h_sessions h' = update_where (\<lambda>x. s_id x = i) (\<lambda>_. x) (h_sessions h3)"
  proof (cases c)
    case True
    then have d: "dispatchLocked marshal now ?s eventResumed EmptyData h3 = (b, h')"
      using run eq by simp
    show ?thesis
      using dispatchLocked_fields(1) [OF d] dispatch_refused [OF total d, of k] s(2)
      by (intro exI [of _ "deliver marshal now (h_buffer h3) (h_conn h3) (eventResumed, EmptyData) ?s"])
        (simp add: resumed_session_def)
  next
    case False
    then show ?thesis
      using run eq s(2) by (intro exI [of _ "detach_session now ?s k"]) (auto simp: detach_session_def resumed_session_def)
  qed
  then obtain x where x: "s_id x = i" "s_client x = (if b then Some k else None)"
      "h_sessions h' = update_where (\<lambda>x. s_id x = i) (\<lambda>_. x) (h_sessions h3)"
    by blast
  then have "s' = x \<or> s' \<in> set (h_sessions ?h) \<and> s_id s' \<noteq> i"
    using s'(1) s(2) by (auto simp: S3 set_update_where resumed_session_def split: if_splits)
  then show ?thesis
    using x(1,2) s'(2) k pr(2) by (auto simp: unused_def split: if_splits)
qed

lemma identify_clients:
  assumes ix: "index_ok h" and fresh: "\<forall>i. gen = Some i \<longrightarrow> i \<notin> keys s_id (h_sessions h)"
    and total: "\<And>f. marshal f \<noteq> None" and buf: "0 < h_buffer h" and k: "unused k h"
    and run: "identify marshal gen now h u intents k = (r, h')"
    and s': "s' \<in> set (h_sessions h')" "s_client s' = Some k'"
  shows "r = Inr (s_id s') \<and> k' = k \<or> k' \<noteq> k \<and> (\<exists>s\<in>set (h_sessions h). s_id s = s_id s' \<and> s_client s = Some k')"
  using ix fresh total buf run
proof (cases rule: identify_cases)
  case (Refused e)
  then show ?thesis
    using s' k by (auto simp: pruneLocked_fields(2) [OF ix] unused_def)
next
  case (Identified i p s)
  then show ?thesis
    using s' k by (auto simp: pruneLocked_fields(2) [OF ix] unused_def split: if_splits)
qed


subsection \<open>One call of the handler\<close>

text \<open>
  \<open>served j h c h'\<close>: from the hub \<open>h\<close> to \<open>h'\<close> the connection \<open>j\<close>, now in state \<open>c\<close>,
  is the client at most of the session it serves, and took nothing from the other connections.
\<close>

definition served :: "nat \<Rightarrow> 'p hub \<Rightarrow> conn \<Rightarrow> 'p hub \<Rightarrow> bool" where
  "served j h c h' \<longleftrightarrow> cn_client c = j \<and> (\<forall>s'\<in>set (h_sessions h'). \<forall>k. s_client s' = Some k \<longrightarrow>
     k = j \<and> (\<exists>token. cn_phase c = Serving (s_id s') token)
     \<or> k \<noteq> j \<and> (\<exists>s\<in>set (h_sessions h). s_id s = s_id s' \<and> s_client s = Some k))"

lemma served_same: "served j h c h1 \<Longrightarrow> h_sessions h2 = h_sessions h1 \<Longrightarrow> served j h c h2"
  by (simp add: served_def)

lemma served_kept:
  assumes "served j h c h1" and "kept_clients h1 h2"
  shows "served j h c h2"
  using assms unfolding served_def kept_clients_def by metis

lemma served_leave:
  assumes sv: "served j h c h1" and inv: "hub_inv marshal h1" and l: "leave now close (c, h1) = (c', h')"
  shows "served j h c' h' \<and> hub_inv marshal h'"
proof -
  let ?h2 = "if close = None then h1 else terminate_on (cn_client c) h1"
  let ?h3 = "case cn_phase c of Serving i _ \<Rightarrow> detach now ?h2 i (cn_client c) | _ \<Rightarrow> ?h2"
  define h3 where "h3 = ?h3"
  have c': "cn_client c' = j" and h': "h' = terminate_on j h3"
    using l sv by (auto simp: leave_def Let_def served_def h3_def)
  have sv2: "served j h c ?h2"
    using sv by (rule served_same) simp
  have inv2: "hub_inv marshal ?h2"
    using inv by (rule hub_inv_cong) simp_all
  have ix: "index_ok ?h2"
    using inv2 by (simp add: hub_inv_def)
  have j: "cn_client c = j"
    using sv by (simp add: served_def)
  have "kept_clients ?h2 h3"
    by (auto simp: h3_def kept_clients_same kept_clients_detach split: phase.split)
  then have kept: "served j h c h3"
    by (rule served_kept [OF sv2])
  have "unused j h3"
  proof (cases "cn_phase c")
    case (Serving i token)
    have "unused j (detach now ?h2 i j)"
      using sv2 Serving by (intro detach_unused [OF ix]) (auto simp: served_def)
    then show ?thesis by (simp add: h3_def Serving j)
  qed (use sv2 in \<open>auto simp: h3_def served_def unused_def\<close>)
  then have "served j h c' h'"
    using kept c' by (auto simp: h' served_def unused_def)
  moreover have "hub_inv marshal h3"
    using inv2 detach_inv [OF inv2] by (simp add: h3_def split: phase.split split del: if_split)
  then have "hub_inv marshal h'"
    unfolding h' by (rule hub_inv_cong) simp_all
  ultimately show ?thesis by simp
qed

lemma enqueueJSON_fields:
  assumes "enqueueJSON marshal k m h = (b, h')"
  shows "h_sessions h' = h_sessions h" and "h_byUser h' = h_byUser h" and "h_buffer h' = h_buffer h"
  using assms by (auto simp: enqueueJSON_def enqueue_on_eq split: option.splits)

lemma writeJSONNow_fields [simp]:
  "h_sessions (writeJSONNow marshal k m h) = h_sessions h" "h_byUser (writeJSONNow marshal k m h) = h_byUser h"
  "h_buffer (writeJSONNow marshal k m h) = h_buffer h" "h_retention (writeJSONNow marshal k m h) = h_retention h"
  by (auto simp: writeJSONNow_def split: option.split)

lemma leave_buffer: "h_buffer (snd (leave now close (c, h))) = h_buffer h"
  by (simp add: leave_def Let_def detach_def split: phase.split option.split)

text \<open>Before a call, and after it.\<close>

definition serving :: "(gatewayMessage \<Rightarrow> 'p option) \<Rightarrow> nat \<Rightarrow> 'p hub \<Rightarrow> conn \<Rightarrow> bool" where
  "serving marshal j h c \<longleftrightarrow> (\<forall>f. marshal f \<noteq> None) \<and> hub_inv marshal h \<and> 0 < h_buffer h \<and> served j h c h"

definition kept :: "(gatewayMessage \<Rightarrow> 'p option) \<Rightarrow> nat \<Rightarrow> 'p hub \<Rightarrow> 'p conn_hub \<Rightarrow> bool" where
  "kept marshal j h ch \<longleftrightarrow> served j h (fst ch) (snd ch) \<and> hub_inv marshal (snd ch) \<and> h_buffer (snd ch) = h_buffer h"

lemma servingD:
  assumes "serving marshal j h c"
  shows "\<And>f. marshal f \<noteq> None" and "hub_inv marshal h" and "0 < h_buffer h" and "index_ok h" and "cn_client c = j"
    and "cn_phase c = Greeted \<Longrightarrow> unused j h" and "kept marshal j h (c, h)"
  using assms by (auto simp: serving_def hub_inv_def served_def unused_def kept_def)

lemma kept_leave: "kept marshal j h (c1, h1) \<Longrightarrow> kept marshal j h (leave now close (c1, h1))"
  using served_leave [of j h c1 h1 marshal now close] leave_buffer [of now close c1 h1]
  by (cases "leave now close (c1, h1)") (simp add: kept_def)

lemma kept_same: "kept marshal j h (c1, h1) \<Longrightarrow> h_sessions h2 = h_sessions h1 \<Longrightarrow> h_byUser h2 = h_byUser h1 \<Longrightarrow> h_buffer h2 = h_buffer h1 \<Longrightarrow> kept marshal j h (c1, h2)"
  using served_same [of j h c1 h1 h2] hub_inv_cong [of marshal h1 h2] by (simp add: kept_def)

lemma heartbeat_kept:
  assumes sv: "serving marshal j h c"
  shows "kept marshal j h (serve_heartbeat marshal json auth now token frame (c, h))"
proof -
  note refl = servingD(7) [OF sv]
  have "kept marshal j h (c, h')" if "enqueueJSON marshal k m h = (b, h')" for k m b h'
    using kept_same [OF refl] enqueueJSON_fields [OF that] by simp
  then show ?thesis
    using kept_leave [OF refl]
    by (auto simp: serve_heartbeat_def split: sum.split prod.split option.split bool.split intro!: kept_leave)
qed

lemma identify_kept:
  assumes sv: "serving marshal j h c" and ph: "cn_phase c = Greeted"
    and fresh: "\<forall>i. gen = Some i \<longrightarrow> i \<notin> keys s_id (h_sessions h)"
  shows "kept marshal j h (serve_identify marshal json auth gen now d (c, h))"
proof -
  note [simp] = servingD(5) [OF sv]
  note sv' = servingD(1-4) [OF sv] and k = servingD(6) [OF sv ph] and refl = servingD(7) [OF sv]
  have *: "kept marshal j h (case r of Inl _ \<Rightarrow> c | Inr i \<Rightarrow> c\<lparr>cn_phase := Serving i token\<rparr>, h')"
    if run: "identify marshal gen now h u intents j = (r, h')" for u intents r h' token
  proof -
    have "served j h (case r of Inl _ \<Rightarrow> c | Inr i \<Rightarrow> c\<lparr>cn_phase := Serving i token\<rparr>) h'"
      unfolding served_def
      using identify_clients [OF sv'(4) fresh sv'(1,3) k run] by (auto split: sum.split)
    then show ?thesis
      using identify_inv [OF sv'(2) fresh k sv'(1,3), of now u intents] identify_buffer [OF sv'(4), of marshal gen now u intents j] run
      by (simp add: kept_def)
  qed
  have "kept marshal j h (case identify marshal gen now h u intents (cn_client c) of
           (Inl errSessionCapacity, h1) \<Rightarrow> leave now (Some x) (c, h1)
         | (Inl (HubInternal _), h1) \<Rightarrow> leave now (Some y) (c, h1)
         | (Inr i, h1) \<Rightarrow> (c\<lparr>cn_phase := Serving i token\<rparr>, h1))" for u intents x y token
  proof -
    obtain r h' where run: "identify marshal gen now h u intents j = (r, h')" by fastforce
    show ?thesis
      using * [OF run] kept_leave by (auto simp: run split: sum.splits hub_error.splits)
  qed
  then show ?thesis
    using kept_leave refl by (auto simp: serve_identify_def split: option.split prod.split)
qed

lemma resume_kept:
  assumes sv: "serving marshal j h c" and ph: "cn_phase c = Greeted"
  shows "kept marshal j h (serve_resume marshal json auth now d (c, h))"
proof -
  note [simp] = servingD(5) [OF sv]
  note sv' = servingD(1-4) [OF sv] and k = servingD(6) [OF sv ph] and refl = servingD(7) [OF sv]
  have *: "kept marshal j h (if b then c\<lparr>cn_phase := Serving i token\<rparr> else c, h')"
    if run: "resume marshal now h u i after j = (b, h')" for u i after b h' token
  proof -
    have "served j h (if b then c\<lparr>cn_phase := Serving i token\<rparr> else c) h'"
      unfolding served_def
      using resume_clients [OF sv'(4) k sv'(1) run] by auto
    then show ?thesis
      using resume_inv [OF sv'(2) k sv'(1,3), of now u i after] resume_buffer [OF sv'(4), of marshal now u i after j] run
      by (simp add: kept_def)
  qed
  have "kept marshal j h (case resume marshal now h u i after (cn_client c) of
           (False, h1) \<Rightarrow> leave now (Some x) (c, writeJSONNow marshal (cn_client c) m h1)
         | (True, h1) \<Rightarrow> (c\<lparr>cn_phase := Serving i token\<rparr>, h1))" for u i after x m token
  proof -
    obtain b h' where run: "resume marshal now h u i after j = (b, h')" by fastforce
    show ?thesis
    proof (cases b)
      case True
      then show ?thesis
        using * [OF run, of token] by (simp add: run)
    next
      case False
      then have "kept marshal j h (c, writeJSONNow marshal j m h')"
        using * [OF run, of token] by - (rule kept_same [of _ _ _ c h'], simp_all)
      then show ?thesis
        using False by (simp add: run kept_leave)
    qed
  qed
  then show ?thesis
    using kept_leave refl by (auto simp: serve_resume_def split: option.split prod.split)
qed

lemma ServeHTTP_kept:
  assumes sv: "serving marshal j h c" and "\<forall>i. gen = Some i \<longrightarrow> i \<notin> keys s_id (h_sessions h)"
  shows "kept marshal j h (ServeHTTP marshal json auth gen now frame (c, h))"
  using heartbeat_kept [OF sv] identify_kept [OF sv _ assms(2)] resume_kept [OF sv] kept_leave servingD(7) [OF sv]
  by (auto simp: ServeHTTP_def serve_first_def split: phase.split sum.split)

subsection \<open>Every step keeps the invariant\<close>

lemma serve_open_kept:
  assumes "serve_open marshal heartbeat pick k now h = (c, h')" and inv: "hub_inv marshal h" and k: "unused k h"
  shows "kept marshal k h (c, h')"
proof -
  let ?c = "\<lparr>cn_client = k, cn_phase = Greeted, cn_close = None\<rparr>"
  have "kept marshal k h (?c, h)"
    using k inv by (auto simp: kept_def served_def unused_def)
  then have *: "kept marshal k h (?c, h1)" if "h_sessions h1 = h_sessions h" "h_byUser h1 = h_byUser h" "h_buffer h1 = h_buffer h" for h1
    using that by (rule kept_same)
  obtain b h1 where e: "enqueueJSON marshal k (plain_frame opHello (HelloData (heartbeat div 1000000)))
      (h\<lparr>h_conn := (h_conn h)(k := newClient (h_buffer h + 8) pick)\<rparr>) = (b, h1)" by fastforce
  have "kept marshal k h (?c, h1)"
    using * enqueueJSON_fields [OF e] by simp
  then show ?thesis
    using assms(1) kept_leave [of marshal k h ?c h1 now None] e by (cases b) (auto simp: serve_open_def Let_def)
qed

lemma server_ok_kept:
  assumes ok: "server_ok marshal (h, cs)" and "kept marshal j h (c, h')" and "j < length cs \<and> cs' = cs[j := c] \<or> j = length cs \<and> cs' = cs @ [c]"
  shows "server_ok marshal (h', cs')"
proof -
  have len: "j < length cs'" "cs' ! j = c" "length cs \<le> length cs'" "\<And>k. k < length cs' \<Longrightarrow> k \<noteq> j \<Longrightarrow> k < length cs \<and> cs' ! k = cs ! k"
    using assms(3) by (auto simp: nth_append)
  moreover have "\<forall>k<length cs'. cn_client (cs' ! k) = k"
  proof (intro allI impI)
    fix k
    assume "k < length cs'"
    then show "cn_client (cs' ! k) = k"
      using ok assms(2) len(2) len(4) [of k] by (cases "k = j") (auto simp: server_ok_def kept_def served_def)
  qed
  moreover have "k < length cs' \<and> (\<exists>token. cn_phase (cs' ! k) = Serving (s_id s) token)"
    if s: "s \<in> set (h_sessions h')" "s_client s = Some k" for s k
  proof (cases "k = j")
    case True
    then show ?thesis
      using assms(2) s len(1,2) by (auto simp: kept_def served_def)
  next
    case False
    then obtain s0 where "s0 \<in> set (h_sessions h)" "s_id s0 = s_id s" "s_client s0 = Some k"
      using assms(2) s unfolding kept_def served_def fst_conv snd_conv by blast
    then have "k < length cs" "\<exists>token. cn_phase (cs ! k) = Serving (s_id s) token"
      using ok by (auto simp: server_ok_def)
    then show ?thesis
      using False len(3,4) by (metis order_less_le_trans)
  qed
  ultimately show ?thesis
    using assms(2) by (simp add: server_ok_def kept_def)
qed

lemma server_ok_kept_clients:
  "server_ok marshal (h, cs) \<Longrightarrow> kept_clients h h' \<Longrightarrow> hub_inv marshal h' \<Longrightarrow> server_ok marshal (h', cs)"
  unfolding server_ok_def kept_clients_def by simp metis

lemma server_ok_unused: "server_ok marshal (h, cs) \<Longrightarrow> unused (length cs) h"
  by (auto simp: server_ok_def unused_def)

lemma server_ok_serving:
  "server_ok marshal (h, cs) \<Longrightarrow> (\<And>f. marshal f \<noteq> None) \<Longrightarrow> 0 < h_buffer h \<Longrightarrow> j < length cs \<Longrightarrow> serving marshal j h (cs ! j)"
  by (auto simp: server_ok_def serving_def served_def)

lemma server_step_ok:
  assumes "server_step marshal json v w" and "server_ok marshal v" and total: "\<And>f. marshal f \<noteq> None" and "0 < h_buffer (fst v)"
  shows "server_ok marshal w \<and> h_buffer (fst w) = h_buffer (fst v)"
  using assms(1,2,4)
proof (induction rule: server_step.induct)
  case (Accept heartbeat pick cs now h c h')
  then have k: "kept marshal (length cs) h (c, h')"
    using serve_open_kept [OF Accept(1) _ server_ok_unused [OF Accept(2)]] by (simp add: server_ok_def)
  then show ?case
    using server_ok_kept [OF Accept(2) k] by (simp add: kept_def)
next
  case (Frame j cs gen h auth now frame c h')
  then have k: "kept marshal j h (c, h')"
    using ServeHTTP_kept [OF server_ok_serving [OF Frame(4) total _ Frame(1)] Frame(2), of json auth now frame] by simp
  then show ?case
    using server_ok_kept [OF Frame(4) k, of "cs[j := c]"] Frame(1) k by (simp add: kept_def)
next
  case (Publish h cs now event us)
  then have "index_ok h" "clients_ok h" "hub_inv marshal h"
    by (simp_all add: server_ok_def hub_inv_def)
  then show ?case
    using server_ok_kept_clients [OF Publish(1) kept_clients_publish] publish_inv [OF _ total] publish_buffer Publish(2) by simp
next
  case (ToUser h cs now u name data)
  then have "index_ok h" "clients_ok h" "hub_inv marshal h"
    by (simp_all add: server_ok_def hub_inv_def)
  then show ?case
    using server_ok_kept_clients [OF ToUser(1) kept_clients_publish] publish_inv [OF _ total] publish_buffer ToUser(2)
    by (simp add: publishToUser_eq)
next
  case (Sweep h cs now)
  then have "index_ok h" "hub_inv marshal h"
    by (simp_all add: server_ok_def hub_inv_def)
  then show ?case
    using server_ok_kept_clients [OF Sweep(1) kept_clients_prune] pruneLocked_inv [of marshal h]
    by (simp add: Gateway_Sweep_def prune_def pruneLocked_fields(4))
next
  case (Write h cs k written)
  then have i: "hub_inv marshal h" by (simp add: server_ok_def)
  have "hub_inv marshal (h\<lparr>h_conn := (h_conn h)(k := writeLoop_step written (h_conn h k))\<rparr>)"
    by (rule hub_inv_cong [OF i]) simp_all
  then show ?case
    using server_ok_kept_clients [OF Write(1) kept_clients_same] by simp
qed

lemma server_steps_ok:
  assumes "server_steps marshal json (newHub url retention n conn, []) (h, cs)" and total: "\<And>f. marshal f \<noteq> None" and "0 < n"
  shows "server_ok marshal (h, cs) \<and> h_buffer h = n"
proof -
  have "server_ok marshal w \<and> h_buffer (fst w) = n" if "server_steps marshal json (newHub url retention n conn, []) w" for w
    using that
  proof (induction rule: rtranclp_induct)
    case base
    then show ?case
      using newHub_inv [of marshal url retention n conn] by (simp add: server_ok_def newHub_def)
  next
    case (step v w)
    then show ?case
      using server_step_ok [OF step(2) _ total] assms(3) by simp
  qed
  from this [OF assms(1)] show ?thesis by simp
qed

end
