(* ===== verification/Gateway_Claims.thy ===== *)
theory Gateway_Claims
  imports Gateway_Server
begin

section \<open>Properties of the gateway\<close>

text \<open>
  Limits and consistency of every reachable hub, who gets an event and what it shows, what
  \<open>RESUME\<close> replays and whom it refuses, when sessions end, and that a connection is served only
  under a token that authenticates.
\<close>

subsection \<open>Replaying\<close>

lemma filter_upto: "a \<le> x + 1 \<Longrightarrow> filter (\<lambda>q. x < q) [a..b] = [x + 1..b]"
proof (cases "x < b")
  case True
  assume "a \<le> x + 1"
  with True have "[a..b] = [a..x] @ [x + 1..b]"
    using upto_split1 [of a "x + 1" b] by simp
  then show ?thesis by (simp add: filter_empty_conv)
qed (simp add: filter_empty_conv)

lemma replay_room:
  "\<not> cl_done (h_conn h k) \<Longrightarrow> length (cl_send (h_conn h k)) + length (filter (\<lambda>e. after < fst e) es) \<le> cl_size (h_conn h k) \<Longrightarrow>
   replay after k es h = (True, h\<lparr>h_conn := (h_conn h)(k := (h_conn h k)\<lparr>cl_send := cl_send (h_conn h k)
     @ map snd (filter (\<lambda>e. after < fst e) es)\<rparr>)\<rparr>)"
proof (induction es arbitrary: h)
  case (Cons e es)
  obtain q p where e: "e = (q, p)" by (cases e)
  show ?case
  proof (cases "after < q")
    case True
    let ?h = "h\<lparr>h_conn := (h_conn h)(k := (h_conn h k)\<lparr>cl_send := cl_send (h_conn h k) @ [p]\<rparr>)\<rparr>"
    have "enqueue_on k p h = (True, ?h)"
      using Cons.prems True by (simp add: enqueue_on_eq enqueue_def e)
    then show ?thesis
      using Cons.IH [of ?h] Cons.prems True by (simp add: e cong: if_cong)
  next
    case False
    then show ?thesis
      using Cons.IH [of h] Cons.prems by (simp add: e)
  qed
qed simp

lemma missed_events:
  assumes "session_ok marshal n s" and "s_sequence s - int (length (s_events s)) \<le> after"
  shows "map fst (filter (\<lambda>e. after < fst e) (s_events s)) = [after + 1..s_sequence s]"
proof -
  have "map fst (filter (\<lambda>e. after < fst e) (s_events s)) = filter (\<lambda>q. after < q) (map fst (s_events s))"
    by (simp add: filter_map o_def)
  also have "\<dots> = [after + 1..s_sequence s]"
    using assms by (simp add: session_ok_def filter_upto)
  finally show ?thesis .
qed

lemma first_event: "session_ok marshal n s \<Longrightarrow> fst (hd (s_events s)) = s_sequence s - int (length (s_events s)) + 1"
proof -
  assume ok: "session_ok marshal n s"
  then have ne: "s_events s \<noteq> []" and m: "map fst (s_events s) = [s_sequence s - int (length (s_events s)) + 1..s_sequence s]"
    by (simp_all add: session_ok_def)
  from ne have "fst (hd (s_events s)) = hd (map fst (s_events s))"
    by (simp add: hd_map)
  also have "\<dots> = hd [s_sequence s - int (length (s_events s)) + 1..s_sequence s]"
    by (simp only: m)
  also have "\<dots> = s_sequence s - int (length (s_events s)) + 1"
    using ne by (subst upto_rec1) (auto simp: Suc_le_eq)
  finally show ?thesis .
qed

lemma resume_session:
  assumes ix: "index_ok h0" and run: "resume marshal now h0 u i after k = (True, h')"
  shows "\<exists>s\<in>set (h_sessions h'). s_id s = i \<and> s_userID s = u"
proof -
  let ?h = "pruneLocked now h0"
  note pr = pruneLocked_fields [OF ix, of now]
  have r: "resumable ?h u i after"
    using run resume_refused [OF ix] by (cases "resumable ?h u i after") auto
  then obtain s where s: "s \<in> set (h_sessions ?h)" "s_id s = i" "s_userID s = u"
    by (auto simp: resumable_def)
  obtain h3 where h3: "replay after k (s_events s) (taken_over k s ?h) = (True, h3)"
      "dispatchLocked marshal now (resumed_session k s) eventResumed EmptyData h3 = (True, h')"
    using run resume_eq [OF pr(1) s(1) _ refl, of after marshal k] r s(2,3) by (auto split: prod.splits bool.splits)
  have "resumed_session k s \<in> set (h_sessions h3)"
    using replay_fields(1) [OF h3(1)] s(1) by (force simp: taken_over_def set_update_where resumed_session_def split: option.splits)
  then have d: "deliver marshal now (h_buffer h3) (h_conn h3) (eventResumed, EmptyData) (resumed_session k s) \<in> set (h_sessions h')"
    unfolding dispatchLocked_fields(1) [OF h3(2)] by (force simp: set_update_where)
  show ?thesis
    using s(2,3) by (intro bexI [OF _ d]) (simp add: resumed_session_def)
qed

subsection \<open>Callbacks\<close>

definition users_gone :: "'p hub \<Rightarrow> 'p hub \<Rightarrow> uuid set" where
  "users_gone h h' = {u. user_sessions h u \<noteq> [] \<and> user_sessions h' u = []}"

lemma pruned_gone:
  assumes "index_ok h" and "distinct (map s_id ss)" and "set ss \<subseteq> set (h_sessions h)"
    and "h' = fold (\<lambda>s h. if expired_session now h s then removeLocked s h else h) ss h"
  shows "\<exists>gs. h_gone h' = h_gone h @ gs \<and> distinct gs \<and> set gs = users_gone h h'"
  using assms
proof (induction ss arbitrary: h)
  case Nil
  then show ?case by (simp add: users_gone_def)
next
  case (Cons s ss)
  show ?case
  proof (cases "expired_session now h s")
    case False
    then show ?thesis
      using Cons.IH [of h] Cons.prems by simp
  next
    case True
    let ?h = "removeLocked s h"
    have s: "s \<in> set (h_sessions h)"
      using Cons.prems(3) by simp
    have ix: "index_ok ?h"
      using removeLocked_index_ok [OF Cons.prems(1) s] .
    have sub: "set ss \<subseteq> set (h_sessions ?h)"
      using Cons.prems(2,3) by (auto simp: image_iff)
    have h': "h' = fold (\<lambda>s h. if expired_session now h s then removeLocked s h else h) ss ?h"
      using Cons.prems(4) True by simp
    obtain gs where gs: "h_gone h' = h_gone ?h @ gs" "distinct gs" "set gs = users_gone ?h h'"
      using Cons.IH [OF ix _ sub h'] Cons.prems(2) by auto
    have "set (user_sessions h' u) \<subseteq> set (user_sessions ?h u)" for u
      using pruneLocked_fold [OF ix _ sub h'] Cons.prems(2) ix by (auto simp: index_ok_users)
    then have mono: "user_sessions ?h u = [] \<Longrightarrow> user_sessions h' u = []" for u
      by (metis set_empty subset_empty)
    have own: "s_id s \<in> set (user_sessions h (s_userID s))"
      using s by (simp add: index_ok_users [OF Cons.prems(1)])
    have new: "h_gone ?h = h_gone h @ (if user_sessions ?h (s_userID s) = [] then [s_userID s] else [])"
      by (simp add: removeLocked_def Let_def user_sessions_def)
    have other: "user_sessions ?h u = user_sessions h u" if "u \<noteq> s_userID s" for u
      using that by (simp add: removeLocked_user_sessions)
    let ?u = "s_userID s"
    have "h_gone h' = h_gone h @ ((if user_sessions ?h ?u = [] then [?u] else []) @ gs)"
      by (simp add: gs(1) new)
    moreover have "distinct ((if user_sessions ?h ?u = [] then [?u] else []) @ gs)"
      using gs(2,3) by (auto simp: users_gone_def)
    moreover have "set ((if user_sessions ?h ?u = [] then [?u] else []) @ gs) = users_gone h h'"
      using gs(3) own other mono by (auto simp: users_gone_def) (metis list.set(1) empty_iff)+
    ultimately show ?thesis by blast
  qed
qed


subsection \<open>A demonstration\<close>

text \<open>A hub that encodes frames as themselves, and one connection that identifies as user 7.\<close>

definition demo_json :: gateway_json where
  "demo_json = \<lparr>gj_inbound = (\<lambda>s. if s = ''i'' then Some (opIdentify, ''d'') else Some (opHeartbeat, ''null'')),
     gj_identify = (\<lambda>_. Some (''t'', 1023)), gj_resume = (\<lambda>_. None), gj_sequence = (\<lambda>_. None)\<rparr>"

definition demo_auth :: "string \<Rightarrow> uuid option" where
  "demo_auth token = (if token = ''t'' then Some 7 else None)"

definition demo_hub :: "gatewayMessage hub" where
  "demo_hub = newHub ''u'' 60 4 (\<lambda>_. newClient 0 [])"

definition demo_opened :: "gatewayMessage conn_hub" where
  "demo_opened = serve_open Some 1000000 [] 0 0 demo_hub"

definition demo_served :: "gatewayMessage conn_hub" where
  "demo_served = ServeHTTP Some demo_json demo_auth (Some 1) 0 (TextFrame ''i'') demo_opened"

lemmas demo_defs = demo_served_def demo_opened_def demo_hub_def demo_json_def demo_auth_def

lemmas handler_defs = serve_open_def newHub_def enqueueJSON_def plain_frame_def Let_def
  enqueue_on_eq enqueue_def newClient_def ServeHTTP_def serve_first_def readInbound_def opIdentify_def
  serve_identify_def identify_def pruneLocked_def user_sessions_def maxSessions_def maxSessionsPerUser_def
  appendEvent_def put_session_def update_where_def

definition demo_ready :: gatewayMessage where
  "demo_ready = frame_of 0 eventReady (ReadyData 1 ''u'')"

lemma demo_state:
  "fst demo_opened = \<lparr>cn_client = 0, cn_phase = Greeted, cn_close = None\<rparr>" "h_sessions (snd demo_opened) = []"
  "fst demo_served = \<lparr>cn_client = 0, cn_phase = Serving 1 ''t'', cn_close = None\<rparr>"
  "h_sessions (snd demo_served) = [\<lparr>s_id = 1, s_userID = 7, s_intents = 1023, s_sequence = 0, s_events = [(0, demo_ready)],
     s_client = Some 0, s_disconnectedAt = None\<rparr>]"
  "h_conn (snd demo_served) 0 = \<lparr>cl_size = 12, cl_send = [plain_frame opHello (HelloData 1), demo_ready],
     cl_done = False, cl_written = [], cl_pick = []\<rparr>"
  "h_byUser (snd demo_served) = [7 \<mapsto> [1]]" "h_buffer (snd demo_served) = 4" "h_retention (snd demo_served) = 60"
  by (simp_all add: demo_defs handler_defs demo_ready_def frame_of_def)

lemma demo_reachable: "server_steps Some demo_json (demo_hub, []) (snd demo_served, [fst demo_served])"
proof -
  have 1: "server_step Some demo_json (demo_hub, []) (snd demo_opened, [fst demo_opened])"
    using server_step.Accept [of Some 1000000 "[]" "[]" 0 demo_hub "fst demo_opened" "snd demo_opened" demo_json]
    by (simp add: demo_opened_def)
  have "\<forall>i. Some 1 = Some i \<longrightarrow> i \<notin> keys s_id (h_sessions (snd demo_opened))"
    by (simp add: demo_state)
  from server_step.Frame [of 0 "[fst demo_opened]" "Some 1" "snd demo_opened" Some demo_json demo_auth 0 "TextFrame ''i''"
      "fst demo_served" "snd demo_served"] this
  have "server_step Some demo_json (snd demo_opened, [fst demo_opened]) (snd demo_served, [fst demo_served])"
    by (simp add: demo_served_def)
  with 1 show ?thesis
    by (meson converse_rtranclp_into_rtranclp rtranclp.rtrancl_refl)
qed

subsection \<open>The claims\<close>

text \<open>
  C3. Whatever connections open, send and lose, whatever is published and swept, the hub keeps its
  limits (10000 sessions, 10 for one user), its two maps list the same sessions, every buffer holds
  the last events of its session numbered without a gap and at most \<open>eventBufferSize\<close> of them,
  and the client of a session is the one connection that serves this session.
\<close>

theorem gateway_invariant:
  assumes "server_steps marshal json (newHub url retention n conn, []) (h, cs)" and "\<forall>f. marshal f \<noteq> None" and "0 < n"
  shows "length (h_sessions h) \<le> 10000
    \<and> (\<forall>u. length (user_sessions h u) \<le> 10
           \<and> user_sessions h u = map s_id (filter (\<lambda>s. s_userID s = u) (h_sessions h)))
    \<and> (\<forall>s\<in>set (h_sessions h). length (s_events s) \<le> n
           \<and> map fst (s_events s) = [s_sequence s - int (length (s_events s)) + 1 .. s_sequence s])
    \<and> (\<forall>s\<in>set (h_sessions h). \<forall>k. s_client s = Some k \<longrightarrow>
           k < length cs \<and> (\<exists>token. cn_phase (cs ! k) = Serving (s_id s) token))"
proof -
  have "server_ok marshal (h, cs) \<and> h_buffer h = n"
    using server_steps_ok [OF assms(1) _ assms(3)] assms(2) by blast
  then show ?thesis
    by (auto simp: server_ok_def hub_inv_def within_limits_def index_ok_def sessions_ok_def session_ok_def
        maxSessions_def maxSessionsPerUser_def)
qed

theorem gateway_invariant_witness:
  "h_sessions (snd demo_served) \<noteq> [] \<and> length (user_sessions (snd demo_served) 7) \<le> 10"
proof -
  have "server_steps Some demo_json (newHub ''u'' 60 4 (\<lambda>_. newClient 0 []), []) (snd demo_served, [fst demo_served])"
    using demo_reachable by (simp add: demo_hub_def)
  from gateway_invariant [OF this] show ?thesis
    by (simp add: demo_state)
qed

lemma demo_hub_inv: "hub_inv Some (snd demo_served)"
  using server_steps_ok [of Some demo_json "''u''" 60 4 "\<lambda>_. newClient 0 []" "snd demo_served" "[fst demo_served]"] demo_reachable
  by (simp add: demo_hub_def server_ok_def)

lemma demo_not_expired [simp]: "s \<in> set (h_sessions (snd demo_served)) \<Longrightarrow> \<not> expired_session now (snd demo_served) s"
  by (simp add: demo_state expired_session_def)

text \<open>
  C8. Publishing a message gives exactly one event to every retained session of the recipients that
  subscribed to guild (or direct) messages, whatever the order and the repetitions in the list of
  recipients, and touches no other session. A session without the message content intent gets
  neither the text of the message nor that of the message it replies to.
\<close>

theorem publishMessage_delivers:
  assumes "hub_inv marshal h"
  shows "h_sessions (publishMessage marshal now name us m h) =
      map (\<lambda>s. if s_userID s \<in> set us \<and> subscribed (messageIntent (em_Direct m)) s
               then deliver marshal now (h_buffer h) (h_conn h)
                      (name, MessageData (messageEventPayload m (subscribed intentMessageContent s))) s
               else s)
        (filter (\<lambda>s. \<not> expired_session now h s) (h_sessions h))
    \<and> (\<forall>s. \<not> subscribed intentMessageContent s \<longrightarrow>
         set (texts_of (MessageData (messageEventPayload m (subscribed intentMessageContent s)))) \<subseteq> {None})"
proof -
  have ix: "index_ok h" "clients_ok h"
    using assms by (simp_all add: hub_inv_def)
  note pr = pruneLocked_fields [OF ix(1), of now]
  let ?h = "pruneLocked now h"
  have "s_id s \<in> sessions_of (set us) ?h \<longleftrightarrow> s_userID s \<in> set us" if "s \<in> set (h_sessions ?h)" for s
    using that session_eq [OF pr(1)] by (auto simp: sessions_of_def)
  then have "h_sessions (publishMessage marshal now name us m h) =
      map (\<lambda>s. if s_userID s \<in> set us then receive marshal now (h_buffer h) (h_conn h) (message_event name m) s else s) (h_sessions ?h)"
    using touched_publish [OF ix, of marshal now "message_event name m" us] pr(3,4)
    by (simp add: touched_def publishMessage_def cong: map_cong)
  then show ?thesis
    using messageEventPayload_hides_text by (auto simp: pr(2) receive_def message_event_def)
qed

theorem publishMessage_delivers_witness:
  "let m = \<lparr>em_Direct = False, em_Attachments = [], em_ID = 5, em_ChannelID = 6, em_Author = \<lparr>eu_ID = 7, eu_DisplayName = ''a'', eu_AvatarURL = None\<rparr>,
            em_Content = ''hi'', em_ReplyToMessageID = None, em_ReplyTo = None, em_CreatedAt = 0, em_EditedAt = None\<rparr>
   in map s_sequence (h_sessions (publishMessage Some 0 eventMessageCreate [7, 7] m (snd demo_served))) = [1]"
  unfolding Let_def publishMessage_delivers [THEN conjunct1, OF demo_hub_inv]
  by (simp add: demo_state expired_session_def subscribed_def messageIntent_def intent_defs)


lemma resume_runs:
  assumes inv: "hub_inv marshal h" and total: "\<forall>f. marshal f \<noteq> None" and k: "unused k h"
    and s: "s \<in> set (h_sessions h)" "\<not> expired_session now h s"
    and after: "0 \<le> after" "s_sequence s - int (length (s_events s)) \<le> after" "after \<le> s_sequence s"
    and room: "\<not> cl_done (h_conn h k)" "length (cl_send (h_conn h k)) + h_buffer h < cl_size (h_conn h k)"
  obtains n conn p h' where "resume marshal now h (s_userID s) (s_id s) after k = (True, h')"
    and "marshal (frame_of (s_sequence s + 1) eventResumed EmptyData) = Some p"
    and "h_conn h' k = (h_conn h k)\<lparr>cl_send := cl_send (h_conn h k) @ map snd (filter (\<lambda>e. after < fst e) (s_events s)) @ [p]\<rparr>"
    and "deliver marshal now n conn (eventResumed, EmptyData) (resumed_session k s) \<in> set (h_sessions h')"
    and "s_client (deliver marshal now n conn (eventResumed, EmptyData) (resumed_session k s)) = Some k"
    and "\<forall>k'. s_client s = Some k' \<longrightarrow> cl_done (h_conn h' k')"
proof -
  have ix: "index_ok h" and ok: "session_ok marshal (h_buffer h) s"
    using inv s(1) by (simp_all add: hub_inv_def sessions_ok_def)
  note pr = pruneLocked_fields [OF ix, of now]
  let ?h = "pruneLocked now h" and ?es = "filter (\<lambda>e. after < fst e) (s_events s)"
  have s': "s \<in> set (h_sessions ?h)"
    using s by (simp add: pr(2))
  have r: "resumable ?h (s_userID s) (s_id s) after"
    using s' after first_event [OF ok] by (auto simp: resumable_def)
  let ?h2 = "taken_over k s ?h"
  have c2: "h_conn ?h2 k = h_conn h k"
    using k s(1) by (auto simp: taken_over_def pr unused_def split: option.split)
  have old: "cl_done (h_conn ?h2 k')" if "s_client s = Some k'" for k'
    using that k s(1) by (auto simp: taken_over_def terminate_def unused_def)
  have "length ?es \<le> h_buffer h"
    using ok by (auto simp: session_ok_def intro: order_trans [OF length_filter_le])
  then have "replay after k (s_events s) ?h2 = (True, ?h2\<lparr>h_conn := (h_conn ?h2)(k := (h_conn h k)\<lparr>cl_send := cl_send (h_conn h k) @ map snd ?es\<rparr>)\<rparr>)"
    (is "_ = (True, ?h3)")
    using replay_room [of ?h2 k after "s_events s"] room by (simp add: c2)
  then have run: "resume marshal now h (s_userID s) (s_id s) after k =
      dispatchLocked marshal now (resumed_session k s) eventResumed EmptyData ?h3"
    using resume_eq [OF pr(1) s' r refl, of marshal k] by simp
  obtain p where p: "marshal (frame_of (s_sequence s + 1) eventResumed EmptyData) = Some p"
    using total by blast
  obtain b h' where d: "dispatchLocked marshal now (resumed_session k s) eventResumed EmptyData ?h3 = (b, h')" by fastforce
  have "fst (enqueue (h_conn ?h3 k) p)"
    using room \<open>length ?es \<le> h_buffer h\<close> by (simp add: enqueue_def)
  then have b: "b"
    using d p by (auto simp: dispatchLocked_def Let_def frame_of_def resumed_session_def enqueue_on_eq split: bool.splits)
  have "h_conn h' k = snd (enqueue (h_conn ?h3 k) p)"
    using dispatchLocked_conn [OF d, of k] p by (simp add: resumed_session_def)
  then have conn: "h_conn h' k = (h_conn h k)\<lparr>cl_send := cl_send (h_conn h k) @ map snd ?es @ [p]\<rparr>"
    using room \<open>length ?es \<le> h_buffer h\<close> by (simp add: enqueue_def)
  have "resumed_session k s \<in> set (h_sessions ?h3)"
    using s' by (force simp: taken_over_def set_update_where resumed_session_def split: option.splits)
  then have mem: "deliver marshal now (h_buffer ?h3) (h_conn ?h3) (eventResumed, EmptyData) (resumed_session k s) \<in> set (h_sessions h')"
    unfolding dispatchLocked_fields(1) [OF d] by (force simp: set_update_where)
  have "cl_done (h_conn h' k')" if "s_client s = Some k'" for k'
  proof -
    have "k' \<noteq> k"
      using that k s(1) by (auto simp: unused_def)
    then have "h_conn h' k' = h_conn ?h2 k'"
      using dispatchLocked_fields(7) [OF d, of k'] by (simp add: resumed_session_def)
    then show ?thesis
      using old [OF that] by simp
  qed
  then show thesis
    using that [of h' p "h_buffer ?h3" "h_conn ?h3"] run d b p conn mem dispatch_refused [OF _ d, of k] total by (simp add: resumed_session_def)
qed

text \<open>
  C9. A session that is resumed from a position its buffer still covers, on a connection whose
  queue has room for the buffer, is resumed: the connection is sent every event after the position,
  each once and in order up to the session's last, then \<open>RESUMED\<close> under the next number; the
  connection it had before is closed.
\<close>

theorem resume_replays_missed:
  assumes "hub_inv marshal h" and "\<forall>f. marshal f \<noteq> None" and "unused k h"
    and "s \<in> set (h_sessions h)" and "\<not> expired_session now h s"
    and "0 \<le> after" and "s_sequence s - int (length (s_events s)) \<le> after" and "after \<le> s_sequence s"
    and "\<not> cl_done (h_conn h k)" and "length (cl_send (h_conn h k)) + h_buffer h < cl_size (h_conn h k)"
  shows "\<exists>missed p h'. resume marshal now h (s_userID s) (s_id s) after k = (True, h')
    \<and> set missed \<subseteq> set (s_events s) \<and> map fst missed = [after + 1 .. s_sequence s]
    \<and> marshal (frame_of (s_sequence s + 1) eventResumed EmptyData) = Some p
    \<and> h_conn h' k = (h_conn h k)\<lparr>cl_send := cl_send (h_conn h k) @ map snd missed @ [p]\<rparr>
    \<and> (\<exists>s'\<in>set (h_sessions h'). s_id s' = s_id s \<and> s_client s' = Some k \<and> s_sequence s' = s_sequence s + 1)
    \<and> (\<forall>k'. s_client s = Some k' \<longrightarrow> cl_done (h_conn h' k'))"
proof -
  obtain n conn p h' where run: "resume marshal now h (s_userID s) (s_id s) after k = (True, h')"
      "marshal (frame_of (s_sequence s + 1) eventResumed EmptyData) = Some p"
      "h_conn h' k = (h_conn h k)\<lparr>cl_send := cl_send (h_conn h k) @ map snd (filter (\<lambda>e. after < fst e) (s_events s)) @ [p]\<rparr>"
      "deliver marshal now n conn (eventResumed, EmptyData) (resumed_session k s) \<in> set (h_sessions h')"
      "s_client (deliver marshal now n conn (eventResumed, EmptyData) (resumed_session k s)) = Some k"
      "\<forall>k'. s_client s = Some k' \<longrightarrow> cl_done (h_conn h' k')"
    using resume_runs [OF assms] .
  have "session_ok marshal (h_buffer h) s"
    using assms(1,4) by (simp add: hub_inv_def sessions_ok_def)
  note missed_events [OF this assms(7)]
  moreover have "\<exists>s'\<in>set (h_sessions h'). s_id s' = s_id s \<and> s_client s' = Some k \<and> s_sequence s' = s_sequence s + 1"
    by (rule bexI [OF _ run(4)]) (simp add: run(5), simp add: resumed_session_def)
  ultimately show ?thesis
    using run by (intro exI [of _ "filter (\<lambda>e. after < fst e) (s_events s)"] exI [of _ p] exI [of _ h']) auto
qed

definition demo_second :: "gatewayMessage hub" where
  "demo_second = (snd demo_served)\<lparr>h_conn := (h_conn (snd demo_served))(1 := newClient 12 [])\<rparr>"

lemma demo_second_inv: "hub_inv Some demo_second"
  by (rule hub_inv_cong [OF demo_hub_inv]) (simp_all add: demo_second_def)

theorem resume_replays_missed_witness:
  "\<exists>h'. resume Some 5 demo_second 7 1 0 1 = (True, h') \<and> cl_send (h_conn h' 1) = [frame_of 1 eventResumed EmptyData]
     \<and> cl_done (h_conn h' 0)"
proof -
  let ?s = "hd (h_sessions (snd demo_served))"
  have "\<exists>missed p h'. resume Some 5 demo_second (s_userID ?s) (s_id ?s) 0 1 = (True, h')
    \<and> set missed \<subseteq> set (s_events ?s) \<and> map fst missed = [0 + 1 .. s_sequence ?s]
    \<and> Some (frame_of (s_sequence ?s + 1) eventResumed EmptyData) = Some p
    \<and> h_conn h' 1 = (h_conn demo_second 1)\<lparr>cl_send := cl_send (h_conn demo_second 1) @ map snd missed @ [p]\<rparr>
    \<and> (\<exists>s'\<in>set (h_sessions h'). s_id s' = s_id ?s \<and> s_client s' = Some 1 \<and> s_sequence s' = s_sequence ?s + 1)
    \<and> (\<forall>k'. s_client ?s = Some k' \<longrightarrow> cl_done (h_conn h' k'))"
    by (rule resume_replays_missed [OF demo_second_inv])
      (simp_all add: demo_second_def demo_state unused_def expired_session_def newClient_def)
  then show ?thesis
    by (auto simp: demo_second_def demo_state newClient_def)
qed


text \<open>
  C39. A \<open>RESUME\<close> that names no session of the hub, a session of another user, a position past
  the last event or one the buffer no longer covers is refused, and the hub is left as the sweep
  of expired sessions makes it: the session keeps its client, its buffer and its number.
\<close>

theorem resume_refuses:
  assumes "hub_inv marshal h"
    and "\<forall>s\<in>set (h_sessions h). s_id s = i \<longrightarrow>
           s_userID s \<noteq> u \<or> after < 0 \<or> s_sequence s < after \<or> after < s_sequence s - int (length (s_events s)) \<or> expired_session now h s"
  shows "resume marshal now h u i after k = (False, pruneLocked now h)"
proof -
  have ix: "index_ok h"
    using assms(1) by (simp add: hub_inv_def)
  have "\<not> resumable (pruneLocked now h) u i after"
  proof
    assume "resumable (pruneLocked now h) u i after"
    then obtain s where s: "s \<in> set (h_sessions h)" "\<not> expired_session now h s" "s_id s = i" "s_userID s = u" "0 \<le> after"
        "after \<le> s_sequence s" "s_events s = [] \<or> fst (hd (s_events s)) - 1 \<le> after"
      by (auto simp: resumable_def pruneLocked_fields(2) [OF ix])
    have "session_ok marshal (h_buffer h) s"
      using assms(1) s(1) by (simp add: hub_inv_def sessions_ok_def)
    then have "s_sequence s - int (length (s_events s)) \<le> after"
      using first_event [of marshal "h_buffer h" s] s(7) by (auto simp: session_ok_def)
    then show False
      using assms(2) s by force
  qed
  then show ?thesis
    by (rule resume_refused [OF ix])
qed

theorem resume_refuses_witness:
  "fst (resume Some 5 (snd demo_served) 8 1 0 1) = False"
proof -
  have "resume Some 5 (snd demo_served) 8 1 0 1 = (False, pruneLocked 5 (snd demo_served))"
    by (rule resume_refuses [OF demo_hub_inv]) (simp add: demo_state)
  then show ?thesis by simp
qed

text \<open>
  A sweep drops exactly the sessions that have been disconnected for the retention period, and
  calls back once for every user whose last session it drops, for nobody else.
\<close>

lemma Sweep_drops_expired:
  assumes "hub_inv marshal h"
  shows "h_sessions (Gateway_Sweep now h) = filter (\<lambda>s. \<not> (\<exists>t. s_disconnectedAt s = Some t \<and> h_retention h \<le> now - t)) (h_sessions h)
    \<and> (\<exists>gs. h_gone (Gateway_Sweep now h) = h_gone h @ gs \<and> distinct gs
         \<and> set gs = {u. (\<exists>s\<in>set (h_sessions h). s_userID s = u) \<and> \<not> (\<exists>s\<in>set (h_sessions (Gateway_Sweep now h)). s_userID s = u)})"
proof -
  have ix: "index_ok h"
    using assms by (simp add: hub_inv_def)
  note pr = pruneLocked_fields [OF ix, of now]
  have "users_gone h (pruneLocked now h) =
      {u. (\<exists>s\<in>set (h_sessions h). s_userID s = u) \<and> \<not> (\<exists>s\<in>set (h_sessions (pruneLocked now h)). s_userID s = u)}"
    by (auto simp: users_gone_def index_ok_users [OF ix] index_ok_users [OF pr(1)] filter_empty_conv)
  then show ?thesis
    using pruned_gone [OF ix index_ok_distinct [OF ix] subset_refl refl, of now] pr(2)
    by (simp add: Gateway_Sweep_def prune_def flip: pruneLocked_def) (auto simp: expired_session_def intro!: filter_cong split: option.split)
qed

definition demo_left :: "gatewayMessage hub" where
  "demo_left = detach 10 (snd demo_served) 1 0"

lemma demo_left_sessions: "h_sessions demo_left = [(hd (h_sessions (snd demo_served)))\<lparr>s_client := None, s_disconnectedAt := Some 10\<rparr>]"
  "h_retention demo_left = 60"
  by (simp_all add: demo_left_def detach_def demo_state detach_session_def update_where_def)

theorem Sweep_drops_expired_witness:
  "h_sessions (Gateway_Sweep 69 demo_left) \<noteq> [] \<and> h_sessions (Gateway_Sweep 70 demo_left) = []"
proof -
  have "hub_inv Some demo_left"
    unfolding demo_left_def by (rule detach_inv [OF demo_hub_inv])
  from Sweep_drops_expired [OF this] show ?thesis
    by (simp add: demo_left_sessions)
qed

lemma served_returned:
  assumes "serving marshal j h c" and "ServeHTTP marshal json auth gen now frame (c, h) = (c', h')" and "cn_phase c' = Returned"
    and "\<forall>i. gen = Some i \<longrightarrow> i \<notin> keys s_id (h_sessions h)"
  shows "unused j h'"
  using ServeHTTP_kept [OF assms(1,4), of json auth now frame] assms(2,3)
  by (auto simp: kept_def served_def unused_def)

lemma leave_done: "leave now close (c1, h1) = (c', h') \<Longrightarrow> cn_phase c' = Returned \<and> cl_done (h_conn h' (cn_client c1))"
  by (auto simp: leave_def Let_def terminate_def)

text \<open>What the three parts of \<open>ServeHTTP\<close> do: leave, or serve a session under a token that authenticates.\<close>

lemma serve_identify_outcome:
  assumes "serve_identify marshal json auth gen now d (c, h) = (c', h')"
    and "serving marshal (cn_client c) h c" and "\<forall>i. gen = Some i \<longrightarrow> i \<notin> keys s_id (h_sessions h)"
  shows "(\<exists>close h1. leave now close (c, h1) = (c', h'))
    \<or> (\<exists>i token u. cn_phase c' = Serving i token \<and> auth token = Some u \<and> (\<exists>s\<in>set (h_sessions h'). s_id s = i \<and> s_userID s = u))"
proof -
  note sv = servingD [OF assms(2)]
  consider (left) close h1 where "leave now close (c, h1) = (c', h')"
    | (on) token intents u i where "auth token = Some u" "identify marshal gen now h u intents (cn_client c) = (Inr i, h')"
        "c' = c\<lparr>cn_phase := Serving i token\<rparr>"
    using assms(1) by (auto simp: serve_identify_def split: option.splits prod.splits if_splits sum.splits hub_error.splits)
  then show ?thesis
  proof cases
    case on
    have "\<exists>s\<in>set (h_sessions h'). s_id s = i \<and> s_userID s = u"
      using sv(4) assms(3) sv(1,3) on(2) by (cases rule: identify_cases) auto
    then show ?thesis using on by auto
  qed blast
qed

lemma serve_resume_outcome:
  assumes "serve_resume marshal json auth now d (c, h) = (c', h')" and "serving marshal (cn_client c) h c"
  shows "(\<exists>close h1. leave now close (c, h1) = (c', h'))
    \<or> (\<exists>i token u. cn_phase c' = Serving i token \<and> auth token = Some u \<and> (\<exists>s\<in>set (h_sessions h'). s_id s = i \<and> s_userID s = u))"
proof -
  consider (left) close h1 where "leave now close (c, h1) = (c', h')"
    | (on) token u i after where "auth token = Some u" "resume marshal now h u i after (cn_client c) = (True, h')"
        "c' = c\<lparr>cn_phase := Serving i token\<rparr>"
    using assms(1) by (auto simp: serve_resume_def split: option.splits prod.splits if_splits bool.splits)
  then show ?thesis
  proof cases
    case on
    then show ?thesis
      using resume_session [OF servingD(4) [OF assms(2)] on(2)] by auto
  qed blast
qed

lemma ServeHTTP_outcome:
  assumes "ServeHTTP marshal json auth gen now frame (c, h) = (c', h')"
    and "serving marshal (cn_client c) h c" and "\<forall>i. gen = Some i \<longrightarrow> i \<notin> keys s_id (h_sessions h)" and "cn_phase c \<noteq> Returned"
  shows "(\<exists>close h1. leave now close (c, h1) = (c', h'))
    \<or> (\<exists>i token u. cn_phase c' = Serving i token \<and> auth token = Some u
        \<and> (cn_phase c = Serving i token \<or> (\<exists>s\<in>set (h_sessions h'). s_id s = i \<and> s_userID s = u)))"
proof (cases "cn_phase c")
  case Greeted
  note g = assms(1) [unfolded ServeHTTP_def Greeted fst_conv phase.case serve_first_def]
  consider (other) close where "leave now close (c, h) = (c', h')"
    | (identify) d where "serve_identify marshal json auth gen now d (c, h) = (c', h')"
    | (resume) d where "serve_resume marshal json auth now d (c, h) = (c', h')"
    using g by (auto split: sum.splits prod.splits if_splits)
  then show ?thesis
  proof cases
    case identify
    from serve_identify_outcome [OF this assms(2,3)] show ?thesis by metis
  next
    case resume
    from serve_resume_outcome [OF this assms(2)] show ?thesis by metis
  qed blast
next
  case (Serving i token)
  then show ?thesis
    using assms(1) unfolding ServeHTTP_def
    by (auto simp: serve_heartbeat_def split: sum.splits option.splits if_splits prod.splits bool.splits)
qed (use assms(4) in simp)

text \<open>
  C24. A connection is served only under a token that authenticates: whenever \<open>ServeHTTP\<close> goes on
  to serve a session after a frame, the token it holds has just been authenticated, and a session it
  starts to serve belongs to the user of that token. In every other case it returns with its client
  closed, and no session keeps that client.
\<close>

theorem ServeHTTP_authenticates:
  assumes "serving marshal j h c" and "cn_phase c \<noteq> Returned" and "\<forall>i. gen = Some i \<longrightarrow> i \<notin> keys s_id (h_sessions h)"
    and "ServeHTTP marshal json auth gen now frame (c, h) = (c', h')"
  shows "(\<exists>i token u. cn_phase c' = Serving i token \<and> auth token = Some u
      \<and> (cn_phase c = Serving i token \<or> (\<exists>s\<in>set (h_sessions h'). s_id s = i \<and> s_userID s = u)))
    \<or> cn_phase c' = Returned \<and> cl_done (h_conn h' j) \<and> unused j h'"
proof -
  have j: "cn_client c = j"
    by (rule servingD(5) [OF assms(1)])
  have "?thesis" if "leave now close (c, h1) = (c', h')" for close h1
    using leave_done [OF that] served_returned [OF assms(1,4) _ assms(3)] j by simp
  then show ?thesis
    using ServeHTTP_outcome [OF assms(4) _ assms(3,2)] assms(1) j by blast
qed

theorem ServeHTTP_authenticates_witness:
  "fst (ServeHTTP Some demo_json (\<lambda>_. None) None 5 (TextFrame ''h'') demo_served)
     = \<lparr>cn_client = 0, cn_phase = Returned, cn_close = Some (closeUnauthorized, ''session expired'')\<rparr>
   \<and> unused 0 (snd (ServeHTTP Some demo_json (\<lambda>_. None) None 5 (TextFrame ''h'') demo_served))"
proof -
  let ?r = "ServeHTTP Some demo_json (\<lambda>_. None) None 5 (TextFrame ''h'') (fst demo_served, snd demo_served)"
  have sv: "serving Some 0 (snd demo_served) (fst demo_served)"
    using demo_hub_inv by (simp add: serving_def served_def demo_state)
  have r: "fst ?r = \<lparr>cn_client = 0, cn_phase = Returned, cn_close = Some (closeUnauthorized, ''session expired'')\<rparr>"
    by (simp add: ServeHTTP_def demo_state serve_heartbeat_def readInbound_def demo_json_def validHeartbeatPayload_def
        opHeartbeat_def leave_def Let_def)
  have "unused 0 (snd ?r)"
    using ServeHTTP_authenticates [OF sv, of None demo_json "\<lambda>_. None" 5 "TextFrame ''h''" "fst ?r" "snd ?r"] r
    by (simp add: demo_state)
  with r show ?thesis by simp
qed

end
