(* ===== verification/Decimal.thy ===== *)
theory Decimal
  imports Go_Text
begin

section \<open>Numbers as text\<close>

text \<open>\<open>strconv.Itoa\<close> and \<open>%d\<close> on numbers that are not negative, \<open>%d\<close> of \<open>fmt.Sscanf\<close>, \<open>strings.Split\<close>.\<close>

definition digit_char :: "nat \<Rightarrow> char" where
  "digit_char d = char_of (48 + d)"

fun Itoa :: "nat \<Rightarrow> string" where
  "Itoa n = (if n < 10 then [digit_char n] else Itoa (n div 10) @ [digit_char (n mod 10)])"

declare Itoa.simps [simp del]

definition digit_value :: "char \<Rightarrow> nat" where
  "digit_value c = of_char c - 48"

definition digits_value :: "string \<Rightarrow> nat" where
  "digits_value s = foldl (\<lambda>n c. 10 * n + digit_value c) 0 s"

text \<open>One \<open>%d\<close>: the digits at the front, at least one, below \<open>bound\<close>; what follows them is left.\<close>

definition scan_uint :: "nat \<Rightarrow> string \<Rightarrow> (nat \<times> string) option" where
  "scan_uint bound s =
     (let ds = takeWhile is_digit s in
      if ds = [] \<or> digits_value ds \<ge> bound then None else Some (digits_value ds, dropWhile is_digit s))"

definition scan_text :: "string \<Rightarrow> string \<Rightarrow> string option" where
  "scan_text t s = (if take (length t) s = t then Some (drop (length t) s) else None)"

fun strings_Split :: "char \<Rightarrow> string \<Rightarrow> string list" where
  "strings_Split sep [] = [[]]"
| "strings_Split sep (c # s) =
     (if c = sep then [] # strings_Split sep s
      else (case strings_Split sep s of [] \<Rightarrow> [[c]] | p # ps \<Rightarrow> (c # p) # ps))"

lemma digit_char: "d < 10 \<Longrightarrow> is_digit (digit_char d) \<and> digit_value (digit_char d) = d"
  by (simp add: is_digit_def between_def digit_char_def digit_value_def)

lemma Itoa_digits: "list_all is_digit (Itoa n)"
  by (induction n rule: Itoa.induct) (subst Itoa.simps, simp add: digit_char)

lemma Itoa_nonempty [simp]: "Itoa n \<noteq> []"
  by (subst Itoa.simps) simp

lemma digits_value_Itoa: "digits_value (Itoa n) = n"
proof (induction n rule: Itoa.induct)
  case (1 n)
  show ?case
  proof (cases "n < 10")
    case True
    then show ?thesis
      by (subst Itoa.simps) (simp add: digits_value_def digit_char)
  next
    case False
    then have "digits_value (Itoa (n div 10)) = n div 10"
      by (rule 1)
    with False show ?thesis
      by (subst Itoa.simps) (simp add: digits_value_def digit_char)
  qed
qed

lemma scan_uint_Itoa:
  assumes "n < bound" and "rest = [] \<or> \<not> is_digit (hd rest)"
  shows "scan_uint bound (Itoa n @ rest) = Some (n, rest)"
proof -
  have d: "\<And>c. c \<in> set (Itoa n) \<Longrightarrow> is_digit c"
    using Itoa_digits [of n] by (simp add: list_all_iff)
  have "takeWhile is_digit rest = []" "dropWhile is_digit rest = rest"
    using assms(2) by (cases rest; simp)+
  then have "takeWhile is_digit (Itoa n @ rest) = Itoa n" "dropWhile is_digit (Itoa n @ rest) = rest"
    using d by simp_all
  then show ?thesis
    using assms(1) by (simp add: scan_uint_def digits_value_Itoa)
qed

lemma scan_text_append [simp]: "scan_text t (t @ s) = Some s"
  by (simp add: scan_text_def)

lemma Itoa_no_sep: "\<not> is_digit c \<Longrightarrow> c \<notin> set (Itoa n)"
  using Itoa_digits [of n] by (auto simp: list_all_iff)

lemma strings_Split_last: "sep \<notin> set p \<Longrightarrow> strings_Split sep p = [p]"
  by (induction p) auto

lemma strings_Split_part: "sep \<notin> set p \<Longrightarrow> strings_Split sep (p @ sep # s) = p # strings_Split sep s"
  by (induction p) auto

lemma strings_Split_nonempty: "strings_Split sep s \<noteq> []"
  by (induction s) (auto split: list.split)

lemma strings_Split_join: "concat (map (\<lambda>p. p @ [sep]) (strings_Split sep s)) = s @ [sep]"
proof (induction s)
  case (Cons c s)
  then show ?case
    using strings_Split_nonempty [of sep s] by (auto split: list.split)
qed simp

text \<open>\<open>strings.Join\<close> with a separator of one byte.\<close>

fun strings_Join :: "char \<Rightarrow> string list \<Rightarrow> string" where
  "strings_Join sep [] = []"
| "strings_Join sep [p] = p"
| "strings_Join sep (p # q # ps) = p @ sep # strings_Join sep (q # ps)"

lemma strings_Split_Join:
  "ps \<noteq> [] \<Longrightarrow> \<forall>p\<in>set ps. sep \<notin> set p \<Longrightarrow> strings_Split sep (strings_Join sep ps) = ps"
  by (induction sep ps rule: strings_Join.induct) (simp_all add: strings_Split_last strings_Split_part)

lemma strings_Join_inject:
  assumes "ps \<noteq> []" "qs \<noteq> []" "\<forall>p\<in>set ps. sep \<notin> set p" "\<forall>p\<in>set qs. sep \<notin> set p"
    and eq: "strings_Join sep ps = strings_Join sep qs"
  shows "ps = qs"
proof -
  have "ps = strings_Split sep (strings_Join sep ps)"
    by (rule strings_Split_Join [symmetric, OF assms(1,3)])
  also have "\<dots> = qs"
    unfolding eq by (rule strings_Split_Join [OF assms(2,4)])
  finally show ?thesis .
qed

lemma set_strings_Join: "set (strings_Join sep ps) \<subseteq> insert sep (\<Union>p\<in>set ps. set p)"
  by (induction sep ps rule: strings_Join.induct) auto

text \<open>\<open>strconv.Atoi\<close>, which is \<open>ParseInt\<close> in base 10: a sign, then digits, within 64 bits; \<open>strconv.FormatInt\<close>.\<close>

definition Atoi :: "string \<Rightarrow> int option" where
  "Atoi s =
     (let negative = (s \<noteq> [] \<and> hd s = CHR ''-'');
          ds = (if s \<noteq> [] \<and> (hd s = CHR ''-'' \<or> hd s = CHR ''+'') then tl s else s);
          n = (if negative then - int (digits_value ds) else int (digits_value ds))
      in if ds = [] \<or> \<not> list_all is_digit ds \<or> n < - (2 ^ 63) \<or> 2 ^ 63 \<le> n then None else Some n)"

definition int_text :: "int \<Rightarrow> string" where
  "int_text n = (if n < 0 then CHR ''-'' # Itoa (nat (- n)) else Itoa (nat n))"

end
