(* ===== verification/Password.thy ===== *)
theory Password
  imports Base64 Decimal
begin

section \<open>Password hashes\<close>

text \<open>
  \<open>internal/auth/password.go\<close>. Package \<open>argon2\<close> is not part of the repository: its version
  and its key derivation are the fields of the parameter \<open>argon2\<close>. \<open>uint32\<close> and \<open>uint8\<close>
  fields are natural numbers below their bounds: no operation of the code can overflow them.
\<close>

record PasswordParams =
  pw_Memory :: nat
  pw_Iterations :: nat
  pw_Parallelism :: nat
  pw_SaltLength :: nat
  pw_KeyLength :: nat

text \<open>\<open>argon2.IDKey(password, salt, time, memory, threads, keyLen)\<close>.\<close>

record argon2 =
  argon2_Version :: nat
  argon2_IDKey :: "string \<Rightarrow> string \<Rightarrow> nat \<Rightarrow> nat \<Rightarrow> nat \<Rightarrow> nat \<Rightarrow> string"

definition DefaultPasswordParams :: PasswordParams where
  "DefaultPasswordParams = \<lparr>pw_Memory = 19 * 1024, pw_Iterations = 2, pw_Parallelism = 1, pw_SaltLength = 16, pw_KeyLength = 32\<rparr>"

definition safePasswordParams :: "PasswordParams \<Rightarrow> bool" where
  "safePasswordParams p \<longleftrightarrow>
     pw_Memory p > 0 \<and> pw_Memory p \<le> 256 * 1024 \<and> pw_Iterations p > 0 \<and> pw_Iterations p \<le> 10
     \<and> pw_Parallelism p > 0 \<and> pw_Parallelism p \<le> 16 \<and> pw_SaltLength p \<ge> 16 \<and> pw_SaltLength p \<le> 1024
     \<and> pw_KeyLength p \<ge> 16 \<and> pw_KeyLength p \<le> 1024"

definition NewPasswordHasher :: "PasswordParams \<Rightarrow> PasswordParams option" where
  "NewPasswordHasher p = (if \<not> safePasswordParams p then None else Some p)"

definition print_params :: "nat \<Rightarrow> nat \<Rightarrow> nat \<Rightarrow> string" where
  "print_params memory iterations parallelism =
     ''m='' @ Itoa memory @ '',t='' @ Itoa iterations @ '',p='' @ Itoa parallelism"

text \<open>\<open>salt\<close> is what \<open>rand.Read\<close> left in the buffer, \<open>None\<close> its error.\<close>

definition Password_Hash :: "argon2 \<Rightarrow> PasswordParams \<Rightarrow> string option \<Rightarrow> string \<Rightarrow> string option" where
  "Password_Hash a2 h salt0 password =
     (case salt0 of None \<Rightarrow> None
      | Some salt \<Rightarrow>
          let key = argon2_IDKey a2 password salt (pw_Iterations h) (pw_Memory h) (pw_Parallelism h) (pw_KeyLength h) in
          Some (''$argon2id$v='' @ Itoa (argon2_Version a2) @ ''$'' @ print_params (pw_Memory h) (pw_Iterations h) (pw_Parallelism h)
                @ ''$'' @ RawStdEncoding_EncodeToString salt @ ''$'' @ RawStdEncoding_EncodeToString key))"

text \<open>
  \<open>fmt.Sscanf\<close> with \<open>m=%d,t=%d,p=%d\<close>. It also accepts spaces before a number and anything after
  the last one: such texts fail the comparison that follows, here the scan or the comparison.
\<close>

definition scan_params :: "string \<Rightarrow> (nat \<times> nat \<times> nat) option" where
  "scan_params s =
     (case scan_text ''m='' s of None \<Rightarrow> None
      | Some s1 \<Rightarrow> (case scan_uint (2 ^ 32) s1 of None \<Rightarrow> None
      | Some (memory, s2) \<Rightarrow> (case scan_text '',t='' s2 of None \<Rightarrow> None
      | Some s3 \<Rightarrow> (case scan_uint (2 ^ 32) s3 of None \<Rightarrow> None
      | Some (iterations, s4) \<Rightarrow> (case scan_text '',p='' s4 of None \<Rightarrow> None
      | Some s5 \<Rightarrow> (case scan_uint (2 ^ 8) s5 of None \<Rightarrow> None
      | Some (parallelism, _) \<Rightarrow> Some (memory, iterations, parallelism)))))))"

definition decode_between :: "string \<Rightarrow> string option" where
  "decode_between s =
     (case StrictStdEncoding_DecodeString s of None \<Rightarrow> None
      | Some b \<Rightarrow> if length b < 16 \<or> length b > 1024 then None else Some b)"

definition parsePasswordHash :: "argon2 \<Rightarrow> string \<Rightarrow> (PasswordParams \<times> string \<times> string) option" where
  "parsePasswordHash a2 encoded =
     (let parts = strings_Split CHR ''$'' encoded in
      if length parts \<noteq> 6 \<or> parts ! 1 \<noteq> ''argon2id'' \<or> parts ! 2 \<noteq> ''v='' @ Itoa (argon2_Version a2) then None
      else (case scan_params (parts ! 3) of None \<Rightarrow> None
      | Some (memory, iterations, parallelism) \<Rightarrow>
          let parsed = \<lparr>pw_Memory = memory, pw_Iterations = iterations, pw_Parallelism = parallelism, pw_SaltLength = 16, pw_KeyLength = 16\<rparr> in
          if \<not> safePasswordParams parsed \<or> parts ! 3 \<noteq> print_params memory iterations parallelism then None
          else (case decode_between (parts ! 4) of None \<Rightarrow> None
          | Some salt \<Rightarrow> (case decode_between (parts ! 5) of None \<Rightarrow> None
          | Some expected \<Rightarrow>
              Some (\<lparr>pw_Memory = memory, pw_Iterations = iterations, pw_Parallelism = parallelism, pw_SaltLength = 0, pw_KeyLength = 0\<rparr>,
                    salt, expected)))))"

text \<open>\<open>Verify\<close>: \<open>None\<close> is \<open>ErrInvalidPasswordHash\<close>.\<close>

definition Password_Verify :: "argon2 \<Rightarrow> string \<Rightarrow> string \<Rightarrow> bool option" where
  "Password_Verify a2 password encoded =
     (case parsePasswordHash a2 encoded of None \<Rightarrow> None
      | Some (params, salt, expected) \<Rightarrow>
          Some (argon2_IDKey a2 password salt (pw_Iterations params) (pw_Memory params) (pw_Parallelism params) (length expected) = expected))"

lemma scan_params_print:
  assumes "memory < 2 ^ 32" and "iterations < 2 ^ 32" and "parallelism < 2 ^ 8"
  shows "scan_params (print_params memory iterations parallelism) = Some (memory, iterations, parallelism)"
proof -
  have nd: "\<not> is_digit CHR '',''"
    by (simp add: is_digit_def between_def)
  let ?p = "Itoa parallelism" and ?t = "Itoa iterations @ '',p='' @ Itoa parallelism"
  have "scan_text ''m='' (print_params memory iterations parallelism) = Some (Itoa memory @ '',t='' @ ?t)"
    unfolding print_params_def by (rule scan_text_append)
  moreover have "scan_uint (2 ^ 32) (Itoa memory @ '',t='' @ ?t) = Some (memory, '',t='' @ ?t)"
    using nd by (intro scan_uint_Itoa assms) simp
  moreover have "scan_text '',t='' ('',t='' @ ?t) = Some ?t"
    by (rule scan_text_append)
  moreover have "scan_uint (2 ^ 32) ?t = Some (iterations, '',p='' @ ?p)"
    using nd by (intro scan_uint_Itoa assms) simp
  moreover have "scan_text '',p='' ('',p='' @ ?p) = Some ?p"
    by (rule scan_text_append)
  moreover have "scan_uint (2 ^ 8) ?p = Some (parallelism, [])"
    using scan_uint_Itoa [OF assms(3), of "[]"] by simp
  ultimately show ?thesis
    unfolding scan_params_def by (simp only: option.case prod.case)
qed

lemma decode_between_encoded: "16 \<le> length b \<Longrightarrow> length b \<le> 1024 \<Longrightarrow> decode_between (RawStdEncoding_EncodeToString b) = Some b"
  by (simp add: decode_between_def RawStdEncoding_roundtrip)

lemma split_hash:
  "strings_Split CHR ''$'' (''$argon2id$v='' @ Itoa version @ ''$'' @ print_params m t p @ ''$''
     @ RawStdEncoding_EncodeToString salt @ ''$'' @ RawStdEncoding_EncodeToString key)
   = [[], ''argon2id'', ''v='' @ Itoa version, print_params m t p, RawStdEncoding_EncodeToString salt, RawStdEncoding_EncodeToString key]"
proof -
  have nd: "\<not> is_digit CHR ''$''"
    by (simp add: is_digit_def between_def)
  have 1: "CHR ''$'' \<notin> set (''v='' @ Itoa version)" "CHR ''$'' \<notin> set (print_params m t p)"
    using Itoa_no_sep [OF nd] by (simp_all add: print_params_def)
  have 2: "CHR ''$'' \<notin> set (RawStdEncoding_EncodeToString b)" for b
    using RawStdEncoding_chars by blast
  have 3: "CHR ''$'' \<notin> set (Itoa version)"
    using Itoa_no_sep [OF nd] .
  show ?thesis
    using 1 2 3 by (simp add: strings_Split_part strings_Split_last)
qed

lemma Verify_Hash:
  assumes "safePasswordParams h" and "length salt = pw_SaltLength h"
    and "length (argon2_IDKey a2 password salt (pw_Iterations h) (pw_Memory h) (pw_Parallelism h) (pw_KeyLength h)) = pw_KeyLength h"
    and "Password_Hash a2 h (Some salt) password = Some encoded"
  shows "Password_Verify a2 password' encoded = Some
    (argon2_IDKey a2 password' salt (pw_Iterations h) (pw_Memory h) (pw_Parallelism h) (pw_KeyLength h)
     = argon2_IDKey a2 password salt (pw_Iterations h) (pw_Memory h) (pw_Parallelism h) (pw_KeyLength h))"
proof -
  let ?key = "argon2_IDKey a2 password salt (pw_Iterations h) (pw_Memory h) (pw_Parallelism h) (pw_KeyLength h)"
  have split: "strings_Split CHR ''$'' encoded = [[], ''argon2id'', ''v='' @ Itoa (argon2_Version a2),
      print_params (pw_Memory h) (pw_Iterations h) (pw_Parallelism h), RawStdEncoding_EncodeToString salt, RawStdEncoding_EncodeToString ?key]"
    using assms(4) split_hash by (auto simp: Password_Hash_def Let_def)
  have scan: "scan_params (print_params (pw_Memory h) (pw_Iterations h) (pw_Parallelism h)) = Some (pw_Memory h, pw_Iterations h, pw_Parallelism h)"
    using assms(1) by (intro scan_params_print) (simp_all add: safePasswordParams_def)
  have "decode_between (RawStdEncoding_EncodeToString salt) = Some salt" "decode_between (RawStdEncoding_EncodeToString ?key) = Some ?key"
    using assms(1-3) by (simp_all add: safePasswordParams_def decode_between_encoded)
  then have "parsePasswordHash a2 encoded = Some (\<lparr>pw_Memory = pw_Memory h, pw_Iterations = pw_Iterations h,
      pw_Parallelism = pw_Parallelism h, pw_SaltLength = 0, pw_KeyLength = 0\<rparr>, salt, ?key)"
    using assms(1) by (simp add: parsePasswordHash_def split scan safePasswordParams_def Let_def)
  then show ?thesis
    using assms(3) by (simp add: Password_Verify_def)
qed

text \<open>A hash is a text the database takes.\<close>

lemma Itoa_plain: "list_all plain_char (Itoa n)"
  using Itoa_digits [of n] by (auto simp: list_all_iff is_digit_def between_def plain_char_def)

lemma Hash_pg_text: "Password_Hash a2 h salt password = Some encoded \<Longrightarrow> pg_text encoded"
  by (rule pg_text_plain)
    (auto simp: Password_Hash_def Let_def print_params_def b64_plain Itoa_plain plain_char_def split: option.splits)

end
