(* ===== verification/Auth_Model.thy ===== *)
theory Auth_Model
  imports Password "HOL-Library.List_Lexorder"
begin

section \<open>The data model of package auth\<close>

text \<open>
  \<open>internal/auth/model.go\<close> and the tables of \<open>migrations/000001\<close>, \<open>000011\<close> and
  \<open>000012\<close>: users with their login methods, sessions with the refresh tokens they went
  through, attempts to log in with Google, and tokens sent by mail. A transaction is one step:
  its row locks serialise it with the others on the same rows, and a failed one leaves the
  tables as they were. SHA-256 (\<open>HashToken\<close>) is the argument \<open>sha\<close>.
\<close>

subsection \<open>Errors\<close>

datatype auth_error =
    ErrEmailAlreadyRegistered
  | ErrInvalidCredentials
  | ErrInvalidRefreshToken
  | ErrUnauthorized
  | errIdentityNotFound
  | ErrMailUnavailable
  | ErrInvalidToken
  | ErrIdentityAlreadyLinked
  | ErrLastAuthenticationMethod
  | ErrAuthMethodNotLinked
  | ErrGoogleUnavailable
  | ErrInvalidOAuthCallback
  | ErrInvalidAuthorizationGrant
  | ErrAccountLinkRequired
  | errOAuthNotFound
  | AuthValidationError string string
  | AuthInternal string

type_synonym 'a auth_result = "auth_error + 'a"

definition ProviderPassword :: string where "ProviderPassword = ''PASSWORD''"
definition ProviderGoogle :: string where "ProviderGoogle = ''GOOGLE''"
definition PurposeVerifyEmail :: string where "PurposeVerifyEmail = ''VERIFY_EMAIL''"
definition PurposeResetPassword :: string where "PurposeResetPassword = ''RESET_PASSWORD''"

subsection \<open>Structs\<close>

record AuthUser =
  usr_ID :: uuid
  usr_Email :: string
  usr_EmailVerified :: bool
  usr_DisplayName :: string
  usr_AvatarURL :: "string option"
  usr_AuthenticationMethods :: "string list"
  usr_CreatedAt :: time

record PasswordIdentity =
  pi_User :: AuthUser
  pi_PasswordHash :: string

record NewSession =
  ns_ID :: uuid
  ns_UserID :: uuid
  ns_TokenFamilyID :: uuid
  ns_AccessTokenHash :: string
  ns_AccessExpiresAt :: time
  ns_RefreshTokenID :: uuid
  ns_RefreshTokenHash :: string
  ns_RefreshExpiresAt :: time
  ns_CreatedAt :: time

record NewPasswordUser =
  npu_UserID :: uuid
  npu_IdentityID :: uuid
  npu_Email :: string
  npu_NormalizedEmail :: string
  npu_DisplayName :: string
  npu_PasswordHash :: string
  npu_Session :: NewSession

record RotatedSession =
  rot_AccessTokenHash :: string
  rot_AccessExpiresAt :: time
  rot_RefreshTokenID :: uuid
  rot_RefreshTokenHash :: string
  rot_RefreshExpiresAt :: time
  rot_RotatedAt :: time

record GoogleIdentity =
  gi_Subject :: string
  gi_Email :: string
  gi_EmailVerified :: bool
  gi_Name :: string
  gi_Picture :: string

record OAuthLogin =
  ol_ID :: uuid
  ol_StateHash :: string
  ol_Nonce :: string
  ol_CodeChallenge :: string
  ol_ClientState :: string
  ol_CreatedAt :: time
  ol_ExpiresAt :: time
  ol_LinkUserID :: "uuid option"

record ExchangeGrant =
  eg_LinkUserID :: "uuid option"
  eg_CodeChallenge :: string
  eg_Identity :: GoogleIdentity

record NewGoogleSignIn =
  ngs_Identity :: GoogleIdentity
  ngs_UserID :: uuid
  ngs_IdentityID :: uuid
  ngs_DisplayName :: string
  ngs_Session :: NewSession

record EmailToken =
  et_ID :: uuid
  et_UserID :: uuid
  et_Purpose :: string
  et_Email :: string
  et_TokenHash :: string
  et_CreatedAt :: time
  et_ExpiresAt :: time

record LinkGoogleInput =
  lgi_UserID :: uuid
  lgi_IdentityID :: uuid
  lgi_Identity :: GoogleIdentity
  lgi_Now :: time

subsection \<open>Tables\<close>

record user_row =
  ur_id :: uuid
  ur_email :: string
  ur_normalized :: string
  ur_verified :: bool
  ur_display_name :: string
  ur_avatar :: "string option"
  ur_created :: time

record identity_row =
  id_id :: uuid
  id_user :: uuid
  id_provider :: string
  id_subject :: string
  id_hash :: "string option"

record session_row =
  se_id :: uuid
  se_user :: uuid
  se_access :: string
  se_access_expires :: time
  se_expires :: time
  se_revoked :: "time option"

record refresh_row =
  rf_id :: uuid
  rf_session :: uuid
  rf_hash :: string
  rf_expires :: time
  rf_consumed :: "time option"

text \<open>An attempt: the columns of the grant are set together, \<open>og_grant\<close> holds them.\<close>

record oauth_row =
  og_id :: uuid
  og_state :: string
  og_nonce :: string
  og_challenge :: string
  og_client_state :: string
  og_created :: time
  og_expires :: time
  og_link_user :: "uuid option"
  og_callback :: "time option"
  og_grant :: "(string \<times> time \<times> GoogleIdentity) option"
  og_consumed :: "time option"

record token_row =
  tk_id :: uuid
  tk_user :: uuid
  tk_purpose :: string
  tk_email :: string
  tk_hash :: string
  tk_created :: time
  tk_expires :: time
  tk_consumed :: "time option"

record auth_db =
  accounts :: "user_row list"
  identities :: "identity_row list"
  sessions :: "session_row list"
  refresh_tokens :: "refresh_row list"
  oauth_logins :: "oauth_row list"
  email_tokens :: "token_row list"

definition empty_auth :: auth_db where
  "empty_auth = \<lparr>accounts = [], identities = [], sessions = [], refresh_tokens = [], oauth_logins = [], email_tokens = []\<rparr>"

abbreviation identity_key :: "identity_row \<Rightarrow> string \<times> string" where
  "identity_key i \<equiv> (id_provider i, id_subject i)"

definition user_row_ok :: "user_row \<Rightarrow> bool" where
  "user_row_ok u \<longleftrightarrow> pg_text (ur_email u) \<and> pg_text (ur_normalized u) \<and> pg_text (ur_display_name u)
     \<and> char_length_between 1 64 (ur_display_name u) \<and> pg_text_opt (ur_avatar u)"

definition identity_row_ok :: "identity_row \<Rightarrow> bool" where
  "identity_row_ok i \<longleftrightarrow> id_provider i \<noteq> [] \<and> id_subject i \<noteq> [] \<and> pg_text (id_subject i) \<and> pg_text_opt (id_hash i)
     \<and> (id_provider i = ProviderPassword \<longleftrightarrow> id_hash i \<noteq> None)"

subsection \<open>Users and sessions: postgres.go\<close>

definition linked_providers :: "auth_db \<Rightarrow> uuid \<Rightarrow> string list" where
  "linked_providers db u = sort (map id_provider (filter (\<lambda>i. id_user i = u) (identities db)))"

definition user_view :: "auth_db \<Rightarrow> user_row \<Rightarrow> AuthUser" where
  "user_view db u = \<lparr>usr_ID = ur_id u, usr_Email = ur_email u, usr_EmailVerified = ur_verified u,
     usr_DisplayName = ur_display_name u, usr_AvatarURL = ur_avatar u,
     usr_AuthenticationMethods = linked_providers db (ur_id u), usr_CreatedAt = ur_created u\<rparr>"

text \<open>\<open>insertSession\<close> inside of a transaction: the row of the session and its first refresh token.\<close>

definition insertSession :: "auth_db \<Rightarrow> NewSession \<Rightarrow> auth_db auth_result" where
  "insertSession db s =
     (if length (ns_AccessTokenHash s) \<noteq> 32 \<or> \<not> ns_AccessExpiresAt s \<le> ns_RefreshExpiresAt s
         \<or> ns_ID s \<in> keys se_id (sessions db) \<or> ns_AccessTokenHash s \<in> keys se_access (sessions db)
         \<or> ns_UserID s \<notin> keys ur_id (accounts db)
      then Inl (AuthInternal ''insert session'')
      else if length (ns_RefreshTokenHash s) \<noteq> 32 \<or> ns_RefreshTokenID s \<in> keys rf_id (refresh_tokens db)
         \<or> ns_RefreshTokenHash s \<in> keys rf_hash (refresh_tokens db)
      then Inl (AuthInternal ''insert refresh token'')
      else Inr (db\<lparr>
        sessions := sessions db @ [\<lparr>se_id = ns_ID s, se_user = ns_UserID s, se_access = ns_AccessTokenHash s,
          se_access_expires = ns_AccessExpiresAt s, se_expires = ns_RefreshExpiresAt s, se_revoked = None\<rparr>],
        refresh_tokens := refresh_tokens db @ [\<lparr>rf_id = ns_RefreshTokenID s, rf_session = ns_ID s,
          rf_hash = ns_RefreshTokenHash s, rf_expires = ns_RefreshExpiresAt s, rf_consumed = None\<rparr>]\<rparr>))"

definition CreatePasswordUser :: "auth_db \<Rightarrow> NewPasswordUser \<Rightarrow> unit auth_result \<times> auth_db" where
  "CreatePasswordUser db input =
     (let u = \<lparr>ur_id = npu_UserID input, ur_email = npu_Email input, ur_normalized = npu_NormalizedEmail input,
              ur_verified = False, ur_display_name = npu_DisplayName input, ur_avatar = None,
              ur_created = ns_CreatedAt (npu_Session input)\<rparr>;
          i = \<lparr>id_id = npu_IdentityID input, id_user = npu_UserID input, id_provider = ProviderPassword,
              id_subject = npu_NormalizedEmail input, id_hash = Some (npu_PasswordHash input)\<rparr> in
      if \<not> user_row_ok u \<or> ur_id u \<in> keys ur_id (accounts db) then (Inl (AuthInternal ''insert user''), db)
      else if ur_normalized u \<in> keys ur_normalized (accounts db) then (Inl ErrEmailAlreadyRegistered, db)
      else if \<not> identity_row_ok i \<or> id_id i \<in> keys id_id (identities db)
      then (Inl (AuthInternal ''insert password identity''), db)
      else if identity_key i \<in> keys identity_key (identities db) then (Inl ErrEmailAlreadyRegistered, db)
      else (case insertSession (db\<lparr>accounts := accounts db @ [u], identities := identities db @ [i]\<rparr>) (npu_Session input) of
          Inl err \<Rightarrow> (Inl err, db) | Inr db' \<Rightarrow> (Inr (), db')))"

definition FindPasswordIdentity :: "auth_db \<Rightarrow> string \<Rightarrow> PasswordIdentity auth_result" where
  "FindPasswordIdentity db normalizedEmail =
     (case find_by identity_key (identities db) (ProviderPassword, normalizedEmail) of None \<Rightarrow> Inl errIdentityNotFound
      | Some i \<Rightarrow> (case find_by ur_id (accounts db) (id_user i) of None \<Rightarrow> Inl errIdentityNotFound
      | Some u \<Rightarrow> (case id_hash i of None \<Rightarrow> Inl (AuthInternal ''find password identity'')
      | Some hash \<Rightarrow> Inr \<lparr>pi_User = user_view db u, pi_PasswordHash = hash\<rparr>)))"

definition CreateSession :: "auth_db \<Rightarrow> NewSession \<Rightarrow> unit auth_result \<times> auth_db" where
  "CreateSession db s = (case insertSession db s of Inl err \<Rightarrow> (Inl err, db) | Inr db' \<Rightarrow> (Inr (), db'))"

definition revoke :: "time \<Rightarrow> session_row \<Rightarrow> session_row" where
  "revoke now s = s\<lparr>se_revoked := (case se_revoked s of None \<Rightarrow> Some now | Some t \<Rightarrow> Some t)\<rparr>"

text \<open>The row locks on the token and its session make the test and the writes one step.\<close>

definition RotateSession :: "auth_db \<Rightarrow> string \<Rightarrow> RotatedSession \<Rightarrow> uuid auth_result \<times> auth_db" where
  "RotateSession db currentRefreshHash nxt =
     (case find_by rf_hash (refresh_tokens db) currentRefreshHash of None \<Rightarrow> (Inl ErrInvalidRefreshToken, db)
      | Some rt \<Rightarrow> (case find_by se_id (sessions db) (rf_session rt) of None \<Rightarrow> (Inl ErrInvalidRefreshToken, db)
      | Some s \<Rightarrow>
          if rf_consumed rt \<noteq> None \<or> se_revoked s \<noteq> None
             \<or> \<not> rot_RotatedAt nxt < rf_expires rt \<or> \<not> rot_RotatedAt nxt < se_expires s
          then (Inl ErrInvalidRefreshToken,
                db\<lparr>sessions := update_where (\<lambda>x. se_id x = se_id s) (revoke (rot_RotatedAt nxt)) (sessions db)\<rparr>)
          else if length (rot_AccessTokenHash nxt) \<noteq> 32 \<or> \<not> rot_AccessExpiresAt nxt \<le> rot_RefreshExpiresAt nxt
             \<or> list_ex (\<lambda>x. se_access x = rot_AccessTokenHash nxt \<and> se_id x \<noteq> se_id s) (sessions db)
          then (Inl (AuthInternal ''update session tokens''), db)
          else if length (rot_RefreshTokenHash nxt) \<noteq> 32 \<or> rot_RefreshTokenID nxt \<in> keys rf_id (refresh_tokens db)
             \<or> rot_RefreshTokenHash nxt \<in> keys rf_hash (refresh_tokens db)
          then (Inl (AuthInternal ''insert rotated refresh token''), db)
          else (Inr (se_id s), db\<lparr>
            sessions := update_where (\<lambda>x. se_id x = se_id s)
              (\<lambda>x. x\<lparr>se_access := rot_AccessTokenHash nxt, se_access_expires := rot_AccessExpiresAt nxt,
                     se_expires := rot_RefreshExpiresAt nxt\<rparr>) (sessions db),
            refresh_tokens := update_where (\<lambda>x. rf_hash x = currentRefreshHash)
                (\<lambda>x. x\<lparr>rf_consumed := Some (rot_RotatedAt nxt)\<rparr>) (refresh_tokens db)
              @ [\<lparr>rf_id = rot_RefreshTokenID nxt, rf_session = se_id s, rf_hash = rot_RefreshTokenHash nxt,
                  rf_expires = rot_RefreshExpiresAt nxt, rf_consumed = None\<rparr>]\<rparr>)))"

definition RevokeSession :: "auth_db \<Rightarrow> string \<Rightarrow> string \<Rightarrow> time \<Rightarrow> unit auth_result \<times> auth_db" where
  "RevokeSession db accessHash refreshHash now =
     (let hit = (\<lambda>s. se_access s = accessHash \<and> se_revoked s = None
            \<and> list_ex (\<lambda>rt. rf_session rt = se_id s \<and> rf_hash rt = refreshHash \<and> rf_consumed rt = None) (refresh_tokens db)) in
      if filter hit (sessions db) = [] then (Inl ErrUnauthorized, db)
      else (Inr (), db\<lparr>sessions := update_where hit (revoke now) (sessions db)\<rparr>))"

definition FindUserByAccessToken :: "auth_db \<Rightarrow> string \<Rightarrow> time \<Rightarrow> AuthUser auth_result" where
  "FindUserByAccessToken db accessHash now =
     (case List.find (\<lambda>s. se_access s = accessHash \<and> se_revoked s = None \<and> se_access_expires s > now \<and> se_expires s > now) (sessions db) of
        None \<Rightarrow> Inl ErrUnauthorized
      | Some s \<Rightarrow> (case find_by ur_id (accounts db) (se_user s) of None \<Rightarrow> Inl ErrUnauthorized
      | Some u \<Rightarrow> Inr (user_view db u)))"

subsection \<open>Mail tokens and login methods: account\_postgres.go\<close>

definition CreateEmailToken :: "auth_db \<Rightarrow> EmailToken \<Rightarrow> duration \<Rightarrow> bool auth_result \<times> auth_db" where
  "CreateEmailToken db t cooldown =
     (if list_ex (\<lambda>r. tk_user r = et_UserID t \<and> tk_purpose r = et_Purpose t \<and> tk_created r > et_CreatedAt t - cooldown) (email_tokens db)
      then (Inr False, db)
      else if et_ID t \<in> keys tk_id (email_tokens db) \<or> et_TokenHash t \<in> keys tk_hash (email_tokens db) \<or> length (et_TokenHash t) \<noteq> 32
         \<or> et_Purpose t \<notin> {PurposeVerifyEmail, PurposeResetPassword} \<or> \<not> pg_text (et_Email t) \<or> et_UserID t \<notin> keys ur_id (accounts db)
      then (Inl (AuthInternal ''insert email token''), db)
      else (Inr True, db\<lparr>email_tokens :=
        update_where (\<lambda>r. tk_user r = et_UserID t \<and> tk_purpose r = et_Purpose t \<and> tk_consumed r = None)
          (\<lambda>r. r\<lparr>tk_consumed := Some (et_CreatedAt t)\<rparr>) (email_tokens db)
        @ [\<lparr>tk_id = et_ID t, tk_user = et_UserID t, tk_purpose = et_Purpose t, tk_email = et_Email t, tk_hash = et_TokenHash t,
            tk_created = et_CreatedAt t, tk_expires = et_ExpiresAt t, tk_consumed = None\<rparr>]\<rparr>))"

definition consumeEmailToken :: "auth_db \<Rightarrow> string \<Rightarrow> string \<Rightarrow> time \<Rightarrow> (token_row \<times> auth_db) option" where
  "consumeEmailToken db tokenHash purpose now =
     (let hit = (\<lambda>r. tk_hash r = tokenHash \<and> tk_purpose r = purpose \<and> tk_consumed r = None \<and> tk_expires r > now) in
      case filter hit (email_tokens db) of [] \<Rightarrow> None
      | r # _ \<Rightarrow> Some (r, db\<lparr>email_tokens := update_where hit (\<lambda>r. r\<lparr>tk_consumed := Some now\<rparr>) (email_tokens db)\<rparr>))"

definition verify_user :: "uuid \<Rightarrow> auth_db \<Rightarrow> auth_db" where
  "verify_user u db = db\<lparr>accounts := update_where (\<lambda>x. ur_id x = u) (\<lambda>x. x\<lparr>ur_verified := True\<rparr>) (accounts db)\<rparr>"

definition Store_VerifyEmail :: "auth_db \<Rightarrow> string \<Rightarrow> time \<Rightarrow> unit auth_result \<times> auth_db" where
  "Store_VerifyEmail db tokenHash now =
     (case consumeEmailToken db tokenHash PurposeVerifyEmail now of None \<Rightarrow> (Inl ErrInvalidToken, db)
      | Some (t, db1) \<Rightarrow>
          if \<not> list_ex (\<lambda>u. ur_id u = tk_user t \<and> ur_normalized u = tk_email t) (accounts db1) then (Inl ErrInvalidToken, db1)
          else (Inr (), verify_user (tk_user t) db1))"

definition Store_ResetPassword :: "auth_db \<Rightarrow> string \<Rightarrow> string \<Rightarrow> time \<Rightarrow> unit auth_result \<times> auth_db" where
  "Store_ResetPassword db tokenHash newPasswordHash now =
     (case consumeEmailToken db tokenHash PurposeResetPassword now of None \<Rightarrow> (Inl ErrInvalidToken, db)
      | Some (t, db1) \<Rightarrow>
          let own = (\<lambda>i. id_user i = tk_user t \<and> id_provider i = ProviderPassword \<and> id_subject i = tk_email t) in
          if filter own (identities db1) = [] then (Inl ErrInvalidToken, db1)
          else if \<not> pg_text newPasswordHash then (Inl (AuthInternal ''update password hash''), db)
          else (Inr (),
            verify_user (tk_user t) (db1\<lparr>
              identities := update_where own (\<lambda>i. i\<lparr>id_hash := Some newPasswordHash\<rparr>) (identities db1),
              sessions := update_where (\<lambda>s. se_user s = tk_user t) (revoke now) (sessions db1),
              email_tokens := update_where (\<lambda>r. tk_user r = tk_user t \<and> tk_purpose r = PurposeResetPassword \<and> tk_consumed r = None)
                (\<lambda>r. r\<lparr>tk_consumed := Some now\<rparr>) (email_tokens db1)\<rparr>)))"

text \<open>\<open>normalizeEmail\<close> with Unicode's lower case as an argument.\<close>

definition normalizeEmail :: "(string \<Rightarrow> string) \<Rightarrow> string \<Rightarrow> string" where
  "normalizeEmail ToLower v = ToLower (strings_TrimSpace v)"

definition Store_LinkGoogle :: "(string \<Rightarrow> string) \<Rightarrow> auth_db \<Rightarrow> LinkGoogleInput \<Rightarrow> AuthUser auth_result \<times> auth_db" where
  "Store_LinkGoogle ToLower db input =
     (case find_by ur_id (accounts db) (lgi_UserID input) of None \<Rightarrow> (Inl (AuthInternal ''lock user''), db)
      | Some u \<Rightarrow>
          if list_ex (\<lambda>i. id_provider i = ProviderGoogle \<and> (id_subject i = gi_Subject (lgi_Identity input) \<or> id_user i = lgi_UserID input)) (identities db)
          then (Inl ErrIdentityAlreadyLinked, db)
          else let i = \<lparr>id_id = lgi_IdentityID input, id_user = lgi_UserID input, id_provider = ProviderGoogle,
                        id_subject = gi_Subject (lgi_Identity input), id_hash = None\<rparr> in
            if \<not> identity_row_ok i \<or> id_id i \<in> keys id_id (identities db) then (Inl (AuthInternal ''insert google identity''), db)
            else let db1 = db\<lparr>identities := identities db @ [i]\<rparr>;
                     verified = gi_EmailVerified (lgi_Identity input) \<and> normalizeEmail ToLower (gi_Email (lgi_Identity input)) = ur_normalized u;
                     db2 = (if verified then verify_user (ur_id u) db1 else db1) in
              (Inr (user_view db2 (u\<lparr>ur_verified := (ur_verified u \<or> verified)\<rparr>)), db2))"

definition Store_UnlinkAuthenticationMethod :: "auth_db \<Rightarrow> uuid \<Rightarrow> string \<Rightarrow> unit auth_result \<times> auth_db" where
  "Store_UnlinkAuthenticationMethod db userID provider =
     (let providers = map id_provider (filter (\<lambda>i. id_user i = userID) (identities db)) in
      if provider \<notin> set providers then (Inl ErrAuthMethodNotLinked, db)
      else if length providers \<le> 1 then (Inl ErrLastAuthenticationMethod, db)
      else (Inr (), db\<lparr>identities := delete_where (\<lambda>i. id_user i = userID \<and> id_provider i = provider) (identities db)\<rparr>))"

subsection \<open>Google logins: google\_postgres.go\<close>

text \<open>The purge and the insert are two statements: the purge stays when the insert fails.\<close>

definition CreateOAuthLogin :: "auth_db \<Rightarrow> OAuthLogin \<Rightarrow> unit auth_result \<times> auth_db" where
  "CreateOAuthLogin db l =
     (let db1 = db\<lparr>oauth_logins := delete_where (\<lambda>o1. og_expires o1 < ol_CreatedAt l - time_Hour) (oauth_logins db)\<rparr> in
      if ol_ID l \<in> keys og_id (oauth_logins db1) \<or> ol_StateHash l \<in> keys og_state (oauth_logins db1) \<or> length (ol_StateHash l) \<noteq> 32
         \<or> \<not> pg_text (ol_Nonce l) \<or> \<not> pg_text (ol_CodeChallenge l) \<or> \<not> pg_text (ol_ClientState l)
         \<or> (case ol_LinkUserID l of None \<Rightarrow> False | Some u \<Rightarrow> u \<notin> keys ur_id (accounts db1))
      then (Inl (AuthInternal ''insert oauth login''), db1)
      else (Inr (), db1\<lparr>oauth_logins := oauth_logins db1 @ [\<lparr>og_id = ol_ID l, og_state = ol_StateHash l, og_nonce = ol_Nonce l,
              og_challenge = ol_CodeChallenge l, og_client_state = ol_ClientState l, og_created = ol_CreatedAt l,
              og_expires = ol_ExpiresAt l, og_link_user = ol_LinkUserID l, og_callback = None, og_grant = None, og_consumed = None\<rparr>]\<rparr>))"

definition ClaimOAuthState :: "auth_db \<Rightarrow> string \<Rightarrow> time \<Rightarrow> OAuthLogin auth_result \<times> auth_db" where
  "ClaimOAuthState db stateHash now =
     (let hit = (\<lambda>o1. og_state o1 = stateHash \<and> og_callback o1 = None \<and> og_expires o1 > now) in
      case filter hit (oauth_logins db) of [] \<Rightarrow> (Inl errOAuthNotFound, db)
      | o1 # _ \<Rightarrow> (Inr \<lparr>ol_ID = og_id o1, ol_StateHash = [], ol_Nonce = og_nonce o1, ol_CodeChallenge = og_challenge o1,
                      ol_ClientState = og_client_state o1, ol_CreatedAt = og_created o1, ol_ExpiresAt = og_expires o1, ol_LinkUserID = None\<rparr>,
                   db\<lparr>oauth_logins := update_where hit (\<lambda>o1. o1\<lparr>og_callback := Some now\<rparr>) (oauth_logins db)\<rparr>))"

definition grant_code :: "oauth_row \<Rightarrow> string option" where
  "grant_code o1 = map_option fst (og_grant o1)"

definition StoreExchangeGrant :: "auth_db \<Rightarrow> uuid \<Rightarrow> string \<Rightarrow> time \<Rightarrow> GoogleIdentity \<Rightarrow> unit auth_result \<times> auth_db" where
  "StoreExchangeGrant db loginID codeHash expiresAt ident =
     (if loginID \<in> keys og_id (oauth_logins db) \<and>
         (length codeHash \<noteq> 32 \<or> list_ex (\<lambda>o1. grant_code o1 = Some codeHash \<and> og_id o1 \<noteq> loginID) (oauth_logins db)
          \<or> \<not> pg_text (gi_Subject ident) \<or> \<not> pg_text (gi_Email ident) \<or> \<not> pg_text (gi_Name ident) \<or> \<not> pg_text (gi_Picture ident))
      then (Inl (AuthInternal ''store exchange grant''), db)
      else (Inr (), db\<lparr>oauth_logins := update_where (\<lambda>o1. og_id o1 = loginID)
              (\<lambda>o1. o1\<lparr>og_grant := Some (codeHash, expiresAt, ident)\<rparr>) (oauth_logins db)\<rparr>))"

definition ConsumeExchangeCode :: "auth_db \<Rightarrow> string \<Rightarrow> time \<Rightarrow> ExchangeGrant auth_result \<times> auth_db" where
  "ConsumeExchangeCode db codeHash now =
     (let hit = (\<lambda>o1. og_consumed o1 = None \<and> (case og_grant o1 of None \<Rightarrow> False | Some (code, expires, _) \<Rightarrow> code = codeHash \<and> expires > now)) in
      case filter hit (oauth_logins db) of [] \<Rightarrow> (Inl errOAuthNotFound, db)
      | o1 # _ \<Rightarrow> (Inr \<lparr>eg_LinkUserID = og_link_user o1, eg_CodeChallenge = og_challenge o1, eg_Identity = snd (snd (the (og_grant o1)))\<rparr>,
                   db\<lparr>oauth_logins := update_where hit (\<lambda>o1. o1\<lparr>og_consumed := Some now\<rparr>) (oauth_logins db)\<rparr>))"

definition SignInGoogle :: "(string \<Rightarrow> string) \<Rightarrow> auth_db \<Rightarrow> NewGoogleSignIn \<Rightarrow> unit auth_result \<times> auth_db" where
  "SignInGoogle ToLower db input =
     (case find_by identity_key (identities db) (ProviderGoogle, gi_Subject (ngs_Identity input)) of
        Some i \<Rightarrow> (case insertSession db ((ngs_Session input)\<lparr>ns_UserID := id_user i\<rparr>) of
            Inl err \<Rightarrow> (Inl err, db) | Inr db' \<Rightarrow> (Inr (), db'))
      | None \<Rightarrow>
          let normalized = normalizeEmail ToLower (gi_Email (ngs_Identity input)) in
          if normalized \<in> keys ur_normalized (accounts db) then (Inl ErrAccountLinkRequired, db)
          else let u = \<lparr>ur_id = ngs_UserID input, ur_email = gi_Email (ngs_Identity input), ur_normalized = normalized, ur_verified = True,
                        ur_display_name = ngs_DisplayName input,
                        ur_avatar = (if gi_Picture (ngs_Identity input) \<noteq> [] then Some (gi_Picture (ngs_Identity input)) else None),
                        ur_created = ns_CreatedAt (ngs_Session input)\<rparr>;
                   i = \<lparr>id_id = ngs_IdentityID input, id_user = ngs_UserID input, id_provider = ProviderGoogle,
                        id_subject = gi_Subject (ngs_Identity input), id_hash = None\<rparr> in
            if \<not> user_row_ok u \<or> ur_id u \<in> keys ur_id (accounts db) then (Inl (AuthInternal ''insert google user''), db)
            else if \<not> identity_row_ok i \<or> id_id i \<in> keys id_id (identities db) then (Inl (AuthInternal ''insert google identity''), db)
            else (case insertSession (db\<lparr>accounts := accounts db @ [u], identities := identities db @ [i]\<rparr>) (ngs_Session input) of
                Inl err \<Rightarrow> (Inl err, db) | Inr db' \<Rightarrow> (Inr (), db')))"

end
