(* ===== verification/Auth_Service.thy ===== *)
theory Auth_Service
  imports Auth_Model
begin

section \<open>Accounts, sessions and mail tokens\<close>

text \<open>
  \<open>internal/auth/service.go\<close>, \<open>token.go\<close> and \<open>account.go\<close>. What the code takes from
  outside is explicit: \<open>auth_lib\<close> holds SHA-256, Unicode's lower case, \<open>mail.ParseAddress\<close>
  (the bare address of a text), \<open>url.Values.Encode\<close> and \<open>argon2\<close>; every random value an
  operation draws is an argument, \<open>None\<close> the generator's error.
\<close>

record auth_lib =
  al_sha256 :: "string \<Rightarrow> string"
  al_ToLower :: "string \<Rightarrow> string"
  al_ParseAddress :: "string \<Rightarrow> string option"
  al_Encode :: "(string \<times> string) list \<Rightarrow> string"
  al_argon2 :: argon2

record SessionTokens =
  st_AccessToken :: string
  st_RefreshToken :: string
  st_SessionID :: uuid
  st_AccessExpiresIn :: duration
  st_RefreshExpiresIn :: duration

record RegisterInput =
  ri_Email :: string
  ri_Password :: string
  ri_DisplayName :: string

record LoginInput =
  li_Email :: string
  li_Password :: string

record AuthService =
  sv_hasher :: PasswordParams
  sv_accessTTL :: duration
  sv_refreshTTL :: duration
  sv_dummyHash :: string

text \<open>\<open>NewService\<close> without its nil checks.\<close>

definition NewService :: "auth_lib \<Rightarrow> string option \<Rightarrow> PasswordParams \<Rightarrow> duration \<Rightarrow> duration \<Rightarrow> string + AuthService" where
  "NewService lib salt hasher accessTTL refreshTTL =
     (if accessTTL \<le> 0 \<or> refreshTTL \<le> accessTTL then Inl ''refresh TTL must be greater than access TTL''
      else (case Password_Hash (al_argon2 lib) hasher salt ''this password is only used to equalize login timing'' of
          None \<Rightarrow> Inl ''create dummy password hash''
        | Some dummy \<Rightarrow> Inr \<lparr>sv_hasher = hasher, sv_accessTTL = accessTTL, sv_refreshTTL = refreshTTL, sv_dummyHash = dummy\<rparr>))"

subsection \<open>Tokens\<close>

definition tokenEntropyBytes :: nat where "tokenEntropyBytes = 32"

definition HashToken :: "auth_lib \<Rightarrow> string \<Rightarrow> string" where
  "HashToken lib token = al_sha256 lib token"

definition newOpaqueToken :: "auth_lib \<Rightarrow> string \<Rightarrow> string option \<Rightarrow> (string \<times> string) auth_result" where
  "newOpaqueToken lib prefix random =
     (case random of None \<Rightarrow> Inl (AuthInternal ''generate token'')
      | Some bytes \<Rightarrow> let token = prefix @ RawURLEncoding_EncodeToString bytes in Inr (token, HashToken lib token))"

definition NewAccessToken :: "auth_lib \<Rightarrow> string option \<Rightarrow> (string \<times> string) auth_result" where
  "NewAccessToken lib random = newOpaqueToken lib ''aster_at_'' random"

definition NewRefreshToken :: "auth_lib \<Rightarrow> string option \<Rightarrow> (string \<times> string) auth_result" where
  "NewRefreshToken lib random = newOpaqueToken lib ''aster_rt_'' random"

definition randomToken :: "string option \<Rightarrow> string auth_result" where
  "randomToken random =
     (case random of None \<Rightarrow> Inl (AuthInternal ''generate token'') | Some bytes \<Rightarrow> Inr (RawURLEncoding_EncodeToString bytes))"

definition auth_newUUIDv7 :: "uuid option \<Rightarrow> uuid auth_result" where
  "auth_newUUIDv7 gen = (case gen of None \<Rightarrow> Inl (AuthInternal ''generate UUIDv7'') | Some i \<Rightarrow> Inr i)"

text \<open>What \<open>issueSession\<close> draws: three identifiers and the bytes of two tokens.\<close>

record session_draw =
  sd_session :: "uuid option"
  sd_family :: "uuid option"
  sd_refresh :: "uuid option"
  sd_access_bytes :: "string option"
  sd_refresh_bytes :: "string option"

definition issueSession ::
  "auth_lib \<Rightarrow> AuthService \<Rightarrow> session_draw \<Rightarrow> uuid \<Rightarrow> time \<Rightarrow> (NewSession \<times> SessionTokens) auth_result" where
  "issueSession lib sv draw userID now =
     (case auth_newUUIDv7 (sd_session draw) of Inl err \<Rightarrow> Inl err
      | Inr sessionID \<Rightarrow> (case auth_newUUIDv7 (sd_family draw) of Inl err \<Rightarrow> Inl err
      | Inr familyID \<Rightarrow> (case auth_newUUIDv7 (sd_refresh draw) of Inl err \<Rightarrow> Inl err
      | Inr refreshID \<Rightarrow> (case NewAccessToken lib (sd_access_bytes draw) of Inl err \<Rightarrow> Inl err
      | Inr (accessToken, accessHash) \<Rightarrow> (case NewRefreshToken lib (sd_refresh_bytes draw) of Inl err \<Rightarrow> Inl err
      | Inr (refreshToken, refreshHash) \<Rightarrow> Inr
          (\<lparr>ns_ID = sessionID, ns_UserID = userID, ns_TokenFamilyID = familyID, ns_AccessTokenHash = accessHash,
            ns_AccessExpiresAt = now + sv_accessTTL sv, ns_RefreshTokenID = refreshID, ns_RefreshTokenHash = refreshHash,
            ns_RefreshExpiresAt = now + sv_refreshTTL sv, ns_CreatedAt = now\<rparr>,
           \<lparr>st_AccessToken = accessToken, st_RefreshToken = refreshToken, st_SessionID = sessionID,
            st_AccessExpiresIn = sv_accessTTL sv, st_RefreshExpiresIn = sv_refreshTTL sv\<rparr>))))))"

subsection \<open>Validation\<close>

definition validateEmail :: "auth_lib \<Rightarrow> string \<Rightarrow> string auth_result" where
  "validateEmail lib v =
     (let normalized = normalizeEmail (al_ToLower lib) v;
          bad = Inl (AuthValidationError ''email'' ''must be a valid email address'') in
      if normalized = [] \<or> length normalized > 320 then bad
      else if al_ParseAddress lib normalized \<noteq> Some normalized then bad else Inr normalized)"

definition validatePassword :: "string \<Rightarrow> unit auth_result" where
  "validatePassword v =
     (if utf8_RuneCountInString v < 15 \<or> utf8_RuneCountInString v > 128
      then Inl (AuthValidationError ''password'' ''must contain between 15 and 128 characters'') else Inr ())"

definition validateDisplayName :: "string \<Rightarrow> string auth_result" where
  "validateDisplayName v =
     (let v' = strings_TrimSpace v in
      if utf8_RuneCountInString v' < 1 \<or> utf8_RuneCountInString v' > 64
      then Inl (AuthValidationError ''display_name'' ''must contain between 1 and 64 characters'') else Inr v')"

definition plausibleToken :: "string \<Rightarrow> bool" where
  "plausibleToken token \<longleftrightarrow> length token \<ge> 32 \<and> length token \<le> 512"

subsection \<open>Registering, logging in and out\<close>

definition Register ::
  "auth_lib \<Rightarrow> AuthService \<Rightarrow> string option \<Rightarrow> uuid option \<Rightarrow> uuid option \<Rightarrow> session_draw \<Rightarrow> time \<Rightarrow> auth_db \<Rightarrow> RegisterInput
     \<Rightarrow> SessionTokens auth_result \<times> auth_db" where
  "Register lib sv salt gen_user gen_identity draw now db input =
     (case validateEmail lib (ri_Email input) of Inl err \<Rightarrow> (Inl err, db)
      | Inr email \<Rightarrow> (case validatePassword (ri_Password input) of Inl err \<Rightarrow> (Inl err, db)
      | Inr _ \<Rightarrow> (case validateDisplayName (ri_DisplayName input) of Inl err \<Rightarrow> (Inl err, db)
      | Inr displayName \<Rightarrow> (case Password_Hash (al_argon2 lib) (sv_hasher sv) salt (ri_Password input) of
          None \<Rightarrow> (Inl (AuthInternal ''hash password''), db)
      | Some passwordHash \<Rightarrow> (case auth_newUUIDv7 gen_user of Inl err \<Rightarrow> (Inl err, db)
      | Inr userID \<Rightarrow> (case auth_newUUIDv7 gen_identity of Inl err \<Rightarrow> (Inl err, db)
      | Inr identityID \<Rightarrow> (case issueSession lib sv draw userID now of Inl err \<Rightarrow> (Inl err, db)
      | Inr (session, tokens) \<Rightarrow>
          (case CreatePasswordUser db \<lparr>npu_UserID = userID, npu_IdentityID = identityID,
              npu_Email = strings_TrimSpace (ri_Email input), npu_NormalizedEmail = email, npu_DisplayName = displayName,
              npu_PasswordHash = passwordHash, npu_Session = session\<rparr> of
             (Inl err, db') \<Rightarrow> (Inl err, db') | (Inr _, db') \<Rightarrow> (Inr tokens, db')))))))))"

definition Login ::
  "auth_lib \<Rightarrow> AuthService \<Rightarrow> session_draw \<Rightarrow> time \<Rightarrow> auth_db \<Rightarrow> LoginInput \<Rightarrow> SessionTokens auth_result \<times> auth_db" where
  "Login lib sv draw now db input =
     (case validateEmail lib (li_Email input) of Inl _ \<Rightarrow> (Inl ErrInvalidCredentials, db)
      | Inr email \<Rightarrow> (case validatePassword (li_Password input) of Inl _ \<Rightarrow> (Inl ErrInvalidCredentials, db)
      | Inr _ \<Rightarrow> (case FindPasswordIdentity db email of
          Inl err \<Rightarrow> (Inl (if err = errIdentityNotFound then ErrInvalidCredentials else err), db)
      | Inr ident \<Rightarrow> (case Password_Verify (al_argon2 lib) (li_Password input) (pi_PasswordHash ident) of
          None \<Rightarrow> (Inl (AuthInternal ''verify stored password hash''), db)
      | Some valid \<Rightarrow>
          if \<not> valid then (Inl ErrInvalidCredentials, db)
          else (case issueSession lib sv draw (usr_ID (pi_User ident)) now of Inl err \<Rightarrow> (Inl err, db)
      | Inr (session, tokens) \<Rightarrow>
          (case CreateSession db session of (Inl err, db') \<Rightarrow> (Inl err, db') | (Inr _, db') \<Rightarrow> (Inr tokens, db')))))))"

definition Refresh ::
  "auth_lib \<Rightarrow> AuthService \<Rightarrow> string option \<Rightarrow> string option \<Rightarrow> uuid option \<Rightarrow> time \<Rightarrow> auth_db \<Rightarrow> string
     \<Rightarrow> SessionTokens auth_result \<times> auth_db" where
  "Refresh lib sv access_bytes refresh_bytes gen now db refreshToken =
     (if refreshToken = [] then (Inl ErrInvalidRefreshToken, db)
      else (case NewAccessToken lib access_bytes of Inl err \<Rightarrow> (Inl err, db)
      | Inr (accessToken, accessHash) \<Rightarrow> (case NewRefreshToken lib refresh_bytes of Inl err \<Rightarrow> (Inl err, db)
      | Inr (nextRefreshToken, refreshHash) \<Rightarrow> (case auth_newUUIDv7 gen of Inl err \<Rightarrow> (Inl err, db)
      | Inr refreshID \<Rightarrow>
          (case RotateSession db (HashToken lib refreshToken)
              \<lparr>rot_AccessTokenHash = accessHash, rot_AccessExpiresAt = now + sv_accessTTL sv, rot_RefreshTokenID = refreshID,
               rot_RefreshTokenHash = refreshHash, rot_RefreshExpiresAt = now + sv_refreshTTL sv, rot_RotatedAt = now\<rparr> of
             (Inl err, db') \<Rightarrow> (Inl err, db')
           | (Inr sessionID, db') \<Rightarrow> (Inr \<lparr>st_AccessToken = accessToken, st_RefreshToken = nextRefreshToken, st_SessionID = sessionID,
               st_AccessExpiresIn = sv_accessTTL sv, st_RefreshExpiresIn = sv_refreshTTL sv\<rparr>, db'))))))"

definition Logout :: "auth_lib \<Rightarrow> time \<Rightarrow> auth_db \<Rightarrow> string \<Rightarrow> string \<Rightarrow> unit auth_result \<times> auth_db" where
  "Logout lib now db accessToken refreshToken =
     (if accessToken = [] \<or> refreshToken = [] then (Inl ErrUnauthorized, db)
      else RevokeSession db (HashToken lib accessToken) (HashToken lib refreshToken) now)"

definition Authenticate :: "auth_lib \<Rightarrow> time \<Rightarrow> auth_db \<Rightarrow> string \<Rightarrow> AuthUser auth_result" where
  "Authenticate lib now db accessToken =
     (if accessToken = [] then Inl ErrUnauthorized else FindUserByAccessToken db (HashToken lib accessToken) now)"

subsection \<open>Mail\<close>

definition verificationLifetime :: duration where "verificationLifetime = 24 * time_Hour"
definition resetLifetime :: duration where "resetLifetime = time_Hour"
definition emailCooldown :: duration where "emailCooldown = time_Minute"
definition verifyEmailLink :: string where "verifyEmailLink = ''aster://auth/verify-email''"
definition resetPasswordLink :: string where "resetPasswordLink = ''aster://auth/reset-password''"

text \<open>
  A mail: its address, its purpose (which selects subject and introduction), the token, the link
  and the minutes named in its body. Work put in the background is a task, run later.
\<close>

record token_mail =
  tm_To :: string
  tm_Purpose :: string
  tm_Token :: string
  tm_Link :: string
  tm_Minutes :: int

datatype mail_task = SendVerification uuid string string | SendReset string

definition RequestEmailVerification :: "auth_lib \<Rightarrow> bool \<Rightarrow> AuthUser \<Rightarrow> unit auth_result \<times> mail_task option" where
  "RequestEmailVerification lib mailer user =
     (if \<not> mailer then (Inl ErrMailUnavailable, None)
      else if usr_EmailVerified user then (Inr (), None)
      else (Inr (), Some (SendVerification (usr_ID user) (usr_Email user) (normalizeEmail (al_ToLower lib) (usr_Email user)))))"

definition RequestPasswordReset :: "auth_lib \<Rightarrow> bool \<Rightarrow> string \<Rightarrow> unit auth_result \<times> mail_task option" where
  "RequestPasswordReset lib mailer email =
     (if \<not> mailer then (Inl ErrMailUnavailable, None)
      else (case validateEmail lib email of Inl err \<Rightarrow> (Inl err, None) | Inr normalized \<Rightarrow> (Inr (), Some (SendReset normalized))))"

definition sendToken ::
  "auth_lib \<Rightarrow> string option \<Rightarrow> uuid option \<Rightarrow> time \<Rightarrow> auth_db \<Rightarrow> uuid \<Rightarrow> string \<Rightarrow> string \<Rightarrow> string \<Rightarrow> duration \<Rightarrow> string
     \<Rightarrow> token_mail option \<times> auth_db" where
  "sendToken lib random gen now db userID address normalized purpose lifetime link =
     (case randomToken random of Inl _ \<Rightarrow> (None, db)
      | Inr token \<Rightarrow> (case auth_newUUIDv7 gen of Inl _ \<Rightarrow> (None, db)
      | Inr i \<Rightarrow> (case CreateEmailToken db \<lparr>et_ID = i, et_UserID = userID, et_Purpose = purpose, et_Email = normalized,
                    et_TokenHash = HashToken lib token, et_CreatedAt = now, et_ExpiresAt = now + lifetime\<rparr> emailCooldown of
          (Inl _, db') \<Rightarrow> (None, db')
        | (Inr created, db') \<Rightarrow>
            if \<not> created then (None, db')
            else (Some \<lparr>tm_To = address, tm_Purpose = purpose, tm_Token = token, tm_Link = link @ ''?'' @ al_Encode lib [(''token'', token)],
                        tm_Minutes = lifetime div time_Minute\<rparr>, db'))))"

definition run_mail_task ::
  "auth_lib \<Rightarrow> string option \<Rightarrow> uuid option \<Rightarrow> time \<Rightarrow> auth_db \<Rightarrow> mail_task \<Rightarrow> token_mail option \<times> auth_db" where
  "run_mail_task lib random gen now db task =
     (case task of
        SendVerification userID address normalized \<Rightarrow>
          sendToken lib random gen now db userID address normalized PurposeVerifyEmail verificationLifetime verifyEmailLink
      | SendReset normalized \<Rightarrow> (case FindPasswordIdentity db normalized of Inl _ \<Rightarrow> (None, db)
          | Inr ident \<Rightarrow> sendToken lib random gen now db (usr_ID (pi_User ident)) (usr_Email (pi_User ident)) normalized
              PurposeResetPassword resetLifetime resetPasswordLink))"

definition VerifyEmail :: "auth_lib \<Rightarrow> time \<Rightarrow> auth_db \<Rightarrow> string \<Rightarrow> unit auth_result \<times> auth_db" where
  "VerifyEmail lib now db token =
     (if \<not> plausibleToken token then (Inl ErrInvalidToken, db) else Store_VerifyEmail db (HashToken lib token) now)"

definition ResetPassword ::
  "auth_lib \<Rightarrow> AuthService \<Rightarrow> string option \<Rightarrow> time \<Rightarrow> auth_db \<Rightarrow> string \<Rightarrow> string \<Rightarrow> unit auth_result \<times> auth_db" where
  "ResetPassword lib sv salt now db token newPassword =
     (case validatePassword newPassword of Inl err \<Rightarrow> (Inl err, db)
      | Inr _ \<Rightarrow>
          if \<not> plausibleToken token then (Inl ErrInvalidToken, db)
          else (case Password_Hash (al_argon2 lib) (sv_hasher sv) salt newPassword of None \<Rightarrow> (Inl (AuthInternal ''hash password''), db)
      | Some hash \<Rightarrow> Store_ResetPassword db (HashToken lib token) hash now))"

definition UnlinkAuthenticationMethod :: "auth_db \<Rightarrow> uuid \<Rightarrow> string \<Rightarrow> unit auth_result \<times> auth_db" where
  "UnlinkAuthenticationMethod db userID mthd =
     (if mthd \<noteq> ProviderPassword \<and> mthd \<noteq> ProviderGoogle then (Inl ErrAuthMethodNotLinked, db)
      else Store_UnlinkAuthenticationMethod db userID mthd)"

end
