(* ===== verification/Google.thy ===== *)
theory Google
  imports Auth_Service
begin

section \<open>Google login\<close>

text \<open>
  \<open>internal/auth/google.go\<close> and \<open>google_service.go\<close>: the key cache, the verification of an
  ID token, the code exchange, and the login attempts with PKCE. What Google and the libraries
  compute is in \<open>google_world\<close>: the answers to the two requests, \<open>encoding/json\<close> on the four
  texts, and RSA. The readings of the clock within one call are one reading. \<open>exp\<close> and
  \<open>nbf\<close> are taken as they are: the wrap-around of \<open>time.Unix\<close> within 63 bits of seconds is
  not modelled.
\<close>

definition loginLifetime :: duration where "loginLifetime = 5 * time_Minute"
definition exchangeCodeLifetime :: duration where "exchangeCodeLifetime = time_Minute"
definition googleKeyCacheTTL :: duration where "googleKeyCacheTTL = time_Hour"
definition idTokenLeeway :: duration where "idTokenLeeway = time_Minute"
definition DesktopRedirectURI :: string where "DesktopRedirectURI = ''aster://auth/callback''"

record GoogleConfig =
  go_ClientID :: string
  go_ClientSecret :: string
  go_RedirectURL :: string
  go_AuthorizationEndpoint :: string
  go_TokenEndpoint :: string
  go_JWKSEndpoint :: string
  go_Issuers :: "string list"

record rsa_key =
  rsa_N :: nat
  rsa_E :: nat

record GoogleClient =
  gcl_config :: GoogleConfig
  gcl_keys :: "(string \<rightharpoonup> rsa_key) option"
  gcl_keysFetch :: time

definition default_text :: "string \<Rightarrow> string \<Rightarrow> string" where
  "default_text v d = (if v = [] then d else v)"

text \<open>\<open>url.Parse\<close> gives scheme and host.\<close>

definition NewGoogleClient :: "(string \<Rightarrow> (string \<times> string) option) \<Rightarrow> GoogleConfig \<Rightarrow> string + GoogleClient" where
  "NewGoogleClient url_Parse config =
     (if go_ClientID config = [] \<or> go_ClientSecret config = [] then Inl ''google client ID and secret are required''
      else (case url_Parse (go_RedirectURL config) of None \<Rightarrow> Inl ''google redirect URL must be an http(s) URL''
      | Some (scheme, host) \<Rightarrow>
          if scheme \<noteq> ''https'' \<and> scheme \<noteq> ''http'' \<or> host = [] then Inl ''google redirect URL must be an http(s) URL''
          else Inr \<lparr>gcl_config = config\<lparr>
              go_AuthorizationEndpoint := default_text (go_AuthorizationEndpoint config) ''https://accounts.google.com/o/oauth2/v2/auth'',
              go_TokenEndpoint := default_text (go_TokenEndpoint config) ''https://oauth2.googleapis.com/token'',
              go_JWKSEndpoint := default_text (go_JWKSEndpoint config) ''https://www.googleapis.com/oauth2/v3/certs'',
              go_Issuers := (if go_Issuers config = [] then [''https://accounts.google.com'', ''accounts.google.com''] else go_Issuers config)\<rparr>,
            gcl_keys = None, gcl_keysFetch = 0\<rparr>))"

definition AuthorizationURL :: "auth_lib \<Rightarrow> GoogleConfig \<Rightarrow> string \<Rightarrow> string \<Rightarrow> string" where
  "AuthorizationURL lib config state nonce = go_AuthorizationEndpoint config @ ''?'' @ al_Encode lib
     [(''client_id'', go_ClientID config), (''redirect_uri'', go_RedirectURL config), (''response_type'', ''code''),
      (''scope'', ''openid email profile''), (''state'', state), (''nonce'', nonce), (''prompt'', ''select_account'')]"

subsection \<open>ID tokens\<close>

text \<open>The values of type \<open>any\<close> in the claims.\<close>

datatype json_any = AnyString string | AnyBool bool | AnyList "json_any list" | AnyOther

record idTokenClaims =
  ic_Issuer :: string
  ic_Audience :: json_any
  ic_Subject :: string
  ic_Expires :: int
  ic_NotBefore :: int
  ic_Nonce :: string
  ic_Email :: string
  ic_EmailVerified :: json_any
  ic_Name :: string
  ic_Picture :: string

record jwk =
  jwk_KeyType :: string
  jwk_KeyID :: string
  jwk_Algorithm :: string
  jwk_Modulus :: string
  jwk_Exponent :: string

record google_world =
  gw_token_response :: "(string \<times> string) list \<Rightarrow> (int \<times> string) option"
  gw_key_set :: "jwk list option"
  gw_json_id_token :: "string \<Rightarrow> string option"
  gw_json_header :: "string \<Rightarrow> (string \<times> string) option"
  gw_json_claims :: "string \<Rightarrow> idTokenClaims option"
  gw_VerifyPKCS1v15 :: "rsa_key \<Rightarrow> string \<Rightarrow> string \<Rightarrow> bool"

definition audienceMatches :: "json_any \<Rightarrow> string \<Rightarrow> bool" where
  "audienceMatches audience clientID =
     (case audience of AnyString v \<Rightarrow> v = clientID
      | AnyList items \<Rightarrow> list_ex (\<lambda>item. case item of AnyString t \<Rightarrow> t = clientID | _ \<Rightarrow> False) items
      | _ \<Rightarrow> False)"

definition truthy :: "json_any \<Rightarrow> bool" where
  "truthy v = (case v of AnyBool b \<Rightarrow> b | AnyString s \<Rightarrow> s = ''true'' | _ \<Rightarrow> False)"

text \<open>\<open>big.Int.SetBytes\<close>.\<close>

definition SetBytes :: "string \<Rightarrow> nat" where
  "SetBytes s = foldl (\<lambda>n c. 256 * n + of_char c) 0 s"

definition usable_key :: "jwk \<Rightarrow> rsa_key option" where
  "usable_key e =
     (if jwk_KeyType e \<noteq> ''RSA'' \<or> jwk_KeyID e = [] \<or> jwk_Algorithm e \<noteq> [] \<and> jwk_Algorithm e \<noteq> ''RS256'' then None
      else (case RawURLEncoding_DecodeString (jwk_Modulus e) of None \<Rightarrow> None
      | Some modulus \<Rightarrow> (case RawURLEncoding_DecodeString (jwk_Exponent e) of None \<Rightarrow> None
      | Some exponent \<Rightarrow>
          if length modulus < 256 \<or> length exponent = 0 \<or> length exponent > 4 then None
          else Some \<lparr>rsa_N = SetBytes modulus, rsa_E = SetBytes exponent\<rparr>)))"

text \<open>A later entry with the same identifier replaces an earlier one.\<close>

definition fetchKeys :: "google_world \<Rightarrow> string + (string \<rightharpoonup> rsa_key)" where
  "fetchKeys w =
     (case gw_key_set w of None \<Rightarrow> Inl ''fetch google keys''
      | Some entries \<Rightarrow>
          let found = fold (\<lambda>e ks. case usable_key e of None \<Rightarrow> ks | Some k \<Rightarrow> ks(jwk_KeyID e \<mapsto> k)) entries (\<lambda>_. None) in
          if list_all (\<lambda>e. usable_key e = None) entries then Inl ''google key set has no usable RSA keys'' else Inr found)"

definition signingKey :: "google_world \<Rightarrow> time \<Rightarrow> GoogleClient \<Rightarrow> string \<Rightarrow> (string + rsa_key) \<times> GoogleClient" where
  "signingKey w now g keyID =
     (let cached = (case gcl_keys g of None \<Rightarrow> None | Some ks \<Rightarrow> ks keyID);
          fresh = (gcl_keys g \<noteq> None \<and> now - gcl_keysFetch g < googleKeyCacheTTL) in
      case (if fresh then cached else None) of Some key \<Rightarrow> (Inr key, g)
      | None \<Rightarrow>
          if gcl_keys g \<noteq> None \<and> now - gcl_keysFetch g < time_Minute
          then (case cached of Some key \<Rightarrow> (Inr key, g) | None \<Rightarrow> (Inl ''id token signing key is unknown'', g))
          else (case fetchKeys w of Inl err \<Rightarrow> (Inl err, g)
          | Inr ks \<Rightarrow> (case ks keyID of Some key \<Rightarrow> Inr key | None \<Rightarrow> Inl ''id token signing key is unknown'',
                      g\<lparr>gcl_keys := Some ks, gcl_keysFetch := now\<rparr>)))"

text \<open>\<open>time.Unix(seconds, 0)\<close> in nanoseconds since Go's zero time.\<close>

definition time_Unix :: "int \<Rightarrow> time" where
  "time_Unix seconds = (seconds + 62135596800) * time_Second"

definition decodeSegment :: "(string \<Rightarrow> 'a option) \<Rightarrow> string \<Rightarrow> 'a option" where
  "decodeSegment json segment = (case RawURLEncoding_DecodeString segment of None \<Rightarrow> None | Some raw \<Rightarrow> json raw)"

definition check_claims :: "GoogleConfig \<Rightarrow> time \<Rightarrow> string \<Rightarrow> idTokenClaims \<Rightarrow> string + GoogleIdentity" where
  "check_claims config now expectedNonce c =
     (if ic_Issuer c \<notin> set (go_Issuers config) then Inl ''id token issuer is not Google''
      else if \<not> audienceMatches (ic_Audience c) (go_ClientID config) then Inl ''id token audience is not this client''
      else if ic_Expires c = 0 \<or> \<not> now < time_Unix (ic_Expires c) + idTokenLeeway then Inl ''id token is expired''
      else if ic_NotBefore c \<noteq> 0 \<and> now + idTokenLeeway < time_Unix (ic_NotBefore c) then Inl ''id token is not yet valid''
      else if expectedNonce = [] \<or> ic_Nonce c \<noteq> expectedNonce then Inl ''id token nonce does not match''
      else if ic_Subject c = [] \<or> length (ic_Subject c) > 255 then Inl ''id token has no usable subject''
      else Inr \<lparr>gi_Subject = ic_Subject c, gi_Email = ic_Email c, gi_EmailVerified = truthy (ic_EmailVerified c),
                gi_Name = ic_Name c, gi_Picture = ic_Picture c\<rparr>)"

definition VerifyIDToken ::
  "auth_lib \<Rightarrow> google_world \<Rightarrow> time \<Rightarrow> GoogleClient \<Rightarrow> string \<Rightarrow> string \<Rightarrow> (string + GoogleIdentity) \<times> GoogleClient" where
  "VerifyIDToken lib w now g token expectedNonce =
     (case strings_Split CHR ''.'' token of
        [head, payload, sig] \<Rightarrow> (case decodeSegment (gw_json_header w) head of None \<Rightarrow> (Inl ''id token header is not RS256 with a key ID'', g)
          | Some (algorithm, keyID) \<Rightarrow>
              if algorithm \<noteq> ''RS256'' \<or> keyID = [] then (Inl ''id token header is not RS256 with a key ID'', g)
              else (case RawURLEncoding_DecodeString sig of None \<Rightarrow> (Inl ''id token signature is malformed'', g)
          | Some signature \<Rightarrow> (case signingKey w now g keyID of (Inl err, g') \<Rightarrow> (Inl err, g')
          | (Inr key, g') \<Rightarrow>
              if \<not> gw_VerifyPKCS1v15 w key (al_sha256 lib (head @ ''.'' @ payload)) signature then (Inl ''id token signature is invalid'', g')
              else (case decodeSegment (gw_json_claims w) payload of None \<Rightarrow> (Inl ''id token claims are malformed'', g')
          | Some claims \<Rightarrow> (check_claims (gcl_config g) now expectedNonce claims, g')))))
      | _ \<Rightarrow> (Inl ''id token is malformed'', g))"

definition Google_Exchange ::
  "auth_lib \<Rightarrow> google_world \<Rightarrow> time \<Rightarrow> GoogleClient \<Rightarrow> string \<Rightarrow> string \<Rightarrow> (string + GoogleIdentity) \<times> GoogleClient" where
  "Google_Exchange lib w now g code nonce =
     (case gw_token_response w [(''code'', code), (''client_id'', go_ClientID (gcl_config g)), (''client_secret'', go_ClientSecret (gcl_config g)),
             (''redirect_uri'', go_RedirectURL (gcl_config g)), (''grant_type'', ''authorization_code'')] of
        None \<Rightarrow> (Inl ''exchange google code'', g)
      | Some (status, body) \<Rightarrow>
          if status \<noteq> 200 then (Inl ''exchange google code: status'', g)
          else (case gw_json_id_token w body of None \<Rightarrow> (Inl ''google token response has no id_token'', g)
      | Some token \<Rightarrow>
          if token = [] then (Inl ''google token response has no id_token'', g)
          else VerifyIDToken lib w now g token nonce))"

subsection \<open>Login attempts: google\_service.go\<close>

definition is_url_char :: "char \<Rightarrow> bool" where
  "is_url_char c \<longleftrightarrow> between CHR ''A'' CHR ''Z'' c \<or> between CHR ''a'' CHR ''z'' c \<or> is_digit c \<or> c = CHR ''_'' \<or> c = CHR ''-''"

definition challengePattern :: "string \<Rightarrow> bool" where
  "challengePattern s \<longleftrightarrow> length s = 43 \<and> list_all is_url_char s"

definition unreserved_43_128 :: "string \<Rightarrow> bool" where
  "unreserved_43_128 s \<longleftrightarrow> 43 \<le> length s \<and> length s \<le> 128 \<and> list_all (\<lambda>c. is_url_char c \<or> c = CHR ''.'' \<or> c = CHR ''~'') s"

definition clientStatePattern :: "string \<Rightarrow> bool" where "clientStatePattern s = unreserved_43_128 s"
definition verifierPattern :: "string \<Rightarrow> bool" where "verifierPattern s = unreserved_43_128 s"

definition deepLink :: "auth_lib \<Rightarrow> (string \<times> string) list \<Rightarrow> string" where
  "deepLink lib query = DesktopRedirectURI @ ''?'' @ al_Encode lib query"

definition BeginGoogleLogin ::
  "auth_lib \<Rightarrow> GoogleClient option \<Rightarrow> string option \<Rightarrow> string option \<Rightarrow> uuid option \<Rightarrow> time \<Rightarrow> auth_db \<Rightarrow> string \<Rightarrow> string
     \<Rightarrow> uuid option \<Rightarrow> (string \<times> int) auth_result \<times> auth_db" where
  "BeginGoogleLogin lib google state_bytes nonce_bytes gen now db codeChallenge clientState linkUserID =
     (case google of None \<Rightarrow> (Inl ErrGoogleUnavailable, db)
      | Some g \<Rightarrow>
          if \<not> challengePattern codeChallenge
          then (Inl (AuthValidationError ''code_challenge'' ''must be a 43 character base64url S256 challenge''), db)
          else if \<not> clientStatePattern clientState
          then (Inl (AuthValidationError ''client_state'' ''must be 43 to 128 unreserved characters''), db)
          else (case randomToken state_bytes of Inl err \<Rightarrow> (Inl err, db)
      | Inr state \<Rightarrow> (case randomToken nonce_bytes of Inl err \<Rightarrow> (Inl err, db)
      | Inr nonce \<Rightarrow> (case auth_newUUIDv7 gen of Inl err \<Rightarrow> (Inl err, db)
      | Inr i \<Rightarrow> (case CreateOAuthLogin db \<lparr>ol_ID = i, ol_StateHash = HashToken lib state, ol_Nonce = nonce,
                    ol_CodeChallenge = codeChallenge, ol_ClientState = clientState, ol_CreatedAt = now,
                    ol_ExpiresAt = now + loginLifetime, ol_LinkUserID = linkUserID\<rparr> of
          (Inl err, db') \<Rightarrow> (Inl err, db')
        | (Inr _, db') \<Rightarrow> (Inr (AuthorizationURL lib (gcl_config g) state nonce, loginLifetime div time_Second), db'))))))"

text \<open>The redirect, and the reason of a failure when there is one to log.\<close>

record GoogleCallbackResult =
  cb_RedirectURL :: string
  cb_Cause :: "string option"

definition callback_failure :: "auth_lib \<Rightarrow> OAuthLogin \<Rightarrow> string \<Rightarrow> string option \<Rightarrow> GoogleCallbackResult" where
  "callback_failure lib login code cause =
     \<lparr>cb_RedirectURL = deepLink lib [(''error'', code), (''state'', ol_ClientState login)], cb_Cause = cause\<rparr>"

text \<open>\<open>exchange\<close> is \<open>GoogleClient.Exchange\<close>: code and nonce to an identity.\<close>

definition CompleteGoogleLogin ::
  "auth_lib \<Rightarrow> (string \<Rightarrow> string \<Rightarrow> string + GoogleIdentity) option \<Rightarrow> string option \<Rightarrow> time \<Rightarrow> auth_db \<Rightarrow> string \<Rightarrow> string \<Rightarrow> string
     \<Rightarrow> GoogleCallbackResult auth_result \<times> auth_db" where
  "CompleteGoogleLogin lib google code_bytes now db state code providerError =
     (case google of None \<Rightarrow> (Inl ErrGoogleUnavailable, db)
      | Some exchange \<Rightarrow>
          if length state < 32 \<or> length state > 512 then (Inl ErrInvalidOAuthCallback, db)
          else (case ClaimOAuthState db (HashToken lib state) now of
              (Inl err, db1) \<Rightarrow> (Inl (if err = errOAuthNotFound then ErrInvalidOAuthCallback else err), db1)
            | (Inr login, db1) \<Rightarrow>
                if providerError \<noteq> []
                then if providerError = ''access_denied'' then (Inr (callback_failure lib login ''access_denied'' None), db1)
                     else (Inr (callback_failure lib login ''provider_error'' (Some ''google returned error'')), db1)
                else if code = [] then (Inr (callback_failure lib login ''provider_error'' (Some ''google callback has no code'')), db1)
                else (case exchange code (ol_Nonce login) of
                    Inl err \<Rightarrow> (Inr (callback_failure lib login ''provider_error'' (Some err)), db1)
                  | Inr ident \<Rightarrow>
                      if \<not> gi_EmailVerified ident
                      then (Inr (callback_failure lib login ''provider_error'' (Some ''google email address is not verified'')), db1)
                      else (case validateEmail lib (gi_Email ident) of
                          Inl _ \<Rightarrow> (Inr (callback_failure lib login ''provider_error'' (Some ''google email address is not usable'')), db1)
                        | Inr _ \<Rightarrow> (case randomToken code_bytes of Inl err \<Rightarrow> (Inl err, db1)
                        | Inr exchangeCode \<Rightarrow>
                            (case StoreExchangeGrant db1 (ol_ID login) (HashToken lib exchangeCode) (now + exchangeCodeLifetime) ident of
                               (Inl err, db2) \<Rightarrow> (Inl err, db2)
                             | (Inr _, db2) \<Rightarrow>
                                 (Inr \<lparr>cb_RedirectURL = deepLink lib [(''code'', exchangeCode), (''state'', ol_ClientState login)], cb_Cause = None\<rparr>, db2)))))))"

definition redeemExchangeCode ::
  "auth_lib \<Rightarrow> bool \<Rightarrow> time \<Rightarrow> auth_db \<Rightarrow> string \<Rightarrow> string \<Rightarrow> ExchangeGrant auth_result \<times> auth_db" where
  "redeemExchangeCode lib google now db exchangeCode codeVerifier =
     (if \<not> google then (Inl ErrGoogleUnavailable, db)
      else if length exchangeCode < 32 \<or> length exchangeCode > 512 \<or> \<not> verifierPattern codeVerifier
      then (Inl ErrInvalidAuthorizationGrant, db)
      else (case ConsumeExchangeCode db (HashToken lib exchangeCode) now of
          (Inl err, db1) \<Rightarrow> (Inl (if err = errOAuthNotFound then ErrInvalidAuthorizationGrant else err), db1)
        | (Inr grant, db1) \<Rightarrow>
            if RawURLEncoding_EncodeToString (al_sha256 lib codeVerifier) \<noteq> eg_CodeChallenge grant
            then (Inl ErrInvalidAuthorizationGrant, db1) else (Inr grant, db1)))"

definition googleDisplayName :: "GoogleIdentity \<Rightarrow> string" where
  "googleDisplayName ident =
     (let name0 = strings_TrimSpace (gi_Name ident);
          name1 = (if name0 = [] then takeWhile (\<lambda>c. c \<noteq> CHR ''@'') (gi_Email ident) else name0);
          name2 = (if length (runes name1) > 64 then string_of (take 64 (runes name1)) else name1) in
      if utf8_RuneCountInString (strings_TrimSpace name2) = 0 then ''Aster User'' else strings_TrimSpace name2)"

definition ExchangeGoogleLogin ::
  "auth_lib \<Rightarrow> AuthService \<Rightarrow> bool \<Rightarrow> uuid option \<Rightarrow> uuid option \<Rightarrow> session_draw \<Rightarrow> time \<Rightarrow> auth_db \<Rightarrow> string \<Rightarrow> string
     \<Rightarrow> SessionTokens auth_result \<times> auth_db" where
  "ExchangeGoogleLogin lib sv google gen_user gen_identity draw now db exchangeCode codeVerifier =
     (case redeemExchangeCode lib google now db exchangeCode codeVerifier of (Inl err, db1) \<Rightarrow> (Inl err, db1)
      | (Inr grant, db1) \<Rightarrow>
          if eg_LinkUserID grant \<noteq> None then (Inl ErrInvalidAuthorizationGrant, db1)
          else (case auth_newUUIDv7 gen_user of Inl err \<Rightarrow> (Inl err, db1)
      | Inr userID \<Rightarrow> (case auth_newUUIDv7 gen_identity of Inl err \<Rightarrow> (Inl err, db1)
      | Inr identityID \<Rightarrow> (case issueSession lib sv draw userID now of Inl err \<Rightarrow> (Inl err, db1)
      | Inr (session, tokens) \<Rightarrow>
          (case SignInGoogle (al_ToLower lib) db1 \<lparr>ngs_Identity = eg_Identity grant, ngs_UserID = userID, ngs_IdentityID = identityID,
              ngs_DisplayName = googleDisplayName (eg_Identity grant), ngs_Session = session\<rparr> of
             (Inl err, db2) \<Rightarrow> (Inl err, db2) | (Inr _, db2) \<Rightarrow> (Inr tokens, db2))))))"

definition LinkGoogleIdentity ::
  "auth_lib \<Rightarrow> bool \<Rightarrow> uuid option \<Rightarrow> time \<Rightarrow> auth_db \<Rightarrow> uuid \<Rightarrow> string \<Rightarrow> string \<Rightarrow> AuthUser auth_result \<times> auth_db" where
  "LinkGoogleIdentity lib google gen now db userID exchangeCode codeVerifier =
     (case redeemExchangeCode lib google now db exchangeCode codeVerifier of (Inl err, db1) \<Rightarrow> (Inl err, db1)
      | (Inr grant, db1) \<Rightarrow>
          if eg_LinkUserID grant \<noteq> Some userID then (Inl ErrInvalidAuthorizationGrant, db1)
          else (case auth_newUUIDv7 gen of Inl err \<Rightarrow> (Inl err, db1)
      | Inr identityID \<Rightarrow> Store_LinkGoogle (al_ToLower lib) db1
          \<lparr>lgi_UserID = userID, lgi_IdentityID = identityID, lgi_Identity = eg_Identity grant, lgi_Now = now\<rparr>))"

end
