(* ===== verification/Auth_Inv.thy ===== *)
theory Auth_Inv
  imports Google
begin

section \<open>The invariant of accounts and sessions\<close>

text \<open>
  What the schema and the program keep true of the tables of package \<open>auth\<close>, what they never
  take back (\<open>later\<close>), and that every statement of the store keeps both. Every operation of the
  service is a sequence of statements.
\<close>

definition logins_ok :: "auth_db \<Rightarrow> bool" where
  "logins_ok db \<longleftrightarrow> distinct (map ur_id (accounts db)) \<and> distinct (map ur_normalized (accounts db))
     \<and> distinct (map id_id (identities db)) \<and> distinct (map identity_key (identities db))
     \<and> distinct (map (\<lambda>i. (id_user i, id_provider i)) (identities db))
     \<and> id_user ` set (identities db) = keys ur_id (accounts db)
     \<and> (\<forall>i\<in>set (identities db). identity_row_ok i)"

text \<open>Every session has one refresh token that is not spent.\<close>

definition live_tokens :: "auth_db \<Rightarrow> uuid \<Rightarrow> refresh_row list" where
  "live_tokens db s = filter (\<lambda>r. rf_session r = s \<and> rf_consumed r = None) (refresh_tokens db)"

definition auth_sessions_ok :: "auth_db \<Rightarrow> bool" where
  "auth_sessions_ok db \<longleftrightarrow> distinct (map se_id (sessions db)) \<and> distinct (map se_access (sessions db))
     \<and> se_user ` set (sessions db) \<subseteq> keys ur_id (accounts db)
     \<and> distinct (map rf_id (refresh_tokens db)) \<and> distinct (map rf_hash (refresh_tokens db))
     \<and> rf_session ` set (refresh_tokens db) \<subseteq> keys se_id (sessions db)
     \<and> (\<forall>s\<in>keys se_id (sessions db). length (live_tokens db s) = 1)"

definition mail_tokens_ok :: "auth_db \<Rightarrow> bool" where
  "mail_tokens_ok db \<longleftrightarrow> distinct (map tk_id (email_tokens db)) \<and> distinct (map tk_hash (email_tokens db))
     \<and> tk_user ` set (email_tokens db) \<subseteq> keys ur_id (accounts db)"

definition oauth_ok :: "auth_db \<Rightarrow> bool" where
  "oauth_ok db \<longleftrightarrow> distinct (map og_id (oauth_logins db)) \<and> distinct (map og_state (oauth_logins db))"

definition auth_inv :: "auth_db \<Rightarrow> bool" where
  "auth_inv db \<longleftrightarrow> logins_ok db \<and> auth_sessions_ok db \<and> mail_tokens_ok db \<and> oauth_ok db"

text \<open>What is never taken back: a session keeps its user and stays revoked, a token stays spent.\<close>

definition kept :: "('r \<Rightarrow> 'r \<Rightarrow> bool) \<Rightarrow> 'r list \<Rightarrow> 'r list \<Rightarrow> bool" where
  "kept Q t t' \<longleftrightarrow> (\<forall>r\<in>set t. \<exists>r'\<in>set t'. Q r r')"

definition session_later :: "session_row \<Rightarrow> session_row \<Rightarrow> bool" where
  "session_later s s' \<longleftrightarrow> se_id s' = se_id s \<and> se_user s' = se_user s \<and> (se_revoked s \<noteq> None \<longrightarrow> se_revoked s' = se_revoked s)"

definition refresh_later :: "refresh_row \<Rightarrow> refresh_row \<Rightarrow> bool" where
  "refresh_later r r' \<longleftrightarrow> rf_hash r' = rf_hash r \<and> rf_session r' = rf_session r \<and> (rf_consumed r \<noteq> None \<longrightarrow> rf_consumed r' = rf_consumed r)"

definition mail_later :: "token_row \<Rightarrow> token_row \<Rightarrow> bool" where
  "mail_later t t' \<longleftrightarrow> tk_hash t' = tk_hash t \<and> tk_user t' = tk_user t \<and> tk_purpose t' = tk_purpose t
     \<and> (tk_consumed t \<noteq> None \<longrightarrow> tk_consumed t' = tk_consumed t)"

definition later :: "auth_db \<Rightarrow> auth_db \<Rightarrow> bool" where
  "later db db' \<longleftrightarrow> kept session_later (sessions db) (sessions db') \<and> kept refresh_later (refresh_tokens db) (refresh_tokens db')
     \<and> kept mail_later (email_tokens db) (email_tokens db')"

named_theorems row_later \<open>the order of single rows\<close>

declare session_later_def [row_later] refresh_later_def [row_later] mail_later_def [row_later]

lemma kept_refl: "(\<And>r. Q r r) \<Longrightarrow> kept Q t t"
  unfolding kept_def by blast

lemma kept_append: "(\<And>r. Q r r) \<Longrightarrow> kept Q t (t @ u)"
  unfolding kept_def by auto

lemma kept_trans: "kept Q a b \<Longrightarrow> kept Q b c \<Longrightarrow> (\<And>x y z. Q x y \<Longrightarrow> Q y z \<Longrightarrow> Q x z) \<Longrightarrow> kept Q a c"
  unfolding kept_def by blast

lemma kept_update: "(\<And>r. Q r r) \<Longrightarrow> (\<And>r. r \<in> set t \<Longrightarrow> P r \<Longrightarrow> Q r (f r)) \<Longrightarrow> kept Q t (update_where P f t @ u)"
  unfolding kept_def by (auto simp: set_update_where) (metis Int_iff UnCI imageI mem_Collect_eq)

lemmas kept_update' = kept_update [where u = "[]", unfolded append_Nil2]

lemma row_later_refl [simp]: "session_later s s" "refresh_later r r" "mail_later t t"
  by (simp_all add: row_later)

lemma later_refl: "later db db"
  by (simp add: later_def kept_refl)

lemma later_trans: "later a b \<Longrightarrow> later b c \<Longrightarrow> later a c"
  unfolding later_def
  by (intro conjI; elim conjE; rule kept_trans; assumption?; auto simp: row_later)

lemma later_cong: "sessions db' = sessions db \<Longrightarrow> refresh_tokens db' = refresh_tokens db \<Longrightarrow> email_tokens db' = email_tokens db \<Longrightarrow> later db db'"
  by (simp add: later_def kept_refl)

lemma revoke_fields [simp]:
  "se_id (revoke now s) = se_id s" "se_user (revoke now s) = se_user s" "se_access (revoke now s) = se_access s"
  "se_access_expires (revoke now s) = se_access_expires s" "se_expires (revoke now s) = se_expires s"
  "se_revoked (revoke now s) \<noteq> None"
  "se_revoked s \<noteq> None \<Longrightarrow> se_revoked (revoke now s) = se_revoked s"
  by (auto simp: revoke_def split: option.split)

lemmas map_revoke = map_update_where [of se_id "revoke now" for now, OF revoke_fields(1)]
  map_update_where [of se_user "revoke now" for now, OF revoke_fields(2)]
  map_update_where [of se_access "revoke now" for now, OF revoke_fields(3)]

subsection \<open>Statements on sessions\<close>

lemma auth_inv_cong:
  assumes "auth_inv db" and "accounts db' = accounts db" and "identities db' = identities db"
  shows "auth_sessions_ok db' \<Longrightarrow> mail_tokens_ok db' \<Longrightarrow> oauth_ok db' \<Longrightarrow> auth_inv db'"
  using assms by (simp add: auth_inv_def logins_ok_def)

lemma live_tokens_none: "auth_sessions_ok db \<Longrightarrow> s \<notin> keys se_id (sessions db) \<Longrightarrow> live_tokens db s = []"
  by (auto simp: auth_sessions_ok_def live_tokens_def filter_empty_conv)

lemma insertSession_inv:
  assumes inv: "auth_inv db" and run: "insertSession db s = Inr db'"
  shows "auth_inv db' \<and> later db db'"
proof -
  let ?s = "\<lparr>se_id = ns_ID s, se_user = ns_UserID s, se_access = ns_AccessTokenHash s,
          se_access_expires = ns_AccessExpiresAt s, se_expires = ns_RefreshExpiresAt s, se_revoked = None\<rparr>"
  let ?r = "\<lparr>rf_id = ns_RefreshTokenID s, rf_session = ns_ID s,
          rf_hash = ns_RefreshTokenHash s, rf_expires = ns_RefreshExpiresAt s, rf_consumed = None\<rparr>"
  have fresh: "ns_ID s \<notin> keys se_id (sessions db)" "ns_AccessTokenHash s \<notin> keys se_access (sessions db)"
      "ns_UserID s \<in> keys ur_id (accounts db)" "ns_RefreshTokenID s \<notin> keys rf_id (refresh_tokens db)"
      "ns_RefreshTokenHash s \<notin> keys rf_hash (refresh_tokens db)"
    and db': "db' = db\<lparr>sessions := sessions db @ [?s], refresh_tokens := refresh_tokens db @ [?r]\<rparr>"
    using run by (auto simp: insertSession_def split: if_splits)
  have old: "auth_sessions_ok db" using inv by (simp add: auth_inv_def)
  have live: "live_tokens db' i = live_tokens db i @ (if i = ns_ID s then [?r] else [])" for i
    by (simp add: db' live_tokens_def)
  have "live_tokens db (ns_ID s) = []"
    by (rule live_tokens_none [OF old fresh(1)])
  then have "length (live_tokens db' x) = 1" if "x \<in> keys se_id (sessions db')" for x
    using that old fresh(1) live by (auto simp: db' auth_sessions_ok_def)
  then have ok: "auth_sessions_ok db'"
    using old fresh unfolding auth_sessions_ok_def by (auto simp: db')
  have "auth_inv db'"
    by (rule auth_inv_cong [OF inv _ _ ok]) (use inv in \<open>auto simp: db' auth_inv_def mail_tokens_ok_def oauth_ok_def\<close>)
  moreover have "later db db'"
    by (auto simp: later_def db' intro!: kept_append kept_refl)
  ultimately show ?thesis by blast
qed

lemma CreateSession_inv: "auth_inv db \<Longrightarrow> CreateSession db s = (r, db') \<Longrightarrow> auth_inv db' \<and> later db db'"
  using insertSession_inv later_refl by (auto simp: CreateSession_def split: sum.splits)

text \<open>Rewriting sessions without touching their keys.\<close>

lemma sessions_update_ok:
  assumes "auth_sessions_ok db" and "accounts db' = accounts db" and "refresh_tokens db' = refresh_tokens db"
    and "map se_id (sessions db') = map se_id (sessions db)" and "map se_access (sessions db') = map se_access (sessions db)"
    and "map se_user (sessions db') = map se_user (sessions db)"
  shows "auth_sessions_ok db'"
proof -
  have "keys se_id (sessions db') = keys se_id (sessions db)" "keys se_user (sessions db') = keys se_user (sessions db)"
    using assms(4,6) by (metis set_map)+
  moreover have "live_tokens db' = live_tokens db"
    using assms(3) by (simp add: live_tokens_def fun_eq_iff)
  ultimately show ?thesis
    using assms unfolding auth_sessions_ok_def by simp
qed

lemma revoke_where_inv:
  assumes "auth_inv db"
  shows "auth_inv (db\<lparr>sessions := update_where P (revoke now) (sessions db)\<rparr>) \<and> later db (db\<lparr>sessions := update_where P (revoke now) (sessions db)\<rparr>)"
proof -
  let ?db = "db\<lparr>sessions := update_where P (revoke now) (sessions db)\<rparr>"
  have ok: "auth_sessions_ok ?db"
    by (rule sessions_update_ok [of db]) (use assms in \<open>simp_all add: auth_inv_def map_revoke\<close>)
  have "auth_inv ?db"
    by (rule auth_inv_cong [OF assms _ _ ok]) (use assms in \<open>auto simp: auth_inv_def mail_tokens_ok_def oauth_ok_def\<close>)
  moreover have "later db ?db"
    unfolding later_def by (auto intro!: kept_update' kept_refl simp: row_later)
  ultimately show ?thesis by blast
qed

lemma RevokeSession_inv: "auth_inv db \<Longrightarrow> RevokeSession db a r now = (res, db') \<Longrightarrow> auth_inv db' \<and> later db db'"
  using revoke_where_inv later_refl by (auto simp: RevokeSession_def Let_def split: if_splits)

text \<open>Giving one row a key that no other row has.\<close>

lemma distinct_map_update_one:
  assumes "distinct (map key t)" and "distinct (map ident t)" and "\<And>r. ident r = i \<Longrightarrow> key (f r) = k"
    and "\<And>r. r \<in> set t \<Longrightarrow> ident r \<noteq> i \<Longrightarrow> key r \<noteq> k"
  shows "distinct (map key (update_where (\<lambda>r. ident r = i) f t))"
  using assms(1,2,4)
proof (induction t)
  case (Cons r t)
  have "key r' \<noteq> key (if ident r = i then f r else r)" if "r' \<in> set t" for r'
  proof (cases "ident r = i")
    case True
    with Cons.prems(2) that have "ident r' \<noteq> i" by (auto simp: image_iff)
    then show ?thesis using Cons.prems(3) [of r'] assms(3) [OF True] True that by simp
  next
    case False
    then show ?thesis using Cons.prems(1) that by (auto simp: image_iff)
  qed
  moreover have "k \<noteq> key r" if "r' \<in> set t" "ident r' = i" for r'
    using Cons.prems that by (auto simp: image_iff)
  ultimately show ?case
    using Cons assms(3) by (auto simp: update_where_def image_iff split: if_splits)
qed simp

lemma live_token_one:
  assumes "auth_sessions_ok db" and "rt \<in> set (refresh_tokens db)" and "rf_consumed rt = None"
  shows "live_tokens db (rf_session rt) = [rt]"
proof -
  have "length (live_tokens db (rf_session rt)) = 1"
    using assms by (auto simp: auth_sessions_ok_def)
  moreover have "rt \<in> set (live_tokens db (rf_session rt))"
    using assms(2,3) by (simp add: live_tokens_def)
  ultimately show ?thesis
    by (cases "live_tokens db (rf_session rt)") auto
qed

lemma RotateSession_Inr:
  assumes "RotateSession db h nxt = (Inr i, db')"
  obtains rt s where "find_by rf_hash (refresh_tokens db) h = Some rt" "find_by se_id (sessions db) (rf_session rt) = Some s"
    "i = se_id s" "rf_consumed rt = None" "se_revoked s = None" "rot_RotatedAt nxt < rf_expires rt" "rot_RotatedAt nxt < se_expires s"
    "\<And>x. x \<in> set (sessions db) \<Longrightarrow> se_id x \<noteq> se_id s \<Longrightarrow> se_access x \<noteq> rot_AccessTokenHash nxt"
    "rot_RefreshTokenID nxt \<notin> keys rf_id (refresh_tokens db)" "rot_RefreshTokenHash nxt \<notin> keys rf_hash (refresh_tokens db)"
    "db' = db\<lparr>sessions := update_where (\<lambda>x. se_id x = se_id s)
              (\<lambda>x. x\<lparr>se_access := rot_AccessTokenHash nxt, se_access_expires := rot_AccessExpiresAt nxt,
                     se_expires := rot_RefreshExpiresAt nxt\<rparr>) (sessions db),
            refresh_tokens := update_where (\<lambda>x. rf_hash x = h)
                (\<lambda>x. x\<lparr>rf_consumed := Some (rot_RotatedAt nxt)\<rparr>) (refresh_tokens db)
              @ [\<lparr>rf_id = rot_RefreshTokenID nxt, rf_session = se_id s, rf_hash = rot_RefreshTokenHash nxt,
                  rf_expires = rot_RefreshExpiresAt nxt, rf_consumed = None\<rparr>]\<rparr>"
  using assms unfolding RotateSession_def by (auto simp: returns list_ex_iff split: option.splits if_splits)

lemma RotateSession_Inr_inv:
  assumes inv: "auth_inv db" and run: "RotateSession db h nxt = (Inr i, db')"
  shows "auth_inv db' \<and> later db db'"
  using run
proof (rule RotateSession_Inr)
  fix rt :: refresh_row and s :: session_row
  let ?f = "\<lambda>x::session_row. x\<lparr>se_access := rot_AccessTokenHash nxt, se_access_expires := rot_AccessExpiresAt nxt, se_expires := rot_RefreshExpiresAt nxt\<rparr>"
  let ?g = "\<lambda>x::refresh_row. x\<lparr>rf_consumed := Some (rot_RotatedAt nxt)\<rparr>"
  let ?r = "\<lparr>rf_id = rot_RefreshTokenID nxt, rf_session = se_id s, rf_hash = rot_RefreshTokenHash nxt,
              rf_expires = rot_RefreshExpiresAt nxt, rf_consumed = None\<rparr>"
  assume rt: "find_by rf_hash (refresh_tokens db) h = Some rt" and s: "find_by se_id (sessions db) (rf_session rt) = Some s"
    and live: "rf_consumed rt = None"
    and access: "\<And>x. x \<in> set (sessions db) \<Longrightarrow> se_id x \<noteq> se_id s \<Longrightarrow> se_access x \<noteq> rot_AccessTokenHash nxt"
    and fresh: "rot_RefreshTokenID nxt \<notin> keys rf_id (refresh_tokens db)" "rot_RefreshTokenHash nxt \<notin> keys rf_hash (refresh_tokens db)"
    and db': "db' = db\<lparr>sessions := update_where (\<lambda>x. se_id x = se_id s) ?f (sessions db),
            refresh_tokens := update_where (\<lambda>x. rf_hash x = h) ?g (refresh_tokens db) @ [?r]\<rparr>"
  have old: "auth_sessions_ok db" using inv by (simp add: auth_inv_def)
  have rt': "rt \<in> set (refresh_tokens db)" "rf_hash rt = h" and s': "s \<in> set (sessions db)" "se_id s = rf_session rt"
    using find_by_SomeD [OF rt] find_by_SomeD [OF s] by auto
  have one: "live_tokens db (rf_session rt) = [rt]"
    by (rule live_token_one [OF old rt'(1) live])
  have hash: "rf_hash x = h \<Longrightarrow> x \<in> set (refresh_tokens db) \<Longrightarrow> x = rt" for x
    using distinct_key_eq [of rf_hash "refresh_tokens db" x rt] old rt' by (simp add: auth_sessions_ok_def)
  have spent: "filter (\<lambda>r. rf_session r = j \<and> rf_consumed r = None) (update_where (\<lambda>x. rf_hash x = h) ?g (refresh_tokens db))
      = (if j = rf_session rt then [] else live_tokens db j)" for j
  proof (cases "j = rf_session rt")
    case True
    have "\<not> (rf_session r = j \<and> rf_consumed r = None)" if "r \<in> set (refresh_tokens db)" "rf_hash r \<noteq> h" for r
    proof
      assume "rf_session r = j \<and> rf_consumed r = None"
      then have "r \<in> set (live_tokens db (rf_session rt))" using that True by (simp add: live_tokens_def)
      then show False using one that rt' by simp
    qed
    then show ?thesis using True by (auto simp: filter_empty_conv set_update_where)
  next
    case False
    then show ?thesis
      using hash unfolding live_tokens_def by (auto intro!: filter_update_where_other)
  qed
  have live': "live_tokens db' j = (if j = rf_session rt then [?r] else live_tokens db j)" for j
    using spent [of j] s'(2) by (simp add: db' live_tokens_def)
  have keys': "map se_id (sessions db') = map se_id (sessions db)" "map se_user (sessions db') = map se_user (sessions db)"
      "map rf_id (refresh_tokens db') = map rf_id (refresh_tokens db) @ [rf_id ?r]"
      "map rf_hash (refresh_tokens db') = map rf_hash (refresh_tokens db) @ [rf_hash ?r]"
      "map rf_session (refresh_tokens db') = map rf_session (refresh_tokens db) @ [rf_session ?r]"
    by (simp_all add: db' update_where_def)
  have sets': "keys se_id (sessions db') = keys se_id (sessions db)" "keys se_user (sessions db') = keys se_user (sessions db)"
      "keys rf_session (refresh_tokens db') = insert (se_id s) (keys rf_session (refresh_tokens db))"
    using arg_cong [OF keys'(1), of set] arg_cong [OF keys'(2), of set] arg_cong [OF keys'(5), of set] by simp_all
  have acc: "accounts db' = accounts db" by (simp add: db')
  have "distinct (map se_access (sessions db'))"
    using old access unfolding db' auth_sessions_ok_def
    by (simp, intro distinct_map_update_one [where k = "rot_AccessTokenHash nxt"]) auto
  then have ok: "auth_sessions_ok db'"
    using old fresh s' acc imageI [OF s'(1), of se_id] unfolding auth_sessions_ok_def keys' sets' by (auto simp: live')
  have "auth_inv db'"
    by (rule auth_inv_cong [OF inv _ _ ok]) (use inv in \<open>auto simp: db' auth_inv_def mail_tokens_ok_def oauth_ok_def\<close>)
  moreover have "kept refresh_later (refresh_tokens db) (refresh_tokens db')"
    unfolding db' by simp (rule kept_update, use hash live in \<open>auto simp: row_later\<close>)
  ultimately show ?thesis
    unfolding later_def by (auto simp: db' row_later intro!: kept_update' kept_refl)
qed

lemma RotateSession_inv:
  assumes "auth_inv db" and run: "RotateSession db h nxt = (r, db')"
  shows "auth_inv db' \<and> later db db'"
proof (cases r)
  case (Inl err)
  with run have "db' = db \<or> (\<exists>i. db' = db\<lparr>sessions := update_where (\<lambda>x. se_id x = i) (revoke (rot_RotatedAt nxt)) (sessions db)\<rparr>)"
    unfolding RotateSession_def by (auto split: option.splits if_splits)
  then show ?thesis using revoke_where_inv [OF assms(1)] assms(1) later_refl by blast
next
  case (Inr i)
  then show ?thesis using RotateSession_Inr_inv assms by blast
qed

subsection \<open>Statements on accounts and login methods\<close>

text \<open>A new account comes with its first login method.\<close>

lemma new_account_inv:
  assumes inv: "auth_inv db" and "ur_id u \<notin> keys ur_id (accounts db)" and "ur_normalized u \<notin> keys ur_normalized (accounts db)"
    and "identity_row_ok i" and "id_id i \<notin> keys id_id (identities db)" and "identity_key i \<notin> keys identity_key (identities db)"
    and "id_user i = ur_id u"
  shows "auth_inv (db\<lparr>accounts := accounts db @ [u], identities := identities db @ [i]\<rparr>)"
proof -
  have "id_user i \<notin> keys id_user (identities db)"
    using assms by (simp add: auth_inv_def logins_ok_def)
  then have "(id_user i, id_provider i) \<notin> keys (\<lambda>i. (id_user i, id_provider i)) (identities db)"
    by auto
  then have "logins_ok (db\<lparr>accounts := accounts db @ [u], identities := identities db @ [i]\<rparr>)"
    using assms unfolding auth_inv_def logins_ok_def by simp
  moreover have "auth_sessions_ok (db\<lparr>accounts := accounts db @ [u], identities := identities db @ [i]\<rparr>)"
    using inv by (auto simp: auth_inv_def auth_sessions_ok_def live_tokens_def)
  ultimately show ?thesis
    using inv by (auto simp: auth_inv_def mail_tokens_ok_def oauth_ok_def)
qed

lemma new_account_session_inv:
  assumes "auth_inv db" and "ur_id u \<notin> keys ur_id (accounts db)" and "ur_normalized u \<notin> keys ur_normalized (accounts db)"
    and "identity_row_ok i" and "id_id i \<notin> keys id_id (identities db)" and "identity_key i \<notin> keys identity_key (identities db)"
    and "id_user i = ur_id u"
    and run: "insertSession (db\<lparr>accounts := accounts db @ [u], identities := identities db @ [i]\<rparr>) s = Inr db'"
  shows "auth_inv db' \<and> later db db'"
  using insertSession_inv [OF new_account_inv [OF assms(1-7)] run] by (simp add: later_def)

definition new_account_run :: "auth_db \<Rightarrow> user_row \<Rightarrow> identity_row \<Rightarrow> NewSession \<Rightarrow> auth_db \<Rightarrow> bool" where
  "new_account_run db u i s db' \<longleftrightarrow> ur_id u \<notin> keys ur_id (accounts db) \<and> ur_normalized u \<notin> keys ur_normalized (accounts db)
      \<and> identity_row_ok i \<and> id_id i \<notin> keys id_id (identities db) \<and> identity_key i \<notin> keys identity_key (identities db) \<and> id_user i = ur_id u
      \<and> insertSession (db\<lparr>accounts := accounts db @ [u], identities := identities db @ [i]\<rparr>) s = Inr db'"

lemma new_account_run_inv: "auth_inv db \<Longrightarrow> new_account_run db u i s db' \<Longrightarrow> auth_inv db' \<and> later db db'"
  unfolding new_account_run_def using new_account_session_inv by blast

lemma CreatePasswordUser_cases:
  assumes "CreatePasswordUser db input = (r, db')"
  shows "(\<exists>err. r = Inl err) \<and> db' = db \<or> r = Inr () \<and>
     new_account_run db \<lparr>ur_id = npu_UserID input, ur_email = npu_Email input, ur_normalized = npu_NormalizedEmail input,
              ur_verified = False, ur_display_name = npu_DisplayName input, ur_avatar = None,
              ur_created = ns_CreatedAt (npu_Session input)\<rparr>
       \<lparr>id_id = npu_IdentityID input, id_user = npu_UserID input, id_provider = ProviderPassword,
              id_subject = npu_NormalizedEmail input, id_hash = Some (npu_PasswordHash input)\<rparr> (npu_Session input) db'"
  using assms unfolding CreatePasswordUser_def Let_def new_account_run_def
  by (auto split: if_split_asm sum.split_asm)

lemma CreatePasswordUser_inv:
  assumes inv: "auth_inv db" and run: "CreatePasswordUser db input = (r, db')"
  shows "auth_inv db' \<and> later db db'"
  using CreatePasswordUser_cases [OF run] new_account_run_inv [OF inv] inv later_refl by blast

lemma SignInGoogle_cases:
  assumes "SignInGoogle ToLower db input = (r, db')"
  shows "(\<exists>err. r = Inl err) \<and> db' = db
    \<or> r = Inr () \<and> (\<exists>i. find_by identity_key (identities db) (ProviderGoogle, gi_Subject (ngs_Identity input)) = Some i
         \<and> insertSession db ((ngs_Session input)\<lparr>ns_UserID := id_user i\<rparr>) = Inr db')
    \<or> r = Inr () \<and> (ProviderGoogle, gi_Subject (ngs_Identity input)) \<notin> keys identity_key (identities db) \<and>
     new_account_run db \<lparr>ur_id = ngs_UserID input, ur_email = gi_Email (ngs_Identity input),
              ur_normalized = normalizeEmail ToLower (gi_Email (ngs_Identity input)), ur_verified = True,
              ur_display_name = ngs_DisplayName input,
              ur_avatar = (if gi_Picture (ngs_Identity input) \<noteq> [] then Some (gi_Picture (ngs_Identity input)) else None),
              ur_created = ns_CreatedAt (ngs_Session input)\<rparr>
       \<lparr>id_id = ngs_IdentityID input, id_user = ngs_UserID input, id_provider = ProviderGoogle,
              id_subject = gi_Subject (ngs_Identity input), id_hash = None\<rparr> (ngs_Session input) db'"
proof (cases "find_by identity_key (identities db) (ProviderGoogle, gi_Subject (ngs_Identity input))")
  case None
  define avatar where "avatar = (if gi_Picture (ngs_Identity input) \<noteq> [] then Some (gi_Picture (ngs_Identity input)) else None)"
  have "(ProviderGoogle, gi_Subject (ngs_Identity input)) \<notin> keys identity_key (identities db)"
    using None by (simp add: find_by_None_iff)
  with None show ?thesis
    using assms unfolding SignInGoogle_def Let_def new_account_run_def avatar_def [symmetric]
    by (auto simp only: option.case fst_conv snd_conv user_row.simps identity_row.simps simp_thms prod.inject split: if_split_asm sum.split_asm)
next
  case (Some i)
  then show ?thesis
    using assms by (auto simp: SignInGoogle_def split: sum.split_asm split del: if_split)
qed

lemma SignInGoogle_inv:
  assumes inv: "auth_inv db" and run: "SignInGoogle ToLower db input = (r, db')"
  shows "auth_inv db' \<and> later db db'"
  using SignInGoogle_cases [OF run] new_account_run_inv [OF inv] insertSession_inv [OF inv] inv later_refl by blast

lemma verify_user_inv: "auth_inv db \<Longrightarrow> auth_inv (verify_user u db) \<and> later db (verify_user u db)"
proof -
  assume inv: "auth_inv db"
  have k: "map ur_id (accounts (verify_user u db)) = map ur_id (accounts db)"
      "map ur_normalized (accounts (verify_user u db)) = map ur_normalized (accounts db)"
    by (simp_all add: verify_user_def update_where_def)
  then have "keys ur_id (accounts (verify_user u db)) = keys ur_id (accounts db)"
    by (metis set_map)
  then show ?thesis
    using inv k by (simp add: auth_inv_def logins_ok_def auth_sessions_ok_def mail_tokens_ok_def oauth_ok_def live_tokens_def verify_user_def later_def kept_refl)
qed


text \<open>Only the login methods changed, and the accounts that have one are the same.\<close>

lemma identities_inv:
  assumes inv: "auth_inv db" and "logins_ok (db\<lparr>identities := is\<rparr>)"
  shows "auth_inv (db\<lparr>identities := is\<rparr>) \<and> later db (db\<lparr>identities := is\<rparr>)"
  using assms by (simp add: auth_inv_def auth_sessions_ok_def mail_tokens_ok_def oauth_ok_def live_tokens_def later_def kept_refl)

lemma find_by_keyD: "find_by key t k = Some r \<Longrightarrow> k \<in> keys key t"
  using find_by_SomeD by fastforce

lemma LinkGoogle_inv:
  assumes inv: "auth_inv db" and run: "Store_LinkGoogle ToLower db input = (r, db')"
  shows "auth_inv db' \<and> later db db'"
proof -
  define i where "i = \<lparr>id_id = lgi_IdentityID input, id_user = lgi_UserID input, id_provider = ProviderGoogle,
                        id_subject = gi_Subject (lgi_Identity input), id_hash = None\<rparr>"
  have "db' = db \<or> lgi_UserID input \<in> keys ur_id (accounts db)
     \<and> \<not> list_ex (\<lambda>i. id_provider i = ProviderGoogle \<and> (id_subject i = gi_Subject (lgi_Identity input) \<or> id_user i = lgi_UserID input)) (identities db)
     \<and> identity_row_ok i \<and> id_id i \<notin> keys id_id (identities db)
     \<and> (\<exists>u. db' = db\<lparr>identities := identities db @ [i]\<rparr> \<or> db' = verify_user u (db\<lparr>identities := identities db @ [i]\<rparr>))"
    using run unfolding Store_LinkGoogle_def Let_def i_def [symmetric]
    by (auto dest: find_by_keyD split: option.split_asm if_split_asm)
  then show ?thesis
  proof
    assume new: "lgi_UserID input \<in> keys ur_id (accounts db)
     \<and> \<not> list_ex (\<lambda>i. id_provider i = ProviderGoogle \<and> (id_subject i = gi_Subject (lgi_Identity input) \<or> id_user i = lgi_UserID input)) (identities db)
     \<and> identity_row_ok i \<and> id_id i \<notin> keys id_id (identities db)
     \<and> (\<exists>u. db' = db\<lparr>identities := identities db @ [i]\<rparr> \<or> db' = verify_user u (db\<lparr>identities := identities db @ [i]\<rparr>))"
    then have "identity_key i \<notin> keys identity_key (identities db)"
        and "(id_user i, id_provider i) \<notin> keys (\<lambda>i. (id_user i, id_provider i)) (identities db)"
      by (auto simp: list_ex_iff i_def)
    with new inv have "logins_ok (db\<lparr>identities := identities db @ [i]\<rparr>)"
      by (auto simp: auth_inv_def logins_ok_def i_def)
    from identities_inv [OF inv this] new show ?thesis
      using verify_user_inv later_trans by blast
  qed (use inv later_refl in simp)
qed

lemma UnlinkAuthenticationMethod_inv:
  assumes inv: "auth_inv db" and run: "Store_UnlinkAuthenticationMethod db u provider = (r, db')"
  shows "auth_inv db' \<and> later db db'"
proof (cases "db' = db")
  case False
  let ?mine = "filter (\<lambda>i. id_user i = u) (identities db)"
  let ?is = "delete_where (\<lambda>i. id_user i = u \<and> id_provider i = provider) (identities db)"
  have two: "1 < length ?mine" and db': "db' = db\<lparr>identities := ?is\<rparr>"
    using run False by (auto simp: Store_UnlinkAuthenticationMethod_def Let_def split: if_splits)
  have old: "logins_ok db" using inv by (simp add: auth_inv_def)
  then have "distinct (map (\<lambda>i. (id_user i, id_provider i)) ?mine)"
    by (simp add: logins_ok_def distinct_map_filter)
  moreover from two obtain a b xs where mine: "?mine = a # b # xs"
    by (cases ?mine; cases "tl ?mine") auto
  then have "a \<in> set ?mine" "b \<in> set ?mine" by simp_all
  moreover from this have "id_user a = u" "id_user b = u" by simp_all
  ultimately have "id_provider a \<noteq> id_provider b"
    unfolding mine by simp
  then obtain x where x: "x \<in> set ?mine" "id_provider x \<noteq> provider"
    using \<open>a \<in> set ?mine\<close> \<open>b \<in> set ?mine\<close> by metis
  have "id_user ` set ?is = id_user ` set (identities db)"
    using x by (auto simp: set_delete_where image_iff)
  then have "logins_ok (db\<lparr>identities := ?is\<rparr>)"
    using old by (simp add: logins_ok_def distinct_map_delete_where set_delete_where)
  from identities_inv [OF inv this] db' show ?thesis by simp
qed (use inv later_refl in simp)

subsection \<open>Statements on mail tokens and login attempts\<close>

lemma email_tokens_inv:
  assumes inv: "auth_inv db" and "mail_tokens_ok (db\<lparr>email_tokens := ts\<rparr>)" and "kept mail_later (email_tokens db) ts"
  shows "auth_inv (db\<lparr>email_tokens := ts\<rparr>) \<and> later db (db\<lparr>email_tokens := ts\<rparr>)"
  using assms by (simp add: auth_inv_def logins_ok_def auth_sessions_ok_def oauth_ok_def live_tokens_def later_def kept_refl)

lemma map_consume:
  "map tk_id (update_where P (\<lambda>r. r\<lparr>tk_consumed := c\<rparr>) t) = map tk_id t"
  "map tk_hash (update_where P (\<lambda>r. r\<lparr>tk_consumed := c\<rparr>) t) = map tk_hash t"
  "map tk_user (update_where P (\<lambda>r. r\<lparr>tk_consumed := c\<rparr>) t) = map tk_user t"
  by (simp_all add: update_where_def)

lemmas keys_consume = map_consume [THEN arg_cong [where f = set], unfolded set_map]

lemma consume_tokens_inv:
  assumes inv: "auth_inv db" and "\<And>r. P r \<Longrightarrow> tk_consumed r = None"
  shows "auth_inv (db\<lparr>email_tokens := update_where P (\<lambda>r. r\<lparr>tk_consumed := c\<rparr>) (email_tokens db)\<rparr>)
    \<and> later db (db\<lparr>email_tokens := update_where P (\<lambda>r. r\<lparr>tk_consumed := c\<rparr>) (email_tokens db)\<rparr>)"
  by (rule email_tokens_inv [OF inv])
    (use assms in \<open>auto simp: auth_inv_def mail_tokens_ok_def map_consume keys_consume row_later intro!: kept_update'\<close>)

lemma CreateEmailToken_inv:
  assumes inv: "auth_inv db" and run: "CreateEmailToken db t cooldown = (r, db')"
  shows "auth_inv db' \<and> later db db'"
proof (cases "db' = db")
  case False
  let ?P = "\<lambda>r. tk_user r = et_UserID t \<and> tk_purpose r = et_Purpose t \<and> tk_consumed r = None"
  let ?ts = "update_where ?P (\<lambda>r. r\<lparr>tk_consumed := Some (et_CreatedAt t)\<rparr>) (email_tokens db)"
  let ?t = "\<lparr>tk_id = et_ID t, tk_user = et_UserID t, tk_purpose = et_Purpose t, tk_email = et_Email t, tk_hash = et_TokenHash t,
            tk_created = et_CreatedAt t, tk_expires = et_ExpiresAt t, tk_consumed = None\<rparr>"
  have new: "et_ID t \<notin> keys tk_id (email_tokens db)" "et_TokenHash t \<notin> keys tk_hash (email_tokens db)" "et_UserID t \<in> keys ur_id (accounts db)"
    and db': "db' = db\<lparr>email_tokens := ?ts @ [?t]\<rparr>"
    using run False unfolding CreateEmailToken_def by (auto split: if_split_asm)
  have "mail_tokens_ok (db\<lparr>email_tokens := ?ts @ [?t]\<rparr>)"
    using new inv by (simp add: auth_inv_def mail_tokens_ok_def map_consume keys_consume)
  moreover have "kept mail_later (email_tokens db) (?ts @ [?t])"
    by (rule kept_update) (simp_all add: row_later)
  ultimately show ?thesis
    using email_tokens_inv [OF inv] db' by simp
qed (use inv later_refl in simp)

lemma consumeEmailToken_cases:
  assumes "consumeEmailToken db h purpose now = Some (t, db1)"
  shows "t \<in> set (email_tokens db) \<and> tk_hash t = h \<and> tk_purpose t = purpose \<and> tk_consumed t = None \<and> tk_expires t > now
    \<and> db1 = db\<lparr>email_tokens := update_where (\<lambda>r. tk_hash r = h \<and> tk_purpose r = purpose \<and> tk_consumed r = None \<and> tk_expires r > now)
              (\<lambda>r. r\<lparr>tk_consumed := Some now\<rparr>) (email_tokens db)\<rparr>"
  using assms unfolding consumeEmailToken_def Let_def
  by (auto split: list.splits dest!: filter_eq_ConsD)

lemma consumeEmailToken_inv: "auth_inv db \<Longrightarrow> consumeEmailToken db h purpose now = Some (t, db1) \<Longrightarrow> auth_inv db1 \<and> later db db1"
  by (drule consumeEmailToken_cases, elim conjE, hypsubst, rule consume_tokens_inv) simp_all

lemma VerifyEmail_inv:
  assumes inv: "auth_inv db" and run: "Store_VerifyEmail db h now = (r, db')"
  shows "auth_inv db' \<and> later db db'"
proof (cases "consumeEmailToken db h PurposeVerifyEmail now")
  case (Some p)
  then obtain t db1 where p: "consumeEmailToken db h PurposeVerifyEmail now = Some (t, db1)" by (cases p) simp
  then have "auth_inv db1 \<and> later db db1" using consumeEmailToken_inv inv by blast
  moreover have "db' = db1 \<or> db' = verify_user (tk_user t) db1"
    using run p by (simp add: Store_VerifyEmail_def split: if_split_asm)
  ultimately show ?thesis using verify_user_inv later_trans by blast
qed (use assms later_refl in \<open>simp add: Store_VerifyEmail_def\<close>)

lemma ResetPassword_cases:
  assumes "Store_ResetPassword db h new_hash now = (r, db')"
  shows "r \<noteq> Inr () \<and> db' = db \<or>
    (\<exists>t db1. consumeEmailToken db h PurposeResetPassword now = Some (t, db1) \<and>
      (r = Inl ErrInvalidToken \<and> db' = db1
       \<or> r = Inr () \<and> pg_text new_hash
         \<and> (\<exists>i\<in>set (identities db1). id_user i = tk_user t \<and> id_provider i = ProviderPassword \<and> id_subject i = tk_email t)
         \<and> db' = verify_user (tk_user t) (db1\<lparr>
              identities := update_where (\<lambda>i. id_user i = tk_user t \<and> id_provider i = ProviderPassword \<and> id_subject i = tk_email t)
                (\<lambda>i. i\<lparr>id_hash := Some new_hash\<rparr>) (identities db1),
              sessions := update_where (\<lambda>s. se_user s = tk_user t) (revoke now) (sessions db1),
              email_tokens := update_where (\<lambda>r. tk_user r = tk_user t \<and> tk_purpose r = PurposeResetPassword \<and> tk_consumed r = None)
                (\<lambda>r. r\<lparr>tk_consumed := Some now\<rparr>) (email_tokens db1)\<rparr>)))"
  using assms unfolding Store_ResetPassword_def Let_def
  by (auto simp: filter_empty_conv split: option.split_asm if_split_asm)

lemma set_hash_inv:
  assumes inv: "auth_inv db" and "pg_text new_hash" and "\<And>i. P i \<Longrightarrow> id_provider i = ProviderPassword"
  shows "auth_inv (db\<lparr>identities := update_where P (\<lambda>i. i\<lparr>id_hash := Some new_hash\<rparr>) (identities db)\<rparr>)
    \<and> later db (db\<lparr>identities := update_where P (\<lambda>i. i\<lparr>id_hash := Some new_hash\<rparr>) (identities db)\<rparr>)"
proof (rule identities_inv [OF inv])
  let ?is = "update_where P (\<lambda>i. i\<lparr>id_hash := Some new_hash\<rparr>) (identities db)"
  have m: "map id_id ?is = map id_id (identities db)" "map identity_key ?is = map identity_key (identities db)"
      "map (\<lambda>i. (id_user i, id_provider i)) ?is = map (\<lambda>i. (id_user i, id_provider i)) (identities db)"
      "map id_user ?is = map id_user (identities db)"
    by (simp_all add: update_where_def)
  have "id_user ` set ?is = id_user ` set (identities db)"
    using arg_cong [OF m(4), of set] by simp
  moreover have "identity_row_ok i" if "i \<in> set ?is" for i
    using that inv assms(2,3) by (auto simp: set_update_where auth_inv_def logins_ok_def identity_row_ok_def pg_text_opt_def)
  ultimately show "logins_ok (db\<lparr>identities := ?is\<rparr>)"
    using inv m by (simp add: auth_inv_def logins_ok_def)
qed

lemma ResetPassword_inv:
  assumes inv: "auth_inv db" and run: "Store_ResetPassword db h new_hash now = (r, db')"
  shows "auth_inv db' \<and> later db db'"
  using ResetPassword_cases [OF run]
proof (elim disjE exE conjE)
  fix t :: token_row and db1 :: auth_db
  assume "consumeEmailToken db h PurposeResetPassword now = Some (t, db1)" "db' = db1"
  then show ?thesis using consumeEmailToken_inv inv by blast
next
  fix t :: token_row and db1 :: auth_db
  let ?P = "\<lambda>i. id_user i = tk_user t \<and> id_provider i = ProviderPassword \<and> id_subject i = tk_email t"
  let ?a = "db1\<lparr>identities := update_where ?P (\<lambda>i. i\<lparr>id_hash := Some new_hash\<rparr>) (identities db1)\<rparr>"
  let ?b = "?a\<lparr>sessions := update_where (\<lambda>s. se_user s = tk_user t) (revoke now) (sessions ?a)\<rparr>"
  let ?c = "?b\<lparr>email_tokens := update_where (\<lambda>r. tk_user r = tk_user t \<and> tk_purpose r = PurposeResetPassword \<and> tk_consumed r = None)
                (\<lambda>r. r\<lparr>tk_consumed := Some now\<rparr>) (email_tokens ?b)\<rparr>"
  assume "consumeEmailToken db h PurposeResetPassword now = Some (t, db1)" and hash: "pg_text new_hash"
    and db': "db' = verify_user (tk_user t) (db1\<lparr>
              identities := update_where ?P (\<lambda>i. i\<lparr>id_hash := Some new_hash\<rparr>) (identities db1),
              sessions := update_where (\<lambda>s. se_user s = tk_user t) (revoke now) (sessions db1),
              email_tokens := update_where (\<lambda>r. tk_user r = tk_user t \<and> tk_purpose r = PurposeResetPassword \<and> tk_consumed r = None)
                (\<lambda>r. r\<lparr>tk_consumed := Some now\<rparr>) (email_tokens db1)\<rparr>)"
  then have 1: "auth_inv db1" "later db db1" using consumeEmailToken_inv inv by blast+
  have 2: "auth_inv ?a" "later db1 ?a" using set_hash_inv [OF 1(1) hash, of ?P] by simp_all
  have 3: "auth_inv ?b" "later ?a ?b" using revoke_where_inv [OF 2(1)] by blast+
  have 4: "auth_inv ?c" "later ?b ?c" by (rule consume_tokens_inv [OF 3(1), THEN conjunct1], simp) (rule consume_tokens_inv [OF 3(1), THEN conjunct2], simp)
  have "db' = verify_user (tk_user t) ?c" using db' by simp
  then show ?thesis
    using verify_user_inv [OF 4(1)] later_trans [OF 1(2) later_trans [OF 2(2) later_trans [OF 3(2) 4(2)]]] later_trans by blast
qed (use inv later_refl in simp)

text \<open>The statements on login attempts leave the other tables alone.\<close>

lemma oauth_inv:
  "auth_inv db \<Longrightarrow> oauth_ok (db\<lparr>oauth_logins := os\<rparr>) \<Longrightarrow> auth_inv (db\<lparr>oauth_logins := os\<rparr>) \<and> later db (db\<lparr>oauth_logins := os\<rparr>)"
  by (simp add: auth_inv_def logins_ok_def auth_sessions_ok_def mail_tokens_ok_def live_tokens_def later_def kept_refl)

lemma oauth_update_inv:
  assumes inv: "auth_inv db" and "\<And>o1. og_id (f o1) = og_id o1" "\<And>o1. og_state (f o1) = og_state o1"
  shows "auth_inv (db\<lparr>oauth_logins := update_where P f (oauth_logins db)\<rparr>) \<and> later db (db\<lparr>oauth_logins := update_where P f (oauth_logins db)\<rparr>)"
  by (rule oauth_inv [OF inv])
    (use inv map_update_where [of og_id f, OF assms(2)] map_update_where [of og_state f, OF assms(3)] in \<open>simp add: auth_inv_def oauth_ok_def\<close>)

lemma oauth_statements_inv:
  assumes inv: "auth_inv db"
  shows "CreateOAuthLogin db l = (r1, db') \<Longrightarrow> auth_inv db' \<and> later db db'"
    and "ClaimOAuthState db h now = (r2, db') \<Longrightarrow> auth_inv db' \<and> later db db'"
    and "StoreExchangeGrant db i h now ident = (r3, db') \<Longrightarrow> auth_inv db' \<and> later db db'"
    and "ConsumeExchangeCode db h now = (r4, db') \<Longrightarrow> auth_inv db' \<and> later db db'"
proof -
  let ?os = "delete_where (\<lambda>o1. og_expires o1 < ol_CreatedAt l - time_Hour) (oauth_logins db)"
  have "oauth_ok (db\<lparr>oauth_logins := ?os\<rparr>)"
    using inv by (simp add: auth_inv_def oauth_ok_def distinct_map_delete_where)
  then show "CreateOAuthLogin db l = (r1, db') \<Longrightarrow> auth_inv db' \<and> later db db'"
    using oauth_inv [OF inv] unfolding CreateOAuthLogin_def Let_def
    by (auto simp: oauth_ok_def split: if_split_asm)
  show "ClaimOAuthState db h now = (r2, db') \<Longrightarrow> auth_inv db' \<and> later db db'"
    unfolding ClaimOAuthState_def Let_def using inv by (auto split: list.split_asm simp: later_refl oauth_update_inv)
  show "StoreExchangeGrant db i h now ident = (r3, db') \<Longrightarrow> auth_inv db' \<and> later db db'"
    unfolding StoreExchangeGrant_def using inv by (auto split: if_split_asm simp: later_refl oauth_update_inv)
  show "ConsumeExchangeCode db h now = (r4, db') \<Longrightarrow> auth_inv db' \<and> later db db'"
    unfolding ConsumeExchangeCode_def Let_def using inv by (auto split: list.split_asm simp: later_refl oauth_update_inv)
qed

lemmas auth_statements_inv = CreateSession_inv RotateSession_inv RevokeSession_inv CreatePasswordUser_inv SignInGoogle_inv
  LinkGoogle_inv UnlinkAuthenticationMethod_inv CreateEmailToken_inv VerifyEmail_inv ResetPassword_inv oauth_statements_inv

end
