(* ===== verification/Auth_Steps.thy ===== *)
theory Auth_Steps
  imports Auth_Inv
begin

section \<open>Runs of the account service\<close>

text \<open>
  One step of the service of \<open>internal/auth\<close> is one call of an operation that writes, whatever
  the client sent, the clock says and the generators draw. A run is a sequence of steps, in the
  order in which their transactions commit.
\<close>

inductive auth_step :: "auth_lib \<Rightarrow> AuthService \<Rightarrow> auth_db \<Rightarrow> auth_db \<Rightarrow> bool"
  for lib :: auth_lib and sv :: AuthService where
  Register: "Register lib sv salt gu gi draw now db input = (r, db') \<Longrightarrow> auth_step lib sv db db'"
| Login: "Login lib sv draw now db input = (r, db') \<Longrightarrow> auth_step lib sv db db'"
| Refresh: "Refresh lib sv ab rb gen now db token = (r, db') \<Longrightarrow> auth_step lib sv db db'"
| Logout: "Logout lib now db access refresh = (r', db') \<Longrightarrow> auth_step lib sv db db'"
| Mail: "run_mail_task lib random gen now db task = (mail, db') \<Longrightarrow> auth_step lib sv db db'"
| VerifyEmail: "VerifyEmail lib now db token = (r', db') \<Longrightarrow> auth_step lib sv db db'"
| ResetPassword: "ResetPassword lib sv salt now db token password = (r', db') \<Longrightarrow> auth_step lib sv db db'"
| Unlink: "UnlinkAuthenticationMethod db u mthd = (r', db') \<Longrightarrow> auth_step lib sv db db'"
| Begin: "BeginGoogleLogin lib google sb nb gen now db challenge client_state link = (b, db') \<Longrightarrow> auth_step lib sv db db'"
| Complete: "CompleteGoogleLogin lib exchange cb now db state code providerError = (c, db') \<Longrightarrow> auth_step lib sv db db'"
| Exchange: "ExchangeGoogleLogin lib sv g gu gi draw now db code verifier = (r, db') \<Longrightarrow> auth_step lib sv db db'"
| Link: "LinkGoogleIdentity lib g gen now db u code verifier = (l, db') \<Longrightarrow> auth_step lib sv db db'"

subsection \<open>What every operation keeps\<close>

text \<open>
  A run of an operation is at most a sequence of statements. So an operation keeps every relation
  between databases that is reflexive, transitive, and kept by each statement.
\<close>

locale auth_relation =
  fixes R :: "auth_db \<Rightarrow> auth_db \<Rightarrow> bool"
  assumes refl [simp]: "R db db"
    and trans: "R a b \<Longrightarrow> R b c \<Longrightarrow> R a c"
    and statement: "CreateSession db s = (r, db') \<Longrightarrow> R db db'"
      "RotateSession db h nxt = (i, db') \<Longrightarrow> R db db'"
      "RevokeSession db a' h now = (r, db') \<Longrightarrow> R db db'"
      "CreatePasswordUser db input = (r, db') \<Longrightarrow> R db db'"
      "SignInGoogle ToLower db ginput = (r, db') \<Longrightarrow> R db db'"
      "Store_LinkGoogle ToLower db linput = (l, db') \<Longrightarrow> R db db'"
      "Store_UnlinkAuthenticationMethod db u p = (r, db') \<Longrightarrow> R db db'"
      "CreateEmailToken db t cooldown = (b', db') \<Longrightarrow> R db db'"
      "Store_VerifyEmail db h now = (r, db') \<Longrightarrow> R db db'"
      "Store_ResetPassword db h p now = (r, db') \<Longrightarrow> R db db'"
      "CreateOAuthLogin db ol = (r, db') \<Longrightarrow> R db db'"
      "ClaimOAuthState db h now = (o1, db') \<Longrightarrow> R db db'"
      "StoreExchangeGrant db loginID h now ident = (r, db') \<Longrightarrow> R db db'"
      "ConsumeExchangeCode db h now = (g, db') \<Longrightarrow> R db db'"
begin

lemma Register: "Register lib sv salt gu gi draw now db input = (r, db') \<Longrightarrow> R db db'"
  unfolding Register_def runs by (auto dest: statement simp: runs split: prod.splits sum.splits)

lemma Login: "Login lib sv draw now db input = (r, db') \<Longrightarrow> R db db'"
  unfolding Login_def runs by (auto dest: statement simp: runs split: prod.splits sum.splits if_split_asm)

lemma Refresh: "Refresh lib sv ab rb gen now db token = (r, db') \<Longrightarrow> R db db'"
  unfolding Refresh_def runs by (auto dest: statement simp: runs split: prod.splits sum.splits if_split_asm)

lemma Logout: "Logout lib now db access refresh = (r, db') \<Longrightarrow> R db db'"
  unfolding Logout_def by (auto dest: statement split: if_split_asm)

lemma sendToken: "sendToken lib random gen now db u a n p l link = (mail, db') \<Longrightarrow> R db db'"
  unfolding sendToken_def by (auto dest: statement split: sum.split_asm prod.split_asm if_split_asm)

lemma Mail: "run_mail_task lib random gen now db task = (mail, db') \<Longrightarrow> R db db'"
  unfolding run_mail_task_def by (auto dest: sendToken split: mail_task.split_asm sum.split_asm)

lemma VerifyEmail: "VerifyEmail lib now db token = (r, db') \<Longrightarrow> R db db'"
  unfolding VerifyEmail_def by (auto dest: statement split: if_split_asm)

lemma ResetPassword: "ResetPassword lib sv salt now db token password = (r, db') \<Longrightarrow> R db db'"
  unfolding ResetPassword_def by (auto dest: statement split: if_split_asm sum.split_asm option.split_asm)

lemma Unlink: "UnlinkAuthenticationMethod db u mthd = (r, db') \<Longrightarrow> R db db'"
  unfolding UnlinkAuthenticationMethod_def by (auto dest: statement split: if_split_asm)

lemma Begin: "BeginGoogleLogin lib google sb nb gen now db challenge client_state link = (b, db') \<Longrightarrow> R db db'"
  unfolding BeginGoogleLogin_def by (auto dest: statement split: option.split_asm if_split_asm sum.split_asm prod.split_asm)

lemma Complete: "CompleteGoogleLogin lib exchange cb now db state code providerError = (c, db') \<Longrightarrow> R db db'"
  unfolding CompleteGoogleLogin_def
  by (auto dest: statement intro: trans [OF statement(12) statement(13)]
      split: option.split_asm if_split_asm sum.split_asm prod.split_asm)

lemma redeem: "redeemExchangeCode lib g now db code verifier = (grant, db') \<Longrightarrow> R db db'"
  unfolding redeemExchangeCode_def by (auto dest: statement split: if_split_asm sum.split_asm prod.split_asm)

lemma Exchange: "ExchangeGoogleLogin lib sv g gu gi draw now db code verifier = (r, db') \<Longrightarrow> R db db'"
  unfolding ExchangeGoogleLogin_def
  by (auto dest: redeem intro: trans [OF redeem statement(5)] split: if_split_asm sum.split_asm prod.split_asm)

lemma Link: "LinkGoogleIdentity lib g gen now db u code verifier = (l, db') \<Longrightarrow> R db db'"
  unfolding LinkGoogleIdentity_def
  by (auto dest: redeem intro: trans [OF redeem statement(6)] split: if_split_asm sum.split_asm prod.split_asm)

lemma step: "auth_step lib sv db db' \<Longrightarrow> R db db'"
  by (induction rule: auth_step.induct)
    (fact Register Login Refresh Logout Mail VerifyEmail ResetPassword Unlink Begin Complete Exchange Link)+

lemma run: "(auth_step lib sv)\<^sup>*\<^sup>* db db' \<Longrightarrow> R db db'"
  by (induction rule: rtranclp_induct) (auto intro: trans step)

end

text \<open>The invariant is kept, and rows only move forward.\<close>

definition auth_kept :: "auth_db \<Rightarrow> auth_db \<Rightarrow> bool" where
  "auth_kept db db' \<longleftrightarrow> (auth_inv db \<longrightarrow> auth_inv db' \<and> later db db')"

lemma auth_keptI: "(auth_inv db \<Longrightarrow> auth_inv db' \<and> later db db') \<Longrightarrow> auth_kept db db'"
  by (simp add: auth_kept_def)

interpretation auth_kept: auth_relation auth_kept
proof unfold_locales
  fix a b c
  assume "auth_kept a b" "auth_kept b c"
  then show "auth_kept a c" unfolding auth_kept_def using later_trans by blast
qed (simp add: auth_kept_def later_refl, (rule auth_keptI, erule auth_statements_inv, assumption)+)

lemmas auth_step_kept = auth_kept.step

text \<open>What the other services read of the accounts stays, and accounts are only added.\<close>

definition user_profile :: "user_row \<Rightarrow> uuid \<times> string \<times> string option" where
  "user_profile r = (ur_id r, ur_display_name r, ur_avatar r)"

definition accounts_grow :: "auth_db \<Rightarrow> auth_db \<Rightarrow> bool" where
  "accounts_grow db db' \<longleftrightarrow> (\<exists>new. map user_profile (accounts db') = map user_profile (accounts db) @ new)"

lemma accounts_grow_same: "accounts db' = accounts db \<Longrightarrow> accounts_grow db db'"
  by (simp add: accounts_grow_def)

lemma accounts_grow_add: "accounts db' = accounts db @ new \<Longrightarrow> accounts_grow db db'"
  by (simp add: accounts_grow_def)

lemma accounts_grow_verify: "accounts db' = accounts db \<Longrightarrow> accounts_grow db (verify_user u db')"
proof -
  have "map user_profile (update_where (\<lambda>x. ur_id x = u) (\<lambda>x. x\<lparr>ur_verified := True\<rparr>) t) = map user_profile t" for t
    by (simp add: update_where_def user_profile_def)
  then show "accounts db' = accounts db \<Longrightarrow> accounts_grow db (verify_user u db')"
    by (simp add: accounts_grow_def verify_user_def)
qed

lemma insertSession_accounts: "insertSession db s = Inr db' \<Longrightarrow> accounts db' = accounts db"
  by (auto simp: insertSession_def Let_def split: if_split_asm)

lemma consumeEmailToken_accounts: "consumeEmailToken db h p now = Some (t, db') \<Longrightarrow> accounts db' = accounts db"
  by (auto simp: consumeEmailToken_def Let_def split: list.split_asm)

lemmas grows = accounts_grow_same accounts_grow_add accounts_grow_verify

lemma accounts_grow_statements:
  "CreateSession db s = (r, db') \<Longrightarrow> accounts_grow db db'"
  "RotateSession db h nxt = (i, db') \<Longrightarrow> accounts_grow db db'"
  "RevokeSession db a h now = (r, db') \<Longrightarrow> accounts_grow db db'"
  "CreatePasswordUser db input = (r, db') \<Longrightarrow> accounts_grow db db'"
  "SignInGoogle ToLower db ginput = (r, db') \<Longrightarrow> accounts_grow db db'"
  "Store_LinkGoogle ToLower db linput = (l, db') \<Longrightarrow> accounts_grow db db'"
  "Store_UnlinkAuthenticationMethod db u p = (r, db') \<Longrightarrow> accounts_grow db db'"
  "CreateEmailToken db t cooldown = (b, db') \<Longrightarrow> accounts_grow db db'"
  "Store_VerifyEmail db h now = (r, db') \<Longrightarrow> accounts_grow db db'"
  "Store_ResetPassword db h p now = (r, db') \<Longrightarrow> accounts_grow db db'"
  "CreateOAuthLogin db ol = (r, db') \<Longrightarrow> accounts_grow db db'"
  "ClaimOAuthState db h now = (o1, db') \<Longrightarrow> accounts_grow db db'"
  "StoreExchangeGrant db loginID h now ident = (r, db') \<Longrightarrow> accounts_grow db db'"
  "ConsumeExchangeCode db h now = (g, db') \<Longrightarrow> accounts_grow db db'"
  by (auto simp: CreateSession_def RotateSession_def RevokeSession_def CreatePasswordUser_def SignInGoogle_def Store_LinkGoogle_def
      Store_UnlinkAuthenticationMethod_def CreateEmailToken_def Store_VerifyEmail_def Store_ResetPassword_def CreateOAuthLogin_def
      ClaimOAuthState_def StoreExchangeGrant_def ConsumeExchangeCode_def Let_def
      dest!: insertSession_accounts consumeEmailToken_accounts intro: grows
      split: sum.split_asm option.split_asm prod.split_asm if_split_asm list.split_asm)

interpretation accounts_grow: auth_relation accounts_grow
proof unfold_locales
  fix a b c
  assume "accounts_grow a b" "accounts_grow b c"
  then show "accounts_grow a c" by (force simp: accounts_grow_def)
qed (simp add: accounts_grow_same, (fact accounts_grow_statements)+)

lemmas auth_run_kept = auth_kept.run

lemma auth_run_inv: "(auth_step lib sv)\<^sup>*\<^sup>* db db' \<Longrightarrow> auth_inv db \<Longrightarrow> auth_inv db' \<and> later db db'"
  using auth_run_kept by (simp add: auth_kept_def)

lemma empty_auth_inv: "auth_inv empty_auth"
  by (simp add: empty_auth_def auth_inv_def logins_ok_def auth_sessions_ok_def mail_tokens_ok_def oauth_ok_def)

end
