(* ===== verification/Auth_Claims.thy ===== *)
theory Auth_Claims
  imports Auth_Steps
begin

section \<open>What accounts, sessions and logins promise\<close>

text \<open>
  The properties of package \<open>auth\<close>, over every database that a run of the service reaches from
  the empty one, and concrete runs on which they are evaluated.
\<close>

subsection \<open>A concrete service\<close>

text \<open>Digests keep the end of a text; everyone's address is valid; one key per password and salt.\<close>

definition demo_lib :: auth_lib where
  "demo_lib = \<lparr>al_sha256 = (\<lambda>s. take 32 (rev s @ replicate 32 CHR ''0'')), al_ToLower = (\<lambda>s. s), al_ParseAddress = Some,
     al_Encode = (\<lambda>kvs. concat (map (\<lambda>(k, v). k @ ''='' @ v) kvs)),
     al_argon2 = \<lparr>argon2_Version = 19, argon2_IDKey = (\<lambda>p s t m n k. take k (p @ s @ replicate k CHR ''0''))\<rparr>\<rparr>"

definition demo_sv :: AuthService where
  "demo_sv = \<lparr>sv_hasher = DefaultPasswordParams, sv_accessTTL = 100, sv_refreshTTL = 1000, sv_dummyHash = []\<rparr>"

definition demo_bytes :: "char \<Rightarrow> string" where
  "demo_bytes c = replicate 32 c"

definition demo_session :: "uuid \<Rightarrow> char \<Rightarrow> char \<Rightarrow> session_draw" where
  "demo_session i a b = \<lparr>sd_session = Some i, sd_family = Some i, sd_refresh = Some i,
     sd_access_bytes = Some (demo_bytes a), sd_refresh_bytes = Some (demo_bytes b)\<rparr>"

definition demo_registered :: "SessionTokens auth_result \<times> auth_db" where
  "demo_registered = Register demo_lib demo_sv (Some (replicate 16 CHR ''s'')) (Some 1) (Some 2) (demo_session 3 CHR ''a'' CHR ''b'') 50 empty_auth
     \<lparr>ri_Email = ''a@b'', ri_Password = ''long-password-1'', ri_DisplayName = ''Ann''\<rparr>"

definition demo_password_hash :: string where
  "demo_password_hash = the (Password_Hash (al_argon2 demo_lib) DefaultPasswordParams (Some (replicate 16 CHR ''s'')) ''long-password-1'')"


lemmas text_simps = strings_TrimSpace_def trim_runes_def unicode_IsSpace_def utf8_RuneCountInString_def

lemma demo_tokens:
  "RawURLEncoding_EncodeToString (demo_bytes CHR ''a'') = ''YWFhYWFhYWFhYWFhYWFhYWFhYWFhYWFhYWFhYWFhYWE''"
  "RawURLEncoding_EncodeToString (demo_bytes CHR ''b'') = ''YmJiYmJiYmJiYmJiYmJiYmJiYmJiYmJiYmJiYmJiYmI''"
  "RawURLEncoding_EncodeToString (demo_bytes CHR ''c'') = ''Y2NjY2NjY2NjY2NjY2NjY2NjY2NjY2NjY2NjY2NjY2M''"
  "RawURLEncoding_EncodeToString (demo_bytes CHR ''d'') = ''ZGRkZGRkZGRkZGRkZGRkZGRkZGRkZGRkZGRkZGRkZGQ''"
  by code_simp+

lemma demo_hash: "Password_Hash (al_argon2 demo_lib) DefaultPasswordParams (Some (replicate 16 CHR ''s'')) ''long-password-1'' = Some demo_password_hash"
  by (simp add: demo_password_hash_def Password_Hash_def)

lemma demo_texts: "pg_text demo_password_hash" "pg_text ''a@b''" "pg_text ''Ann''"
  using Hash_pg_text [OF demo_hash] by (simp_all add: pg_text_def utf8_ValidString_def rune_error_def)

lemmas demo_simps = Let_def validateEmail_def normalizeEmail_def text_simps validatePassword_def validateDisplayName_def demo_sv_def
  issueSession_def demo_session_def auth_newUUIDv7_def NewAccessToken_def NewRefreshToken_def newOpaqueToken_def demo_tokens HashToken_def
  insertSession_def ProviderPassword_def ProviderGoogle_def

definition demo_db :: auth_db where
  "demo_db = \<lparr>accounts = [\<lparr>ur_id = 1, ur_email = ''a@b'', ur_normalized = ''a@b'', ur_verified = False, ur_display_name = ''Ann'',
              ur_avatar = None, ur_created = 50\<rparr>],
     identities = [\<lparr>id_id = 2, id_user = 1, id_provider = ''PASSWORD'', id_subject = ''a@b'', id_hash = Some demo_password_hash\<rparr>],
     sessions = [\<lparr>se_id = 3, se_user = 1, se_access = ''EWYhFWYhFWYhFWYhFWYhFWYhFWYhFWYh'', se_access_expires = 150, se_expires = 1050,
                se_revoked = None\<rparr>],
     refresh_tokens = [\<lparr>rf_id = 3, rf_session = 3, rf_hash = ''ImYiJmYiJmYiJmYiJmYiJmYiJmYiJmYi'', rf_expires = 1050, rf_consumed = None\<rparr>],
     oauth_logins = [], email_tokens = []\<rparr>"

definition demo_sessionTokens :: SessionTokens where
  "demo_sessionTokens = \<lparr>st_AccessToken = ''aster_at_YWFhYWFhYWFhYWFhYWFhYWFhYWFhYWFhYWFhYWFhYWE'',
     st_RefreshToken = ''aster_rt_YmJiYmJiYmJiYmJiYmJiYmJiYmJiYmJiYmJiYmJiYmI'', st_SessionID = 3, st_AccessExpiresIn = 100, st_RefreshExpiresIn = 1000\<rparr>"

lemma demo_registered_eq: "demo_registered = (Inr demo_sessionTokens, demo_db)"
  unfolding demo_registered_def demo_db_def demo_sessionTokens_def
  by (simp add: Register_def demo_simps demo_hash CreatePasswordUser_def empty_auth_def user_row_ok_def identity_row_ok_def
      demo_texts pg_text_opt_def char_length_between_def)
    (simp add: demo_lib_def demo_texts)

lemma demo_reached: "(auth_step demo_lib demo_sv)\<^sup>*\<^sup>* empty_auth demo_db"
  using auth_step.Register [OF demo_registered_eq [unfolded demo_registered_def]] by blast

subsection \<open>The invariant\<close>

text \<open>
  C4. In every database the service reaches, no two accounts share a normalized address, no login
  method belongs to two accounts, every account keeps at least one login method and at most one of
  each provider, every session belongs to an account, and exactly one refresh token of a session is
  not spent.
\<close>

theorem auth_invariant:
  assumes "(auth_step lib sv)\<^sup>*\<^sup>* empty_auth db"
  shows "distinct (map ur_normalized (accounts db)) \<and> distinct (map identity_key (identities db))
    \<and> distinct (map (\<lambda>i. (id_user i, id_provider i)) (identities db))
    \<and> (\<forall>u\<in>set (accounts db). \<exists>i\<in>set (identities db). id_user i = ur_id u)
    \<and> (\<forall>s\<in>set (sessions db). (\<exists>u\<in>set (accounts db). ur_id u = se_user s)
         \<and> length (filter (\<lambda>r. rf_session r = se_id s \<and> rf_consumed r = None) (refresh_tokens db)) = 1)"
proof -
  have inv: "auth_inv db"
    using auth_run_inv [OF assms empty_auth_inv] by simp
  have users: "id_user ` set (identities db) = keys ur_id (accounts db)"
    using inv by (simp add: auth_inv_def logins_ok_def)
  have "\<exists>i\<in>set (identities db). id_user i = ur_id u" if "u \<in> set (accounts db)" for u
    using imageI [OF that, of ur_id] unfolding users [symmetric] by force
  moreover have "\<exists>u\<in>set (accounts db). ur_id u = se_user s" if "s \<in> set (sessions db)" for s
    using that inv by (force simp: auth_inv_def auth_sessions_ok_def)
  ultimately show ?thesis
    using inv by (simp add: auth_inv_def logins_ok_def auth_sessions_ok_def live_tokens_def)
qed

theorem auth_invariant_witness:
  "accounts demo_db \<noteq> [] \<and> length (filter (\<lambda>r. rf_session r = 3 \<and> rf_consumed r = None) (refresh_tokens demo_db)) = 1"
  using auth_invariant [OF demo_reached] by (simp add: demo_db_def)

subsection \<open>Refresh tokens\<close>

lemma find_token:
  assumes "auth_inv db" and "r \<in> set (refresh_tokens db)"
  shows "find_by rf_hash (refresh_tokens db) (rf_hash r) = Some r"
    and "\<exists>s. find_by se_id (sessions db) (rf_session r) = Some s \<and> s \<in> set (sessions db) \<and> se_id s = rf_session r"
proof -
  show "find_by rf_hash (refresh_tokens db) (rf_hash r) = Some r"
    using assms by (intro find_by_distinct) (simp_all add: auth_inv_def auth_sessions_ok_def)
  have "rf_session r \<in> keys se_id (sessions db)"
    using assms by (auto simp: auth_inv_def auth_sessions_ok_def)
  then show "\<exists>s. find_by se_id (sessions db) (rf_session r) = Some s \<and> s \<in> set (sessions db) \<and> se_id s = rf_session r"
    by (cases "find_by se_id (sessions db) (rf_session r)") (auto simp: find_by_None_iff dest: find_by_SomeD)
qed

lemma session_unique:
  assumes "auth_inv db" and "s \<in> set (sessions db)" and "s' \<in> set (sessions db)" and "se_id s = se_id s'"
  shows "s = s'"
  by (rule distinct_key_eq [of se_id, OF _ assms(2-4)]) (use assms(1) in \<open>simp add: auth_inv_def auth_sessions_ok_def\<close>)

lemma Refresh_store:
  assumes "Refresh lib sv ab rb gen now db token = (r, db')" and "ab \<noteq> None" "rb \<noteq> None" "gen \<noteq> None" "token \<noteq> []"
  obtains nxt r' where "RotateSession db (HashToken lib token) nxt = (r', db')"
    "(\<exists>e. r' = Inl e \<and> r = Inl e) \<or> (\<exists>t. r' = Inr (st_SessionID t) \<and> r = Inr t)"
proof -
  obtain a b i where draws: "ab = Some a" "rb = Some b" "gen = Some i" using assms(2-4) by auto
  let ?at = "''aster_at_'' @ RawURLEncoding_EncodeToString a" and ?rt = "''aster_rt_'' @ RawURLEncoding_EncodeToString b"
  let ?nxt = "\<lparr>rot_AccessTokenHash = HashToken lib ?at, rot_AccessExpiresAt = now + sv_accessTTL sv, rot_RefreshTokenID = i,
               rot_RefreshTokenHash = HashToken lib ?rt, rot_RefreshExpiresAt = now + sv_refreshTTL sv, rot_RotatedAt = now\<rparr>"
  obtain r' d where run: "RotateSession db (HashToken lib token) ?nxt = (r', d)" by (cases "RotateSession db (HashToken lib token) ?nxt")
  show thesis
    by (rule that [of ?nxt r']; cases r')
      (use assms(1,5) run draws in \<open>auto simp: Refresh_def NewAccessToken_def NewRefreshToken_def newOpaqueToken_def auth_newUUIDv7_def Let_def\<close>)
qed

lemma Refresh_ok:
  assumes "auth_inv db" and "Refresh lib sv ab rb gen now db token = (Inr t, db')"
  obtains rt where "rt \<in> set (refresh_tokens db')" "rf_hash rt = HashToken lib token" "rf_session rt = st_SessionID t" "rf_consumed rt \<noteq> None"
proof -
  have ok: "ab \<noteq> None" "rb \<noteq> None" "gen \<noteq> None" "token \<noteq> []"
    using assms(2) by (auto simp: Refresh_def NewAccessToken_def NewRefreshToken_def newOpaqueToken_def auth_newUUIDv7_def split: sum.splits option.splits if_splits)
  obtain nxt where run: "RotateSession db (HashToken lib token) nxt = (Inr (st_SessionID t), db')"
    using Refresh_store [OF assms(2) ok] by (metis sum.distinct(1) sum.inject(2))
  show thesis
    using run
  proof (rule RotateSession_Inr)
    fix rt s
    assume rt: "find_by rf_hash (refresh_tokens db) (HashToken lib token) = Some rt"
      and s: "find_by se_id (sessions db) (rf_session rt) = Some s" and sid: "st_SessionID t = se_id s"
      and db': "db' = db\<lparr>sessions := update_where (\<lambda>x. se_id x = se_id s)
              (\<lambda>x. x\<lparr>se_access := rot_AccessTokenHash nxt, se_access_expires := rot_AccessExpiresAt nxt,
                     se_expires := rot_RefreshExpiresAt nxt\<rparr>) (sessions db),
            refresh_tokens := update_where (\<lambda>x. rf_hash x = HashToken lib token)
                (\<lambda>x. x\<lparr>rf_consumed := Some (rot_RotatedAt nxt)\<rparr>) (refresh_tokens db)
              @ [\<lparr>rf_id = rot_RefreshTokenID nxt, rf_session = se_id s, rf_hash = rot_RefreshTokenHash nxt,
                  rf_expires = rot_RefreshExpiresAt nxt, rf_consumed = None\<rparr>]\<rparr>"
    have "rt\<lparr>rf_consumed := Some (rot_RotatedAt nxt)\<rparr> \<in> set (refresh_tokens db')"
      using find_by_SomeD [OF rt] unfolding db' by (simp add: set_update_where)
    then show thesis
      using that [of "rt\<lparr>rf_consumed := Some (rot_RotatedAt nxt)\<rparr>"] find_by_SomeD [OF rt] find_by_SomeD [OF s] sid by simp
  qed
qed

text \<open>
  C7. A refresh token works once. After it was exchanged for new tokens, presenting it again at any
  later time, whatever happened in between, fails with \<open>ErrInvalidRefreshToken\<close> and revokes the
  session it belongs to, the one the new tokens were issued for, and that session is revoked ever after.
\<close>

theorem refresh_replay_revokes:
  assumes "(auth_step lib sv)\<^sup>*\<^sup>* empty_auth db" and "Refresh lib sv ab rb gen now db token = (Inr t, db1)"
    and "(auth_step lib sv)\<^sup>*\<^sup>* db1 db2" and "Refresh lib sv (Some ab') (Some rb') (Some gen') now' db2 token = (r, db3)"
    and "(auth_step lib sv)\<^sup>*\<^sup>* db3 db4"
  shows "r = Inl ErrInvalidRefreshToken \<and> (\<exists>s\<in>set (sessions db4). se_id s = st_SessionID t)
    \<and> (\<forall>s\<in>set (sessions db4). se_id s = st_SessionID t \<longrightarrow> se_revoked s \<noteq> None)"
proof -
  have inv: "auth_inv db" using auth_run_inv [OF assms(1) empty_auth_inv] by simp
  obtain rt where rt: "rt \<in> set (refresh_tokens db1)" "rf_hash rt = HashToken lib token" "rf_session rt = st_SessionID t" "rf_consumed rt \<noteq> None"
    using inv assms(2) by (rule Refresh_ok)
  have "auth_inv db1" using auth_step_kept [OF auth_step.Refresh [OF assms(2)]] inv by (simp add: auth_kept_def)
  from auth_run_inv [OF assms(3) this] have inv2: "auth_inv db2" and "kept refresh_later (refresh_tokens db1) (refresh_tokens db2)"
    by (simp_all add: later_def)
  with rt obtain rt2 where rt2: "rt2 \<in> set (refresh_tokens db2)" "rf_hash rt2 = HashToken lib token" "rf_session rt2 = st_SessionID t" "rf_consumed rt2 \<noteq> None"
    unfolding kept_def refresh_later_def by metis
  obtain s2 where s2: "find_by se_id (sessions db2) (rf_session rt2) = Some s2" "s2 \<in> set (sessions db2)" "se_id s2 = rf_session rt2"
    using find_token(2) [OF inv2 rt2(1)] by blast
  have token: "token \<noteq> []" using assms(2) by (auto simp: Refresh_def)
  obtain nxt r' where run: "RotateSession db2 (HashToken lib token) nxt = (r', db3)"
      and r: "(\<exists>e. r' = Inl e \<and> r = Inl e) \<or> (\<exists>t. r' = Inr (st_SessionID t) \<and> r = Inr t)"
    by (rule Refresh_store [OF assms(4) _ _ _ token]) simp_all
  have "r' = Inl ErrInvalidRefreshToken \<and> db3 = db2\<lparr>sessions := update_where (\<lambda>x. se_id x = se_id s2) (revoke (rot_RotatedAt nxt)) (sessions db2)\<rparr>"
    using run find_token(1) [OF inv2 rt2(1)] rt2(2,4) s2(1) by (auto simp: RotateSession_def)
  then have r3: "r = Inl ErrInvalidRefreshToken" and s3: "revoke (rot_RotatedAt nxt) s2 \<in> set (sessions db3)"
    using r s2(2) by (auto simp: set_update_where image_iff intro!: bexI [of _ s2])
  have "auth_inv db3" using auth_step_kept [OF auth_step.Refresh [OF assms(4)]] inv2 by (simp add: auth_kept_def)
  from auth_run_inv [OF assms(5) this] have inv4: "auth_inv db4" and "kept session_later (sessions db3) (sessions db4)"
    by (simp_all add: later_def)
  with s3 obtain s4 where "s4 \<in> set (sessions db4)" "session_later (revoke (rot_RotatedAt nxt) s2) s4"
    unfolding kept_def by blast
  then have s4: "s4 \<in> set (sessions db4)" "se_id s4 = st_SessionID t" "se_revoked s4 \<noteq> None"
    using s2(3) rt2(3) revoke_fields(6) [of "rot_RotatedAt nxt" s2] by (simp_all add: session_later_def)
  have "s = s4" if "s \<in> set (sessions db4)" "se_id s = st_SessionID t" for s
    by (rule session_unique [OF inv4 that(1) s4(1)]) (simp add: that s4)
  then show ?thesis using r3 s4 by blast
qed

definition demo_rotated :: "SessionTokens auth_result \<times> auth_db" where
  "demo_rotated = Refresh demo_lib demo_sv (Some (demo_bytes CHR ''c'')) (Some (demo_bytes CHR ''d'')) (Some 4) 60 demo_db (st_RefreshToken demo_sessionTokens)"

lemma demo_rotated_ok: "\<exists>t db1. demo_rotated = (Inr t, db1) \<and> st_SessionID t = 3"
  unfolding demo_rotated_def
  by (simp add: Refresh_def demo_simps RotateSession_def) (simp add: demo_lib_def demo_db_def demo_sessionTokens_def)

theorem refresh_replay_revokes_witness:
  "fst (Refresh demo_lib demo_sv (Some (demo_bytes CHR ''e'')) (Some (demo_bytes CHR ''f'')) (Some 5) 70 (snd demo_rotated)
      (st_RefreshToken demo_sessionTokens)) = Inl ErrInvalidRefreshToken"
proof -
  obtain t db1 where t: "demo_rotated = (Inr t, db1)" using demo_rotated_ok by blast
  then show ?thesis
    using refresh_replay_revokes [OF demo_reached t [unfolded demo_rotated_def] rtranclp.rtrancl_refl, of "demo_bytes CHR ''e''" "demo_bytes CHR ''f''" 5 70, OF surjective_pairing rtranclp.rtrancl_refl]
    by (simp add: t)
qed

subsection \<open>Access tokens\<close>

text \<open>
  C30. In every database the service reaches, an access token authenticates exactly the user of the
  one session whose current access token it is, while that session is not revoked and neither the
  access token nor the session expired; any other text is refused with \<open>ErrUnauthorized\<close>.
\<close>

theorem Authenticate_exact:
  assumes "(auth_step lib sv)\<^sup>*\<^sup>* empty_auth db"
  shows "(\<forall>u. Authenticate lib now db token = Inr u \<longleftrightarrow> token \<noteq> []
      \<and> (\<exists>s\<in>set (sessions db). \<exists>a\<in>set (accounts db). se_access s = HashToken lib token \<and> se_revoked s = None
            \<and> now < se_access_expires s \<and> now < se_expires s \<and> ur_id a = se_user s \<and> u = user_view db a))
    \<and> (\<forall>e. Authenticate lib now db token = Inl e \<longrightarrow> e = ErrUnauthorized)"
proof -
  have inv: "auth_inv db" using auth_run_inv [OF assms empty_auth_inv] by simp
  let ?ok = "\<lambda>s. se_access s = HashToken lib token \<and> se_revoked s = None \<and> now < se_access_expires s \<and> now < se_expires s"
  have access: "s = s'" if "s \<in> set (sessions db)" "s' \<in> set (sessions db)" "?ok s" "?ok s'" for s s'
    by (rule distinct_key_eq [of se_access, OF _ that(1,2)]) (use inv that in \<open>simp_all add: auth_inv_def auth_sessions_ok_def\<close>)
  have user: "find_by ur_id (accounts db) (ur_id a) = Some a" if "a \<in> set (accounts db)" for a
    by (rule find_by_distinct [OF _ that]) (use inv in \<open>simp add: auth_inv_def logins_ok_def\<close>)
  have owner: "\<exists>a\<in>set (accounts db). ur_id a = se_user s" if "s \<in> set (sessions db)" for s
    using inv that by (force simp: auth_inv_def auth_sessions_ok_def)
  show ?thesis
  proof (cases "List.find ?ok (sessions db)")
    case None
    then have "FindUserByAccessToken db (HashToken lib token) now = Inl ErrUnauthorized"
      by (simp add: FindUserByAccessToken_def)
    then show ?thesis using None by (auto simp: Authenticate_def find_None_iff)
  next
    case (Some s)
    then have s: "s \<in> set (sessions db)" "?ok s" by (auto simp: find_Some_iff)
    obtain a where a: "a \<in> set (accounts db)" "ur_id a = se_user s" using owner [OF s(1)] by blast
    have run: "FindUserByAccessToken db (HashToken lib token) now = Inr (user_view db a)"
      using Some user [OF a(1)] a(2) by (simp add: FindUserByAccessToken_def)
    have same: "a' = a" if "a' \<in> set (accounts db)" "ur_id a' = se_user s" for a'
      using user [OF that(1)] user [OF a(1)] that(2) a(2) by simp
    have "(\<exists>s\<in>set (sessions db). \<exists>a\<in>set (accounts db). ?ok s \<and> ur_id a = se_user s \<and> u = user_view db a) \<longleftrightarrow> u = user_view db a" for u
      using access [OF s(1) _ s(2)] same s a by blast
    then show ?thesis
      unfolding conj_assoc by (simp add: Authenticate_def run eq_commute)
  qed
qed

lemma demo_access_hash: "HashToken demo_lib (st_AccessToken demo_sessionTokens) = ''EWYhFWYhFWYhFWYhFWYhFWYhFWYhFWYh''"
  by (simp add: HashToken_def demo_lib_def demo_sessionTokens_def)

theorem Authenticate_exact_witness:
  "(\<exists>u. Authenticate demo_lib 100 demo_db (st_AccessToken demo_sessionTokens) = Inr u)
   \<and> (\<forall>u. Authenticate demo_lib 150 demo_db (st_AccessToken demo_sessionTokens) \<noteq> Inr u)"
  using Authenticate_exact [OF demo_reached, of 100 "st_AccessToken demo_sessionTokens"]
    Authenticate_exact [OF demo_reached, of 150 "st_AccessToken demo_sessionTokens"]
  unfolding demo_access_hash by (simp add: demo_db_def demo_sessionTokens_def)

subsection \<open>Registering and logging in\<close>

lemma validateEmail_cases: "validateEmail lib v = Inr e \<Longrightarrow> e = normalizeEmail (al_ToLower lib) v"
  by (auto simp: validateEmail_def Let_def split: if_splits)

lemma validateEmail_ok: "validateEmail lib v = Inr e \<Longrightarrow> normalizeEmail (al_ToLower lib) w = e \<Longrightarrow> validateEmail lib w = Inr e"
  by (auto simp: validateEmail_def Let_def split: if_splits)

lemma Register_cases:
  assumes "Register lib sv salt gu gi draw now db input = (Inr t, db')"
  obtains email name hash uid iid session where
    "validateEmail lib (ri_Email input) = Inr email" "validatePassword (ri_Password input) = Inr ()"
    "validateDisplayName (ri_DisplayName input) = Inr name"
    "Password_Hash (al_argon2 lib) (sv_hasher sv) salt (ri_Password input) = Some hash" "gu = Some uid" "gi = Some iid"
    "issueSession lib sv draw uid now = Inr (session, t)"
    "new_account_run db \<lparr>ur_id = uid, ur_email = strings_TrimSpace (ri_Email input), ur_normalized = email,
              ur_verified = False, ur_display_name = name, ur_avatar = None, ur_created = ns_CreatedAt session\<rparr>
       \<lparr>id_id = iid, id_user = uid, id_provider = ProviderPassword, id_subject = email, id_hash = Some hash\<rparr> session db'"
  using assms unfolding Register_def auth_newUUIDv7_def
  by (auto simp: runs split: sum.split_asm option.split_asm prod.split_asm dest!: CreatePasswordUser_cases)

lemma issueSession_fields:
  assumes "issueSession lib sv draw uid now = Inr (s, t)"
  shows "ns_UserID s = uid \<and> ns_AccessTokenHash s = HashToken lib (st_AccessToken t) \<and> ns_RefreshTokenHash s = HashToken lib (st_RefreshToken t)
    \<and> ns_AccessExpiresAt s = now + sv_accessTTL sv \<and> ns_RefreshExpiresAt s = now + sv_refreshTTL sv \<and> ns_ID s = st_SessionID t
    \<and> st_AccessToken t \<noteq> [] \<and> st_RefreshToken t \<noteq> []"
  using assms unfolding issueSession_def NewAccessToken_def NewRefreshToken_def newOpaqueToken_def
  by (auto simp: Let_def split: sum.split_asm option.split_asm)

lemma insertSession_rows:
  assumes "insertSession db s = Inr db'"
  shows "ns_AccessTokenHash s \<notin> keys se_access (sessions db) \<and> ns_AccessExpiresAt s \<le> ns_RefreshExpiresAt s
    \<and> accounts db' = accounts db \<and> identities db' = identities db
    \<and> sessions db' = sessions db @ [\<lparr>se_id = ns_ID s, se_user = ns_UserID s, se_access = ns_AccessTokenHash s,
          se_access_expires = ns_AccessExpiresAt s, se_expires = ns_RefreshExpiresAt s, se_revoked = None\<rparr>]"
  using assms unfolding insertSession_def by (auto split: if_split_asm)

lemma find_new_last: "\<not> list_ex P xs \<Longrightarrow> P x \<Longrightarrow> List.find P (xs @ [x]) = Some x"
  by (induction xs) auto

lemma find_by_new_last: "key x \<notin> keys key xs \<Longrightarrow> find_by key (xs @ [x]) (key x) = Some x"
  by (simp add: find_by_append find_by_None_iff [THEN iffD2])

text \<open>
  C17. Registering gives an account one can use: the access token returned authenticates as the new
  user until it expires, with the address as given, not verified, and the password as the only login
  method; and \<open>Login\<close> with an address that normalizes to the same text goes on to store a new
  session of that user when the password is the one registered, while a password that derives another
  key is refused with \<open>ErrInvalidCredentials\<close> and changes nothing.
\<close>

theorem Register_then_Login:
  assumes reached: "(auth_step lib sv)\<^sup>*\<^sup>* empty_auth db"
    and run: "Register lib sv (Some salt) gu gi draw now db input = (Inr t, db')"
    and safe: "safePasswordParams (sv_hasher sv)" and salt: "length salt = pw_SaltLength (sv_hasher sv)"
    and key: "key = (\<lambda>p. argon2_IDKey (al_argon2 lib) p salt (pw_Iterations (sv_hasher sv)) (pw_Memory (sv_hasher sv))
                (pw_Parallelism (sv_hasher sv)) (pw_KeyLength (sv_hasher sv)))"
    and len: "length (key (ri_Password input)) = pw_KeyLength (sv_hasher sv)"
    and same: "normalizeEmail (al_ToLower lib) (li_Email login) = normalizeEmail (al_ToLower lib) (ri_Email input)"
    and soon: "now1 < now + sv_accessTTL sv"
  shows "\<exists>u. Authenticate lib now1 db' (st_AccessToken t) = Inr u \<and> Some (usr_ID u) = gu
      \<and> usr_Email u = strings_TrimSpace (ri_Email input) \<and> \<not> usr_EmailVerified u \<and> usr_AuthenticationMethods u = [ProviderPassword]
      \<and> (li_Password login = ri_Password input \<longrightarrow>
           Login lib sv draw' now' db' login = (case issueSession lib sv draw' (usr_ID u) now' of Inl err \<Rightarrow> (Inl err, db')
             | Inr (s, t') \<Rightarrow> (case CreateSession db' s of (Inl err, db2) \<Rightarrow> (Inl err, db2) | (Inr _, db2) \<Rightarrow> (Inr t', db2))))
      \<and> (key (li_Password login) \<noteq> key (ri_Password input) \<longrightarrow> Login lib sv draw' now' db' login = (Inl ErrInvalidCredentials, db'))"
proof -
  have inv: "auth_inv db" using auth_run_inv [OF reached empty_auth_inv] by simp
  obtain email name hash uid iid s where
    email: "validateEmail lib (ri_Email input) = Inr email" and pass: "validatePassword (ri_Password input) = Inr ()"
    and hash: "Password_Hash (al_argon2 lib) (sv_hasher sv) (Some salt) (ri_Password input) = Some hash" and uid: "gu = Some uid"
    and s: "issueSession lib sv draw uid now = Inr (s, t)"
    and new: "new_account_run db \<lparr>ur_id = uid, ur_email = strings_TrimSpace (ri_Email input), ur_normalized = email,
              ur_verified = False, ur_display_name = name, ur_avatar = None, ur_created = ns_CreatedAt s\<rparr>
       \<lparr>id_id = iid, id_user = uid, id_provider = ProviderPassword, id_subject = email, id_hash = Some hash\<rparr> s db'"
    using run by (rule Register_cases)
  let ?u = "\<lparr>ur_id = uid, ur_email = strings_TrimSpace (ri_Email input), ur_normalized = email,
              ur_verified = False, ur_display_name = name, ur_avatar = None, ur_created = ns_CreatedAt s\<rparr>"
  let ?i = "\<lparr>id_id = iid, id_user = uid, id_provider = ProviderPassword, id_subject = email, id_hash = Some hash\<rparr>"
  let ?v = "user_view db' ?u"
  note f = issueSession_fields [OF s]
  have fresh: "uid \<notin> keys ur_id (accounts db)" "(ProviderPassword, email) \<notin> keys identity_key (identities db)"
    and ins: "insertSession (db\<lparr>accounts := accounts db @ [?u], identities := identities db @ [?i]\<rparr>) s = Inr db'"
    using new by (simp_all add: new_account_run_def)
  note rows = insertSession_rows [OF ins, simplified]
  have user: "find_by ur_id (accounts db') uid = Some ?u"
    using find_by_new_last [of ur_id ?u] fresh(1) rows by simp
  have ident: "find_by identity_key (identities db') (ProviderPassword, email) = Some ?i"
    using find_by_new_last [of identity_key ?i] fresh(2) rows by simp
  have "filter (\<lambda>i. id_user i = uid) (identities db) = []"
    using inv fresh(1) by (auto simp: auth_inv_def logins_ok_def filter_empty_conv)
  then have methods: "linked_providers db' uid = [ProviderPassword]"
    using rows by (simp add: linked_providers_def)
  have old: "se_access x \<noteq> HashToken lib (st_AccessToken t)" if "x \<in> set (sessions db)" for x
    using rows f imageI [OF that, of se_access] by auto
  have "Authenticate lib now1 db' (st_AccessToken t) = Inr ?v"
    unfolding Authenticate_def FindUserByAccessToken_def using rows f soon user old
    by (subst conjunct2 [OF conjunct2 [OF conjunct2 [OF conjunct2 [OF rows]]]], subst find_new_last) (auto simp: list_ex_iff)
  moreover have same': "validateEmail lib (li_Email login) = Inr email"
    using validateEmail_ok [OF email] validateEmail_cases [OF email] same by simp
  have find: "FindPasswordIdentity db' email = Inr \<lparr>pi_User = ?v, pi_PasswordHash = hash\<rparr>"
    using ident user by (simp add: FindPasswordIdentity_def)
  note verify = Verify_Hash [OF safe salt len [unfolded key] hash]
  have "Login lib sv draw' now' db' login = (case issueSession lib sv draw' uid now' of Inl err \<Rightarrow> (Inl err, db')
             | Inr (s, t') \<Rightarrow> (case CreateSession db' s of (Inl err, db2) \<Rightarrow> (Inl err, db2) | (Inr _, db2) \<Rightarrow> (Inr t', db2)))"
    if "li_Password login = ri_Password input"
    using that same' pass find verify [of "ri_Password input"] by (simp add: Login_def user_view_def)
  moreover have "Login lib sv draw' now' db' login = (Inl ErrInvalidCredentials, db')"
    if "key (li_Password login) \<noteq> key (ri_Password input)"
    using that same' find verify [of "li_Password login"] unfolding key by (auto simp: Login_def split: sum.split)
  ultimately show ?thesis
    using uid methods by (auto simp: user_view_def intro!: exI [of _ ?v])
qed

theorem Register_then_Login_witness:
  "\<exists>u. Authenticate demo_lib 149 demo_db (st_AccessToken demo_sessionTokens) = Inr u \<and> usr_ID u = 1
    \<and> Login demo_lib demo_sv (demo_session 9 CHR ''c'' CHR ''d'') 60 demo_db \<lparr>li_Email = ''a@b'', li_Password = ''long-password-2''\<rparr>
        = (Inl ErrInvalidCredentials, demo_db)"
  using Register_then_Login [OF rtranclp.rtrancl_refl demo_registered_eq [unfolded demo_registered_def] _ _ refl,
      of "\<lparr>li_Email = ''a@b'', li_Password = ''long-password-2''\<rparr>" 149 "demo_session 9 CHR ''c'' CHR ''d''" 60]
  by (simp add: demo_sv_def demo_lib_def DefaultPasswordParams_def safePasswordParams_def) metis

subsection \<open>Resetting a password\<close>

lemma consumed_forever:
  assumes "auth_inv db" and "t \<in> set (email_tokens db)" and "tk_consumed t \<noteq> None"
  shows "consumeEmailToken db (tk_hash t) purpose now = None"
proof -
  have "r = t" if "r \<in> set (email_tokens db)" "tk_hash r = tk_hash t" for r
    by (rule distinct_key_eq [of tk_hash, OF _ that(1) assms(2) that(2)]) (use assms(1) in \<open>simp add: auth_inv_def mail_tokens_ok_def\<close>)
  then have "filter (\<lambda>r. tk_hash r = tk_hash t \<and> tk_purpose r = purpose \<and> tk_consumed r = None \<and> now < tk_expires r) (email_tokens db) = []"
    using assms(3) by (auto simp: filter_empty_conv)
  then show ?thesis by (simp add: consumeEmailToken_def)
qed

lemma find_by_update:
  assumes "distinct (map key t)" and "r \<in> set t" and "P r" and "\<And>r. key (f r) = key r"
  shows "find_by key (update_where P f t) (key r) = Some (f r)"
proof -
  have "f r \<in> set (update_where P f t)" using assms(2,3) by (auto simp: set_update_where)
  moreover have "distinct (map key (update_where P f t))" using assms(1) map_update_where [of key f P t, OF assms(4)] by simp
  ultimately show ?thesis using find_by_distinct [of key _ "f r"] assms(4) by metis
qed

text \<open>The database that a reset leaves, given the token it consumed and the new hash.\<close>

abbreviation own_login :: "token_row \<Rightarrow> identity_row \<Rightarrow> bool" where
  "own_login t i \<equiv> id_user i = tk_user t \<and> id_provider i = ProviderPassword \<and> id_subject i = tk_email t"

definition reset_rows :: "time \<Rightarrow> string \<Rightarrow> token_row \<Rightarrow> auth_db \<Rightarrow> auth_db" where
  "reset_rows now hash t db = verify_user (tk_user t) (db\<lparr>
     identities := update_where (own_login t) (\<lambda>i. i\<lparr>id_hash := Some hash\<rparr>) (identities db),
     sessions := update_where (\<lambda>s. se_user s = tk_user t) (revoke now) (sessions db),
     email_tokens := update_where (\<lambda>r. tk_user r = tk_user t \<and> tk_purpose r = PurposeResetPassword \<and> tk_consumed r = None)
       (\<lambda>r. r\<lparr>tk_consumed := Some now\<rparr>) (email_tokens db)\<rparr>)"

lemma ResetPassword_run:
  assumes "ResetPassword lib sv (Some salt) now db token password = (Inr (), db')"
  obtains hash t db1 i where "Password_Hash (al_argon2 lib) (sv_hasher sv) (Some salt) password = Some hash"
    "consumeEmailToken db (HashToken lib token) PurposeResetPassword now = Some (t, db1)"
    "i \<in> set (identities db1)" "own_login t i" "db' = reset_rows now hash t db1"
proof -
  obtain hash where hash: "Password_Hash (al_argon2 lib) (sv_hasher sv) (Some salt) password = Some hash"
    and store: "Store_ResetPassword db (HashToken lib token) hash now = (Inr (), db')"
    using assms by (auto simp: ResetPassword_def split: sum.split_asm if_split_asm option.split_asm)
  from ResetPassword_cases [OF store] show thesis
    using that [OF hash] by (auto simp: reset_rows_def)
qed

lemma reset_revokes:
  assumes "s \<in> set (sessions db)" "se_user s = tk_user t" "later (reset_rows now hash t db) db2"
  shows "\<exists>s'\<in>set (sessions db2). se_id s' = se_id s \<and> se_revoked s' \<noteq> None"
proof -
  have "revoke now s \<in> set (sessions (reset_rows now hash t db))"
    using assms(1,2) by (auto simp: reset_rows_def verify_user_def set_update_where)
  then obtain s' where "s' \<in> set (sessions db2)" "session_later (revoke now s) s'"
    using assms(3) unfolding later_def kept_def by blast
  moreover from this have "se_id s' = se_id s" "se_revoked s' \<noteq> None"
    using revoke_fields(6) [of now s] by (simp_all add: session_later_def del: revoke_fields(6))
  ultimately show ?thesis by blast
qed

lemma reset_installs:
  assumes inv: "auth_inv db" and i: "i \<in> set (identities db)" "own_login t i" and user: "tk_user t \<in> keys ur_id (accounts db)"
  shows "\<exists>v. FindPasswordIdentity (reset_rows now hash t db) (tk_email t) = Inr \<lparr>pi_User = v, pi_PasswordHash = hash\<rparr>
    \<and> usr_ID v = tk_user t \<and> usr_EmailVerified v"
proof -
  obtain a where a: "a \<in> set (accounts db)" "ur_id a = tk_user t"
    using user by auto
  have key: "identity_key i = (ProviderPassword, tk_email t)" using i(2) by simp
  have "find_by identity_key (identities (reset_rows now hash t db)) (identity_key i) = Some (i\<lparr>id_hash := Some hash\<rparr>)"
    using find_by_update [of identity_key "identities db" i "own_login t" "\<lambda>i. i\<lparr>id_hash := Some hash\<rparr>"] inv i
    by (simp add: reset_rows_def verify_user_def auth_inv_def logins_ok_def)
  moreover have "find_by ur_id (accounts (reset_rows now hash t db)) (ur_id a) = Some (a\<lparr>ur_verified := True\<rparr>)"
    using find_by_update [of ur_id "accounts db" a "\<lambda>u. ur_id u = tk_user t" "\<lambda>u. u\<lparr>ur_verified := True\<rparr>"] inv a
    by (simp add: reset_rows_def verify_user_def auth_inv_def logins_ok_def)
  ultimately show ?thesis
    using key i(2) a(2) by (simp add: FindPasswordIdentity_def user_view_def)
qed

lemma reset_spends:
  assumes "consumeEmailToken db (HashToken lib token) PurposeResetPassword now = Some (t, db1)"
    and "later (reset_rows now hash t db1) db2" and "auth_inv db2"
  shows "fst (ResetPassword lib sv salt2 now2 db2 token password2) \<noteq> Inr ()"
proof -
  note c = consumeEmailToken_cases [OF assms(1)]
  define t' where "t' = t\<lparr>tk_consumed := Some now\<rparr>"
  have t': "tk_hash t' = HashToken lib token" "tk_consumed t' \<noteq> None"
    using c by (simp_all add: t'_def)
  have "t' \<in> set (email_tokens db1)"
    using c by (auto simp: t'_def set_update_where)
  with t' have "t' \<in> set (email_tokens (reset_rows now hash t db1))"
    by (auto simp: reset_rows_def verify_user_def set_update_where)
  then obtain t2 where t2: "t2 \<in> set (email_tokens db2)" "mail_later t' t2"
    using assms(2) unfolding later_def kept_def by blast
  then have "tk_hash t2 = HashToken lib token" "tk_consumed t2 \<noteq> None"
    using t' by (simp_all add: mail_later_def)
  then have "consumeEmailToken db2 (HashToken lib token) PurposeResetPassword now2 = None"
    using consumed_forever [OF assms(3) t2(1)] by metis
  then show ?thesis
    by (auto simp: ResetPassword_def Store_ResetPassword_def split: sum.split option.split)
qed

text \<open>
  C28. A password reset takes a token sent to the account, made for this purpose and not expired.
  It leaves no session of the account usable, now or later, it makes the new password the one that
  verifies for the account's address, it confirms the address, and the same token never resets
  anything again.
\<close>

theorem ResetPassword_effect:
  assumes reached: "(auth_step lib sv)\<^sup>*\<^sup>* empty_auth db"
    and run: "ResetPassword lib sv (Some salt) now db token password = (Inr (), db')"
    and safe: "safePasswordParams (sv_hasher sv)" and salt: "length salt = pw_SaltLength (sv_hasher sv)"
    and len: "length (argon2_IDKey (al_argon2 lib) password salt (pw_Iterations (sv_hasher sv)) (pw_Memory (sv_hasher sv))
                (pw_Parallelism (sv_hasher sv)) (pw_KeyLength (sv_hasher sv))) = pw_KeyLength (sv_hasher sv)"
    and later_run: "(auth_step lib sv)\<^sup>*\<^sup>* db' db2"
  shows "\<exists>t\<in>set (email_tokens db). tk_hash t = HashToken lib token \<and> tk_purpose t = PurposeResetPassword \<and> now < tk_expires t
    \<and> (\<forall>s\<in>set (sessions db). se_user s = tk_user t \<longrightarrow> (\<exists>s'\<in>set (sessions db2). se_id s' = se_id s \<and> se_revoked s' \<noteq> None))
    \<and> (\<exists>found. FindPasswordIdentity db' (tk_email t) = Inr found \<and> usr_ID (pi_User found) = tk_user t
          \<and> usr_EmailVerified (pi_User found) \<and> Password_Verify (al_argon2 lib) password (pi_PasswordHash found) = Some True)
    \<and> fst (ResetPassword lib sv salt2 now2 db2 token password2) \<noteq> Inr ()"
proof -
  have inv: "auth_inv db" using auth_run_inv [OF reached empty_auth_inv] by simp
  have "auth_inv db'"
    using auth_step_kept [OF auth_step.ResetPassword [OF run]] inv by (simp add: auth_kept_def)
  then have inv2: "auth_inv db2" "later db' db2" using auth_run_inv [OF later_run] by blast+
  obtain hash t db1 i where hash: "Password_Hash (al_argon2 lib) (sv_hasher sv) (Some salt) password = Some hash"
    and t: "consumeEmailToken db (HashToken lib token) PurposeResetPassword now = Some (t, db1)"
    and i: "i \<in> set (identities db1)" "own_login t i" and db': "db' = reset_rows now hash t db1"
    using run by (rule ResetPassword_run)
  note c = consumeEmailToken_cases [OF t]
  have inv1: "auth_inv db1"
    using consumeEmailToken_inv [OF inv t] by blast
  have "tk_user t \<in> keys ur_id (accounts db1)"
    using c inv by (auto simp: auth_inv_def mail_tokens_ok_def)
  then have "\<exists>found. FindPasswordIdentity db' (tk_email t) = Inr found \<and> usr_ID (pi_User found) = tk_user t
      \<and> usr_EmailVerified (pi_User found) \<and> Password_Verify (al_argon2 lib) password (pi_PasswordHash found) = Some True"
    using reset_installs [OF inv1 i, of now hash] Verify_Hash [OF safe salt len hash, of password] db' by auto
  moreover have "\<exists>s'\<in>set (sessions db2). se_id s' = se_id s \<and> se_revoked s' \<noteq> None" if "s \<in> set (sessions db)" "se_user s = tk_user t" for s
    by (rule reset_revokes [of s db1]) (use that c inv2(2) db' in auto)
  moreover have "fst (ResetPassword lib sv salt2 now2 db2 token password2) \<noteq> Inr ()"
    using reset_spends [OF t] inv2 db' by blast
  ultimately show ?thesis
    using c by (intro bexI [of _ t]) blast+
qed

definition demo_mailed :: auth_db where
  "demo_mailed = demo_db\<lparr>email_tokens := [\<lparr>tk_id = 8, tk_user = 1, tk_purpose = PurposeResetPassword, tk_email = ''a@b'',
     tk_hash = HashToken demo_lib ''YWFhYWFhYWFhYWFhYWFhYWFhYWFhYWFhYWFhYWFhYWE'', tk_created = 60, tk_expires = 60 + resetLifetime, tk_consumed = None\<rparr>]\<rparr>"

lemma demo_mailed_reached: "(auth_step demo_lib demo_sv)\<^sup>*\<^sup>* empty_auth demo_mailed"
proof -
  have "run_mail_task demo_lib (Some (demo_bytes CHR ''a'')) (Some 8) 60 demo_db (SendReset ''a@b'')
    = (Some \<lparr>tm_To = ''a@b'', tm_Purpose = PurposeResetPassword, tm_Token = ''YWFhYWFhYWFhYWFhYWFhYWFhYWFhYWFhYWFhYWFhYWE'',
         tm_Link = resetPasswordLink @ ''?token=YWFhYWFhYWFhYWFhYWFhYWFhYWFhYWFhYWFhYWFhYWE'', tm_Minutes = 60\<rparr>, demo_mailed)"
    by (simp add: run_mail_task_def FindPasswordIdentity_def demo_mailed_def demo_db_def user_view_def sendToken_def randomToken_def demo_tokens
        auth_newUUIDv7_def CreateEmailToken_def emailCooldown_def demo_texts HashToken_def ProviderPassword_def PurposeResetPassword_def
        resetLifetime_def durations) (simp add: demo_lib_def resetPasswordLink_def)
  from auth_step.Mail [OF this] show ?thesis using demo_reached by (rule rtranclp.rtrancl_into_rtrancl [rotated])
qed

lemma demo_reset_ok: "\<exists>db'. ResetPassword demo_lib demo_sv (Some (replicate 16 CHR ''s'')) 70 demo_mailed
    ''YWFhYWFhYWFhYWFhYWFhYWFhYWFhYWFhYWFhYWFhYWE'' ''long-password-2'' = (Inr (), db')"
proof -
  obtain hash where hash: "Password_Hash (al_argon2 demo_lib) (sv_hasher demo_sv) (Some (replicate 16 CHR ''s'')) ''long-password-2'' = Some hash"
    by (simp add: Password_Hash_def)
  from Hash_pg_text [OF this] have "pg_text hash" .
  then show ?thesis
    by (simp add: ResetPassword_def validatePassword_def utf8_RuneCountInString_def plausibleToken_def hash Store_ResetPassword_def
        consumeEmailToken_def demo_mailed_def demo_db_def resetLifetime_def durations Let_def ProviderPassword_def)
qed

theorem ResetPassword_effect_witness:
  "\<exists>db'. ResetPassword demo_lib demo_sv (Some (replicate 16 CHR ''s'')) 70 demo_mailed
      ''YWFhYWFhYWFhYWFhYWFhYWFhYWFhYWFhYWFhYWFhYWE'' ''long-password-2'' = (Inr (), db')
    \<and> (\<exists>s\<in>set (sessions db'). se_id s = 3 \<and> se_revoked s \<noteq> None)"
proof -
  obtain db' where run: "ResetPassword demo_lib demo_sv (Some (replicate 16 CHR ''s'')) 70 demo_mailed
      ''YWFhYWFhYWFhYWFhYWFhYWFhYWFhYWFhYWFhYWFhYWE'' ''long-password-2'' = (Inr (), db')" using demo_reset_ok by blast
  from ResetPassword_effect [OF demo_mailed_reached run _ _ _ rtranclp.rtrancl_refl]
  have "\<exists>s\<in>set (sessions db'). se_id s = 3 \<and> se_revoked s \<noteq> None"
    by (simp add: demo_sv_def demo_lib_def DefaultPasswordParams_def safePasswordParams_def demo_mailed_def demo_db_def)
  with run show ?thesis by blast
qed

subsection \<open>Login methods\<close>

lemma two_providers:
  assumes "auth_inv db" and "i \<in> set (identities db)" and "id_user i = u"
  shows "length (filter (\<lambda>x. id_user x = u) (identities db)) \<le> 1 \<longleftrightarrow> (\<forall>j\<in>set (identities db). id_user j = u \<longrightarrow> id_provider j = id_provider i)"
proof -
  let ?mine = "filter (\<lambda>x. id_user x = u) (identities db)"
  have d: "distinct (map (\<lambda>i. (id_user i, id_provider i)) ?mine)"
    using assms(1) by (simp add: auth_inv_def logins_ok_def distinct_map_filter)
  have i: "i \<in> set ?mine" using assms by simp
  show ?thesis
  proof
    assume "length ?mine \<le> 1"
    then obtain x where "?mine = [x]" using i by (cases ?mine) auto
    then have "set ?mine = {x}" by simp
    then have "j \<in> set (identities db) \<Longrightarrow> id_user j = u \<Longrightarrow> j = x" for j by auto
    then show "\<forall>j\<in>set (identities db). id_user j = u \<longrightarrow> id_provider j = id_provider i" using i by auto
  next
    assume *: "\<forall>j\<in>set (identities db). id_user j = u \<longrightarrow> id_provider j = id_provider i"
    then have "(\<lambda>i. (id_user i, id_provider i)) ` set ?mine \<subseteq> {(u, id_provider i)}" by auto
    then have "card (set (map (\<lambda>i. (id_user i, id_provider i)) ?mine)) \<le> 1"
      using card_mono [of "{(u, id_provider i)}"] by simp
    then show "length ?mine \<le> 1"
      using distinct_card [OF d] by simp
  qed
qed

text \<open>
  A login method is removed exactly when the user has it and another one: without the first the
  answer is \<open>ErrAuthMethodNotLinked\<close>, without the second \<open>ErrLastAuthenticationMethod\<close>, and in both
  cases nothing changes; a removal takes away that method and nothing else.
\<close>

lemma Unlink_outcome:
  assumes "(auth_step lib sv)\<^sup>*\<^sup>* empty_auth db" and "UnlinkAuthenticationMethod db u mthd = (r, db')"
    and "mthd \<in> {ProviderPassword, ProviderGoogle}"
  shows "r = (if \<not> (\<exists>i\<in>set (identities db). id_user i = u \<and> id_provider i = mthd) then Inl ErrAuthMethodNotLinked
      else if \<forall>i\<in>set (identities db). id_user i = u \<longrightarrow> id_provider i = mthd then Inl ErrLastAuthenticationMethod else Inr ())
    \<and> db' = (if r = Inr () then db\<lparr>identities := filter (\<lambda>i. \<not> (id_user i = u \<and> id_provider i = mthd)) (identities db)\<rparr> else db)"
proof (cases "\<exists>i\<in>set (identities db). id_user i = u \<and> id_provider i = mthd")
  case False
  then have "mthd \<notin> set (map id_provider (filter (\<lambda>i. id_user i = u) (identities db)))" by auto
  then show ?thesis
    using assms(2,3) False unfolding UnlinkAuthenticationMethod_def Store_UnlinkAuthenticationMethod_def Let_def by (auto split: if_split_asm)
next
  case True
  then obtain i where i: "i \<in> set (identities db)" "id_user i = u" "id_provider i = mthd" by blast
  have "auth_inv db" using auth_run_inv [OF assms(1) empty_auth_inv] by simp
  note two = two_providers [OF this i(1,2), unfolded i(3)]
  have "mthd \<in> set (map id_provider (filter (\<lambda>i. id_user i = u) (identities db)))" using i by auto
  then show ?thesis
    using assms(2,3) True unfolding UnlinkAuthenticationMethod_def Store_UnlinkAuthenticationMethod_def Let_def length_map two delete_where_def
    by (auto split: if_split_asm)
qed

theorem Unlink_outcome_witness:
  "UnlinkAuthenticationMethod demo_db 1 ProviderPassword = (Inl ErrLastAuthenticationMethod, demo_db)"
  using Unlink_outcome [where u = 1 and mthd = ProviderPassword, OF demo_reached surjective_pairing]
  by (simp add: demo_db_def ProviderPassword_def prod_eq_iff)

subsection \<open>Password hashes\<close>

text \<open>
  C29. A stored hash holds everything that verifying needs: whatever parameters were in force, a
  password verifies against the hash of another exactly when both derive the same key under its salt;
  in particular the password itself does.
\<close>

theorem Password_roundtrip:
  assumes "NewPasswordHasher params = Some h" and "length salt = pw_SaltLength h"
    and "\<And>p. length (argon2_IDKey a2 p salt (pw_Iterations h) (pw_Memory h) (pw_Parallelism h) (pw_KeyLength h)) = pw_KeyLength h"
  shows "\<exists>encoded. Password_Hash a2 h (Some salt) password = Some encoded \<and> pg_text encoded
    \<and> Password_Verify a2 password encoded = Some True
    \<and> Password_Verify a2 other encoded = Some
      (argon2_IDKey a2 other salt (pw_Iterations h) (pw_Memory h) (pw_Parallelism h) (pw_KeyLength h)
       = argon2_IDKey a2 password salt (pw_Iterations h) (pw_Memory h) (pw_Parallelism h) (pw_KeyLength h))"
proof -
  have safe: "safePasswordParams h" using assms(1) by (simp add: NewPasswordHasher_def split: if_splits)
  obtain encoded where e: "Password_Hash a2 h (Some salt) password = Some encoded" by (simp add: Password_Hash_def)
  show ?thesis
    using e Hash_pg_text [OF e] Verify_Hash [OF safe assms(2,3) e] by simp
qed

theorem Password_roundtrip_witness:
  "\<exists>encoded. Password_Hash (al_argon2 demo_lib) DefaultPasswordParams (Some (replicate 16 CHR ''s'')) ''long-password-1'' = Some encoded
    \<and> Password_Verify (al_argon2 demo_lib) ''long-password-1'' encoded = Some True
    \<and> Password_Verify (al_argon2 demo_lib) ''long-password-2'' encoded = Some False"
proof -
  let ?key = "\<lambda>p. argon2_IDKey (al_argon2 demo_lib) p (replicate 16 CHR ''s'') (pw_Iterations DefaultPasswordParams)
    (pw_Memory DefaultPasswordParams) (pw_Parallelism DefaultPasswordParams) (pw_KeyLength DefaultPasswordParams)"
  have len: "length (?key p) = pw_KeyLength DefaultPasswordParams" for p
    by (simp add: demo_lib_def DefaultPasswordParams_def min_def)
  have keys: "(?key ''long-password-2'' = ?key ''long-password-1'') = False"
    by (simp add: demo_lib_def DefaultPasswordParams_def)
  have ok: "NewPasswordHasher DefaultPasswordParams = Some DefaultPasswordParams" "length (replicate 16 CHR ''s'') = pw_SaltLength DefaultPasswordParams"
    by (simp_all add: NewPasswordHasher_def safePasswordParams_def DefaultPasswordParams_def)
  show ?thesis
    using Password_roundtrip [OF ok len, of "''long-password-1''" "''long-password-2''", unfolded keys] by (elim exE conjE) (intro exI conjI)
qed

end
