(* ===== verification/Google_Claims.thy ===== *)
theory Google_Claims
  imports Auth_Claims
begin

section \<open>What logging in with Google promises\<close>

text \<open>
  The verification of ID tokens and the exchange of a login attempt for a session, with the
  PKCE verifier that binds the attempt to the client that began it.
\<close>

subsection \<open>ID tokens\<close>

lemma signingKey_cases:
  assumes "signingKey w now g keyID = (Inr key, g')"
  shows "gcl_config g' = gcl_config g \<and> (\<exists>ks. ks keyID = Some key \<and>
    (gcl_keys g = Some ks \<and> now - gcl_keysFetch g < googleKeyCacheTTL \<and> g' = g
     \<or> fetchKeys w = Inr ks \<and> g' = g\<lparr>gcl_keys := Some ks, gcl_keysFetch := now\<rparr>))"
  using assms unfolding signingKey_def Let_def
  by (auto simp: googleKeyCacheTTL_def durations split: option.split_asm if_split_asm sum.split_asm)


definition demo_claims :: idTokenClaims where
  "demo_claims = \<lparr>ic_Issuer = ''accounts.google.com'', ic_Audience = AnyList [AnyOther, AnyString ''client''], ic_Subject = ''sub'', ic_Expires = 5,
     ic_NotBefore = 0, ic_Nonce = ''n'', ic_Email = ''g@b'', ic_EmailVerified = AnyString ''true'', ic_Name = ''Gil'', ic_Picture = []\<rparr>"

definition demo_world :: google_world where
  "demo_world = \<lparr>gw_token_response = (\<lambda>_. None), gw_key_set = None, gw_json_id_token = (\<lambda>_. None), gw_json_header = (\<lambda>_. Some (''RS256'', ''k'')),
     gw_json_claims = (\<lambda>_. Some demo_claims), gw_VerifyPKCS1v15 = (\<lambda>key digest signature. signature = ''c'')\<rparr>"

definition demo_google :: GoogleClient where
  "demo_google = \<lparr>gcl_config = \<lparr>go_ClientID = ''client'', go_ClientSecret = ''secret'', go_RedirectURL = ''https://a/b'', go_AuthorizationEndpoint = [],
     go_TokenEndpoint = [], go_JWKSEndpoint = [], go_Issuers = [''https://accounts.google.com'', ''accounts.google.com'']\<rparr>,
     gcl_keys = Some [''k'' \<mapsto> \<lparr>rsa_N = 7, rsa_E = 3\<rparr>], gcl_keysFetch = 0\<rparr>"

lemma demo_segments: "RawURLEncoding_DecodeString ''YQ'' = Some ''a''" "RawURLEncoding_DecodeString ''Yg'' = Some ''b''"
    "RawURLEncoding_DecodeString ''Yw'' = Some ''c''"
  by code_simp+

lemma demo_verified: "VerifyIDToken lib demo_world 9 demo_google ''YQ.Yg.Yw'' ''n''
    = (Inr \<lparr>gi_Subject = ''sub'', gi_Email = ''g@b'', gi_EmailVerified = True, gi_Name = ''Gil'', gi_Picture = []\<rparr>, demo_google)"
  by (simp add: VerifyIDToken_def decodeSegment_def demo_segments demo_world_def demo_google_def signingKey_def check_claims_def demo_claims_def
      audienceMatches_def truthy_def time_Unix_def idTokenLeeway_def googleKeyCacheTTL_def durations)


subsection \<open>Exchanging a login for a session\<close>

lemma redeem_cases:
  assumes "redeemExchangeCode lib True now db code verifier = (Inr grant, db1)"
  obtains o1 expires ident where "o1 \<in> set (oauth_logins db)" "og_consumed o1 = None" "og_grant o1 = Some (HashToken lib code, expires, ident)"
    "now < expires" "grant = \<lparr>eg_LinkUserID = og_link_user o1, eg_CodeChallenge = og_challenge o1, eg_Identity = ident\<rparr>"
    "og_challenge o1 = RawURLEncoding_EncodeToString (al_sha256 lib verifier)" "verifierPattern verifier"
    "db1 = db\<lparr>oauth_logins := update_where (\<lambda>o1. og_consumed o1 = None \<and> (case og_grant o1 of None \<Rightarrow> False
        | Some (c, expires, _) \<Rightarrow> c = HashToken lib code \<and> expires > now)) (\<lambda>o1. o1\<lparr>og_consumed := Some now\<rparr>) (oauth_logins db)\<rparr>"
proof -
  let ?hit = "\<lambda>o1. og_consumed o1 = None \<and> (case og_grant o1 of None \<Rightarrow> False | Some (c, expires, _) \<Rightarrow> c = HashToken lib code \<and> expires > now)"
  obtain o1 os where hit: "filter ?hit (oauth_logins db) = o1 # os"
    using assms unfolding redeemExchangeCode_def ConsumeExchangeCode_def Let_def by (auto split: if_split_asm list.split_asm)
  then have o1: "o1 \<in> set (oauth_logins db)" "?hit o1"
    using filter_eq_ConsD by fastforce+
  then obtain expires ident where g: "og_grant o1 = Some (HashToken lib code, expires, ident)" "now < expires"
    by (auto split: option.split_asm)
  show thesis
    using assms hit o1 g unfolding redeemExchangeCode_def ConsumeExchangeCode_def Let_def
    by (intro that [OF o1(1) _ g]) (auto split: if_split_asm)
qed

lemma redeem_again:
  assumes "\<And>o1. o1 \<in> set (oauth_logins db) \<Longrightarrow> og_consumed o1 = None \<Longrightarrow> grant_code o1 = Some (HashToken lib code) \<Longrightarrow>
      \<exists>c expires i. og_grant o1 = Some (c, expires, i) \<and> expires \<le> now"
  shows "redeemExchangeCode lib True now db code verifier = (Inl ErrInvalidAuthorizationGrant, db)"
proof -
  let ?hit = "\<lambda>o1. og_consumed o1 = None \<and> (case og_grant o1 of None \<Rightarrow> False | Some (c, expires, _) \<Rightarrow> c = HashToken lib code \<and> expires > now)"
  have "\<not> ?hit o1" if "o1 \<in> set (oauth_logins db)" for o1
    using assms [OF that] by (cases "og_grant o1") (auto simp: grant_code_def)
  then have none: "filter ?hit (oauth_logins db) = []"
    by (simp add: filter_empty_conv)
  show ?thesis
    unfolding redeemExchangeCode_def ConsumeExchangeCode_def Let_def none by simp
qed

lemma SignInGoogle_effect:
  assumes "SignInGoogle ToLower db input = (Inr (), db')"
  shows "oauth_logins db' = oauth_logins db
    \<and> (\<exists>us is. accounts db' = accounts db @ us \<and> identities db' = identities db @ is)
    \<and> (\<exists>s\<in>set (sessions db'). se_id s = ns_ID (ngs_Session input)
         \<and> (\<exists>i\<in>set (identities db'). (ns_UserID (ngs_Session input) = ngs_UserID input \<longrightarrow> id_user i = se_user s)
               \<and> identity_key i = (ProviderGoogle, gi_Subject (ngs_Identity input))))"
proof -
  have ol: "insertSession d s = Inr d' \<Longrightarrow> oauth_logins d' = oauth_logins d" for d s d'
    unfolding insertSession_def by (auto split: if_split_asm)
  from SignInGoogle_cases [OF assms] consider
      (known) i where "find_by identity_key (identities db) (ProviderGoogle, gi_Subject (ngs_Identity input)) = Some i"
        "insertSession db ((ngs_Session input)\<lparr>ns_UserID := id_user i\<rparr>) = Inr db'"
    | (new) u i where "new_account_run db u i (ngs_Session input) db'" "identity_key i = (ProviderGoogle, gi_Subject (ngs_Identity input))"
        "id_user i = ngs_UserID input"
    by (auto simp: ProviderGoogle_def)
  then show ?thesis
  proof cases
    case known
    note r = insertSession_rows [OF known(2), simplified]
    show ?thesis using find_by_SomeD [OF known(1)] r ol [OF known(2)] by auto
  next
    case new
    then have ins: "insertSession (db\<lparr>accounts := accounts db @ [u], identities := identities db @ [i]\<rparr>) (ngs_Session input) = Inr db'"
      by (simp add: new_account_run_def)
    note r = insertSession_rows [OF ins, simplified]
    show ?thesis using r ol [OF ins] new(2,3) by auto
  qed
qed

text \<open>
  C18. A session comes out of a Google login only for the client that began it: the exchange code
  belongs to an attempt that is not used up, did not ask for linking, and whose challenge is the
  digest of the verifier presented. The session is that of the account with the Google subject of the
  attempt; accounts and login methods that existed stay as they are; and the code never works again.
\<close>

theorem ExchangeGoogleLogin_effect:
  assumes run: "ExchangeGoogleLogin lib sv True gu gi draw now db code verifier = (Inr t, db')" and "now \<le> now2"
  shows "(\<exists>o1\<in>set (oauth_logins db). \<exists>expires ident. og_consumed o1 = None \<and> og_grant o1 = Some (HashToken lib code, expires, ident)
        \<and> now < expires \<and> og_link_user o1 = None \<and> og_challenge o1 = RawURLEncoding_EncodeToString (al_sha256 lib verifier)
        \<and> (\<exists>s\<in>set (sessions db'). \<exists>i\<in>set (identities db'). se_id s = st_SessionID t \<and> id_user i = se_user s
              \<and> id_provider i = ProviderGoogle \<and> id_subject i = gi_Subject ident))
    \<and> (\<exists>us is. accounts db' = accounts db @ us \<and> identities db' = identities db @ is)
    \<and> fst (ExchangeGoogleLogin lib sv True gu2 gi2 draw2 now2 db' code verifier2) = Inl ErrInvalidAuthorizationGrant"
proof -
  obtain grant db1 uid iid s where redeem: "redeemExchangeCode lib True now db code verifier = (Inr grant, db1)"
    and link: "eg_LinkUserID grant = None" and s: "issueSession lib sv draw uid now = Inr (s, t)"
    and sign: "SignInGoogle (al_ToLower lib) db1 \<lparr>ngs_Identity = eg_Identity grant, ngs_UserID = uid, ngs_IdentityID = iid,
              ngs_DisplayName = googleDisplayName (eg_Identity grant), ngs_Session = s\<rparr> = (Inr (), db')"
    using run unfolding ExchangeGoogleLogin_def by (auto simp: runs split: prod.split_asm if_split_asm sum.split_asm)
  obtain o1 expires ident where o1: "o1 \<in> set (oauth_logins db)" "og_consumed o1 = None" "og_grant o1 = Some (HashToken lib code, expires, ident)"
    "now < expires" "grant = \<lparr>eg_LinkUserID = og_link_user o1, eg_CodeChallenge = og_challenge o1, eg_Identity = ident\<rparr>"
    "og_challenge o1 = RawURLEncoding_EncodeToString (al_sha256 lib verifier)"
    and db1: "db1 = db\<lparr>oauth_logins := update_where (\<lambda>o1. og_consumed o1 = None \<and> (case og_grant o1 of None \<Rightarrow> False
        | Some (c, expires, _) \<Rightarrow> c = HashToken lib code \<and> expires > now)) (\<lambda>o1. o1\<lparr>og_consumed := Some now\<rparr>) (oauth_logins db)\<rparr>"
    using redeem by (rule redeem_cases)
  note eff = SignInGoogle_effect [OF sign, simplified]
  note f = issueSession_fields [OF s]
  have "redeemExchangeCode lib True now2 db' code verifier2 = (Inl ErrInvalidAuthorizationGrant, db')"
    using \<open>now \<le> now2\<close> eff
    by (intro redeem_again) (auto simp: db1 set_update_where grant_code_def split: option.split_asm)
  then have "fst (ExchangeGoogleLogin lib sv True gu2 gi2 draw2 now2 db' code verifier2) = Inl ErrInvalidAuthorizationGrant"
    by (simp add: ExchangeGoogleLogin_def)
  then show ?thesis
    using o1 eff f link unfolding db1 by (intro conjI bexI [OF _ o1(1)] exI [of _ expires] exI [of _ ident]) auto
qed

definition demo_attempt :: auth_db where
  "demo_attempt = demo_db\<lparr>oauth_logins := [\<lparr>og_id = 1, og_state = [], og_nonce = ''n'',
      og_challenge = RawURLEncoding_EncodeToString (al_sha256 demo_lib (replicate 43 CHR ''v'')), og_client_state = [], og_created = 0, og_expires = 90,
      og_link_user = None, og_callback = Some 1,
      og_grant = Some (HashToken demo_lib (demo_bytes CHR ''x''), 80, \<lparr>gi_Subject = ''sub'', gi_Email = ''g@b'', gi_EmailVerified = True, gi_Name = ''Gil'', gi_Picture = []\<rparr>),
      og_consumed = None\<rparr>]\<rparr>"

lemma demo_exchange: "\<exists>t db'. ExchangeGoogleLogin demo_lib demo_sv True (Some 5) (Some 6) (demo_session 7 CHR ''c'' CHR ''d'') 60 demo_attempt
    (demo_bytes CHR ''x'') (replicate 43 CHR ''v'') = (Inr t, db')"
proof -
  have texts: "pg_text ''g@b''" "pg_text ''Gil''" "pg_text ''sub''"
    by (simp_all add: pg_text_def utf8_ValidString_def rune_error_def)
  have v: "verifierPattern (replicate 43 CHR ''v'')"
    by (simp add: verifierPattern_def unreserved_43_128_def is_url_char_def between_def list_all_iff)
  have r: "redeemExchangeCode demo_lib True 60 demo_attempt (demo_bytes CHR ''x'') (replicate 43 CHR ''v'') = (Inr
      \<lparr>eg_LinkUserID = None, eg_CodeChallenge = RawURLEncoding_EncodeToString (al_sha256 demo_lib (replicate 43 CHR ''v'')),
       eg_Identity = \<lparr>gi_Subject = ''sub'', gi_Email = ''g@b'', gi_EmailVerified = True, gi_Name = ''Gil'', gi_Picture = []\<rparr>\<rparr>,
      demo_attempt\<lparr>oauth_logins := map (\<lambda>o1. o1\<lparr>og_consumed := Some 60\<rparr>) (oauth_logins demo_attempt)\<rparr>)"
    using v by (simp add: redeemExchangeCode_def demo_bytes_def ConsumeExchangeCode_def demo_attempt_def update_where_def)
  show ?thesis
    unfolding ExchangeGoogleLogin_def r
    by (simp add: demo_simps googleDisplayName_def SignInGoogle_def demo_attempt_def demo_db_def user_row_ok_def identity_row_ok_def
        texts pg_text_opt_def char_length_between_def)
      (simp add: demo_lib_def texts)
qed

theorem ExchangeGoogleLogin_effect_witness:
  "\<exists>t db'. ExchangeGoogleLogin demo_lib demo_sv True (Some 5) (Some 6) (demo_session 7 CHR ''c'' CHR ''d'') 60 demo_attempt
      (demo_bytes CHR ''x'') (replicate 43 CHR ''v'') = (Inr t, db')
    \<and> (\<exists>i\<in>set (identities db'). id_subject i = ''sub'')
    \<and> fst (ExchangeGoogleLogin demo_lib demo_sv True None None (demo_session 7 CHR ''c'' CHR ''d'') 61 db' (demo_bytes CHR ''x'') [])
        = Inl ErrInvalidAuthorizationGrant"
proof -
  obtain t db' where run: "ExchangeGoogleLogin demo_lib demo_sv True (Some 5) (Some 6) (demo_session 7 CHR ''c'' CHR ''d'') 60 demo_attempt
      (demo_bytes CHR ''x'') (replicate 43 CHR ''v'') = (Inr t, db')" using demo_exchange by blast
  note e = ExchangeGoogleLogin_effect [OF run, of 61 None None "demo_session 7 CHR ''c'' CHR ''d''" "[]"]
  from e have "\<exists>i\<in>set (identities db'). id_subject i = ''sub''"
    by (auto simp: demo_attempt_def)
  with e run show ?thesis by auto
qed

end
