(* ===== verification/Limiter.thy ===== *)
theory Limiter
  imports Prelude "HOL-Library.AList"
begin

section \<open>The request limiter\<close>

text \<open>
  \<open>internal/httpapi/limiter.go\<close>: a fixed window for each key, in one map that a mutex guards, so a
  call is one step. The map is an association list; \<open>now\<close> is the reading of the clock.
\<close>

subsection \<open>The limiter\<close>

record limitState =
  ls_count :: int
  ls_reset :: time

record fixedWindowLimiter =
  fl_limit :: int
  fl_window :: duration
  fl_states :: "(string \<times> limitState) list"
  fl_maxEntries :: nat

record limitResult =
  lr_Allowed :: bool
  lr_Limit :: int
  lr_Remaining :: int
  lr_Reset :: time
  lr_RetryAfter :: duration

definition newFixedWindowLimiter :: "int \<Rightarrow> duration \<Rightarrow> fixedWindowLimiter" where
  "newFixedWindowLimiter limit window = \<lparr>fl_limit = limit, fl_window = window, fl_states = [], fl_maxEntries = 100000\<rparr>"

text \<open>The loop that drops the windows that have ended.\<close>

definition prune_states :: "time \<Rightarrow> (string \<times> limitState) list \<Rightarrow> (string \<times> limitState) list" where
  "prune_states now states = filter (\<lambda>(_, s). now < ls_reset s) states"

definition Take :: "time \<Rightarrow> fixedWindowLimiter \<Rightarrow> string \<Rightarrow> limitResult \<times> fixedWindowLimiter" where
  "Take now l key =
     (let found = map_of (fl_states l) key;
          full = (found = None \<and> length (fl_states l) \<ge> fl_maxEntries l);
          l1 = (if full then l\<lparr>fl_states := prune_states now (fl_states l)\<rparr> else l)
      in if full \<and> length (fl_states l1) \<ge> fl_maxEntries l
         then (\<lparr>lr_Allowed = False, lr_Limit = fl_limit l, lr_Remaining = 0, lr_Reset = now + fl_window l, lr_RetryAfter = fl_window l\<rparr>, l1)
         else let state = (case found of None \<Rightarrow> \<lparr>ls_count = 0, ls_reset = now + fl_window l\<rparr>
                           | Some s \<Rightarrow> if \<not> now < ls_reset s then \<lparr>ls_count = 0, ls_reset = now + fl_window l\<rparr> else s)
              in if ls_count state \<ge> fl_limit l
                 then (\<lparr>lr_Allowed = False, lr_Limit = fl_limit l, lr_Remaining = 0, lr_Reset = ls_reset state,
                        lr_RetryAfter = ls_reset state - now\<rparr>, l1\<lparr>fl_states := AList.update key state (fl_states l1)\<rparr>)
                 else let state' = state\<lparr>ls_count := ls_count state + 1\<rparr>
                      in (\<lparr>lr_Allowed = True, lr_Limit = fl_limit l, lr_Remaining = fl_limit l - ls_count state',
                           lr_Reset = ls_reset state', lr_RetryAfter = 0\<rparr>,
                          l1\<lparr>fl_states := AList.update key state' (fl_states l1)\<rparr>))"

definition Reset :: "fixedWindowLimiter \<Rightarrow> string \<Rightarrow> fixedWindowLimiter" where
  "Reset l key = l\<lparr>fl_states := AList.delete key (fl_states l)\<rparr>"

subsection \<open>Calls in sequence\<close>

datatype limiter_call = TakeAt time string | ResetKey string

text \<open>The instants at which calls for the key were allowed.\<close>

fun allowed_times :: "string \<Rightarrow> fixedWindowLimiter \<Rightarrow> limiter_call list \<Rightarrow> time list" where
  "allowed_times k l [] = []"
| "allowed_times k l (TakeAt now key # calls) =
     (case Take now l key of (res, l') \<Rightarrow>
        (if key = k \<and> lr_Allowed res then now # allowed_times k l' calls else allowed_times k l' calls))"
| "allowed_times k l (ResetKey key # calls) = allowed_times k (Reset l key) calls"

fun call_times :: "limiter_call list \<Rightarrow> time list" where
  "call_times [] = []"
| "call_times (TakeAt now _ # calls) = now # call_times calls"
| "call_times (ResetKey _ # calls) = call_times calls"

subsection \<open>What one key sees\<close>

text \<open>The window of the key that has not ended.\<close>

definition window_of :: "fixedWindowLimiter \<Rightarrow> time \<Rightarrow> string \<Rightarrow> limitState option" where
  "window_of l now k = (case map_of (fl_states l) k of None \<Rightarrow> None | Some s \<Rightarrow> if now < ls_reset s then Some s else None)"

definition limiter_ok :: "fixedWindowLimiter \<Rightarrow> bool" where
  "limiter_ok l \<longleftrightarrow> distinct (map fst (fl_states l))"

lemma map_of_filter_distinct:
  assumes "distinct (map fst xs)"
  shows "map_of (filter P xs) k = (case map_of xs k of None \<Rightarrow> None | Some v \<Rightarrow> if P (k, v) then Some v else None)"
  using assms
proof (induction xs)
  case (Cons x xs)
  have "map_of (filter P xs) (fst x) = None"
    using Cons.prems by (auto simp: map_of_eq_None_iff)
  with Cons show ?case
    by (cases x) (auto split: option.split)
qed simp

lemma prune_window:
  assumes "limiter_ok l" and "now \<le> later"
  shows "window_of (l\<lparr>fl_states := prune_states now (fl_states l)\<rparr>) later k = window_of l later k"
  using assms unfolding window_of_def limiter_ok_def prune_states_def
  by (auto simp: map_of_filter_distinct split: option.split)

text \<open>The four ways a call ends, for its own key.\<close>

lemma Take_cases:
  assumes run: "Take now l key = (res, l')" and ok: "limiter_ok l"
  obtains (full) "\<not> lr_Allowed res" "window_of l now key = None" "\<And>later k. now \<le> later \<Longrightarrow> window_of l' later k = window_of l later k"
      "limiter_ok l'" "fl_limit l' = fl_limit l" "fl_window l' = fl_window l"
  | (taken) s where "window_of l now key = Some s \<or> window_of l now key = None \<and> s = \<lparr>ls_count = 0, ls_reset = now + fl_window l\<rparr>"
      "lr_Allowed res \<longleftrightarrow> ls_count s < fl_limit l"
      "\<And>later k. now \<le> later \<Longrightarrow> k \<noteq> key \<Longrightarrow> window_of l' later k = window_of l later k"
      "\<And>later. window_of l' later key = (if later < ls_reset s then Some (if lr_Allowed res then s\<lparr>ls_count := ls_count s + 1\<rparr> else s) else None)"
      "limiter_ok l'" "fl_limit l' = fl_limit l" "fl_window l' = fl_window l"
proof -
  define found where "found = map_of (fl_states l) key"
  define full where "full = (found = None \<and> length (fl_states l) \<ge> fl_maxEntries l)"
  define l1 where "l1 = (if full then l\<lparr>fl_states := prune_states now (fl_states l)\<rparr> else l)"
  define s where "s = (case found of None \<Rightarrow> \<lparr>ls_count = 0, ls_reset = now + fl_window l\<rparr>
                           | Some s \<Rightarrow> if \<not> now < ls_reset s then \<lparr>ls_count = 0, ls_reset = now + fl_window l\<rparr> else s)"
  have l1: "limiter_ok l1" "fl_limit l1 = fl_limit l" "fl_window l1 = fl_window l"
    using ok by (auto simp: l1_def limiter_ok_def prune_states_def distinct_map_filter)
  have w1: "window_of l1 later k = window_of l later k" if "now \<le> later" for later k
    using prune_window [OF ok that] by (simp add: l1_def)
  have s: "window_of l now key = Some s \<or> window_of l now key = None \<and> s = \<lparr>ls_count = 0, ls_reset = now + fl_window l\<rparr>"
    by (auto simp: s_def found_def window_of_def split: option.split)
  show ?thesis
  proof (cases "full \<and> length (fl_states l1) \<ge> fl_maxEntries l")
    case True
    then have res: "\<not> lr_Allowed res" "l' = l1"
      using run unfolding Take_def Let_def found_def [symmetric] full_def [symmetric] l1_def [symmetric] by auto
    have "found = None" using True by (simp add: full_def)
    then have "window_of l now key = None" by (simp add: window_of_def found_def)
    with res show ?thesis
      using full l1 w1 by blast
  next
    case False
    let ?s' = "if ls_count s < fl_limit l then s\<lparr>ls_count := ls_count s + 1\<rparr> else s"
    have res: "lr_Allowed res \<longleftrightarrow> ls_count s < fl_limit l" and l': "l' = l1\<lparr>fl_states := AList.update key ?s' (fl_states l1)\<rparr>"
      using run False unfolding Take_def Let_def found_def [symmetric] full_def [symmetric] l1_def [symmetric] s_def [symmetric]
      by (auto split: if_split_asm)
    have "map_of (fl_states l') k = (if k = key then Some ?s' else map_of (fl_states l1) k)" for k
      unfolding l' by (simp add: update_conv)
    then have "window_of l' later k = (if k = key then (if later < ls_reset s then Some ?s' else None) else window_of l1 later k)" for later k
      by (auto simp: window_of_def)
    moreover have "limiter_ok l'"
      using l1(1) by (simp add: l' limiter_ok_def distinct_update)
    ultimately show ?thesis
      using taken [OF s res] w1 l1 res by (auto simp: l')
  qed
qed

lemma Reset_window:
  "key \<noteq> k \<Longrightarrow> window_of (Reset l key) now k = window_of l now k" "limiter_ok l \<Longrightarrow> limiter_ok (Reset l key)"
  by (simp_all add: window_of_def Reset_def limiter_ok_def delete_conv distinct_delete)

subsection \<open>Counting the allowed calls\<close>

definition within :: "time list \<Rightarrow> time \<Rightarrow> time \<Rightarrow> nat" where
  "within ts a b = length (filter (\<lambda>t. a \<le> t \<and> t < b) ts)"

lemma within_Nil [simp]: "within [] a b = 0"
  by (simp add: within_def)

lemma within_snoc [simp]: "within (ts @ [t]) a b = within ts a b + (if a \<le> t \<and> t < b then 1 else 0)"
  by (simp add: within_def)

lemma within_mono: "a' \<le> a \<Longrightarrow> (\<And>t. t \<in> set ts \<Longrightarrow> t < b \<Longrightarrow> t < b') \<Longrightarrow> within ts a b \<le> within ts a' b'"
  unfolding within_def by (induction ts) auto

lemma within_split: "within ts a b \<le> within ts a c + within ts c b"
  unfolding within_def by (induction ts) auto

lemma within_none: "(\<And>t. t \<in> set ts \<Longrightarrow> t < a) \<Longrightarrow> within ts a b = 0"
  unfolding within_def by (simp add: filter_empty_conv) force

text \<open>
  \<open>al\<close> are the instants allowed so far, \<open>g\<close> the start of the latest window of the key: that window
  has given at most \<open>n\<close>, and so has the window before it to any interval that reaches past its start.
\<close>

definition counts_ok :: "nat \<Rightarrow> duration \<Rightarrow> time list \<Rightarrow> time \<Rightarrow> time \<Rightarrow> bool" where
  "counts_ok n w al g now \<longleftrightarrow> g \<le> now \<and> (\<forall>t\<in>set al. t < g + w \<and> t \<le> now) \<and> within al g (g + w) \<le> n
     \<and> (\<forall>a. g - w < a \<longrightarrow> within al a g \<le> n) \<and> (\<forall>a. within al a (a + w) \<le> 2 * n)"

definition window_ok :: "duration \<Rightarrow> string \<Rightarrow> fixedWindowLimiter \<Rightarrow> nat \<Rightarrow> time \<Rightarrow> time \<Rightarrow> bool" where
  "window_ok w k l c g now \<longleftrightarrow>
     (\<forall>later\<ge>now. case window_of l later k of None \<Rightarrow> g + w \<le> later | Some s \<Rightarrow> ls_reset s = g + w \<and> ls_count s = int c)"

definition count_inv :: "nat \<Rightarrow> duration \<Rightarrow> string \<Rightarrow> fixedWindowLimiter \<Rightarrow> time list \<Rightarrow> time \<Rightarrow> time \<Rightarrow> bool" where
  "count_inv n w k l al g now \<longleftrightarrow> limiter_ok l \<and> fl_limit l = int n \<and> fl_window l = w \<and> counts_ok n w al g now
     \<and> window_ok w k l (within al g (g + w)) g now"

lemma two_windows:
  assumes "\<And>t. t \<in> set al \<Longrightarrow> t < g + w" and "within al g (g + w) \<le> n" and "\<And>a. g - w < a \<Longrightarrow> within al a g \<le> n" and "g - w < a"
  shows "within al a (a + w) \<le> 2 * n"
proof (cases "a \<le> g")
  case True
  have "within al a (a + w) \<le> within al a g + within al g (a + w)" by (rule within_split)
  also have "within al g (a + w) \<le> within al g (g + w)" using assms(1) by (intro within_mono) auto
  finally show ?thesis using assms(2) assms(3) [OF assms(4)] by linarith
next
  case False
  then have "within al a (a + w) \<le> within al g (g + w)" using assms(1) by (intro within_mono) auto
  with assms(2) show ?thesis by linarith
qed

lemma window_ok_at:
  "window_ok w k l c g now \<Longrightarrow> now \<le> later \<Longrightarrow>
    (case window_of l later k of None \<Rightarrow> g + w \<le> later | Some s \<Rightarrow> ls_reset s = g + w \<and> ls_count s = int c)"
  by (simp add: window_ok_def)

lemma counts_ok_later: "counts_ok n w al g now \<Longrightarrow> now \<le> now' \<Longrightarrow> counts_ok n w al g now'"
  unfolding counts_ok_def by (meson order_trans)

lemma window_ok_later:
  assumes "window_ok w k l c g now" and "now \<le> now'" and "\<And>later. now' \<le> later \<Longrightarrow> window_of l' later k = window_of l later k"
  shows "window_ok w k l' c g now'"
  unfolding window_ok_def
proof (intro allI impI)
  fix later assume "now' \<le> later"
  then show "case window_of l' later k of None \<Rightarrow> g + w \<le> later | Some s \<Rightarrow> ls_reset s = g + w \<and> ls_count s = int c"
    using assms by (simp add: window_ok_def)
qed

lemma count_inv_later:
  assumes "count_inv n w k l al g now" and "now \<le> now'" and "limiter_ok l'" "fl_limit l' = fl_limit l" "fl_window l' = fl_window l"
    and "\<And>later. now' \<le> later \<Longrightarrow> window_of l' later k = window_of l later k"
  shows "count_inv n w k l' al g now'"
  using assms counts_ok_later window_ok_later [of w k l _ g now now' l'] unfolding count_inv_def by auto

text \<open>A call in the running window.\<close>

lemma counts_ok_same:
  assumes ok: "counts_ok n w al g now" and now': "now \<le> now'" "now' < g + w" and c: "within al g (g + w) < n"
  shows "counts_ok n w (al @ [now']) g now'"
proof -
  have g: "g \<le> now'" using ok now'(1) by (simp add: counts_ok_def)
  have t: "\<forall>t\<in>set (al @ [now']). t < g + w \<and> t \<le> now'" using ok now' by (auto simp: counts_ok_def)
  have c': "within (al @ [now']) g (g + w) \<le> n" using c by simp
  have p: "within (al @ [now']) a g \<le> n" if "g - w < a" for a
    using ok that g by (simp add: counts_ok_def)
  have "within (al @ [now']) a (a + w) \<le> 2 * n" for a
  proof (cases "g - w < a")
    case True
    then show ?thesis using t c' p by (intro two_windows [of "al @ [now']" g w n a]) blast+
  next
    case False
    then have "within (al @ [now']) a (a + w) = within al a (a + w)" using g by auto
    with ok show ?thesis by (simp add: counts_ok_def)
  qed
  with t c' p g show ?thesis unfolding counts_ok_def by blast
qed

lemma count_inv_same_window:
  assumes inv: "count_inv n w k l al g now" and now': "now \<le> now'" and s: "window_of l now' k = Some s"
    and l': "limiter_ok l'" "fl_limit l' = fl_limit l" "fl_window l' = fl_window l"
    and w': "\<And>later. window_of l' later k = (if later < ls_reset s then Some (if b then s\<lparr>ls_count := ls_count s + 1\<rparr> else s) else None)"
    and b: "b \<longleftrightarrow> ls_count s < fl_limit l"
  shows "count_inv n w k l' (if b then al @ [now'] else al) g now'"
proof -
  have "ls_reset s = g + w \<and> ls_count s = int (within al g (g + w))"
    using window_ok_at [of w k l "within al g (g + w)" g now now'] inv now' s by (simp add: count_inv_def)
  then have r: "ls_reset s = g + w" "ls_count s = int (within al g (g + w))" by blast+
  have end': "now' < g + w"
    using s r(1) by (auto simp: window_of_def split: option.split_asm if_split_asm)
  have ok: "counts_ok n w al g now" and L: "fl_limit l = int n" using inv by (simp_all add: count_inv_def)
  have g: "g \<le> now'" using ok now' by (simp add: counts_ok_def)
  let ?al = "if b then al @ [now'] else al"
  have "counts_ok n w ?al g now'"
    using counts_ok_same [OF ok now' end'] counts_ok_later [OF ok now'] b r(2) L by auto
  moreover have "within ?al g (g + w) = within al g (g + w) + (if b then 1 else 0)"
    using g end' by simp
  then have "window_ok w k l' (within ?al g (g + w)) g now'"
    unfolding window_ok_def using r by (auto simp: w')
  ultimately show ?thesis
    using inv l' by (simp add: count_inv_def)
qed

text \<open>A call that opens a window.\<close>

lemma counts_ok_new:
  assumes ok: "counts_ok n w al g now" and ended: "g + w \<le> now'" and w: "0 < w" and b: "b \<longrightarrow> 0 < n"
  shows "counts_ok n w (if b then al @ [now'] else al) now' now'" and "within (if b then al @ [now'] else al) now' (now' + w) = (if b then 1 else 0)"
proof -
  have old: "\<And>t. t \<in> set al \<Longrightarrow> t < g + w" and c0: "within al g (g + w) \<le> n"
    using ok by (auto simp: counts_ok_def)
  let ?al = "if b then al @ [now'] else al"
  have "t < now'" if "t \<in> set al" for t
    using old [OF that] ended by linarith
  then have zero: "within al now' (now' + w) = 0" by (rule within_none)
  then show c: "within ?al now' (now' + w) = (if b then 1 else 0)" using w by simp
  have t: "t < now' + w \<and> t \<le> now'" if "t \<in> set ?al" for t
    using that old [of t] ended w by (auto split: if_split_asm)
  have cn: "within ?al now' (now' + w) \<le> n" using b c by auto
  have p: "within ?al a now' \<le> n" if "now' - w < a" for a
  proof -
    have "within ?al a now' = within al a now'" by simp
    also have "\<dots> \<le> within al g (g + w)" using that ended old by (intro within_mono) auto
    finally show ?thesis using c0 by simp
  qed
  have "within ?al a (a + w) \<le> 2 * n" for a
  proof (cases "now' - w < a")
    case True
    then show ?thesis using t cn p by (intro two_windows [of ?al now' w n a]) blast+
  next
    case False
    then have "within ?al a (a + w) = within al a (a + w)" by auto
    with ok show ?thesis by (simp add: counts_ok_def)
  qed
  with t cn p show "counts_ok n w ?al now' now'" unfolding counts_ok_def by blast
qed

lemma count_inv_new_window:
  assumes inv: "count_inv n w k l al g now" and now': "now \<le> now'" and none: "window_of l now' k = None" and w: "0 < w"
    and l': "limiter_ok l'" "fl_limit l' = fl_limit l" "fl_window l' = fl_window l"
    and w': "\<And>later. window_of l' later k = (if later < now' + w then Some \<lparr>ls_count = (if b then 1 else 0), ls_reset = now' + w\<rparr> else None)"
    and b: "b \<longleftrightarrow> 0 < fl_limit l"
  shows "count_inv n w k l' (if b then al @ [now'] else al) now' now'"
proof -
  have "g + w \<le> now'"
    using window_ok_at [of w k l "within al g (g + w)" g now now'] inv now' none by (simp add: count_inv_def)
  moreover have "counts_ok n w al g now" "b \<longrightarrow> 0 < n" using inv b by (simp_all add: count_inv_def)
  ultimately have new: "counts_ok n w (if b then al @ [now'] else al) now' now'"
      "within (if b then al @ [now'] else al) now' (now' + w) = (if b then 1 else 0)"
    using counts_ok_new w by blast+
  have "window_ok w k l' (if b then 1 else 0) now' now'"
    by (auto simp: window_ok_def w')
  then show ?thesis
    unfolding count_inv_def new(2) using new(1) inv l' by (simp add: count_inv_def)
qed

lemma allowed_times_bounded:
  assumes "count_inv n w k l al g now" and "0 < w" and "sorted (now # call_times calls)" and "ResetKey k \<notin> set calls"
  shows "within (al @ allowed_times k l calls) a (a + w) \<le> 2 * n"
  using assms(1,3,4)
proof (induction calls arbitrary: l al g now)
  case Nil
  then show ?case by (simp add: count_inv_def counts_ok_def)
next
  case (Cons call calls)
  show ?case
  proof (cases call)
    case (ResetKey key)
    then have "key \<noteq> k" using Cons.prems(3) by auto
    then have "count_inv n w k (Reset l key) al g now"
      using Cons.prems(1) by (intro count_inv_later [OF Cons.prems(1)]) (simp_all add: Reset_window count_inv_def, simp_all add: Reset_def)
    with Cons ResetKey show ?thesis by simp
  next
    case (TakeAt now' key)
    obtain res l' where run: "Take now' l key = (res, l')" by fastforce
    have now': "now \<le> now'" "sorted (now' # call_times calls)" "ResetKey k \<notin> set calls"
      using Cons.prems(2,3) TakeAt by auto
    have W: "fl_window l = w" and ok: "limiter_ok l" using Cons.prems(1) by (simp_all add: count_inv_def)
    show ?thesis
    proof (cases "key = k")
      case False
      from run ok have "count_inv n w k l' al g now'"
      proof (cases rule: Take_cases)
        case full
        then show ?thesis by (intro count_inv_later [OF Cons.prems(1) now'(1)]) auto
      next
        case (taken s)
        then show ?thesis using False by (intro count_inv_later [OF Cons.prems(1) now'(1)]) auto
      qed
      from Cons.IH [OF this now'(2,3)] show ?thesis using TakeAt run False by simp
    next
      case True
      from run ok show ?thesis
      proof (cases rule: Take_cases)
        case full
        then have "count_inv n w k l' al g now'" by (intro count_inv_later [OF Cons.prems(1) now'(1)]) auto
        from Cons.IH [OF this now'(2,3)] show ?thesis using TakeAt run full(1) by simp
      next
        case (taken s)
        let ?al = "if lr_Allowed res then al @ [now'] else al"
        have "\<exists>g'. count_inv n w k l' ?al g' now'"
        proof (cases "window_of l now' k")
          case (Some s')
          then have "s' = s" using taken(1) True by auto
          with Some taken(2,4-7) True count_inv_same_window [OF Cons.prems(1) now'(1), of s l' "lr_Allowed res"] show ?thesis by blast
        next
          case None
          then have s: "s = \<lparr>ls_count = 0, ls_reset = now' + w\<rparr>" using taken(1) True W by auto
          have "window_of l' later k = (if later < now' + w then Some \<lparr>ls_count = (if lr_Allowed res then 1 else 0), ls_reset = now' + w\<rparr> else None)" for later
            using taken(4) [of later] True by (simp add: s)
          moreover have "lr_Allowed res \<longleftrightarrow> 0 < fl_limit l"
            using taken(2) by (simp add: s)
          ultimately show ?thesis
            using count_inv_new_window [OF Cons.prems(1) now'(1) None assms(2) taken(5-7)] by blast
        qed
        then obtain g' where "count_inv n w k l' ?al g' now'" by blast
        from Cons.IH [OF this now'(2,3)] show ?thesis
          using TakeAt run True by (cases "lr_Allowed res") simp_all
      qed
    qed
  qed
qed

lemma count_inv_new:
  assumes "0 < w"
  shows "count_inv n w k (newFixedWindowLimiter (int n) w) [] (now - w) now"
  using assms by (simp add: count_inv_def counts_ok_def window_ok_def newFixedWindowLimiter_def limiter_ok_def window_of_def)

subsection \<open>The bound\<close>



end
