(* ===== verification/Voice.thy ===== *)
theory Voice
  imports Channels Base64
begin

section \<open>Voice\<close>

text \<open>
  Package \<open>voice\<close>: who is in which voice channel (\<open>service.go\<close>, \<open>sort.go\<close>), the interface
  \<open>Provider\<close> (\<open>provider.go\<close>) and LiveKit (\<open>livekit.go\<close>). The entries are a map that a mutex guards.
  What the program calls on the way is part of the state: the provider has a state of its own, and
  the calls of \<open>notify\<close> are recorded in order. \<open>UpdateState\<close> releases the mutex while it asks for
  authorization, so it takes what other requests do at that point as an argument. A nil pointer that
  the Go code would dereference is the outcome \<open>VoicePanic\<close>. JSON, HMAC-SHA256, \<open>url.Parse\<close> and the
  HTTP request are arguments. Logging is left out.
\<close>

subsection \<open>Providers\<close>

record SessionRequest =
  sq_Room :: uuid
  sq_Identity :: uuid
  sq_DisplayName :: string
  sq_CanSpeak :: bool
  sq_CanStream :: bool
  sq_TTL :: duration

record ProviderSession =
  ps_Provider :: string
  ps_Endpoint :: string
  ps_Credential :: string
  ps_ExpiresAt :: time

record 'p Provider =
  IssueSession :: "'p \<Rightarrow> SessionRequest \<Rightarrow> (string + ProviderSession) \<times> 'p"
  CloseSession :: "'p \<Rightarrow> uuid \<Rightarrow> uuid \<Rightarrow> string option \<times> 'p"

subsection \<open>The service\<close>

definition sessionTTL :: duration where "sessionTTL = 10 * time_Minute"

record State =
  st_UserID :: uuid
  st_ChannelID :: "uuid option"
  st_SessionID :: "uuid option"
  st_SelfMute :: bool
  st_SelfDeaf :: bool
  st_SelfVideo :: bool
  st_SelfStream :: bool
  st_UpdatedAt :: time

record Session =
  vs_ID :: uuid
  vs_Provider :: ProviderSession
  vs_State :: State

record Update =
  up_SelfMute :: "bool option"
  up_SelfDeaf :: "bool option"
  up_SelfVideo :: "bool option"
  up_SelfStream :: "bool option"

record entry =
  e_state :: State
  e_guildID :: uuid

datatype voice_error = VoiceUnavailable | VoiceChat chat_error | VoiceProvider string | VoiceNoID | VoicePanic

record 'p Service =
  v_entries :: "uuid \<rightharpoonup> entry"
  v_provider :: 'p
  v_notify :: bool
  v_notified :: "(uuid \<times> State) list"

text \<open>\<open>New\<close> and \<open>SetNotifier\<close>; the provider may be nil.\<close>

definition Voice_New :: "'p \<Rightarrow> 'p Service" where
  "Voice_New p = \<lparr>v_entries = Map.empty, v_provider = p, v_notify = False, v_notified = []\<rparr>"

definition SetNotifier :: "'p Service \<Rightarrow> 'p Service" where
  "SetNotifier s = s\<lparr>v_notify := True\<rparr>"

definition notify :: "uuid \<Rightarrow> State \<Rightarrow> 'p Service \<Rightarrow> 'p Service" where
  "notify guildID state s = (if v_notify s then s\<lparr>v_notified := v_notified s @ [(guildID, state)]\<rparr> else s)"

definition leftState :: "uuid \<Rightarrow> time \<Rightarrow> State" where
  "leftState userID now = \<lparr>st_UserID = userID, st_ChannelID = None, st_SessionID = None, st_SelfMute = False,
     st_SelfDeaf = False, st_SelfVideo = False, st_SelfStream = False, st_UpdatedAt = now\<rparr>"

text \<open>A failure of the provider is only logged.\<close>

definition closeProvider :: "'p Provider option \<Rightarrow> entry \<Rightarrow> 'p Service \<Rightarrow> 'p Service" where
  "closeProvider provider item s =
     (case provider of None \<Rightarrow> s
      | Some p \<Rightarrow> (case st_ChannelID (e_state item) of None \<Rightarrow> s
      | Some channelID \<Rightarrow> s\<lparr>v_provider := snd (CloseSession p (v_provider s) channelID (st_UserID (e_state item)))\<rparr>))"

text \<open>\<open>authorize\<close> is the method of the interface \<open>Channels\<close>; \<open>gen\<close> the identifier generator.\<close>

definition Join ::
  "'p Provider option \<Rightarrow> (uuid \<Rightarrow> uuid \<Rightarrow> (Channel \<times> Access) result) \<Rightarrow> uuid option \<Rightarrow> time \<Rightarrow> uuid \<Rightarrow> string \<Rightarrow> uuid
     \<Rightarrow> bool \<Rightarrow> bool \<Rightarrow> 'p Service \<Rightarrow> (voice_error + Session) \<times> 'p Service" where
  "Join provider authorize gen now userID displayName channelID selfMute selfDeaf s =
     (case provider of None \<Rightarrow> (Inl VoiceUnavailable, s)
      | Some p \<Rightarrow> (case authorize userID channelID of Inl err \<Rightarrow> (Inl (VoiceChat err), s)
      | Inr (channel, access) \<Rightarrow> (case gen of None \<Rightarrow> (Inl VoiceNoID, s)
      | Some sessionID \<Rightarrow> (case IssueSession p (v_provider s)
            \<lparr>sq_Room = channelID, sq_Identity = userID, sq_DisplayName = displayName, sq_CanSpeak = Has access PermSpeak,
             sq_CanStream = Has access PermStream, sq_TTL = sessionTTL\<rparr> of
          (Inl err, p') \<Rightarrow> (Inl (VoiceProvider err), s\<lparr>v_provider := p'\<rparr>)
        | (Inr session, p') \<Rightarrow>
            let state = \<lparr>st_UserID = userID, st_ChannelID = Some channelID, st_SessionID = Some sessionID, st_SelfMute = selfMute,
                         st_SelfDeaf = selfDeaf, st_SelfVideo = False, st_SelfStream = False, st_UpdatedAt = now\<rparr>;
                previous = v_entries s userID
            in (case c_GuildID channel of None \<Rightarrow> (Inl VoicePanic, s\<lparr>v_provider := p'\<rparr>)
                | Some guildID \<Rightarrow>
                    let s1 = s\<lparr>v_provider := p', v_entries := (v_entries s)(userID \<mapsto> \<lparr>e_state = state, e_guildID = guildID\<rparr>)\<rparr>;
                        s2 = (case previous of None \<Rightarrow> s1
                              | Some old \<Rightarrow>
                                  if st_ChannelID (e_state old) \<noteq> Some channelID
                                  then notify (e_guildID old) (leftState userID now) (closeProvider provider old s1)
                                  else s1)
                    in (Inr \<lparr>vs_ID = sessionID, vs_Provider = session, vs_State = state\<rparr>, notify guildID state s2))))))"

definition Evict :: "'p Provider option \<Rightarrow> time \<Rightarrow> uuid \<Rightarrow> 'p Service \<Rightarrow> bool \<times> 'p Service" where
  "Evict provider now userID s =
     (case v_entries s userID of None \<Rightarrow> (False, s)
      | Some previous \<Rightarrow>
          (True, notify (e_guildID previous) (leftState userID now)
                   (closeProvider provider previous (s\<lparr>v_entries := (v_entries s)(userID := None)\<rparr>))))"

definition Leave :: "'p Provider option \<Rightarrow> time \<Rightarrow> uuid \<Rightarrow> 'p Service \<Rightarrow> (voice_error + unit) \<times> 'p Service" where
  "Leave provider now userID s =
     (case Evict provider now userID s of (present, s') \<Rightarrow>
        if \<not> present then (Inl (VoiceChat ErrNotFound), s') else (Inr (), s'))"

definition apply_flag :: "bool \<Rightarrow> bool option \<Rightarrow> bool" where
  "apply_flag target value = (case value of None \<Rightarrow> target | Some b \<Rightarrow> b)"

definition isTrue :: "bool option \<Rightarrow> bool" where
  "isTrue value = (value = Some True)"

definition apply_update :: "Update \<Rightarrow> time \<Rightarrow> State \<Rightarrow> State" where
  "apply_update update now state = state\<lparr>st_SelfMute := apply_flag (st_SelfMute state) (up_SelfMute update),
     st_SelfDeaf := apply_flag (st_SelfDeaf state) (up_SelfDeaf update),
     st_SelfVideo := apply_flag (st_SelfVideo state) (up_SelfVideo update),
     st_SelfStream := apply_flag (st_SelfStream state) (up_SelfStream update), st_UpdatedAt := now\<rparr>"

text \<open>\<open>others\<close> is what other requests do while the mutex is released.\<close>

definition UpdateState ::
  "'p Provider option \<Rightarrow> (uuid \<Rightarrow> uuid \<Rightarrow> (Channel \<times> Access) result) \<Rightarrow> ('p Service \<Rightarrow> 'p Service) \<Rightarrow> time \<Rightarrow> uuid \<Rightarrow> Update
     \<Rightarrow> 'p Service \<Rightarrow> (voice_error + State) \<times> 'p Service" where
  "UpdateState provider authorize others now userID update s0 =
     (case v_entries s0 userID of None \<Rightarrow> (Inl (VoiceChat ErrNotFound), s0)
      | Some current \<Rightarrow> (case st_ChannelID (e_state current) of None \<Rightarrow> (Inl VoicePanic, s0)
      | Some channelID \<Rightarrow>
          let s = others s0 in
          (case authorize userID channelID of
             Inl err \<Rightarrow> (Inl (VoiceChat err), snd (Evict provider now userID s))
           | Inr (_, access) \<Rightarrow>
               if (isTrue (up_SelfVideo update) \<or> isTrue (up_SelfStream update)) \<and> \<not> Has access PermStream
               then (Inl (VoiceChat ErrForbidden), s)
               else (case v_entries s userID of None \<Rightarrow> (Inl (VoiceChat ErrNotFound), s)
               | Some entryNow \<Rightarrow>
                   if st_SessionID (e_state entryNow) \<noteq> st_SessionID (e_state current) then (Inl (VoiceChat ErrNotFound), s)
                   else let state = apply_update update now (e_state entryNow)
                        in (Inr state, notify (e_guildID entryNow) state
                             (s\<lparr>v_entries := (v_entries s)(userID \<mapsto> entryNow\<lparr>e_state := state\<rparr>)\<rparr>))))))"

text \<open>\<open>sortStates\<close>: by the text of the user, which orders like the identifier; each user occurs once.\<close>

definition sortStates :: "State list \<Rightarrow> State list" where
  "sortStates states = sort_key st_UserID states"

text \<open>\<open>ids\<close> are the users of the entries in the order in which the loop meets them.\<close>

definition Voice_List ::
  "(uuid \<Rightarrow> uuid \<Rightarrow> Channel result) \<Rightarrow> uuid list \<Rightarrow> uuid \<Rightarrow> uuid \<Rightarrow> 'p Service \<Rightarrow> State list result" where
  "Voice_List view ids userID channelID s =
     (case view userID channelID of Inl err \<Rightarrow> Inl err
      | Inr _ \<Rightarrow> Inr (sortStates (filter (\<lambda>st. st_ChannelID st = Some channelID)
                   (List.map_filter (\<lambda>u. map_option e_state (v_entries s u)) ids))))"

subsection \<open>LiveKit\<close>

abbreviation ProviderLiveKit :: string where "ProviderLiveKit \<equiv> ''livekit''"

record LiveKitConfig =
  lk_URL :: string
  lk_APIURL :: string
  lk_APIKey :: string
  lk_APISecret :: string

record parsed_url =
  url_Scheme :: string
  url_Host :: string

definition strings_TrimRight_slash :: "string \<Rightarrow> string" where
  "strings_TrimRight_slash s = rev (dropWhile (\<lambda>c. c = CHR ''/'') (rev s))"

definition livekit_api_default :: "parsed_url \<Rightarrow> string" where
  "livekit_api_default endpoint = (if url_Scheme endpoint = ''ws'' then ''http'' else ''https'') @ ''://'' @ url_Host endpoint"

definition NewLiveKit :: "(string \<Rightarrow> parsed_url option) \<Rightarrow> LiveKitConfig \<Rightarrow> string + LiveKitConfig" where
  "NewLiveKit url_Parse config =
     (if lk_APIKey config = [] \<or> lk_APISecret config = [] then Inl ''livekit API key and secret are required''
      else (case url_Parse (lk_URL config) of None \<Rightarrow> Inl ''livekit URL must use ws or wss''
      | Some endpoint \<Rightarrow>
          if url_Scheme endpoint \<noteq> ''ws'' \<and> url_Scheme endpoint \<noteq> ''wss'' \<or> url_Host endpoint = []
          then Inl ''livekit URL must use ws or wss''
          else let api = (if lk_APIURL config = [] then livekit_api_default endpoint else lk_APIURL config) in
            (case url_Parse api of None \<Rightarrow> Inl ''livekit API URL must use http or https''
             | Some apiURL \<Rightarrow>
                 if url_Scheme apiURL \<noteq> ''http'' \<and> url_Scheme apiURL \<noteq> ''https'' \<or> url_Host apiURL = []
                 then Inl ''livekit API URL must use http or https''
                 else Inr (config\<lparr>lk_APIURL := strings_TrimRight_slash api\<rparr>))))"

text \<open>The claims of the two kinds of token.\<close>

datatype livekit_claims =
    JoinClaims (jc_iss: string) (jc_sub: string) (jc_name: string) (jc_nbf: int) (jc_exp: int) (jc_room: string)
      (jc_canPublish: bool) (jc_sources: "string list")
  | AdminClaims (ac_iss: string) (ac_nbf: int) (ac_exp: int) (ac_room: string)

text \<open>What the package uses of other libraries: JSON, HMAC-SHA256, the text of identifiers, \<open>Time.Unix\<close>, the client.\<close>

record livekit_lib =
  ll_Marshal :: "livekit_claims \<Rightarrow> string option"
  ll_MarshalBody :: "string \<Rightarrow> string \<Rightarrow> string option"
  ll_hmac :: "string \<Rightarrow> string \<Rightarrow> string"
  ll_uuid_String :: "uuid \<Rightarrow> string"
  ll_Unix :: "time \<Rightarrow> int"

definition signHS256 :: "(string \<Rightarrow> string \<Rightarrow> string) \<Rightarrow> string \<Rightarrow> string \<Rightarrow> string \<Rightarrow> string" where
  "signHS256 hmac header payload secret =
     (let signingInput = RawURLEncoding_EncodeToString header @ ''.'' @ RawURLEncoding_EncodeToString payload
      in signingInput @ ''.'' @ RawURLEncoding_EncodeToString (hmac secret signingInput))"

definition jwt_header :: string where
  "jwt_header = [CHR ''{'', CHR 0x22] @ ''alg'' @ [CHR 0x22, CHR '':'', CHR 0x22] @ ''HS256'' @ [CHR 0x22, CHR '','', CHR 0x22]
     @ ''typ'' @ [CHR 0x22, CHR '':'', CHR 0x22] @ ''JWT'' @ [CHR 0x22, CHR ''}'']"

definition LiveKit_sign :: "livekit_lib \<Rightarrow> LiveKitConfig \<Rightarrow> livekit_claims \<Rightarrow> string option" where
  "LiveKit_sign lib config claims =
     (case ll_Marshal lib claims of None \<Rightarrow> None
      | Some payload \<Rightarrow> Some (signHS256 (ll_hmac lib) jwt_header payload (lk_APISecret config)))"

definition LiveKit_sources :: "bool \<Rightarrow> string list" where
  "LiveKit_sources canStream = ''microphone'' # (if canStream then [''camera'', ''screen_share'', ''screen_share_audio''] else [])"

definition LiveKit_IssueSession :: "livekit_lib \<Rightarrow> LiveKitConfig \<Rightarrow> time \<Rightarrow> SessionRequest \<Rightarrow> string + ProviderSession" where
  "LiveKit_IssueSession lib config now request =
     (let expiresAt = now + sq_TTL request in
      (case LiveKit_sign lib config (JoinClaims (lk_APIKey config) (ll_uuid_String lib (sq_Identity request)) (sq_DisplayName request)
              (ll_Unix lib now) (ll_Unix lib expiresAt) (ll_uuid_String lib (sq_Room request)) (sq_CanSpeak request)
              (LiveKit_sources (sq_CanStream request))) of
         None \<Rightarrow> Inl ''marshal''
       | Some token \<Rightarrow> Inr \<lparr>ps_Provider = ProviderLiveKit, ps_Endpoint = lk_URL config, ps_Credential = token, ps_ExpiresAt = expiresAt\<rparr>))"

text \<open>The request to the room service; \<open>post\<close> sends it and answers with the status, if there is one.\<close>

record livekit_request =
  lq_URL :: string
  lq_Authorization :: string
  lq_Body :: string

definition LiveKit_CloseSession ::
  "livekit_lib \<Rightarrow> LiveKitConfig \<Rightarrow> ('p \<Rightarrow> livekit_request \<Rightarrow> int option \<times> 'p) \<Rightarrow> time \<Rightarrow> 'p \<Rightarrow> uuid \<Rightarrow> uuid \<Rightarrow> string option \<times> 'p" where
  "LiveKit_CloseSession lib config post now p room identity =
     (case LiveKit_sign lib config (AdminClaims (lk_APIKey config) (ll_Unix lib now) (ll_Unix lib (now + time_Minute)) (ll_uuid_String lib room)) of
        None \<Rightarrow> (Some ''marshal'', p)
      | Some token \<Rightarrow> (case ll_MarshalBody lib (ll_uuid_String lib room) (ll_uuid_String lib identity) of None \<Rightarrow> (Some ''marshal'', p)
      | Some body \<Rightarrow> (case post p \<lparr>lq_URL = lk_APIURL config @ ''/twirp/livekit.RoomService/RemoveParticipant'',
                               lq_Authorization = ''Bearer '' @ token, lq_Body = body\<rparr> of
          (None, p') \<Rightarrow> (Some ''remove livekit participant'', p')
        | (Some status, p') \<Rightarrow>
            if status \<noteq> 200 \<and> status \<noteq> 404 then (Some ''remove livekit participant: unexpected status'', p') else (None, p'))))"

definition LiveKit_methods :: "livekit_lib \<Rightarrow> LiveKitConfig \<Rightarrow> ('p \<Rightarrow> livekit_request \<Rightarrow> int option \<times> 'p) \<Rightarrow> time \<Rightarrow> 'p Provider" where
  "LiveKit_methods lib config post now = \<lparr>IssueSession = \<lambda>p request. (LiveKit_IssueSession lib config now request, p),
     CloseSession = LiveKit_CloseSession lib config post now\<rparr>"

end
