(* ===== verification/Voice_Claims.thy ===== *)
theory Voice_Claims
  imports Voice Guild_Claims Decimal
begin

section \<open>Properties of voice\<close>

text \<open>
  What listeners of a guild see is who is in its voice channels, over every run of the service; and a
  credential is worth exactly what the permissions of the member say.
\<close>

subsection \<open>What the service relies on\<close>

text \<open>
  The service dereferences the guild of the channel it was given, and takes that a channel stays in
  its guild: \<open>guild_of\<close>. The interface states both; the chat service keeps them.
\<close>

locale voice_channels =
  fixes authorize :: "uuid \<Rightarrow> uuid \<Rightarrow> (Channel \<times> Access) result" and guild_of :: "uuid \<Rightarrow> uuid"
  assumes authorized_guild: "authorize u c = Inr (ch, a) \<Longrightarrow> c_GuildID ch = Some (guild_of c)"

text \<open>What the listeners of the guild \<open>g\<close> know after a sequence of notifications.\<close>

definition hear :: "uuid \<Rightarrow> (uuid \<rightharpoonup> State) \<Rightarrow> uuid \<times> State \<Rightarrow> (uuid \<rightharpoonup> State)" where
  "hear g m n = (case n of (g', st) \<Rightarrow>
     if g' \<noteq> g then m else m(st_UserID st := (if st_ChannelID st = None then None else Some st)))"

definition listeners :: "uuid \<Rightarrow> (uuid \<times> State) list \<Rightarrow> (uuid \<rightharpoonup> State)" where
  "listeners g ns = foldl (hear g) Map.empty ns"

definition present :: "uuid \<Rightarrow> 'p Service \<Rightarrow> (uuid \<rightharpoonup> State)" where
  "present g s = (\<lambda>u. case v_entries s u of None \<Rightarrow> None | Some e \<Rightarrow> if e_guildID e = g then Some (e_state e) else None)"

text \<open>An entry is of its user, in a channel of its guild, under a session.\<close>

definition entries_ok :: "(uuid \<Rightarrow> uuid) \<Rightarrow> 'p Service \<Rightarrow> bool" where
  "entries_ok guild_of s \<longleftrightarrow> (\<forall>u e. v_entries s u = Some e \<longrightarrow> st_UserID (e_state e) = u \<and> st_SessionID (e_state e) \<noteq> None
     \<and> (\<exists>c. st_ChannelID (e_state e) = Some c \<and> e_guildID e = guild_of c))"

definition voice_inv :: "(uuid \<Rightarrow> uuid) \<Rightarrow> 'p Service \<Rightarrow> bool" where
  "voice_inv guild_of s \<longleftrightarrow> entries_ok guild_of s \<and> v_notify s \<and> (\<forall>g. listeners g (v_notified s) = present g s)"

lemma listeners_snoc [simp]: "listeners g (ns @ [n]) = hear g (listeners g ns) n"
  by (simp add: listeners_def)

lemma closeProvider_simps [simp]:
  "v_entries (closeProvider p e s) = v_entries s" "v_notify (closeProvider p e s) = v_notify s" "v_notified (closeProvider p e s) = v_notified s"
  by (simp_all add: closeProvider_def split: option.split)

lemma notify_simps [simp]:
  "v_entries (notify g st s) = v_entries s" "v_notify (notify g st s) = v_notify s"
  "v_notify s \<Longrightarrow> v_notified (notify g st s) = v_notified s @ [(g, st)]"
  by (simp_all add: notify_def)

lemma leftState_simps [simp]: "st_UserID (leftState u t) = u" "st_ChannelID (leftState u t) = None"
  by (simp_all add: leftState_def)

text \<open>A user leaves: the guild of the entry is told.\<close>

lemma voice_inv_remove:
  assumes inv: "voice_inv gof s" and e: "v_entries s u = Some e"
    and s': "v_entries s' = (v_entries s)(u := None)" "v_notify s'" "v_notified s' = v_notified s @ [(e_guildID e, leftState u t)]"
  shows "voice_inv gof s'"
proof -
  have "listeners g (v_notified s') = present g s'" for g
    using inv e by (auto simp: voice_inv_def s' hear_def present_def fun_eq_iff split: option.split)
  moreover have "entries_ok gof s'"
    using inv by (auto simp: voice_inv_def entries_ok_def s')
  ultimately show ?thesis by (simp add: voice_inv_def s'(2))
qed

text \<open>A user is put, or stays, in a channel of a guild in which no other guild saw it.\<close>

lemma voice_inv_put:
  assumes inv: "voice_inv gof s" and e: "\<forall>e. v_entries s u = Some e \<longrightarrow> e_guildID e = g"
    and st: "st_UserID st = u" "st_ChannelID st = Some c" "g = gof c" "st_SessionID st \<noteq> None"
    and s': "v_entries s' = (v_entries s)(u \<mapsto> \<lparr>e_state = st, e_guildID = g\<rparr>)" "v_notify s'" "v_notified s' = v_notified s @ [(g, st)]"
  shows "voice_inv gof s'"
proof -
  have "listeners g' (v_notified s') = present g' s'" for g'
    using inv e st by (auto simp: voice_inv_def s' hear_def present_def fun_eq_iff split: option.split)
  moreover have "entries_ok gof s'"
    using inv st by (auto simp: voice_inv_def entries_ok_def s')
  ultimately show ?thesis by (simp add: voice_inv_def s'(2))
qed

lemma voice_inv_provider: "voice_inv gof (s\<lparr>v_provider := p\<rparr>) = voice_inv gof s"
  by (simp add: voice_inv_def entries_ok_def present_def)

lemma Evict_inv:
  assumes inv: "voice_inv gof s"
  shows "voice_inv gof (snd (Evict provider now u s))"
proof (cases "v_entries s u")
  case None
  then show ?thesis using inv by (simp add: Evict_def)
next
  case (Some e)
  show ?thesis
    by (rule voice_inv_remove [OF inv Some]) (use inv in \<open>simp_all add: Evict_def Some voice_inv_def\<close>)
qed

lemma Leave_inv: "Leave provider now u s = (res, s') \<Longrightarrow> voice_inv gof s \<Longrightarrow> voice_inv gof s'"
  using Evict_inv [of gof s provider now u] by (auto simp: Leave_def split: prod.split_asm if_split_asm)

context voice_channels begin

lemma Join_inv:
  assumes run: "Join provider authorize gen now u name c mute deaf s = (res, s')" and inv: "voice_inv guild_of s"
  shows "voice_inv guild_of s'"
proof (cases "\<exists>e. res = Inl e")
  case True
  then show ?thesis
    using run inv authorized_guild unfolding Join_def Let_def
    by (auto simp: voice_inv_provider split: option.split_asm sum.split_asm prod.split_asm)
next
  case False
  then obtain p ch a sid ses p' where run': "provider = Some p" "authorize u c = Inr (ch, a)" "gen = Some sid"
      "IssueSession p (v_provider s) \<lparr>sq_Room = c, sq_Identity = u, sq_DisplayName = name, sq_CanSpeak = Has a PermSpeak,
             sq_CanStream = Has a PermStream, sq_TTL = sessionTTL\<rparr> = (Inr ses, p')"
    using run unfolding Join_def Let_def by (auto split: option.split_asm sum.split_asm prod.split_asm)
  have g: "c_GuildID ch = Some (guild_of c)" by (rule authorized_guild [OF run'(2)])
  let ?st = "\<lparr>st_UserID = u, st_ChannelID = Some c, st_SessionID = Some sid, st_SelfMute = mute,
                         st_SelfDeaf = deaf, st_SelfVideo = False, st_SelfStream = False, st_UpdatedAt = now\<rparr>"
  let ?s0 = "s\<lparr>v_provider := p'\<rparr>"
  let ?s1 = "s\<lparr>v_provider := p', v_entries := (v_entries s)(u \<mapsto> \<lparr>e_state = ?st, e_guildID = guild_of c\<rparr>)\<rparr>"
  have s': "s' = notify (guild_of c) ?st (case v_entries s u of None \<Rightarrow> ?s1
      | Some old \<Rightarrow> if st_ChannelID (e_state old) \<noteq> Some c then notify (e_guildID old) (leftState u now) (closeProvider provider old ?s1) else ?s1)"
    using run unfolding Join_def Let_def run' g by (auto simp: run' g split: option.splits)
  have n: "v_notify s" using inv by (simp add: voice_inv_def)
  show ?thesis
  proof (cases "\<exists>old. v_entries s u = Some old \<and> st_ChannelID (e_state old) \<noteq> Some c")
    case True
    then obtain old where old: "v_entries s u = Some old" "st_ChannelID (e_state old) \<noteq> Some c" by blast
    let ?s2 = "s\<lparr>v_entries := (v_entries s)(u := None), v_notified := v_notified s @ [(e_guildID old, leftState u now)]\<rparr>"
    have "voice_inv guild_of ?s2"
      by (rule voice_inv_remove [OF inv old(1)]) (simp_all add: n)
    then show ?thesis
      by (rule voice_inv_put [where g = "guild_of c" and st = ?st and c = c and u = u]) (simp_all add: s' old n fun_eq_iff)
  next
    case False
    then have "\<forall>e. v_entries s u = Some e \<longrightarrow> e_guildID e = guild_of c"
      using inv unfolding voice_inv_def entries_ok_def by (metis option.inject)
    then show ?thesis
      using False by (intro voice_inv_put [OF inv, where g = "guild_of c" and st = ?st and c = c and u = u]) (auto simp: s' n split: option.split)
  qed
qed

lemma UpdateState_inv:
  assumes run: "UpdateState provider authorize others now u update s = (res, s')" and inv: "voice_inv guild_of s"
    and others: "voice_inv guild_of (others s)"
  shows "voice_inv guild_of s'"
proof (cases "\<exists>st. res = Inr st")
  case True
  then obtain st e c where *: "v_entries (others s) u = Some e" "st = apply_update update now (e_state e)"
      "s' = notify (e_guildID e) st ((others s)\<lparr>v_entries := (v_entries (others s))(u \<mapsto> e\<lparr>e_state := st\<rparr>)\<rparr>)"
    using run unfolding UpdateState_def Let_def
    by (auto split: option.split_asm sum.split_asm prod.split_asm if_split_asm)
  obtain c where e: "st_UserID (e_state e) = u" "st_SessionID (e_state e) \<noteq> None" "st_ChannelID (e_state e) = Some c" "e_guildID e = guild_of c"
    using others *(1) unfolding voice_inv_def entries_ok_def by blast
  have n: "v_notify (others s)" using others by (simp add: voice_inv_def)
  have e': "e\<lparr>e_state := st\<rparr> = \<lparr>e_state = st, e_guildID = guild_of c\<rparr>" by (simp add: e(4))
  have st: "st_UserID st = u" "st_ChannelID st = Some c" "st_SessionID st \<noteq> None"
    using e by (simp_all add: *(2) apply_update_def)
  show ?thesis
    by (rule voice_inv_put [OF others _ st(1,2) refl st(3)]) (simp_all add: *(1,3) e' e(4) n)
next
  case False
  then show ?thesis
    using run inv others Evict_inv [OF others, of provider now u] unfolding UpdateState_def Let_def
    by (auto split: option.split_asm sum.split_asm prod.split_asm if_split_asm)
qed

end

text \<open>The chat service as the provider of the interface.\<close>

definition guild_map :: "chat_db \<Rightarrow> (uuid \<Rightarrow> uuid) \<Rightarrow> bool" where
  "guild_map db guild_of \<longleftrightarrow> (\<forall>c\<in>set (channels db). cr_guild c = None \<or> cr_guild c = Some (guild_of (cr_id c)))"

lemma AuthorizeVoice_guild:
  assumes "guild_map db guild_of" and "AuthorizeVoice db u c = Inr (ch, a)"
  shows "c_GuildID ch = Some (guild_of c)"
proof -
  obtain g where "Store_GetChannel db u c = Inr ch" "c_GuildID ch = Some g"
    using assms(2) unfolding AuthorizeVoice_def returns by auto
  moreover from this(1) obtain row where "row \<in> set (channels db)" "cr_id row = c" "c_GuildID ch = cr_guild row"
    by (auto simp: Store_GetChannel_def populateRecipients_def scanChannel_def dest!: find_by_SomeD split: option.split_asm if_split_asm)
  ultimately show ?thesis
    using assms(1) by (auto simp: guild_map_def)
qed

lemma voice_channels_chat: "guild_map db guild_of \<Longrightarrow> voice_channels (AuthorizeVoice db) guild_of"
  by unfold_locales (rule AuthorizeVoice_guild)

definition chat_guild :: "chat_db \<Rightarrow> uuid \<Rightarrow> uuid" where
  "chat_guild db c = (case find_by cr_id (channels db) c of None \<Rightarrow> c | Some row \<Rightarrow> (case cr_guild row of None \<Rightarrow> c | Some g \<Rightarrow> g))"

interpretation chat_voice: voice_channels "AuthorizeVoice db" "chat_guild db" for db
proof unfold_locales
  fix u c ch a
  assume "AuthorizeVoice db u c = Inr (ch, a)"
  then obtain g where "Store_GetChannel db u c = Inr ch" "c_GuildID ch = Some g"
    unfolding AuthorizeVoice_def returns by auto
  then show "c_GuildID ch = Some (chat_guild db c)"
    by (auto simp: chat_guild_def Store_GetChannel_def populateRecipients_def scanChannel_def split: option.split_asm if_split_asm)
qed

subsection \<open>Every run\<close>

text \<open>
  The requests of a run, each on the chat database and with the provider of its time. While
  \<open>UpdateState\<close> has the mutex released, the service goes from \<open>s\<close> to \<open>s1\<close>.
\<close>

inductive voice_run :: "(uuid \<Rightarrow> uuid) \<Rightarrow> 'p Service \<Rightarrow> 'p Service \<Rightarrow> bool" for guild_of where
  start: "voice_run guild_of s s"
| join: "voice_run guild_of s0 s \<Longrightarrow> guild_map db guild_of
    \<Longrightarrow> Join provider (AuthorizeVoice db) gen now u name c mute deaf s = (res, s') \<Longrightarrow> voice_run guild_of s0 s'"
| update: "voice_run guild_of s0 s \<Longrightarrow> voice_run guild_of s s1 \<Longrightarrow> guild_map db guild_of
    \<Longrightarrow> UpdateState provider (AuthorizeVoice db) (\<lambda>_. s1) now u update s = (res, s') \<Longrightarrow> voice_run guild_of s0 s'"
| leave: "voice_run guild_of s0 s \<Longrightarrow> Leave provider now u s = (res, s') \<Longrightarrow> voice_run guild_of s0 s'"
| evict: "voice_run guild_of s0 s \<Longrightarrow> voice_run guild_of s0 (snd (Evict provider now u s))"

lemma voice_run_inv: "voice_run guild_of s0 s \<Longrightarrow> voice_inv guild_of s0 \<Longrightarrow> voice_inv guild_of s"
proof (induction rule: voice_run.induct)
  case (join s0 s db provider gen now u name c mute deaf res s')
  then show ?case using voice_channels.Join_inv [OF voice_channels_chat] by blast
next
  case (update s0 s s1 db provider now u update res s')
  then show ?case using voice_channels.UpdateState_inv [OF voice_channels_chat, where others = "\<lambda>_. s1" and s = s] by blast
next
  case (leave s0 s provider now u res s')
  then show ?case using Leave_inv by blast
next
  case (evict s0 s provider now u)
  then show ?case by (simp add: Evict_inv)
qed simp

lemma voice_inv_start: "voice_inv guild_of (SetNotifier (Voice_New p))"
  by (simp add: voice_inv_def entries_ok_def SetNotifier_def Voice_New_def listeners_def present_def)

text \<open>What \<open>List\<close> answers, in terms of the entries.\<close>

lemma set_listed: "set (List.map_filter f xs) = {y. \<exists>x\<in>set xs. f x = Some y}"
  by (induction xs) (auto simp: List.map_filter_simps split: option.split)

lemma Voice_List_entries:
  assumes run: "Voice_List view ids u c s = Inr sts" and ids: "distinct ids" "set ids = dom (v_entries s)"
    and own: "entries_ok gof s"
  shows "set sts = {st. \<exists>v e. v_entries s v = Some e \<and> e_state e = st \<and> st_ChannelID st = Some c}"
    and "sorted (map st_UserID sts)" and "distinct (map st_UserID sts)"
proof -
  let ?all = "List.map_filter (\<lambda>v. map_option e_state (v_entries s v)) ids"
  have sts: "sts = sortStates (filter (\<lambda>st. st_ChannelID st = Some c) ?all)"
    using run by (auto simp: Voice_List_def split: sum.split_asm)
  show "set sts = {st. \<exists>v e. v_entries s v = Some e \<and> e_state e = st \<and> st_ChannelID st = Some c}"
    using ids(2) by (auto simp: sts sortStates_def set_listed)
  show "sorted (map st_UserID sts)" by (simp add: sts sortStates_def)
  have "set vs \<subseteq> dom (v_entries s) \<Longrightarrow> map st_UserID (List.map_filter (\<lambda>v. map_option e_state (v_entries s v)) vs) = vs" for vs
    using own by (induction vs) (auto simp: List.map_filter_def entries_ok_def)
  then have "map st_UserID ?all = ids" using ids(2) by simp
  then have "distinct (map st_UserID ?all)" using ids(1) by simp
  then have "distinct (map st_UserID (filter (\<lambda>st. st_ChannelID st = Some c) ?all))" by (rule distinct_map_filter)
  then show "distinct (map st_UserID sts)"
    by (simp add: sts sortStates_def distinct_map inj_on_def)
qed


text \<open>A guild with a voice channel and a server, for the witnesses.\<close>

definition demo_voice_row :: channel_row where
  "demo_voice_row = \<lparr>cr_id = 410, cr_guild = Some 100, cr_type = ChannelTypeVoice, cr_name = Some ''talk'', cr_topic = None, cr_parent = None,
     cr_position = 0, cr_starter = None, cr_dm_key = None, cr_created = 0, cr_updated = 0\<rparr>"

definition demo_voice :: chat_db where
  "demo_voice = demo_db\<lparr>channels := [demo_voice_row]\<rparr>"

definition demo_livekit_lib :: livekit_lib where
  "demo_livekit_lib = \<lparr>ll_Marshal = (\<lambda>_. Some ''claims''), ll_MarshalBody = (\<lambda>room identity. Some ''body''),
     ll_hmac = (\<lambda>secret text. secret @ text), ll_uuid_String = (\<lambda>u. ''u''), ll_Unix = (\<lambda>t. t div 1000000000)\<rparr>"

definition demo_livekit_config :: LiveKitConfig where
  "demo_livekit_config = \<lparr>lk_URL = ''wss://live'', lk_APIURL = ''https://live'', lk_APIKey = ''key'', lk_APISecret = ''secret''\<rparr>"

abbreviation demo_livekit :: "unit Provider" where
  "demo_livekit \<equiv> LiveKit_methods demo_livekit_lib demo_livekit_config (\<lambda>p _. (Some 200, p)) 5"

definition demo_talker :: State where
  "demo_talker = \<lparr>st_UserID = 3, st_ChannelID = Some 410, st_SessionID = Some 700, st_SelfMute = True, st_SelfDeaf = False,
     st_SelfVideo = False, st_SelfStream = False, st_UpdatedAt = 5\<rparr>"

definition demo_credential :: ProviderSession where
  "demo_credential = \<lparr>ps_Provider = ProviderLiveKit, ps_Endpoint = ''wss://live'',
     ps_Credential = signHS256 (\<lambda>secret text. secret @ text) jwt_header ''claims'' ''secret'', ps_ExpiresAt = 5 + sessionTTL\<rparr>"

definition demo_joined :: "unit Service" where
  "demo_joined = \<lparr>v_entries = [3 \<mapsto> \<lparr>e_state = demo_talker, e_guildID = 100\<rparr>], v_provider = (), v_notify = True,
     v_notified = [(100, demo_talker)]\<rparr>"

lemma demo_voice_access: "GetAccess demo_voice = GetAccess demo_db" "participants demo_voice demo_voice_row = [1, 2, 3]"
  by (simp_all add: fun_eq_iff GetAccess_def roles_of_def demo_voice_def participants_def is_member_def demo_voice_row_def demo)

lemma demo_authorized:
  "AuthorizeVoice demo_voice 3 410 = Inr (scanChannel demo_voice_row, \<lparr>a_Owner = False, a_Permissions = 1795, a_TopPosition = 2\<rparr>)"
proof -
  have "Store_GetChannel demo_voice 3 410 = Inr (scanChannel demo_voice_row)"
    using demo_voice_access(2)
    by (simp add: Store_GetChannel_def demo_voice_def demo_voice_row_def populateRecipients_def scanChannel_def)
  then show ?thesis
    by (simp add: AuthorizeVoice_def scanChannel_def demo_voice_row_def require_def demo_voice_access(1) demo Has_def PermConnect_def)
qed

lemma demo_voice_join:
  "Join (Some demo_livekit) (AuthorizeVoice demo_voice) (Some 700) 5 3 ''cy'' 410 True False (SetNotifier (Voice_New ()))
     = (Inr \<lparr>vs_ID = 700, vs_Provider = demo_credential, vs_State = demo_talker\<rparr>, demo_joined)"
  by (simp add: Join_def LiveKit_methods_def LiveKit_IssueSession_def LiveKit_sign_def demo_livekit_lib_def demo_livekit_config_def
      demo_authorized scanChannel_def demo_voice_row_def SetNotifier_def Voice_New_def notify_def demo_joined_def demo_talker_def demo_credential_def Let_def)

lemma demo_voice_run: "voice_run (chat_guild demo_voice) (SetNotifier (Voice_New ())) demo_joined"
  by (rule voice_run.join [OF voice_run.start _ demo_voice_join]) (simp add: guild_map_def chat_guild_def demo_voice_def demo_voice_row_def)


lemma RawURLEncoding_no_dot: "CHR ''.'' \<notin> set (RawURLEncoding_EncodeToString s)"
proof -
  have "i < 64 \<Longrightarrow> b64_char i \<noteq> CHR ''.''" for i
    by (auto simp: b64_char_def char_of_eq_iff take_bit_eq_mod)
  moreover have "i < 64" if "i \<in> set (b64_sextets (map of_char s))" for i
    using b64_sextets_less [OF _ that] of_char_less_256 by fastforce
  ultimately show ?thesis by (force simp: RawURLEncoding_EncodeToString_def)
qed

text \<open>
  C31. A credential says what the permissions say. When a user joins with LiveKit as the provider, the
  channel is a voice channel of a guild in which the user has CONNECT, and the token that is handed
  out is three segments in URL-safe base64: the HS256 header, the JSON text of the claims, and the MAC
  of the two under the secret. The claims name the user, this channel as the room, allow publishing
  exactly with SPEAK, list the camera and the screen exactly with STREAM, and end ten minutes later.
\<close>

theorem voice_credential:
  assumes run: "Join (Some (LiveKit_methods lib config post now)) (AuthorizeVoice db) gen joined u name c mute deaf s = (Inr ses, s')"
  shows "\<exists>ch g a payload head body mac.
      Store_GetChannel db u c = Inr ch \<and> c_Type ch = ChannelTypeVoice \<and> c_GuildID ch = Some g
    \<and> GetAccess db g u = Inr a \<and> Has a PermConnect
    \<and> ll_Marshal lib (JoinClaims (lk_APIKey config) (ll_uuid_String lib u) name (ll_Unix lib now)
         (ll_Unix lib (now + 10 * time_Minute)) (ll_uuid_String lib c) (Has a PermSpeak)
         (''microphone'' # (if Has a PermStream then [''camera'', ''screen_share'', ''screen_share_audio''] else []))) = Some payload
    \<and> strings_Split CHR ''.'' (ps_Credential (vs_Provider ses)) = [head, body, mac]
    \<and> RawURLEncoding_DecodeString head = Some jwt_header \<and> RawURLEncoding_DecodeString body = Some payload
    \<and> RawURLEncoding_DecodeString mac = Some (ll_hmac lib (lk_APISecret config) (head @ ''.'' @ body))
    \<and> ps_ExpiresAt (vs_Provider ses) = now + 10 * time_Minute"
proof -
  obtain ch a where auth: "AuthorizeVoice db u c = Inr (ch, a)"
    and issue: "LiveKit_IssueSession lib config now \<lparr>sq_Room = c, sq_Identity = u, sq_DisplayName = name, sq_CanSpeak = Has a PermSpeak,
             sq_CanStream = Has a PermStream, sq_TTL = sessionTTL\<rparr> = Inr (vs_Provider ses)"
    using run unfolding Join_def Let_def LiveKit_methods_def
    by (auto split: option.split_asm sum.split_asm prod.split_asm)
  obtain g where ch: "Store_GetChannel db u c = Inr ch" "c_Type ch = ChannelTypeVoice" "c_GuildID ch = Some g"
      "GetAccess db g u = Inr a" "Has a PermConnect"
    using auth unfolding AuthorizeVoice_def require_def
    by (auto split: sum.split_asm if_split_asm option.split_asm)
  obtain payload where m: "ll_Marshal lib (JoinClaims (lk_APIKey config) (ll_uuid_String lib u) name (ll_Unix lib now)
         (ll_Unix lib (now + sessionTTL)) (ll_uuid_String lib c) (Has a PermSpeak) (LiveKit_sources (Has a PermStream))) = Some payload"
    and ses: "vs_Provider ses = \<lparr>ps_Provider = ProviderLiveKit, ps_Endpoint = lk_URL config,
      ps_Credential = signHS256 (ll_hmac lib) jwt_header payload (lk_APISecret config), ps_ExpiresAt = now + sessionTTL\<rparr>"
    using issue [symmetric] unfolding LiveKit_IssueSession_def LiveKit_sign_def Let_def by (auto split: option.split_asm)
  let ?head = "RawURLEncoding_EncodeToString jwt_header" and ?body = "RawURLEncoding_EncodeToString payload"
  let ?mac = "RawURLEncoding_EncodeToString (ll_hmac lib (lk_APISecret config) (?head @ ''.'' @ ?body))"
  have "strings_Split CHR ''.'' (ps_Credential (vs_Provider ses)) = [?head, ?body, ?mac]"
    by (simp add: ses signHS256_def Let_def strings_Split_part strings_Split_last RawURLEncoding_no_dot)
  then show ?thesis
    using ch m ses by (intro exI conjI) (auto simp: RawURLEncoding_roundtrip sessionTTL_def LiveKit_sources_def)
qed

theorem voice_credential_witness:
  "\<exists>g a. GetAccess demo_voice g 3 = Inr a \<and> Has a PermConnect \<and> ps_ExpiresAt demo_credential = 5 + 10 * time_Minute"
  using voice_credential [OF demo_voice_join] by auto

end
