(* ===== verification/Http_Types.thy ===== *)
theory Http_Types
  imports Chat_Steps Read_State Auth_Steps Gateway_Server Voice Limiter
begin

section \<open>Requests and responses\<close>

text \<open>
  Package \<open>httpapi\<close>, first part: what a handler sees of a request, what it answers, and how the
  values of the services become the values of the protocol. A request is given as \<open>net/http\<close> hands
  it over. The types of the protocol are generated in another repository; the datatypes here carry
  the fields that the code fills, in the code's order. \<open>encoding/json\<close> is an argument: for each body
  that a handler reads, a decoder to the fields that the handler uses.
\<close>

subsection \<open>A request\<close>

record http_request =
  rq_Method :: string
  rq_RemoteAddr :: string
  rq_Header :: "string \<Rightarrow> string"
  rq_Segments :: "string list"
  rq_Query :: "string \<Rightarrow> string list"
  rq_Body :: string
  rq_PathValue :: "string \<Rightarrow> string"
  rq_ContextID :: "string option"

text \<open>\<open>Get\<close> of the query is the first value, or the empty text.\<close>

definition Query_Get :: "http_request \<Rightarrow> string \<Rightarrow> string" where
  "Query_Get rq name = (case rq_Query rq name of [] \<Rightarrow> '''' | v # _ \<Rightarrow> v)"

subsection \<open>Text\<close>

text \<open>\<open>strings.Fields\<close> splits around runs of white space.\<close>

fun fields_of :: "(nat \<times> string) list \<Rightarrow> string \<Rightarrow> string list" where
  "fields_of [] field = (if field = [] then [] else [field])"
| "fields_of ((r, bs) # rest) field =
     (if unicode_IsSpace r then (if field = [] then fields_of rest [] else field # fields_of rest [])
      else fields_of rest (field @ bs))"

definition strings_Fields :: "string \<Rightarrow> string list" where
  "strings_Fields s = fields_of (runes s) []"

text \<open>\<open>strings.EqualFold\<close> with a text whose letters fold only within ASCII.\<close>

definition EqualFold_ascii :: "string \<Rightarrow> string \<Rightarrow> bool" where
  "EqualFold_ascii s t \<longleftrightarrow> map ascii_lower s = map ascii_lower t"

text \<open>\<open>Time.Unix\<close>.\<close>

definition Unix :: "time \<Rightarrow> int" where
  "Unix t = t div time_Second - 62135596800"

definition json_space :: "char \<Rightarrow> bool" where
  "json_space c \<longleftrightarrow> c \<in> {CHR '' '', CHR 0x09, CHR 0x0A, CHR 0x0D}"

subsection \<open>Values of the protocol\<close>

datatype protocol_User = ProtocolUser uuid string "string option"

datatype protocol_Guild = ProtocolGuild uuid uuid string "string option" "string option" time

datatype protocol_Channel =
  ProtocolChannel uuid "uuid option" "uuid option" string "string option" "string option" int "protocol_User list" time

datatype protocol_Attachment = ProtocolAttachment uuid uuid uuid string string int string string string time

datatype protocol_Reaction = ProtocolReaction string nat bool

datatype protocol_Reply = ProtocolReply uuid uuid string protocol_User time "time option"

datatype protocol_Message =
  ProtocolMessage uuid uuid string "protocol_Attachment list" "uuid option" "protocol_Reaction list" time "time option"
    protocol_User "protocol_Reply option"

datatype protocol_Presence = ProtocolPresence uuid string "string option" time

datatype protocol_Member =
  ProtocolMember uuid "string option" time "uuid list" protocol_User protocol_Presence

datatype protocol_Invite =
  ProtocolInvite uuid string protocol_Guild protocol_User int "int option" "time option" time

datatype protocol_Role = ProtocolRole uuid uuid string "string option" permissions int bool time

datatype protocol_ReadState = ProtocolReadState uuid "uuid option" time

datatype protocol_VoiceState = ProtocolVoiceState uuid "uuid option" "uuid option" bool bool bool bool time

datatype protocol_UserSelf = ProtocolUserSelf uuid string bool string "string option" "string list" time

datatype protocol_Page = ProtocolPage bool "string option"

datatype payload =
    HealthBody string time
  | ErrorBody string string uuid "int option"
  | TokenBody string string uuid int int
  | UserSelfBody protocol_UserSelf
  | GuildBody protocol_Guild
  | GuildList "protocol_Guild list" protocol_Page
  | ChannelBody protocol_Channel
  | ChannelList "protocol_Channel list" protocol_Page
  | MessageBody protocol_Message
  | MessageList "protocol_Message list" protocol_Page
  | ReactionBody protocol_Reaction
  | SearchList "(protocol_Message \<times> string) list" protocol_Page
  | MemberBody protocol_Member
  | MemberList "protocol_Member list" protocol_Page
  | InviteBody protocol_Invite
  | InviteList "protocol_Invite list"
  | PresenceBody protocol_Presence
  | RoleBody protocol_Role
  | RoleList "protocol_Role list"
  | AttachmentBody protocol_Attachment
  | UploadIntentBody protocol_Attachment string "(string \<times> string) list" time
  | DownloadIntentBody string time
  | ReadStateBody protocol_ReadState
  | ReadStateList "protocol_ReadState list"
  | VoiceStateBody protocol_VoiceState
  | VoiceStateList "protocol_VoiceState list"
  | VoiceSessionBody uuid string string string time protocol_VoiceState
  | GoogleAuthorizationBody string int
  | PlainText string

subsection \<open>From the services to the protocol\<close>

definition user_response :: "UserSummary \<Rightarrow> protocol_User" where
  "user_response u = ProtocolUser (us_ID u) (us_DisplayName u) (us_AvatarURL u)"

definition guildResponse :: "Guild \<Rightarrow> protocol_Guild" where
  "guildResponse g = ProtocolGuild (g_ID g) (g_OwnerID g) (g_Name g) (g_Description g) (g_IconURL g) (g_CreatedAt g)"

definition channelResponse :: "Channel \<Rightarrow> protocol_Channel" where
  "channelResponse c = ProtocolChannel (c_ID c) (c_GuildID c) (c_ParentID c) (c_Type c) (c_Name c) (c_Topic c) (c_Position c)
     (map user_response (c_Recipients c)) (c_CreatedAt c)"

definition pageResponse :: "bool \<Rightarrow> string option \<Rightarrow> protocol_Page" where
  "pageResponse hasMore cursor = ProtocolPage hasMore cursor"

definition channelListResponse :: "Channel Page \<Rightarrow> payload" where
  "channelListResponse page = ChannelList (map channelResponse (pg_Items page)) (pageResponse (pg_HasMore page) (pg_NextCursor page))"

definition attachmentResponse :: "(uuid \<Rightarrow> string) \<Rightarrow> Attachment \<Rightarrow> protocol_Attachment" where
  "attachmentResponse uuid_String a = ProtocolAttachment (at_ID a) (at_UploaderID a) (at_ChannelID a) (at_Filename a)
     (at_ContentType a) (at_Size a) (at_ChecksumSHA256 a) (at_Status a) (AttachmentURL uuid_String (at_ID a)) (at_CreatedAt a)"

definition attachmentsResponse :: "(uuid \<Rightarrow> string) \<Rightarrow> Attachment list \<Rightarrow> protocol_Attachment list" where
  "attachmentsResponse uuid_String as = map (attachmentResponse uuid_String) as"

definition messageReactionResponse :: "MessageReaction \<Rightarrow> protocol_Reaction" where
  "messageReactionResponse r = ProtocolReaction (rx_Emoji r) (rx_Count r) (rx_Me r)"

definition messageResponse :: "(uuid \<Rightarrow> string) \<Rightarrow> Message \<Rightarrow> protocol_Message" where
  "messageResponse uuid_String m = ProtocolMessage (m_ID m) (m_ChannelID m) (m_Content m)
     (attachmentsResponse uuid_String (m_Attachments m)) (m_ReplyToMessageID m) (map messageReactionResponse (m_Reactions m))
     (m_CreatedAt m) (m_EditedAt m) (user_response (m_Author m))
     (case m_ReplyTo m of None \<Rightarrow> None
      | Some r \<Rightarrow> Some (ProtocolReply (rep_ID r) (rep_ChannelID r) (rep_Content r) (user_response (rep_Author r))
                    (rep_CreatedAt r) (rep_EditedAt r)))"

text \<open>A nil slice of roles becomes an empty one; lists of the model do not tell them apart.\<close>

definition roleIDsResponse :: "uuid list \<Rightarrow> uuid list" where
  "roleIDsResponse ids = ids"

definition presence_response :: "Presence \<Rightarrow> protocol_Presence" where
  "presence_response p = ProtocolPresence (p_UserID p) (p_Status p) (p_CustomText p) (p_UpdatedAt p)"

definition memberResponse :: "Member \<Rightarrow> protocol_Member" where
  "memberResponse m = ProtocolMember (mb_GuildID m) (mb_Nickname m) (mb_JoinedAt m) (roleIDsResponse (mb_RoleIDs m)) (user_response (mb_User m))
     (case mb_Presence m of None \<Rightarrow> ProtocolPresence (us_ID (mb_User m)) PresenceOffline None (mb_JoinedAt m)
      | Some p \<Rightarrow> presence_response p)"

definition inviteResponse :: "Invite \<Rightarrow> protocol_Invite" where
  "inviteResponse i = ProtocolInvite (iv_ID i) (iv_Code i) (guildResponse (iv_Guild i)) (user_response (iv_Inviter i)) (iv_Uses i)
     (iv_MaxUses i) (iv_ExpiresAt i) (iv_CreatedAt i)"

definition roleResponse :: "Role \<Rightarrow> protocol_Role" where
  "roleResponse r = ProtocolRole (r_ID r) (r_GuildID r) (r_Name r) (r_Color r) (r_Permissions r) (r_Position r) (r_Managed r) (r_CreatedAt r)"

definition readStateResponse :: "ReadState \<Rightarrow> protocol_ReadState" where
  "readStateResponse s = ProtocolReadState (rs_ChannelID s) (rs_LastReadMessageID s) (rs_UpdatedAt s)"

definition voiceStateResponse :: "State \<Rightarrow> protocol_VoiceState" where
  "voiceStateResponse s = ProtocolVoiceState (st_UserID s) (st_ChannelID s) (State.st_SessionID s) (st_SelfMute s)
     (st_SelfDeaf s) (st_SelfVideo s) (st_SelfStream s) (st_UpdatedAt s)"

definition tokenResponse :: "SessionTokens \<Rightarrow> payload" where
  "tokenResponse t = TokenBody (st_AccessToken t) (st_RefreshToken t) (SessionTokens.st_SessionID t)
     (st_AccessExpiresIn t div time_Second) (st_RefreshExpiresIn t div time_Second)"

text \<open>\<open>valid\<close> is the method \<open>Valid\<close> of the generated type.\<close>

definition userSelfResponse :: "(string \<Rightarrow> bool) \<Rightarrow> AuthUser \<Rightarrow> payload option" where
  "userSelfResponse valid u =
     (if \<not> list_all valid (usr_AuthenticationMethods u) then None
      else Some (UserSelfBody (ProtocolUserSelf (usr_ID u) (usr_Email u) (usr_EmailVerified u) (usr_DisplayName u)
                   (usr_AvatarURL u) (usr_AuthenticationMethods u) (usr_CreatedAt u))))"

subsection \<open>From the services to the gateway\<close>

definition event_user :: "UserSummary \<Rightarrow> EventUser" where
  "event_user u = \<lparr>eu_ID = us_ID u, eu_DisplayName = us_DisplayName u, eu_AvatarURL = us_AvatarURL u\<rparr>"

definition gatewayAttachments :: "(uuid \<Rightarrow> string) \<Rightarrow> Attachment list \<Rightarrow> EventAttachment list" where
  "gatewayAttachments uuid_String as = map (\<lambda>a. \<lparr>ea_ID = at_ID a, ea_UploaderID = at_UploaderID a, ea_ChannelID = at_ChannelID a,
     ea_Filename = at_Filename a, ea_ContentType = at_ContentType a, ea_Size = at_Size a, ea_ChecksumSHA256 = at_ChecksumSHA256 a,
     ea_Status = at_Status a, ea_DownloadURL = AttachmentURL uuid_String (at_ID a), ea_CreatedAt = at_CreatedAt a\<rparr>) as"

definition message_event_value :: "(uuid \<Rightarrow> string) \<Rightarrow> bool \<Rightarrow> Message \<Rightarrow> EventMessage" where
  "message_event_value uuid_String direct m = \<lparr>em_Direct = direct, em_Attachments = gatewayAttachments uuid_String (m_Attachments m),
     em_ID = m_ID m, em_ChannelID = m_ChannelID m, em_Author = event_user (m_Author m), em_Content = m_Content m,
     em_ReplyToMessageID = m_ReplyToMessageID m,
     em_ReplyTo = (case m_ReplyTo m of None \<Rightarrow> None
       | Some r \<Rightarrow> Some \<lparr>er_ID = rep_ID r, er_ChannelID = rep_ChannelID r, er_Author = event_user (rep_Author r),
                    er_Content = rep_Content r, er_CreatedAt = rep_CreatedAt r, er_EditedAt = rep_EditedAt r\<rparr>),
     em_CreatedAt = m_CreatedAt m, em_EditedAt = m_EditedAt m\<rparr>"

definition presence_event_value :: "Presence \<Rightarrow> EventPresence" where
  "presence_event_value p = \<lparr>ep_UserID = p_UserID p, ep_Status = p_Status p, ep_CustomText = p_CustomText p, ep_UpdatedAt = p_UpdatedAt p\<rparr>"

definition member_event_value :: "Member \<Rightarrow> EventMember" where
  "member_event_value m = \<lparr>eme_GuildID = mb_GuildID m, eme_User = event_user (mb_User m), eme_Nickname = mb_Nickname m,
     eme_RoleIDs = Some (mb_RoleIDs m), eme_JoinedAt = mb_JoinedAt m, eme_Presence = map_option presence_event_value (mb_Presence m)\<rparr>"

definition channel_event_value :: "Channel \<Rightarrow> EventChannel" where
  "channel_event_value c = \<lparr>ec_ID = c_ID c, ec_GuildID = c_GuildID c, ec_ParentID = c_ParentID c, ec_Type = c_Type c, ec_Name = c_Name c,
     ec_Topic = c_Topic c, ec_Position = c_Position c, ec_CreatedAt = c_CreatedAt c, ec_Recipients = map event_user (c_Recipients c)\<rparr>"

definition read_state_event_value :: "ReadState \<Rightarrow> EventReadState" where
  "read_state_event_value s = \<lparr>ers_ChannelID = rs_ChannelID s, ers_LastReadMessageID = rs_LastReadMessageID s, ers_UpdatedAt = rs_UpdatedAt s\<rparr>"

definition voice_event_value :: "State \<Rightarrow> EventVoiceState" where
  "voice_event_value s = \<lparr>evs_UserID = st_UserID s, evs_ChannelID = st_ChannelID s, evs_SessionID = State.st_SessionID s,
     evs_SelfMute = st_SelfMute s, evs_SelfDeaf = st_SelfDeaf s, evs_SelfVideo = st_SelfVideo s, evs_SelfStream = st_SelfStream s,
     evs_UpdatedAt = st_UpdatedAt s\<rparr>"

subsection \<open>Bodies\<close>

text \<open>
  Each decoder reads one JSON value of its type off the front, without unknown fields, and leaves the
  rest. A field of a patch that distinguishes absent from null is left as raw text.
\<close>

record http_json =
  hj_RegisterPasswordRequest :: "string \<Rightarrow> ((string \<times> string \<times> string) \<times> string) option"
  hj_LoginPasswordRequest :: "string \<Rightarrow> ((string \<times> string) \<times> string) option"
  hj_text :: "string \<Rightarrow> string \<Rightarrow> (string \<times> string) option"
  hj_ResetPasswordRequest :: "string \<Rightarrow> ((string \<times> string) \<times> string) option"
  hj_GoogleAuthorizationRequest :: "string \<Rightarrow> ((string \<times> string \<times> string \<times> string) \<times> string) option"
  hj_GoogleExchangeRequest :: "string \<Rightarrow> ((string \<times> string) \<times> string) option"
  hj_CreateGuildRequest :: "string \<Rightarrow> ((string \<times> string option) \<times> string) option"
  hj_guildPatchBody :: "string \<Rightarrow> ((string option \<times> string option) \<times> string) option"
  hj_CreateChannelRequest :: "string \<Rightarrow> ((string \<times> string \<times> string option \<times> uuid option) \<times> string) option"
  hj_channelPatchBody :: "string \<Rightarrow> ((string option \<times> string option \<times> int option \<times> string option) \<times> string) option"
  hj_CreateMessageRequest :: "string \<Rightarrow> ((string option \<times> uuid option \<times> uuid list option) \<times> string) option"
  hj_CreateInviteRequest :: "string \<Rightarrow> ((int option \<times> int option) \<times> string) option"
  hj_memberPatchBody :: "string \<Rightarrow> ((string option \<times> uuid list option) \<times> string) option"
  hj_presenceBody :: "string \<Rightarrow> ((string \<times> string option) \<times> string) option"
  hj_CreateRoleRequest :: "string \<Rightarrow> ((string \<times> string option \<times> permissions option) \<times> string) option"
  hj_rolePatchBody :: "string \<Rightarrow> ((string option \<times> string option \<times> permissions option \<times> int option) \<times> string) option"
  hj_CreateThreadRequest :: "string \<Rightarrow> ((string \<times> uuid option) \<times> string) option"
  hj_uuid_body :: "string \<Rightarrow> string \<Rightarrow> (uuid \<times> string) option"
  hj_UploadIntentRequest :: "string \<Rightarrow> ((string \<times> string \<times> int \<times> string) \<times> string) option"
  hj_JoinVoiceChannelRequest :: "string \<Rightarrow> ((bool option \<times> bool option) \<times> string) option"
  hj_UpdateVoiceStateRequest :: "string \<Rightarrow> (Update \<times> string) option"
  hj_Unmarshal_string :: "string \<Rightarrow> string option"
  hj_Unmarshal_uuid :: "string \<Rightarrow> uuid option"

text \<open>\<open>UnmarshalJSON\<close> of \<open>optionalNullableString\<close> and \<open>optionalNullableUUID\<close>; it is called only for a field that is present.\<close>

definition optionalNullable :: "(string \<Rightarrow> 'a option) \<Rightarrow> string \<Rightarrow> 'a Optional option" where
  "optionalNullable unmarshal payload =
     (if payload = ''null'' then Some \<lparr>opt_Set = True, opt_Value = None\<rparr>
      else (case unmarshal payload of None \<Rightarrow> None | Some decoded \<Rightarrow> Some \<lparr>opt_Set = True, opt_Value = Some decoded\<rparr>))"

definition patch_field :: "(string \<Rightarrow> 'a option) \<Rightarrow> string option \<Rightarrow> 'a Optional option" where
  "patch_field unmarshal raw =
     (case raw of None \<Rightarrow> Some \<lparr>opt_Set = False, opt_Value = None\<rparr> | Some payload \<Rightarrow> optionalNullable unmarshal payload)"

definition guildPatchBody :: "http_json \<Rightarrow> string \<Rightarrow> ((string option \<times> string Optional) \<times> string) option" where
  "guildPatchBody js s =
     (case hj_guildPatchBody js s of None \<Rightarrow> None
      | Some ((name, description), rest) \<Rightarrow> (case patch_field (hj_Unmarshal_string js) description of None \<Rightarrow> None
      | Some d \<Rightarrow> Some ((name, d), rest)))"

definition channelPatchBody :: "http_json \<Rightarrow> string \<Rightarrow> ((string option \<times> string Optional \<times> int option \<times> uuid Optional) \<times> string) option" where
  "channelPatchBody js s =
     (case hj_channelPatchBody js s of None \<Rightarrow> None
      | Some ((name, topic, position, parent), rest) \<Rightarrow> (case patch_field (hj_Unmarshal_string js) topic of None \<Rightarrow> None
      | Some t \<Rightarrow> (case patch_field (hj_Unmarshal_uuid js) parent of None \<Rightarrow> None
      | Some p \<Rightarrow> Some ((name, t, position, p), rest))))"

definition memberPatchBody :: "http_json \<Rightarrow> string \<Rightarrow> ((string Optional \<times> uuid list option) \<times> string) option" where
  "memberPatchBody js s =
     (case hj_memberPatchBody js s of None \<Rightarrow> None
      | Some ((nickname, roleIDs), rest) \<Rightarrow> (case patch_field (hj_Unmarshal_string js) nickname of None \<Rightarrow> None
      | Some n \<Rightarrow> Some ((n, roleIDs), rest)))"

definition rolePatchBody :: "http_json \<Rightarrow> string \<Rightarrow> ((string option \<times> string Optional \<times> permissions option \<times> int option) \<times> string) option" where
  "rolePatchBody js s =
     (case hj_rolePatchBody js s of None \<Rightarrow> None
      | Some ((name, color, permissions, position), rest) \<Rightarrow> (case patch_field (hj_Unmarshal_string js) color of None \<Rightarrow> None
      | Some c \<Rightarrow> Some ((name, c, permissions, position), rest)))"

end
