(* ===== verification/Http_Server.thy ===== *)
theory Http_Server
  imports Http_Types
begin

section \<open>The server\<close>

text \<open>
  \<open>server.go\<close>, \<open>middleware.go\<close> and the helpers of the other files of \<open>httpapi\<close>. The state of the
  server is what its services keep, and the response that is being written is part of the same
  record, so that a handler is a function on it. Where the Go code returns early after a helper has
  written the error, the helper takes the rest of the handler as an argument. A request is served
  from beginning to end before the next one; every reading of a clock and every draw of a generator
  comes from the environment of the request. Logging and the audit log are left out.
\<close>

subsection \<open>State and environment\<close>

record ('s, 'p, 'q) exchange =
  x_headers :: "(string \<times> string) list"
  x_status :: "int option"
  x_body :: "payload list"
  x_auth :: auth_db
  x_chat :: chat_db
  x_objects :: 's
  x_presence :: presenceTracker
  x_hub :: "'p hub"
  x_voice :: "'q Service"
  x_requests :: fixedWindowLimiter
  x_logins :: fixedWindowLimiter
  x_mails :: fixedWindowLimiter
  x_tasks :: "mail_task list"

type_synonym ('s, 'p, 'q) handler = "('s, 'p, 'q) exchange \<Rightarrow> ('s, 'p, 'q) exchange"

text \<open>What is fixed when the server is built: its services and what they use of other libraries.\<close>

record ('s, 'p, 'q) http_config =
  hc_lib :: auth_lib
  hc_sv :: AuthService
  hc_json :: http_json
  hc_cursor :: cursor_json
  hc_ParseMediaType :: "string \<Rightarrow> string option"
  hc_uuid_Parse :: "string \<Rightarrow> uuid option"
  hc_uuid_String :: "uuid \<Rightarrow> string"
  hc_SplitHostPort :: "string \<Rightarrow> string option"
  hc_So :: "nat \<Rightarrow> bool"
  hc_ilike :: "nat \<Rightarrow> nat \<Rightarrow> bool"
  hc_EqualFold :: "string \<Rightarrow> string \<Rightarrow> bool"
  hc_Valid :: "string \<Rightarrow> bool"
  hc_version :: string
  hc_media :: "'s Storage option"
  hc_gateway :: bool
  hc_voice :: bool
  hc_provider :: "time \<Rightarrow> 'q Provider option"
  hc_google :: "GoogleClient option"
  hc_mailer :: bool
  hc_marshal :: "gatewayMessage \<Rightarrow> 'p option"

record http_env =
  en_request :: "uuid option"
  en_taken :: time
  en_taken2 :: time
  en_now :: time
  en_published :: time
  en_id :: "uuid option"
  en_id2 :: "uuid option"
  en_bytes :: "string option"
  en_bytes2 :: "string option"
  en_draw :: session_draw
  en_exchange :: "string \<Rightarrow> string \<Rightarrow> string + GoogleIdentity"
  en_users :: "uuid list"

subsection \<open>Writing\<close>

text \<open>\<open>Header.Set\<close> and \<open>Header.Add\<close>; the first call of \<open>WriteHeader\<close> decides the status.\<close>

definition set_header :: "string \<Rightarrow> string \<Rightarrow> ('s, 'p, 'q) handler" where
  "set_header name v x = x\<lparr>x_headers := filter (\<lambda>(n, _). n \<noteq> name) (x_headers x) @ [(name, v)]\<rparr>"

definition add_header :: "string \<Rightarrow> string \<Rightarrow> ('s, 'p, 'q) handler" where
  "add_header name v x = x\<lparr>x_headers := x_headers x @ [(name, v)]\<rparr>"

definition WriteHeader :: "int \<Rightarrow> ('s, 'p, 'q) handler" where
  "WriteHeader status x = x\<lparr>x_status := (case x_status x of None \<Rightarrow> Some status | Some s \<Rightarrow> Some s)\<rparr>"

definition writeJSON :: "int \<Rightarrow> payload \<Rightarrow> ('s, 'p, 'q) handler" where
  "writeJSON status body x =
     (let x1 = WriteHeader status (set_header ''Content-Type'' ''application/json'' x) in x1\<lparr>x_body := x_body x1 @ [body]\<rparr>)"

definition requestIDFromContext :: "http_request \<Rightarrow> string" where
  "requestIDFromContext rq = (case rq_ContextID rq of None \<Rightarrow> '''' | Some v \<Rightarrow> v)"

definition error_id :: "('s, 'p, 'q) http_config \<Rightarrow> http_request \<Rightarrow> uuid" where
  "error_id c rq = (case hc_uuid_Parse c (requestIDFromContext rq) of None \<Rightarrow> uuid_Nil | Some i \<Rightarrow> i)"

definition writeError :: "('s, 'p, 'q) http_config \<Rightarrow> http_request \<Rightarrow> int \<Rightarrow> string \<Rightarrow> string \<Rightarrow> ('s, 'p, 'q) handler" where
  "writeError c rq status code msg x =
     writeJSON status (ErrorBody code msg (error_id c rq) None) (if status = 401 then set_header ''WWW-Authenticate'' ''Bearer'' x else x)"

definition invalid_body :: "('s, 'p, 'q) http_config \<Rightarrow> http_request \<Rightarrow> ('s, 'p, 'q) handler" where
  "invalid_body c rq = writeError c rq 400 ''INVALID_REQUEST'' ''Request body is invalid''"

definition unauthorized :: "('s, 'p, 'q) http_config \<Rightarrow> http_request \<Rightarrow> ('s, 'p, 'q) handler" where
  "unauthorized c rq = writeError c rq 401 ''UNAUTHORIZED'' ''Authentication is required''"

definition internal_error :: "('s, 'p, 'q) http_config \<Rightarrow> http_request \<Rightarrow> ('s, 'p, 'q) handler" where
  "internal_error c rq = writeError c rq 500 ''INTERNAL_ERROR'' ''Internal server error''"

definition not_found :: "('s, 'p, 'q) http_config \<Rightarrow> http_request \<Rightarrow> ('s, 'p, 'q) handler" where
  "not_found c rq = writeError c rq 404 ''NOT_FOUND'' ''Resource not found''"

text \<open>\<open>Error\<close> of the validation errors is the field, a colon and the message.\<close>

fun handleAuthError :: "('s, 'p, 'q) http_config \<Rightarrow> http_request \<Rightarrow> auth_error \<Rightarrow> ('s, 'p, 'q) handler" where
  "handleAuthError c rq (AuthValidationError field msg) = writeError c rq 400 ''INVALID_REQUEST'' (field @ '': '' @ msg)"
| "handleAuthError c rq ErrEmailAlreadyRegistered = writeError c rq 409 ''EMAIL_ALREADY_REGISTERED'' ''Email is already registered''"
| "handleAuthError c rq ErrInvalidCredentials = writeError c rq 401 ''INVALID_CREDENTIALS'' ''Email or password is incorrect''"
| "handleAuthError c rq ErrInvalidRefreshToken = writeError c rq 401 ''INVALID_REFRESH_TOKEN'' ''Refresh token is invalid or expired''"
| "handleAuthError c rq ErrInvalidAuthorizationGrant = writeError c rq 400 ''INVALID_AUTHORIZATION_GRANT'' ''Authorization grant is invalid or expired''"
| "handleAuthError c rq ErrAccountLinkRequired = writeError c rq 409 ''ACCOUNT_LINK_REQUIRED'' ''Sign in to the existing account before linking Google''"
| "handleAuthError c rq ErrMailUnavailable = writeError c rq 503 ''MAIL_UNAVAILABLE'' ''Email delivery is not available''"
| "handleAuthError c rq ErrIdentityAlreadyLinked = writeError c rq 409 ''IDENTITY_ALREADY_LINKED'' ''This Google identity is already linked to an account''"
| "handleAuthError c rq ErrLastAuthenticationMethod = writeError c rq 409 ''LAST_AUTHENTICATION_METHOD'' ''The last authentication method cannot be unlinked''"
| "handleAuthError c rq ErrAuthMethodNotLinked = not_found c rq"
| "handleAuthError c rq ErrGoogleUnavailable = writeError c rq 503 ''GOOGLE_UNAVAILABLE'' ''Google login is not available''"
| "handleAuthError c rq ErrUnauthorized = unauthorized c rq"
| "handleAuthError c rq _ = internal_error c rq"

fun handleChatError :: "('s, 'p, 'q) http_config \<Rightarrow> http_request \<Rightarrow> chat_error \<Rightarrow> ('s, 'p, 'q) handler" where
  "handleChatError c rq (ValidationError field msg) = writeError c rq 400 ''INVALID_REQUEST'' (field @ '': '' @ msg)"
| "handleChatError c rq ErrForbidden = writeError c rq 403 ''FORBIDDEN'' ''You do not have permission to perform this operation''"
| "handleChatError c rq ErrStorageUnavailable = writeError c rq 503 ''STORAGE_UNAVAILABLE'' ''Attachments are not available''"
| "handleChatError c rq ErrUploadQuota = writeError c rq 429 ''UPLOAD_QUOTA_EXCEEDED'' ''Too many unused attachments; send or delete some first''"
| "handleChatError c rq ErrAttachmentInUse = writeError c rq 409 ''ATTACHMENT_IN_USE'' ''Attachment is attached to a message''"
| "handleChatError c rq ErrAttachmentMismatch = writeError c rq 409 ''ATTACHMENT_MISMATCH'' ''Uploaded object is missing or does not match the declaration''"
| "handleChatError c rq ErrThreadExists = writeError c rq 409 ''THREAD_ALREADY_EXISTS'' ''A thread already exists for this message''"
| "handleChatError c rq ErrInviteUnavailable = writeError c rq 409 ''INVITE_UNAVAILABLE'' ''Invite is expired or has no remaining uses''"
| "handleChatError c rq ErrNotFound = not_found c rq"
| "handleChatError c rq (ErrInternal _) = internal_error c rq"

text \<open>The same switch sees the errors of package \<open>voice\<close>; a panic is answered by \<open>recoverPanic\<close>.\<close>

fun handleVoiceError :: "('s, 'p, 'q) http_config \<Rightarrow> http_request \<Rightarrow> voice_error \<Rightarrow> ('s, 'p, 'q) handler" where
  "handleVoiceError c rq VoiceUnavailable = writeError c rq 503 ''VOICE_UNAVAILABLE'' ''Voice is not available''"
| "handleVoiceError c rq (VoiceChat err) = handleChatError c rq err"
| "handleVoiceError c rq _ = internal_error c rq"

subsection \<open>Limits\<close>

definition clientIP :: "('s, 'p, 'q) http_config \<Rightarrow> http_request \<Rightarrow> string" where
  "clientIP c rq = (case hc_SplitHostPort c (rq_RemoteAddr rq) of None \<Rightarrow> rq_RemoteAddr rq | Some host \<Rightarrow> host)"

definition setRateLimitHeaders :: "string \<Rightarrow> limitResult \<Rightarrow> ('s, 'p, 'q) handler" where
  "setRateLimitHeaders bucket r x =
     set_header ''X-RateLimit-Bucket'' bucket (set_header ''X-RateLimit-Reset'' (int_text (Unix (lr_Reset r)))
       (set_header ''X-RateLimit-Remaining'' (int_text (lr_Remaining r)) (set_header ''X-RateLimit-Limit'' (int_text (lr_Limit r)) x)))"

text \<open>\<open>Round\<close> of a duration that is not negative.\<close>

definition Duration_Round :: "duration \<Rightarrow> duration \<Rightarrow> duration" where
  "Duration_Round d m = (if d mod m + d mod m < m then d - d mod m else d + (m - d mod m))"

definition writeRateLimited :: "('s, 'p, 'q) http_config \<Rightarrow> http_request \<Rightarrow> string \<Rightarrow> limitResult \<Rightarrow> ('s, 'p, 'q) handler" where
  "writeRateLimited c rq bucket r x =
     (let seconds = Duration_Round (lr_RetryAfter r) time_Second div time_Second;
          retrySeconds = (if seconds < 1 then 1 else seconds)
      in writeJSON 429 (ErrorBody ''RATE_LIMITED'' ''Too many requests'' (error_id c rq) (Some (lr_RetryAfter r div 1000000)))
           (set_header ''Retry-After'' (int_text retrySeconds) (setRateLimitHeaders bucket r x)))"

definition allowRequest ::
  "('s, 'p, 'q) http_config \<Rightarrow> http_env \<Rightarrow> http_request \<Rightarrow> string \<Rightarrow> ('s, 'p, 'q) handler \<Rightarrow> ('s, 'p, 'q) handler" where
  "allowRequest c e rq bucket k x =
     (case Take (en_taken e) (x_requests x) (clientIP c rq @ ''|'' @ bucket) of (r, l) \<Rightarrow>
        let x1 = setRateLimitHeaders bucket r (x\<lparr>x_requests := l\<rparr>)
        in if \<not> lr_Allowed r then writeRateLimited c rq bucket r x1 else k x1)"

text \<open>\<open>takeMail\<close> of \<open>account.go\<close>.\<close>

definition takeMail ::
  "('s, 'p, 'q) http_config \<Rightarrow> http_env \<Rightarrow> http_request \<Rightarrow> string \<Rightarrow> string \<Rightarrow> ('s, 'p, 'q) handler \<Rightarrow> ('s, 'p, 'q) handler" where
  "takeMail c e rq bucket subject k x =
     (case Take (en_taken2 e) (x_mails x) (clientIP c rq @ ''|'' @ bucket @ ''|'' @ subject) of (r, l) \<Rightarrow>
        let x1 = x\<lparr>x_mails := l\<rparr> in if \<not> lr_Allowed r then writeRateLimited c rq bucket r x1 else k x1)"

subsection \<open>Reading the request\<close>

definition maxRequestBodyBytes :: nat where "maxRequestBodyBytes = 64 * 1024"

definition bearerToken :: "http_request \<Rightarrow> string option" where
  "bearerToken rq =
     (case strings_Fields (rq_Header rq ''Authorization'') of
        [scheme, token] \<Rightarrow> if \<not> EqualFold_ascii scheme ''Bearer'' \<or> token = [] then None else Some token
      | _ \<Rightarrow> None)"

text \<open>
  One JSON value of the type, then nothing but white space: the second \<open>Decode\<close> has to meet the end of
  the body. A body past the limit fails one of the two.
\<close>

definition decodeJSON :: "('s, 'p, 'q) http_config \<Rightarrow> http_request \<Rightarrow> (string \<Rightarrow> ('a \<times> string) option) \<Rightarrow> 'a option" where
  "decodeJSON c rq decode =
     (if hc_ParseMediaType c (rq_Header rq ''Content-Type'') \<noteq> Some ''application/json'' then None
      else if length (rq_Body rq) > maxRequestBodyBytes then None
      else (case decode (rq_Body rq) of None \<Rightarrow> None
      | Some (v, rest) \<Rightarrow> if list_all json_space rest then Some v else None))"

text \<open>\<open>decodeOptionalJSON\<close>: \<open>zero\<close> is the value of a body that is absent.\<close>

definition decodeOptionalJSON :: "('s, 'p, 'q) http_config \<Rightarrow> http_request \<Rightarrow> (string \<Rightarrow> ('a \<times> string) option) \<Rightarrow> 'a \<Rightarrow> 'a option" where
  "decodeOptionalJSON c rq decode zero =
     (if length (rq_Body rq) > maxRequestBodyBytes then None
      else if strings_TrimSpace (rq_Body rq) = [] then Some zero
      else decodeJSON c rq decode)"

definition with_body ::
  "('s, 'p, 'q) http_config \<Rightarrow> http_request \<Rightarrow> (string \<Rightarrow> ('a \<times> string) option) \<Rightarrow> ('a \<Rightarrow> ('s, 'p, 'q) handler) \<Rightarrow> ('s, 'p, 'q) handler" where
  "with_body c rq decode k x = (case decodeJSON c rq decode of None \<Rightarrow> invalid_body c rq x | Some body \<Rightarrow> k body x)"

text \<open>\<open>bearerUser\<close> of \<open>google.go\<close>, and \<open>chatUser\<close>, which takes from the bucket first.\<close>

definition bearerUser ::
  "('s, 'p, 'q) http_config \<Rightarrow> http_env \<Rightarrow> http_request \<Rightarrow> (AuthUser \<Rightarrow> ('s, 'p, 'q) handler) \<Rightarrow> ('s, 'p, 'q) handler" where
  "bearerUser c e rq k x =
     (case bearerToken rq of None \<Rightarrow> unauthorized c rq x
      | Some token \<Rightarrow> (case Authenticate (hc_lib c) (en_now e) (x_auth x) token of Inl err \<Rightarrow> handleAuthError c rq err x
      | Inr user \<Rightarrow> k user x))"

definition chatUser ::
  "('s, 'p, 'q) http_config \<Rightarrow> http_env \<Rightarrow> http_request \<Rightarrow> string \<Rightarrow> (AuthUser \<Rightarrow> ('s, 'p, 'q) handler) \<Rightarrow> ('s, 'p, 'q) handler" where
  "chatUser c e rq bucket k =
     allowRequest c e rq bucket (\<lambda>x.
       case bearerToken rq of None \<Rightarrow> unauthorized c rq x
       | Some token \<Rightarrow> (case Authenticate (hc_lib c) (en_now e) (x_auth x) token of Inl err \<Rightarrow> handleAuthError c rq err x
       | Inr user \<Rightarrow> k user x))"

definition pathID ::
  "('s, 'p, 'q) http_config \<Rightarrow> http_request \<Rightarrow> string \<Rightarrow> (uuid \<Rightarrow> ('s, 'p, 'q) handler) \<Rightarrow> ('s, 'p, 'q) handler" where
  "pathID c rq name k x =
     (case hc_uuid_Parse c (rq_PathValue rq name) of
        None \<Rightarrow> writeError c rq 400 ''INVALID_REQUEST'' (name @ '' must be a UUID'') x
      | Some i \<Rightarrow> k i x)"

definition messageRequest ::
  "('s, 'p, 'q) http_config \<Rightarrow> http_env \<Rightarrow> http_request \<Rightarrow> string \<Rightarrow> (AuthUser \<Rightarrow> uuid \<Rightarrow> uuid \<Rightarrow> ('s, 'p, 'q) handler) \<Rightarrow> ('s, 'p, 'q) handler" where
  "messageRequest c e rq bucket k =
     chatUser c e rq bucket (\<lambda>user. pathID c rq ''channel_id'' (\<lambda>channelID. pathID c rq ''message_id'' (\<lambda>messageID. k user channelID messageID)))"

definition memberRequest ::
  "('s, 'p, 'q) http_config \<Rightarrow> http_env \<Rightarrow> http_request \<Rightarrow> string \<Rightarrow> (AuthUser \<Rightarrow> uuid \<Rightarrow> uuid \<Rightarrow> ('s, 'p, 'q) handler) \<Rightarrow> ('s, 'p, 'q) handler" where
  "memberRequest c e rq bucket k =
     chatUser c e rq bucket (\<lambda>user. pathID c rq ''guild_id'' (\<lambda>guildID. pathID c rq ''user_id'' (\<lambda>memberID. k user guildID memberID)))"

definition pagination :: "http_request \<Rightarrow> (string \<times> int) result" where
  "pagination rq =
     (if length (rq_Query rq ''cursor'') > 1 \<or> length (rq_Query rq ''limit'') > 1
      then Inl (ValidationError ''query'' ''parameters must not be repeated'')
      else let v = Query_Get rq ''limit'' in
        if v = [] then Inr (Query_Get rq ''cursor'', 50)
        else (case Atoi v of None \<Rightarrow> Inl (ValidationError ''limit'' ''must be an integer'')
        | Some parsed \<Rightarrow> Inr (Query_Get rq ''cursor'', parsed)))"

definition with_page ::
  "('s, 'p, 'q) http_config \<Rightarrow> http_request \<Rightarrow> (string \<Rightarrow> int \<Rightarrow> ('s, 'p, 'q) handler) \<Rightarrow> ('s, 'p, 'q) handler" where
  "with_page c rq k x = (case pagination rq of Inl err \<Rightarrow> handleChatError c rq err x | Inr (cursor, limit) \<Rightarrow> k cursor limit x)"

subsection \<open>Calling the services\<close>

text \<open>A query, a call that writes, and a call of the account service, each with its error path.\<close>

definition chat_query ::
  "('s, 'p, 'q) http_config \<Rightarrow> http_request \<Rightarrow> (chat_db \<Rightarrow> 'a result) \<Rightarrow> ('a \<Rightarrow> ('s, 'p, 'q) handler) \<Rightarrow> ('s, 'p, 'q) handler" where
  "chat_query c rq call k x = (case call (x_chat x) of Inl err \<Rightarrow> handleChatError c rq err x | Inr v \<Rightarrow> k v x)"

definition chat_call ::
  "('s, 'p, 'q) http_config \<Rightarrow> http_request \<Rightarrow> (chat_db \<Rightarrow> 'a result \<times> chat_db) \<Rightarrow> ('a \<Rightarrow> ('s, 'p, 'q) handler) \<Rightarrow> ('s, 'p, 'q) handler" where
  "chat_call c rq call k x =
     (case call (x_chat x) of (Inl err, db) \<Rightarrow> handleChatError c rq err (x\<lparr>x_chat := db\<rparr>) | (Inr v, db) \<Rightarrow> k v (x\<lparr>x_chat := db\<rparr>))"

text \<open>
  The two services share the table of users: what the account service writes there is what the chat
  service reads.
\<close>

definition account_summary :: "user_row \<Rightarrow> UserSummary" where
  "account_summary r = \<lparr>us_ID = ur_id r, us_DisplayName = ur_display_name r, us_AvatarURL = ur_avatar r\<rparr>"

definition store_accounts :: "auth_db \<Rightarrow> ('s, 'p, 'q) handler" where
  "store_accounts db x = x\<lparr>x_auth := db, x_chat := (x_chat x)\<lparr>users := map account_summary (accounts db)\<rparr>\<rparr>"

definition auth_call ::
  "(auth_db \<Rightarrow> 'a auth_result \<times> auth_db) \<Rightarrow> (auth_error \<Rightarrow> ('s, 'p, 'q) handler) \<Rightarrow> ('a \<Rightarrow> ('s, 'p, 'q) handler) \<Rightarrow> ('s, 'p, 'q) handler" where
  "auth_call call bad k x =
     (case call (x_auth x) of (Inl err, db) \<Rightarrow> bad err (store_accounts db x) | (Inr v, db) \<Rightarrow> k v (store_accounts db x))"

definition on_hub :: "('s, 'p, 'q) http_config \<Rightarrow> (chat_db \<Rightarrow> 'p hub \<Rightarrow> 'p hub) \<Rightarrow> ('s, 'p, 'q) handler" where
  "on_hub c f x = (if \<not> hc_gateway c then x else x\<lparr>x_hub := f (x_chat x) (x_hub x)\<rparr>)"

subsection \<open>Publishing\<close>

text \<open>Who is told is read from the database after the change; the queries do not fail here.\<close>

definition Server_publishMessage ::
  "('s, 'p, 'q) http_config \<Rightarrow> http_env \<Rightarrow> string \<Rightarrow> Message \<Rightarrow> ('s, 'p, 'q) handler" where
  "Server_publishMessage c e event m =
     on_hub c (\<lambda>db h. let audience = ChannelAudience db (m_ChannelID m);
                         value = message_event_value (hc_uuid_String c) (au_Direct audience) m
       in if event = ''create'' then PublishMessageCreate (hc_marshal c) (en_published e) (au_UserIDs audience) value h
          else PublishMessageUpdate (hc_marshal c) (en_published e) (au_UserIDs audience) value h)"

definition Server_publishMessageDelete ::
  "('s, 'p, 'q) http_config \<Rightarrow> http_env \<Rightarrow> uuid \<Rightarrow> uuid \<Rightarrow> ('s, 'p, 'q) handler" where
  "Server_publishMessageDelete c e messageID channelID =
     on_hub c (\<lambda>db h. let audience = ChannelAudience db channelID
       in PublishMessageDelete (hc_marshal c) (en_published e) (au_UserIDs audience) messageID channelID (au_Direct audience) h)"

definition Server_publishMessageReaction ::
  "('s, 'p, 'q) http_config \<Rightarrow> http_env \<Rightarrow> bool \<Rightarrow> uuid \<Rightarrow> uuid \<Rightarrow> uuid \<Rightarrow> MessageReaction \<Rightarrow> ('s, 'p, 'q) handler" where
  "Server_publishMessageReaction c e add messageID channelID userID r =
     on_hub c (\<lambda>db h. PublishMessageReaction (hc_marshal c) (en_published e) (au_UserIDs (ChannelAudience db channelID)) add
       \<lparr>ex_MessageID = messageID, ex_ChannelID = channelID, ex_UserID = userID, ex_Emoji = rx_Emoji r, ex_Count = int (rx_Count r)\<rparr> h)"

definition Server_publishTypingStart ::
  "('s, 'p, 'q) http_config \<Rightarrow> http_env \<Rightarrow> uuid \<Rightarrow> AuthUser \<Rightarrow> ('s, 'p, 'q) handler" where
  "Server_publishTypingStart c e channelID user =
     on_hub c (\<lambda>db h. PublishTypingStart (hc_marshal c) (en_published e) (au_UserIDs (ChannelAudience db channelID))
       \<lparr>ety_ChannelID = channelID, ety_User = \<lparr>eu_ID = usr_ID user, eu_DisplayName = usr_DisplayName user, eu_AvatarURL = usr_AvatarURL user\<rparr>,
        ety_StartedAt = en_published e\<rparr> h)"

definition Server_publishMember ::
  "('s, 'p, 'q) http_config \<Rightarrow> http_env \<Rightarrow> string \<Rightarrow> Member \<Rightarrow> ('s, 'p, 'q) handler" where
  "Server_publishMember c e event m =
     on_hub c (\<lambda>db h. let recipients = ListGuildMemberIDs db (mb_GuildID m)
       in if event = ''join'' then PublishMemberJoin (hc_marshal c) (en_published e) recipients (member_event_value m) h
          else PublishMemberUpdate (hc_marshal c) (en_published e) recipients (member_event_value m) h)"

definition Server_publishMemberLeave ::
  "('s, 'p, 'q) http_config \<Rightarrow> http_env \<Rightarrow> uuid \<Rightarrow> uuid \<Rightarrow> ('s, 'p, 'q) handler" where
  "Server_publishMemberLeave c e guildID userID =
     on_hub c (\<lambda>db h. PublishMemberLeave (hc_marshal c) (en_published e) (ListGuildMemberIDs db guildID @ [userID]) guildID userID h)"

definition publishPresence ::
  "('s, 'p, 'q) http_config \<Rightarrow> http_env \<Rightarrow> uuid list \<Rightarrow> Presence \<Rightarrow> ('s, 'p, 'q) handler" where
  "publishPresence c e guildIDs p =
     on_hub c (\<lambda>db h. fold (\<lambda>guildID. PublishPresenceUpdate (hc_marshal c) (en_published e) (ListGuildMemberIDs db guildID) guildID
       (presence_event_value p)) guildIDs h)"

definition channelRecipients :: "chat_db \<Rightarrow> Channel \<Rightarrow> uuid list" where
  "channelRecipients db ch =
     (case c_GuildID ch of None \<Rightarrow> map us_ID (c_Recipients ch) | Some g \<Rightarrow> ListGuildMemberIDs db g)"

definition publishChannel ::
  "('s, 'p, 'q) http_config \<Rightarrow> http_env \<Rightarrow> string \<Rightarrow> Channel \<Rightarrow> ('s, 'p, 'q) handler" where
  "publishChannel c e event ch =
     on_hub c (\<lambda>db h. let recipients = channelRecipients db ch
       in if event = ''create'' then PublishChannelCreate (hc_marshal c) (en_published e) recipients (channel_event_value ch) h
          else PublishChannelUpdate (hc_marshal c) (en_published e) recipients (channel_event_value ch) h)"

definition publishChannelDelete ::
  "('s, 'p, 'q) http_config \<Rightarrow> http_env \<Rightarrow> Channel \<Rightarrow> ('s, 'p, 'q) handler" where
  "publishChannelDelete c e ch =
     on_hub c (\<lambda>db h. PublishChannelDelete (hc_marshal c) (en_published e) (channelRecipients db ch) (c_ID ch) (c_GuildID ch) h)"

definition publishReadState ::
  "('s, 'p, 'q) http_config \<Rightarrow> http_env \<Rightarrow> uuid \<Rightarrow> ReadState \<Rightarrow> ('s, 'p, 'q) handler" where
  "publishReadState c e userID st =
     on_hub c (\<lambda>db h. PublishReadStateUpdate (hc_marshal c) (en_published e) userID (read_state_event_value st) h)"

definition publishVoiceState ::
  "('s, 'p, 'q) http_config \<Rightarrow> http_env \<Rightarrow> uuid \<times> State \<Rightarrow> ('s, 'p, 'q) handler" where
  "publishVoiceState c e n =
     on_hub c (\<lambda>db h. PublishVoiceStateUpdate (hc_marshal c) (en_published e) (ListGuildMemberIDs db (fst n)) (voice_event_value (snd n)) h)"

end
