(* ===== verification/Http_Auth.thy ===== *)
theory Http_Auth
  imports Http_Server
begin

section \<open>Handlers of accounts\<close>

text \<open>
  The handlers of \<open>server.go\<close>, \<open>account.go\<close> and \<open>google.go\<close>. Mail is sent in the background: the
  services queue a task, which a later step runs.
\<close>

definition health :: "('s, 'p, 'q) http_config \<Rightarrow> http_env \<Rightarrow> ('s, 'p, 'q) handler" where
  "health c e = writeJSON 200 (HealthBody (hc_version c) (en_now e))"

definition register :: "('s, 'p, 'q) http_config \<Rightarrow> http_env \<Rightarrow> http_request \<Rightarrow> ('s, 'p, 'q) handler" where
  "register c e rq =
     allowRequest c e rq ''auth_register''
     (with_body c rq (hj_RegisterPasswordRequest (hc_json c)) (\<lambda>(email, password, displayName).
      auth_call (\<lambda>db. Register (hc_lib c) (hc_sv c) (en_bytes e) (en_id e) (en_id2 e) (en_draw e) (en_now e) db
                   \<lparr>ri_Email = email, ri_Password = password, ri_DisplayName = displayName\<rparr>)
        (handleAuthError c rq) (\<lambda>tokens. writeJSON 201 (tokenResponse tokens))))"

definition loginKey :: "('s, 'p, 'q) http_config \<Rightarrow> http_request \<Rightarrow> string \<Rightarrow> string" where
  "loginKey c rq email = clientIP c rq @ ''|'' @ al_ToLower (hc_lib c) (strings_TrimSpace email)"

definition login :: "('s, 'p, 'q) http_config \<Rightarrow> http_env \<Rightarrow> http_request \<Rightarrow> ('s, 'p, 'q) handler" where
  "login c e rq =
     allowRequest c e rq ''auth_login''
     (with_body c rq (hj_LoginPasswordRequest (hc_json c)) (\<lambda>(email, password) x.
      case Take (en_taken2 e) (x_logins x) (loginKey c rq email) of (r, l) \<Rightarrow>
        let x1 = x\<lparr>x_logins := l\<rparr>
        in if \<not> lr_Allowed r then writeRateLimited c rq ''auth_login_failure'' r x1
           else auth_call (\<lambda>db. Login (hc_lib c) (hc_sv c) (en_draw e) (en_now e) db \<lparr>li_Email = email, li_Password = password\<rparr>)
                  (handleAuthError c rq)
                  (\<lambda>tokens x. writeJSON 200 (tokenResponse tokens) (x\<lparr>x_logins := Reset (x_logins x) (loginKey c rq email)\<rparr>)) x1))"

definition refresh :: "('s, 'p, 'q) http_config \<Rightarrow> http_env \<Rightarrow> http_request \<Rightarrow> ('s, 'p, 'q) handler" where
  "refresh c e rq =
     allowRequest c e rq ''auth_refresh''
     (with_body c rq (hj_text (hc_json c) ''refresh_token'') (\<lambda>token.
      auth_call (\<lambda>db. Refresh (hc_lib c) (hc_sv c) (en_bytes e) (en_bytes2 e) (en_id e) (en_now e) db token)
        (handleAuthError c rq) (\<lambda>tokens. writeJSON 200 (tokenResponse tokens))))"

definition logout :: "('s, 'p, 'q) http_config \<Rightarrow> http_env \<Rightarrow> http_request \<Rightarrow> ('s, 'p, 'q) handler" where
  "logout c e rq =
     allowRequest c e rq ''auth_logout'' (\<lambda>x.
      case bearerToken rq of None \<Rightarrow> unauthorized c rq x
      | Some accessToken \<Rightarrow>
          with_body c rq (hj_text (hc_json c) ''refresh_token'') (\<lambda>token.
            auth_call (\<lambda>db. Logout (hc_lib c) (en_now e) db accessToken token)
              (handleAuthError c rq) (\<lambda>_. WriteHeader 204)) x)"

definition currentUser :: "('s, 'p, 'q) http_config \<Rightarrow> http_env \<Rightarrow> http_request \<Rightarrow> ('s, 'p, 'q) handler" where
  "currentUser c e rq =
     allowRequest c e rq ''users_me''
     (bearerUser c e rq (\<lambda>user.
      case userSelfResponse (hc_Valid c) user of None \<Rightarrow> internal_error c rq | Some response \<Rightarrow> writeJSON 200 response))"

text \<open>\<open>account.go\<close>.\<close>

definition queue_mail :: "mail_task option \<Rightarrow> ('s, 'p, 'q) handler" where
  "queue_mail task x = (case task of None \<Rightarrow> x | Some t \<Rightarrow> x\<lparr>x_tasks := x_tasks x @ [t]\<rparr>)"

definition requestEmailVerification :: "('s, 'p, 'q) http_config \<Rightarrow> http_env \<Rightarrow> http_request \<Rightarrow> ('s, 'p, 'q) handler" where
  "requestEmailVerification c e rq =
     allowRequest c e rq ''auth_email_verification''
     (bearerUser c e rq (\<lambda>user.
      takeMail c e rq ''auth_email_verification_mail'' (hc_uuid_String c (usr_ID user)) (\<lambda>x.
      case RequestEmailVerification (hc_lib c) (hc_mailer c) user of
        (Inl err, _) \<Rightarrow> handleAuthError c rq err x
      | (Inr _, task) \<Rightarrow> WriteHeader 204 (queue_mail task x))))"

definition verifyEmail :: "('s, 'p, 'q) http_config \<Rightarrow> http_env \<Rightarrow> http_request \<Rightarrow> ('s, 'p, 'q) handler" where
  "verifyEmail c e rq =
     allowRequest c e rq ''auth_email_verify''
     (with_body c rq (hj_text (hc_json c) ''token'') (\<lambda>token.
      auth_call (\<lambda>db. VerifyEmail (hc_lib c) (en_now e) db token)
        (\<lambda>err. if err = ErrInvalidToken then writeError c rq 400 ''INVALID_VERIFICATION_TOKEN'' ''Verification token is invalid or expired''
               else handleAuthError c rq err)
        (\<lambda>_. WriteHeader 204)))"

definition requestPasswordReset :: "('s, 'p, 'q) http_config \<Rightarrow> http_env \<Rightarrow> http_request \<Rightarrow> ('s, 'p, 'q) handler" where
  "requestPasswordReset c e rq =
     allowRequest c e rq ''auth_password_reset_request''
     (with_body c rq (hj_text (hc_json c) ''email'') (\<lambda>email.
      takeMail c e rq ''auth_password_reset_mail'' (al_ToLower (hc_lib c) (strings_TrimSpace email)) (\<lambda>x.
      case RequestPasswordReset (hc_lib c) (hc_mailer c) email of
        (Inl err, _) \<Rightarrow> handleAuthError c rq err x
      | (Inr _, task) \<Rightarrow> WriteHeader 202 (queue_mail task x))))"

definition resetPassword :: "('s, 'p, 'q) http_config \<Rightarrow> http_env \<Rightarrow> http_request \<Rightarrow> ('s, 'p, 'q) handler" where
  "resetPassword c e rq =
     allowRequest c e rq ''auth_password_reset''
     (with_body c rq (hj_ResetPasswordRequest (hc_json c)) (\<lambda>(token, newPassword).
      auth_call (\<lambda>db. ResetPassword (hc_lib c) (hc_sv c) (en_bytes e) (en_now e) db token newPassword)
        (\<lambda>err. if err = ErrInvalidToken then writeError c rq 400 ''INVALID_RESET_TOKEN'' ''Reset token is invalid or expired''
               else handleAuthError c rq err)
        (\<lambda>_. WriteHeader 204)))"

text \<open>\<open>google.go\<close>.\<close>

definition beginGoogleLogin :: "('s, 'p, 'q) http_config \<Rightarrow> http_env \<Rightarrow> http_request \<Rightarrow> ('s, 'p, 'q) handler" where
  "beginGoogleLogin c e rq =
     allowRequest c e rq ''auth_google_authorize''
     (with_body c rq (hj_GoogleAuthorizationRequest (hc_json c)) (\<lambda>(redirectURI, challengeMethod, challenge, clientState).
      let begin_for = (\<lambda>linkUserID.
            auth_call (\<lambda>db. BeginGoogleLogin (hc_lib c) (hc_google c) (en_bytes e) (en_bytes2 e) (en_id e) (en_now e) db
                          challenge clientState linkUserID)
              (handleAuthError c rq)
              (\<lambda>(url, expiresIn) x. writeJSON 200 (GoogleAuthorizationBody url expiresIn) (set_header ''Cache-Control'' ''no-store'' x)))
      in if redirectURI \<noteq> DesktopRedirectURI \<or> challengeMethod \<noteq> ''S256''
         then writeError c rq 400 ''INVALID_REQUEST'' ''redirect_uri or code_challenge_method is not allowed''
         else if rq_Header rq ''Authorization'' \<noteq> [] then bearerUser c e rq (\<lambda>user. begin_for (Some (usr_ID user)))
         else begin_for None))"

definition completeGoogleLogin :: "('s, 'p, 'q) http_config \<Rightarrow> http_env \<Rightarrow> http_request \<Rightarrow> ('s, 'p, 'q) handler" where
  "completeGoogleLogin c e rq =
     allowRequest c e rq ''auth_google_callback''
     (auth_call (\<lambda>db. CompleteGoogleLogin (hc_lib c) (if hc_google c = None then None else Some (en_exchange e)) (en_bytes e) (en_now e) db
                     (Query_Get rq ''state'') (Query_Get rq ''code'') (Query_Get rq ''error''))
        (\<lambda>err. if err = ErrInvalidOAuthCallback then writeError c rq 400 ''INVALID_OAUTH_CALLBACK'' ''OAuth callback is invalid or expired''
               else handleAuthError c rq err)
        (\<lambda>res x. WriteHeader 302 (set_header ''Location'' (cb_RedirectURL res) (set_header ''Cache-Control'' ''no-store'' x))))"

definition exchangeGoogleLogin :: "('s, 'p, 'q) http_config \<Rightarrow> http_env \<Rightarrow> http_request \<Rightarrow> ('s, 'p, 'q) handler" where
  "exchangeGoogleLogin c e rq =
     allowRequest c e rq ''auth_google_exchange''
     (with_body c rq (hj_GoogleExchangeRequest (hc_json c)) (\<lambda>(code, verifier).
      auth_call (\<lambda>db. ExchangeGoogleLogin (hc_lib c) (hc_sv c) (hc_google c \<noteq> None) (en_id e) (en_id2 e) (en_draw e) (en_now e) db code verifier)
        (handleAuthError c rq) (\<lambda>tokens. writeJSON 200 (tokenResponse tokens))))"

definition linkGoogleIdentity :: "('s, 'p, 'q) http_config \<Rightarrow> http_env \<Rightarrow> http_request \<Rightarrow> ('s, 'p, 'q) handler" where
  "linkGoogleIdentity c e rq =
     allowRequest c e rq ''auth_google_link''
     (bearerUser c e rq (\<lambda>user.
      with_body c rq (hj_GoogleExchangeRequest (hc_json c)) (\<lambda>(code, verifier).
      auth_call (\<lambda>db. LinkGoogleIdentity (hc_lib c) (hc_google c \<noteq> None) (en_id e) (en_now e) db (usr_ID user) code verifier)
        (handleAuthError c rq)
        (\<lambda>linked. case userSelfResponse (hc_Valid c) linked of None \<Rightarrow> internal_error c rq | Some response \<Rightarrow> writeJSON 200 response))))"

definition unlinkAuthenticationMethod :: "('s, 'p, 'q) http_config \<Rightarrow> http_env \<Rightarrow> http_request \<Rightarrow> ('s, 'p, 'q) handler" where
  "unlinkAuthenticationMethod c e rq =
     allowRequest c e rq ''users_unlink_method''
     (bearerUser c e rq (\<lambda>user.
      auth_call (\<lambda>db. UnlinkAuthenticationMethod db (usr_ID user) (rq_PathValue rq ''method''))
        (handleAuthError c rq) (\<lambda>_. WriteHeader 204)))"

end
