(* ===== verification/Http_Chat.thy ===== *)
theory Http_Chat
  imports Http_Server
begin

section \<open>Handlers of guilds, channels and messages\<close>

text \<open>
  The handlers of \<open>chat.go\<close>, \<open>channels.go\<close>, \<open>members.go\<close>, \<open>roles.go\<close>, \<open>attachments.go\<close> and
  \<open>readstate.go\<close>: each authenticates, reads the path, the query and the body, calls the service,
  publishes what changed and answers.
\<close>

subsection \<open>Guilds: chat.go\<close>

definition createGuild :: "('s, 'p, 'q) http_config \<Rightarrow> http_env \<Rightarrow> http_request \<Rightarrow> ('s, 'p, 'q) handler" where
  "createGuild c e rq =
     chatUser c e rq ''guilds_create'' (\<lambda>user.
     with_body c rq (hj_CreateGuildRequest (hc_json c)) (\<lambda>(name, description).
     chat_call c rq (\<lambda>db. CreateGuild (en_id e) (en_id2 e) (en_now e) db (usr_ID user) \<lparr>cgi_Name = name, cgi_Description = description\<rparr>)
       (\<lambda>guild. writeJSON 201 (GuildBody (guildResponse guild)))))"

definition listGuilds :: "('s, 'p, 'q) http_config \<Rightarrow> http_env \<Rightarrow> http_request \<Rightarrow> ('s, 'p, 'q) handler" where
  "listGuilds c e rq =
     chatUser c e rq ''guilds_list'' (\<lambda>user.
     with_page c rq (\<lambda>cursor limit.
     chat_query c rq (\<lambda>db. ListGuilds (hc_cursor c) db (usr_ID user) cursor limit)
       (\<lambda>page. writeJSON 200 (GuildList (map guildResponse (pg_Items page)) (pageResponse (pg_HasMore page) (pg_NextCursor page))))))"

definition getGuild :: "('s, 'p, 'q) http_config \<Rightarrow> http_env \<Rightarrow> http_request \<Rightarrow> ('s, 'p, 'q) handler" where
  "getGuild c e rq =
     chatUser c e rq ''guilds_get'' (\<lambda>user. pathID c rq ''guild_id'' (\<lambda>guildID.
     chat_query c rq (\<lambda>db. GetGuild db (usr_ID user) guildID) (\<lambda>guild. writeJSON 200 (GuildBody (guildResponse guild)))))"

definition updateGuild :: "('s, 'p, 'q) http_config \<Rightarrow> http_env \<Rightarrow> http_request \<Rightarrow> ('s, 'p, 'q) handler" where
  "updateGuild c e rq =
     chatUser c e rq ''guilds_update'' (\<lambda>user. pathID c rq ''guild_id'' (\<lambda>guildID.
     with_body c rq (guildPatchBody (hc_json c)) (\<lambda>(name, description).
     chat_call c rq (\<lambda>db. UpdateGuild db (usr_ID user) guildID \<lparr>ugi_Name = name, ugi_Description = description\<rparr>)
       (\<lambda>guild. writeJSON 200 (GuildBody (guildResponse guild))))))"

definition deleteGuild :: "('s, 'p, 'q) http_config \<Rightarrow> http_env \<Rightarrow> http_request \<Rightarrow> ('s, 'p, 'q) handler" where
  "deleteGuild c e rq =
     chatUser c e rq ''guilds_delete'' (\<lambda>user. pathID c rq ''guild_id'' (\<lambda>guildID.
     chat_call c rq (\<lambda>db. DeleteGuild db (usr_ID user) guildID) (\<lambda>_. WriteHeader 204)))"

subsection \<open>Channels: chat.go and channels.go\<close>

definition createChannel :: "('s, 'p, 'q) http_config \<Rightarrow> http_env \<Rightarrow> http_request \<Rightarrow> ('s, 'p, 'q) handler" where
  "createChannel c e rq =
     chatUser c e rq ''channels_create'' (\<lambda>user. pathID c rq ''guild_id'' (\<lambda>guildID.
     with_body c rq (hj_CreateChannelRequest (hc_json c)) (\<lambda>(type, name, topic, parentID).
     chat_call c rq (\<lambda>db. CreateChannel (en_id e) (en_now e) db (usr_ID user) guildID
         \<lparr>cci_Type = type, cci_Name = name, cci_Topic = topic, cci_ParentID = parentID\<rparr>)
       (\<lambda>channel x. writeJSON 201 (ChannelBody (channelResponse channel)) (publishChannel c e ''create'' channel x)))))"

definition listChannels :: "('s, 'p, 'q) http_config \<Rightarrow> http_env \<Rightarrow> http_request \<Rightarrow> ('s, 'p, 'q) handler" where
  "listChannels c e rq =
     chatUser c e rq ''channels_list'' (\<lambda>user. pathID c rq ''guild_id'' (\<lambda>guildID.
     with_page c rq (\<lambda>cursor limit.
     chat_query c rq (\<lambda>db. ListChannels (hc_cursor c) db (usr_ID user) guildID cursor limit)
       (\<lambda>page. writeJSON 200 (ChannelList (map channelResponse (pg_Items page)) (pageResponse (pg_HasMore page) (pg_NextCursor page)))))))"

definition getChannel :: "('s, 'p, 'q) http_config \<Rightarrow> http_env \<Rightarrow> http_request \<Rightarrow> ('s, 'p, 'q) handler" where
  "getChannel c e rq =
     chatUser c e rq ''channels_get'' (\<lambda>user. pathID c rq ''channel_id'' (\<lambda>channelID.
     chat_query c rq (\<lambda>db. GetChannel db (usr_ID user) channelID) (\<lambda>channel. writeJSON 200 (ChannelBody (channelResponse channel)))))"

definition updateChannel :: "('s, 'p, 'q) http_config \<Rightarrow> http_env \<Rightarrow> http_request \<Rightarrow> ('s, 'p, 'q) handler" where
  "updateChannel c e rq =
     chatUser c e rq ''channels_update'' (\<lambda>user. pathID c rq ''channel_id'' (\<lambda>channelID.
     with_body c rq (channelPatchBody (hc_json c)) (\<lambda>(name, topic, position, parentID).
     chat_call c rq (\<lambda>db. UpdateChannel (en_now e) db (usr_ID user) channelID
         \<lparr>uci_Name = name, uci_Topic = topic, uci_Position = position, uci_ParentID = parentID\<rparr>)
       (\<lambda>channel x. writeJSON 200 (ChannelBody (channelResponse channel)) (publishChannel c e ''update'' channel x)))))"

definition deleteChannel :: "('s, 'p, 'q) http_config \<Rightarrow> http_env \<Rightarrow> http_request \<Rightarrow> ('s, 'p, 'q) handler" where
  "deleteChannel c e rq =
     chatUser c e rq ''channels_delete'' (\<lambda>user. pathID c rq ''channel_id'' (\<lambda>channelID.
     chat_query c rq (\<lambda>db. GetChannel db (usr_ID user) channelID) (\<lambda>channel.
     chat_call c rq (\<lambda>db. DeleteChannel db (usr_ID user) channelID)
       (\<lambda>_ x. WriteHeader 204 (publishChannelDelete c e channel x)))))"

definition createThread :: "('s, 'p, 'q) http_config \<Rightarrow> http_env \<Rightarrow> http_request \<Rightarrow> ('s, 'p, 'q) handler" where
  "createThread c e rq =
     chatUser c e rq ''threads_create'' (\<lambda>user. pathID c rq ''channel_id'' (\<lambda>parentID.
     with_body c rq (hj_CreateThreadRequest (hc_json c)) (\<lambda>(name, messageID).
     chat_call c rq (\<lambda>db. CreateThread (en_id e) (en_now e) db (usr_ID user) parentID name messageID)
       (\<lambda>thread x. writeJSON 201 (ChannelBody (channelResponse thread)) (publishChannel c e ''create'' thread x)))))"

definition listThreads :: "('s, 'p, 'q) http_config \<Rightarrow> http_env \<Rightarrow> http_request \<Rightarrow> ('s, 'p, 'q) handler" where
  "listThreads c e rq =
     chatUser c e rq ''threads_list'' (\<lambda>user. pathID c rq ''channel_id'' (\<lambda>parentID.
     with_page c rq (\<lambda>cursor limit.
     chat_query c rq (\<lambda>db. ListThreads (hc_cursor c) db (usr_ID user) parentID cursor limit)
       (\<lambda>page. writeJSON 200 (channelListResponse page)))))"

definition openDirectChannel :: "('s, 'p, 'q) http_config \<Rightarrow> http_env \<Rightarrow> http_request \<Rightarrow> ('s, 'p, 'q) handler" where
  "openDirectChannel c e rq =
     chatUser c e rq ''direct_channels_open'' (\<lambda>user.
     with_body c rq (hj_uuid_body (hc_json c) ''recipient_id'') (\<lambda>recipientID.
     chat_call c rq (\<lambda>db. OpenDirectChannel (en_id e) (en_now e) db (usr_ID user) recipientID)
       (\<lambda>(channel, created) x. writeJSON 200 (ChannelBody (channelResponse channel))
          (if created then publishChannel c e ''create'' channel x else x))))"

definition listDirectChannels :: "('s, 'p, 'q) http_config \<Rightarrow> http_env \<Rightarrow> http_request \<Rightarrow> ('s, 'p, 'q) handler" where
  "listDirectChannels c e rq =
     chatUser c e rq ''direct_channels_list'' (\<lambda>user.
     with_page c rq (\<lambda>cursor limit.
     chat_query c rq (\<lambda>db. ListDirectChannels (hc_cursor c) db (usr_ID user) cursor limit)
       (\<lambda>page. writeJSON 200 (channelListResponse page))))"

subsection \<open>Messages: chat.go\<close>

definition createMessage :: "('s, 'p, 'q) http_config \<Rightarrow> http_env \<Rightarrow> http_request \<Rightarrow> ('s, 'p, 'q) handler" where
  "createMessage c e rq =
     chatUser c e rq ''messages_create'' (\<lambda>user. pathID c rq ''channel_id'' (\<lambda>channelID.
     with_body c rq (hj_CreateMessageRequest (hc_json c)) (\<lambda>(content, replyTo, attachmentIDs).
     chat_call c rq (\<lambda>db. CreateMessage (en_id e) (en_now e) db (usr_ID user) channelID
         (case content of None \<Rightarrow> [] | Some s \<Rightarrow> s) replyTo (case attachmentIDs of None \<Rightarrow> [] | Some ids \<Rightarrow> ids))
       (\<lambda>m x. writeJSON 201 (MessageBody (messageResponse (hc_uuid_String c) m)) (Server_publishMessage c e ''create'' m x)))))"

definition listMessages :: "('s, 'p, 'q) http_config \<Rightarrow> http_env \<Rightarrow> http_request \<Rightarrow> ('s, 'p, 'q) handler" where
  "listMessages c e rq =
     chatUser c e rq ''messages_list'' (\<lambda>user. pathID c rq ''channel_id'' (\<lambda>channelID.
     with_page c rq (\<lambda>cursor limit.
     chat_query c rq (\<lambda>db. ListMessages (hc_cursor c) db (usr_ID user) channelID cursor limit)
       (\<lambda>page. writeJSON 200 (MessageList (map (messageResponse (hc_uuid_String c)) (pg_Items page))
                 (pageResponse (pg_HasMore page) (pg_NextCursor page)))))))"

definition getMessage :: "('s, 'p, 'q) http_config \<Rightarrow> http_env \<Rightarrow> http_request \<Rightarrow> ('s, 'p, 'q) handler" where
  "getMessage c e rq =
     messageRequest c e rq ''messages_get'' (\<lambda>user channelID messageID.
     chat_query c rq (\<lambda>db. GetMessage db (usr_ID user) channelID messageID)
       (\<lambda>m. writeJSON 200 (MessageBody (messageResponse (hc_uuid_String c) m))))"

definition updateMessage :: "('s, 'p, 'q) http_config \<Rightarrow> http_env \<Rightarrow> http_request \<Rightarrow> ('s, 'p, 'q) handler" where
  "updateMessage c e rq =
     messageRequest c e rq ''messages_update'' (\<lambda>user channelID messageID.
     with_body c rq (hj_text (hc_json c) ''content'') (\<lambda>content.
     chat_call c rq (\<lambda>db. UpdateMessage (en_now e) db (usr_ID user) channelID messageID content)
       (\<lambda>m x. writeJSON 200 (MessageBody (messageResponse (hc_uuid_String c) m)) (Server_publishMessage c e ''update'' m x))))"

definition deleteMessage :: "('s, 'p, 'q) http_config \<Rightarrow> http_env \<Rightarrow> http_request \<Rightarrow> ('s, 'p, 'q) handler" where
  "deleteMessage c e rq =
     messageRequest c e rq ''messages_delete'' (\<lambda>user channelID messageID.
     chat_call c rq (\<lambda>db. DeleteMessage db (usr_ID user) channelID messageID)
       (\<lambda>_ x. WriteHeader 204 (Server_publishMessageDelete c e messageID channelID x)))"

definition startTyping :: "('s, 'p, 'q) http_config \<Rightarrow> http_env \<Rightarrow> http_request \<Rightarrow> ('s, 'p, 'q) handler" where
  "startTyping c e rq =
     chatUser c e rq ''channels_typing'' (\<lambda>user. pathID c rq ''channel_id'' (\<lambda>channelID.
     chat_query c rq (\<lambda>db. StartTyping db (usr_ID user) channelID)
       (\<lambda>_ x. WriteHeader 204 (Server_publishTypingStart c e channelID user x))))"

definition Server_changeMessageReaction :: "('s, 'p, 'q) http_config \<Rightarrow> http_env \<Rightarrow> http_request \<Rightarrow> bool \<Rightarrow> ('s, 'p, 'q) handler" where
  "Server_changeMessageReaction c e rq add =
     messageRequest c e rq (if add then ''message_reactions_add'' else ''message_reactions_remove'') (\<lambda>user channelID messageID.
     chat_call c rq (\<lambda>db. if add then AddMessageReaction (hc_So c) (en_now e) db (usr_ID user) channelID messageID (rq_PathValue rq ''emoji'')
                          else RemoveMessageReaction (hc_So c) db (usr_ID user) channelID messageID (rq_PathValue rq ''emoji''))
       (\<lambda>(reaction, changed) x. writeJSON 200 (ReactionBody (messageReactionResponse reaction))
          (if changed then Server_publishMessageReaction c e add messageID channelID (usr_ID user) reaction x else x)))"

definition addMessageReaction :: "('s, 'p, 'q) http_config \<Rightarrow> http_env \<Rightarrow> http_request \<Rightarrow> ('s, 'p, 'q) handler" where
  "addMessageReaction c e rq = Server_changeMessageReaction c e rq True"

definition removeMessageReaction :: "('s, 'p, 'q) http_config \<Rightarrow> http_env \<Rightarrow> http_request \<Rightarrow> ('s, 'p, 'q) handler" where
  "removeMessageReaction c e rq = Server_changeMessageReaction c e rq False"

subsection \<open>Members, invites and presence: members.go\<close>

definition listMembers :: "('s, 'p, 'q) http_config \<Rightarrow> http_env \<Rightarrow> http_request \<Rightarrow> ('s, 'p, 'q) handler" where
  "listMembers c e rq =
     chatUser c e rq ''members_list'' (\<lambda>user. pathID c rq ''guild_id'' (\<lambda>guildID.
     with_page c rq (\<lambda>cursor limit x.
     chat_query c rq (\<lambda>db. ListMembers (hc_cursor c) (x_presence x) db (usr_ID user) guildID cursor limit)
       (\<lambda>page. writeJSON 200 (MemberList (map memberResponse (pg_Items page)) (pageResponse (pg_HasMore page) (pg_NextCursor page)))) x)))"

definition getMember :: "('s, 'p, 'q) http_config \<Rightarrow> http_env \<Rightarrow> http_request \<Rightarrow> ('s, 'p, 'q) handler" where
  "getMember c e rq =
     memberRequest c e rq ''members_get'' (\<lambda>user guildID memberID x.
     chat_query c rq (\<lambda>db. GetMember (x_presence x) db (usr_ID user) guildID memberID)
       (\<lambda>member. writeJSON 200 (MemberBody (memberResponse member))) x)"

definition updateMember :: "('s, 'p, 'q) http_config \<Rightarrow> http_env \<Rightarrow> http_request \<Rightarrow> ('s, 'p, 'q) handler" where
  "updateMember c e rq =
     memberRequest c e rq ''members_update'' (\<lambda>user guildID memberID.
     with_body c rq (memberPatchBody (hc_json c)) (\<lambda>(nickname, roleIDs) x.
     chat_call c rq (\<lambda>db. UpdateMember (hc_uuid_String c) (x_presence x) db (usr_ID user) guildID memberID
         \<lparr>umi_Nickname = nickname, umi_RoleIDs = roleIDs\<rparr>)
       (\<lambda>member x. writeJSON 200 (MemberBody (memberResponse member))
          (if opt_Set nickname \<or> roleIDs \<noteq> None then Server_publishMember c e ''update'' member x else x)) x))"

definition removeMember :: "('s, 'p, 'q) http_config \<Rightarrow> http_env \<Rightarrow> http_request \<Rightarrow> ('s, 'p, 'q) handler" where
  "removeMember c e rq =
     memberRequest c e rq ''members_remove'' (\<lambda>user guildID memberID.
     chat_call c rq (\<lambda>db. RemoveMember db (usr_ID user) guildID memberID)
       (\<lambda>_ x. WriteHeader 204 (Server_publishMemberLeave c e guildID memberID x)))"

definition leaveGuild :: "('s, 'p, 'q) http_config \<Rightarrow> http_env \<Rightarrow> http_request \<Rightarrow> ('s, 'p, 'q) handler" where
  "leaveGuild c e rq =
     chatUser c e rq ''members_leave'' (\<lambda>user. pathID c rq ''guild_id'' (\<lambda>guildID.
     chat_call c rq (\<lambda>db. LeaveGuild db (usr_ID user) guildID)
       (\<lambda>_ x. WriteHeader 204 (Server_publishMemberLeave c e guildID (usr_ID user) x))))"

definition createInvite :: "('s, 'p, 'q) http_config \<Rightarrow> http_env \<Rightarrow> http_request \<Rightarrow> ('s, 'p, 'q) handler" where
  "createInvite c e rq =
     chatUser c e rq ''invites_create'' (\<lambda>user. pathID c rq ''guild_id'' (\<lambda>guildID.
     with_body c rq (hj_CreateInviteRequest (hc_json c)) (\<lambda>(expiresIn, maxUses).
     chat_call c rq (\<lambda>db. CreateInvite (en_id e) (en_bytes e) (en_now e) db (usr_ID user) guildID
         \<lparr>cii_ExpiresIn = expiresIn, cii_MaxUses = maxUses\<rparr>)
       (\<lambda>invite. writeJSON 201 (InviteBody (inviteResponse invite))))))"

definition listInvites :: "('s, 'p, 'q) http_config \<Rightarrow> http_env \<Rightarrow> http_request \<Rightarrow> ('s, 'p, 'q) handler" where
  "listInvites c e rq =
     chatUser c e rq ''invites_list'' (\<lambda>user. pathID c rq ''guild_id'' (\<lambda>guildID.
     chat_query c rq (\<lambda>db. ListInvites (en_now e) db (usr_ID user) guildID)
       (\<lambda>items. writeJSON 200 (InviteList (map inviteResponse items)))))"

definition deleteInvite :: "('s, 'p, 'q) http_config \<Rightarrow> http_env \<Rightarrow> http_request \<Rightarrow> ('s, 'p, 'q) handler" where
  "deleteInvite c e rq =
     chatUser c e rq ''invites_delete'' (\<lambda>user. pathID c rq ''guild_id'' (\<lambda>guildID. pathID c rq ''invite_id'' (\<lambda>inviteID.
     chat_call c rq (\<lambda>db. RevokeInvite (en_now e) db (usr_ID user) guildID inviteID) (\<lambda>_. WriteHeader 204))))"

definition getInvite :: "('s, 'p, 'q) http_config \<Rightarrow> http_env \<Rightarrow> http_request \<Rightarrow> ('s, 'p, 'q) handler" where
  "getInvite c e rq =
     chatUser c e rq ''invites_get'' (\<lambda>_.
     chat_query c rq (\<lambda>db. GetInvite (en_now e) db (rq_PathValue rq ''invite_code''))
       (\<lambda>invite. writeJSON 200 (InviteBody (inviteResponse invite))))"

definition acceptInvite :: "('s, 'p, 'q) http_config \<Rightarrow> http_env \<Rightarrow> http_request \<Rightarrow> ('s, 'p, 'q) handler" where
  "acceptInvite c e rq =
     chatUser c e rq ''invites_accept'' (\<lambda>user x.
     chat_call c rq (\<lambda>db. AcceptInvite (x_presence x) (en_now e) db (usr_ID user) (rq_PathValue rq ''invite_code''))
       (\<lambda>(member, joined) x. writeJSON 200 (MemberBody (memberResponse member))
          (if joined then Server_publishMember c e ''join'' member x else x)) x)"

definition updatePresence :: "('s, 'p, 'q) http_config \<Rightarrow> http_env \<Rightarrow> http_request \<Rightarrow> ('s, 'p, 'q) handler" where
  "updatePresence c e rq =
     chatUser c e rq ''presence_update'' (\<lambda>user.
     with_body c rq (hj_presenceBody (hc_json c)) (\<lambda>(status, customText) x.
     case SetPresence (en_now e) (x_chat x) (x_presence x) (usr_ID user) status customText of
       (Inl err, t) \<Rightarrow> handleChatError c rq err (x\<lparr>x_presence := t\<rparr>)
     | (Inr (presence, guildIDs), t) \<Rightarrow>
         writeJSON 200 (PresenceBody (presence_response presence)) (publishPresence c e guildIDs presence (x\<lparr>x_presence := t\<rparr>))))"

subsection \<open>Roles: roles.go\<close>

definition listRoles :: "('s, 'p, 'q) http_config \<Rightarrow> http_env \<Rightarrow> http_request \<Rightarrow> ('s, 'p, 'q) handler" where
  "listRoles c e rq =
     chatUser c e rq ''roles_list'' (\<lambda>user. pathID c rq ''guild_id'' (\<lambda>guildID.
     chat_query c rq (\<lambda>db. ListRoles db (usr_ID user) guildID) (\<lambda>items. writeJSON 200 (RoleList (map roleResponse items)))))"

definition createRole :: "('s, 'p, 'q) http_config \<Rightarrow> http_env \<Rightarrow> http_request \<Rightarrow> ('s, 'p, 'q) handler" where
  "createRole c e rq =
     chatUser c e rq ''roles_create'' (\<lambda>user. pathID c rq ''guild_id'' (\<lambda>guildID.
     with_body c rq (hj_CreateRoleRequest (hc_json c)) (\<lambda>(name, color, perms).
     chat_call c rq (\<lambda>db. CreateRole (en_id e) (en_now e) db (usr_ID user) guildID
         \<lparr>cri_Name = name, cri_Color = color, cri_Permissions = perms\<rparr>)
       (\<lambda>role. writeJSON 201 (RoleBody (roleResponse role))))))"

definition updateRole :: "('s, 'p, 'q) http_config \<Rightarrow> http_env \<Rightarrow> http_request \<Rightarrow> ('s, 'p, 'q) handler" where
  "updateRole c e rq =
     chatUser c e rq ''roles_update'' (\<lambda>user. pathID c rq ''guild_id'' (\<lambda>guildID. pathID c rq ''role_id'' (\<lambda>roleID.
     with_body c rq (rolePatchBody (hc_json c)) (\<lambda>(name, color, perms, position).
     chat_call c rq (\<lambda>db. UpdateRole db (usr_ID user) guildID roleID
         \<lparr>uri_Name = name, uri_Color = color, uri_Permissions = perms, uri_Position = position\<rparr>)
       (\<lambda>role. writeJSON 200 (RoleBody (roleResponse role)))))))"

definition deleteRole :: "('s, 'p, 'q) http_config \<Rightarrow> http_env \<Rightarrow> http_request \<Rightarrow> ('s, 'p, 'q) handler" where
  "deleteRole c e rq =
     chatUser c e rq ''roles_delete'' (\<lambda>user. pathID c rq ''guild_id'' (\<lambda>guildID. pathID c rq ''role_id'' (\<lambda>roleID.
     chat_call c rq (\<lambda>db. DeleteRole db (usr_ID user) guildID roleID) (\<lambda>_. WriteHeader 204))))"

subsection \<open>Attachments: attachments.go\<close>

definition media_of :: "('s, 'p, 'q) http_config \<Rightarrow> ('s, 'p, 'q) exchange \<Rightarrow> ('s Storage \<times> 's) option" where
  "media_of c x = map_option (\<lambda>m. (m, x_objects x)) (hc_media c)"

definition createAttachmentIntent :: "('s, 'p, 'q) http_config \<Rightarrow> http_env \<Rightarrow> http_request \<Rightarrow> ('s, 'p, 'q) handler" where
  "createAttachmentIntent c e rq =
     chatUser c e rq ''attachments_intent'' (\<lambda>user. pathID c rq ''channel_id'' (\<lambda>channelID.
     with_body c rq (hj_UploadIntentRequest (hc_json c)) (\<lambda>(filename, contentType, size, checksum) x.
     chat_call c rq (\<lambda>db. CreateAttachmentIntent (hc_uuid_String c) (hc_ParseMediaType c) (media_of c x) (en_id e) (en_now e) db
         (usr_ID user) channelID \<lparr>cai_Filename = filename, cai_ContentType = contentType, cai_Size = size, cai_ChecksumSHA256 = checksum\<rparr>)
       (\<lambda>(a, upload). writeJSON 201 (UploadIntentBody (attachmentResponse (hc_uuid_String c) a) (up_URL upload) (up_Headers upload)
          (up_ExpiresAt upload))) x)))"

definition finalizeAttachment :: "('s, 'p, 'q) http_config \<Rightarrow> http_env \<Rightarrow> http_request \<Rightarrow> ('s, 'p, 'q) handler" where
  "finalizeAttachment c e rq =
     chatUser c e rq ''attachments_finalize'' (\<lambda>user. pathID c rq ''attachment_id'' (\<lambda>attachmentID x.
     chat_call c rq (\<lambda>db. FinalizeAttachment (hc_ParseMediaType c) (hc_EqualFold c) (media_of c x) db (usr_ID user) attachmentID)
       (\<lambda>a. writeJSON 200 (AttachmentBody (attachmentResponse (hc_uuid_String c) a))) x))"

definition getAttachment :: "('s, 'p, 'q) http_config \<Rightarrow> http_env \<Rightarrow> http_request \<Rightarrow> ('s, 'p, 'q) handler" where
  "getAttachment c e rq =
     chatUser c e rq ''attachments_get'' (\<lambda>user. pathID c rq ''attachment_id'' (\<lambda>attachmentID.
     chat_query c rq (\<lambda>db. GetAttachment db (usr_ID user) attachmentID)
       (\<lambda>a. writeJSON 200 (AttachmentBody (attachmentResponse (hc_uuid_String c) a)))))"

definition deleteAttachment :: "('s, 'p, 'q) http_config \<Rightarrow> http_env \<Rightarrow> http_request \<Rightarrow> ('s, 'p, 'q) handler" where
  "deleteAttachment c e rq =
     chatUser c e rq ''attachments_delete'' (\<lambda>user. pathID c rq ''attachment_id'' (\<lambda>attachmentID.
     chat_call c rq (\<lambda>db. DeleteAttachment db (usr_ID user) attachmentID) (\<lambda>_. WriteHeader 204)))"

definition downloadAttachment :: "('s, 'p, 'q) http_config \<Rightarrow> http_env \<Rightarrow> http_request \<Rightarrow> ('s, 'p, 'q) handler" where
  "downloadAttachment c e rq =
     chatUser c e rq ''attachments_download'' (\<lambda>user. pathID c rq ''attachment_id'' (\<lambda>attachmentID x.
     chat_query c rq (\<lambda>db. AttachmentDownload (media_of c x) db (usr_ID user) attachmentID)
       (\<lambda>download x. WriteHeader 303 (set_header ''Location'' (dl_URL download) (set_header ''Cache-Control'' ''no-store'' x))) x))"

definition createAttachmentDownloadIntent :: "('s, 'p, 'q) http_config \<Rightarrow> http_env \<Rightarrow> http_request \<Rightarrow> ('s, 'p, 'q) handler" where
  "createAttachmentDownloadIntent c e rq =
     chatUser c e rq ''attachments_download_intent'' (\<lambda>user. pathID c rq ''attachment_id'' (\<lambda>attachmentID x.
     chat_query c rq (\<lambda>db. AttachmentDownload (media_of c x) db (usr_ID user) attachmentID)
       (\<lambda>download x. writeJSON 200 (DownloadIntentBody (dl_URL download) (dl_ExpiresAt download)) (set_header ''Cache-Control'' ''no-store'' x)) x))"

subsection \<open>Read state and search: readstate.go\<close>

definition updateReadState :: "('s, 'p, 'q) http_config \<Rightarrow> http_env \<Rightarrow> http_request \<Rightarrow> ('s, 'p, 'q) handler" where
  "updateReadState c e rq =
     chatUser c e rq ''read_state_update'' (\<lambda>user. pathID c rq ''channel_id'' (\<lambda>channelID.
     with_body c rq (hj_uuid_body (hc_json c) ''last_read_message_id'') (\<lambda>messageID.
     chat_call c rq (\<lambda>db. UpdateReadState (en_now e) db (usr_ID user) channelID messageID)
       (\<lambda>(state, changed) x. writeJSON 200 (ReadStateBody (readStateResponse state))
          (if changed then publishReadState c e (usr_ID user) state x else x)))))"

definition listReadStates :: "('s, 'p, 'q) http_config \<Rightarrow> http_env \<Rightarrow> http_request \<Rightarrow> ('s, 'p, 'q) handler" where
  "listReadStates c e rq =
     chatUser c e rq ''read_states_list'' (\<lambda>user x.
     writeJSON 200 (ReadStateList (map readStateResponse (ListReadStates (x_chat x) (usr_ID user)))) x)"

text \<open>The two optional identifiers of a search; Go visits them in either order, which shows only in which error is reported.\<close>

definition search_id :: "('s, 'p, 'q) http_config \<Rightarrow> http_request \<Rightarrow> string \<Rightarrow> uuid option result" where
  "search_id c rq name =
     (if Query_Get rq name = [] then Inr None
      else (case hc_uuid_Parse c (Query_Get rq name) of None \<Rightarrow> Inl (ValidationError name ''must be a UUID'') | Some i \<Rightarrow> Inr (Some i)))"

definition search_input :: "('s, 'p, 'q) http_config \<Rightarrow> http_request \<Rightarrow> SearchInput result" where
  "search_input c rq =
     (if list_ex (\<lambda>name. length (rq_Query rq name) > 1) [''query'', ''channel_id'', ''author_id'']
      then Inl (ValidationError ''query'' ''parameters must not be repeated'')
      else (case search_id c rq ''channel_id'' of Inl err \<Rightarrow> Inl err
      | Inr ch \<Rightarrow> (case search_id c rq ''author_id'' of Inl err \<Rightarrow> Inl err
      | Inr author \<Rightarrow> Inr \<lparr>si_Query = Query_Get rq ''query'', si_ChannelID = ch, si_AuthorID = author\<rparr>)))"

definition searchMessages :: "('s, 'p, 'q) http_config \<Rightarrow> http_env \<Rightarrow> http_request \<Rightarrow> ('s, 'p, 'q) handler" where
  "searchMessages c e rq =
     chatUser c e rq ''messages_search'' (\<lambda>user. pathID c rq ''guild_id'' (\<lambda>guildID.
     chat_query c rq (\<lambda>_. search_input c rq) (\<lambda>input.
     with_page c rq (\<lambda>cursor limit.
     chat_query c rq (\<lambda>db. SearchMessages (hc_ilike c) (hc_EqualFold c) (hc_cursor c) db (usr_ID user) guildID input cursor limit)
       (\<lambda>page. writeJSON 200 (SearchList (map (\<lambda>r. (messageResponse (hc_uuid_String c) (sr_Message r), sr_Excerpt r)) (pg_Items page))
                 (pageResponse (pg_HasMore page) (pg_NextCursor page))))))))"

end
