(* ===== verification/Http_Routes.thy ===== *)
theory Http_Routes
  imports Http_Auth Http_Chat
begin

section \<open>Voice, routes and the middleware\<close>

text \<open>
  \<open>voice.go\<close>, the routes of \<open>New\<close> in \<open>server.go\<close>, \<open>cors.go\<close> and \<open>middleware.go\<close>. The multiplexer is
  that of \<open>net/http\<close>: among the patterns that match, the most specific one. Paths arrive cleaned and
  split, and the header \<open>Allow\<close> of a 405 is left out. A connection that is upgraded is served by the
  gateway, whose theories are \<open>Gateway_Hub\<close> to \<open>Gateway_Server\<close>.
\<close>

subsection \<open>Voice: voice.go\<close>

text \<open>The notifier is \<open>publishVoiceState\<close>: what a call of the service notifies is published in order.\<close>

definition deliver_voice :: "('s, 'p, 'q) http_config \<Rightarrow> http_env \<Rightarrow> 'q Service \<Rightarrow> ('s, 'p, 'q) handler" where
  "deliver_voice c e s x =
     fold (publishVoiceState c e) (drop (length (v_notified (x_voice x))) (v_notified s)) (x\<lparr>x_voice := s\<rparr>)"

definition voice_call ::
  "('s, 'p, 'q) http_config \<Rightarrow> http_env \<Rightarrow> http_request \<Rightarrow> (('s, 'p, 'q) exchange \<Rightarrow> (voice_error + 'a) \<times> 'q Service)
     \<Rightarrow> ('a \<Rightarrow> ('s, 'p, 'q) handler) \<Rightarrow> ('s, 'p, 'q) handler" where
  "voice_call c e rq call k x =
     (case call x of (Inl err, s) \<Rightarrow> handleVoiceError c rq err (deliver_voice c e s x) | (Inr v, s) \<Rightarrow> k v (deliver_voice c e s x))"

definition voiceRoute :: "('s, 'p, 'q) http_config \<Rightarrow> http_request \<Rightarrow> ('s, 'p, 'q) handler \<Rightarrow> ('s, 'p, 'q) handler" where
  "voiceRoute c rq handler = (if \<not> hc_voice c then handleVoiceError c rq VoiceUnavailable else handler)"

definition joinVoiceChannel :: "('s, 'p, 'q) http_config \<Rightarrow> http_env \<Rightarrow> http_request \<Rightarrow> ('s, 'p, 'q) handler" where
  "joinVoiceChannel c e rq =
     chatUser c e rq ''voice_join'' (\<lambda>user. pathID c rq ''channel_id'' (\<lambda>channelID x.
     case decodeOptionalJSON c rq (hj_JoinVoiceChannelRequest (hc_json c)) (None, None) of None \<Rightarrow> invalid_body c rq x
     | Some (mute, deaf) \<Rightarrow>
         voice_call c e rq (\<lambda>x. Join (hc_provider c (en_now e)) (AuthorizeVoice (x_chat x)) (en_id e) (en_now e) (usr_ID user)
             (usr_DisplayName user) channelID (isTrue mute) (isTrue deaf) (x_voice x))
           (\<lambda>session x. writeJSON 200 (VoiceSessionBody (vs_ID session) (ps_Provider (vs_Provider session)) (ps_Endpoint (vs_Provider session))
                (ps_Credential (vs_Provider session)) (ps_ExpiresAt (vs_Provider session)) (voiceStateResponse (vs_State session)))
              (set_header ''Cache-Control'' ''no-store'' x)) x))"

definition listVoiceStates :: "('s, 'p, 'q) http_config \<Rightarrow> http_env \<Rightarrow> http_request \<Rightarrow> ('s, 'p, 'q) handler" where
  "listVoiceStates c e rq =
     chatUser c e rq ''voice_list'' (\<lambda>user. pathID c rq ''channel_id'' (\<lambda>channelID x.
     chat_query c rq (\<lambda>db. Voice_List (ViewVoiceChannel db) (en_users e) (usr_ID user) channelID (x_voice x))
       (\<lambda>states. writeJSON 200 (VoiceStateList (map voiceStateResponse states))) x))"

definition updateVoiceState :: "('s, 'p, 'q) http_config \<Rightarrow> http_env \<Rightarrow> http_request \<Rightarrow> ('s, 'p, 'q) handler" where
  "updateVoiceState c e rq =
     chatUser c e rq ''voice_update'' (\<lambda>user.
     with_body c rq (hj_UpdateVoiceStateRequest (hc_json c)) (\<lambda>body.
       if up_SelfMute body = None \<and> up_SelfDeaf body = None \<and> up_SelfVideo body = None \<and> up_SelfStream body = None
       then writeError c rq 400 ''INVALID_REQUEST'' ''body: must contain at least one field''
       else voice_call c e rq (\<lambda>x. UpdateState (hc_provider c (en_now e)) (AuthorizeVoice (x_chat x)) (\<lambda>s. s) (en_now e) (usr_ID user) body (x_voice x))
              (\<lambda>state. writeJSON 200 (VoiceStateBody (voiceStateResponse state)))))"

definition leaveVoiceChannel :: "('s, 'p, 'q) http_config \<Rightarrow> http_env \<Rightarrow> http_request \<Rightarrow> ('s, 'p, 'q) handler" where
  "leaveVoiceChannel c e rq =
     chatUser c e rq ''voice_leave'' (\<lambda>user.
     voice_call c e rq (\<lambda>x. Leave (hc_provider c (en_now e)) (en_now e) (usr_ID user) (x_voice x)) (\<lambda>_. WriteHeader 204))"

text \<open>The callback of the gateway when a user has no session left.\<close>

definition userGone :: "('s, 'p, 'q) http_config \<Rightarrow> http_env \<Rightarrow> uuid \<Rightarrow> ('s, 'p, 'q) handler" where
  "userGone c e userID x =
     (let x1 = (if hc_voice c then deliver_voice c e (snd (Evict (hc_provider c (en_now e)) (en_now e) userID (x_voice x))) x else x)
      in case ClearPresence (en_now e) (x_chat x1) (x_presence x1) userID of
           (None, t) \<Rightarrow> x1\<lparr>x_presence := t\<rparr>
         | (Some (presence, guildIDs), t) \<Rightarrow> publishPresence c e guildIDs presence (x1\<lparr>x_presence := t\<rparr>))"

subsection \<open>Routes: server.go\<close>

datatype segment = Lit string | Var string

text \<open>Abbreviations for the prefixes of the patterns.\<close>

abbreviation api :: "segment list \<Rightarrow> segment list" where "api p \<equiv> Lit ''api'' # Lit ''v1'' # p"
abbreviation in_auth :: "segment list \<Rightarrow> segment list" where "in_auth p \<equiv> api (Lit ''auth'' # p)"
abbreviation in_me :: "segment list \<Rightarrow> segment list" where "in_me p \<equiv> api (Lit ''users'' # Lit ''@me'' # p)"
abbreviation in_guild :: "segment list \<Rightarrow> segment list" where "in_guild p \<equiv> api (Lit ''guilds'' # Var ''guild_id'' # p)"
abbreviation in_channel :: "segment list \<Rightarrow> segment list" where "in_channel p \<equiv> api (Lit ''channels'' # Var ''channel_id'' # p)"
abbreviation in_message :: "segment list \<Rightarrow> segment list" where "in_message p \<equiv> in_channel (Lit ''messages'' # Var ''message_id'' # p)"
abbreviation in_attachment :: "segment list \<Rightarrow> segment list" where "in_attachment p \<equiv> api (Lit ''attachments'' # Var ''attachment_id'' # p)"

type_synonym ('s, 'p, 'q) route = "string \<times> segment list \<times> (http_request \<Rightarrow> ('s, 'p, 'q) handler)"

definition public_routes :: "('s, 'p, 'q) http_config \<Rightarrow> http_env \<Rightarrow> ('s, 'p, 'q) route list" where
  "public_routes c e =
     (if hc_gateway c then [(''GET'', [Lit ''gateway'', Lit ''v1''], \<lambda>_ x. x)] else []) @
     [(''GET'', api [Lit ''health''], \<lambda>_. health c e),
      (''POST'', in_auth [Lit ''password'', Lit ''register''], register c e),
      (''POST'', in_auth [Lit ''password'', Lit ''login''], login c e),
      (''POST'', in_auth [Lit ''google'', Lit ''authorize''], beginGoogleLogin c e),
      (''GET'', in_auth [Lit ''google'', Lit ''callback''], completeGoogleLogin c e),
      (''POST'', in_auth [Lit ''google'', Lit ''exchange''], exchangeGoogleLogin c e),
      (''POST'', in_auth [Lit ''email'', Lit ''verify''], verifyEmail c e),
      (''POST'', in_auth [Lit ''password'', Lit ''reset-request''], requestPasswordReset c e),
      (''POST'', in_auth [Lit ''password'', Lit ''reset''], resetPassword c e),
      (''POST'', in_auth [Lit ''token'', Lit ''refresh''], refresh c e),
      (''POST'', in_auth [Lit ''logout''], logout c e)]"

definition account_routes :: "('s, 'p, 'q) http_config \<Rightarrow> http_env \<Rightarrow> ('s, 'p, 'q) route list" where
  "account_routes c e =
     [(''POST'', in_auth [Lit ''google'', Lit ''link''], linkGoogleIdentity c e),
      (''POST'', in_auth [Lit ''email'', Lit ''verification''], requestEmailVerification c e),
      (''DELETE'', in_me [Lit ''authentication-methods'', Var ''method''], unlinkAuthenticationMethod c e),
      (''GET'', in_me [], currentUser c e),
      (''PUT'', in_me [Lit ''presence''], updatePresence c e)]"

definition guild_routes :: "('s, 'p, 'q) http_config \<Rightarrow> http_env \<Rightarrow> ('s, 'p, 'q) route list" where
  "guild_routes c e =
     [(''GET'', api [Lit ''guilds''], listGuilds c e),
      (''POST'', api [Lit ''guilds''], createGuild c e),
      (''GET'', in_guild [], getGuild c e),
      (''PATCH'', in_guild [], updateGuild c e),
      (''DELETE'', in_guild [], deleteGuild c e),
      (''GET'', in_guild [Lit ''channels''], listChannels c e),
      (''POST'', in_guild [Lit ''channels''], createChannel c e),
      (''GET'', in_guild [Lit ''members''], listMembers c e),
      (''GET'', in_guild [Lit ''members'', Var ''user_id''], getMember c e),
      (''PATCH'', in_guild [Lit ''members'', Var ''user_id''], updateMember c e),
      (''DELETE'', in_guild [Lit ''members'', Var ''user_id''], removeMember c e),
      (''DELETE'', in_guild [Lit ''members'', Lit ''@me''], leaveGuild c e),
      (''GET'', in_guild [Lit ''roles''], listRoles c e),
      (''POST'', in_guild [Lit ''roles''], createRole c e),
      (''PATCH'', in_guild [Lit ''roles'', Var ''role_id''], updateRole c e),
      (''DELETE'', in_guild [Lit ''roles'', Var ''role_id''], deleteRole c e),
      (''GET'', in_guild [Lit ''invites''], listInvites c e),
      (''POST'', in_guild [Lit ''invites''], createInvite c e),
      (''DELETE'', in_guild [Lit ''invites'', Var ''invite_id''], deleteInvite c e),
      (''GET'', api [Lit ''invites'', Var ''invite_code''], getInvite c e),
      (''POST'', api [Lit ''invites'', Var ''invite_code'', Lit ''accept''], acceptInvite c e),
      (''GET'', in_guild [Lit ''messages'', Lit ''search''], searchMessages c e)]"

definition channel_routes :: "('s, 'p, 'q) http_config \<Rightarrow> http_env \<Rightarrow> ('s, 'p, 'q) route list" where
  "channel_routes c e =
     [(''GET'', in_channel [], getChannel c e),
      (''PATCH'', in_channel [], updateChannel c e),
      (''DELETE'', in_channel [], deleteChannel c e),
      (''GET'', in_channel [Lit ''threads''], listThreads c e),
      (''POST'', in_channel [Lit ''threads''], createThread c e),
      (''GET'', in_me [Lit ''channels''], listDirectChannels c e),
      (''POST'', in_me [Lit ''channels''], openDirectChannel c e),
      (''GET'', in_channel [Lit ''messages''], listMessages c e),
      (''POST'', in_channel [Lit ''messages''], createMessage c e),
      (''POST'', in_channel [Lit ''typing''], startTyping c e),
      (''GET'', in_message [], getMessage c e),
      (''PATCH'', in_message [], updateMessage c e),
      (''DELETE'', in_message [], deleteMessage c e),
      (''PUT'', in_message [Lit ''reactions'', Var ''emoji''], addMessageReaction c e),
      (''DELETE'', in_message [Lit ''reactions'', Var ''emoji''], removeMessageReaction c e),
      (''PUT'', in_channel [Lit ''read-state''], updateReadState c e),
      (''GET'', in_me [Lit ''read-states''], listReadStates c e)]"

definition attachment_routes :: "('s, 'p, 'q) http_config \<Rightarrow> http_env \<Rightarrow> ('s, 'p, 'q) route list" where
  "attachment_routes c e =
     [(''POST'', in_channel [Lit ''attachments'', Lit ''intents''], createAttachmentIntent c e),
      (''GET'', in_attachment [], getAttachment c e),
      (''DELETE'', in_attachment [], deleteAttachment c e),
      (''POST'', in_attachment [Lit ''finalize''], finalizeAttachment c e),
      (''GET'', in_attachment [Lit ''content''], downloadAttachment c e),
      (''POST'', in_attachment [Lit ''download-intents''], createAttachmentDownloadIntent c e)]"

definition voice_routes :: "('s, 'p, 'q) http_config \<Rightarrow> http_env \<Rightarrow> ('s, 'p, 'q) route list" where
  "voice_routes c e =
     [(''GET'', in_channel [Lit ''voice''], \<lambda>rq. voiceRoute c rq (listVoiceStates c e rq)),
      (''POST'', in_channel [Lit ''voice''], \<lambda>rq. voiceRoute c rq (joinVoiceChannel c e rq)),
      (''PATCH'', api [Lit ''voice'', Lit ''sessions'', Lit ''@me''], \<lambda>rq. voiceRoute c rq (updateVoiceState c e rq)),
      (''DELETE'', api [Lit ''voice'', Lit ''sessions'', Lit ''@me''], \<lambda>rq. voiceRoute c rq (leaveVoiceChannel c e rq))]"

definition private_routes :: "('s, 'p, 'q) http_config \<Rightarrow> http_env \<Rightarrow> ('s, 'p, 'q) route list" where
  "private_routes c e = account_routes c e @ guild_routes c e @ channel_routes c e @ attachment_routes c e @ voice_routes c e"

text \<open>A wildcard matches one segment that is not empty, and binds it.\<close>

fun match_segments :: "segment list \<Rightarrow> string list \<Rightarrow> (string \<times> string) list option" where
  "match_segments [] [] = Some []"
| "match_segments (Lit t # ps) (s # ss) = (if s = t then match_segments ps ss else None)"
| "match_segments (Var name # ps) (s # ss) =
     (if s = [] then None else (case match_segments ps ss of None \<Rightarrow> None | Some b \<Rightarrow> Some ((name, s) # b)))"
| "match_segments _ _ = None"

definition method_matches :: "string \<Rightarrow> string \<Rightarrow> bool" where
  "method_matches pattern mthd \<longleftrightarrow> mthd = pattern \<or> pattern = ''GET'' \<and> mthd = ''HEAD''"

text \<open>At every place the one has the literal of the other, or the other has a wildcard.\<close>

definition at_least_as_specific :: "segment list \<Rightarrow> segment list \<Rightarrow> bool" where
  "at_least_as_specific p q \<longleftrightarrow> list_all2 (\<lambda>a b. a = b \<or> (case b of Var _ \<Rightarrow> True | Lit _ \<Rightarrow> False)) p q"

definition route_matches :: "http_request \<Rightarrow> ('s, 'p, 'q) route \<Rightarrow> bool" where
  "route_matches rq r \<longleftrightarrow> method_matches (fst r) (rq_Method rq) \<and> match_segments (fst (snd r)) (rq_Segments rq) \<noteq> None"

definition bind_path :: "(string \<times> string) list \<Rightarrow> http_request \<Rightarrow> http_request" where
  "bind_path bs rq = rq\<lparr>rq_PathValue := \<lambda>name. case map_of bs name of None \<Rightarrow> [] | Some v \<Rightarrow> v\<rparr>"

definition select_route :: "('s, 'p, 'q) route list \<Rightarrow> http_request \<Rightarrow> ('s, 'p, 'q) route option" where
  "select_route table rq =
     (let found = filter (route_matches rq) table
      in List.find (\<lambda>r. list_all (\<lambda>q. at_least_as_specific (fst (snd r)) (fst (snd q))) found) found)"

definition http_Error :: "int \<Rightarrow> string \<Rightarrow> ('s, 'p, 'q) handler" where
  "http_Error status text x =
     (let x1 = WriteHeader status (set_header ''X-Content-Type-Options'' ''nosniff'' (set_header ''Content-Type'' ''text/plain; charset=utf-8'' x))
      in x1\<lparr>x_body := x_body x1 @ [PlainText text]\<rparr>)"

definition mux :: "('s, 'p, 'q) route list \<Rightarrow> http_request \<Rightarrow> ('s, 'p, 'q) handler" where
  "mux table rq x =
     (case select_route table rq of
        Some (m, p, h) \<Rightarrow> (case match_segments p (rq_Segments rq) of None \<Rightarrow> x | Some bs \<Rightarrow> h (bind_path bs rq) x)
      | None \<Rightarrow>
          if list_ex (\<lambda>r. match_segments (fst (snd r)) (rq_Segments rq) \<noteq> None) table
          then http_Error 405 ''Method Not Allowed'' x
          else http_Error 404 ''404 page not found'' x)"

subsection \<open>Middleware: middleware.go and cors.go\<close>

text \<open>\<open>recoverPanic\<close> has no place here: the one panic of the model is answered where it occurs.\<close>

definition requestID ::
  "('s, 'p, 'q) http_config \<Rightarrow> http_env \<Rightarrow> (http_request \<Rightarrow> ('s, 'p, 'q) handler) \<Rightarrow> http_request \<Rightarrow> ('s, 'p, 'q) handler" where
  "requestID c e nxt rq x =
     (case en_request e of None \<Rightarrow> http_Error 500 ''Internal server error'' x
      | Some i \<Rightarrow> let v = hc_uuid_String c i in nxt (rq\<lparr>rq_ContextID := Some v\<rparr>) (set_header ''X-Request-ID'' v x))"

text \<open>\<open>WithCORS\<close>: \<open>url_Parse\<close> gives scheme and host.\<close>

definition TrimSuffix_slash :: "string \<Rightarrow> string" where
  "TrimSuffix_slash s = (if s \<noteq> [] \<and> last s = CHR ''/'' then butlast s else s)"

definition WithCORS :: "(string \<Rightarrow> (string \<times> string) option) \<Rightarrow> string list \<Rightarrow> string set" where
  "WithCORS url_Parse origins =
     set (filter (\<lambda>origin. case url_Parse origin of None \<Rightarrow> False | Some (scheme, host) \<Rightarrow> scheme \<noteq> [] \<and> host \<noteq> [])
       (map (\<lambda>origin. TrimSuffix_slash (strings_TrimSpace origin)) origins))"

definition isPreflight :: "http_request \<Rightarrow> bool" where
  "isPreflight rq \<longleftrightarrow> rq_Method rq = ''OPTIONS'' \<and> rq_Header rq ''Access-Control-Request-Method'' \<noteq> []"

definition cors :: "string set \<Rightarrow> (http_request \<Rightarrow> ('s, 'p, 'q) handler) \<Rightarrow> http_request \<Rightarrow> ('s, 'p, 'q) handler" where
  "cors allowed nxt rq x =
     (if allowed = {} then nxt rq x
      else let origin = rq_Header rq ''Origin'' in
        if origin = [] then nxt rq x
        else let x1 = add_header ''Vary'' ''Origin'' x in
          if origin \<notin> allowed then (if isPreflight rq then WriteHeader 403 x1 else nxt rq x1)
          else let x2 = set_header ''Access-Control-Allow-Origin'' origin x1 in
            if isPreflight rq
            then WriteHeader 204 (set_header ''Access-Control-Max-Age'' ''600''
                   (set_header ''Access-Control-Allow-Headers'' ''Authorization, Content-Type''
                   (set_header ''Access-Control-Allow-Methods'' ''GET, POST, PUT, PATCH, DELETE''
                   (add_header ''Vary'' ''Access-Control-Request-Headers'' (add_header ''Vary'' ''Access-Control-Request-Method'' x2)))))
            else nxt rq (set_header ''Access-Control-Expose-Headers''
                   ''X-Request-ID, Retry-After, X-RateLimit-Limit, X-RateLimit-Remaining, X-RateLimit-Reset, X-RateLimit-Bucket'' x2))"

text \<open>The handler that \<open>New\<close> returns, on a response that nothing has been written to.\<close>

definition New_handler :: "('s, 'p, 'q) http_config \<Rightarrow> string set \<Rightarrow> http_env \<Rightarrow> http_request \<Rightarrow> ('s, 'p, 'q) handler" where
  "New_handler c allowed e rq x =
     cors allowed (requestID c e (mux (public_routes c e @ private_routes c e))) rq (x\<lparr>x_headers := [], x_status := None, x_body := []\<rparr>)"

definition New_server ::
  "('s, 'p, 'q) http_config \<Rightarrow> auth_db \<Rightarrow> chat_db \<Rightarrow> 's \<Rightarrow> 'p hub \<Rightarrow> 'q Service \<Rightarrow> ('s, 'p, 'q) exchange" where
  "New_server c auth chat objects hub voice = \<lparr>x_headers = [], x_status = None, x_body = [], x_auth = auth, x_chat = chat,
     x_objects = objects, x_presence = Map.empty, x_hub = hub, x_voice = (if hc_voice c then SetNotifier voice else voice),
     x_requests = newFixedWindowLimiter 60 time_Minute, x_logins = newFixedWindowLimiter 5 (15 * time_Minute),
     x_mails = newFixedWindowLimiter 5 time_Hour, x_tasks = []\<rparr>"

end
