(* ===== verification/Http_Steps.thy ===== *)
theory Http_Steps
  imports Http_Routes
begin

section \<open>What a request does to the services\<close>

text \<open>
  Every handler is a composition of the steps of the services: \<open>moves\<close> says so, and has a rule for
  each helper that the handlers are made of. The response is not part of it: \<open>world\<close> is what is left
  of an exchange without it.
\<close>

subsection \<open>Writing the response changes nothing else\<close>

definition world :: "('s, 'p, 'q) exchange \<Rightarrow> ('s, 'p, 'q) exchange" where
  "world x = x\<lparr>x_headers := [], x_status := None, x_body := []\<rparr>"

lemma world_fields [simp]:
  "x_auth (world x) = x_auth x" "x_chat (world x) = x_chat x" "x_objects (world x) = x_objects x" "x_presence (world x) = x_presence x"
  "x_hub (world x) = x_hub x" "x_voice (world x) = x_voice x" "x_requests (world x) = x_requests x" "x_logins (world x) = x_logins x"
  "x_mails (world x) = x_mails x" "x_tasks (world x) = x_tasks x"
  by (simp_all add: world_def)

named_theorems writes \<open>functions that only write the response\<close>

lemma world_headers [writes]: "world (set_header n v x) = world x" "world (add_header n v x) = world x" "world (WriteHeader s x) = world x"
  by (simp_all add: world_def set_header_def add_header_def WriteHeader_def)

lemma world_writeJSON [writes]: "world (writeJSON s b x) = world x"
  by (simp add: writeJSON_def Let_def world_def set_header_def WriteHeader_def)

lemma world_writeError [writes]: "world (writeError c rq s code msg x) = world x"
  by (simp add: writeError_def writes)

lemma world_errors [writes]:
  "world (invalid_body c rq x) = world x" "world (unauthorized c rq x) = world x" "world (internal_error c rq x) = world x"
  "world (not_found c rq x) = world x"
  by (simp_all add: invalid_body_def unauthorized_def internal_error_def not_found_def writes)

lemma world_handleAuthError [writes]: "world (handleAuthError c rq err x) = world x"
  by (cases err) (simp_all add: writes)

lemma world_handleChatError [writes]: "world (handleChatError c rq err x) = world x"
  by (cases err) (simp_all add: writes)

lemma world_handleVoiceError [writes]: "world (handleVoiceError c rq err x) = world x"
  by (cases err) (simp_all add: writes)

lemma world_limits [writes]: "world (setRateLimitHeaders b r x) = world x" "world (writeRateLimited c rq b r x) = world x"
  by (simp_all add: setRateLimitHeaders_def writeRateLimited_def Let_def writes)

lemma world_http_Error [writes]: "world (http_Error s t x) = world x"
  by (simp add: http_Error_def Let_def world_def set_header_def WriteHeader_def)

subsection \<open>The relation\<close>

text \<open>The two halves of the shared table agree, and the account database is well formed.\<close>

definition synced :: "('s, 'p, 'q) exchange \<Rightarrow> bool" where
  "synced x \<longleftrightarrow> auth_inv (x_auth x) \<and> users (x_chat x) = map account_summary (accounts (x_auth x))"

definition reaches :: "('s, 'p, 'q) http_config \<Rightarrow> 's Storage \<Rightarrow> ('s, 'p, 'q) exchange \<Rightarrow> ('s, 'p, 'q) exchange \<Rightarrow> bool" where
  "reaches c media x x' \<longleftrightarrow> (synced x \<longrightarrow> synced x'
     \<and> (chat_step media)\<^sup>*\<^sup>* (x_chat x, x_objects x) (x_chat x', x_objects x')
     \<and> (auth_step (hc_lib c) (hc_sv c))\<^sup>*\<^sup>* (x_auth x) (x_auth x')
     \<and> hub_steps (hc_marshal c) (x_hub x) (x_hub x'))"

lemma reaches_refl: "reaches c media x x"
  by (simp add: reaches_def)

lemma reaches_trans: "reaches c media x y \<Longrightarrow> reaches c media y z \<Longrightarrow> reaches c media x z"
  unfolding reaches_def by (meson rtranclp_trans)

lemma reaches_world: "world y = world x \<Longrightarrow> reaches c media x y"
proof -
  assume "world y = world x"
  then have "x_auth y = x_auth x" "x_chat y = x_chat x" "x_objects y = x_objects x" "x_hub y = x_hub x"
    by (metis world_fields(1), metis world_fields(2), metis world_fields(3), metis world_fields(5))
  then show ?thesis by (simp add: reaches_def synced_def)
qed

lemma reaches_same:
  assumes "x_auth y = x_auth x" and "x_chat y = x_chat x" and "x_objects y = x_objects x" and "x_hub y = x_hub x"
  shows "reaches c media x y"
  using assms by (simp add: reaches_def synced_def)

definition moves :: "('s, 'p, 'q) http_config \<Rightarrow> 's Storage \<Rightarrow> ('s, 'p, 'q) handler \<Rightarrow> bool" where
  "moves c media h \<longleftrightarrow> (\<forall>x. reaches c media x (h x))"

lemma movesD: "moves c media h \<Longrightarrow> reaches c media x (h x)"
  by (simp add: moves_def)

lemma movesI: "(\<And>x. reaches c media x (h x)) \<Longrightarrow> moves c media h"
  by (simp add: moves_def)

named_theorems moving \<open>rules for the parts of a handler\<close>

lemma moves_id [moving]: "moves c media (\<lambda>x. x)"
  by (simp add: moves_def reaches_refl)

lemma moves_compose: "moves c media f \<Longrightarrow> moves c media g \<Longrightarrow> moves c media (\<lambda>x. g (f x))"
  unfolding moves_def using reaches_trans by blast

lemma moves_silent: "(\<And>x. world (h x) = world x) \<Longrightarrow> moves c media h"
  by (simp add: moves_def reaches_world)

lemma moves_write [moving]:
  "moves c media (writeJSON s b)" "moves c media (WriteHeader s)" "moves c media (writeError c rq s code msg)"
  "moves c media (invalid_body c rq)" "moves c media (unauthorized c rq)" "moves c media (internal_error c rq)"
  "moves c media (handleAuthError c rq err)" "moves c media (handleChatError c rq cerr)" "moves c media (handleVoiceError c rq verr)"
  "moves c media (http_Error s t)" "moves c media (writeRateLimited c rq bucket r)"
  by (rule moves_silent, simp add: writes)+

lemma moves_write_after [moving]:
  "moves c media f \<Longrightarrow> moves c media (\<lambda>x. writeJSON s b (f x))" "moves c media f \<Longrightarrow> moves c media (\<lambda>x. WriteHeader s (f x))"
  "moves c media f \<Longrightarrow> moves c media (\<lambda>x. set_header n v (f x))" "moves c media f \<Longrightarrow> moves c media (\<lambda>x. add_header n v (f x))"
  by (rule moves_compose, assumption, rule moves_silent, simp add: writes)+

lemma moves_case [moving]:
  "(\<And>a b. moves c media (k a b)) \<Longrightarrow> moves c media (case p of (a, b) \<Rightarrow> k a b)"
  "moves c media f \<Longrightarrow> moves c media g \<Longrightarrow> moves c media (if P then f else g)"
  "moves c media f \<Longrightarrow> (\<And>v. moves c media (k' v)) \<Longrightarrow> moves c media (case w of None \<Rightarrow> f | Some v \<Rightarrow> k' v)"
  "moves c media f \<Longrightarrow> moves c media g \<Longrightarrow> moves c media (\<lambda>x. if P then f x else g x)"
  by (cases P; simp split: prod.split option.split)+

subsection \<open>Reading the request\<close>

lemma moves_after: "moves c media h \<Longrightarrow> reaches c media x y \<Longrightarrow> reaches c media x (h y)"
  by (erule reaches_trans [OF _ movesD, rotated])

lemma moves_taken:
  assumes "reaches c media x y" and "moves c media k"
  shows "reaches c media x (if P then writeRateLimited c rq bucket r y else k y)"
  using moves_after [OF assms(2,1)] moves_after [OF moves_write(11) assms(1)] by simp

lemma moves_allowRequest [moving]:
  assumes "moves c media k"
  shows "moves c media (allowRequest c e rq bucket k)"
proof (rule movesI)
  fix x
  have "reaches c media x (setRateLimitHeaders bucket r (x\<lparr>x_requests := l\<rparr>))" for r l
    by (rule reaches_trans [OF reaches_same reaches_world]) (simp_all add: writes)
  from moves_taken [OF this assms] show "reaches c media x (allowRequest c e rq bucket k x)"
    unfolding allowRequest_def Let_def by (simp split: prod.split del: if_split)
qed

lemma moves_takeMail [moving]:
  assumes "moves c media k"
  shows "moves c media (takeMail c e rq bucket subject k)"
proof (rule movesI)
  fix x
  have "reaches c media x (x\<lparr>x_mails := l\<rparr>)" for l by (rule reaches_same) simp_all
  from moves_taken [OF this assms] show "reaches c media x (takeMail c e rq bucket subject k x)"
    unfolding takeMail_def Let_def by (simp split: prod.split del: if_split)
qed

lemma moves_bearerUser [moving]: "(\<And>u. moves c media (k u)) \<Longrightarrow> moves c media (bearerUser c e rq k)"
  by (rule movesI) (auto simp: bearerUser_def movesD intro: moves_write [THEN movesD] split: option.split sum.split)

lemma chatUser_eq: "chatUser c e rq bucket k = allowRequest c e rq bucket (bearerUser c e rq k)"
  by (simp add: chatUser_def bearerUser_def [abs_def])

lemma moves_chatUser [moving]: "(\<And>u. moves c media (k u)) \<Longrightarrow> moves c media (chatUser c e rq bucket k)"
  unfolding chatUser_eq by (intro moving)

lemma moves_pathID [moving]: "(\<And>i. moves c media (k i)) \<Longrightarrow> moves c media (pathID c rq name k)"
  by (rule movesI) (auto simp: pathID_def movesD intro: moves_write [THEN movesD] split: option.split)

lemma moves_requests [moving]:
  "(\<And>u i j. moves c media (k u i j)) \<Longrightarrow> moves c media (messageRequest c e rq bucket k)"
  "(\<And>u i j. moves c media (k u i j)) \<Longrightarrow> moves c media (memberRequest c e rq bucket k)"
  unfolding messageRequest_def memberRequest_def by (intro moving; assumption)+

lemma moves_with_body [moving]: "(\<And>b. moves c media (k b)) \<Longrightarrow> moves c media (with_body c rq decode k)"
  by (rule movesI) (auto simp: with_body_def movesD intro: moves_write [THEN movesD] split: option.split)

lemma moves_with_page [moving]: "(\<And>cursor limit. moves c media (k cursor limit)) \<Longrightarrow> moves c media (with_page c rq k)"
  by (rule movesI) (auto simp: with_page_def movesD intro: moves_write [THEN movesD] split: sum.split prod.split)

subsection \<open>Calling the services\<close>

lemma moves_chat_query [moving]: "(\<And>v. moves c media (k v)) \<Longrightarrow> moves c media (\<lambda>x. chat_query c rq (call x) k x)"
  by (rule movesI) (auto simp: chat_query_def movesD intro: moves_write [THEN movesD] split: sum.split)

text \<open>The operations of package \<open>chat\<close> do not write the table of users.\<close>

lemma chat_step_users:
  "text_kept db db' \<Longrightarrow> users db' = users db" "text_same db db' \<Longrightarrow> users db' = users db"
  by (simp_all add: text_kept_def guild_same_def text_same_def)

lemma moves_chat_call [moving]:
  assumes step: "\<And>x r db'. synced x \<Longrightarrow> call x (x_chat x) = (r, db') \<Longrightarrow> chat_step media (x_chat x, x_objects x) (db', x_objects x)"
    and same: "\<And>x r db'. call x (x_chat x) = (r, db') \<Longrightarrow> users db' = users (x_chat x)"
    and k: "\<And>v. moves c media (k v)"
  shows "moves c media (\<lambda>x. chat_call c rq (call x) k x)"
proof (rule movesI)
  fix x
  obtain r db' where run: "call x (x_chat x) = (r, db')" by fastforce
  have "reaches c media x (x\<lparr>x_chat := db'\<rparr>)"
    using r_into_rtranclp [of "chat_step media", OF step [OF _ run]] same [OF run] by (simp add: reaches_def synced_def)
  then show "reaches c media x (chat_call c rq (call x) k x)"
    by (auto simp: chat_call_def run intro: moves_after k moves_write split: sum.split)
qed

text \<open>New accounts are new users.\<close>

lemma chat_adds_users:
  "distinct (map us_ID (users db @ new)) \<Longrightarrow> (chat_step media)\<^sup>*\<^sup>* (db, objs) (db\<lparr>users := users db @ new\<rparr>, objs)"
proof (induction new rule: rev_induct)
  case (snoc u new)
  let ?db = "db\<lparr>users := users db @ new\<rparr>"
  have "chat_step media (?db, objs) (?db\<lparr>users := users ?db @ [u]\<rparr>, objs)"
    using snoc.prems by (intro chat_step.register) auto
  then show ?case
    using snoc by (simp add: rtranclp.rtrancl_into_rtrancl)
qed simp

lemma store_accounts_reaches:
  assumes step: "auth_step (hc_lib c) (hc_sv c) (x_auth x) db'"
  shows "reaches c media x (store_accounts db' x)"
  unfolding reaches_def
proof (intro impI)
  assume ok: "synced x"
  obtain new where "map user_profile (accounts db') = map user_profile (accounts (x_auth x)) @ new"
    using accounts_grow.step [OF step] by (auto simp: accounts_grow_def)
  then have "map (\<lambda>(i, n, a). \<lparr>us_ID = i, us_DisplayName = n, us_AvatarURL = a\<rparr>) (map user_profile (accounts db'))
      = map (\<lambda>(i, n, a). \<lparr>us_ID = i, us_DisplayName = n, us_AvatarURL = a\<rparr>) (map user_profile (accounts (x_auth x)) @ new)"
    by (rule arg_cong)
  then obtain rest where users': "map account_summary (accounts db') = users (x_chat x) @ rest"
    using ok by (auto simp: user_profile_def account_summary_def [abs_def] o_def synced_def)
  have inv: "auth_inv db'"
    using auth_step_kept [OF step] ok by (simp add: auth_kept_def synced_def)
  then have "distinct (map us_ID (map account_summary (accounts db')))"
    by (simp add: auth_inv_def logins_ok_def account_summary_def o_def)
  then have "(chat_step media)\<^sup>*\<^sup>* (x_chat x, x_objects x) ((x_chat x)\<lparr>users := users (x_chat x) @ rest\<rparr>, x_objects x)"
    unfolding users' by (rule chat_adds_users)
  then show "synced (store_accounts db' x)
      \<and> (chat_step media)\<^sup>*\<^sup>* (x_chat x, x_objects x) (x_chat (store_accounts db' x), x_objects (store_accounts db' x))
      \<and> (auth_step (hc_lib c) (hc_sv c))\<^sup>*\<^sup>* (x_auth x) (x_auth (store_accounts db' x))
      \<and> hub_steps (hc_marshal c) (x_hub x) (x_hub (store_accounts db' x))"
    using inv step by (simp add: store_accounts_def synced_def users' r_into_rtranclp)
qed

lemma moves_auth_call [moving]:
  fixes c :: "('s, 'p, 'q) http_config"
  assumes "\<And>db r db'. call db = (r, db') \<Longrightarrow> auth_step (hc_lib c) (hc_sv c) db db'"
    and "\<And>err. moves c media (bad err)" and "\<And>v. moves c media (k v)"
  shows "moves c media (auth_call call bad k)"
proof (rule movesI)
  fix x :: "('s, 'p, 'q) exchange"
  obtain r db' where run: "call (x_auth x) = (r, db')" by fastforce
  have "reaches c media x (store_accounts db' x)"
    by (rule store_accounts_reaches [OF assms(1) [OF run]])
  then show "reaches c media x (auth_call call bad k x)"
    by (auto simp: auth_call_def run intro: moves_after assms(2,3) split: sum.split)
qed

subsection \<open>Publishing\<close>

lemma moves_on_hub: "(\<And>db h. hub_steps (hc_marshal c) h (f db h)) \<Longrightarrow> moves c media (on_hub c f)"
  by (rule movesI) (simp add: on_hub_def reaches_def synced_def)

lemma publish_steps: "hub_steps marshal h (publish marshal now event us h)" "hub_steps marshal h (publishToUser marshal now u name data h)"
  by (rule r_into_rtranclp, rule hub_step.intros)+

lemmas publishing = publishMessage_def publishMessageDelete_def publishMessageReaction_def publishTypingStart_def publishToIntent_def
  PublishMessageCreate_def PublishMessageUpdate_def PublishMessageDelete_def PublishChannelCreate_def PublishChannelUpdate_def
  PublishChannelDelete_def PublishMessageReaction_def PublishTypingStart_def PublishMemberJoin_def PublishMemberUpdate_def
  PublishMemberLeave_def PublishPresenceUpdate_def PublishReadStateUpdate_def PublishVoiceStateUpdate_def

lemma moves_publish [moving]:
  "moves c media (Server_publishMessage c e event m)" "moves c media (Server_publishMessageDelete c e i j)"
  "moves c media (Server_publishMessageReaction c e add i j u r)" "moves c media (Server_publishTypingStart c e i user)"
  "moves c media (Server_publishMember c e event member)" "moves c media (Server_publishMemberLeave c e i u)"
  "moves c media (publishChannel c e event ch)" "moves c media (publishChannelDelete c e ch)"
  "moves c media (publishReadState c e u st)" "moves c media (publishVoiceState c e n)"
  unfolding Server_publishMessage_def Server_publishMessageDelete_def Server_publishMessageReaction_def Server_publishTypingStart_def
    Server_publishMember_def Server_publishMemberLeave_def publishChannel_def publishChannelDelete_def publishReadState_def
    publishVoiceState_def Let_def publishing
  by (rule moves_on_hub, simp add: publish_steps)+

lemma moves_publishPresence [moving]: "moves c media (publishPresence c e guildIDs p)"
  unfolding publishPresence_def
proof (rule moves_on_hub)
  fix db h
  show "hub_steps (hc_marshal c) h (fold (\<lambda>guildID. PublishPresenceUpdate (hc_marshal c) (en_published e) (ListGuildMemberIDs db guildID)
      guildID (presence_event_value p)) guildIDs h)"
    by (induction guildIDs arbitrary: h) (auto simp: publishing intro: rtranclp_trans [OF publish_steps(1)])
qed

lemma moves_fold: "(\<And>n. moves c media (f n)) \<Longrightarrow> moves c media (fold f ns)"
  by (induction ns) (auto simp: moves_id comp_def intro: moves_compose)

lemma moves_presence [moving]: "moves c media h \<Longrightarrow> moves c media (\<lambda>x. h (x\<lparr>x_presence := t x\<rparr>))"
  by (rule moves_compose [where f = "\<lambda>x. x\<lparr>x_presence := t x\<rparr>"]) (rule movesI, rule reaches_same, simp_all)

lemma deliver_voice_reaches: "reaches c media x (deliver_voice c e s x)"
proof -
  have "reaches c media x (x\<lparr>x_voice := s\<rparr>)" by (rule reaches_same) simp_all
  then show ?thesis
    unfolding deliver_voice_def by (rule moves_after [OF moves_fold [OF moves_publish(10)]])
qed

lemma moves_voice_call [moving]:
  assumes "\<And>v. moves c media (k v)"
  shows "moves c media (voice_call c e rq call k)"
  by (rule movesI)
    (auto simp: voice_call_def intro: moves_after assms moves_write deliver_voice_reaches split: prod.split sum.split)

end
