(* ===== verification/Http_Moves.thy ===== *)
theory Http_Moves
  imports Http_Steps
begin

section \<open>Every route moves the services by their own steps\<close>

subsection \<open>The operations of the chat service\<close>

text \<open>None of them writes the table of users.\<close>

lemma AcceptInvite_users: "AcceptInvite t now db u code = (res, db') \<Longrightarrow> users db' = users db"
  unfolding AcceptInvite_def Store_AcceptInvite_def Let_def
  by (auto split: option.split_asm if_split_asm sum.split_asm prod.split_asm)

lemma DeleteGuild_users: "DeleteGuild db u g = (res, db') \<Longrightarrow> users db' = users db"
  unfolding DeleteGuild_def Store_DeleteGuild_def Let_def
  by (auto simp: frame split: if_split_asm sum.split_asm)

lemmas chat_users = kept_rules [THEN chat_step_users(1)] same_rules [THEN chat_step_users(2)] AcceptInvite_users DeleteGuild_users


lemmas chat_effects = chat_step.intros chat_users

subsection \<open>Handlers of accounts\<close>

lemma moves_login_attempt:
  assumes "moves c media k"
  shows "moves c media (\<lambda>x. case Take t (x_logins x) key of (r, l) \<Rightarrow>
      let x1 = x\<lparr>x_logins := l\<rparr> in if \<not> lr_Allowed r then writeRateLimited c rq bucket r x1 else k x1)"
proof (rule movesI)
  fix x
  have "reaches c media x (x\<lparr>x_logins := l\<rparr>)" for l by (rule reaches_same) simp_all
  from moves_taken [OF this assms] show "reaches c media x (case Take t (x_logins x) key of (r, l) \<Rightarrow>
      let x1 = x\<lparr>x_logins := l\<rparr> in if \<not> lr_Allowed r then writeRateLimited c rq bucket r x1 else k x1)"
    unfolding Let_def by (simp split: prod.split del: if_split)
qed

lemma moves_reset_logins [moving]: "moves c media h \<Longrightarrow> moves c media (\<lambda>x. h (x\<lparr>x_logins := f x\<rparr>))"
  by (rule moves_compose [where f = "\<lambda>x. x\<lparr>x_logins := f x\<rparr>"]) (rule movesI, rule reaches_same, simp_all)

lemma moves_queue_mail [moving]: "moves c media (queue_mail task)"
  by (rule movesI) (auto simp: queue_mail_def intro: reaches_refl reaches_same split: option.split)

lemma moves_case_result [moving]:
  assumes "\<And>err. moves c media (bad err)"
  shows "moves c media (\<lambda>x. case r of (Inl err, t) \<Rightarrow> bad err x | (Inr v, t) \<Rightarrow> WriteHeader s (queue_mail t x))"
proof (cases r)
  case (Pair a t)
  have "moves c media (\<lambda>x. WriteHeader s (queue_mail t x))" by (intro moving)
  then show ?thesis using assms by (cases a) (simp_all add: Pair)
qed

lemma moves_login: "moves c media (login c e rq)"
  unfolding login_def
  by (intro moving moves_login_attempt; (erule auth_step.intros)?)

lemma moves_logout: "moves c media (logout c e rq)"
proof -
  have "moves c media (with_body c rq (hj_text (hc_json c) ''refresh_token'') (\<lambda>token.
            auth_call (\<lambda>db. Logout (hc_lib c) (en_now e) db accessToken token) (handleAuthError c rq) (\<lambda>_. WriteHeader 204)))" for accessToken
    by (intro moving; (erule auth_step.intros)?)
  then show ?thesis
    unfolding logout_def by (intro moving; cases "bearerToken rq") (simp_all add: moving)
qed

lemma moves_accounts:
  "moves c media (register c e rq)" "moves c media (refresh c e rq)" "moves c media (currentUser c e rq)"
  "moves c media (verifyEmail c e rq)" "moves c media (resetPassword c e rq)" "moves c media (beginGoogleLogin c e rq)"
  "moves c media (completeGoogleLogin c e rq)" "moves c media (exchangeGoogleLogin c e rq)" "moves c media (linkGoogleIdentity c e rq)"
  "moves c media (unlinkAuthenticationMethod c e rq)" "moves c media (requestEmailVerification c e rq)"
  "moves c media (requestPasswordReset c e rq)" "moves c media (health c e)"
  unfolding register_def refresh_def currentUser_def verifyEmail_def resetPassword_def beginGoogleLogin_def completeGoogleLogin_def
    exchangeGoogleLogin_def linkGoogleIdentity_def unlinkAuthenticationMethod_def requestEmailVerification_def requestPasswordReset_def
    health_def Let_def
  by (intro moving; (erule auth_step.intros)?)+

subsection \<open>Handlers of guilds, channels and messages\<close>

lemma moves_guilds:
  "moves c media (createGuild c e rq)" "moves c media (listGuilds c e rq)" "moves c media (getGuild c e rq)"
  "moves c media (updateGuild c e rq)" "moves c media (deleteGuild c e rq)"
  unfolding createGuild_def listGuilds_def getGuild_def updateGuild_def deleteGuild_def
  by (intro moving; (erule chat_effects)?)+

lemma moves_channels:
  "moves c media (createChannel c e rq)" "moves c media (listChannels c e rq)" "moves c media (getChannel c e rq)"
  "moves c media (updateChannel c e rq)" "moves c media (deleteChannel c e rq)" "moves c media (createThread c e rq)"
  "moves c media (listThreads c e rq)" "moves c media (openDirectChannel c e rq)" "moves c media (listDirectChannels c e rq)"
  unfolding createChannel_def listChannels_def getChannel_def updateChannel_def deleteChannel_def createThread_def listThreads_def
    openDirectChannel_def listDirectChannels_def
  by (intro moving; (erule chat_effects)?)+

lemma moves_reactions: "moves c media (Server_changeMessageReaction c e rq add)"
  unfolding Server_changeMessageReaction_def
  by (cases add; simp; intro moving; (erule chat_effects)?)

lemma moves_messages:
  "moves c media (createMessage c e rq)" "moves c media (listMessages c e rq)" "moves c media (getMessage c e rq)"
  "moves c media (updateMessage c e rq)" "moves c media (deleteMessage c e rq)" "moves c media (startTyping c e rq)"
  "moves c media (addMessageReaction c e rq)" "moves c media (removeMessageReaction c e rq)"
  unfolding createMessage_def listMessages_def getMessage_def updateMessage_def deleteMessage_def startTyping_def
    addMessageReaction_def removeMessageReaction_def
  by (intro moving moves_reactions; (erule chat_effects)?)+

lemma moves_members:
  "moves c media (listMembers c e rq)" "moves c media (getMember c e rq)" "moves c media (updateMember c e rq)"
  "moves c media (removeMember c e rq)" "moves c media (leaveGuild c e rq)" "moves c media (createInvite c e rq)"
  "moves c media (listInvites c e rq)" "moves c media (deleteInvite c e rq)" "moves c media (getInvite c e rq)"
  "moves c media (acceptInvite c e rq)"
  unfolding listMembers_def getMember_def updateMember_def removeMember_def leaveGuild_def createInvite_def listInvites_def
    deleteInvite_def getInvite_def acceptInvite_def
  by (intro moving; (erule chat_effects)?)+

lemma moves_roles:
  "moves c media (listRoles c e rq)" "moves c media (createRole c e rq)" "moves c media (updateRole c e rq)" "moves c media (deleteRole c e rq)"
  unfolding listRoles_def createRole_def updateRole_def deleteRole_def
  by (intro moving; (erule chat_effects)?)+

lemma moves_reads:
  "moves c media (updateReadState c e rq)" "moves c media (searchMessages c e rq)"
  unfolding updateReadState_def searchMessages_def
  by (intro moving; (erule chat_effects)?)+

text \<open>The object storage of the model is the one that the server was built with, if any.\<close>

definition fits :: "('s, 'p, 'q) http_config \<Rightarrow> 's Storage \<Rightarrow> bool" where
  "fits c media \<longleftrightarrow> hc_media c = None \<or> hc_media c = Some media"

lemma media_of_cases: "fits c media \<Longrightarrow> media_of c x = None \<or> media_of c x = Some (media, x_objects x)"
  by (auto simp: fits_def media_of_def)

lemma intent_step:
  assumes "fits c media" and "CreateAttachmentIntent us pm (media_of c x) gen now db u ch i = (r, db')"
  shows "chat_step media (db, x_objects x) (db', x_objects x)" and "users db' = users db"
proof -
  from media_of_cases [OF assms(1)] have "chat_step media (db, x_objects x) (db', x_objects x) \<and> users db' = users db"
  proof (rule disjE)
    assume "media_of c x = None"
    then have "db' = db" using assms(2) by (simp add: CreateAttachmentIntent_def)
    moreover have "chat_step media (db, x_objects x) (db\<lparr>clock := clock db\<rparr>, x_objects x)" by (rule chat_step.tick)
    ultimately show ?thesis by simp
  next
    assume "media_of c x = Some (media, x_objects x)"
    then show ?thesis using assms(2) by (auto intro: chat_step.intent chat_users)
  qed
  then show "chat_step media (db, x_objects x) (db', x_objects x)" "users db' = users db" by simp_all
qed

lemma finalize_step:
  assumes "fits c media" and "FinalizeAttachment pm ef (media_of c x) db u i = (r, db')"
  shows "chat_step media (db, x_objects x) (db', x_objects x)" and "users db' = users db"
proof -
  from media_of_cases [OF assms(1)] have "chat_step media (db, x_objects x) (db', x_objects x) \<and> users db' = users db"
  proof (rule disjE)
    assume "media_of c x = None"
    then have "db' = db" using assms(2) by (simp add: FinalizeAttachment_def)
    moreover have "chat_step media (db, x_objects x) (db\<lparr>clock := clock db\<rparr>, x_objects x)" by (rule chat_step.tick)
    ultimately show ?thesis by simp
  next
    assume "media_of c x = Some (media, x_objects x)"
    then show ?thesis using assms(2) by (auto intro: chat_step.finalize chat_users)
  qed
  then show "chat_step media (db, x_objects x) (db', x_objects x)" "users db' = users db" by simp_all
qed

lemma moves_attachments:
  assumes "fits c media"
  shows "moves c media (createAttachmentIntent c e rq)" "moves c media (finalizeAttachment c e rq)" "moves c media (getAttachment c e rq)"
    "moves c media (deleteAttachment c e rq)" "moves c media (downloadAttachment c e rq)"
    "moves c media (createAttachmentDownloadIntent c e rq)"
  unfolding createAttachmentIntent_def finalizeAttachment_def getAttachment_def deleteAttachment_def downloadAttachment_def
    createAttachmentDownloadIntent_def
  by (intro moving; (erule chat_effects | erule intent_step [OF assms] finalize_step [OF assms])?)+

lemma moves_listReadStates: "moves c media (listReadStates c e rq)"
proof -
  have "moves c media (\<lambda>x. writeJSON 200 (b x) x)" for b
    by (rule moves_silent) (simp add: writes)
  then show ?thesis unfolding listReadStates_def by (intro moving)
qed

lemma moves_updatePresence: "moves c media (updatePresence c e rq)"
proof -
  have "moves c media (\<lambda>x. case SetPresence (en_now e) (x_chat x) (x_presence x) u status words of
       (Inl err, t) \<Rightarrow> handleChatError c rq err (x\<lparr>x_presence := t\<rparr>)
     | (Inr (presence, guildIDs), t) \<Rightarrow>
         writeJSON 200 (PresenceBody (presence_response presence)) (publishPresence c e guildIDs presence (x\<lparr>x_presence := t\<rparr>)))" for u status words
  proof (rule movesI)
    fix x
    have t: "reaches c media x (x\<lparr>x_presence := t\<rparr>)" for t by (rule reaches_same) simp_all
    show "reaches c media x (case SetPresence (en_now e) (x_chat x) (x_presence x) u status words of
       (Inl err, t) \<Rightarrow> handleChatError c rq err (x\<lparr>x_presence := t\<rparr>)
     | (Inr (presence, guildIDs), t) \<Rightarrow>
         writeJSON 200 (PresenceBody (presence_response presence)) (publishPresence c e guildIDs presence (x\<lparr>x_presence := t\<rparr>)))"
      by (auto split: prod.split sum.split intro!: moves_after [OF moves_write(1)] moves_after [OF moves_write(8)]
          moves_after [OF moves_publishPresence] t)
  qed
  then show ?thesis unfolding updatePresence_def by (intro moving) simp_all
qed

subsection \<open>Voice\<close>

lemma moves_voiceRoute: "moves c media h \<Longrightarrow> moves c media (voiceRoute c rq h)"
  unfolding voiceRoute_def by (intro moving)

lemma moves_voice:
  "moves c media (listVoiceStates c e rq)" "moves c media (joinVoiceChannel c e rq)" "moves c media (updateVoiceState c e rq)"
  "moves c media (leaveVoiceChannel c e rq)"
proof -
  have "moves c media (\<lambda>x. case w of None \<Rightarrow> f x | Some v \<Rightarrow> k v x)" if "moves c media f" "\<And>v. moves c media (k v)" for f k and w :: "'z option"
    using that by (cases w) simp_all
  note this [moving]
  have "moves c media (\<lambda>x. case p of (a, b) \<Rightarrow> k a b x)" if "\<And>a b. moves c media (k a b)" for k and p :: "'y \<times> 'z"
    using that by (cases p) simp
  note this [moving]
  show "moves c media (listVoiceStates c e rq)" "moves c media (joinVoiceChannel c e rq)" "moves c media (updateVoiceState c e rq)"
    "moves c media (leaveVoiceChannel c e rq)"
    unfolding listVoiceStates_def joinVoiceChannel_def updateVoiceState_def leaveVoiceChannel_def
    by (intro moving)+
qed

lemma userGone_reaches: "reaches c media x (userGone c e u x)"
proof -
  let ?x1 = "if hc_voice c then deliver_voice c e (snd (Evict (hc_provider c (en_now e)) (en_now e) u (x_voice x))) x else x"
  have x1: "reaches c media x ?x1" by (simp add: deliver_voice_reaches reaches_refl)
  have "reaches c media ?x1 (?x1\<lparr>x_presence := t\<rparr>)" for t by (rule reaches_same) simp_all
  from reaches_trans [OF x1 this] have t: "reaches c media x (?x1\<lparr>x_presence := t\<rparr>)" for t .
  then show ?thesis
    unfolding userGone_def Let_def by (auto simp del: if_split split: prod.split option.split intro!: t moves_after [OF moves_publishPresence])
qed

subsection \<open>The whole server\<close>

lemmas moves_handlers = moves_login moves_logout moves_accounts moves_guilds moves_channels moves_messages moves_members moves_roles
  moves_reads moves_listReadStates moves_updatePresence moves_voice moves_voiceRoute moves_id

lemma moves_routes:
  assumes "fits c media"
  shows "list_all (\<lambda>r. \<forall>rq. moves c media (snd (snd r) rq)) (public_routes c e @ private_routes c e)"
  unfolding public_routes_def private_routes_def account_routes_def guild_routes_def channel_routes_def attachment_routes_def
    voice_routes_def
  by (simp add: moves_handlers moves_attachments [OF assms])

lemma find_in: "List.find P xs = Some y \<Longrightarrow> y \<in> set xs"
  by (auto simp: find_Some_iff)

lemma moves_mux:
  assumes "list_all (\<lambda>r. \<forall>rq. moves c media (snd (snd r) rq)) table"
  shows "moves c media (mux table rq)"
proof (rule movesI)
  fix x
  show "reaches c media x (mux table rq x)"
  proof (cases "select_route table rq")
    case None
    then show ?thesis by (simp add: mux_def movesD moves_write)
  next
    case (Some r)
    then have "r \<in> set table" by (auto simp: select_route_def Let_def dest: find_in)
    then have "moves c media (snd (snd r) rq')" for rq' using assms by (simp add: list_all_iff)
    then show ?thesis
      by (auto simp: mux_def Some reaches_refl movesD split: prod.split option.split)
  qed
qed

lemma moves_requestID: "(\<And>rq. moves c media (nxt rq)) \<Longrightarrow> moves c media (requestID c e nxt rq)"
proof (rule movesI)
  fix x
  assume nxt: "\<And>rq. moves c media (nxt rq)"
  have "reaches c media x (set_header n v x)" for n v by (rule reaches_world) (simp add: writes)
  then show "reaches c media x (requestID c e nxt rq x)"
    by (auto simp: requestID_def Let_def movesD moves_write split: option.split intro!: moves_after [OF nxt])
qed

lemma moves_cors:
  assumes "\<And>rq. moves c media (nxt rq)"
  shows "moves c media (cors allowed nxt rq)"
proof (rule movesI)
  fix x
  have "moves c media (nxt rq)" "moves c media (\<lambda>x. WriteHeader s x)" for s by (simp_all add: assms moves_write)
  then show "reaches c media x (cors allowed nxt rq x)"
    by (auto simp: cors_def Let_def writes movesD reaches_world intro: moves_after)
qed

lemma New_handler_reaches:
  assumes "fits c media"
  shows "reaches c media x (New_handler c allowed e rq x)"
  unfolding New_handler_def
  by (intro moves_after [OF moves_cors] moves_requestID moves_mux moves_routes [OF assms] reaches_same) simp_all

end
