(* ===== verification/Http_Claims.thy ===== *)
theory Http_Claims
  imports Http_Moves
begin

section \<open>Properties of the server\<close>

text \<open>
  The composition of the services: what any sequence of requests, callbacks and background work can
  do to them, and what a request without a valid token can do.
\<close>

subsection \<open>Every run of the server is a run of each service\<close>

text \<open>
  One step of the process: a request is served, the gateway reports a user gone, a queued mail is
  sent, the janitor sweeps, a client uploads an object, time passes in the database, or a connection
  of the gateway moves.
\<close>

inductive http_step :: "('s, 'p, 'q) http_config \<Rightarrow> 's Storage \<Rightarrow> string set \<Rightarrow> ('s, 'p, 'q) exchange \<Rightarrow> ('s, 'p, 'q) exchange \<Rightarrow> bool"
  for c media allowed where
  request: "http_step c media allowed x (New_handler c allowed e rq x)"
| gone: "http_step c media allowed x (userGone c e u x)"
| mail: "x_tasks x = t # ts \<Longrightarrow> run_mail_task (hc_lib c) random gen now (x_auth x) t = (m, db') \<Longrightarrow>
    http_step c media allowed x (store_accounts db' (x\<lparr>x_tasks := ts\<rparr>))"
| janitor: "Sweep media now (x_chat x, x_objects x) = (db', objs') \<Longrightarrow>
    http_step c media allowed x (x\<lparr>x_chat := db', x_objects := objs'\<rparr>)"
| upload: "http_step c media allowed x (x\<lparr>x_objects := objs'\<rparr>)"
| tick: "http_step c media allowed x (x\<lparr>x_chat := (x_chat x)\<lparr>clock := now\<rparr>\<rparr>)"
| gateway: "hub_step (hc_marshal c) (x_hub x) h' \<Longrightarrow> http_step c media allowed x (x\<lparr>x_hub := h'\<rparr>)"

lemma http_step_reaches:
  assumes "http_step c media allowed x x'" and fit: "fits c media"
  shows "reaches c media x x'"
  using assms(1)
proof cases
  case (request e rq)
  then show ?thesis by (simp add: New_handler_reaches [OF fit])
next
  case (gone e u)
  then show ?thesis by (simp add: userGone_reaches)
next
  case (mail t ts random gen now m db')
  have "reaches c media x (x\<lparr>x_tasks := ts\<rparr>)" by (rule reaches_same) simp_all
  then show ?thesis
    using store_accounts_reaches [of c "x\<lparr>x_tasks := ts\<rparr>" db' media] auth_step.Mail [OF mail(3)] mail(1) by (auto intro: reaches_trans)
next
  case (janitor now db' objs')
  then have "chat_step media (x_chat x, x_objects x) (db', objs')" "users db' = users (x_chat x)"
    by (auto intro: chat_step.sweep chat_users)
  then show ?thesis using janitor by (simp add: reaches_def synced_def r_into_rtranclp)
next
  case (upload objs')
  then show ?thesis by (simp add: reaches_def synced_def r_into_rtranclp chat_step.upload)
next
  case (tick now)
  then show ?thesis by (simp add: reaches_def synced_def r_into_rtranclp chat_step.tick)
next
  case (gateway h')
  then show ?thesis by (simp add: reaches_def synced_def r_into_rtranclp)
qed

lemma http_steps_reach: "(http_step c media allowed)\<^sup>*\<^sup>* x x' \<Longrightarrow> fits c media \<Longrightarrow> reaches c media x x'"
  by (induction rule: rtranclp_induct) (auto intro: reaches_refl reaches_trans http_step_reaches)

lemma chat_run_steps: "(chat_step media)\<^sup>*\<^sup>* s s' \<Longrightarrow> chat_run media s \<Longrightarrow> chat_run media s'"
  by (induction rule: rtranclp_induct) (auto intro: chat_run.step)

lemma running_server:
  assumes "fits c media"
    and "(http_step c media allowed)\<^sup>*\<^sup>* (New_server c empty_auth empty_db objs (newHub url retention n conn) voice) x"
    and "\<And>f. hc_marshal c f \<noteq> None" and "0 < n"
  shows "chat_run media (x_chat x, x_objects x) \<and> (auth_step (hc_lib c) (hc_sv c))\<^sup>*\<^sup>* empty_auth (x_auth x)
    \<and> hub_steps (hc_marshal c) (newHub url retention n conn) (x_hub x)
    \<and> users (x_chat x) = map account_summary (accounts (x_auth x))
    \<and> chat_inv (x_chat x) \<and> auth_inv (x_auth x) \<and> hub_inv (hc_marshal c) (x_hub x)"
proof -
  let ?x0 = "New_server c empty_auth empty_db objs (newHub url retention n conn) voice"
  have "synced ?x0"
    using empty_auth_inv by (simp add: synced_def New_server_def empty_db_def empty_auth_def)
  then have "synced x" "(chat_step media)\<^sup>*\<^sup>* (empty_db, objs) (x_chat x, x_objects x)"
      "(auth_step (hc_lib c) (hc_sv c))\<^sup>*\<^sup>* empty_auth (x_auth x)" "hub_steps (hc_marshal c) (newHub url retention n conn) (x_hub x)"
    using http_steps_reach [OF assms(2,1)] by (simp_all add: reaches_def New_server_def)
  moreover from this(2) have "chat_run media (x_chat x, x_objects x)"
    by (rule chat_run_steps) (rule chat_run.start)
  ultimately show ?thesis
    using chat_run_inv [of media "(x_chat x, x_objects x)"] hub_steps_inv [of "hc_marshal c" "newHub url retention n conn" "x_hub x"]
      newHub_inv [of "hc_marshal c" url retention n conn] assms(3,4)
    by (simp add: synced_def newHub_def)
qed


text \<open>A configuration without storage, gateway and voice, for the witnesses.\<close>

definition demo_http_json :: http_json where
  "demo_http_json = \<lparr>hj_RegisterPasswordRequest = (\<lambda>_. None), hj_LoginPasswordRequest = (\<lambda>_. None), hj_text = (\<lambda>_ _. None),
     hj_ResetPasswordRequest = (\<lambda>_. None), hj_GoogleAuthorizationRequest = (\<lambda>_. None), hj_GoogleExchangeRequest = (\<lambda>_. None),
     hj_CreateGuildRequest = (\<lambda>s. Some ((s, None), [])), hj_guildPatchBody = (\<lambda>_. None), hj_CreateChannelRequest = (\<lambda>_. None),
     hj_channelPatchBody = (\<lambda>_. None), hj_CreateMessageRequest = (\<lambda>_. None), hj_CreateInviteRequest = (\<lambda>_. None),
     hj_memberPatchBody = (\<lambda>_. None), hj_presenceBody = (\<lambda>_. None), hj_CreateRoleRequest = (\<lambda>_. None), hj_rolePatchBody = (\<lambda>_. None),
     hj_CreateThreadRequest = (\<lambda>_. None), hj_uuid_body = (\<lambda>_ _. None), hj_UploadIntentRequest = (\<lambda>_. None),
     hj_JoinVoiceChannelRequest = (\<lambda>_. None), hj_UpdateVoiceStateRequest = (\<lambda>_. None), hj_Unmarshal_string = Some,
     hj_Unmarshal_uuid = (\<lambda>_. None)\<rparr>"

definition demo_auth_lib :: auth_lib where
  "demo_auth_lib = \<lparr>al_sha256 = (\<lambda>s. take 32 (rev s @ replicate 32 CHR ''0'')), al_ToLower = (\<lambda>s. s), al_ParseAddress = Some,
     al_Encode = (\<lambda>kvs. concat (map (\<lambda>(k, v). k @ ''='' @ v) kvs)),
     al_argon2 = \<lparr>argon2_Version = 19, argon2_IDKey = (\<lambda>p s t m n k. take k (p @ s @ replicate k CHR ''0''))\<rparr>\<rparr>"

definition demo_config :: "(unit, gatewayMessage, unit) http_config" where
  "demo_config = \<lparr>hc_lib = demo_auth_lib, hc_sv = \<lparr>sv_hasher = DefaultPasswordParams, sv_accessTTL = 100, sv_refreshTTL = 1000, sv_dummyHash = []\<rparr>,
     hc_json = demo_http_json, hc_cursor = \<lparr>json_Marshal = (\<lambda>_. None), json_Unmarshal = (\<lambda>_. None)\<rparr>, hc_ParseMediaType = Some,
     hc_uuid_Parse = (\<lambda>_. Some 7), hc_uuid_String = (\<lambda>_. ''id''), hc_SplitHostPort = Some, hc_So = (\<lambda>_. True), hc_ilike = (\<lambda>a b. a = b),
     hc_EqualFold = (\<lambda>a b. a = b), hc_Valid = (\<lambda>_. True), hc_version = ''1'', hc_media = None, hc_gateway = False, hc_voice = False,
     hc_provider = (\<lambda>_. None), hc_google = None, hc_mailer = False, hc_marshal = Some\<rparr>"

definition demo_env :: http_env where
  "demo_env = \<lparr>en_request = Some 9, en_taken = 10, en_taken2 = 10, en_now = 10, en_published = 10, en_id = Some 100, en_id2 = Some 101,
     en_bytes = None, en_bytes2 = None,
     en_draw = \<lparr>sd_session = None, sd_family = None, sd_refresh = None, sd_access_bytes = None, sd_refresh_bytes = None\<rparr>,
     en_exchange = (\<lambda>_ _. Inl ''no''), en_users = []\<rparr>"

definition demo_delete_guild :: http_request where
  "demo_delete_guild = \<lparr>rq_Method = ''DELETE'', rq_RemoteAddr = ''1.2.3.4'', rq_Header = (\<lambda>_. []), rq_Segments = [''api'', ''v1'', ''guilds'', ''g''],
     rq_Query = (\<lambda>_. []), rq_Body = [], rq_PathValue = (\<lambda>_. []), rq_ContextID = None\<rparr>"

definition demo_start :: "(unit, gatewayMessage, unit) exchange" where
  "demo_start = New_server demo_config empty_auth empty_db () (newHub [] 60 8 (\<lambda>_. newClient 8 [])) (Voice_New ())"

definition demo_media :: "unit Storage" where
  "demo_media = \<lparr>PresignUpload = (\<lambda>_ _ _ _. Inl ErrObjectNotFound), PresignDownload = (\<lambda>_ _ _ _ _. Inl ErrObjectNotFound),
     Stat = (\<lambda>_ _. Inl ErrObjectNotFound), Delete = (\<lambda>_ _. (None, ()))\<rparr>"


subsection \<open>Without a token\<close>

definition no_login :: "('s, 'p, 'q) http_config \<Rightarrow> http_env \<Rightarrow> http_request \<Rightarrow> ('s, 'p, 'q) exchange \<Rightarrow> bool" where
  "no_login c e rq x \<longleftrightarrow> (\<forall>token u. bearerToken rq = Some token \<longrightarrow> Authenticate (hc_lib c) (en_now e) (x_auth x) token \<noteq> Inr u)"

text \<open>A handler that lets nobody in without a token.\<close>

definition refusals :: "int set" where "refusals = {401, 429, 503}"

definition guarded :: "('s, 'p, 'q) http_config \<Rightarrow> http_env \<Rightarrow> (http_request \<Rightarrow> ('s, 'p, 'q) handler) \<Rightarrow> bool" where
  "guarded c e h \<longleftrightarrow> (\<forall>rq x. no_login c e rq x \<and> x_status x = None \<longrightarrow>
     (\<exists>l. world (h rq x) = (world x)\<lparr>x_requests := l\<rparr>) \<and> (\<exists>s\<in>refusals. x_status (h rq x) = Some s))"

lemma status_writes [simp]:
  "x_status (set_header n v x) = x_status x" "x_status (add_header n v x) = x_status x"
  "x_status (WriteHeader s x) = (case x_status x of None \<Rightarrow> Some s | Some t \<Rightarrow> Some t)"
  "x_status (writeJSON s b x) = (case x_status x of None \<Rightarrow> Some s | Some t \<Rightarrow> Some t)"
  "x_status (writeError c rq s code msg x) = (case x_status x of None \<Rightarrow> Some s | Some t \<Rightarrow> Some t)"
  "x_status (setRateLimitHeaders bucket r x) = x_status x"
  "x_status (writeRateLimited c rq bucket r x) = (case x_status x of None \<Rightarrow> Some 429 | Some t \<Rightarrow> Some t)"
  "x_status (http_Error s msg x) = (case x_status x of None \<Rightarrow> Some s | Some t \<Rightarrow> Some t)"
  by (simp_all add: http_Error_def set_header_def add_header_def WriteHeader_def writeJSON_def writeError_def setRateLimitHeaders_def
      writeRateLimited_def Let_def split: option.split)

lemma world_requests: "world (x\<lparr>x_requests := l\<rparr>) = (world x)\<lparr>x_requests := l\<rparr>"
  by (simp add: world_def)

lemma Authenticate_unauthorized: "Authenticate lib now db token = Inl err \<Longrightarrow> err = ErrUnauthorized"
  by (auto simp: Authenticate_def FindUserByAccessToken_def split: if_split_asm option.split_asm)

lemma bearerUser_refuses:
  assumes "no_login c e rq x" and "x_status x = None"
  shows "world (bearerUser c e rq k x) = world x" and "x_status (bearerUser c e rq k x) = Some 401"
  using assms
  by (auto simp: bearerUser_def no_login_def writes unauthorized_def dest!: Authenticate_unauthorized split: option.split sum.split)

lemma guarded_allow: "guarded c e (\<lambda>rq. allowRequest c e rq bucket (bearerUser c e rq (k rq)))"
  unfolding guarded_def
proof (intro allI impI)
  fix rq x
  assume "no_login c e rq x \<and> x_status x = None"
  then have login: "no_login c e rq x" and new: "x_status x = None" by simp_all
  obtain r l where t: "Take (en_taken e) (x_requests x) (clientIP c rq @ ''|'' @ bucket) = (r, l)" by (meson surj_pair)
  let ?x1 = "setRateLimitHeaders bucket r (x\<lparr>x_requests := l\<rparr>)"
  have w: "world ?x1 = (world x)\<lparr>x_requests := l\<rparr>" "x_status ?x1 = None"
    using new by (simp_all add: writes world_requests)
  have "x_auth ?x1 = x_auth x" using arg_cong [OF w(1), of x_auth] by simp
  then have "no_login c e rq ?x1" using login by (simp add: no_login_def)
  from bearerUser_refuses [OF this w(2)] w
  show "(\<exists>l. world (allowRequest c e rq bucket (bearerUser c e rq (k rq)) x) = (world x)\<lparr>x_requests := l\<rparr>)
      \<and> (\<exists>s\<in>refusals. x_status (allowRequest c e rq bucket (bearerUser c e rq (k rq)) x) = Some s)"
    unfolding allowRequest_def t Let_def by (auto simp: writes refusals_def)
qed

lemma guarded_chatUser: "guarded c e (\<lambda>rq. chatUser c e rq bucket (k rq))"
  unfolding chatUser_eq by (rule guarded_allow)

lemma world_unchanged: "\<exists>l. world x = (world x)\<lparr>x_requests := l\<rparr>"
  by (rule exI [of _ "x_requests x"]) (simp add: world_def)

lemma guarded_voiceRoute: "guarded c e h \<Longrightarrow> guarded c e (\<lambda>rq. voiceRoute c rq (h rq))"
  by (auto simp: guarded_def voiceRoute_def writes refusals_def intro: world_unchanged)

lemma guarded_accounts:
  "guarded c e (linkGoogleIdentity c e)" "guarded c e (requestEmailVerification c e)" "guarded c e (unlinkAuthenticationMethod c e)"
  "guarded c e (currentUser c e)"
  unfolding linkGoogleIdentity_def [abs_def] requestEmailVerification_def [abs_def] unlinkAuthenticationMethod_def [abs_def]
    currentUser_def [abs_def]
  by (rule guarded_allow)+

lemmas chat_handler_defs = updatePresence_def listGuilds_def createGuild_def getGuild_def updateGuild_def deleteGuild_def listChannels_def
  createChannel_def listMembers_def getMember_def updateMember_def removeMember_def leaveGuild_def listRoles_def createRole_def
  updateRole_def deleteRole_def listInvites_def createInvite_def deleteInvite_def getInvite_def acceptInvite_def searchMessages_def
  getChannel_def updateChannel_def deleteChannel_def listThreads_def createThread_def listDirectChannels_def openDirectChannel_def
  listMessages_def createMessage_def startTyping_def getMessage_def updateMessage_def deleteMessage_def addMessageReaction_def
  removeMessageReaction_def Server_changeMessageReaction_def updateReadState_def listReadStates_def createAttachmentIntent_def
  getAttachment_def deleteAttachment_def finalizeAttachment_def downloadAttachment_def createAttachmentDownloadIntent_def
  listVoiceStates_def joinVoiceChannel_def updateVoiceState_def leaveVoiceChannel_def messageRequest_def memberRequest_def

lemma guarded_routes: "list_all (\<lambda>r. guarded c e (snd (snd r))) (private_routes c e)"
  unfolding private_routes_def account_routes_def guild_routes_def channel_routes_def attachment_routes_def voice_routes_def
  by (simp add: guarded_accounts, intro conjI; (rule guarded_voiceRoute)?, unfold chat_handler_defs [abs_def], rule guarded_chatUser)

text \<open>The middleware in front keeps what authenticates a request.\<close>

lemma no_login_cong:
  "rq_Header rq' = rq_Header rq \<Longrightarrow> x_auth x' = x_auth x \<Longrightarrow> no_login c e rq' x' = no_login c e rq x"
  by (simp add: no_login_def bearerToken_def)

lemma mux_refuses:
  assumes "\<forall>r\<in>set (public_routes c e). \<not> route_matches rq r" and "no_login c e rq x" and "x_status x = None"
  shows "(\<exists>l. world (mux (public_routes c e @ private_routes c e) rq x) = (world x)\<lparr>x_requests := l\<rparr>)
    \<and> (\<exists>s\<in>refusals \<union> {404, 405}. x_status (mux (public_routes c e @ private_routes c e) rq x) = Some s)"
proof (cases "select_route (public_routes c e @ private_routes c e) rq")
  case None
  then show ?thesis
    using assms(3) world_unchanged by (auto simp: mux_def writes)
next
  case (Some r)
  then have "r \<in> set (filter (route_matches rq) (public_routes c e @ private_routes c e))"
    unfolding select_route_def Let_def by (rule find_in)
  then have r: "r \<in> set (private_routes c e)" "match_segments (fst (snd r)) (rq_Segments rq) \<noteq> None"
    using assms(1) by (auto simp: route_matches_def)
  then have g: "guarded c e (snd (snd r))" using guarded_routes [of c e] unfolding list_all_iff by blast
  obtain bs where bs: "match_segments (fst (snd r)) (rq_Segments rq) = Some bs" using r(2) by blast
  have "no_login c e (bind_path bs rq) x" using assms(2) by (simp add: no_login_def bearerToken_def bind_path_def)
  then show ?thesis
    using g assms(3) bs by (auto simp: mux_def Some guarded_def split: prod.split)
qed



end
