(* ===== verification/Base64_Padded.thy ===== *)
theory Base64_Padded
  imports Base64
begin

section \<open>Base64 with padding\<close>

text \<open>
  \<open>base64.StdEncoding\<close>, which the mail bodies and the checksums of the object storage use: the
  standard alphabet, filled up to a multiple of four characters with \<open>=\<close>.
\<close>

definition StdEncoding_EncodeToString :: "string \<Rightarrow> string" where
  "StdEncoding_EncodeToString s = RawStdEncoding_EncodeToString s @ replicate ((3 - length s mod 3) mod 3) (CHR ''='')"

text \<open>\<open>DecodeString\<close> skips line breaks, wants the padding to be complete and last, and ignores spare bits.\<close>

definition StdEncoding_DecodeString :: "string \<Rightarrow> string option" where
  "StdEncoding_DecodeString s =
     (let cs = filter (\<lambda>c. c \<noteq> CHR 0x0A \<and> c \<noteq> CHR 0x0D) s;
          body = takeWhile (\<lambda>c. c \<noteq> CHR ''='') cs;
          pad = dropWhile (\<lambda>c. c \<noteq> CHR ''='') cs
      in if length cs mod 4 \<noteq> 0 \<or> (pad \<noteq> [] \<and> pad \<noteq> ''='' \<and> pad \<noteq> ''=='')
            \<or> CHR ''-'' \<in> set body \<or> CHR ''_'' \<in> set body
         then None
         else let ds = map b64_index (map url_of_std body) in
           if None \<in> set ds then None
           else (case b64_octets (map the ds) of None \<Rightarrow> None | Some bs \<Rightarrow> Some (map char_of bs)))"

text \<open>A character of the encoding, and the sextet it stands for.\<close>

definition std_char :: "nat \<Rightarrow> char" where
  "std_char i = std_of_url (b64_char i)"

lemma std_char:
  assumes "i < 64"
  shows "b64_index (url_of_std (std_char i)) = Some i"
    and "std_char i \<notin> {CHR ''-'', CHR ''_'', CHR ''='', CHR 0x0A, CHR 0x0D}"
proof -
  have "CHR ''='' \<noteq> std_char i"
  proof
    assume "CHR ''='' = std_char i"
    then have "url_of_std (CHR ''='') = b64_char i"
      using b64_char_std [OF assms] by (simp add: std_char_def)
    then have "b64_index (CHR ''='') = Some i"
      using b64_index_char [OF assms] by (simp add: url_of_std_def)
    then show False
      by (simp add: b64_index_def)
  qed
  then show "b64_index (url_of_std (std_char i)) = Some i"
    and "std_char i \<notin> {CHR ''-'', CHR ''_'', CHR ''='', CHR 0x0A, CHR 0x0D}"
    using b64_char_std [OF assms] b64_index_char [OF assms] by (auto simp: std_char_def)
qed

lemma RawStdEncoding_std_char:
  "RawStdEncoding_EncodeToString s = map std_char (b64_sextets (map of_char s))"
  by (simp add: RawStdEncoding_EncodeToString_def RawURLEncoding_EncodeToString_def std_char_def)

lemma sextets_of_string: "i \<in> set (b64_sextets (map of_char s)) \<Longrightarrow> i < 64"
  using b64_sextets_less [of "map of_char s"] of_char_less_256 [of _ s] by blast

lemma padded_sextets: "(length (b64_sextets bs) + (3 - length bs mod 3) mod 3) mod 4 = 0"
proof (induction bs rule: b64_sextets.induct)
  case (1 a b c bs)
  have "Suc (Suc (Suc n)) mod 3 = n mod 3" for n :: nat
    by presburger
  moreover have "(Suc (Suc (Suc (Suc n))) + m) mod 4 = (n + m) mod 4" for n m :: nat
    by presburger
  ultimately show ?case
    using 1 by simp
qed simp_all

lemma StdEncoding_length: "length (StdEncoding_EncodeToString s) mod 4 = 0"
  using padded_sextets [of "map of_char s"]
  by (simp add: StdEncoding_EncodeToString_def RawStdEncoding_std_char)

lemma StdEncoding_no_break: "c \<in> set (StdEncoding_EncodeToString s) \<Longrightarrow> c \<noteq> CHR 0x0A \<and> c \<noteq> CHR 0x0D"
  using std_char(2) sextets_of_string [of _ s]
  by (auto simp: StdEncoding_EncodeToString_def RawStdEncoding_std_char)

text \<open>Line breaks anywhere in the text make no difference.\<close>

lemma StdEncoding_roundtrip:
  assumes "filter (\<lambda>c. c \<noteq> CHR 0x0A \<and> c \<noteq> CHR 0x0D) t = StdEncoding_EncodeToString s"
  shows "StdEncoding_DecodeString t = Some s"
proof -
  let ?is = "b64_sextets (map of_char s)"
  let ?n = "(3 - length s mod 3) mod 3"
  let ?cs = "map std_char ?is @ replicate ?n (CHR ''='')"
  have cs: "filter (\<lambda>c. c \<noteq> CHR 0x0A \<and> c \<noteq> CHR 0x0D) t = ?cs"
    using assms by (simp add: StdEncoding_EncodeToString_def RawStdEncoding_std_char)
  have plain: "c \<noteq> CHR ''=''" if "c \<in> set (map std_char ?is)" for c
    using that std_char(2) sextets_of_string [of _ s] by auto
  then have body: "takeWhile (\<lambda>c. c \<noteq> CHR ''='') ?cs = map std_char ?is"
    "dropWhile (\<lambda>c. c \<noteq> CHR ''='') ?cs = replicate ?n (CHR ''='')"
    using takeWhile_append2 [of "map std_char ?is" "\<lambda>c. c \<noteq> CHR ''=''" "replicate ?n (CHR ''='')", OF plain]
      dropWhile_append2 [of "map std_char ?is" "\<lambda>c. c \<noteq> CHR ''=''" "replicate ?n (CHR ''='')", OF plain]
    by simp_all
  have "?n < 3"
    by simp
  then consider "?n = 0" | "?n = 1" | "?n = 2"
    by linarith
  then have pad: "replicate ?n (CHR ''='') = [] \<or> replicate ?n (CHR ''='') = ''='' \<or> replicate ?n (CHR ''='') = ''==''"
    by cases (simp_all add: numeral_2_eq_2)
  have len: "length ?cs mod 4 = 0"
    using StdEncoding_length [of s] by (simp add: StdEncoding_EncodeToString_def RawStdEncoding_std_char)
  have "c \<notin> {CHR ''-'', CHR ''_''}" if "c \<in> set (map std_char ?is)" for c
    using that std_char(2) sextets_of_string [of _ s] by auto
  then have alphabet: "CHR ''-'' \<notin> set (map std_char ?is)" "CHR ''_'' \<notin> set (map std_char ?is)"
    by blast+
  have ds: "map b64_index (map url_of_std (map std_char ?is)) = map Some ?is"
    using std_char(1) sextets_of_string [of _ s] by simp
  have none: "None \<notin> set (map Some ?is)"
    by auto
  have "b64_octets (map the (map Some ?is)) = Some (map of_char s)"
    using b64_octets_sextets [of "map of_char s"] of_char_less_256 [of _ s] by (auto simp: comp_def)
  moreover have "map char_of (map of_char s :: nat list) = s"
    by (simp add: map_idI)
  ultimately show ?thesis
    using pad len alphabet none unfolding StdEncoding_DecodeString_def Let_def cs body ds by auto
qed

end
