(* ===== verification/S3_Storage.thy ===== *)
theory S3_Storage
  imports Attachments Base64_Padded Decimal "HOL-Library.AList" "HOL-Library.Signed_Division"
begin

section \<open>S3-compatible object storage\<close>

text \<open>
  \<open>internal/media/s3.go\<close>: the storage that signs its URLs with AWS Signature Version 4. The storage
  is a state of the interface \<open>Storage\<close> (theory \<open>Attachments\<close>): the reading of its clock, and the
  remote store behind the HTTP client. SHA-256, HMAC, \<open>url.Parse\<close>,
  \<open>mime.FormatMediaType\<close> and the exchange of one HTTP request are arguments. A map of Go is an
  association list with distinct keys; the code sorts its keys before it uses their order.
\<close>

subsection \<open>Dates\<close>

text \<open>\<open>Time.Format\<close> with the two layouts of the signature, in UTC, for instants after Go's zero time.\<close>

definition zero_pad :: "nat \<Rightarrow> nat \<Rightarrow> string" where
  "zero_pad w n = replicate (w - length (Itoa n)) (CHR ''0'') @ Itoa n"

fun month_and_day :: "nat \<Rightarrow> nat \<Rightarrow> nat list \<Rightarrow> nat \<times> nat" where
  "month_and_day m d [] = (m, d + 1)"
| "month_and_day m d (l # ls) = (if d < l then (m, d + 1) else month_and_day (m + 1) (d - l) ls)"

definition civil_date :: "time \<Rightarrow> nat \<times> nat \<times> nat" where
  "civil_date t =
     (let d = nat (t div (24 * time_Hour));
          n400 = d div 146097; d1 = d mod 146097;
          n100 = min 3 (d1 div 36524); d2 = d1 - n100 * 36524;
          n4 = d2 div 1461; d3 = d2 mod 1461;
          n1 = min 3 (d3 div 365); d4 = d3 - n1 * 365;
          leap = (n1 = 3 \<and> (n4 \<noteq> 24 \<or> n100 = 3))
      in (400 * n400 + 100 * n100 + 4 * n4 + n1 + 1,
          month_and_day 1 d4 [31, if leap then 29 else 28, 31, 30, 31, 30, 31, 31, 30, 31, 30]))"

definition Format_date :: "time \<Rightarrow> string" where
  "Format_date t = (case civil_date t of (y, m, d) \<Rightarrow> zero_pad 4 y @ zero_pad 2 m @ zero_pad 2 d)"

definition Format_timestamp :: "time \<Rightarrow> string" where
  "Format_timestamp t = Format_date t @ ''T'' @ zero_pad 2 (nat (t div time_Hour mod 24))
     @ zero_pad 2 (nat (t div time_Minute mod 60)) @ zero_pad 2 (nat (t div time_Second mod 60)) @ ''Z''"

subsection \<open>Percent encoding\<close>

definition unreserved :: "char \<Rightarrow> bool" where
  "unreserved b \<longleftrightarrow> between (CHR ''A'') (CHR ''Z'') b \<or> between (CHR ''a'') (CHR ''z'') b \<or> is_digit b
     \<or> b = CHR ''-'' \<or> b = CHR ''_'' \<or> b = CHR ''.'' \<or> b = CHR ''~''"

definition hex_upper :: "nat \<Rightarrow> char" where
  "hex_upper n = (if n < 10 then char_of (48 + n) else char_of (55 + n))"

definition encode_byte :: "char \<Rightarrow> string" where
  "encode_byte b = (if unreserved b then [b] else [CHR ''%'', hex_upper (of_char b div 16), hex_upper (of_char b mod 16)])"

definition encodeComponent :: "string \<Rightarrow> string" where
  "encodeComponent value = concat (map encode_byte value)"

definition encodePath :: "string \<Rightarrow> string" where
  "encodePath path = strings_Join (CHR ''/'') (map encodeComponent (strings_Split (CHR ''/'') path))"

definition query_pair :: "string \<times> string \<Rightarrow> string" where
  "query_pair = (\<lambda>(name, value). encodeComponent name @ CHR ''='' # encodeComponent value)"

definition query_pairs :: "(string \<times> string list) list \<Rightarrow> (string \<times> string) list" where
  "query_pairs query = concat (map (\<lambda>(name, values). map (Pair name) values) query)"

definition canonicalQueryString :: "(string \<times> string list) list \<Rightarrow> string" where
  "canonicalQueryString query = strings_Join (CHR ''&'') (sort (map query_pair (query_pairs query)))"

subsection \<open>The signature\<close>

record signInput =
  si_Method :: string
  si_Scheme :: string
  si_Host :: string
  si_Path :: string
  si_Region :: string
  si_AccessKey :: string
  si_SecretKey :: string
  si_Now :: time
  si_TTL :: duration
  si_Headers :: "(string \<times> string) list"
  si_Query :: "(string \<times> string list) list"

text \<open>\<open>url.URL\<close> as far as the code reads it, and one exchange of the HTTP client.\<close>

record endpoint_url =
  ep_Scheme :: string
  ep_Host :: string
  ep_Path :: string

record s3_request =
  rs_Method :: string
  rs_URL :: string
  rs_Header :: "(string \<times> string) list"

record s3_response =
  sr_StatusCode :: int
  sr_Header :: "string \<Rightarrow> string"

record 'n s3_lib =
  s3_sha256 :: "string \<Rightarrow> string"
  s3_hmac :: "string \<Rightarrow> string \<Rightarrow> string"
  s3_url_Parse :: "string \<Rightarrow> endpoint_url option"
  s3_FormatMediaType :: "string \<Rightarrow> (string \<times> string) list \<Rightarrow> string"
  s3_Do :: "'n \<Rightarrow> s3_request \<Rightarrow> (string + s3_response) \<times> 'n"

definition hmacSHA256 :: "'n s3_lib \<Rightarrow> string \<Rightarrow> string \<Rightarrow> string" where
  "hmacSHA256 lib key data = s3_hmac lib key data"

definition newline :: char where "newline = CHR 0x0A"

definition sign_scope :: "signInput \<Rightarrow> string" where
  "sign_scope i = Format_date (si_Now i) @ ''/'' @ si_Region i @ ''/s3/aws4_request''"

definition sign_headers :: "signInput \<Rightarrow> (string \<times> string) list" where
  "sign_headers i = foldl (\<lambda>hs (name, value). AList.update (map ascii_lower name) (strings_TrimSpace value) hs)
     [(''host'', si_Host i)] (si_Headers i)"

definition sign_names :: "signInput \<Rightarrow> string list" where
  "sign_names i = sort (map fst (sign_headers i))"

definition header_value :: "signInput \<Rightarrow> string \<Rightarrow> string" where
  "header_value i name = (case map_of (sign_headers i) name of None \<Rightarrow> [] | Some v \<Rightarrow> v)"

definition canonicalHeaders :: "signInput \<Rightarrow> string" where
  "canonicalHeaders i = concat (map (\<lambda>name. name @ '':'' @ header_value i name @ [newline]) (sign_names i))"

definition signedHeaderList :: "signInput \<Rightarrow> string" where
  "signedHeaderList i = strings_Join (CHR '';'') (sign_names i)"

definition sign_query :: "signInput \<Rightarrow> (string \<times> string list) list" where
  "sign_query i = foldl (\<lambda>q (name, value). AList.update name [value] q) (si_Query i)
     [(''X-Amz-Algorithm'', ''AWS4-HMAC-SHA256''), (''X-Amz-Credential'', si_AccessKey i @ ''/'' @ sign_scope i),
      (''X-Amz-Date'', Format_timestamp (si_Now i)), (''X-Amz-Expires'', int_text (si_TTL i sdiv time_Second)),
      (''X-Amz-SignedHeaders'', signedHeaderList i)]"

definition canonicalRequest :: "signInput \<Rightarrow> string" where
  "canonicalRequest i = strings_Join newline [si_Method i, encodePath (si_Path i), canonicalQueryString (sign_query i),
     canonicalHeaders i, signedHeaderList i, ''UNSIGNED-PAYLOAD'']"

definition stringToSign :: "'n s3_lib \<Rightarrow> signInput \<Rightarrow> string" where
  "stringToSign lib i = strings_Join newline [''AWS4-HMAC-SHA256'', Format_timestamp (si_Now i), sign_scope i,
     hex_EncodeToString (s3_sha256 lib (canonicalRequest i))]"

definition s3_signingKey :: "'n s3_lib \<Rightarrow> signInput \<Rightarrow> string" where
  "s3_signingKey lib i = foldl (hmacSHA256 lib) (hmacSHA256 lib (''AWS4'' @ si_SecretKey i) (Format_date (si_Now i)))
     [si_Region i, ''s3'', ''aws4_request'']"

definition signURL :: "'n s3_lib \<Rightarrow> signInput \<Rightarrow> string" where
  "signURL lib i =
     si_Scheme i @ ''://'' @ si_Host i @ encodePath (si_Path i) @ ''?'' @ canonicalQueryString (sign_query i)
     @ ''&X-Amz-Signature='' @ hex_EncodeToString (hmacSHA256 lib (s3_signingKey lib i) (stringToSign lib i))"

subsection \<open>The storage\<close>

record S3Config =
  s3c_Endpoint :: string
  s3c_PublicEndpoint :: string
  s3c_Region :: string
  s3c_Bucket :: string
  s3c_AccessKey :: string
  s3c_SecretKey :: string
  s3c_PathStyle :: bool

text \<open>The configuration never changes and is an argument of the methods; the rest is their state.\<close>

record 'n S3Storage =
  s3_client :: 'n
  s3_now :: time

definition s3_endpoint_ok :: "'n s3_lib \<Rightarrow> string \<Rightarrow> bool" where
  "s3_endpoint_ok lib endpoint =
     (case s3_url_Parse lib endpoint of None \<Rightarrow> False
      | Some parsed \<Rightarrow> (ep_Scheme parsed = ''http'' \<or> ep_Scheme parsed = ''https'') \<and> ep_Host parsed \<noteq> [])"

text \<open>The code names one of the missing settings, in the order of a map; the model names the first.\<close>

definition NewS3Storage :: "'n s3_lib \<Rightarrow> 'n \<Rightarrow> time \<Rightarrow> S3Config \<Rightarrow> string + S3Config \<times> 'n S3Storage" where
  "NewS3Storage lib client now config0 =
     (let config = (if s3c_PublicEndpoint config0 = [] then config0\<lparr>s3c_PublicEndpoint := s3c_Endpoint config0\<rparr> else config0)
      in (case find_by snd [(''endpoint'', s3c_Endpoint config), (''region'', s3c_Region config), (''bucket'', s3c_Bucket config),
                     (''access key'', s3c_AccessKey config), (''secret key'', s3c_SecretKey config)] [] of
            Some (name, _) \<Rightarrow> Inl (''s3 '' @ name @ '' is required'')
          | None \<Rightarrow>
              if \<not> s3_endpoint_ok lib (s3c_Endpoint config) \<or> \<not> s3_endpoint_ok lib (s3c_PublicEndpoint config)
              then Inl ''s3 endpoint must be an http(s) URL''
              else Inr (config, \<lparr>s3_client = client, s3_now = now\<rparr>)))"

text \<open>An endpoint that does not parse would be a nil dereference; \<open>NewS3Storage\<close> rules it out.\<close>

definition presign_input ::
  "'n s3_lib \<Rightarrow> S3Config \<Rightarrow> 'n S3Storage \<Rightarrow> string \<Rightarrow> string \<Rightarrow> string \<Rightarrow> (string \<times> string) list \<Rightarrow> (string \<times> string list) list
     \<Rightarrow> duration \<Rightarrow> signInput option" where
  "presign_input lib c s method endpoint key headers extra ttl =
     (case s3_url_Parse lib endpoint of None \<Rightarrow> None
      | Some base \<Rightarrow>
          let path = rev (dropWhile (\<lambda>b. b = CHR ''/'') (rev (ep_Path base)));
              host = (if s3c_PathStyle c then ep_Host base else s3c_Bucket c @ ''.'' @ ep_Host base);
              path' = (if s3c_PathStyle c then path @ ''/'' @ s3c_Bucket c else path) @ ''/'' @ key
          in Some \<lparr>si_Method = method, si_Scheme = ep_Scheme base, si_Host = host, si_Path = path', si_Region = s3c_Region c,
                    si_AccessKey = s3c_AccessKey c, si_SecretKey = s3c_SecretKey c, si_Now = s3_now s, si_TTL = ttl,
                    si_Headers = headers, si_Query = extra\<rparr>)"

definition presign ::
  "'n s3_lib \<Rightarrow> S3Config \<Rightarrow> 'n S3Storage \<Rightarrow> string \<Rightarrow> string \<Rightarrow> string \<Rightarrow> (string \<times> string) list \<Rightarrow> (string \<times> string list) list
     \<Rightarrow> duration \<Rightarrow> (string \<times> time) option" where
  "presign lib c s method endpoint key headers extra ttl =
     (case presign_input lib c s method endpoint key headers extra ttl of None \<Rightarrow> None
      | Some input \<Rightarrow> Some (signURL lib input, s3_now s + ttl))"

fun hex_value :: "char \<Rightarrow> nat option" where
  "hex_value c = (let n = of_char c :: nat in
     if 48 \<le> n \<and> n \<le> 57 then Some (n - 48) else if 97 \<le> n \<and> n \<le> 102 then Some (n - 87)
     else if 65 \<le> n \<and> n \<le> 70 then Some (n - 55) else None)"

fun hex_DecodeString :: "string \<Rightarrow> string option" where
  "hex_DecodeString [] = Some []"
| "hex_DecodeString [c] = None"
| "hex_DecodeString (c # d # s) =
     (case (hex_value c, hex_value d, hex_DecodeString s) of
        (Some x, Some y, Some r) \<Rightarrow> Some (char_of (16 * x + y) # r)
      | _ \<Rightarrow> None)"

definition base64Checksum :: "string \<Rightarrow> string + string" where
  "base64Checksum hexValue =
     (case hex_DecodeString hexValue of None \<Rightarrow> Inl ''checksum must be a SHA-256 hex digest''
      | Some raw \<Rightarrow> if length raw \<noteq> 32 then Inl ''checksum must be a SHA-256 hex digest'' else Inr (StdEncoding_EncodeToString raw))"

definition contentDisposition :: "'n s3_lib \<Rightarrow> string \<Rightarrow> string \<Rightarrow> string" where
  "contentDisposition lib filename contentType =
     s3_FormatMediaType lib
       (if contentType \<in> {''image/png'', ''image/jpeg'', ''image/gif'', ''image/webp''} then ''inline'' else ''attachment'')
       [(''filename'', filename)]"

definition upload_headers :: "UploadRequest \<Rightarrow> string \<Rightarrow> (string \<times> string) list" where
  "upload_headers request checksum = [(''Content-Type'', ur_ContentType request), (''x-amz-checksum-sha256'', checksum)]"

definition S3_PresignUpload ::
  "'n s3_lib \<Rightarrow> S3Config \<Rightarrow> 'n S3Storage \<Rightarrow> string \<Rightarrow> UploadRequest \<Rightarrow> duration \<Rightarrow> storage_error + Upload" where
  "S3_PresignUpload lib c s key request ttl =
     (case base64Checksum (ur_ChecksumSHA256 request) of Inl err \<Rightarrow> Inl (StorageError err)
      | Inr checksum \<Rightarrow>
          let headers = upload_headers request checksum in
          (case presign lib c s ''PUT'' (s3c_PublicEndpoint c) key headers [] ttl of
             None \<Rightarrow> Inl (StorageError ''panic'')
           | Some (signedURL, expiresAt) \<Rightarrow> Inr \<lparr>up_URL = signedURL, up_Headers = headers, up_ExpiresAt = expiresAt\<rparr>))"

definition S3_PresignDownload ::
  "'n s3_lib \<Rightarrow> S3Config \<Rightarrow> 'n S3Storage \<Rightarrow> string \<Rightarrow> string \<Rightarrow> string \<Rightarrow> duration \<Rightarrow> storage_error + Download" where
  "S3_PresignDownload lib c s key filename contentType ttl =
     (let query = [(''response-content-disposition'', [contentDisposition lib filename contentType])] in
      (case presign lib c s ''GET'' (s3c_PublicEndpoint c) key [] query ttl of
         None \<Rightarrow> Inl (StorageError ''panic'')
       | Some (signedURL, expiresAt) \<Rightarrow> Inr \<lparr>dl_URL = signedURL, dl_ExpiresAt = expiresAt\<rparr>))"

text \<open>A signed request to the store; \<open>http.NewRequest\<close> parses the URL again.\<close>

definition s3_send ::
  "'n s3_lib \<Rightarrow> S3Config \<Rightarrow> 'n S3Storage \<Rightarrow> string \<Rightarrow> string \<Rightarrow> (string \<times> string) list \<Rightarrow> string \<Rightarrow> (storage_error + s3_response) \<times> 'n S3Storage" where
  "s3_send lib c s method key headers what =
     (case presign lib c s method (s3c_Endpoint c) key headers [] time_Minute of
        None \<Rightarrow> (Inl (StorageError ''panic''), s)
      | Some (signedURL, _) \<Rightarrow>
          if s3_url_Parse lib signedURL = None then (Inl (StorageError ''parse''), s)
          else (case s3_Do lib (s3_client s) \<lparr>rs_Method = method, rs_URL = signedURL, rs_Header = headers\<rparr> of
              (Inl err, n) \<Rightarrow> (Inl (StorageError (what @ '': '' @ err)), s\<lparr>s3_client := n\<rparr>)
            | (Inr response, n) \<Rightarrow> (Inr response, s\<lparr>s3_client := n\<rparr>)))"

text \<open>A \<open>HEAD\<close> request leaves the store as it is, so \<open>Stat\<close> keeps no new state.\<close>

definition S3_Stat :: "'n s3_lib \<Rightarrow> S3Config \<Rightarrow> 'n S3Storage \<Rightarrow> string \<Rightarrow> storage_error + ObjectInfo" where
  "S3_Stat lib c s key =
     (case fst (s3_send lib c s ''HEAD'' key [(''x-amz-checksum-mode'', ''ENABLED'')] ''stat object'') of
        Inl err \<Rightarrow> Inl err
      | Inr response \<Rightarrow>
          if sr_StatusCode response = 404 then Inl ErrObjectNotFound
          else if sr_StatusCode response \<noteq> 200 then Inl (StorageError ''stat object: unexpected status'')
          else (case Atoi (sr_Header response ''Content-Length'') of None \<Rightarrow> Inl (StorageError ''stat object: missing Content-Length'')
          | Some objectSize \<Rightarrow> Inr \<lparr>oi_Size = objectSize, oi_ContentType = sr_Header response ''Content-Type'',
              oi_ChecksumSHA256 = (case StdEncoding_DecodeString (sr_Header response ''x-amz-checksum-sha256'') of
                  None \<Rightarrow> []
                | Some raw \<Rightarrow> if length raw = 32 then hex_EncodeToString raw else [])\<rparr>))"

definition S3_Delete :: "'n s3_lib \<Rightarrow> S3Config \<Rightarrow> 'n S3Storage \<Rightarrow> string \<Rightarrow> storage_error option \<times> 'n S3Storage" where
  "S3_Delete lib c s key =
     (case s3_send lib c s ''DELETE'' key [] ''delete object'' of
        (Inl err, s') \<Rightarrow> (Some err, s')
      | (Inr response, s') \<Rightarrow>
          (if sr_StatusCode response \<noteq> 204 \<and> sr_StatusCode response \<noteq> 200 \<and> sr_StatusCode response \<noteq> 404
           then Some (StorageError ''delete object: unexpected status'') else None, s'))"

definition S3Storage_methods :: "'n s3_lib \<Rightarrow> S3Config \<Rightarrow> 'n S3Storage Storage" where
  "S3Storage_methods lib c = \<lparr>PresignUpload = S3_PresignUpload lib c, PresignDownload = S3_PresignDownload lib c,
     Stat = S3_Stat lib c, Delete = S3_Delete lib c\<rparr>"

end
