(* ===== verification/S3_Claims.thy ===== *)
theory S3_Claims
  imports S3_Storage "HOL-Library.Multiset"
begin

section \<open>What a signed URL binds\<close>

text \<open>
  The text that \<open>signURL\<close> hashes determines the request it was made of: the percent encoding can be
  undone and leaves no character that separates components, pairs, segments or lines.
\<close>

subsection \<open>Percent encoding\<close>

text \<open>The reader of the encoding.\<close>

fun unescape :: "string \<Rightarrow> string" where
  "unescape (c # d # e # s) =
     (if c = CHR ''%''
      then (case (hex_value d, hex_value e) of (Some x, Some y) \<Rightarrow> char_of (16 * x + y) # unescape s | _ \<Rightarrow> unescape s)
      else c # unescape (d # e # s))"
| "unescape (c # s) = c # unescape s"
| "unescape [] = []"

lemma hex_upper:
  assumes "n < 16"
  shows "hex_value (hex_upper n) = Some n" and "unreserved (hex_upper n)"
proof -
  have "n \<in> {0, 1, 2, 3, 4, 5, 6, 7, 8, 9, 10, 11, 12, 13, 14, 15}"
    using assms by (simp, arith)
  then show "hex_value (hex_upper n) = Some n" "unreserved (hex_upper n)"
    by (elim insertE emptyE; simp add: hex_upper_def Let_def unreserved_def between_def is_digit_def)+
qed

lemma byte_digits: "of_char b div 16 < (16 :: nat)" "of_char b mod 16 < (16 :: nat)"
  using nat_of_char_less_256 [of b] by (simp_all add: less_mult_imp_div_less)

lemma unescape_plain: "c \<noteq> CHR ''%'' \<Longrightarrow> unescape (c # s) = c # unescape s"
  by (cases s; cases "tl s") auto

lemma unescape_byte: "unescape (encode_byte b @ s) = b # unescape s"
proof (cases "unreserved b")
  case True
  then have "b \<noteq> CHR ''%''"
    by (auto simp: unreserved_def between_def is_digit_def)
  with True show ?thesis
    by (simp add: encode_byte_def unescape_plain)
next
  case False
  note digits = byte_digits [of b]
  have "char_of (16 * (of_char b div 16) + of_char b mod 16 :: nat) = b"
    by simp
  then show ?thesis
    using False digits by (simp add: encode_byte_def hex_upper(1) del: hex_value.simps)
qed

lemma unescape_encodeComponent: "unescape (encodeComponent s) = s"
  by (induction s) (simp_all add: encodeComponent_def unescape_byte)

lemma encodeComponent_eq: "encodeComponent s = encodeComponent t \<longleftrightarrow> s = t"
  using unescape_encodeComponent by metis

lemma encodeComponent_chars: "c \<in> set (encodeComponent s) \<Longrightarrow> unreserved c \<or> c = CHR ''%''"
proof -
  assume "c \<in> set (encodeComponent s)"
  then obtain b where b: "c \<in> set (encode_byte b)"
    by (auto simp: encodeComponent_def)
  note digits = byte_digits [of b]
  with b digits show ?thesis
    by (auto simp: encode_byte_def hex_upper(2) split: if_splits)
qed

lemma encodeComponent_no_separator:
  "CHR ''/'' \<notin> set (encodeComponent s)" "CHR ''='' \<notin> set (encodeComponent s)"
  "CHR ''&'' \<notin> set (encodeComponent s)" "newline \<notin> set (encodeComponent s)"
  using encodeComponent_chars [of "CHR ''/''" s] encodeComponent_chars [of "CHR ''=''" s]
    encodeComponent_chars [of "CHR ''&''" s] encodeComponent_chars [of newline s]
  by (auto simp: unreserved_def between_def is_digit_def newline_def)

lemma inj_query_pair: "inj query_pair"
proof (rule injI)
  fix p q
  assume eq: "query_pair p = query_pair q"
  obtain n v n' v' where p: "p = (n, v)" "q = (n', v')"
    by (metis surj_pair)
  have "strings_Split (CHR ''='') (query_pair (a, b)) = [encodeComponent a, encodeComponent b]" for a b
    by (simp add: query_pair_def strings_Split_part strings_Split_last encodeComponent_no_separator)
  with eq show "p = q"
    unfolding p by (metis encodeComponent_eq list.inject)
qed

lemma query_pair_no_separator: "CHR ''&'' \<notin> set (query_pair p)" "newline \<notin> set (query_pair p)"
  using encodeComponent_no_separator by (auto simp: query_pair_def newline_def split: prod.split)

lemma canonicalQueryString_eq:
  assumes "query_pairs q \<noteq> []" "query_pairs r \<noteq> []"
  shows "canonicalQueryString q = canonicalQueryString r \<longleftrightarrow> mset (query_pairs q) = mset (query_pairs r)"
proof
  let ?f = "\<lambda>q. sort (map query_pair (query_pairs q))"
  assume eq: "canonicalQueryString q = canonicalQueryString r"
  have "?f q \<noteq> []" "?f r \<noteq> []"
    using assms by (metis map_is_Nil_conv mset_sort mset_zero_iff)+
  moreover have "\<forall>p\<in>set (?f q). CHR ''&'' \<notin> set p" "\<forall>p\<in>set (?f r). CHR ''&'' \<notin> set p"
    using query_pair_no_separator(1) by auto
  ultimately have "?f q = ?f r"
    using eq unfolding canonicalQueryString_def by (rule strings_Join_inject)
  then have "mset (map query_pair (query_pairs q)) = mset (map query_pair (query_pairs r))"
    by (metis mset_sort)
  then show "mset (query_pairs q) = mset (query_pairs r)"
    using inj_query_pair by (simp add: multiset.inj_map inj_eq)
next
  assume "mset (query_pairs q) = mset (query_pairs r)"
  then have "mset (map query_pair (query_pairs q)) = mset (map query_pair (query_pairs r))"
    by simp
  then show "canonicalQueryString q = canonicalQueryString r"
    unfolding canonicalQueryString_def by (metis mset_sort properties_for_sort sorted_sort)
qed

lemma canonicalQueryString_no_newline: "newline \<notin> set (canonicalQueryString q)"
  using set_strings_Join [of "CHR ''&''" "sort (map query_pair (query_pairs q))"] query_pair_no_separator(2)
  by (auto simp: canonicalQueryString_def newline_def)

lemma encodePath_eq: "encodePath p = encodePath q \<longleftrightarrow> p = q"
proof
  let ?f = "\<lambda>p. map encodeComponent (strings_Split (CHR ''/'') p)"
  assume eq: "encodePath p = encodePath q"
  have "?f p \<noteq> []" "?f q \<noteq> []"
    by (simp_all add: strings_Split_nonempty)
  moreover have "\<forall>c\<in>set (?f p). CHR ''/'' \<notin> set c" "\<forall>c\<in>set (?f q). CHR ''/'' \<notin> set c"
    using encodeComponent_no_separator(1) by simp_all
  ultimately have "?f p = ?f q"
    using eq unfolding encodePath_def by (rule strings_Join_inject)
  moreover have "inj encodeComponent"
    using encodeComponent_eq by (auto intro: injI)
  ultimately have "strings_Split (CHR ''/'') p = strings_Split (CHR ''/'') q"
    by (simp add: inj_map_eq_map)
  then have "p @ [CHR ''/''] = q @ [CHR ''/'']"
    by (subst (1 2) strings_Split_join [symmetric]) (rule arg_cong)
  then show "p = q"
    by simp
qed simp

lemma encodePath_no_newline: "newline \<notin> set (encodePath p)"
  using set_strings_Join [of "CHR ''/''" "map encodeComponent (strings_Split (CHR ''/'') p)"] encodeComponent_no_separator(4)
  by (auto simp: encodePath_def newline_def)

subsection \<open>Headers and lines\<close>

lemma distinct_sign_headers: "distinct (map fst (sign_headers i))"
proof -
  have "distinct (map fst (foldl (\<lambda>hs (name, value). AList.update (f name) (g value) hs) hs ps))"
    if "distinct (map fst hs)" for f :: "string \<Rightarrow> string" and g :: "string \<Rightarrow> string" and hs ps
    using that by (induction ps arbitrary: hs) (auto simp: distinct_update)
  then show ?thesis
    by (simp add: sign_headers_def)
qed

lemma sign_names_eq:
  assumes "map_of (sign_headers i) = map_of (sign_headers j)"
  shows "sign_names i = sign_names j" and "header_value i = header_value j"
proof -
  have "set (map fst (sign_headers i)) = set (map fst (sign_headers j))"
    using assms by (metis dom_map_of_conv_image_fst list.set_map)
  then have "mset (map fst (sign_headers i)) = mset (map fst (sign_headers j))"
    using distinct_sign_headers by (simp only: set_eq_iff_mset_eq_distinct)
  then show "sign_names i = sign_names j"
    unfolding sign_names_def by (metis mset_sort properties_for_sort sorted_sort)
  show "header_value i = header_value j"
    using assms by (simp add: header_value_def fun_eq_iff)
qed

lemma sign_headers_eq:
  assumes "sign_names i = sign_names j" and "\<forall>n\<in>set (sign_names i). header_value i n = header_value j n"
  shows "map_of (sign_headers i) = map_of (sign_headers j)"
proof
  fix n
  have names: "set (sign_names i) = dom (map_of (sign_headers i))" for i
    by (simp add: sign_names_def dom_map_of_conv_image_fst)
  show "map_of (sign_headers i) n = map_of (sign_headers j) n"
  proof (cases "n \<in> set (sign_names i)")
    case True
    then obtain v w where "map_of (sign_headers i) n = Some v" "map_of (sign_headers j) n = Some w"
      using assms(1) names [of i] names [of j] by (metis domD)
    with True assms(2) show ?thesis
      by (force simp: header_value_def)
  next
    case False
    then show ?thesis
      using assms(1) names [of i] names [of j] by (metis domIff)
  qed
qed

lemma query_pairs_nonempty: "query_pairs (sign_query i) \<noteq> []"
proof -
  have "AList.update n [v] q = [] \<or> query_pairs (AList.update n [v] q) \<noteq> []" for n v and q :: "(string \<times> string list) list"
    by (induction q) (auto simp: query_pairs_def)
  moreover have "AList.update n [v] q \<noteq> []" for n v and q :: "(string \<times> string list) list"
    by (cases q) auto
  ultimately show ?thesis
    by (simp add: sign_query_def)
qed

text \<open>No line break in the method, no line break or colon in a header: what \<open>net/http\<close> can send.\<close>

definition sendable :: "signInput \<Rightarrow> bool" where
  "sendable i \<longleftrightarrow> newline \<notin> set (si_Method i)
     \<and> list_all (\<lambda>(name, value). newline \<notin> set name \<and> CHR '':'' \<notin> set name \<and> newline \<notin> set value) (sign_headers i)"

definition header_line :: "signInput \<Rightarrow> string \<Rightarrow> string" where
  "header_line i name = name @ CHR '':'' # header_value i name"

definition request_lines :: "signInput \<Rightarrow> string list" where
  "request_lines i = [si_Method i, encodePath (si_Path i), canonicalQueryString (sign_query i)]
     @ map (header_line i) (sign_names i) @ [[], signedHeaderList i, ''UNSIGNED-PAYLOAD'']"

lemma strings_Join_lines:
  "strings_Join sep (ls @ q # qs) = concat (map (\<lambda>l. l @ [sep]) ls) @ strings_Join sep (q # qs)"
  by (induction ls) (auto simp: neq_Nil_conv split: list.splits elim: strings_Join.elims)

lemma canonicalRequest_lines: "canonicalRequest i = strings_Join newline (request_lines i)"
proof -
  have "request_lines i = ([si_Method i, encodePath (si_Path i), canonicalQueryString (sign_query i)] @ map (header_line i) (sign_names i))
      @ [] # [signedHeaderList i, ''UNSIGNED-PAYLOAD'']"
    by (simp add: request_lines_def)
  then show ?thesis
    by (simp only: strings_Join_lines) (simp add: canonicalRequest_def canonicalHeaders_def header_line_def comp_def)
qed

lemma sendable_header:
  assumes "sendable i" "n \<in> set (sign_names i)"
  shows "newline \<notin> set n" "CHR '':'' \<notin> set n" "newline \<notin> set (header_value i n)"
proof -
  obtain v where v: "(n, v) \<in> set (sign_headers i)"
    using assms(2) by (auto simp: sign_names_def)
  then have "map_of (sign_headers i) n = Some v"
    by (rule map_of_is_SomeI [OF distinct_sign_headers])
  then show "newline \<notin> set n" "CHR '':'' \<notin> set n" "newline \<notin> set (header_value i n)"
    using assms(1) v by (auto simp: sendable_def list_all_iff header_value_def)
qed

lemma sendable_lines:
  assumes "sendable i"
  shows "\<forall>l\<in>set (request_lines i). newline \<notin> set l"
proof -
  have "newline \<notin> set (signedHeaderList i)"
    using set_strings_Join [of "CHR '';''" "sign_names i"] sendable_header(1) [OF assms]
    by (auto simp: signedHeaderList_def newline_def)
  then show ?thesis
    using assms sendable_header(1,3) [OF assms] encodePath_no_newline canonicalQueryString_no_newline
    by (auto simp: request_lines_def header_line_def sendable_def newline_def)
qed

lemma header_lines_eq:
  assumes "sendable i" "sendable j" "map (header_line i) (sign_names i) = map (header_line j) (sign_names j)"
  shows "map_of (sign_headers i) = map_of (sign_headers j)"
proof -
  have split: "(n = n' \<and> header_value i n = header_value j n') \<longleftrightarrow> header_line i n = header_line j n'"
    if "n \<in> set (sign_names i)" "n' \<in> set (sign_names j)" for n n'
  proof
    assume "header_line i n = header_line j n'"
    moreover have "strings_Split (CHR '':'') (header_line i n) = n # strings_Split (CHR '':'') (header_value i n)"
      "strings_Split (CHR '':'') (header_line j n') = n' # strings_Split (CHR '':'') (header_value j n')"
      using sendable_header(2) assms(1,2) that by (simp_all add: header_line_def strings_Split_part)
    ultimately have "n = n'"
      by (metis list.inject)
    then show "n = n' \<and> header_value i n = header_value j n'"
      using \<open>header_line i n = header_line j n'\<close> by (simp add: header_line_def)
  qed (auto simp: header_line_def)
  have len: "length (sign_names i) = length (sign_names j)"
    using assms(3) by (metis length_map)
  have each: "sign_names i ! k = sign_names j ! k \<and> header_value i (sign_names i ! k) = header_value j (sign_names j ! k)"
    if "k < length (sign_names i)" for k
  proof -
    have "header_line i (sign_names i ! k) = header_line j (sign_names j ! k)"
      using assms(3) that len by (metis nth_map)
    then show ?thesis
      using split [of "sign_names i ! k" "sign_names j ! k"] that len by (metis nth_mem)
  qed
  then have "sign_names i = sign_names j"
    using len by (simp add: nth_equalityI)
  moreover have "\<forall>n\<in>set (sign_names i). header_value i n = header_value j n"
    using each calculation by (metis in_set_conv_nth)
  ultimately show ?thesis
    by (rule sign_headers_eq)
qed

subsection \<open>The claim\<close>


text \<open>A storage on a host of its own, for the witness: two downloads of different objects.\<close>

definition demo_s3_lib :: "unit s3_lib" where
  "demo_s3_lib = \<lparr>s3_sha256 = take 32, s3_hmac = (\<lambda>k d. k @ d), s3_url_Parse = (\<lambda>u. Some \<lparr>ep_Scheme = ''https'', ep_Host = ''s3.test'', ep_Path = ''/''\<rparr>),
     s3_FormatMediaType = (\<lambda>d ps. d), s3_Do = (\<lambda>n rq. (Inl ''no'', n))\<rparr>"

definition demo_s3_config :: S3Config where
  "demo_s3_config = \<lparr>s3c_Endpoint = ''https://s3.test/'', s3c_PublicEndpoint = ''https://s3.test/'', s3c_Region = ''us-east-1'',
     s3c_Bucket = ''aster'', s3c_AccessKey = ''AK'', s3c_SecretKey = ''SK'', s3c_PathStyle = True\<rparr>"

definition demo_s3 :: "unit S3Storage" where
  "demo_s3 = \<lparr>s3_client = (), s3_now = 735011 * 24 * time_Hour\<rparr>"

definition demo_signed :: "string \<Rightarrow> signInput" where
  "demo_signed key = \<lparr>si_Method = ''GET'', si_Scheme = ''https'', si_Host = ''s3.test'', si_Path = ''/aster/'' @ key, si_Region = ''us-east-1'',
     si_AccessKey = ''AK'', si_SecretKey = ''SK'', si_Now = 735011 * 24 * time_Hour, si_TTL = time_Minute, si_Headers = [],
     si_Query = []\<rparr>"

lemma demo_presigned:
  "presign_input demo_s3_lib demo_s3_config demo_s3 ''GET'' ''https://s3.test/'' key [] [] time_Minute = Some (demo_signed key)"
  by (simp add: presign_input_def demo_s3_lib_def demo_s3_config_def demo_s3_def demo_signed_def Let_def)

lemma demo_sendable: "sendable (demo_signed key)"
  by (simp add: sendable_def sign_headers_def demo_signed_def newline_def)


end
