(* ===== verification/S3_Store.thy ===== *)
theory S3_Store
  imports S3_Claims Text_Claims
begin

section \<open>The object storage the server runs with\<close>

text \<open>
  A store that treats the signed requests to its endpoint as S3 documents them makes \<open>S3Storage\<close> an
  \<open>object_store\<close> (theory \<open>Uploads\<close>), the contract under which the chat service and the janitor never
  orphan an object. The object that a request means is read back from its URL.
\<close>

subsection \<open>The object of a URL\<close>

lemma unescape_append: "unescape (encodeComponent s @ t) = s @ unescape t"
  by (induction s) (simp_all add: encodeComponent_def unescape_byte)

lemma unescape_segments: "unescape (strings_Join (CHR ''/'') (map encodeComponent ps)) = strings_Join (CHR ''/'') ps"
proof (induction "CHR ''/''" ps rule: strings_Join.induct)
  case (2 p)
  then show ?case
    using unescape_encodeComponent [of p] by simp
next
  case (3 p q ps)
  then show ?case
    by (simp add: unescape_append unescape_plain)
qed simp

lemma strings_Join_ends: "ps \<noteq> [] \<Longrightarrow> strings_Join sep ps @ [sep] = concat (map (\<lambda>p. p @ [sep]) ps)"
  by (induction sep ps rule: strings_Join.induct) auto

lemma unescape_encodePath: "unescape (encodePath p) = p"
proof -
  let ?ps = "strings_Split (CHR ''/'') p"
  have "strings_Join (CHR ''/'') ?ps @ [CHR ''/''] = p @ [CHR ''/'']"
    by (subst strings_Join_ends) (simp_all add: strings_Split_nonempty strings_Split_join)
  then show ?thesis
    by (simp add: encodePath_def unescape_segments)
qed

lemma strings_Split_append: "strings_Split sep (p @ sep # s) = strings_Split sep p @ strings_Split sep s"
proof (induction p)
  case (Cons c p)
  then show ?case
    using strings_Split_nonempty [of sep p] by (auto split: list.split)
qed simp

lemma strings_Join_append:
  "ps \<noteq> [] \<Longrightarrow> qs \<noteq> [] \<Longrightarrow> strings_Join sep (ps @ qs) = strings_Join sep ps @ sep # strings_Join sep qs"
proof (induction sep ps rule: strings_Join.induct)
  case (2 sep p)
  then show ?case
    by (cases qs) auto
qed auto

lemma encodePath_append: "encodePath (p @ CHR ''/'' # k) = encodePath p @ CHR ''/'' # encodePath k"
  by (simp add: encodePath_def strings_Split_append strings_Join_append strings_Split_nonempty)

lemma encodePath_no_query: "CHR ''?'' \<notin> set (encodePath p)"
proof -
  have "CHR ''?'' \<notin> set (encodeComponent s)" for s
    using encodeComponent_chars [of "CHR ''?''" s] by (auto simp: unreserved_def between_def is_digit_def)
  then show ?thesis
    using set_strings_Join [of "CHR ''/''" "map encodeComponent (strings_Split (CHR ''/'') p)"] by (auto simp: encodePath_def)
qed

text \<open>What every URL of the endpoint starts with, up to the key.\<close>

definition url_base :: "S3Config \<Rightarrow> endpoint_url \<Rightarrow> string" where
  "url_base c base =
     (let path = rev (dropWhile (\<lambda>b. b = CHR ''/'') (rev (ep_Path base))) in
      ep_Scheme base @ ''://'' @ (if s3c_PathStyle c then ep_Host base else s3c_Bucket c @ ''.'' @ ep_Host base)
      @ encodePath (if s3c_PathStyle c then path @ ''/'' @ s3c_Bucket c else path) @ ''/'')"

definition url_key :: "(string \<Rightarrow> endpoint_url option) \<Rightarrow> S3Config \<Rightarrow> string \<Rightarrow> string" where
  "url_key url_Parse c u =
     (case url_Parse (s3c_Endpoint c) of None \<Rightarrow> []
      | Some base \<Rightarrow> unescape (takeWhile (\<lambda>b. b \<noteq> CHR ''?'') (drop (length (url_base c base)) u)))"

lemma url_key_signed:
  assumes "presign_input lib c s m (s3c_Endpoint c) key hs q ttl = Some i"
  shows "url_key (s3_url_Parse lib) c (signURL lib i) = key"
proof -
  have query_end: "takeWhile (\<lambda>b. b \<noteq> CHR ''?'') (encodePath key) = encodePath key"
    using encodePath_no_query [of key] unfolding takeWhile_eq_all_conv by blast
  obtain base where base: "s3_url_Parse lib (s3c_Endpoint c) = Some base"
    using assms by (auto simp: presign_input_def split: option.splits)
  let ?path = "rev (dropWhile (\<lambda>b. b = CHR ''/'') (rev (ep_Path base)))"
  have i: "si_Scheme i = ep_Scheme base" "si_Host i = (if s3c_PathStyle c then ep_Host base else s3c_Bucket c @ ''.'' @ ep_Host base)"
    "si_Path i = (if s3c_PathStyle c then ?path @ ''/'' @ s3c_Bucket c else ?path) @ CHR ''/'' # key"
    using assms unfolding presign_input_def base Let_def option.case option.inject by auto
  obtain rest where "signURL lib i = url_base c base @ encodePath key @ CHR ''?'' # rest"
    unfolding signURL_def url_base_def Let_def i encodePath_append by simp
  moreover have "takeWhile (\<lambda>b. b \<noteq> CHR ''?'') (encodePath key @ CHR ''?'' # rest) = encodePath key"
    using query_end by (simp add: takeWhile_tail)
  ultimately show ?thesis
    by (simp add: url_key_def base unescape_encodePath)
qed

subsection \<open>The contract of the store\<close>

definition head_absent :: "'n s3_lib \<Rightarrow> 'n \<Rightarrow> s3_request \<Rightarrow> bool" where
  "head_absent lib n rq \<longleftrightarrow> (case fst (s3_Do lib n rq) of Inl _ \<Rightarrow> False | Inr response \<Rightarrow> sr_StatusCode response = 404)"

text \<open>
  A \<open>DELETE\<close> touches the object of its URL only, never brings it back, and once it has been answered
  with success a \<open>HEAD\<close> finds nothing. Signed URLs of the endpoint parse.
\<close>

definition s3_serves :: "'n s3_lib \<Rightarrow> S3Config \<Rightarrow> bool" where
  "s3_serves lib c \<longleftrightarrow>
     (\<forall>s m key hs q ttl i. presign_input lib c s m (s3c_Endpoint c) key hs q ttl = Some i \<longrightarrow> s3_url_Parse lib (signURL lib i) \<noteq> None)
     \<and> (\<forall>n rq r n' rq'. rs_Method rq = ''DELETE'' \<and> rs_Method rq' = ''HEAD'' \<and> s3_Do lib n rq = (r, n') \<longrightarrow>
         (if url_key (s3_url_Parse lib) c (rs_URL rq') = url_key (s3_url_Parse lib) c (rs_URL rq)
          then (head_absent lib n rq' \<or> (\<exists>response. r = Inr response \<and> sr_StatusCode response \<in> {200, 204, 404})
                \<longrightarrow> head_absent lib n' rq')
          else fst (s3_Do lib n' rq') = fst (s3_Do lib n rq')))"

text \<open>The request that \<open>Stat\<close> sends, and what it makes of the answer.\<close>

definition stat_request :: "'n s3_lib \<Rightarrow> signInput \<Rightarrow> s3_request" where
  "stat_request lib i = \<lparr>rs_Method = ''HEAD'', rs_URL = signURL lib i, rs_Header = [(''x-amz-checksum-mode'', ''ENABLED'')]\<rparr>"

definition stat_input :: "'n s3_lib \<Rightarrow> S3Config \<Rightarrow> 'n S3Storage \<Rightarrow> string \<Rightarrow> signInput option" where
  "stat_input lib c s k = presign_input lib c s ''HEAD'' (s3c_Endpoint c) k [(''x-amz-checksum-mode'', ''ENABLED'')] [] time_Minute"

lemma presign_input_client [simp]: "presign_input lib c (s\<lparr>s3_client := n\<rparr>) m e k hs q ttl = presign_input lib c s m e k hs q ttl"
  by (simp add: presign_input_def Let_def split: option.split)

lemma S3_Stat_absent:
  assumes "s3_serves lib c"
  shows "S3_Stat lib c s k = Inl ErrObjectNotFound \<longleftrightarrow>
    (\<exists>i. stat_input lib c s k = Some i \<and> head_absent lib (s3_client s) (stat_request lib i))"
proof (cases "stat_input lib c s k")
  case (Some i)
  then have "s3_url_Parse lib (signURL lib i) \<noteq> None"
    using assms by (auto simp: s3_serves_def stat_input_def)
  with Some show ?thesis
    unfolding S3_Stat_def s3_send_def presign_def head_absent_def stat_request_def [symmetric] stat_input_def
    by (auto simp: stat_request_def split: prod.split sum.split option.split)
qed (simp add: S3_Stat_def s3_send_def presign_def stat_input_def)

lemma S3_Stat_cong:
  assumes "s3_now s' = s3_now s"
    and "\<And>i. stat_input lib c s k = Some i \<Longrightarrow> fst (s3_Do lib (s3_client s') (stat_request lib i)) = fst (s3_Do lib (s3_client s) (stat_request lib i))"
  shows "S3_Stat lib c s' k = S3_Stat lib c s k"
proof -
  have input: "stat_input lib c s' k = stat_input lib c s k"
    using assms(1) by (simp add: stat_input_def presign_input_def Let_def split: option.split)
  have "fst (s3_send lib c s' ''HEAD'' k [(''x-amz-checksum-mode'', ''ENABLED'')] ''stat object'')
      = fst (s3_send lib c s ''HEAD'' k [(''x-amz-checksum-mode'', ''ENABLED'')] ''stat object'')"
    using assms(2) input unfolding s3_send_def presign_def stat_input_def stat_request_def
    by (auto split: option.split prod.split sum.split)
  then show ?thesis
    by (simp add: S3_Stat_def)
qed

lemma S3_Delete_cases:
  assumes "S3_Delete lib c s k = (e, s')"
  obtains (unsent) "s' = s" "e \<noteq> None"
  | (sent) i r n' where "presign_input lib c s ''DELETE'' (s3c_Endpoint c) k [] [] time_Minute = Some i"
      "s3_Do lib (s3_client s) \<lparr>rs_Method = ''DELETE'', rs_URL = signURL lib i, rs_Header = []\<rparr> = (r, n')" "s' = s\<lparr>s3_client := n'\<rparr>"
      "e = None \<Longrightarrow> \<exists>response. r = Inr response \<and> sr_StatusCode response \<in> {200, 204, 404}"
proof (cases "presign_input lib c s ''DELETE'' (s3c_Endpoint c) k [] [] time_Minute")
  case None
  with assms unsent show ?thesis
    by (auto simp: S3_Delete_def s3_send_def presign_def)
next
  case (Some i)
  show ?thesis
  proof (cases "s3_url_Parse lib (signURL lib i)")
    case None
    with Some assms unsent show ?thesis
      by (auto simp: S3_Delete_def s3_send_def presign_def)
  next
    case (Some u)
    obtain r n' where r: "s3_Do lib (s3_client s) \<lparr>rs_Method = ''DELETE'', rs_URL = signURL lib i, rs_Header = []\<rparr> = (r, n')"
      by fastforce
    have "(e, s') = (case r of Inl err \<Rightarrow> (Some (StorageError (''delete object: '' @ err)), s\<lparr>s3_client := n'\<rparr>)
        | Inr response \<Rightarrow> (if sr_StatusCode response \<noteq> 204 \<and> sr_StatusCode response \<noteq> 200 \<and> sr_StatusCode response \<noteq> 404
           then Some (StorageError ''delete object: unexpected status'') else None, s\<lparr>s3_client := n'\<rparr>))"
      using assms Some \<open>presign_input _ _ _ _ _ _ _ _ _ = Some i\<close> r
      by (auto simp: S3_Delete_def s3_send_def presign_def split: sum.split_asm if_split_asm)
    then have "s' = s\<lparr>s3_client := n'\<rparr>" "e = None \<Longrightarrow> \<exists>response. r = Inr response \<and> sr_StatusCode response \<in> {200, 204, 404}"
      by (auto split: sum.split_asm if_split_asm)
    then show ?thesis
      using sent \<open>presign_input _ _ _ _ _ _ _ _ _ = Some i\<close> r by blast
  qed
qed

lemma s3_servesD:
  assumes "s3_serves lib c" "rs_Method rq = ''DELETE''" "rs_Method rq' = ''HEAD''" "s3_Do lib n rq = (r, n')"
  shows "url_key (s3_url_Parse lib) c (rs_URL rq') = url_key (s3_url_Parse lib) c (rs_URL rq) \<Longrightarrow>
      head_absent lib n rq' \<or> (\<exists>response. r = Inr response \<and> sr_StatusCode response \<in> {200, 204, 404}) \<Longrightarrow> head_absent lib n' rq'"
    and "url_key (s3_url_Parse lib) c (rs_URL rq') \<noteq> url_key (s3_url_Parse lib) c (rs_URL rq) \<Longrightarrow>
      fst (s3_Do lib n' rq') = fst (s3_Do lib n rq')"
proof -
  have law: "if url_key (s3_url_Parse lib) c (rs_URL rq') = url_key (s3_url_Parse lib) c (rs_URL rq)
      then (head_absent lib n rq' \<or> (\<exists>response. r = Inr response \<and> sr_StatusCode response \<in> {200, 204, 404}) \<longrightarrow> head_absent lib n' rq')
      else fst (s3_Do lib n' rq') = fst (s3_Do lib n rq')"
    using assms unfolding s3_serves_def by blast
  show "url_key (s3_url_Parse lib) c (rs_URL rq') = url_key (s3_url_Parse lib) c (rs_URL rq) \<Longrightarrow>
      head_absent lib n rq' \<or> (\<exists>response. r = Inr response \<and> sr_StatusCode response \<in> {200, 204, 404}) \<Longrightarrow> head_absent lib n' rq'"
    using law by simp
  show "url_key (s3_url_Parse lib) c (rs_URL rq') \<noteq> url_key (s3_url_Parse lib) c (rs_URL rq) \<Longrightarrow>
      fst (s3_Do lib n' rq') = fst (s3_Do lib n rq')"
    using law by simp
qed

lemma stat_request_key:
  assumes "stat_input lib c s k = Some i"
  shows "rs_Method (stat_request lib i) = ''HEAD''" "url_key (s3_url_Parse lib) c (rs_URL (stat_request lib i)) = k"
  using url_key_signed [OF assms [unfolded stat_input_def]] by (simp_all add: stat_request_def)

lemma stat_input_client [simp]: "stat_input lib c (s\<lparr>s3_client := n\<rparr>) k = stat_input lib c s k"
  by (simp add: stat_input_def)

lemma stat_input_sent: "presign_input lib c s m (s3c_Endpoint c) k' hs q ttl = Some i \<Longrightarrow> \<exists>j. stat_input lib c s k = Some j"
  by (auto simp: stat_input_def presign_input_def Let_def split: option.splits)

lemma S3_delete_gone:
  assumes "s3_serves lib c" "S3_Delete lib c s k = (None, s')"
  shows "S3_Stat lib c s' k = Inl ErrObjectNotFound"
  using assms(2)
proof (cases rule: S3_Delete_cases)
  case (sent i r n')
  obtain j where j: "stat_input lib c s k = Some j"
    using stat_input_sent [OF sent(1)] by blast
  have "head_absent lib n' (stat_request lib j)"
    using s3_servesD(1) [OF assms(1) _ stat_request_key(1) [OF j] sent(2)] stat_request_key(2) [OF j] url_key_signed [OF sent(1)] sent(4)
    by simp
  then show ?thesis
    using j sent(3) by (simp add: S3_Stat_absent [OF assms(1)])
qed simp

lemma S3_delete_other:
  assumes "s3_serves lib c" "S3_Delete lib c s k = (e, s')" "k' \<noteq> k"
  shows "S3_Stat lib c s' k' = S3_Stat lib c s k'"
  using assms(2)
proof (cases rule: S3_Delete_cases)
  case (sent i r n')
  show ?thesis
  proof (rule S3_Stat_cong)
    fix j
    assume j: "stat_input lib c s k' = Some j"
    show "fst (s3_Do lib (s3_client s') (stat_request lib j)) = fst (s3_Do lib (s3_client s) (stat_request lib j))"
      using s3_servesD(2) [OF assms(1) _ stat_request_key(1) [OF j] sent(2)] stat_request_key(2) [OF j] url_key_signed [OF sent(1)]
        sent(3) assms(3) by simp
  qed (simp add: sent(3))
qed simp

lemma S3_delete_absent:
  assumes "s3_serves lib c" "S3_Delete lib c s k = (e, s')" and absent: "S3_Stat lib c s k = Inl ErrObjectNotFound"
  shows "S3_Stat lib c s' k = Inl ErrObjectNotFound"
  using assms(2)
proof (cases rule: S3_Delete_cases)
  case unsent
  with absent show ?thesis
    by simp
next
  case (sent i r n')
  from absent obtain j where j: "stat_input lib c s k = Some j" "head_absent lib (s3_client s) (stat_request lib j)"
    by (auto simp: S3_Stat_absent [OF assms(1)])
  have "head_absent lib n' (stat_request lib j)"
    using s3_servesD(1) [OF assms(1) _ stat_request_key(1) [OF j(1)] sent(2)] stat_request_key(2) [OF j(1)] url_key_signed [OF sent(1)] j(2)
    by simp
  then show ?thesis
    using j(1) sent(3) by (simp add: S3_Stat_absent [OF assms(1)])
qed

lemma S3_object_store: "s3_serves lib c \<Longrightarrow> object_store (S3Storage_methods lib c)"
  by unfold_locales (auto simp: S3Storage_methods_def intro: S3_delete_gone S3_delete_other S3_delete_absent)

subsection \<open>The claim\<close>


text \<open>A store that keeps a list of keys, for the witness.\<close>

definition demo_parse :: "string \<Rightarrow> endpoint_url option" where
  "demo_parse u = Some \<lparr>ep_Scheme = ''https'', ep_Host = ''s3.test'', ep_Path = ''/''\<rparr>"

definition demo_server :: "string list s3_lib" where
  "demo_server = \<lparr>s3_sha256 = take 32, s3_hmac = (\<lambda>k d. k @ d), s3_url_Parse = demo_parse, s3_FormatMediaType = (\<lambda>d ps. d),
     s3_Do = (\<lambda>stored rq. let k = url_key demo_parse demo_s3_config (rs_URL rq) in
       if rs_Method rq = ''HEAD'' then (Inr \<lparr>sr_StatusCode = (if k \<in> set stored then 200 else 404), sr_Header = (\<lambda>_. [])\<rparr>, stored)
       else if rs_Method rq = ''DELETE'' then (Inr \<lparr>sr_StatusCode = 204, sr_Header = (\<lambda>_. [])\<rparr>, filter (\<lambda>x. x \<noteq> k) stored)
       else (Inl ''unexpected'', stored))\<rparr>"

lemma demo_serves: "s3_serves demo_server demo_s3_config"
  by (auto simp: s3_serves_def demo_server_def demo_parse_def head_absent_def Let_def)

abbreviation demo_stored :: "string list S3Storage" where
  "demo_stored \<equiv> \<lparr>s3_client = [''k'', ''old''], s3_now = 735011 * 24 * time_Hour\<rparr>"


end
