(* ===== verification/Config.thy ===== *)
theory Config
  imports Decimal
begin

section \<open>Configuration\<close>

text \<open>
  \<open>internal/config/config.go\<close>: the settings, and \<open>Load\<close>, which reads them from the environment.
  The environment is a function from names to values that gives the empty text where a variable is
  not set, as \<open>os.Getenv\<close> does. \<open>strconv.ParseBool\<close> and \<open>time.ParseDuration\<close> are written out; only
  the floating point product that scales the digits after a decimal point is an argument.
\<close>

type_synonym environment = "string \<Rightarrow> string"

subsection \<open>Numbers of the standard library\<close>

definition ParseBool :: "string \<Rightarrow> bool option" where
  "ParseBool s =
     (if s \<in> {''1'', ''t'', ''T'', ''TRUE'', ''true'', ''True''} then Some True
      else if s \<in> {''0'', ''f'', ''F'', ''FALSE'', ''false'', ''False''} then Some False else None)"

text \<open>
  \<open>leadingFraction\<close>: the digits after the point as a number and the power of ten it is to be
  divided by; digits that do not fit 63 bits are dropped.
\<close>

fun leading_fraction :: "nat \<Rightarrow> nat \<Rightarrow> string \<Rightarrow> nat \<times> nat" where
  "leading_fraction x e [] = (x, e)"
| "leading_fraction x e (c # s) =
     (if x > (2 ^ 63 - 1) div 10 \<or> 10 * x + digit_value c > 2 ^ 63 then (x, e)
      else leading_fraction (10 * x + digit_value c) (e + 1) s)"

definition unit_nanoseconds :: "string \<Rightarrow> nat option" where
  "unit_nanoseconds u = map_of
     [(''ns'', 1), (''us'', 1000), ([CHR 0xC2, CHR 0xB5, CHR ''s''], 1000), ([CHR 0xCE, CHR 0xBC, CHR ''s''], 1000),
      (''ms'', 1000000), (''s'', 1000000000), (''m'', 60000000000), (''h'', 3600000000000)] u"

definition number_char :: "char \<Rightarrow> bool" where
  "number_char c \<longleftrightarrow> c = CHR ''.'' \<or> is_digit c"

text \<open>One number with its unit: nanoseconds and the rest; \<open>scaled f e u\<close> is \<open>f * (u / 10 ^ e)\<close> in floating point.\<close>

definition duration_term :: "(nat \<Rightarrow> nat \<Rightarrow> nat \<Rightarrow> nat) \<Rightarrow> string \<Rightarrow> (nat \<times> string) option" where
  "duration_term scaled s =
     (let ds = takeWhile is_digit s; s1 = dropWhile is_digit s;
          point = (s1 \<noteq> [] \<and> hd s1 = CHR ''.'');
          fs = (if point then takeWhile is_digit (tl s1) else []);
          s2 = (if point then dropWhile is_digit (tl s1) else s1);
          u = takeWhile (\<lambda>c. \<not> number_char c) s2;
          rest = dropWhile (\<lambda>c. \<not> number_char c) s2
      in if digits_value ds > 2 ^ 63 \<or> (ds = [] \<and> fs = []) \<or> u = [] then None
         else (case unit_nanoseconds u of None \<Rightarrow> None
         | Some unit \<Rightarrow>
             if digits_value ds > 2 ^ 63 div unit then None
             else let (f, e) = leading_fraction 0 0 fs;
                      v = digits_value ds * unit + (if f > 0 then scaled f e unit else 0)
                  in if v > 2 ^ 63 then None else Some (v, rest)))"

lemma duration_term_shorter: "duration_term scaled s = Some (v, rest) \<Longrightarrow> length rest < length s"
proof -
  assume t: "duration_term scaled s = Some (v, rest)"
  let ?s1 = "dropWhile is_digit s"
  define s2 where "s2 = (if ?s1 \<noteq> [] \<and> hd ?s1 = CHR ''.'' then dropWhile is_digit (tl ?s1) else ?s1)"
  have rest: "rest = dropWhile (\<lambda>c. \<not> number_char c) s2" "takeWhile (\<lambda>c. \<not> number_char c) s2 \<noteq> []"
    using t by (auto simp: duration_term_def s2_def Let_def split: if_splits option.splits prod.splits)
  have "length rest < length s2"
    using rest takeWhile_dropWhile_id [of "\<lambda>c. \<not> number_char c" s2] by (metis length_append length_greater_0_conv less_add_same_cancel2)
  also have "length s2 \<le> length ?s1"
    unfolding s2_def using length_dropWhile_le [of is_digit "tl ?s1"] by (cases ?s1) auto
  also have "\<dots> \<le> length s"
    by (rule length_dropWhile_le)
  finally show ?thesis .
qed

text \<open>The sum is a \<open>uint64\<close>; it wraps before it is compared.\<close>

function duration_terms :: "(nat \<Rightarrow> nat \<Rightarrow> nat \<Rightarrow> nat) \<Rightarrow> nat \<Rightarrow> string \<Rightarrow> nat option" where
  "duration_terms scaled d s =
     (if s = [] then Some d
      else (case duration_term scaled s of None \<Rightarrow> None
        | Some (v, rest) \<Rightarrow>
            let d' = (d + v) mod 2 ^ 64 in
            if d' > 2 ^ 63 then None else duration_terms scaled d' rest))"
  by auto
termination
  by (relation "measure (\<lambda>(_, _, s). length s)") (auto dest: duration_term_shorter)

declare duration_terms.simps [simp del]

definition ParseDuration :: "(nat \<Rightarrow> nat \<Rightarrow> nat \<Rightarrow> nat) \<Rightarrow> string \<Rightarrow> duration option" where
  "ParseDuration scaled s =
     (let negative = (s \<noteq> [] \<and> hd s = CHR ''-'');
          s1 = (if s \<noteq> [] \<and> (hd s = CHR ''-'' \<or> hd s = CHR ''+'') then tl s else s)
      in if s1 = ''0'' then Some 0
         else if s1 = [] then None
         else (case duration_terms scaled 0 s1 of None \<Rightarrow> None
         | Some d \<Rightarrow>
             if negative then Some (- int d)
             else if d > 2 ^ 63 - 1 then None else Some (int d)))"

subsection \<open>Settings\<close>

record SMTPSettings =
  cs_Addr :: string
  cs_Username :: string
  cs_Password :: string
  cs_From :: string
  cs_TLS :: string

record GoogleSettings =
  cg_ClientID :: string
  cg_ClientSecret :: string
  cg_RedirectURL :: string

record VoiceSettings =
  cv_URL :: string
  cv_APIURL :: string
  cv_APIKey :: string
  cv_APISecret :: string

record StorageSettings =
  co_Endpoint :: string
  co_PublicEndpoint :: string
  co_Region :: string
  co_Bucket :: string
  co_AccessKey :: string
  co_SecretKey :: string
  co_PathStyle :: bool

record Config =
  cf_HTTPAddress :: string
  cf_DatabaseURL :: string
  cf_AccessTokenTTL :: duration
  cf_RefreshTokenTTL :: duration
  cf_ShutdownTimeout :: duration
  cf_GatewayURL :: string
  cf_GatewayHeartbeat :: duration
  cf_GatewayIdentifyTimeout :: duration
  cf_GatewaySessionRetention :: duration
  cf_GatewayAllowedOrigins :: "string list"
  cf_CORSAllowedOrigins :: "string list"
  cf_AutoMigrate :: bool
  cf_Storage :: StorageSettings
  cf_Voice :: VoiceSettings
  cf_Google :: GoogleSettings
  cf_SMTP :: SMTPSettings

definition SMTP_Enabled :: "SMTPSettings \<Rightarrow> bool" where "SMTP_Enabled c \<longleftrightarrow> cs_Addr c \<noteq> []"
definition Google_Enabled :: "GoogleSettings \<Rightarrow> bool" where "Google_Enabled c \<longleftrightarrow> cg_ClientID c \<noteq> []"
definition Voice_Enabled :: "VoiceSettings \<Rightarrow> bool" where "Voice_Enabled c \<longleftrightarrow> cv_URL c \<noteq> []"
definition Storage_Enabled :: "StorageSettings \<Rightarrow> bool" where "Storage_Enabled c \<longleftrightarrow> co_Endpoint c \<noteq> []"

definition splitCSV :: "string \<Rightarrow> string list" where
  "splitCSV value = filter (\<lambda>v. v \<noteq> []) (map strings_TrimSpace (strings_Split (CHR '','') value))"

definition envOrDefault :: "environment \<Rightarrow> string \<Rightarrow> string \<Rightarrow> string" where
  "envOrDefault env key fallback = (if env key \<noteq> [] then env key else fallback)"

definition durationFromEnv :: "(nat \<Rightarrow> nat \<Rightarrow> nat \<Rightarrow> nat) \<Rightarrow> environment \<Rightarrow> string \<Rightarrow> duration \<Rightarrow> string + duration" where
  "durationFromEnv scaled env key fallback =
     (if env key = [] then Inr fallback
      else (case ParseDuration scaled (env key) of None \<Rightarrow> Inl (key @ '' must be a positive Go duration'')
        | Some d \<Rightarrow> if d \<le> 0 then Inl (key @ '' must be a positive Go duration'') else Inr d))"

definition boolFromEnv :: "environment \<Rightarrow> string \<Rightarrow> bool \<Rightarrow> string + bool" where
  "boolFromEnv env key fallback =
     (if env key = [] then Inr fallback
      else (case ParseBool (env key) of None \<Rightarrow> Inl (key @ '' must be a boolean'') | Some b \<Rightarrow> Inr b))"

definition defaultClientOrigins :: string where
  "defaultClientOrigins = ''http://localhost:5173,http://127.0.0.1:5173,tauri://localhost,http://tauri.localhost''"

text \<open>The settings of each external service, read from the environment.\<close>

definition storage_settings :: "environment \<Rightarrow> bool \<Rightarrow> StorageSettings" where
  "storage_settings env pathStyle = \<lparr>co_Endpoint = env ''ASTER_STORAGE_ENDPOINT'', co_PublicEndpoint = env ''ASTER_STORAGE_PUBLIC_ENDPOINT'',
     co_Region = envOrDefault env ''ASTER_STORAGE_REGION'' ''us-east-1'', co_Bucket = env ''ASTER_STORAGE_BUCKET'',
     co_AccessKey = env ''ASTER_STORAGE_ACCESS_KEY'', co_SecretKey = env ''ASTER_STORAGE_SECRET_KEY'', co_PathStyle = pathStyle\<rparr>"

definition voice_settings :: "environment \<Rightarrow> VoiceSettings" where
  "voice_settings env = \<lparr>cv_URL = env ''ASTER_VOICE_LIVEKIT_URL'', cv_APIURL = env ''ASTER_VOICE_LIVEKIT_API_URL'',
     cv_APIKey = env ''ASTER_VOICE_LIVEKIT_API_KEY'', cv_APISecret = env ''ASTER_VOICE_LIVEKIT_API_SECRET''\<rparr>"

definition google_settings :: "environment \<Rightarrow> GoogleSettings" where
  "google_settings env = \<lparr>cg_ClientID = env ''ASTER_GOOGLE_CLIENT_ID'', cg_ClientSecret = env ''ASTER_GOOGLE_CLIENT_SECRET'',
     cg_RedirectURL = env ''ASTER_GOOGLE_REDIRECT_URL''\<rparr>"

definition smtp_settings :: "environment \<Rightarrow> SMTPSettings" where
  "smtp_settings env = \<lparr>cs_Addr = env ''ASTER_SMTP_ADDR'', cs_Username = env ''ASTER_SMTP_USERNAME'',
     cs_Password = env ''ASTER_SMTP_PASSWORD'', cs_From = env ''ASTER_SMTP_FROM'', cs_TLS = envOrDefault env ''ASTER_SMTP_TLS'' ''starttls''\<rparr>"

definition Load :: "(nat \<Rightarrow> nat \<Rightarrow> nat \<Rightarrow> nat) \<Rightarrow> environment \<Rightarrow> string + Config" where
  "Load scaled env =
     (if env ''ASTER_DATABASE_URL'' = [] then Inl ''ASTER_DATABASE_URL is required''
      else (case durationFromEnv scaled env ''ASTER_ACCESS_TOKEN_TTL'' (15 * time_Minute) of Inl err \<Rightarrow> Inl err
      | Inr accessTTL \<Rightarrow> (case durationFromEnv scaled env ''ASTER_REFRESH_TOKEN_TTL'' (30 * 24 * time_Hour) of Inl err \<Rightarrow> Inl err
      | Inr refreshTTL \<Rightarrow> (case durationFromEnv scaled env ''ASTER_SHUTDOWN_TIMEOUT'' (10 * time_Second) of Inl err \<Rightarrow> Inl err
      | Inr shutdown \<Rightarrow> (case durationFromEnv scaled env ''ASTER_GATEWAY_HEARTBEAT_INTERVAL'' (45 * time_Second) of Inl err \<Rightarrow> Inl err
      | Inr heartbeat \<Rightarrow> (case durationFromEnv scaled env ''ASTER_GATEWAY_IDENTIFY_TIMEOUT'' (10 * time_Second) of Inl err \<Rightarrow> Inl err
      | Inr identifyTimeout \<Rightarrow> (case durationFromEnv scaled env ''ASTER_GATEWAY_SESSION_RETENTION'' (2 * time_Minute) of Inl err \<Rightarrow> Inl err
      | Inr retention \<Rightarrow> (case boolFromEnv env ''ASTER_AUTO_MIGRATE'' False of Inl err \<Rightarrow> Inl err
      | Inr autoMigrate \<Rightarrow> (case boolFromEnv env ''ASTER_STORAGE_PATH_STYLE'' True of Inl err \<Rightarrow> Inl err
      | Inr pathStyle \<Rightarrow>
          let storage = storage_settings env pathStyle; voice = voice_settings env; google = google_settings env; smtp = smtp_settings env in
          if Storage_Enabled storage \<and> (co_Bucket storage = [] \<or> co_AccessKey storage = [] \<or> co_SecretKey storage = [])
          then Inl ''ASTER_STORAGE_BUCKET, ASTER_STORAGE_ACCESS_KEY and ASTER_STORAGE_SECRET_KEY are required when ASTER_STORAGE_ENDPOINT is set''
          else if Voice_Enabled voice \<and> (cv_APIKey voice = [] \<or> cv_APISecret voice = [])
          then Inl ''ASTER_VOICE_LIVEKIT_API_KEY and ASTER_VOICE_LIVEKIT_API_SECRET are required when ASTER_VOICE_LIVEKIT_URL is set''
          else if Google_Enabled google \<and> (cg_ClientSecret google = [] \<or> cg_RedirectURL google = [])
          then Inl ''ASTER_GOOGLE_CLIENT_SECRET and ASTER_GOOGLE_REDIRECT_URL are required when ASTER_GOOGLE_CLIENT_ID is set''
          else if SMTP_Enabled smtp \<and> cs_From smtp = [] then Inl ''ASTER_SMTP_FROM is required when ASTER_SMTP_ADDR is set''
          else if refreshTTL \<le> accessTTL then Inl ''ASTER_REFRESH_TOKEN_TTL must be greater than ASTER_ACCESS_TOKEN_TTL''
          else Inr \<lparr>cf_HTTPAddress = envOrDefault env ''ASTER_HTTP_ADDR'' '':8080'', cf_DatabaseURL = env ''ASTER_DATABASE_URL'',
            cf_AccessTokenTTL = accessTTL, cf_RefreshTokenTTL = refreshTTL, cf_ShutdownTimeout = shutdown,
            cf_GatewayURL = envOrDefault env ''ASTER_GATEWAY_URL'' ''ws://localhost:8080/gateway/v1'', cf_GatewayHeartbeat = heartbeat,
            cf_GatewayIdentifyTimeout = identifyTimeout, cf_GatewaySessionRetention = retention,
            cf_GatewayAllowedOrigins = splitCSV (envOrDefault env ''ASTER_GATEWAY_ALLOWED_ORIGINS'' defaultClientOrigins),
            cf_CORSAllowedOrigins = splitCSV (envOrDefault env ''ASTER_CORS_ALLOWED_ORIGINS'' defaultClientOrigins),
            cf_AutoMigrate = autoMigrate, cf_Storage = storage, cf_Voice = voice, cf_Google = google, cf_SMTP = smtp\<rparr>)))))))))"

end
