(* ===== verification/Migrations.thy ===== *)
theory Migrations
  imports Go_Text "HOL-Library.List_Lexorder"
begin

section \<open>Migrations\<close>

text \<open>
  \<open>internal/platform/postgres/postgres.go\<close>: \<open>Migrate\<close>, which applies the files of \<open>migrations/\<close> that
  the ledger \<open>schema_migrations\<close> does not name, in the order of their names, each in a transaction
  with its ledger row. What a file does to the rest of the database is an argument, which gives
  \<open>None\<close> where a statement fails; \<open>Open\<close>, the advisory lock, which admits one runner at a time, and
  failures of the connection outside of the files are not modelled.
\<close>

record 'd database =
  db_ledger :: "string list"
  db_schema :: 'd

definition HasSuffix :: "string \<Rightarrow> string \<Rightarrow> bool" where
  "HasSuffix s suffix \<longleftrightarrow> length suffix \<le> length s \<and> drop (length s - length suffix) s = suffix"

text \<open>An entry of the directory: its name, whether it is a directory, and its text.\<close>

record dir_entry =
  de_Name :: string
  de_IsDir :: bool
  de_text :: string

definition migration_names :: "dir_entry list \<Rightarrow> string list" where
  "migration_names entries = sort (map de_Name (filter (\<lambda>e. \<not> de_IsDir e \<and> HasSuffix (de_Name e) ''.up.sql'') entries))"

definition ReadFile :: "dir_entry list \<Rightarrow> string \<Rightarrow> string option" where
  "ReadFile entries name = map_option de_text (find_by de_Name entries name)"

fun apply_migrations ::
  "(string \<Rightarrow> 'd \<Rightarrow> 'd option) \<Rightarrow> dir_entry list \<Rightarrow> string list \<Rightarrow> 'd database \<Rightarrow> string option \<times> 'd database" where
  "apply_migrations exec entries [] db = (None, db)"
| "apply_migrations exec entries (name # names) db =
     (if name \<in> set (db_ledger db) then apply_migrations exec entries names db
      else (case ReadFile entries name of None \<Rightarrow> (Some (''read migration '' @ name), db)
      | Some sql \<Rightarrow> (case exec sql (db_schema db) of None \<Rightarrow> (Some (''apply migration '' @ name), db)
      | Some schema \<Rightarrow> apply_migrations exec entries names \<lparr>db_ledger = db_ledger db @ [name], db_schema = schema\<rparr>)))"

definition Migrate :: "(string \<Rightarrow> 'd \<Rightarrow> 'd option) \<Rightarrow> dir_entry list \<Rightarrow> 'd database \<Rightarrow> string option \<times> 'd database" where
  "Migrate exec entries db = apply_migrations exec entries (migration_names entries) db"

subsection \<open>Runs that are repeated\<close>

lemma apply_migrations_ledger: "set (db_ledger db) \<subseteq> set (db_ledger (snd (apply_migrations exec entries names db)))"
  by (induction exec entries names db rule: apply_migrations.induct) (auto split: option.split)

lemma apply_migrations_applied:
  "fst (apply_migrations exec entries names db) = None
    \<Longrightarrow> set names \<subseteq> set (db_ledger (snd (apply_migrations exec entries names db)))"
proof (induction exec entries names db rule: apply_migrations.induct)
  case (2 exec entries name names db)
  show ?case
  proof (cases "name \<in> set (db_ledger db)")
    case True
    then show ?thesis
      using 2 apply_migrations_ledger [of db exec entries names] by auto
  next
    case False
    with 2 obtain sql schema where step: "ReadFile entries name = Some sql" "exec sql (db_schema db) = Some schema"
      by (auto split: option.splits)
    let ?db = "\<lparr>db_ledger = db_ledger db @ [name], db_schema = schema\<rparr>"
    have "name \<in> set (db_ledger (snd (apply_migrations exec entries names ?db)))"
      using apply_migrations_ledger [of ?db exec entries names] by auto
    then show ?thesis
      using 2 False step by auto
  qed
qed simp

lemma apply_migrations_distinct:
  "distinct (db_ledger db) \<Longrightarrow> distinct (db_ledger (snd (apply_migrations exec entries names db)))"
  by (induction exec entries names db rule: apply_migrations.induct) (auto split: option.split)

lemma apply_migrations_again:
  assumes "\<And>sql d d'. exec sql d = Some d' \<Longrightarrow> exec' sql d = Some d'"
  shows "apply_migrations exec' entries names (snd (apply_migrations exec entries names db)) = apply_migrations exec' entries names db"
  using assms
proof (induction exec entries names db rule: apply_migrations.induct)
  case (2 exec entries name names db)
  let ?after = "snd (apply_migrations exec entries (name # names) db)"
  show ?case
  proof (cases "name \<in> set (db_ledger db)")
    case True
    then have "name \<in> set (db_ledger ?after)"
      using apply_migrations_ledger [of db exec entries "name # names"] by blast
    with True 2 show ?thesis
      by simp
  next
    case False
    note new = this
    show ?thesis
    proof (cases "\<exists>sql schema. ReadFile entries name = Some sql \<and> exec sql (db_schema db) = Some schema")
      case True
      then obtain sql schema where step: "ReadFile entries name = Some sql" "exec sql (db_schema db) = Some schema"
        by blast
      let ?db = "\<lparr>db_ledger = db_ledger db @ [name], db_schema = schema\<rparr>"
      have "name \<in> set (db_ledger (snd (apply_migrations exec entries names ?db)))"
        using apply_migrations_ledger [of ?db exec entries names] by auto
      moreover have "exec' sql (db_schema db) = Some schema"
        using step(2) 2 by blast
      ultimately show ?thesis
        using new step 2 by simp
    next
      case False
      then have "?after = db"
        using new by (auto split: option.split)
      then show ?thesis
        by simp
    qed
  qed
qed simp

text \<open>
  C23. Migrations resume. If a run stops at a file that fails, the files before it stay applied, and
  the next run, in which that file may succeed, ends exactly where one run from the start would have
  ended; no file is ever applied twice. Once a run has succeeded every migration is in the ledger,
  and running again changes nothing.
\<close>

theorem Migrate_resumes:
  assumes "\<And>sql d d'. exec sql d = Some d' \<Longrightarrow> exec' sql d = Some d'" and "distinct (db_ledger db)"
  shows "Migrate exec' entries (snd (Migrate exec entries db)) = Migrate exec' entries db
    \<and> distinct (db_ledger (snd (Migrate exec entries db)))
    \<and> (fst (Migrate exec entries db) = None \<longrightarrow>
        set (migration_names entries) \<subseteq> set (db_ledger (snd (Migrate exec entries db)))
        \<and> Migrate exec' entries (snd (Migrate exec entries db)) = (None, snd (Migrate exec entries db)))"
proof -
  have all: "apply_migrations exec' entries names db' = (None, db')" if "set names \<subseteq> set (db_ledger db')" for names db'
    using that by (induction names) auto
  show ?thesis
    unfolding Migrate_def
  proof (intro conjI impI)
    show "apply_migrations exec' entries (migration_names entries) (snd (apply_migrations exec entries (migration_names entries) db))
        = apply_migrations exec' entries (migration_names entries) db"
      by (rule apply_migrations_again) (rule assms(1))
    show "distinct (db_ledger (snd (apply_migrations exec entries (migration_names entries) db)))"
      by (rule apply_migrations_distinct) (rule assms(2))
    assume "fst (apply_migrations exec entries (migration_names entries) db) = None"
    then show ledger: "set (migration_names entries) \<subseteq> set (db_ledger (snd (apply_migrations exec entries (migration_names entries) db)))"
      by (rule apply_migrations_applied)
    show "apply_migrations exec' entries (migration_names entries) (snd (apply_migrations exec entries (migration_names entries) db))
        = (None, snd (apply_migrations exec entries (migration_names entries) db))"
      by (rule all) (rule ledger)
  qed
qed

text \<open>Two files, the second of which fails the first time.\<close>

definition demo_files :: "dir_entry list" where
  "demo_files = [\<lparr>de_Name = ''2.up.sql'', de_IsDir = False, de_text = ''B''\<rparr>, \<lparr>de_Name = ''1.up.sql'', de_IsDir = False, de_text = ''A''\<rparr>,
     \<lparr>de_Name = ''1.down.sql'', de_IsDir = False, de_text = ''C''\<rparr>]"

theorem Migrate_resumes_witness:
  "Migrate (\<lambda>sql d. Some (d @ sql)) demo_files
      (snd (Migrate (\<lambda>sql d. if sql = ''B'' then None else Some (d @ sql)) demo_files \<lparr>db_ledger = [], db_schema = []\<rparr>))
    = (None, \<lparr>db_ledger = [''1.up.sql'', ''2.up.sql''], db_schema = ''AB''\<rparr>)"
proof -
  let ?exec = "\<lambda>sql d. if sql = ''B'' then None else Some (d @ sql)"
  let ?exec' = "\<lambda>sql d. Some (d @ sql)"
  have "Migrate ?exec' demo_files (snd (Migrate ?exec demo_files \<lparr>db_ledger = [], db_schema = []\<rparr>))
      = Migrate ?exec' demo_files \<lparr>db_ledger = [], db_schema = []\<rparr>"
    by (rule conjunct1 [OF Migrate_resumes]) (auto split: if_splits)
  also have "migration_names demo_files = [''1.up.sql'', ''2.up.sql'']"
    by code_simp
  then have "Migrate ?exec' demo_files \<lparr>db_ledger = [], db_schema = []\<rparr>
      = (None, \<lparr>db_ledger = [''1.up.sql'', ''2.up.sql''], db_schema = ''AB''\<rparr>)"
    by (simp add: Migrate_def ReadFile_def demo_files_def find_by_def)
  finally show ?thesis .
qed

end
