(* ===== verification/Mail.thy ===== *)
theory Mail
  imports Base64_Padded Decimal
begin

section \<open>Mail\<close>

text \<open>
  \<open>internal/mail/mail.go\<close>: the messages, the settings of the SMTP mailer and their checks, the text
  of a message, the conversation with the mail server, and the mailer that records messages. The
  library functions that parse and print addresses and headers are arguments, and so is the
  connection: a state on which each command of the conversation succeeds or fails.
\<close>

record mail_Message =
  mm_To :: string
  mm_Subject :: string
  mm_Body :: string

record mail_Address =
  ma_Name :: string
  ma_Address :: string

abbreviation TLSStartTLS :: string where "TLSStartTLS \<equiv> ''starttls''"
abbreviation TLSImplicit :: string where "TLSImplicit \<equiv> ''tls''"
abbreviation TLSNone :: string where "TLSNone \<equiv> ''none''"

record mailer_config =
  mc_Addr :: string
  mc_Username :: string
  mc_Password :: string
  mc_From :: string
  mc_TLS :: string

record SMTPMailer =
  sm_config :: mailer_config
  sm_from :: mail_Address
  sm_timeout :: duration
  sm_ServerName :: string

text \<open>\<open>net/mail\<close>, \<open>net\<close>, \<open>mime\<close> and the reading of the clock in the layout \<open>RFC1123Z\<close>.\<close>

record mail_lib =
  ml_SplitHostPort :: "string \<Rightarrow> (string \<times> string) option"
  ml_ParseAddress :: "string \<Rightarrow> mail_Address option"
  ml_Address_String :: "mail_Address \<Rightarrow> string"
  ml_QEncoding :: "string \<Rightarrow> string"
  ml_Date :: string

definition NewSMTPMailer :: "mail_lib \<Rightarrow> mailer_config \<Rightarrow> string + SMTPMailer" where
  "NewSMTPMailer lib config =
     (case ml_SplitHostPort lib (mc_Addr config) of None \<Rightarrow> Inl ''smtp address must be host:port''
      | Some (host, _) \<Rightarrow>
          if host = [] then Inl ''smtp address must be host:port''
          else (case ml_ParseAddress lib (mc_From config) of None \<Rightarrow> Inl ''smtp from address is invalid''
          | Some from \<Rightarrow>
              if mc_TLS config \<notin> {[], TLSStartTLS, TLSImplicit, TLSNone} then Inl ''smtp tls mode must be starttls, tls or none''
              else let config' = (if mc_TLS config = [] then config\<lparr>mc_TLS := TLSStartTLS\<rparr> else config) in
                if (mc_Username config' = []) \<noteq> (mc_Password config' = []) then Inl ''smtp username and password must be set together''
                else Inr \<lparr>sm_config = config', sm_from = from, sm_timeout = 15 * time_Second, sm_ServerName = host\<rparr>))"

subsection \<open>The text of a message\<close>

abbreviation CRLF :: string where
  "CRLF \<equiv> [CHR 0x0D, CHR 0x0A]"

fun replace_crlf :: "string \<Rightarrow> string" where
  "replace_crlf [] = []"
| "replace_crlf [c] = [c]"
| "replace_crlf (c # d # s) = (if c = CHR 0x0D \<and> d = CHR 0x0A then CHR 0x0A # replace_crlf s else c # replace_crlf (d # s))"

text \<open>The loop that cuts the encoded body into lines of 76 characters.\<close>

function body_lines :: "string \<Rightarrow> string list" where
  "body_lines encoded = (if length encoded > 76 then take 76 encoded # body_lines (drop 76 encoded) else [encoded])"
  by auto
termination by (relation "measure length") auto

declare body_lines.simps [simp del]

definition header_lines :: "mail_lib \<Rightarrow> SMTPMailer \<Rightarrow> mail_Address \<Rightarrow> mail_Message \<Rightarrow> string list" where
  "header_lines lib m dest msg =
     [''From: '' @ ml_Address_String lib (sm_from m),
      ''To: '' @ ml_Address_String lib \<lparr>ma_Name = [], ma_Address = ma_Address dest\<rparr>,
      ''Subject: '' @ ml_QEncoding lib (mm_Subject msg),
      ''Date: '' @ ml_Date lib,
      ''MIME-Version: 1.0'',
      ''Content-Type: text/plain; charset=UTF-8'',
      ''Content-Transfer-Encoding: base64'']"

definition mail_format :: "mail_lib \<Rightarrow> SMTPMailer \<Rightarrow> mail_Address \<Rightarrow> mail_Message \<Rightarrow> string" where
  "mail_format lib m dest msg =
     concat (map (\<lambda>l. l @ CRLF) (header_lines lib m dest msg)) @ CRLF
     @ concat (map (\<lambda>l. l @ CRLF) (body_lines (StdEncoding_EncodeToString (replace_crlf (mm_Body msg)))))"

subsection \<open>The conversation\<close>

text \<open>One command of the conversation, in the order the code issues them.\<close>

datatype smtp_command =
    smtp_Dial string
  | smtp_TLS string
  | smtp_Greet
  | smtp_StartTLS string
  | smtp_Auth string string string
  | smtp_Mail string
  | smtp_Rcpt string
  | smtp_Data
  | smtp_Write string
  | smtp_CloseData
  | smtp_Quit

text \<open>The commands run until one fails; the error of the first failure is the error of \<open>Send\<close>.\<close>

fun converse :: "('w \<Rightarrow> smtp_command \<Rightarrow> string option \<times> 'w) \<Rightarrow> smtp_command list \<Rightarrow> 'w \<Rightarrow> string option \<times> 'w" where
  "converse run [] w = (None, w)"
| "converse run (c # cs) w = (case run w c of (Some err, w') \<Rightarrow> (Some err, w') | (None, w') \<Rightarrow> converse run cs w')"

definition smtp_commands :: "mail_lib \<Rightarrow> SMTPMailer \<Rightarrow> mail_Address \<Rightarrow> mail_Message \<Rightarrow> smtp_command list" where
  "smtp_commands lib m dest msg =
     (let config = sm_config m;
          host = (case ml_SplitHostPort lib (mc_Addr config) of None \<Rightarrow> [] | Some (h, _) \<Rightarrow> h)
      in smtp_Dial (mc_Addr config)
         # (if mc_TLS config = TLSImplicit then [smtp_TLS (sm_ServerName m)] else []) @ smtp_Greet
         # (if mc_TLS config = TLSStartTLS then [smtp_StartTLS (sm_ServerName m)] else [])
         @ (if mc_Username config \<noteq> [] then [smtp_Auth (mc_Username config) (mc_Password config) host] else [])
         @ [smtp_Mail (ma_Address (sm_from m)), smtp_Rcpt (ma_Address dest), smtp_Data,
            smtp_Write (mail_format lib m dest msg), smtp_CloseData, smtp_Quit])"

definition SMTPMailer_Send ::
  "mail_lib \<Rightarrow> ('w \<Rightarrow> smtp_command \<Rightarrow> string option \<times> 'w) \<Rightarrow> SMTPMailer \<Rightarrow> mail_Message \<Rightarrow> 'w \<Rightarrow> string option \<times> 'w" where
  "SMTPMailer_Send lib run m msg w =
     (case ml_ParseAddress lib (mm_To msg) of None \<Rightarrow> (Some ''recipient address'', w)
      | Some dest \<Rightarrow>
          if CHR 0x0D \<in> set (mm_Subject msg) \<or> CHR 0x0A \<in> set (mm_Subject msg) then (Some ''subject must be a single line'', w)
          else converse run (smtp_commands lib m dest msg) w)"

subsection \<open>The mailer of the tests\<close>

record MemoryMailer =
  mem_messages :: "mail_Message list"
  mem_Err :: "string option"

definition MemoryMailer_Send :: "MemoryMailer \<Rightarrow> mail_Message \<Rightarrow> string option \<times> MemoryMailer" where
  "MemoryMailer_Send m msg =
     (case mem_Err m of Some err \<Rightarrow> (Some err, m) | None \<Rightarrow> (None, m\<lparr>mem_messages := mem_messages m @ [msg]\<rparr>))"

definition MemoryMailer_Messages :: "MemoryMailer \<Rightarrow> mail_Message list" where
  "MemoryMailer_Messages m = mem_messages m"

subsection \<open>What arrives\<close>

text \<open>A mail server reads lines that end in \<open>CRLF\<close>.\<close>

fun split_crlf :: "string \<Rightarrow> string list" where
  "split_crlf [] = [[]]"
| "split_crlf [c] = [[c]]"
| "split_crlf (c # d # s) =
     (if c = CHR 0x0D \<and> d = CHR 0x0A then [] # split_crlf s
      else (case split_crlf (d # s) of [] \<Rightarrow> [[c]] | l # ls \<Rightarrow> (c # l) # ls))"

definition one_line :: "string \<Rightarrow> bool" where
  "one_line s \<longleftrightarrow> CHR 0x0D \<notin> set s \<and> CHR 0x0A \<notin> set s"

lemma one_line_append: "one_line (s @ t) \<longleftrightarrow> one_line s \<and> one_line t"
  by (auto simp: one_line_def)

lemma split_crlf_line: "one_line l \<Longrightarrow> split_crlf (l @ CRLF @ s) = l # split_crlf s"
proof (induction l)
  case (Cons c l)
  then have "c \<noteq> CHR 0x0D" "one_line l"
    by (auto simp: one_line_def)
  with Cons.IH show ?case
    by (cases l) auto
qed simp

lemma split_crlf_lines:
  "list_all one_line ls \<Longrightarrow> split_crlf (concat (map (\<lambda>l. l @ CRLF) ls) @ s) = ls @ split_crlf s"
proof (induction ls)
  case (Cons l ls)
  then have "split_crlf (l @ CRLF @ concat (map (\<lambda>l. l @ CRLF) ls) @ s) = l # ls @ split_crlf s"
    by (subst split_crlf_line) simp_all
  then show ?case
    by simp
qed simp

lemma body_lines: "concat (body_lines e) = e" "l \<in> set (body_lines e) \<Longrightarrow> length l \<le> 76"
proof (induction e rule: body_lines.induct)
  case (1 e)
  {
    case 1
    then show ?case
      using "1.IH"(1) by (subst body_lines.simps) simp
  next
    case 2
    then show ?case
      using "1.IH"(2) by (subst (asm) body_lines.simps) (auto split: if_splits)
  }
qed


text \<open>Libraries that print their argument on one line, for the witness.\<close>

definition demo_mail_lib :: mail_lib where
  "demo_mail_lib = \<lparr>ml_SplitHostPort = (\<lambda>s. Some (s, ''25'')), ml_ParseAddress = (\<lambda>s. Some \<lparr>ma_Name = [], ma_Address = s\<rparr>),
     ml_Address_String = (\<lambda>a. ''<'' @ filter (\<lambda>c. c \<noteq> CHR 0x0D \<and> c \<noteq> CHR 0x0A) (ma_Address a) @ ''>''), ml_QEncoding = (\<lambda>s. s),
     ml_Date = ''Mon, 05 Oct 2026 12:00:00 +0000''\<rparr>"

definition demo_mailer :: SMTPMailer where
  "demo_mailer = \<lparr>sm_config = \<lparr>mc_Addr = ''mail'', mc_Username = [], mc_Password = [], mc_From = ''a@b'', mc_TLS = TLSNone\<rparr>,
     sm_from = \<lparr>ma_Name = [], ma_Address = ''a@b''\<rparr>, sm_timeout = 15 * time_Second, sm_ServerName = ''mail''\<rparr>"

definition demo_mail :: mail_Message where
  "demo_mail = \<lparr>mm_To = ''c@d'', mm_Subject = ''Bcc: x'', mm_Body = ''Hi'' @ CRLF @ ''there''\<rparr>"


end
