(* ===== verification/Startup.thy ===== *)
theory Startup
  imports Config Migrations Mail S3_Storage Http_Routes
begin

section \<open>Starting the server\<close>

text \<open>
  \<open>cmd/server/main.go\<close>: \<open>run\<close>, which loads the configuration, opens and migrates the database, and
  builds the services and the handler, with every early return. The outcome is the text of an error
  or the server as it begins to listen. The libraries below it are arguments: the arguments of the
  parts it starts, one reading of the clock and one random salt. Serving the listener and the
  orderly shutdown are the work of \<open>net/http\<close> and not modelled.
\<close>

record ('d, 'n, 'p, 'q) startup_lib =
  su_scaled :: "nat \<Rightarrow> nat \<Rightarrow> nat \<Rightarrow> nat"
  su_Open :: "string \<Rightarrow> string + 'd database"
  su_files :: "dir_entry list"
  su_exec :: "string \<Rightarrow> 'd \<Rightarrow> 'd option"
  su_tables :: "'d \<Rightarrow> auth_db \<times> chat_db"
  su_salt :: "string option"
  su_url_Parse :: "string \<Rightarrow> Gateway_Conn.url option"
  su_mail :: mail_lib
  su_s3 :: "'n s3_lib"
  su_s3_client :: 'n
  su_now :: time
  su_client :: "nat \<Rightarrow> 'p client"
  su_livekit :: livekit_lib
  su_post :: "'q \<Rightarrow> livekit_request \<Rightarrow> int option \<times> 'q"
  su_provider :: 'q
  su_http :: "('n S3Storage, 'p, 'q) http_config"

text \<open>The parts of \<open>url.URL\<close> that the packages read.\<close>

definition parse_scheme_host :: "(string \<Rightarrow> Gateway_Conn.url option) \<Rightarrow> string \<Rightarrow> (string \<times> string) option" where
  "parse_scheme_host url_Parse s = map_option (\<lambda>u. (Gateway_Conn.url_Scheme u, Gateway_Conn.url_Host u)) (url_Parse s)"

definition parse_livekit :: "(string \<Rightarrow> Gateway_Conn.url option) \<Rightarrow> string \<Rightarrow> parsed_url option" where
  "parse_livekit url_Parse s = map_option (\<lambda>(scheme, host). \<lparr>parsed_url.url_Scheme = scheme, url_Host = host\<rparr>) (parse_scheme_host url_Parse s)"

text \<open>The settings of the packages, as \<open>run\<close> fills them from the configuration.\<close>

definition google_config :: "GoogleSettings \<Rightarrow> GoogleConfig" where
  "google_config c = \<lparr>go_ClientID = cg_ClientID c, go_ClientSecret = cg_ClientSecret c, go_RedirectURL = cg_RedirectURL c,
     go_AuthorizationEndpoint = [], go_TokenEndpoint = [], go_JWKSEndpoint = [], go_Issuers = []\<rparr>"

definition mail_config :: "SMTPSettings \<Rightarrow> mailer_config" where
  "mail_config c = \<lparr>mc_Addr = cs_Addr c, mc_Username = cs_Username c, mc_Password = cs_Password c, mc_From = cs_From c, mc_TLS = cs_TLS c\<rparr>"

definition storage_config :: "StorageSettings \<Rightarrow> S3Config" where
  "storage_config c = \<lparr>s3c_Endpoint = co_Endpoint c, s3c_PublicEndpoint = co_PublicEndpoint c, s3c_Region = co_Region c,
     s3c_Bucket = co_Bucket c, s3c_AccessKey = co_AccessKey c, s3c_SecretKey = co_SecretKey c, s3c_PathStyle = co_PathStyle c\<rparr>"

definition gateway_config :: "Config \<Rightarrow> GatewayConfig" where
  "gateway_config c = \<lparr>gc_URL = cf_GatewayURL c, gc_HeartbeatInterval = cf_GatewayHeartbeat c,
     gc_IdentifyTimeout = cf_GatewayIdentifyTimeout c, gc_SessionRetention = cf_GatewaySessionRetention c,
     gc_EventBufferSize = 1000, gc_AllowedOrigins = cf_GatewayAllowedOrigins c\<rparr>"

definition voice_config :: "VoiceSettings \<Rightarrow> LiveKitConfig" where
  "voice_config c = \<lparr>lk_URL = cv_URL c, lk_APIURL = cv_APIURL c, lk_APIKey = cv_APIKey c, lk_APISecret = cv_APISecret c\<rparr>"

text \<open>A part that is built only where it is enabled.\<close>

definition when_enabled :: "bool \<Rightarrow> string + 'a \<Rightarrow> string + 'a option" where
  "when_enabled enabled built = (if enabled then (case built of Inl err \<Rightarrow> Inl err | Inr part \<Rightarrow> Inr (Some part)) else Inr None)"

definition open_database :: "('d, 'n, 'p, 'q) startup_lib \<Rightarrow> Config \<Rightarrow> string + 'd database" where
  "open_database lib config =
     (case su_Open lib (cf_DatabaseURL config) of Inl err \<Rightarrow> Inl err
      | Inr db \<Rightarrow>
          if cf_AutoMigrate config
          then (case Migrate (su_exec lib) (su_files lib) db of (Some err, _) \<Rightarrow> Inl err | (None, db') \<Rightarrow> Inr db')
          else Inr db)"

record ('d, 'n, 'p, 'q) server =
  sr_config :: Config
  sr_database :: "'d database"
  sr_gateway :: gateway_service
  sr_http :: "('n S3Storage, 'p, 'q) http_config"
  sr_state :: "('n S3Storage, 'p, 'q) exchange"
  sr_janitor :: bool

text \<open>\<open>httpapi.New\<close> on the services; without a storage or a provider its state stands idle.\<close>

definition build_http ::
  "('d, 'n, 'p, 'q) startup_lib \<Rightarrow> AuthService \<Rightarrow> GoogleClient option \<Rightarrow> SMTPMailer option \<Rightarrow> (S3Config \<times> 'n S3Storage) option
     \<Rightarrow> LiveKitConfig option \<Rightarrow> ('n S3Storage, 'p, 'q) http_config" where
  "build_http lib sv google mailer storage livekit = (su_http lib)\<lparr>hc_sv := sv, hc_version := ''dev'',
     hc_media := map_option (\<lambda>(config, _). S3Storage_methods (su_s3 lib) config) storage, hc_gateway := True, hc_voice := True,
     hc_provider := (\<lambda>now. map_option (\<lambda>c. LiveKit_methods (su_livekit lib) c (su_post lib) now) livekit),
     hc_google := google, hc_mailer := mailer \<noteq> None\<rparr>"

definition run_server :: "('d, 'n, 'p, 'q) startup_lib \<Rightarrow> environment \<Rightarrow> string + ('d, 'n, 'p, 'q) server" where
  "run_server lib env =
     (case Load (su_scaled lib) env of Inl err \<Rightarrow> Inl err
      | Inr config \<Rightarrow> (case open_database lib config of Inl err \<Rightarrow> Inl err
      | Inr db \<Rightarrow> (case NewPasswordHasher DefaultPasswordParams of None \<Rightarrow> Inl ''unsafe password parameters''
      | Some hasher \<Rightarrow> (case NewService (hc_lib (su_http lib)) (su_salt lib) hasher (cf_AccessTokenTTL config) (cf_RefreshTokenTTL config) of Inl err \<Rightarrow> Inl err
      | Inr sv \<Rightarrow> (case when_enabled (Google_Enabled (cf_Google config))
                     (NewGoogleClient (parse_scheme_host (su_url_Parse lib)) (google_config (cf_Google config))) of Inl err \<Rightarrow> Inl err
      | Inr google \<Rightarrow> (case when_enabled (SMTP_Enabled (cf_SMTP config)) (NewSMTPMailer (su_mail lib) (mail_config (cf_SMTP config))) of Inl err \<Rightarrow> Inl err
      | Inr mailer \<Rightarrow> (case when_enabled (Storage_Enabled (cf_Storage config))
                     (NewS3Storage (su_s3 lib) (su_s3_client lib) (su_now lib) (storage_config (cf_Storage config))) of Inl err \<Rightarrow> Inl err
      | Inr storage \<Rightarrow> (case Gateway_New (su_url_Parse lib) (su_client lib) (gateway_config config) of Inl err \<Rightarrow> Inl err
      | Inr (gateway, hub) \<Rightarrow> (case when_enabled (Voice_Enabled (cf_Voice config))
                     (NewLiveKit (parse_livekit (su_url_Parse lib)) (voice_config (cf_Voice config))) of Inl err \<Rightarrow> Inl err
      | Inr livekit \<Rightarrow>
          let objects = (case storage of Some (_, s) \<Rightarrow> s | None \<Rightarrow> \<lparr>s3_client = su_s3_client lib, s3_now = su_now lib\<rparr>);
              c = build_http lib sv google mailer storage livekit;
              tables = su_tables lib (db_schema db)
          in Inr \<lparr>sr_config = config, sr_database = db, sr_gateway = gateway, sr_http = c,
               sr_state = New_server c (fst tables) (snd tables) objects hub (Voice_New (su_provider lib)),
               sr_janitor = (storage \<noteq> None)\<rparr>)))))))))"

text \<open>The ticks of \<open>sweepGateway\<close>.\<close>

definition sweepGateway :: "time list \<Rightarrow> 'p hub \<Rightarrow> 'p hub" where
  "sweepGateway ticks h = foldl (\<lambda>h now. Gateway_Sweep now h) h ticks"

end
