(* ===== verification/Startup_Claims.thy ===== *)
theory Startup_Claims
  imports Startup Http_Claims
begin

section \<open>What starting the server guarantees\<close>

text \<open>
  \<open>Load\<close> establishes the conditions that the constructors check again, so that starting fails only
  for reasons outside of the process: the database, the random source, and texts that the libraries
  cannot parse as addresses.
\<close>

lemma durationFromEnv_pos: "durationFromEnv scaled env key fallback = Inr d \<Longrightarrow> 0 < fallback \<Longrightarrow> 0 < d"
  by (auto simp: durationFromEnv_def split: if_splits option.splits)

definition config_ok :: "Config \<Rightarrow> bool" where
  "config_ok c \<longleftrightarrow>
     cf_DatabaseURL c \<noteq> [] \<and> 0 < cf_AccessTokenTTL c \<and> cf_AccessTokenTTL c < cf_RefreshTokenTTL c \<and> 0 < cf_ShutdownTimeout c
     \<and> 0 < cf_GatewayHeartbeat c \<and> 0 < cf_GatewayIdentifyTimeout c \<and> 0 < cf_GatewaySessionRetention c
     \<and> co_Region (cf_Storage c) \<noteq> []
     \<and> (Storage_Enabled (cf_Storage c) \<longrightarrow> co_Bucket (cf_Storage c) \<noteq> [] \<and> co_AccessKey (cf_Storage c) \<noteq> [] \<and> co_SecretKey (cf_Storage c) \<noteq> [])
     \<and> (Voice_Enabled (cf_Voice c) \<longrightarrow> cv_APIKey (cf_Voice c) \<noteq> [] \<and> cv_APISecret (cf_Voice c) \<noteq> [])
     \<and> (Google_Enabled (cf_Google c) \<longrightarrow> cg_ClientSecret (cf_Google c) \<noteq> [] \<and> cg_RedirectURL (cf_Google c) \<noteq> [])
     \<and> (SMTP_Enabled (cf_SMTP c) \<longrightarrow> cs_From (cf_SMTP c) \<noteq> [])"

lemma Load_ok:
  assumes "Load scaled env = Inr c"
  shows "config_ok c"
proof -
  have region: "co_Region (storage_settings env b) \<noteq> []" for b
    by (simp add: storage_settings_def envOrDefault_def)
  note pos = durationFromEnv_pos [of scaled env _ "n * u" for n u]
  have unit: "0 < time_Second" "0 < time_Minute" "0 < time_Hour"
    by (simp_all add: durations)
  from assms show ?thesis
    unfolding Load_def Let_def returns sum.inject
    by (elim exE conjE, hypsubst) (simp add: config_ok_def region unit pos)
qed

subsection \<open>The constructors after \<open>Load\<close>\<close>

lemma when_enabled_Inr:
  "when_enabled b built = Inr part \<longleftrightarrow> (if b then \<exists>v. built = Inr v \<and> part = Some v else part = None)"
  by (auto simp: when_enabled_def split: sum.split)

lemma when_enabled_ex: "(\<exists>part. when_enabled b built = Inr part) \<longleftrightarrow> (b \<longrightarrow> (\<exists>v. built = Inr v))"
  by (auto simp: when_enabled_Inr)

definition google_url_ok :: "('d, 'n, 'p, 'q) startup_lib \<Rightarrow> GoogleSettings \<Rightarrow> bool" where
  "google_url_ok lib c \<longleftrightarrow>
     (\<exists>host. parse_scheme_host (su_url_Parse lib) (cg_RedirectURL c) \<in> {Some (''http'', host), Some (''https'', host)} \<and> host \<noteq> [])"

lemma NewGoogleClient_after_Load:
  assumes "config_ok c" "Google_Enabled (cf_Google c)"
  shows "(\<exists>v. NewGoogleClient (parse_scheme_host (su_url_Parse lib)) (google_config (cf_Google c)) = Inr v)
    \<longleftrightarrow> google_url_ok lib (cf_Google c)"
  using assms
  by (auto simp: NewGoogleClient_def google_config_def config_ok_def Google_Enabled_def google_url_ok_def split: option.split)

definition storage_urls_ok :: "('d, 'n, 'p, 'q) startup_lib \<Rightarrow> StorageSettings \<Rightarrow> bool" where
  "storage_urls_ok lib c \<longleftrightarrow> s3_endpoint_ok (su_s3 lib) (co_Endpoint c)
     \<and> (co_PublicEndpoint c = [] \<or> s3_endpoint_ok (su_s3 lib) (co_PublicEndpoint c))"

lemma NewS3Storage_after_Load:
  assumes "config_ok c" "Storage_Enabled (cf_Storage c)"
  shows "(\<exists>v. NewS3Storage (su_s3 lib) n now (storage_config (cf_Storage c)) = Inr v) \<longleftrightarrow> storage_urls_ok lib (cf_Storage c)"
  using assms
  by (auto simp: NewS3Storage_def storage_config_def config_ok_def Storage_Enabled_def storage_urls_ok_def find_by_def Let_def)

definition gateway_urls_ok :: "('d, 'n, 'p, 'q) startup_lib \<Rightarrow> Config \<Rightarrow> bool" where
  "gateway_urls_ok lib c \<longleftrightarrow>
     (\<exists>u. su_url_Parse lib (cf_GatewayURL c) = Some u \<and> Gateway_Conn.url_Scheme u \<in> {''ws'', ''wss''} \<and> Gateway_Conn.url_Host u \<noteq> []
        \<and> \<not> url_HasUser u \<and> url_Fragment u = [])
     \<and> (\<exists>origins. parse_origins (su_url_Parse lib) (cf_GatewayAllowedOrigins c) = Inr origins)"

lemma Gateway_New_after_Load:
  assumes "config_ok c"
  shows "(\<exists>v. Gateway_New (su_url_Parse lib) conn (gateway_config c) = Inr v) \<longleftrightarrow> gateway_urls_ok lib c"
  using assms
  by (auto simp: Gateway_New_def gateway_config_def config_ok_def gateway_urls_ok_def split: option.split sum.split)

definition voice_urls_ok :: "('d, 'n, 'p, 'q) startup_lib \<Rightarrow> VoiceSettings \<Rightarrow> bool" where
  "voice_urls_ok lib c \<longleftrightarrow> (\<exists>v. NewLiveKit (parse_livekit (su_url_Parse lib)) (voice_config c) = Inr v)"

lemma NewService_after_Load:
  assumes "config_ok c"
  shows "(\<exists>sv. NewService al salt hasher (cf_AccessTokenTTL c) (cf_RefreshTokenTTL c) = Inr sv) \<longleftrightarrow> salt \<noteq> None"
  using assms by (auto simp: NewService_def config_ok_def Password_Hash_def Let_def split: option.split)

text \<open>The world outside of the configuration, as \<open>run\<close> depends on it.\<close>

definition startup_ready :: "('d, 'n, 'p, 'q) startup_lib \<Rightarrow> Config \<Rightarrow> bool" where
  "startup_ready lib c \<longleftrightarrow>
     (\<exists>db. open_database lib c = Inr db) \<and> su_salt lib \<noteq> None
     \<and> (Google_Enabled (cf_Google c) \<longrightarrow> google_url_ok lib (cf_Google c))
     \<and> (SMTP_Enabled (cf_SMTP c) \<longrightarrow> (\<exists>m. NewSMTPMailer (su_mail lib) (mail_config (cf_SMTP c)) = Inr m))
     \<and> (Storage_Enabled (cf_Storage c) \<longrightarrow> storage_urls_ok lib (cf_Storage c))
     \<and> gateway_urls_ok lib c
     \<and> (Voice_Enabled (cf_Voice c) \<longrightarrow> voice_urls_ok lib (cf_Voice c))"

lemma DefaultPasswordParams_safe: "NewPasswordHasher DefaultPasswordParams = Some DefaultPasswordParams"
  by (simp add: NewPasswordHasher_def safePasswordParams_def DefaultPasswordParams_def)

lemma run_server_Inr:
  "run_server lib env = Inr srv \<longleftrightarrow>
     (\<exists>config db sv google mailer storage gateway hub livekit.
        Load (su_scaled lib) env = Inr config \<and> open_database lib config = Inr db
        \<and> NewService (hc_lib (su_http lib)) (su_salt lib) DefaultPasswordParams (cf_AccessTokenTTL config) (cf_RefreshTokenTTL config) = Inr sv
        \<and> when_enabled (Google_Enabled (cf_Google config))
            (NewGoogleClient (parse_scheme_host (su_url_Parse lib)) (google_config (cf_Google config))) = Inr google
        \<and> when_enabled (SMTP_Enabled (cf_SMTP config)) (NewSMTPMailer (su_mail lib) (mail_config (cf_SMTP config))) = Inr mailer
        \<and> when_enabled (Storage_Enabled (cf_Storage config))
            (NewS3Storage (su_s3 lib) (su_s3_client lib) (su_now lib) (storage_config (cf_Storage config))) = Inr storage
        \<and> Gateway_New (su_url_Parse lib) (su_client lib) (gateway_config config) = Inr (gateway, hub)
        \<and> when_enabled (Voice_Enabled (cf_Voice config))
            (NewLiveKit (parse_livekit (su_url_Parse lib)) (voice_config (cf_Voice config))) = Inr livekit
        \<and> srv = \<lparr>sr_config = config, sr_database = db, sr_gateway = gateway, sr_http = build_http lib sv google mailer storage livekit,
            sr_state = New_server (build_http lib sv google mailer storage livekit) (fst (su_tables lib (db_schema db))) (snd (su_tables lib (db_schema db)))
              (case storage of Some (_, s) \<Rightarrow> s | None \<Rightarrow> \<lparr>s3_client = su_s3_client lib, s3_now = su_now lib\<rparr>)
              hub (Voice_New (su_provider lib)),
            sr_janitor = (storage \<noteq> None)\<rparr>)"
  unfolding run_server_def returns Let_def DefaultPasswordParams_safe split_paired_Ex prod.case option.inject sum.inject
  by blast


subsection \<open>The server that runs\<close>

text \<open>
  From the environment to the invariants: whatever server \<open>run\<close> starts on empty tables, in every state
  it reaches the chat tables, the accounts and the hub satisfy their invariants. Its storage is the
  signed one or none, and the frames of its gateway always encode.
\<close>

lemma started_server_inv:
  assumes "run_server lib env = Inr srv" and "su_tables lib (db_schema (sr_database srv)) = (empty_auth, empty_db)"
    and "\<And>f. hc_marshal (su_http lib) f \<noteq> None"
  obtains media where "fits (sr_http srv) media"
    and "\<And>x. (http_step (sr_http srv) media allowed)\<^sup>*\<^sup>* (sr_state srv) x \<Longrightarrow>
      chat_inv (x_chat x) \<and> auth_inv (x_auth x) \<and> hub_inv (hc_marshal (sr_http srv)) (x_hub x)"
proof -
  obtain config db sv google mailer storage gateway hub livekit where
    gateway: "Gateway_New (su_url_Parse lib) (su_client lib) (gateway_config config) = Inr (gateway, hub)"
    and srv: "srv = \<lparr>sr_config = config, sr_database = db, sr_gateway = gateway, sr_http = build_http lib sv google mailer storage livekit,
            sr_state = New_server (build_http lib sv google mailer storage livekit) (fst (su_tables lib (db_schema db))) (snd (su_tables lib (db_schema db)))
              (case storage of Some (_, s) \<Rightarrow> s | None \<Rightarrow> \<lparr>s3_client = su_s3_client lib, s3_now = su_now lib\<rparr>)
              hub (Voice_New (su_provider lib)),
            sr_janitor = (storage \<noteq> None)\<rparr>"
    using assms(1) unfolding run_server_Inr by blast
  define objs where "objs = (case storage of Some (_, s) \<Rightarrow> s | None \<Rightarrow> \<lparr>s3_client = su_s3_client lib, s3_now = su_now lib\<rparr>)"
  have start: "sr_state srv = New_server (sr_http srv) empty_auth empty_db objs hub (Voice_New (su_provider lib))"
    using assms(2) by (simp add: srv objs_def)
  have marshal: "hc_marshal (sr_http srv) = hc_marshal (su_http lib)"
    by (simp add: srv build_http_def)
  have hub': "hub = newHub (gc_URL (gateway_config config)) (gc_SessionRetention (gateway_config config)) 1000 (su_client lib)"
    using gateway by (auto simp: Gateway_New_def gateway_config_def split: option.splits if_splits sum.splits)
  obtain media where media: "fits (sr_http srv) media"
    by (cases "hc_media (sr_http srv)") (auto simp: fits_def)
  show thesis
  proof (rule that [OF media])
    fix x
    assume "(http_step (sr_http srv) media allowed)\<^sup>*\<^sup>* (sr_state srv) x"
    from running_server [OF media this [unfolded start hub']] assms(3)
    show "chat_inv (x_chat x) \<and> auth_inv (x_auth x) \<and> hub_inv (hc_marshal (sr_http srv)) (x_hub x)"
      by (simp add: marshal)
  qed
qed

text \<open>An environment with a database and a storage, and libraries for it, for the witness.\<close>

definition demo_environment :: environment where
  "demo_environment key = (if key \<in> {''ASTER_DATABASE_URL'', ''ASTER_STORAGE_ENDPOINT'', ''ASTER_STORAGE_BUCKET'',
     ''ASTER_STORAGE_ACCESS_KEY'', ''ASTER_STORAGE_SECRET_KEY''} then ''x'' else [])"

definition demo_startup :: "('n S3Storage, 'p, 'q) http_config \<Rightarrow> 'n \<Rightarrow> 'q \<Rightarrow> (unit, 'n, 'p, 'q) startup_lib" where
  "demo_startup c n q = \<lparr>su_scaled = (\<lambda>f e u. f * u div 10 ^ e), su_Open = (\<lambda>_. Inr \<lparr>db_ledger = [], db_schema = ()\<rparr>), su_files = [],
     su_exec = (\<lambda>_. Some), su_tables = (\<lambda>_. (empty_auth, empty_db)), su_salt = Some (replicate 16 CHR ''s''),
     su_url_Parse = (\<lambda>_. Some \<lparr>url.url_Scheme = ''ws'', url.url_Host = ''h'', url_HasUser = False, url_Path = [], url_RawQuery = [], url_Fragment = []\<rparr>),
     su_mail = demo_mail_lib,
     su_s3 = \<lparr>s3_sha256 = take 32, s3_hmac = (\<lambda>k d. k @ d), s3_url_Parse = (\<lambda>_. Some \<lparr>ep_Scheme = ''https'', ep_Host = ''s3'', ep_Path = []\<rparr>),
       s3_FormatMediaType = (\<lambda>d _. d), s3_Do = (\<lambda>n _. (Inl ''no'', n))\<rparr>,
     su_s3_client = n, su_now = 0, su_client = (\<lambda>_. newClient 8 []),
     su_livekit = \<lparr>ll_Marshal = (\<lambda>_. None), ll_MarshalBody = (\<lambda>_ _. None), ll_hmac = (\<lambda>k d. d), ll_uuid_String = (\<lambda>_. ''u''), ll_Unix = (\<lambda>t. t)\<rparr>,
     su_post = (\<lambda>q _. (None, q)), su_provider = q, su_http = c\<rparr>"

lemma demo_Load:
  "\<exists>c. Load scaled demo_environment = Inr c \<and> Storage_Enabled (cf_Storage c) \<and> \<not> Google_Enabled (cf_Google c)
     \<and> \<not> SMTP_Enabled (cf_SMTP c) \<and> \<not> Voice_Enabled (cf_Voice c) \<and> \<not> cf_AutoMigrate c"
  by (simp add: Load_def durationFromEnv_def boolFromEnv_def demo_environment_def Let_def storage_settings_def voice_settings_def
      google_settings_def smtp_settings_def Storage_Enabled_def Voice_Enabled_def Google_Enabled_def SMTP_Enabled_def durations)

lemma demo_origins: "\<exists>os'. parse_origins (su_url_Parse (demo_startup c n q)) os = Inr os'"
proof (induction os)
  case (Cons o1 os)
  then show ?case
    by (auto simp: demo_startup_def)
qed simp


end
