(* ===== verification/Spec2Isabelle.thy ===== *)
theory Spec2Isabelle
  imports Chat_Claims Read_Claims Gateway_Claims Google_Claims Limiter Voice_Claims Http_Claims S3_Store Startup_Claims
begin

text \<open>
  This library models the Aster server (\<open>cmd/\<close> and \<open>internal/\<close>): a chat server with accounts,
  guilds, roles, channels, messages, attachments, a WebSocket gateway and voice channels, over
  PostgreSQL and an object storage. The files under \<open>internal/\<close> are translated function by function;
  a definition keeps the name of its Go function, with the prefix \<open>Store_\<close> for a method of
  \<open>PostgresStore\<close> and a package prefix where a name occurs twice.

  \<^bold>\<open>How the program is put together.\<close> \<open>cmd/server/main.go\<close> reads the configuration, migrates the
  database and builds the services; \<open>internal/httpapi\<close> routes a request to a handler, which checks
  limits and tokens, calls a service and publishes the outcome on the gateway. \<open>internal/chat\<close> and
  \<open>internal/auth\<close> are services over statements; \<open>internal/gateway\<close> and \<open>internal/voice\<close> keep their
  state in memory behind a mutex. A service calls its store, the object storage (\<open>internal/media\<close>)
  and the mailer (\<open>internal/mail\<close>); the gateway calls the server back when a user has lost the last
  session. The model composes them in the same way: the record \<open>exchange\<close> of \<open>Http_Server\<close> holds the
  state of all services, and a handler is a function on it.

  \<^bold>\<open>Conventions.\<close> A table is a list of rows (\<open>Prelude\<close>). A reading operation gives a sum, \<open>Inl\<close> of
  an error or \<open>Inr\<close> of a value; a writing one gives that and the new database; a transaction is one
  step. A Go string is a \<open>string\<close> of bytes and its runes are decoded where the code does
  (\<open>Go_Text\<close>); an identifier is a \<open>128 word\<close>, a set of permissions a \<open>64 word\<close> with its 32-bit column,
  an instant the nanoseconds since Go's zero time as an \<open>int\<close>. Draws of generators and readings of
  clocks are arguments; a generator that fails is \<open>None\<close>.

  \<^bold>\<open>Theories and sources.\<close>
  \<^item> \<open>Prelude\<close>, \<open>Go_Text\<close>, \<open>Decimal\<close>, \<open>Base64\<close>, \<open>Base64_Padded\<close>, \<open>Paging\<close>: tables, early returns, the
    functions of Go's library that the code uses on strings and numbers, keyset pages.
  \<^item> \<open>Access_Control\<close> (\<open>chat/permissions.go\<close>), \<open>Chat_Model\<close> (\<open>chat/model.go\<close>, the tables of
    \<open>migrations/\<close> with their cascades), \<open>Validation\<close> and \<open>Codec\<close> (validators, cursors, invite codes).
  \<^item> \<open>Roles\<close>, \<open>Members\<close>, \<open>Guilds\<close>, \<open>Channels\<close>, \<open>Messages\<close>, \<open>Attachments\<close>, \<open>Read_State\<close>: the files of the
    same names in \<open>chat/\<close> with their \<open>_postgres.go\<close>, presence and the janitor (\<open>media/janitor.go\<close>).
  \<^item> \<open>Gateway_Protocol\<close>, \<open>Gateway_Hub\<close>, \<open>Gateway_Conn\<close>: \<open>gateway/protocol.go\<close>, \<open>hub.go\<close>, \<open>service.go\<close>.
  \<^item> \<open>Auth_Model\<close>, \<open>Auth_Service\<close>, \<open>Password\<close>, \<open>Google\<close>: package \<open>auth\<close>.
  \<^item> \<open>Limiter\<close>, \<open>Voice\<close>, \<open>Http_Types\<close>, \<open>Http_Server\<close>, \<open>Http_Auth\<close>, \<open>Http_Chat\<close>, \<open>Http_Routes\<close>: packages
    \<open>voice\<close> and \<open>httpapi\<close>.
  \<^item> \<open>S3_Storage\<close> (\<open>media/s3.go\<close>), \<open>Mail\<close> (\<open>mail/mail.go\<close>), \<open>Config\<close> (\<open>config/config.go\<close>), \<open>Migrations\<close>
    (\<open>platform/postgres/postgres.go\<close>), \<open>Startup\<close> (\<open>cmd/server/main.go\<close>).

  \<^bold>\<open>What the lemmas show.\<close>
  \<^item> \<open>Guild_Inv\<close>, \<open>Role_Ranks\<close>, \<open>Text_Inv\<close>, \<open>Chat_Steps\<close>: the invariant \<open>chat_inv\<close> of the chat tables, and
    for each operation that it is kept; \<open>chat_step\<close> and \<open>chat_run\<close> are the runs of the service.
    \<open>Guild_Claims\<close>, \<open>Text_Claims\<close>, \<open>Chat_Claims\<close>, \<open>Read_Claims\<close> state ranks and permissions, outcomes of
    the operations, and pages and search.
  \<^item> \<open>Uploads\<close>: quotas, and the locales \<open>object_store\<close> and \<open>reliable_store\<close>, the contract of the
    storage under which no object is orphaned and the janitor catches up.
  \<^item> \<open>Gateway_Inv\<close>, \<open>Gateway_Publish\<close>, \<open>Gateway_Steps\<close>, \<open>Gateway_Server\<close>, \<open>Gateway_Claims\<close>: the invariant of
    the hub, publishing as one pointwise update, connections as a machine, replay after \<open>RESUME\<close>.
  \<^item> \<open>Auth_Inv\<close>, \<open>Auth_Steps\<close>, \<open>Auth_Claims\<close>, \<open>Google_Claims\<close>: the invariant of accounts and tokens; the
    locale \<open>auth_relation\<close> lifts any reflexive and transitive relation that the statements respect to
    all operations, and is interpreted for the order of sessions and for the growth of accounts.
  \<^item> \<open>Voice_Claims\<close>: the locale \<open>voice_channels\<close> is what voice needs of the chat service, interpreted on
    \<open>AuthorizeVoice\<close>; notifications replay to the entries.
  \<^item> \<open>Http_Steps\<close>, \<open>Http_Moves\<close>, \<open>Http_Claims\<close>: every handler moves the services by their own operations
    only, so all invariants hold of the running server; refusals without a token.
  \<^item> \<open>S3_Claims\<close>, \<open>S3_Store\<close>, \<open>Startup_Claims\<close>, and the ends of \<open>Limiter\<close>, \<open>Mail\<close> and \<open>Migrations\<close>: what a signed URL
    binds, that the signed storage meets the contract of \<open>object_store\<close>, when the process starts and that
    the server it starts keeps all invariants, limits, mails, and migrations that resume.

  \<^bold>\<open>Bounds and fuel.\<close> No definition needs fuel: loops are structural recursions or come with a
  measure. A walk over pages takes a bound on the number of requests; the claims show that the pages
  the rows fill (\<open>\<lceil>rows / limit\<rceil>\<close>) are enough. \<open>Run\<close> and \<open>sweepGateway\<close> are given the list of the ticks
  that come before the context ends.

  \<^bold>\<open>Parameters.\<close> JSON, SHA-256, HMAC, argon2, RSA, \<open>url.Parse\<close>, \<open>net/mail\<close>, \<open>mime\<close>, Unicode tables beyond
  white space, the two requests to Google, LiveKit, the object store behind its HTTP interface, the
  SMTP connection, \<open>ILIKE\<close> on two characters, what a migration file does, and one floating point
  product. Where a claim relies on one of them its hypothesis names the documented behaviour.

  \<^bold>\<open>Not modelled.\<close>
  \<^item> Failures of the driver and of the network between statements: a statement succeeds, or fails with
    the constraint that it violates. Instants lose no precision in the database, and the order of
    emoji is that of bytes.
  \<^item> Requests and the calls of services are served one at a time; the mutexes and transactions of the
    code are why a step is atomic. \<open>UpdateMember\<close> runs two transactions, and voice requests may run
    while \<open>UpdateState\<close> waits; both are modelled as the code has them.
  \<^item> The iteration order of Go's maps, where nothing depends on it; \<open>time.Unix\<close> past its range.
  \<^item> Logs, the audit log, the header \<open>Allow\<close> of a \<open>405\<close>, \<open>recoverPanic\<close> beyond the one panic of the
    model, and the hash that equalises the time of failed logins.
  \<^item> The key cache of Google inside the HTTP layer: the outcome of the exchange is part of the
    environment of a request there; \<open>Google\<close> has the cache.
  \<^item> Listening, signals, deadlines and the orderly shutdown, the connection pool (\<open>postgres.Open\<close>) and
    the advisory lock of the migrations, which only call \<open>net/http\<close> and the driver.
\<close>

end
